(* ===== verification/Prelude.thy ===== *)
theory Prelude
  imports Main "HOL-Library.AList"
begin

text \<open>
  What every component of the model shares: the error values a build step can end with, the
  result type and its sequencing operator, JavaScript's \<open>Map\<close> as an association list behind a
  locale that states what the code relies on, and the collections of rewrite rules the
  component theories add to.
\<close>

section \<open>Errors and results\<close>

text \<open>
  \<open>src/src/build/errors.js\<close>: a \<open>ParamTypeError\<close> or \<open>ParamRangeError\<close> is a caller-input rejection
  (JSON-RPC -32602), an \<open>OperationalError\<close> carries a stable code (-32010), and a plain
  \<open>Error\<close> is an internal fault (-32603). The string of the parameter and internal errors names
  the check that raised it (a prefix of the message, without the interpolated values); the string
  of an operational error is its \<open>xchainCode\<close>, exactly.
\<close>

datatype err =
    ParamTypeError string
  | ParamRangeError string
  | OperationalError string
  | InternalError string

type_synonym 'a result = "err + 'a"

text \<open>Whether an error is an encoder-authored caller-input rejection.\<close>

fun isInvalidParams :: "err \<Rightarrow> bool" where
  "isInvalidParams (ParamTypeError _) = True"
| "isInvalidParams (ParamRangeError _) = True"
| "isInvalidParams (OperationalError _) = False"
| "isInvalidParams (InternalError _) = False"

text \<open>Sequencing: an exception skips the rest of the function.\<close>

fun andThen :: "'a result \<Rightarrow> ('a \<Rightarrow> 'b result) \<Rightarrow> 'b result" where
  "andThen (Inl e) f = Inl e"
| "andThen (Inr x) f = f x"

abbreviation ok :: "'a \<Rightarrow> 'a result" where "ok \<equiv> Inr"
abbreviation throw :: "err \<Rightarrow> 'a result" where "throw \<equiv> Inl"

text \<open>A guard: throw when the condition holds, go on otherwise.\<close>

definition refuseIf :: "bool \<Rightarrow> err \<Rightarrow> unit result" where
  "refuseIf b e = (if b then throw e else ok ())"

named_theorems result_simps "rewrite rules for sequenced checks"

lemma andThen_Inr_iff [result_simps]:
  "andThen m f = Inr y \<longleftrightarrow> (\<exists>x. m = Inr x \<and> f x = Inr y)"
  by (cases m) auto

lemma andThen_Inl_iff [result_simps]:
  "andThen m f = Inl e \<longleftrightarrow> m = Inl e \<or> (\<exists>x. m = Inr x \<and> f x = Inl e)"
  by (cases m) auto

lemma refuseIf_Inr_iff [result_simps]: "refuseIf b e = Inr u \<longleftrightarrow> \<not> b"
  by (auto simp: refuseIf_def)

lemma refuseIf_Inl_iff [result_simps]: "refuseIf b e = Inl e' \<longleftrightarrow> b \<and> e' = e"
  by (auto simp: refuseIf_def)

lemma refuseIf_simps [simp]: "refuseIf True e = Inl e" "refuseIf False e = Inr ()"
  by (simp_all add: refuseIf_def)

text \<open>A \<open>for\<close> loop over a list whose body may throw: the first exception ends it.\<close>

fun forEach :: "('a \<Rightarrow> 'b result) \<Rightarrow> 'a list \<Rightarrow> 'b list result" where
  "forEach f [] = ok []"
| "forEach f (x # xs) = andThen (f x) (\<lambda>y. andThen (forEach f xs) (\<lambda>ys. ok (y # ys)))"

lemma forEach_Inr_iff [result_simps]:
  "forEach f xs = Inr ys \<longleftrightarrow> list_all2 (\<lambda>x y. f x = Inr y) xs ys"
  by (induction xs arbitrary: ys) (auto simp: result_simps list_all2_Cons1)

lemma forEach_Inr_set: "forEach f xs = Inr ys \<Longrightarrow> x \<in> set xs \<Longrightarrow> \<exists>y \<in> set ys. f x = Inr y"
  by (auto simp: forEach_Inr_iff list_all2_conv_all_nth in_set_conv_nth)

lemma forEach_Inr_set': "forEach f xs = Inr ys \<Longrightarrow> y \<in> set ys \<Longrightarrow> \<exists>x \<in> set xs. f x = Inr y"
  by (auto simp: forEach_Inr_iff list_all2_conv_all_nth in_set_conv_nth intro!: bexI [OF _ nth_mem])

lemma forEach_Inr_length: "forEach f xs = Inr ys \<Longrightarrow> length ys = length xs"
  by (simp add: forEach_Inr_iff list_all2_lengthD)

section \<open>JavaScript maps\<close>

text \<open>
  A JavaScript \<open>Map\<close> keeps its entries in insertion order and at most one entry per key:
  \<open>set\<close> overwrites in place or appends, \<open>delete\<close> removes, and a \<open>for .. of\<close> loop that deletes the
  entries failing a test leaves the others where they were.
\<close>

type_synonym ('k, 'v) jmap = "('k \<times> 'v) list"

abbreviation jm_empty :: "('k, 'v) jmap" where "jm_empty \<equiv> []"

definition jm_get :: "('k, 'v) jmap \<Rightarrow> 'k \<Rightarrow> 'v option" where
  "jm_get m k = map_of m k"

definition jm_set :: "'k \<Rightarrow> 'v \<Rightarrow> ('k, 'v) jmap \<Rightarrow> ('k, 'v) jmap" where
  "jm_set k v m = AList.update k v m"

definition jm_delete :: "'k \<Rightarrow> ('k, 'v) jmap \<Rightarrow> ('k, 'v) jmap" where
  "jm_delete k m = AList.delete k m"

definition jm_keep :: "('v \<Rightarrow> bool) \<Rightarrow> ('k, 'v) jmap \<Rightarrow> ('k, 'v) jmap" where
  "jm_keep P m = filter (\<lambda>(k, v). P v) m"

definition jm_wf :: "('k, 'v) jmap \<Rightarrow> bool" where
  "jm_wf m \<longleftrightarrow> distinct (map fst m)"

text \<open>What the code relies on, as an interface.\<close>

locale js_map =
  fixes get :: "'m \<Rightarrow> 'k \<Rightarrow> 'v option"
    and put :: "'k \<Rightarrow> 'v \<Rightarrow> 'm \<Rightarrow> 'm"
    and del :: "'k \<Rightarrow> 'm \<Rightarrow> 'm"
    and keep :: "('v \<Rightarrow> bool) \<Rightarrow> 'm \<Rightarrow> 'm"
    and none :: "'m"
    and wf :: "'m \<Rightarrow> bool"
  assumes get_none: "get none k = None"
    and get_put: "get (put k v m) k' = (if k' = k then Some v else get m k')"
    and get_del: "get (del k m) k' = (if k' = k then None else get m k')"
    and get_keep: "wf m \<Longrightarrow> get (keep P m) k = (case get m k of None \<Rightarrow> None
                      | Some v \<Rightarrow> if P v then Some v else None)"
    and wf_none: "wf none"
    and wf_put: "wf m \<Longrightarrow> wf (put k v m)"
    and wf_del: "wf m \<Longrightarrow> wf (del k m)"
    and wf_keep: "wf m \<Longrightarrow> wf (keep P m)"
begin

lemma get_put_same: "get (put k v m) k = Some v"
  by (simp add: get_put)

lemma get_put_other: "k' \<noteq> k \<Longrightarrow> get (put k v m) k' = get m k'"
  by (simp add: get_put)

lemma get_del_same: "get (del k m) k = None"
  by (simp add: get_del)

lemma get_del_other: "k' \<noteq> k \<Longrightarrow> get (del k m) k' = get m k'"
  by (simp add: get_del)

lemma get_keep_Some: "wf m \<Longrightarrow> get (keep P m) k = Some v \<longleftrightarrow> get m k = Some v \<and> P v"
  by (auto simp: get_keep split: option.splits)

end

lemma map_of_filter_snd:
  "distinct (map fst m) \<Longrightarrow> map_of (filter (\<lambda>(k, v). P v) m) k =
     (case map_of m k of None \<Rightarrow> None | Some v \<Rightarrow> if P v then Some v else None)"
proof (induction m)
  case Nil
  then show ?case by simp
next
  case (Cons a m)
  obtain k' v' where a: "a = (k', v')" by (cases a)
  from Cons.prems have "k' \<notin> fst ` set m" by (simp add: a)
  then have "map_of m k' = None" by (simp add: map_of_eq_None_iff)
  with Cons show ?case by (auto simp: a split: option.splits)
qed

lemma distinct_map_filter_fst: "distinct (map fst m) \<Longrightarrow> distinct (map fst (filter P m))"
  by (simp add: distinct_map_filter)

interpretation jm: js_map jm_get jm_set jm_delete jm_keep jm_empty jm_wf
  by unfold_locales
    (auto simp: jm_get_def jm_set_def jm_delete_def jm_keep_def jm_wf_def update_conv' delete_conv'
      map_of_filter_snd distinct_update distinct_delete distinct_map_filter_fst)

subsection \<open>Maps of expiry times\<close>

text \<open>
  Every map of the double-spend guard holds, per key, an epoch-millisecond expiry: an entry is
  live while the expiry is later than the clock, and a sweep drops the rest.
\<close>

locale expiry_map = js_map get put del keep none wf
  for get :: "'m \<Rightarrow> 'k \<Rightarrow> int option"
    and put :: "'k \<Rightarrow> int \<Rightarrow> 'm \<Rightarrow> 'm"
    and del :: "'k \<Rightarrow> 'm \<Rightarrow> 'm"
    and keep :: "(int \<Rightarrow> bool) \<Rightarrow> 'm \<Rightarrow> 'm"
    and none :: "'m"
    and wf :: "'m \<Rightarrow> bool"
begin

definition live :: "int \<Rightarrow> 'm \<Rightarrow> 'k \<Rightarrow> bool" where
  "live now m k \<longleftrightarrow> (case get m k of None \<Rightarrow> False | Some e \<Rightarrow> now < e)"

lemma live_put: "live now (put k e m) k' \<longleftrightarrow> (if k' = k then now < e else live now m k')"
  by (simp add: live_def get_put)

lemma live_del: "live now (del k m) k' \<longleftrightarrow> k' \<noteq> k \<and> live now m k'"
  by (simp add: live_def get_del)

lemma live_sweep: "wf m \<Longrightarrow> live now (keep (\<lambda>e. now < e) m) k \<longleftrightarrow> live now m k"
  by (auto simp: live_def get_keep split: option.splits)

lemma sweep_keeps_live: "wf m \<Longrightarrow> get m k = Some e \<Longrightarrow> now < e \<Longrightarrow>
    get (keep (\<lambda>e. now < e) m) k = Some e"
  by (simp add: get_keep)

lemma sweep_only_live: "wf m \<Longrightarrow> get (keep (\<lambda>e. now < e) m) k = Some e \<Longrightarrow> get m k = Some e \<and> now < e"
  by (simp add: get_keep_Some)

lemma live_antimono: "live now' m k \<Longrightarrow> now \<le> now' \<Longrightarrow> live now m k"
  by (auto simp: live_def split: option.splits)

end

interpretation ttl: expiry_map jm_get jm_set jm_delete jm_keep jm_empty jm_wf ..

section \<open>Decimal digits and letter case\<close>

text \<open>\<open>String(n)\<close> of a non-negative integer, and reading it back.\<close>

definition digitChar :: "nat \<Rightarrow> char" where
  "digitChar d = char_of (48 + d)"

definition charDigit :: "char \<Rightarrow> nat" where
  "charDigit c = of_char c - 48"

fun decimal :: "nat \<Rightarrow> string" where
  "decimal n = (if n < 10 then [digitChar n] else decimal (n div 10) @ [digitChar (n mod 10)])"

declare decimal.simps [simp del]

definition undecimal :: "string \<Rightarrow> nat" where
  "undecimal s = foldl (\<lambda>acc c. 10 * acc + charDigit c) 0 s"

lemma charDigit_digitChar [simp]: "d < 10 \<Longrightarrow> charDigit (digitChar d) = d"
  by (simp add: charDigit_def digitChar_def)

lemma undecimal_decimal [simp]: "undecimal (decimal n) = n"
proof (induction n rule: decimal.induct)
  case (1 n)
  show ?case
  proof (cases "n < 10")
    case True
    then show ?thesis by (subst decimal.simps) (simp add: undecimal_def)
  next
    case False
    with "1.IH" show ?thesis by (subst decimal.simps) (simp add: undecimal_def)
  qed
qed

lemma decimal_inj: "decimal m = decimal n \<longleftrightarrow> m = n"
  by (metis undecimal_decimal)

lemma digitChar_not_colon: "d < 10 \<Longrightarrow> digitChar d \<noteq> CHR '':''"
  by (auto simp: digitChar_def dest: arg_cong [where f = "of_char :: char \<Rightarrow> nat"])

lemma decimal_no_colon: "CHR '':'' \<notin> set (decimal n)"
proof (induction n rule: decimal.induct)
  case (1 n)
  then show ?case
    by (subst decimal.simps) (auto simp: digitChar_not_colon [symmetric] dest: digitChar_not_colon [symmetric])
qed

text \<open>\<open>toLowerCase\<close> of an ASCII string.\<close>

definition toLower :: "char \<Rightarrow> char" where
  "toLower c = (let n = of_char c :: nat in if 65 \<le> n \<and> n \<le> 90 then char_of (n + 32) else c)"

definition toLowerCase :: "string \<Rightarrow> string" where
  "toLowerCase s = map toLower s"

lemma toLower_idem [simp]: "toLower (toLower c) = toLower c"
  by (simp add: toLower_def Let_def)

lemma toLowerCase_idem [simp]: "toLowerCase (toLowerCase s) = toLowerCase s"
  by (simp add: toLowerCase_def)

end
