(* ===== verification/Reservations.thy ===== *)
theory Reservations
  imports Prelude
begin

text \<open>
  The double-spend guard: \<open>src/src/XChainEncoder/outpoint_reservations.js\<close>, the maps
  \<open>initReservationMaps\<close> of \<open>src/src/XChainEncoder.js\<close> creates, the claim an envelope cancel takes
  (\<open>claimCommitOutpoint\<close> of \<open>envelope_cancel.js\<close>) and the two public entry points' handling of a
  call's ledger. Each operation takes and returns the guard; \<open>Date.now()\<close>, the random ids and the
  txid bitcoinjs computes are arguments.
\<close>

section \<open>State\<close>

text \<open>One claim of a call's ledger; \<open>claimOwner\<close> is \<open>cancelOwnerId\<close>, set by a cancel only.\<close>

record claim =
  claimKey :: string
  claimExpiry :: int
  claimOwner :: "string option"

text \<open>The ledger of one call: an array of claims carrying the \<open>buildTxid\<close> property.\<close>

record ledger =
  claims :: "claim list"
  buildTxid :: "string option"

record ticket =
  ticketClaims :: "claim list"
  ticketExpiry :: int
  ticketTxid :: "string option"
  ticketTxidExpiry :: "int option"

record receipt =
  receiptId :: string
  receiptOutpoints :: "string list"
  receiptExpiresAt :: int

record released =
  found :: bool
  releasedKeys :: "string list"
  retainedKeys :: "string list"

record guard =
  outpointReservations :: "(string, int) jmap"
  recentBuilds :: "(string, int) jmap"
  envelopeCancelClaims :: "(string, (string, int) jmap) jmap"
  reservationTickets :: "(string, ticket) jmap"

definition initReservationMaps :: guard where
  "initReservationMaps = \<lparr>outpointReservations = jm_empty, recentBuilds = jm_empty,
     envelopeCancelClaims = jm_empty, reservationTickets = jm_empty\<rparr>"

definition RESERVATION_TTL_MS :: int where
  "RESERVATION_TTL_MS = 5 * 60 * 1000"

text \<open>Canonical outpoint identity: the lowercased txid, a colon, the output index.\<close>

definition outpointKey :: "string \<Rightarrow> nat \<Rightarrow> string" where
  "outpointKey txid vout = toLowerCase txid @ '':'' @ decimal vout"

section \<open>Operations\<close>

definition evictExpiredRecentBuilds :: "int \<Rightarrow> guard \<Rightarrow> guard" where
  "evictExpiredRecentBuilds now g = g\<lparr>recentBuilds := jm_keep (\<lambda>e. now < e) (recentBuilds g)\<rparr>"

definition refuseDuplicateBuild :: "string \<Rightarrow> int \<Rightarrow> guard \<Rightarrow> guard \<times> string result" where
  "refuseDuplicateBuild txid now g =
     (let g = evictExpiredRecentBuilds now g
      in if jm_get (recentBuilds g) txid \<noteq> None
         then (g, throw (OperationalError ''DUPLICATE_TRANSACTION''))
         else (g\<lparr>recentBuilds := jm_set txid (now + RESERVATION_TTL_MS) (recentBuilds g)\<rparr>, ok txid))"

definition isOutpointReserved :: "string \<Rightarrow> int \<Rightarrow> guard \<Rightarrow> bool \<times> guard" where
  "isOutpointReserved key now g =
     (case jm_get (outpointReservations g) key of
        None \<Rightarrow> (False, g)
      | Some expiry \<Rightarrow>
          if expiry \<le> now
          then (False, g\<lparr>outpointReservations := jm_delete key (outpointReservations g)\<rparr>)
          else (True, g))"

definition reserveOutpoint :: "string \<Rightarrow> int \<Rightarrow> guard \<Rightarrow> int \<times> guard" where
  "reserveOutpoint key now g =
     (let expiry = now + RESERVATION_TTL_MS
      in (expiry, g\<lparr>outpointReservations := jm_set key expiry (outpointReservations g)\<rparr>))"

definition claimOutpoint :: "ledger \<Rightarrow> string \<Rightarrow> int \<Rightarrow> guard \<Rightarrow> ledger \<times> guard" where
  "claimOutpoint l key now g =
     (let (expiry, g) = reserveOutpoint key now g
      in (l\<lparr>claims := claims l @ [\<lparr>claimKey = key, claimExpiry = expiry, claimOwner = None\<rparr>]\<rparr>, g))"

fun releaseCallReservations :: "claim list \<Rightarrow> guard \<Rightarrow> guard" where
  "releaseCallReservations [] g = g"
| "releaseCallReservations (c # cs) g =
     releaseCallReservations cs
       (if jm_get (outpointReservations g) (claimKey c) = Some (claimExpiry c)
        then g\<lparr>outpointReservations := jm_delete (claimKey c) (outpointReservations g)\<rparr>
        else g)"

text \<open>The loop over the owners' expiries that keeps the largest live one.\<close>

fun maxLive :: "int \<Rightarrow> int list \<Rightarrow> int option \<Rightarrow> int option" where
  "maxLive now [] m = m"
| "maxLive now (e # es) m =
     maxLive now es (if now < e \<and> (case m of None \<Rightarrow> True | Some x \<Rightarrow> x < e) then Some e else m)"

definition maxLiveCancelOwnerExpiry :: "string \<Rightarrow> int \<Rightarrow> guard \<Rightarrow> int option" where
  "maxLiveCancelOwnerExpiry key now g =
     (case jm_get (envelopeCancelClaims g) key of
        None \<Rightarrow> None
      | Some owners \<Rightarrow> maxLive now (map snd owners) None)"

definition dropCancelOwner :: "string \<Rightarrow> string \<Rightarrow> int \<Rightarrow> guard \<Rightarrow> bool \<times> guard" where
  "dropCancelOwner key ownerId now g =
     (case jm_get (envelopeCancelClaims g) key of
        None \<Rightarrow> (False, g)
      | Some owners \<Rightarrow>
          let g1 = g\<lparr>envelopeCancelClaims :=
                       jm_set key (jm_delete ownerId owners) (envelopeCancelClaims g)\<rparr>
          in case maxLiveCancelOwnerExpiry key now g1 of
               None \<Rightarrow> (False, g1\<lparr>envelopeCancelClaims := jm_delete key (envelopeCancelClaims g1)\<rparr>)
             | Some remaining \<Rightarrow>
                 (True, g1\<lparr>outpointReservations := jm_set key remaining (outpointReservations g1)\<rparr>))"

text \<open>First pass: retire the owner tokens, collecting the claims no other cancel still holds.\<close>

fun dropOwners :: "claim list \<Rightarrow> int \<Rightarrow> guard \<Rightarrow> claim list \<times> guard" where
  "dropOwners [] now g = ([], g)"
| "dropOwners (c # cs) now g =
     (case claimOwner c of
        None \<Rightarrow> (let (hb, g') = dropOwners cs now g in (c # hb, g'))
      | Some i \<Rightarrow>
          let (held, g1) = dropCancelOwner (claimKey c) i now g;
              (hb, g') = dropOwners cs now g1
          in (if held then hb else c # hb, g'))"

definition releaseEnvelopeCancelClaims :: "claim list \<Rightarrow> int \<Rightarrow> guard \<Rightarrow> guard" where
  "releaseEnvelopeCancelClaims cs now g =
     (let (handBack, g1) = dropOwners cs now g in releaseCallReservations handBack g1)"

definition evictExpiredEnvelopeCancelClaims :: "int \<Rightarrow> guard \<Rightarrow> guard" where
  "evictExpiredEnvelopeCancelClaims now g =
     g\<lparr>envelopeCancelClaims :=
         jm_keep (\<lambda>owners. owners \<noteq> [])
           (map (\<lambda>(k, owners). (k, jm_keep (\<lambda>e. now < e) owners)) (envelopeCancelClaims g))\<rparr>"

definition evictExpiredReservations :: "int \<Rightarrow> guard \<Rightarrow> guard" where
  "evictExpiredReservations now g =
     g\<lparr>outpointReservations := jm_keep (\<lambda>e. now < e) (outpointReservations g)\<rparr>"

definition evictExpiredReservationTickets :: "int \<Rightarrow> guard \<Rightarrow> guard" where
  "evictExpiredReservationTickets now g =
     g\<lparr>reservationTickets := jm_keep (\<lambda>t. now < ticketExpiry t) (reservationTickets g)\<rparr>"

text \<open>\<open>x || null\<close> of a stored expiry: a zero reads as absent.\<close>

definition orNull :: "int option \<Rightarrow> int option" where
  "orNull x = (if x = Some 0 then None else x)"

definition mintReservationTicket ::
  "ledger \<Rightarrow> int \<Rightarrow> string \<Rightarrow> guard \<Rightarrow> receipt option \<times> guard" where
  "mintReservationTicket l now newId g =
     (let g = evictExpiredReservationTickets now g;
          live = filter (\<lambda>c. jm_get (outpointReservations g) (claimKey c) = Some (claimExpiry c)) (claims l)
      in if live = [] then (None, g)
         else let expiry = foldl (\<lambda>m c. if m < claimExpiry c then claimExpiry c else m) 0 live;
                  txid = buildTxid l;
                  t = \<lparr>ticketClaims = live, ticketExpiry = expiry, ticketTxid = txid,
                       ticketTxidExpiry = (case txid of None \<Rightarrow> None
                                           | Some x \<Rightarrow> orNull (jm_get (recentBuilds g) x))\<rparr>
              in (Some \<lparr>receiptId = newId, receiptOutpoints = map claimKey live, receiptExpiresAt = expiry\<rparr>,
                  g\<lparr>reservationTickets := jm_set newId t (reservationTickets g)\<rparr>))"

text \<open>The loop of \<open>releaseReservation\<close> over the ticket's claims.\<close>

fun releaseClaims :: "claim list \<Rightarrow> int \<Rightarrow> guard \<Rightarrow> (string list \<times> string list) \<times> guard" where
  "releaseClaims [] now g = (([], []), g)"
| "releaseClaims (c # cs) now g =
     (let (held, g1) = (case claimOwner c of None \<Rightarrow> (False, g)
                        | Some i \<Rightarrow> dropCancelOwner (claimKey c) i now g);
          free = (\<not> held \<and> jm_get (outpointReservations g1) (claimKey c) = Some (claimExpiry c));
          g2 = (if free then g1\<lparr>outpointReservations := jm_delete (claimKey c) (outpointReservations g1)\<rparr>
                else g1);
          ((rel, ret), g3) = releaseClaims cs now g2
      in ((if free then (claimKey c # rel, ret) else (rel, claimKey c # ret)), g3))"

text \<open>\<open>/^[0-9a-f]{32}$/\<close>\<close>

definition isLowerHex :: "char \<Rightarrow> bool" where
  "isLowerHex c = (let n = of_char c :: nat in (48 \<le> n \<and> n \<le> 57) \<or> (97 \<le> n \<and> n \<le> 102))"

definition isReservationId :: "string \<Rightarrow> bool" where
  "isReservationId s = (length s = 32 \<and> list_all isLowerHex s)"

definition sweepAll :: "int \<Rightarrow> guard \<Rightarrow> guard" where
  "sweepAll now g = evictExpiredReservationTickets now (evictExpiredRecentBuilds now
     (evictExpiredEnvelopeCancelClaims now (evictExpiredReservations now g)))"

definition retireRecentBuild :: "ticket \<Rightarrow> guard \<Rightarrow> guard" where
  "retireRecentBuild t g =
     (case (ticketTxid t, ticketTxidExpiry t) of
        (Some txid, Some e) \<Rightarrow>
          if jm_get (recentBuilds g) txid = Some e
          then g\<lparr>recentBuilds := jm_delete txid (recentBuilds g)\<rparr> else g
      | _ \<Rightarrow> g)"

definition releaseReservation :: "string \<Rightarrow> int \<Rightarrow> guard \<Rightarrow> guard \<times> released result" where
  "releaseReservation rid now g =
     (if \<not> isReservationId rid
      then (g, throw (ParamTypeError ''reservationId must be a 32-character lowercase hex string''))
      else
        let g = sweepAll now g
        in case jm_get (reservationTickets g) rid of
             None \<Rightarrow> (g, ok \<lparr>found = False, releasedKeys = [], retainedKeys = []\<rparr>)
           | Some t \<Rightarrow>
               let g1 = g\<lparr>reservationTickets := jm_delete rid (reservationTickets g)\<rparr>;
                   ((rel, ret), g2) = releaseClaims (ticketClaims t) now g1
               in (retireRecentBuild t g2,
                   ok \<lparr>found = True, releasedKeys = rel, retainedKeys = ret\<rparr>))"

definition clearReservations :: "guard \<Rightarrow> guard" where
  "clearReservations g = g\<lparr>outpointReservations := jm_empty, recentBuilds := jm_empty,
     envelopeCancelClaims := jm_empty, reservationTickets := jm_empty\<rparr>"

text \<open>\<open>claimCommitOutpoint\<close>: the claim of an envelope cancel on the commit outpoint.\<close>

definition claimCommitOutpoint ::
  "ledger \<Rightarrow> string \<Rightarrow> nat \<Rightarrow> int \<Rightarrow> string \<Rightarrow> guard \<Rightarrow> guard \<times> ledger result" where
  "claimCommitOutpoint l txid vout now ownerId g =
     (let key = outpointKey txid vout;
          g = evictExpiredEnvelopeCancelClaims now (evictExpiredReservations now g);
          (reserved, g) = isOutpointReserved key now g
      in if reserved \<and> maxLiveCancelOwnerExpiry key now g \<noteq> jm_get (outpointReservations g) key
         then (g, throw (OperationalError ''ENVELOPE_CANCEL_OUTPOINT_RESERVED''))
         else
           let (l1, g1) = claimOutpoint l key now g;
               expiry = now + RESERVATION_TTL_MS;
               l2 = l1\<lparr>claims := butlast (claims l1) @ [(last (claims l1))\<lparr>claimOwner := Some ownerId\<rparr>]\<rparr>;
               owners = (case jm_get (envelopeCancelClaims g1) key of None \<Rightarrow> jm_empty | Some m \<Rightarrow> m)
           in (g1\<lparr>envelopeCancelClaims := jm_set key (jm_set ownerId expiry owners) (envelopeCancelClaims g1)\<rparr>,
               ok l2))"

text \<open>
  The public entry points own the ledger: a failed build releases it, a successful one gets a
  receipt for the claims it kept. The build is an argument: it runs from the guard to its
  outcome, leaving the ledger it filled.
\<close>

definition createTransaction ::
  "(guard \<Rightarrow> (guard \<times> ledger) \<times> 'r result) \<Rightarrow> int \<Rightarrow> string \<Rightarrow> guard \<Rightarrow> guard \<times> ('r \<times> receipt option) result" where
  "createTransaction build now newId g =
     (case build g of
        ((g1, l), Inl e) \<Rightarrow> (releaseCallReservations (claims l) g1, throw e)
      | ((g1, l), Inr r) \<Rightarrow> (let (rc, g2) = mintReservationTicket l now newId g1 in (g2, ok (r, rc))))"

definition createEnvelopeCancelTransaction ::
  "(guard \<Rightarrow> (guard \<times> ledger) \<times> 'r result) \<Rightarrow> int \<Rightarrow> string \<Rightarrow> guard \<Rightarrow> guard \<times> ('r \<times> receipt option) result" where
  "createEnvelopeCancelTransaction build now newId g =
     (case build g of
        ((g1, l), Inl e) \<Rightarrow> (releaseEnvelopeCancelClaims (claims l) now g1, throw e)
      | ((g1, l), Inr r) \<Rightarrow> (let (rc, g2) = mintReservationTicket l now newId g1 in (g2, ok (r, rc))))"

end
