(* ===== verification/ReservationFacts.thy ===== *)
theory ReservationFacts
  imports Reservations
begin

text \<open>
  What each operation of the double-spend guard does to the four maps, and the functional
  properties of single calls: release of a ledger, the duplicate-build window, explicit release
  of a ticket.
\<close>

section \<open>Well-formed guards\<close>

definition guard_wf :: "guard \<Rightarrow> bool" where
  "guard_wf g \<longleftrightarrow> jm_wf (outpointReservations g) \<and> jm_wf (recentBuilds g) \<and>
     jm_wf (envelopeCancelClaims g) \<and> jm_wf (reservationTickets g) \<and>
     (\<forall>k owners. jm_get (envelopeCancelClaims g) k = Some owners \<longrightarrow> jm_wf owners)"

abbreviation resv :: "guard \<Rightarrow> string \<Rightarrow> int option" where
  "resv g k \<equiv> jm_get (outpointReservations g) k"

text \<open>The live owner tokens of an outpoint, as a finite map.\<close>

definition token :: "guard \<Rightarrow> string \<Rightarrow> string \<Rightarrow> int option" where
  "token g k i = (case jm_get (envelopeCancelClaims g) k of None \<Rightarrow> None | Some owners \<Rightarrow> jm_get owners i)"

named_theorems guard_simps "what an operation does to the maps"

lemmas [guard_simps] = jm.get_put jm.get_del

lemma initReservationMaps_wf: "guard_wf initReservationMaps"
  by (simp add: guard_wf_def initReservationMaps_def jm_wf_def jm_get_def)

section \<open>Sweeps\<close>

lemma resv_evictExpiredReservations [guard_simps]:
  "guard_wf g \<Longrightarrow> resv (evictExpiredReservations now g) k =
     (case resv g k of None \<Rightarrow> None | Some e \<Rightarrow> if now < e then Some e else None)"
  by (simp add: evictExpiredReservations_def jm.get_keep guard_wf_def)

lemma map_of_map_val: "map_of (map (\<lambda>(k, v). (k, f v)) m) k = map_option f (map_of m k)"
  by (induction m) auto

lemma jm_wf_map_val: "jm_wf m \<Longrightarrow> jm_wf (map (\<lambda>(k, v). (k, f v)) m)"
  by (simp add: jm_wf_def comp_def case_prod_beta')

lemma get_evictCancel:
  "guard_wf g \<Longrightarrow> jm_get (envelopeCancelClaims (evictExpiredEnvelopeCancelClaims now g)) k =
     (case jm_get (envelopeCancelClaims g) k of None \<Rightarrow> None
      | Some owners \<Rightarrow> if jm_keep (\<lambda>e. now < e) owners \<noteq> [] then Some (jm_keep (\<lambda>e. now < e) owners) else None)"
proof -
  assume "guard_wf g"
  then have "jm_wf (map (\<lambda>(k, owners). (k, jm_keep ((<) now) owners)) (envelopeCancelClaims g))"
    by (intro jm_wf_map_val) (simp add: guard_wf_def)
  then show ?thesis
    by (auto simp: evictExpiredEnvelopeCancelClaims_def jm.get_keep, auto simp: jm_get_def map_of_map_val
        split: option.splits)
qed

lemma token_evictCancel [guard_simps]:
  "guard_wf g \<Longrightarrow> token (evictExpiredEnvelopeCancelClaims now g) k i =
     (case token g k i of None \<Rightarrow> None | Some e \<Rightarrow> if now < e then Some e else None)"
proof -
  assume wf: "guard_wf g"
  show ?thesis
  proof (cases "jm_get (envelopeCancelClaims g) k")
    case None
    then show ?thesis by (simp add: token_def get_evictCancel [OF wf])
  next
    case (Some owners)
    then have w: "jm_wf owners" using wf by (auto simp: guard_wf_def)
    have "jm_get (jm_keep (\<lambda>e. now < e) owners) i =
        (case jm_get owners i of None \<Rightarrow> None | Some e \<Rightarrow> if now < e then Some e else None)"
      by (rule jm.get_keep [OF w])
    moreover have "jm_keep (\<lambda>e. now < e) owners = [] \<Longrightarrow> jm_get (jm_keep (\<lambda>e. now < e) owners) i = None"
      by (simp add: jm.get_none)
    ultimately show ?thesis
      by (cases "jm_keep (\<lambda>e. now < e) owners = []") (simp_all add: token_def get_evictCancel [OF wf] Some)
  qed
qed

lemma evict_frames [simp]:
  "envelopeCancelClaims (evictExpiredReservations now g) = envelopeCancelClaims g"
  "recentBuilds (evictExpiredReservations now g) = recentBuilds g"
  "reservationTickets (evictExpiredReservations now g) = reservationTickets g"
  "outpointReservations (evictExpiredEnvelopeCancelClaims now g) = outpointReservations g"
  "recentBuilds (evictExpiredEnvelopeCancelClaims now g) = recentBuilds g"
  "reservationTickets (evictExpiredEnvelopeCancelClaims now g) = reservationTickets g"
  "outpointReservations (evictExpiredRecentBuilds now g) = outpointReservations g"
  "envelopeCancelClaims (evictExpiredRecentBuilds now g) = envelopeCancelClaims g"
  "reservationTickets (evictExpiredRecentBuilds now g) = reservationTickets g"
  "outpointReservations (evictExpiredReservationTickets now g) = outpointReservations g"
  "envelopeCancelClaims (evictExpiredReservationTickets now g) = envelopeCancelClaims g"
  "recentBuilds (evictExpiredReservationTickets now g) = recentBuilds g"
  by (simp_all add: evictExpiredReservations_def evictExpiredEnvelopeCancelClaims_def
      evictExpiredRecentBuilds_def evictExpiredReservationTickets_def)

lemma evict_wf [intro]:
  assumes "guard_wf g"
  shows "guard_wf (evictExpiredReservations now g)" "guard_wf (evictExpiredEnvelopeCancelClaims now g)"
    "guard_wf (evictExpiredRecentBuilds now g)" "guard_wf (evictExpiredReservationTickets now g)"
proof -
  note w = assms [unfolded guard_wf_def]
  show "guard_wf (evictExpiredReservations now g)" "guard_wf (evictExpiredRecentBuilds now g)"
    "guard_wf (evictExpiredReservationTickets now g)"
    using w by (auto simp: guard_wf_def evictExpiredReservations_def evictExpiredRecentBuilds_def
        evictExpiredReservationTickets_def intro: jm.wf_keep)
  have "jm_wf (envelopeCancelClaims (evictExpiredEnvelopeCancelClaims now g))"
    using w by (auto simp: evictExpiredEnvelopeCancelClaims_def intro: jm.wf_keep jm_wf_map_val)
  then show "guard_wf (evictExpiredEnvelopeCancelClaims now g)"
    using w by (auto simp: guard_wf_def get_evictCancel [OF assms] intro: jm.wf_keep
        split: option.splits if_splits)
qed

lemma sweepAll_wf [intro]: "guard_wf g \<Longrightarrow> guard_wf (sweepAll now g)"
  by (auto simp: sweepAll_def)

lemma token_cong: "envelopeCancelClaims g = envelopeCancelClaims g' \<Longrightarrow> token g = token g'"
  by (simp add: token_def fun_eq_iff)

lemma sweepAll_fields [guard_simps]:
  assumes "guard_wf g"
  shows "resv (sweepAll now g) k = (case resv g k of None \<Rightarrow> None | Some e \<Rightarrow> if now < e then Some e else None)"
    "token (sweepAll now g) k i = (case token g k i of None \<Rightarrow> None | Some e \<Rightarrow> if now < e then Some e else None)"
    "jm_get (reservationTickets (sweepAll now g)) r = (case jm_get (reservationTickets g) r of None \<Rightarrow> None
       | Some t \<Rightarrow> if now < ticketExpiry t then Some t else None)"
    "jm_get (recentBuilds (sweepAll now g)) x = (case jm_get (recentBuilds g) x of None \<Rightarrow> None
       | Some e \<Rightarrow> if now < e then Some e else None)"
proof -
  have w: "guard_wf (evictExpiredReservations now g)" using assms by blast
  have t: "token (sweepAll now g) k i = token (evictExpiredEnvelopeCancelClaims now (evictExpiredReservations now g)) k i"
    by (simp add: sweepAll_def token_def)
  show "resv (sweepAll now g) k = (case resv g k of None \<Rightarrow> None | Some e \<Rightarrow> if now < e then Some e else None)"
    by (simp add: sweepAll_def resv_evictExpiredReservations [OF assms])
  show "token (sweepAll now g) k i = (case token g k i of None \<Rightarrow> None | Some e \<Rightarrow> if now < e then Some e else None)"
    unfolding t token_evictCancel [OF w] by (simp add: token_def)
  show "jm_get (reservationTickets (sweepAll now g)) r = (case jm_get (reservationTickets g) r of None \<Rightarrow> None
       | Some t \<Rightarrow> if now < ticketExpiry t then Some t else None)"
    using assms by (simp add: sweepAll_def evictExpiredReservationTickets_def jm.get_keep guard_wf_def)
  show "jm_get (recentBuilds (sweepAll now g)) x = (case jm_get (recentBuilds g) x of None \<Rightarrow> None
       | Some e \<Rightarrow> if now < e then Some e else None)"
    using assms by (simp add: sweepAll_def evictExpiredRecentBuilds_def jm.get_keep guard_wf_def)
qed

section \<open>Claims\<close>

lemma isOutpointReserved_iff: "fst (isOutpointReserved k now g) \<longleftrightarrow> ttl.live now (outpointReservations g) k"
  by (auto simp: isOutpointReserved_def ttl.live_def split: option.splits)

lemma isOutpointReserved_frame:
  "envelopeCancelClaims (snd (isOutpointReserved k now g)) = envelopeCancelClaims g"
  "recentBuilds (snd (isOutpointReserved k now g)) = recentBuilds g"
  "reservationTickets (snd (isOutpointReserved k now g)) = reservationTickets g"
  by (auto simp: isOutpointReserved_def split: option.splits)

lemma resv_isOutpointReserved:
  "resv (snd (isOutpointReserved k now g)) k' =
     (if k' = k \<and> \<not> fst (isOutpointReserved k now g) then None else resv g k')"
  by (auto simp: isOutpointReserved_def guard_simps split: option.splits)

lemma isOutpointReserved_wf [intro]: "guard_wf g \<Longrightarrow> guard_wf (snd (isOutpointReserved k now g))"
  by (auto simp: isOutpointReserved_def guard_wf_def intro: jm.wf_del split: option.splits)

lemma claimOutpoint_simps [guard_simps]:
  "claims (fst (claimOutpoint l k now g)) =
     claims l @ [\<lparr>claimKey = k, claimExpiry = now + RESERVATION_TTL_MS, claimOwner = None\<rparr>]"
  "buildTxid (fst (claimOutpoint l k now g)) = buildTxid l"
  "resv (snd (claimOutpoint l k now g)) k' = (if k' = k then Some (now + RESERVATION_TTL_MS) else resv g k')"
  "envelopeCancelClaims (snd (claimOutpoint l k now g)) = envelopeCancelClaims g"
  "recentBuilds (snd (claimOutpoint l k now g)) = recentBuilds g"
  "reservationTickets (snd (claimOutpoint l k now g)) = reservationTickets g"
  by (auto simp: claimOutpoint_def reserveOutpoint_def Let_def jm.get_put)

lemma claimOutpoint_wf [intro]: "guard_wf g \<Longrightarrow> guard_wf (snd (claimOutpoint l k now g))"
  by (auto simp: claimOutpoint_def reserveOutpoint_def guard_wf_def Let_def intro: jm.wf_put)

section \<open>Releasing a ledger\<close>

lemma resv_releaseCall [guard_simps]:
  "resv (releaseCallReservations cs g) k =
     (if \<exists>c \<in> set cs. claimKey c = k \<and> resv g k = Some (claimExpiry c) then None else resv g k)"
proof (induction cs g rule: releaseCallReservations.induct)
  case (2 c cs g)
  show ?case
  proof (cases "resv g (claimKey c) = Some (claimExpiry c)")
    case True
    with 2 show ?thesis by (auto simp: guard_simps)
  next
    case False
    with 2 show ?thesis by auto
  qed
qed simp

lemma releaseCall_frame [simp]:
  "envelopeCancelClaims (releaseCallReservations cs g) = envelopeCancelClaims g"
  "recentBuilds (releaseCallReservations cs g) = recentBuilds g"
  "reservationTickets (releaseCallReservations cs g) = reservationTickets g"
  by (induction cs g rule: releaseCallReservations.induct) auto

lemma delete_resv_wf [intro]:
  "guard_wf g \<Longrightarrow> guard_wf (g\<lparr>outpointReservations := jm_delete k (outpointReservations g)\<rparr>)"
  by (auto simp: guard_wf_def intro: jm.wf_del)

lemma releaseCall_wf [intro]: "guard_wf g \<Longrightarrow> guard_wf (releaseCallReservations cs g)"
proof (induction cs g rule: releaseCallReservations.induct)
  case (2 c cs g)
  then have "guard_wf (if resv g (claimKey c) = Some (claimExpiry c)
      then g\<lparr>outpointReservations := jm_delete (claimKey c) (outpointReservations g)\<rparr> else g)"
    by auto
  from "2.IH" [OF this] show ?case by simp
qed simp

section \<open>Cancel owners\<close>

lemma maxLive_Some:
  "maxLive now es m = Some x \<Longrightarrow> (\<forall>y. m = Some y \<longrightarrow> y \<le> x) \<and> (\<forall>e \<in> set es. now < e \<longrightarrow> e \<le> x) \<and>
     (m = Some x \<or> (x \<in> set es \<and> now < x))"
proof (induction now es m rule: maxLive.induct)
  case (2 now e es m)
  show ?case
  proof (cases "now < e \<and> (case m of None \<Rightarrow> True | Some x \<Rightarrow> x < e)")
    case True
    then have eq: "maxLive now (e # es) m = maxLive now es (Some e)" by simp
    have "maxLive now es (Some e) = Some x" using "2.prems" unfolding eq .
    with "2.IH" True show ?thesis by (auto split: option.splits)
  next
    case False
    then have eq: "maxLive now (e # es) m = maxLive now es m" by auto
    have "maxLive now es m = Some x" using "2.prems" unfolding eq .
    with "2.IH" False show ?thesis by (auto split: option.splits)
  qed
qed simp

lemma maxLive_None: "maxLive now es m = None \<longleftrightarrow> m = None \<and> (\<forall>e \<in> set es. e \<le> now)"
  by (induction now es m rule: maxLive.induct) (auto split: option.splits)

lemma set_snd_get: "jm_wf m \<Longrightarrow> e \<in> set (map snd m) \<longleftrightarrow> (\<exists>i. jm_get m i = Some e)"
  by (force simp: jm_wf_def jm_get_def)

lemma maxOwner_None:
  "guard_wf g \<Longrightarrow> maxLiveCancelOwnerExpiry k now g = None \<longleftrightarrow> (\<forall>i e. token g k i = Some e \<longrightarrow> e \<le> now)"
proof (cases "jm_get (envelopeCancelClaims g) k")
  case (Some owners)
  assume "guard_wf g"
  then have "jm_wf owners" using Some by (auto simp: guard_wf_def)
  then have "(\<forall>e \<in> set (map snd owners). e \<le> now) \<longleftrightarrow> (\<forall>i e. jm_get owners i = Some e \<longrightarrow> e \<le> now)"
    using set_snd_get [of owners] by blast
  then show ?thesis by (simp add: maxLiveCancelOwnerExpiry_def token_def Some maxLive_None)
qed (simp add: maxLiveCancelOwnerExpiry_def token_def)

lemma maxOwner_Some:
  assumes "guard_wf g" "maxLiveCancelOwnerExpiry k now g = Some m"
  shows "\<exists>i. token g k i = Some m" "now < m" "token g k i = Some e \<Longrightarrow> now < e \<Longrightarrow> e \<le> m"
proof -
  obtain owners where o: "jm_get (envelopeCancelClaims g) k = Some owners"
    and m: "maxLive now (map snd owners) None = Some m"
    using assms(2) by (auto simp: maxLiveCancelOwnerExpiry_def split: option.splits)
  have w: "jm_wf owners" using assms(1) o by (auto simp: guard_wf_def)
  note M = maxLive_Some [OF m]
  then show "now < m" by simp
  show "\<exists>i. token g k i = Some m" using M set_snd_get [OF w, of m] by (simp add: token_def o)
  show "token g k i = Some e \<Longrightarrow> now < e \<Longrightarrow> e \<le> m"
    using M set_snd_get [OF w, of e] by (simp add: token_def o) blast
qed

lemma maxOwner_cong:
  assumes "guard_wf g" "guard_wf g'" "\<And>i e. now < e \<Longrightarrow> token g k i = Some e \<longleftrightarrow> token g' k i = Some e"
  shows "maxLiveCancelOwnerExpiry k now g = maxLiveCancelOwnerExpiry k now g'"
proof (cases "maxLiveCancelOwnerExpiry k now g")
  case None
  then have "maxLiveCancelOwnerExpiry k now g' = None"
    using assms by (meson maxOwner_None linorder_not_less)
  with None show ?thesis by simp
next
  case (Some m)
  note M = maxOwner_Some [OF assms(1) Some]
  from M(1,2) assms(3) have "\<exists>i. token g' k i = Some m" by blast
  with M(2) have "maxLiveCancelOwnerExpiry k now g' \<noteq> None" using maxOwner_None [OF assms(2)]
    by (meson linorder_not_less)
  then obtain m' where m': "maxLiveCancelOwnerExpiry k now g' = Some m'" by blast
  note M' = maxOwner_Some [OF assms(2) m']
  have "m \<le> m'" "m' \<le> m" using M M' assms(3) by blast+
  with Some m' show ?thesis by simp
qed

lemma dropCancelOwner_wf [intro]:
  assumes "guard_wf g"
  shows "guard_wf (snd (dropCancelOwner k i now g))"
  using assms unfolding dropCancelOwner_def guard_wf_def Let_def
  by (auto simp: guard_simps intro!: jm.wf_put jm.wf_del split: option.splits if_splits)

lemma dropCancelOwner_frame [simp]:
  "recentBuilds (snd (dropCancelOwner k i now g)) = recentBuilds g"
  "reservationTickets (snd (dropCancelOwner k i now g)) = reservationTickets g"
  by (auto simp: dropCancelOwner_def Let_def split: option.splits)

text \<open>
  Dropping a token keeps the live tokens of everybody else; the reservation of that outpoint is
  restated at the highest of them, if there is one, and no other reservation is touched.
\<close>

lemma dropCancelOwner_token:
  assumes "guard_wf g" "now < e"
  shows "token (snd (dropCancelOwner k i now g)) k' j = Some e \<longleftrightarrow>
           token g k' j = Some e \<and> \<not> (k' = k \<and> j = i)"
proof (cases "jm_get (envelopeCancelClaims g) k")
  case None
  then show ?thesis by (auto simp: dropCancelOwner_def token_def)
next
  case (Some owners)
  define g1 where "g1 = g\<lparr>envelopeCancelClaims := jm_set k (jm_delete i owners) (envelopeCancelClaims g)\<rparr>"
  have wo: "jm_wf owners" using assms Some by (auto simp: guard_wf_def)
  have w1: "guard_wf g1" using assms(1) wo
    by (auto simp: g1_def guard_wf_def guard_simps intro!: jm.wf_put jm.wf_del split: if_splits)
  have t1: "token g1 k' j = (if k' = k \<and> j = i then None else token g k' j)" for k' j
    by (simp add: token_def g1_def guard_simps Some)
  have d: "dropCancelOwner k i now g = (case maxLiveCancelOwnerExpiry k now g1 of
      None \<Rightarrow> (False, g1\<lparr>envelopeCancelClaims := jm_delete k (envelopeCancelClaims g1)\<rparr>)
    | Some r \<Rightarrow> (True, g1\<lparr>outpointReservations := jm_set k r (outpointReservations g1)\<rparr>))"
    by (simp only: dropCancelOwner_def Some g1_def Let_def option.case)
  show ?thesis
  proof (cases "maxLiveCancelOwnerExpiry k now g1")
    case None
    then have "\<And>j. token g1 k j = Some e \<Longrightarrow> False" using maxOwner_None [OF w1] assms(2) by fastforce
    then have "\<And>j. token g k j = Some e \<Longrightarrow> j = i" unfolding t1 by (metis (full_types))
    moreover have "token (snd (dropCancelOwner k i now g)) k' j = (if k' = k then None else token g1 k' j)"
      by (simp add: d None token_def guard_simps)
    ultimately show ?thesis using t1 by (cases "k' = k") auto
  next
    case (Some r)
    then have "token (snd (dropCancelOwner k i now g)) k' j = token g1 k' j"
      by (simp add: d token_def)
    then show ?thesis by (simp add: t1)
  qed
qed

lemma dropCancelOwner_resv:
  fixes g k i now
  defines "g' \<equiv> snd (dropCancelOwner k i now g)"
  shows "k' \<noteq> k \<Longrightarrow> resv g' k' = resv g k'"
    and "fst (dropCancelOwner k i now g) \<Longrightarrow>
           resv g' k = maxLiveCancelOwnerExpiry k now g' \<and> maxLiveCancelOwnerExpiry k now g' \<noteq> None"
    and "\<not> fst (dropCancelOwner k i now g) \<Longrightarrow> resv g' k = resv g k \<and> maxLiveCancelOwnerExpiry k now g' = None"
proof -
  show "k' \<noteq> k \<Longrightarrow> resv g' k' = resv g k'"
    by (auto simp: g'_def dropCancelOwner_def Let_def guard_simps split: option.splits)
  show "fst (dropCancelOwner k i now g) \<Longrightarrow>
      resv g' k = maxLiveCancelOwnerExpiry k now g' \<and> maxLiveCancelOwnerExpiry k now g' \<noteq> None"
    by (auto simp: g'_def dropCancelOwner_def Let_def guard_simps maxLiveCancelOwnerExpiry_def split: option.splits)
  show "\<not> fst (dropCancelOwner k i now g) \<Longrightarrow> resv g' k = resv g k \<and> maxLiveCancelOwnerExpiry k now g' = None"
    by (auto simp: g'_def dropCancelOwner_def Let_def guard_simps maxLiveCancelOwnerExpiry_def split: option.splits)
qed

end
