(* ===== verification/GuardMachine.thy ===== *)
theory GuardMachine
  imports ReservationFacts
begin

text \<open>
  The double-spend guard as a state machine. The process interleaves calls at their awaits, so
  between two operations of one call any operation of another may run; the machine takes one
  guard operation per step, in any order, with the clock moving on its own. The ghost field
  \<open>held\<close> records which call still owns which claim: from the moment it was recorded on the
  call's ledger until the call failed and released it, or its ticket was redeemed.
\<close>

datatype phase = Running | Finished

record world =
  guardOf :: guard
  clock :: int
  held :: "(nat \<times> claim) set"
  phase :: "nat \<Rightarrow> phase"
  ticketOwner :: "string \<Rightarrow> nat"

definition world_init :: "int \<Rightarrow> world" where
  "world_init t0 = \<lparr>guardOf = initReservationMaps, clock = t0, held = {}, phase = (\<lambda>_. Running),
     ticketOwner = (\<lambda>_. 0)\<rparr>"

definition claimsOf :: "world \<Rightarrow> nat \<Rightarrow> claim set" where
  "claimsOf w h = {c. (h, c) \<in> held w}"

definition emptyLedger :: ledger where
  "emptyLedger = \<lparr>claims = [], buildTxid = None\<rparr>"

definition mkClaim :: "string \<Rightarrow> int \<Rightarrow> string option \<Rightarrow> claim" where
  "mkClaim k e i = \<lparr>claimKey = k, claimExpiry = e, claimOwner = i\<rparr>"

text \<open>
  The steps. \<open>take_free\<close> is what a build does to an outpoint it selects (\<open>skipReservedInput\<close>,
  \<open>claimFirstFreeInput\<close>, \<open>claimExactInputs\<close>): claim it after \<open>isOutpointReserved\<close> said no.
  \<open>take_cancel\<close> is \<open>claimCommitOutpoint\<close>, with an owner id no other cancel was given.
  \<open>fail_create\<close>, \<open>fail_cancel\<close> and \<open>mint\<close> are the two ends of the public entry points, and
  \<open>redeem\<close> is \<open>releaseReservation\<close>, called by anybody with any string. The ledger a call ends
  with is the list of claims it holds.
\<close>

inductive guard_step :: "world \<Rightarrow> world \<Rightarrow> bool" where
  tick: "clock w \<le> t \<Longrightarrow> guard_step w (w\<lparr>clock := t\<rparr>)"
| sweep: "guard_step w (w\<lparr>guardOf := evictExpiredReservations (clock w) (guardOf w)\<rparr>)"
| probe: "isOutpointReserved k (clock w) (guardOf w) = (r, g') \<Longrightarrow> guard_step w (w\<lparr>guardOf := g'\<rparr>)"
| take_free: "isOutpointReserved k (clock w) (guardOf w) = (False, g1) \<Longrightarrow>
    claimOutpoint emptyLedger k (clock w) g1 = (l, g2) \<Longrightarrow> phase w h = Running \<Longrightarrow>
    (\<forall>c \<in> claimsOf w h. claimOwner c = None) \<Longrightarrow>
    guard_step w (w\<lparr>guardOf := g2, held := held w \<union> Pair h ` set (claims l)\<rparr>)"
| take_cancel: "claimCommitOutpoint emptyLedger txid vout (clock w) i (guardOf w) = (g', Inr l) \<Longrightarrow>
    phase w h = Running \<Longrightarrow> claimsOf w h = {} \<Longrightarrow>
    (\<forall>k. token (guardOf w) k i = None) \<Longrightarrow> (\<forall>(h', c) \<in> held w. claimOwner c \<noteq> Some i) \<Longrightarrow>
    guard_step w (w\<lparr>guardOf := g', held := held w \<union> Pair h ` set (claims l)\<rparr>)"
| refuse_cancel: "claimCommitOutpoint emptyLedger txid vout (clock w) i (guardOf w) = (g', Inl e) \<Longrightarrow>
    guard_step w (w\<lparr>guardOf := g'\<rparr>)"
| fail_create: "phase w h = Running \<Longrightarrow> set cs = claimsOf w h \<Longrightarrow> (\<forall>c \<in> set cs. claimOwner c = None) \<Longrightarrow>
    guard_step w (w\<lparr>guardOf := releaseCallReservations cs (guardOf w),
                    held := held w - Pair h ` set cs, phase := (phase w)(h := Finished)\<rparr>)"
| fail_cancel: "phase w h = Running \<Longrightarrow> claimsOf w h = {c} \<Longrightarrow> claimOwner c = Some i \<Longrightarrow>
    guard_step w (w\<lparr>guardOf := releaseEnvelopeCancelClaims [c] (clock w) (guardOf w),
                    held := held w - {(h, c)}, phase := (phase w)(h := Finished)\<rparr>)"
| mint: "phase w h = Running \<Longrightarrow> set (claims l) = claimsOf w h \<Longrightarrow>
    mintReservationTicket l (clock w) rid (guardOf w) = (rc, g') \<Longrightarrow>
    jm_get (reservationTickets (guardOf w)) rid = None \<Longrightarrow>
    (\<forall>c \<in> set (claims l). claimOwner c = None) \<or> (\<exists>c. claims l = [c]) \<Longrightarrow>
    guard_step w (w\<lparr>guardOf := g', phase := (phase w)(h := Finished),
                    ticketOwner := (ticketOwner w)(rid := h)\<rparr>)"
| redeem: "releaseReservation rid (clock w) (guardOf w) = (g', r) \<Longrightarrow>
    guard_step w (w\<lparr>guardOf := g',
      held := (case r of
                 Inr x \<Rightarrow> if found x
                   then held w - Pair (ticketOwner w rid) `
                     (case jm_get (reservationTickets (guardOf w)) rid of None \<Rightarrow> {}
                      | Some t \<Rightarrow> set (ticketClaims t))
                   else held w
               | Inl e \<Rightarrow> held w)\<rparr>)"

inductive_cases guard_stepE: "guard_step w w'"

inductive guard_reachable :: "world \<Rightarrow> bool" where
  start: "guard_reachable (world_init t0)"
| step: "guard_reachable w \<Longrightarrow> guard_step w w' \<Longrightarrow> guard_reachable w'"

section \<open>The invariant\<close>

text \<open>A claim is live while its expiry is later than the clock.\<close>

abbreviation liveClaim :: "world \<Rightarrow> claim \<Rightarrow> bool" where
  "liveClaim w c \<equiv> clock w < claimExpiry c"

text \<open>
  What the maps and the claims outstanding have to say about each other. A live build claim is
  the reservation's value and excludes every live cancel token; a live cancel claim has its token;
  and while a token is live the reservation is the highest live token.
\<close>

definition claims_backed :: "world \<Rightarrow> bool" where
  "claims_backed w \<longleftrightarrow> (\<forall>h c. (h, c) \<in> held w \<longrightarrow> liveClaim w c \<longrightarrow>
     (case claimOwner c of
        None \<Rightarrow> resv (guardOf w) (claimKey c) = Some (claimExpiry c) \<and>
                maxLiveCancelOwnerExpiry (claimKey c) (clock w) (guardOf w) = None
      | Some i \<Rightarrow> token (guardOf w) (claimKey c) i = Some (claimExpiry c)))"

definition tokens_reserve :: "world \<Rightarrow> bool" where
  "tokens_reserve w \<longleftrightarrow> (\<forall>k m. maxLiveCancelOwnerExpiry k (clock w) (guardOf w) = Some m \<longrightarrow>
     resv (guardOf w) k = Some m)"

definition expiries_bounded :: "world \<Rightarrow> bool" where
  "expiries_bounded w \<longleftrightarrow>
     (\<forall>k i e. token (guardOf w) k i = Some e \<longrightarrow> e \<le> clock w + RESERVATION_TTL_MS) \<and>
     (\<forall>h c. (h, c) \<in> held w \<longrightarrow> claimExpiry c \<le> clock w + RESERVATION_TTL_MS)"

definition claims_exclusive :: "world \<Rightarrow> bool" where
  "claims_exclusive w \<longleftrightarrow> (\<forall>h c h' d. (h, c) \<in> held w \<longrightarrow> (h', d) \<in> held w \<longrightarrow> (h, c) \<noteq> (h', d) \<longrightarrow>
     claimKey c = claimKey d \<longrightarrow> liveClaim w c \<longrightarrow> liveClaim w d \<longrightarrow>
     claimOwner c \<noteq> None \<and> claimOwner d \<noteq> None \<and> claimOwner c \<noteq> claimOwner d)"

definition tickets_owned :: "world \<Rightarrow> bool" where
  "tickets_owned w \<longleftrightarrow> (\<forall>rid t. jm_get (reservationTickets (guardOf w)) rid = Some t \<longrightarrow>
     phase w (ticketOwner w rid) = Finished \<and>
     Pair (ticketOwner w rid) ` set (ticketClaims t) \<subseteq> held w \<and>
     ((\<forall>c \<in> set (ticketClaims t). claimOwner c = None) \<or> (\<exists>c. ticketClaims t = [c])) \<and>
     (\<forall>rid' t'. jm_get (reservationTickets (guardOf w)) rid' = Some t' \<longrightarrow> rid' \<noteq> rid \<longrightarrow>
        ticketOwner w rid' \<noteq> ticketOwner w rid))"

definition owners_unique :: "world \<Rightarrow> bool" where
  "owners_unique w \<longleftrightarrow> (\<forall>h c h' d. (h, c) \<in> held w \<longrightarrow> (h', d) \<in> held w \<longrightarrow>
     claimOwner c \<noteq> None \<longrightarrow> claimOwner c = claimOwner d \<longrightarrow> (h, c) = (h', d))"

definition core_inv :: "world \<Rightarrow> bool" where
  "core_inv w \<longleftrightarrow> guard_wf (guardOf w) \<and> claims_backed w \<and> tokens_reserve w \<and> expiries_bounded w \<and>
     claims_exclusive w \<and> owners_unique w"

definition guard_inv :: "world \<Rightarrow> bool" where
  "guard_inv w \<longleftrightarrow> core_inv w \<and> tickets_owned w"

lemmas guard_inv_defs = guard_inv_def core_inv_def claims_backed_def tokens_reserve_def expiries_bounded_def
  claims_exclusive_def owners_unique_def tickets_owned_def

text \<open>The parts of the invariant, one claim or one key at a time.\<close>

lemma core_wf: "core_inv w \<Longrightarrow> guard_wf (guardOf w)"
  by (simp add: core_inv_def)

lemma core_build: "core_inv w \<Longrightarrow> (h, c) \<in> held w \<Longrightarrow> liveClaim w c \<Longrightarrow> claimOwner c = None \<Longrightarrow>
    resv (guardOf w) (claimKey c) = Some (claimExpiry c) \<and>
    maxLiveCancelOwnerExpiry (claimKey c) (clock w) (guardOf w) = None"
  by (fastforce simp: core_inv_def claims_backed_def)

lemma core_cancel: "core_inv w \<Longrightarrow> (h, c) \<in> held w \<Longrightarrow> liveClaim w c \<Longrightarrow> claimOwner c = Some i \<Longrightarrow>
    token (guardOf w) (claimKey c) i = Some (claimExpiry c)"
  by (fastforce simp: core_inv_def claims_backed_def)

lemma core_reserve: "core_inv w \<Longrightarrow> maxLiveCancelOwnerExpiry k (clock w) (guardOf w) = Some m \<Longrightarrow>
    resv (guardOf w) k = Some m"
  by (simp add: core_inv_def tokens_reserve_def)

lemma core_bounded: "core_inv w \<Longrightarrow> token (guardOf w) k i = Some e \<Longrightarrow> e \<le> clock w + RESERVATION_TTL_MS"
  "core_inv w \<Longrightarrow> (h, c) \<in> held w \<Longrightarrow> claimExpiry c \<le> clock w + RESERVATION_TTL_MS"
  by (auto simp: core_inv_def expiries_bounded_def)

lemma core_exclusive: "core_inv w \<Longrightarrow> (h, c) \<in> held w \<Longrightarrow> (h', d) \<in> held w \<Longrightarrow> (h, c) \<noteq> (h', d) \<Longrightarrow>
    claimKey c = claimKey d \<Longrightarrow> liveClaim w c \<Longrightarrow> liveClaim w d \<Longrightarrow> claimOwner c \<noteq> None \<and> claimOwner d \<noteq> None"
  unfolding core_inv_def claims_exclusive_def by blast

lemma core_owners: "core_inv w \<Longrightarrow> (h, c) \<in> held w \<Longrightarrow> (h', d) \<in> held w \<Longrightarrow> claimOwner c = Some i \<Longrightarrow>
    claimOwner d = Some i \<Longrightarrow> (h, c) = (h', d)"
  unfolding core_inv_def owners_unique_def by (metis option.distinct(1))

lemma core_invI:
  assumes "guard_wf (guardOf w)"
    and "\<And>h c. (h, c) \<in> held w \<Longrightarrow> liveClaim w c \<Longrightarrow> claimOwner c = None \<Longrightarrow>
      resv (guardOf w) (claimKey c) = Some (claimExpiry c) \<and>
      maxLiveCancelOwnerExpiry (claimKey c) (clock w) (guardOf w) = None"
    and "\<And>h c i. (h, c) \<in> held w \<Longrightarrow> liveClaim w c \<Longrightarrow> claimOwner c = Some i \<Longrightarrow>
      token (guardOf w) (claimKey c) i = Some (claimExpiry c)"
    and "\<And>k m. maxLiveCancelOwnerExpiry k (clock w) (guardOf w) = Some m \<Longrightarrow> resv (guardOf w) k = Some m"
    and "\<And>k i e. token (guardOf w) k i = Some e \<Longrightarrow> e \<le> clock w + RESERVATION_TTL_MS"
    and "\<And>h c. (h, c) \<in> held w \<Longrightarrow> claimExpiry c \<le> clock w + RESERVATION_TTL_MS"
    and "\<And>h c h' d. (h, c) \<in> held w \<Longrightarrow> (h', d) \<in> held w \<Longrightarrow> (h, c) \<noteq> (h', d) \<Longrightarrow>
      claimKey c = claimKey d \<Longrightarrow> liveClaim w c \<Longrightarrow> liveClaim w d \<Longrightarrow> claimOwner c \<noteq> None"
    and "\<And>h c h' d i. (h, c) \<in> held w \<Longrightarrow> (h', d) \<in> held w \<Longrightarrow> claimOwner c = Some i \<Longrightarrow>
      claimOwner d = Some i \<Longrightarrow> (h, c) = (h', d)"
  shows "core_inv w"
proof -
  have "claims_exclusive w" unfolding claims_exclusive_def
    using assms(7,8) by (metis (no_types, lifting) option.exhaust)
  moreover have "owners_unique w" unfolding owners_unique_def using assms(8) by (metis option.exhaust)
  moreover have "claims_backed w" unfolding claims_backed_def using assms(2,3) by (auto split: option.splits)
  ultimately show ?thesis using assms(1,4,5,6)
    by (auto simp: core_inv_def tokens_reserve_def expiries_bounded_def)
qed

lemma token_init [simp]: "token initReservationMaps k i = None"
  by (simp add: token_def initReservationMaps_def jm_get_def)

lemma guard_inv_init: "guard_inv (world_init t0)"
proof -
  have "maxLiveCancelOwnerExpiry k t0 initReservationMaps = None" for k
    by (simp add: maxLiveCancelOwnerExpiry_def initReservationMaps_def jm_get_def)
  then have "core_inv (world_init t0)"
    by (intro core_invI) (auto simp: world_init_def initReservationMaps_wf)
  then show ?thesis
    by (simp add: guard_inv_def tickets_owned_def world_init_def initReservationMaps_def jm_get_def)
qed

text \<open>
  The invariant speaks of live entries only, so an operation that changes nothing but lapsed
  ones keeps it; that covers every sweep and the passing of time.
\<close>

definition same_live :: "int \<Rightarrow> guard \<Rightarrow> guard \<Rightarrow> bool" where
  "same_live now g g' \<longleftrightarrow>
     (\<forall>k e. now < e \<longrightarrow> resv g' k = Some e \<longleftrightarrow> resv g k = Some e) \<and>
     (\<forall>k i e. now < e \<longrightarrow> token g' k i = Some e \<longleftrightarrow> token g k i = Some e) \<and>
     (\<forall>k i e. token g' k i = Some e \<longrightarrow> token g k i = Some e) \<and>
     (\<forall>r t. jm_get (reservationTickets g') r = Some t \<longrightarrow> jm_get (reservationTickets g) r = Some t)"

lemma same_live_max: "guard_wf g \<Longrightarrow> guard_wf g' \<Longrightarrow> same_live now g g' \<Longrightarrow>
    maxLiveCancelOwnerExpiry k now g' = maxLiveCancelOwnerExpiry k now g"
  by (rule maxOwner_cong) (auto simp: same_live_def)

lemma core_same_live:
  assumes inv: "core_inv w" and wf: "guard_wf g'" and s: "same_live (clock w) (guardOf w) g'"
  shows "core_inv (w\<lparr>guardOf := g'\<rparr>)"
proof -
  note wf0 = core_wf [OF inv]
  note M = same_live_max [OF wf0 wf s]
  have r: "clock w < e \<Longrightarrow> resv g' k = Some e \<longleftrightarrow> resv (guardOf w) k = Some e" for k e
    using s by (simp add: same_live_def)
  have t: "clock w < e \<Longrightarrow> token g' k i = Some e \<longleftrightarrow> token (guardOf w) k i = Some e"
    "token g' k i = Some e \<Longrightarrow> token (guardOf w) k i = Some e" for k i e
    using s by (auto simp: same_live_def)
  show ?thesis
  proof (rule core_invI, goal_cases)
    case (2 h c)
    then show ?case using core_build [OF inv, of h c] r by (simp add: M)
  next
    case (4 k m)
    then show ?case using core_reserve [OF inv, of k m] maxOwner_Some(2) [OF wf0, of k "clock w" m] r by (simp add: M)
  next
    case (5 k i e)
    then have "token (guardOf w) k i = Some e" by (auto dest: t(2))
    from core_bounded(1) [OF inv this] show ?case by simp
  next
    case (7 h c h' d)
    then show ?case using core_exclusive [OF inv, of h c h' d] by simp
  qed (use wf t core_cancel [OF inv] core_bounded(2) [OF inv] core_owners [OF inv] in simp_all)
qed

lemma guard_inv_same_live:
  assumes inv: "guard_inv w" and wf: "guard_wf g'" and s: "same_live (clock w) (guardOf w) g'"
  shows "guard_inv (w\<lparr>guardOf := g'\<rparr>)"
  using core_same_live [OF _ wf s] inv s unfolding guard_inv_def tickets_owned_def same_live_def
  by simp blast

lemma maxOwner_later:
  assumes wf: "guard_wf g" and le: "now \<le> t"
  shows "maxLiveCancelOwnerExpiry k now g = None \<Longrightarrow> maxLiveCancelOwnerExpiry k t g = None"
    and "maxLiveCancelOwnerExpiry k t g = Some m \<Longrightarrow> maxLiveCancelOwnerExpiry k now g = Some m"
proof -
  show none: "maxLiveCancelOwnerExpiry k now g = None \<Longrightarrow> maxLiveCancelOwnerExpiry k t g = None"
    using maxOwner_None [OF wf] le by (meson order.trans)
  assume m: "maxLiveCancelOwnerExpiry k t g = Some m"
  then obtain m' where m': "maxLiveCancelOwnerExpiry k now g = Some m'" using none by fastforce
  note M = maxOwner_Some [OF wf m] and M' = maxOwner_Some [OF wf m']
  obtain i i' where i: "token g k i = Some m" "token g k i' = Some m'" using M(1) M'(1) by blast
  have "m \<le> m'" using M'(3) [OF i(1)] M(2) le by simp
  moreover from this have "m' \<le> m" using M(3) [OF i(2)] M(2) by simp
  ultimately show "maxLiveCancelOwnerExpiry k now g = Some m" using m' by simp
qed

lemma guard_inv_tick:
  assumes inv: "guard_inv w" and le: "clock w \<le> t"
  shows "guard_inv (w\<lparr>clock := t\<rparr>)"
proof -
  have c: "core_inv w" using inv by (simp add: guard_inv_def)
  note L = maxOwner_later [OF core_wf [OF c] le]
  have "core_inv (w\<lparr>clock := t\<rparr>)"
  proof (rule core_invI, goal_cases)
    case (2 h c')
    then show ?case using core_build [OF c, of h c'] le L(1) by simp
  next
    case (3 h c' i)
    then show ?case using core_cancel [OF c, of h c' i] le by simp
  next
    case (4 k m)
    then show ?case using core_reserve [OF c, of k m] L(2) by simp
  next
    case (5 k i e)
    then show ?case using core_bounded(1) [OF c, of k i e] le by simp
  next
    case (6 h c')
    then show ?case using core_bounded(2) [OF c, of h c'] le by simp
  next
    case (7 h c' h' d)
    then show ?case using core_exclusive [OF c, of h c' h' d] le by simp
  qed (use core_wf [OF c] core_owners [OF c] in simp_all)
  then show ?thesis using inv by (simp add: guard_inv_def tickets_owned_def)
qed

lemma same_live_evict: "guard_wf g \<Longrightarrow> same_live now g (evictExpiredReservations now g)"
  by (auto simp: same_live_def guard_simps token_def split: option.splits if_splits)

lemma same_live_evictCancel: "guard_wf g \<Longrightarrow> same_live now g (evictExpiredEnvelopeCancelClaims now g)"
  by (auto simp: same_live_def guard_simps split: option.splits if_splits)

lemma same_live_evictTickets: "guard_wf g \<Longrightarrow> same_live now g (evictExpiredReservationTickets now g)"
  unfolding same_live_def
  by (auto simp: evictExpiredReservationTickets_def token_def guard_wf_def jm.get_keep split: option.splits if_splits)

lemma same_live_probe: "same_live now g (snd (isOutpointReserved k now g))"
proof -
  have t: "token (snd (isOutpointReserved k now g)) = token g"
    by (rule token_cong) (simp add: isOutpointReserved_frame)
  have "now < e \<Longrightarrow> resv (snd (isOutpointReserved k now g)) k' = Some e \<longleftrightarrow> resv g k' = Some e" for k' e
    by (auto simp: isOutpointReserved_def guard_simps split: option.splits)
  then show ?thesis by (simp add: same_live_def t isOutpointReserved_frame)
qed

lemma same_live_sweepAll: "guard_wf g \<Longrightarrow> same_live now g (sweepAll now g)"
  by (auto simp: same_live_def sweepAll_fields split: option.splits if_splits)

lemma same_live_trans: "same_live now g g' \<Longrightarrow> same_live now g' g'' \<Longrightarrow> same_live now g g''"
  by (simp add: same_live_def)

section \<open>Every step keeps the invariant\<close>

lemma ttl_pos: "0 < RESERVATION_TTL_MS"
  by (simp add: RESERVATION_TTL_MS_def)

text \<open>An outpoint nobody has reserved has no live claim and no live token.\<close>

lemma unreserved_free:
  assumes "core_inv w" "resv (guardOf w) k = None"
  shows "maxLiveCancelOwnerExpiry k (clock w) (guardOf w) = None"
    and "(h, c) \<in> held w \<Longrightarrow> claimKey c = k \<Longrightarrow> \<not> liveClaim w c"
proof -
  show m: "maxLiveCancelOwnerExpiry k (clock w) (guardOf w) = None"
    using core_reserve [OF assms(1), of k] assms(2) by (cases "maxLiveCancelOwnerExpiry k (clock w) (guardOf w)") auto
  show "(h, c) \<in> held w \<Longrightarrow> claimKey c = k \<Longrightarrow> \<not> liveClaim w c"
    using core_build [OF assms(1), of h c] core_cancel [OF assms(1), of h c] assms(2) m
      maxOwner_None [OF core_wf [OF assms(1)], of k "clock w"]
    by (cases "claimOwner c") fastforce+
qed

lemma tickets_grow:
  assumes "tickets_owned w" "held w \<subseteq> H" "reservationTickets g' = reservationTickets (guardOf w)"
  shows "tickets_owned (w\<lparr>guardOf := g', held := H\<rparr>)"
  using assms unfolding tickets_owned_def by simp blast

lemma core_take_free:
  assumes inv: "core_inv w" and free: "resv (guardOf w) k = None"
    and cl: "claimOutpoint emptyLedger k (clock w) (guardOf w) = (l, g2)"
  shows "core_inv (w\<lparr>guardOf := g2, held := held w \<union> Pair h ` set (claims l)\<rparr>)"
proof -
  let ?c = "mkClaim k (clock w + RESERVATION_TTL_MS) None"
  have l: "set (claims l) = {?c}" and r: "\<And>k'. resv g2 k' = (if k' = k then Some (clock w + RESERVATION_TTL_MS) else resv (guardOf w) k')"
    and e: "envelopeCancelClaims g2 = envelopeCancelClaims (guardOf w)" and wf: "guard_wf g2"
    using claimOutpoint_simps [of emptyLedger k "clock w" "guardOf w"] cl core_wf [OF inv]
      claimOutpoint_wf [of "guardOf w" emptyLedger k "clock w"]
    by (auto simp: emptyLedger_def mkClaim_def)
  have t: "token g2 = token (guardOf w)" by (rule token_cong) (rule e)
  have m: "maxLiveCancelOwnerExpiry k' (clock w) g2 = maxLiveCancelOwnerExpiry k' (clock w) (guardOf w)" for k'
    by (simp add: maxLiveCancelOwnerExpiry_def e)
  note U = unreserved_free [OF inv free]
  show ?thesis
  proof (rule core_invI, goal_cases)
    case (2 h' c)
    then show ?case using core_build [OF inv, of h' c] U
      by (auto simp: l r m mkClaim_def)
  next
    case (3 h' c i)
    then show ?case using core_cancel [OF inv, of h' c i] by (auto simp: l t mkClaim_def)
  next
    case (4 k' m')
    then show ?case using core_reserve [OF inv, of k' m'] U(1) by (auto simp: m r)
  next
    case (5 k' i e)
    then show ?case using core_bounded(1) [OF inv, of k' i e] by (simp add: t)
  next
    case (6 h' c)
    then show ?case using core_bounded(2) [OF inv, of h' c] by (auto simp: l mkClaim_def)
  next
    case (7 h1 c h2 d)
    then show ?case using core_exclusive [OF inv, of h1 c h2 d] U(2)
      by (auto simp: l mkClaim_def)
  next
    case (8 h1 c h2 d i)
    then show ?case using core_owners [OF inv, of h1 c h2 d i] by (auto simp: l mkClaim_def)
  qed (simp add: wf)
qed

text \<open>A claim of a cancel: the outpoint is free, or its reservation is the cancel path's own.\<close>

lemma core_take_cancel:
  assumes inv: "core_inv w"
    and own: "resv (guardOf w) k = None \<or>
      maxLiveCancelOwnerExpiry k (clock w) (guardOf w) = resv (guardOf w) k"
    and fresh: "\<And>k'. token (guardOf w) k' i = None" "\<And>h' c. (h', c) \<in> held w \<Longrightarrow> claimOwner c \<noteq> Some i"
    and wf: "guard_wf g2"
    and r: "\<And>k'. resv g2 k' = (if k' = k then Some (clock w + RESERVATION_TTL_MS) else resv (guardOf w) k')"
    and t: "\<And>k' j. token g2 k' j = (if k' = k \<and> j = i then Some (clock w + RESERVATION_TTL_MS) else token (guardOf w) k' j)"
  shows "core_inv (w\<lparr>guardOf := g2, held := insert (h, mkClaim k (clock w + RESERVATION_TTL_MS) (Some i)) (held w)\<rparr>)"
proof -
  let ?x = "clock w + RESERVATION_TTL_MS"
  note wf0 = core_wf [OF inv]
  have m1: "maxLiveCancelOwnerExpiry k' (clock w) g2 = maxLiveCancelOwnerExpiry k' (clock w) (guardOf w)" if "k' \<noteq> k" for k'
    by (rule maxOwner_cong [OF wf wf0]) (simp add: t that)
  have m2: "maxLiveCancelOwnerExpiry k (clock w) g2 = Some ?x"
  proof -
    have ti: "token g2 k i = Some ?x" by (simp add: t)
    then have "maxLiveCancelOwnerExpiry k (clock w) g2 \<noteq> None"
      using maxOwner_None [OF wf, of k "clock w"] ttl_pos by fastforce
    then obtain m where m: "maxLiveCancelOwnerExpiry k (clock w) g2 = Some m" by blast
    note M = maxOwner_Some [OF wf m]
    have "?x \<le> m" using M(3) [OF ti] ttl_pos by simp
    moreover have "m \<le> ?x" using M(1) core_bounded(1) [OF inv] by (auto simp: t split: if_splits)
    ultimately show ?thesis using m by simp
  qed
  have nobuild: "claimOwner c \<noteq> None" if "(h', c) \<in> held w" "liveClaim w c" "claimKey c = k" for h' c
  proof
    assume "claimOwner c = None"
    from core_build [OF inv that(1,2) this] show False using own that(3) by auto
  qed
  show ?thesis
  proof (rule core_invI, goal_cases)
    case (2 h' c)
    then have hc: "(h', c) \<in> held w" by (auto simp: mkClaim_def)
    then show ?case using core_build [OF inv hc] nobuild [OF hc] 2
      by (cases "claimKey c = k") (auto simp: r m1)
  next
    case (3 h' c j)
    then show ?case using core_cancel [OF inv, of h' c j] fresh(2) [of h' c] by (auto simp: t mkClaim_def)
  next
    case (4 k' m')
    then show ?case using core_reserve [OF inv, of k' m'] m2 by (cases "k' = k") (auto simp: m1 r)
  next
    case (5 k' j e)
    then show ?case using core_bounded(1) [OF inv, of k' j e] by (auto simp: t split: if_splits)
  next
    case (6 h' c)
    then show ?case using core_bounded(2) [OF inv, of h' c] by (auto simp: mkClaim_def)
  next
    case (7 h1 c h2 d)
    then show ?case using core_exclusive [OF inv, of h1 c h2 d] nobuild by (auto simp: mkClaim_def)
  next
    case (8 h1 c h2 d j)
    then show ?case using core_owners [OF inv, of h1 c h2 d j] fresh(2) by (auto simp: mkClaim_def)
  qed (simp add: wf)
qed

text \<open>What a granted cancel claim does to the guard.\<close>

lemma claimCommitOutpoint_granted:
  assumes wf: "guard_wf g" and c: "claimCommitOutpoint emptyLedger txid vout now i g = (g', Inr l)"
  defines "k \<equiv> outpointKey txid vout"
  shows "\<exists>gb. same_live now g gb \<and> guard_wf gb \<and> guard_wf g' \<and>
    (resv gb k = None \<or> maxLiveCancelOwnerExpiry k now gb = resv gb k) \<and>
    claims l = [mkClaim k (now + RESERVATION_TTL_MS) (Some i)] \<and>
    (\<forall>k'. resv g' k' = (if k' = k then Some (now + RESERVATION_TTL_MS) else resv gb k')) \<and>
    (\<forall>k' j. token g' k' j = (if k' = k \<and> j = i then Some (now + RESERVATION_TTL_MS) else token gb k' j)) \<and>
    reservationTickets g' = reservationTickets g"
proof -
  define ga where "ga = evictExpiredEnvelopeCancelClaims now (evictExpiredReservations now g)"
  obtain r gb where p: "isOutpointReserved k now ga = (r, gb)" by (cases "isOutpointReserved k now ga")
  obtain l1 g1 where q: "claimOutpoint emptyLedger k now gb = (l1, g1)" by (cases "claimOutpoint emptyLedger k now gb")
  have gb: "gb = snd (isOutpointReserved k now ga)" and rr: "r = fst (isOutpointReserved k now ga)" using p by simp_all
  have wa: "guard_wf ga" unfolding ga_def using wf by blast
  have wb: "guard_wf gb" unfolding gb using wa by blast
  have sl: "same_live now g gb"
    unfolding gb ga_def by (meson same_live_trans same_live_evict same_live_evictCancel same_live_probe evict_wf wf)
  have C: "claims l1 = [mkClaim k (now + RESERVATION_TTL_MS) None]"
    "\<And>k'. resv g1 k' = (if k' = k then Some (now + RESERVATION_TTL_MS) else resv gb k')"
    "envelopeCancelClaims g1 = envelopeCancelClaims gb" "guard_wf g1" "reservationTickets g1 = reservationTickets gb"
    using claimOutpoint_simps [of emptyLedger k now gb] claimOutpoint_wf [OF wb, of emptyLedger k now] q
    by (auto simp: emptyLedger_def mkClaim_def)
  define owners where "owners = (case jm_get (envelopeCancelClaims g1) k of None \<Rightarrow> jm_empty | Some m \<Rightarrow> m)"
  have no: "\<not> (r \<and> maxLiveCancelOwnerExpiry k now gb \<noteq> resv gb k)"
    and g': "g' = g1\<lparr>envelopeCancelClaims := jm_set k (jm_set i (now + RESERVATION_TTL_MS) owners) (envelopeCancelClaims g1)\<rparr>"
    and l: "l = l1\<lparr>claims := [(mkClaim k (now + RESERVATION_TTL_MS) None)\<lparr>claimOwner := Some i\<rparr>]\<rparr>"
    using c by (auto simp: claimCommitOutpoint_def Let_def k_def [symmetric] ga_def [symmetric] p q C(1)
        owners_def split: if_splits)
  have "resv gb k = None \<or> maxLiveCancelOwnerExpiry k now gb = resv gb k"
    using no resv_isOutpointReserved [of k now ga k] by (auto simp: gb rr)
  moreover have "token g' k' j = (if k' = k \<and> j = i then Some (now + RESERVATION_TTL_MS) else token gb k' j)" for k' j
    by (auto simp: token_def g' guard_simps owners_def C(3) jm.get_none split: option.splits)
  moreover have "guard_wf g'"
  proof -
    have "jm_wf owners" using C(4) by (auto simp: owners_def guard_wf_def jm.wf_none split: option.splits)
    then show ?thesis using C(4) by (auto simp: g' guard_wf_def guard_simps intro: jm.wf_put split: if_splits)
  qed
  moreover have "claims l = [mkClaim k (now + RESERVATION_TTL_MS) (Some i)]" by (simp add: l mkClaim_def)
  moreover have "reservationTickets g' = reservationTickets g"
    by (simp add: g' C(5) gb isOutpointReserved_frame ga_def)
  ultimately show ?thesis using sl wb C(2) by (auto simp: g')
qed

lemma claimCommitOutpoint_refused:
  assumes wf: "guard_wf g" and c: "claimCommitOutpoint l0 txid vout now i g = (g', Inl e)"
  shows "same_live now g g' \<and> guard_wf g'"
proof -
  have "g' = snd (isOutpointReserved (outpointKey txid vout) now
      (evictExpiredEnvelopeCancelClaims now (evictExpiredReservations now g)))"
    using c by (auto simp: claimCommitOutpoint_def Let_def split: if_splits prod.splits)
  then show ?thesis using wf
    by (metis same_live_trans same_live_evict same_live_evictCancel same_live_probe evict_wf(1,2) isOutpointReserved_wf)
qed

text \<open>Releasing claims of a build: only their own reservations go.\<close>

lemma core_release_build:
  assumes inv: "core_inv w" and own: "Pair h ` set cs \<subseteq> held w" and build: "\<forall>c \<in> set cs. claimOwner c = None"
  shows "core_inv (w\<lparr>guardOf := releaseCallReservations cs (guardOf w), held := held w - Pair h ` set cs\<rparr>)"
proof -
  let ?g' = "releaseCallReservations cs (guardOf w)"
  have t: "token ?g' = token (guardOf w)" by (rule token_cong) simp
  have m: "maxLiveCancelOwnerExpiry k (clock w) ?g' = maxLiveCancelOwnerExpiry k (clock w) (guardOf w)" for k
    by (simp add: maxLiveCancelOwnerExpiry_def)
  have keep: "resv ?g' k = Some e"
    if "resv (guardOf w) k = Some e" "clock w < e"
      "\<And>c. c \<in> set cs \<Longrightarrow> claimKey c = k \<Longrightarrow> claimExpiry c = e \<Longrightarrow> False" for k e
    using that by (auto simp: resv_releaseCall)
  show ?thesis
  proof (rule core_invI, goal_cases)
    case (2 h' d)
    then have B: "resv (guardOf w) (claimKey d) = Some (claimExpiry d)"
      "maxLiveCancelOwnerExpiry (claimKey d) (clock w) (guardOf w) = None"
      using core_build [OF inv, of h' d] by auto
    have "False" if c: "c \<in> set cs" "claimKey c = claimKey d" "claimExpiry c = claimExpiry d" for c
    proof -
      have "(h, c) \<in> held w" "(h', d) \<in> held w" "(h, c) \<noteq> (h', d)" using own c 2 by auto
      from core_exclusive [OF inv this] show False using c 2 build by auto
    qed
    then show ?case using keep [OF B(1)] B(2) 2 by (auto simp: m)
  next
    case (4 k x)
    then have M: "maxLiveCancelOwnerExpiry k (clock w) (guardOf w) = Some x" by (simp add: m)
    note x = maxOwner_Some(2) [OF core_wf [OF inv] M]
    have "False" if c: "c \<in> set cs" "claimKey c = k" "claimExpiry c = x" for c
      using core_build [OF inv, of h c] own build c x M by auto
    then show ?case using keep [OF core_reserve [OF inv M] x] by auto
  next
    case (7 h1 c h2 d)
    then show ?case using core_exclusive [OF inv, of h1 c h2 d] by simp
  next
    case (8 h1 c h2 d i)
    then show ?case using core_owners [OF inv, of h1 c h2 d i] by simp
  qed (use core_wf [OF inv] t core_cancel [OF inv] core_bounded [OF inv] in \<open>auto\<close>)
qed

lemma dropOwners_single: "claimOwner c = Some i \<Longrightarrow> releaseEnvelopeCancelClaims [c] now g =
    (let (heldOn, g1) = dropCancelOwner (claimKey c) i now g
     in if heldOn then g1 else releaseCallReservations [c] g1)"
  by (simp add: releaseEnvelopeCancelClaims_def split: prod.splits)

text \<open>Releasing a cancel: its token goes, and its reservation unless another cancel still holds it.\<close>

lemma core_release_cancel:
  assumes inv: "core_inv w" and own: "(h, c) \<in> held w" and i: "claimOwner c = Some i"
  shows "core_inv (w\<lparr>guardOf := releaseEnvelopeCancelClaims [c] (clock w) (guardOf w), held := held w - {(h, c)}\<rparr>)"
proof -
  define g1 where "g1 = snd (dropCancelOwner (claimKey c) i (clock w) (guardOf w))"
  define b where "b = fst (dropCancelOwner (claimKey c) i (clock w) (guardOf w))"
  let ?g' = "releaseEnvelopeCancelClaims [c] (clock w) (guardOf w)"
  note wf = core_wf [OF inv]
  have w1: "guard_wf g1" unfolding g1_def using wf by blast
  have T: "clock w < e \<Longrightarrow> token g1 k j = Some e \<longleftrightarrow>
      token (guardOf w) k j = Some e \<and> \<not> (k = claimKey c \<and> j = i)" for e k j
    unfolding g1_def by (rule dropCancelOwner_token [OF wf])
  note R = dropCancelOwner_resv [where k = "claimKey c" and i = i and now = "clock w" and g = "guardOf w", folded g1_def b_def]
  have g': "?g' = (if b then g1 else releaseCallReservations [c] g1)"
    by (simp add: dropOwners_single [OF i] g1_def b_def split: prod.splits)
  have w': "guard_wf ?g'" unfolding g' using w1 by auto
  have t': "token ?g' = token g1" by (rule token_cong) (simp add: g')
  have m': "maxLiveCancelOwnerExpiry k (clock w) ?g' = maxLiveCancelOwnerExpiry k (clock w) g1" for k
    by (simp add: maxLiveCancelOwnerExpiry_def g')
  have mo: "maxLiveCancelOwnerExpiry k (clock w) g1 = maxLiveCancelOwnerExpiry k (clock w) (guardOf w)"
    if "k \<noteq> claimKey c" for k
    by (rule maxOwner_cong [OF w1 wf]) (use T that in auto)
  have mn: "maxLiveCancelOwnerExpiry k (clock w) (guardOf w) = None \<Longrightarrow> maxLiveCancelOwnerExpiry k (clock w) g1 = None" for k
    using maxOwner_None [OF wf, of k "clock w"] maxOwner_None [OF w1, of k "clock w"] T by (meson linorder_not_less)
  have ro: "resv ?g' k = resv (guardOf w) k" if "k \<noteq> claimKey c" for k
    using R(1) [OF that] that by (auto simp: g' resv_releaseCall jm.get_del)
  have sub: "token g1 k j = Some e \<Longrightarrow> e \<le> clock w + RESERVATION_TTL_MS" for k j e
    using T [of e k j] core_bounded(1) [OF inv, of k j e] ttl_pos by (cases "clock w < e") auto
  show ?thesis
  proof (rule core_invI, goal_cases)
    case (2 h' d)
    then have d: "(h', d) \<in> held w" "(h', d) \<noteq> (h, c)" "liveClaim w d" "claimOwner d = None" by auto
    note B = core_build [OF inv d(1,3,4)]
    have "resv ?g' (claimKey d) = Some (claimExpiry d)"
    proof (cases "claimKey d = claimKey c")
      case True
      have nb: "\<not> b" using R(2) mn B True by auto
      have "claimExpiry c \<noteq> claimExpiry d"
        using core_exclusive [OF inv d(1) own d(2) True d(3)] d(3,4) by auto
      then show ?thesis using nb R(3) [OF nb] B True by (auto simp: g' resv_releaseCall)
    qed (use ro B in auto)
    then show ?case using mn B by (simp add: m')
  next
    case (3 h' d j)
    then have d: "(h', d) \<in> held w" "(h', d) \<noteq> (h, c)" "liveClaim w d" "claimOwner d = Some j" by auto
    then have "j \<noteq> i" using core_owners [OF inv d(1) own, of i] i by auto
    then show ?case using T core_cancel [OF inv d(1,3,4)] d(3) by (simp add: t')
  next
    case (4 k x)
    then have M: "maxLiveCancelOwnerExpiry k (clock w) g1 = Some x" by (simp add: m')
    show ?case
    proof (cases "k = claimKey c")
      case True
      then have "b" using R(3) M by auto
      then show ?thesis using R(2) M True by (simp add: g')
    qed (use ro mo M core_reserve [OF inv, of k x] in simp)
  next
    case (5 k j e)
    then show ?case using sub by (simp add: t')
  next
    case (7 h1 c1 h2 d)
    then show ?case using core_exclusive [OF inv, of h1 c1 h2 d] by simp
  next
    case (8 h1 c1 h2 d j)
    then show ?case using core_owners [OF inv, of h1 c1 h2 d j] by simp
  qed (use w' core_bounded(2) [OF inv] in auto)
qed

text \<open>The loop over a ticket's claims does what the two ledger releases do.\<close>

lemma releaseClaims_build: "\<forall>c \<in> set cs. claimOwner c = None \<Longrightarrow>
    snd (releaseClaims cs now g) = releaseCallReservations cs g"
  by (induction cs arbitrary: g) (simp_all add: Let_def case_prod_beta)

lemma releaseClaims_cancel: "claimOwner c = Some i \<Longrightarrow>
    snd (releaseClaims [c] now g) = releaseEnvelopeCancelClaims [c] now g"
  using dropCancelOwner_resv(2) [of "claimKey c" i now g]
  by (auto simp: dropOwners_single Let_def split: prod.splits)

lemma retireRecentBuild_frame [simp]:
  "outpointReservations (retireRecentBuild t g) = outpointReservations g"
  "envelopeCancelClaims (retireRecentBuild t g) = envelopeCancelClaims g"
  "reservationTickets (retireRecentBuild t g) = reservationTickets g"
  by (auto simp: retireRecentBuild_def split: option.splits)

lemma retireRecentBuild_wf [intro]: "guard_wf g \<Longrightarrow> guard_wf (retireRecentBuild t g)"
  by (auto simp: retireRecentBuild_def guard_wf_def intro: jm.wf_del split: option.splits)

lemma core_cong:
  assumes "core_inv w" "guard_wf (guardOf w')"
    and "outpointReservations (guardOf w') = outpointReservations (guardOf w)"
    and "envelopeCancelClaims (guardOf w') = envelopeCancelClaims (guardOf w)"
    and "clock w' = clock w" "held w' = held w"
  shows "core_inv w'"
proof -
  have t: "token (guardOf w') = token (guardOf w)" by (rule token_cong) (rule assms)
  have m: "maxLiveCancelOwnerExpiry k now (guardOf w') = maxLiveCancelOwnerExpiry k now (guardOf w)" for k now
    by (simp add: maxLiveCancelOwnerExpiry_def assms)
  note eqs = t m assms(3-6)
  show ?thesis
  proof (rule core_invI, goal_cases)
    case 1
    show ?case by (rule assms(2))
  next
    case (2 h c)
    then show ?case using core_build [OF assms(1), of h c] by (simp add: eqs)
  next
    case (3 h c i)
    then show ?case using core_cancel [OF assms(1), of h c i] by (simp add: eqs)
  next
    case (4 k x)
    then show ?case using core_reserve [OF assms(1), of k x] by (simp add: eqs)
  next
    case (5 k i e)
    then show ?case using core_bounded(1) [OF assms(1), of k i e] by (simp add: eqs)
  next
    case (6 h c)
    then show ?case using core_bounded(2) [OF assms(1), of h c] by (simp add: eqs)
  next
    case (7 h c h' d)
    then show ?case using core_exclusive [OF assms(1), of h c h' d] by (simp add: eqs)
  next
    case (8 h c h' d i)
    then show ?case using core_owners [OF assms(1), of h c h' d i] by (simp add: eqs)
  qed
qed

lemma core_bookkeeping:
  assumes "core_inv w"
  shows "core_inv (w\<lparr>phase := p\<rparr>)" "core_inv (w\<lparr>phase := p, ticketOwner := o'\<rparr>)"
  by (rule core_cong [OF assms]; use core_wf [OF assms] in simp)+

lemma free_probe: "isOutpointReserved k now g = (False, g1) \<Longrightarrow> resv g1 k = None"
  by (auto simp: isOutpointReserved_def guard_simps split: option.splits if_splits)

lemma step_take_free:
  assumes inv: "guard_inv w" and p: "isOutpointReserved k (clock w) (guardOf w) = (False, g1)"
    and cl: "claimOutpoint emptyLedger k (clock w) g1 = (l, g2)"
  shows "guard_inv (w\<lparr>guardOf := g2, held := held w \<union> Pair h ` set (claims l)\<rparr>)"
proof -
  have g1: "g1 = snd (isOutpointReserved k (clock w) (guardOf w))" using p by simp
  have wf: "guard_wf g1" using inv g1 by (auto simp: guard_inv_def dest: core_wf)
  have inv1: "guard_inv (w\<lparr>guardOf := g1\<rparr>)"
    using guard_inv_same_live [OF inv wf] same_live_probe g1 by simp
  then have c: "core_inv (w\<lparr>guardOf := g1\<rparr>)" and t: "tickets_owned (w\<lparr>guardOf := g1\<rparr>)"
    by (simp_all add: guard_inv_def)
  have rt: "reservationTickets g2 = reservationTickets g1"
    using cl by (auto simp: claimOutpoint_def reserveOutpoint_def Let_def)
  show ?thesis
    using core_take_free [OF c, of k l g2 h] tickets_grow [OF t, of _ g2] rt cl free_probe [OF p]
    by (simp add: guard_inv_def)
qed

lemma step_take_cancel:
  assumes inv: "guard_inv w"
    and cl: "claimCommitOutpoint emptyLedger txid vout (clock w) i (guardOf w) = (g', Inr l)"
    and fresh: "\<forall>k. token (guardOf w) k i = None" "\<forall>(h', c) \<in> held w. claimOwner c \<noteq> Some i"
  shows "guard_inv (w\<lparr>guardOf := g', held := held w \<union> Pair h ` set (claims l)\<rparr>)"
proof -
  have wf: "guard_wf (guardOf w)" using inv by (auto simp: guard_inv_def dest: core_wf)
  obtain gb where G: "same_live (clock w) (guardOf w) gb" "guard_wf gb" "guard_wf g'"
    "resv gb (outpointKey txid vout) = None \<or>
       maxLiveCancelOwnerExpiry (outpointKey txid vout) (clock w) gb = resv gb (outpointKey txid vout)"
    "claims l = [mkClaim (outpointKey txid vout) (clock w + RESERVATION_TTL_MS) (Some i)]"
    "\<And>k'. resv g' k' = (if k' = outpointKey txid vout then Some (clock w + RESERVATION_TTL_MS) else resv gb k')"
    "\<And>k' j. token g' k' j = (if k' = outpointKey txid vout \<and> j = i then Some (clock w + RESERVATION_TTL_MS)
       else token gb k' j)"
    "reservationTickets g' = reservationTickets (guardOf w)"
    using claimCommitOutpoint_granted [OF wf cl] by auto
  have c: "core_inv (w\<lparr>guardOf := gb\<rparr>)" and t: "tickets_owned w"
    using guard_inv_same_live [OF inv G(2,1)] inv by (simp_all add: guard_inv_def)
  have "token gb k' i = None" for k' using G(1) fresh(1) unfolding same_live_def
    by (metis option.exhaust option.distinct(1))
  then have "core_inv ((w\<lparr>guardOf := gb\<rparr>)\<lparr>guardOf := g', held := insert (h, mkClaim (outpointKey txid vout)
      (clock (w\<lparr>guardOf := gb\<rparr>) + RESERVATION_TTL_MS) (Some i)) (held (w\<lparr>guardOf := gb\<rparr>))\<rparr>)"
    by (intro core_take_cancel [OF c]) (use G(4) fresh(2) in \<open>auto simp: G(3) G(6) G(7)\<close>)
  then have "core_inv (w\<lparr>guardOf := g', held := held w \<union> Pair h ` set (claims l)\<rparr>)"
    by (simp add: G(5))
  moreover have "tickets_owned (w\<lparr>guardOf := g', held := held w \<union> Pair h ` set (claims l)\<rparr>)"
    by (rule tickets_grow [OF t _ G(8)]) simp
  ultimately show ?thesis by (simp add: guard_inv_def)
qed

text \<open>A failing call is not the owner of a ticket, so no ticket loses a claim.\<close>

lemma tickets_fail:
  assumes t: "tickets_owned w" and r: "phase w h = Running"
    and rt: "reservationTickets g' = reservationTickets (guardOf w)" and C: "\<forall>x \<in> C. fst x = h"
  shows "tickets_owned (w\<lparr>guardOf := g', held := held w - C, phase := (phase w)(h := Finished)\<rparr>)"
proof -
  have ne: "ticketOwner w rid \<noteq> h" if "jm_get (reservationTickets (guardOf w)) rid = Some x" for rid x
    using t r that by (auto simp: tickets_owned_def)
  show ?thesis using t ne C unfolding tickets_owned_def
    by (simp add: rt) (smt (verit) DiffI fst_conv image_subset_iff)
qed

lemma step_fail_create:
  assumes inv: "guard_inv w" and r: "phase w h = Running" and cs: "set cs = claimsOf w h"
    and b: "\<forall>c \<in> set cs. claimOwner c = None"
  shows "guard_inv (w\<lparr>guardOf := releaseCallReservations cs (guardOf w),
                    held := held w - Pair h ` set cs, phase := (phase w)(h := Finished)\<rparr>)"
proof -
  have "Pair h ` set cs \<subseteq> held w" by (auto simp: cs claimsOf_def)
  with core_release_build [OF _ this b] inv
  have "core_inv (w\<lparr>guardOf := releaseCallReservations cs (guardOf w), held := held w - Pair h ` set cs\<rparr>)"
    by (simp add: guard_inv_def)
  from core_bookkeeping(1) [OF this] show ?thesis
    using tickets_fail [OF _ r, of "releaseCallReservations cs (guardOf w)" "Pair h ` set cs"] inv
    by (auto simp: guard_inv_def)
qed

lemma releaseCancel_tickets: "claimOwner c = Some i \<Longrightarrow>
    reservationTickets (releaseEnvelopeCancelClaims [c] now g) = reservationTickets g"
  using dropCancelOwner_frame(2) [of "claimKey c" i now g]
  by (auto simp: dropOwners_single split: prod.splits simp del: dropCancelOwner_frame)

lemma step_fail_cancel:
  assumes inv: "guard_inv w" and r: "phase w h = Running" and cs: "claimsOf w h = {c}"
    and i: "claimOwner c = Some i"
  shows "guard_inv (w\<lparr>guardOf := releaseEnvelopeCancelClaims [c] (clock w) (guardOf w),
                    held := held w - {(h, c)}, phase := (phase w)(h := Finished)\<rparr>)"
proof -
  have "(h, c) \<in> held w" using cs by (auto simp: claimsOf_def)
  from core_release_cancel [OF _ this i] inv
  have "core_inv (w\<lparr>guardOf := releaseEnvelopeCancelClaims [c] (clock w) (guardOf w), held := held w - {(h, c)}\<rparr>)"
    by (simp add: guard_inv_def)
  note this = core_bookkeeping(1) [OF this]
  then show ?thesis
    using tickets_fail [OF _ r releaseCancel_tickets [OF i], of "{(h, c)}"] inv
    by (simp add: guard_inv_def)
qed

text \<open>Minting a ticket for a call that is over: it only lists claims the call still holds.\<close>

lemma mint_shape:
  assumes "mintReservationTicket l now rid g = (rc, g')" "guard_wf g"
  shows "outpointReservations g' = outpointReservations g" "envelopeCancelClaims g' = envelopeCancelClaims g"
    "recentBuilds g' = recentBuilds g" "guard_wf g'"
    "jm_get (reservationTickets g') r = Some t \<Longrightarrow> jm_get (reservationTickets g) r = Some t \<or>
       r = rid \<and> set (ticketClaims t) \<subseteq> set (claims l) \<and> ((\<exists>c. claims l = [c]) \<longrightarrow> (\<exists>c. ticketClaims t = [c]))"
proof -
  let ?g = "evictExpiredReservationTickets now g"
  have w: "guard_wf ?g" using assms(2) by blast
  have g': "g' = ?g \<or> (\<exists>t. g' = ?g\<lparr>reservationTickets := jm_set rid t (reservationTickets ?g)\<rparr> \<and>
      ticketClaims t = filter (\<lambda>c. resv ?g (claimKey c) = Some (claimExpiry c)) (claims l) \<and> ticketClaims t \<noteq> [])"
    using assms(1) by (auto simp: mintReservationTicket_def Let_def split: if_splits)
  then show "outpointReservations g' = outpointReservations g" "envelopeCancelClaims g' = envelopeCancelClaims g"
    "recentBuilds g' = recentBuilds g" by auto
  show "guard_wf g'" using g' w by (auto simp: guard_wf_def intro: jm.wf_put)
  have old: "jm_get (reservationTickets ?g) r = Some t \<Longrightarrow> jm_get (reservationTickets g) r = Some t" for r t
    using same_live_evictTickets [OF assms(2)] by (auto simp: same_live_def)
  show "jm_get (reservationTickets g') r = Some t \<Longrightarrow> jm_get (reservationTickets g) r = Some t \<or>
       r = rid \<and> set (ticketClaims t) \<subseteq> set (claims l) \<and> ((\<exists>c. claims l = [c]) \<longrightarrow> (\<exists>c. ticketClaims t = [c]))"
    using g' old by (auto simp: jm.get_put split: if_splits)
qed

lemma step_mint:
  assumes inv: "guard_inv w" and r: "phase w h = Running" and l: "set (claims l) = claimsOf w h"
    and m: "mintReservationTicket l (clock w) rid (guardOf w) = (rc, g')"
    and new: "jm_get (reservationTickets (guardOf w)) rid = None"
    and one: "(\<forall>c \<in> set (claims l). claimOwner c = None) \<or> (\<exists>c. claims l = [c])"
  shows "guard_inv (w\<lparr>guardOf := g', phase := (phase w)(h := Finished), ticketOwner := (ticketOwner w)(rid := h)\<rparr>)"
    (is "guard_inv ?w")
proof -
  have c: "core_inv w" and t: "tickets_owned w" using inv by (simp_all add: guard_inv_def)
  note S = mint_shape [OF m core_wf [OF c]]
  have "core_inv ?w" by (rule core_cong [OF c]) (simp_all add: S)
  moreover have "tickets_owned ?w"
  proof -
    have ne: "ticketOwner w r' \<noteq> h" "r' \<noteq> rid" if "jm_get (reservationTickets (guardOf w)) r' = Some t'" for r' t'
      using t r new that by (auto simp: tickets_owned_def)
    have old: "phase w (ticketOwner w r') = Finished \<and> Pair (ticketOwner w r') ` set (ticketClaims t') \<subseteq> held w \<and>
        ((\<forall>c \<in> set (ticketClaims t'). claimOwner c = None) \<or> (\<exists>c. ticketClaims t' = [c]))"
      if "jm_get (reservationTickets (guardOf w)) r' = Some t'" for r' t'
      using t that unfolding tickets_owned_def by blast
    have new': "Pair h ` set (ticketClaims t') \<subseteq> held w \<and>
        ((\<forall>c \<in> set (ticketClaims t'). claimOwner c = None) \<or> (\<exists>c. ticketClaims t' = [c]))"
      if "set (ticketClaims t') \<subseteq> set (claims l)" "(\<exists>c. claims l = [c]) \<longrightarrow> (\<exists>c. ticketClaims t' = [c])" for t'
      using one that l by (auto simp: claimsOf_def)
    have pair: "ticketOwner w r2 \<noteq> ticketOwner w r1" if "jm_get (reservationTickets (guardOf w)) r1 = Some t1"
      "jm_get (reservationTickets (guardOf w)) r2 = Some t2" "r2 \<noteq> r1" for r1 r2 t1 t2
      using t that unfolding tickets_owned_def by blast
    show ?thesis unfolding tickets_owned_def
    proof (intro allI impI)
      fix r1 t1 assume 1: "jm_get (reservationTickets (guardOf ?w)) r1 = Some t1"
      then have 1: "jm_get (reservationTickets g') r1 = Some t1" by simp
      have two: "ticketOwner ?w r2 \<noteq> ticketOwner ?w r1"
        if "jm_get (reservationTickets (guardOf ?w)) r2 = Some t2" "r2 \<noteq> r1" for r2 t2
        using S(5) [OF 1] S(5) [of r2 t2] that ne pair by auto
      from S(5) [OF 1] show "phase ?w (ticketOwner ?w r1) = Finished \<and>
          Pair (ticketOwner ?w r1) ` set (ticketClaims t1) \<subseteq> held ?w \<and>
          ((\<forall>c \<in> set (ticketClaims t1). claimOwner c = None) \<or> (\<exists>c. ticketClaims t1 = [c])) \<and>
          (\<forall>rid' t'. jm_get (reservationTickets (guardOf ?w)) rid' = Some t' \<longrightarrow> rid' \<noteq> r1 \<longrightarrow>
             ticketOwner ?w rid' \<noteq> ticketOwner ?w r1)"
      proof
        assume A: "jm_get (reservationTickets (guardOf w)) r1 = Some t1"
        show ?thesis using old [OF A] ne [OF A] two by simp
      next
        assume A: "r1 = rid \<and> set (ticketClaims t1) \<subseteq> set (claims l) \<and>
          ((\<exists>c. claims l = [c]) \<longrightarrow> (\<exists>c. ticketClaims t1 = [c]))"
        then show ?thesis using new' [of t1] two by simp
      qed
    qed
  qed
  ultimately show ?thesis by (simp add: guard_inv_def)
qed

lemma step_redeem_found:
  assumes inv: "guard_inv w" and tk: "jm_get (reservationTickets (sweepAll (clock w) (guardOf w))) rid = Some t"
    and rel: "releaseClaims (ticketClaims t) (clock w) ((sweepAll (clock w) (guardOf w))
      \<lparr>reservationTickets := jm_delete rid (reservationTickets (sweepAll (clock w) (guardOf w)))\<rparr>) = (x, g2)"
  shows "guard_inv (w\<lparr>guardOf := retireRecentBuild t g2,
    held := held w - Pair (ticketOwner w rid) ` set (ticketClaims t)\<rparr>)" (is "guard_inv ?w")
proof -
  let ?gs = "sweepAll (clock w) (guardOf w)" and ?h = "ticketOwner w rid" and ?cs = "ticketClaims t"
  define g1 where "g1 = ?gs\<lparr>reservationTickets := jm_delete rid (reservationTickets ?gs)\<rparr>"
  have wf: "guard_wf (guardOf w)" using inv by (auto simp: guard_inv_def dest: core_wf)
  have invs: "guard_inv (w\<lparr>guardOf := ?gs\<rparr>)"
    by (rule guard_inv_same_live [OF inv]) (use wf same_live_sweepAll in blast)+
  have w1: "guard_wf g1" using sweepAll_wf [OF wf] by (auto simp: g1_def guard_wf_def intro: jm.wf_del)
  have c1: "core_inv (w\<lparr>guardOf := g1\<rparr>)"
    by (rule core_cong [of "w\<lparr>guardOf := ?gs\<rparr>"]) (use invs w1 in \<open>simp_all add: guard_inv_def, simp_all add: g1_def\<close>)
  have T: "tickets_owned (w\<lparr>guardOf := ?gs\<rparr>)" using invs by (simp add: guard_inv_def)
  then have own: "Pair ?h ` set ?cs \<subseteq> held w" and sh: "(\<forall>c \<in> set ?cs. claimOwner c = None) \<or> (\<exists>c. ?cs = [c])"
    using tk by (auto simp: tickets_owned_def)
  have g2: "g2 = snd (releaseClaims ?cs (clock w) g1)" using rel by (simp add: g1_def)
  have "core_inv (w\<lparr>guardOf := g2, held := held w - Pair ?h ` set ?cs\<rparr>) \<and> guard_wf g2 \<and>
      reservationTickets g2 = reservationTickets g1"
  proof (cases "\<forall>c \<in> set ?cs. claimOwner c = None")
    case True
    then show ?thesis
      using core_release_build [OF c1, of ?h ?cs] own w1 by (auto simp: g2 releaseClaims_build)
  next
    case False
    then obtain c i where c: "?cs = [c]" "claimOwner c = Some i" using sh by auto
    have g2': "g2 = releaseEnvelopeCancelClaims [c] (clock w) g1"
      by (simp add: g2 c(1) releaseClaims_cancel [OF c(2)] del: releaseClaims.simps)
    have "core_inv (w\<lparr>guardOf := g2, held := held w - {(?h, c)}\<rparr>)"
      using core_release_cancel [OF c1, of ?h c] c own by (simp add: g2')
    then show ?thesis using core_wf [of "w\<lparr>guardOf := g2, held := held w - {(?h, c)}\<rparr>"]
      by (simp add: c(1) g2' releaseCancel_tickets [OF c(2)])
  qed
  then have c2: "core_inv (w\<lparr>guardOf := g2, held := held w - Pair ?h ` set ?cs\<rparr>)" and w2: "guard_wf g2"
    and t2: "reservationTickets g2 = reservationTickets g1" by auto
  have "core_inv ?w" by (rule core_cong [OF c2]) (use w2 in auto)
  moreover have "tickets_owned ?w"
  proof -
    have keep: "jm_get (reservationTickets ?gs) r = Some t'" "r \<noteq> rid"
      if "jm_get (reservationTickets (guardOf ?w)) r = Some t'" for r t'
      using that by (auto simp: t2 g1_def jm.get_del split: if_splits)
    have ne: "ticketOwner w r \<noteq> ?h" if "jm_get (reservationTickets ?gs) r = Some t'" "r \<noteq> rid" for r t'
      using T tk that unfolding tickets_owned_def by auto
    show ?thesis unfolding tickets_owned_def
    proof (intro allI impI)
      fix r t' assume A: "jm_get (reservationTickets (guardOf ?w)) r = Some t'"
      note K = keep [OF A] and N = ne [OF keep [OF A]]
      have B: "phase w (ticketOwner w r) = Finished \<and> Pair (ticketOwner w r) ` set (ticketClaims t') \<subseteq> held w \<and>
        ((\<forall>c \<in> set (ticketClaims t'). claimOwner c = None) \<or> (\<exists>c. ticketClaims t' = [c])) \<and>
        (\<forall>rid' t''. jm_get (reservationTickets ?gs) rid' = Some t'' \<longrightarrow> rid' \<noteq> r \<longrightarrow>
           ticketOwner w rid' \<noteq> ticketOwner w r)"
        using T K(1) unfolding tickets_owned_def by auto
      then show "phase ?w (ticketOwner ?w r) = Finished \<and>
          Pair (ticketOwner ?w r) ` set (ticketClaims t') \<subseteq> held ?w \<and>
          ((\<forall>c \<in> set (ticketClaims t'). claimOwner c = None) \<or> (\<exists>c. ticketClaims t' = [c])) \<and>
          (\<forall>rid' t''. jm_get (reservationTickets (guardOf ?w)) rid' = Some t'' \<longrightarrow> rid' \<noteq> r \<longrightarrow>
             ticketOwner ?w rid' \<noteq> ticketOwner ?w r)"
        using N keep by auto
    qed
  qed
  ultimately show ?thesis by (simp add: guard_inv_def)
qed

lemma step_redeem:
  assumes inv: "guard_inv w" and r: "releaseReservation rid (clock w) (guardOf w) = (g', r)"
  shows "guard_inv (w\<lparr>guardOf := g',
      held := (case r of
                 Inr x \<Rightarrow> if found x
                   then held w - Pair (ticketOwner w rid) `
                     (case jm_get (reservationTickets (guardOf w)) rid of None \<Rightarrow> {}
                      | Some t \<Rightarrow> set (ticketClaims t))
                   else held w
               | Inl e \<Rightarrow> held w)\<rparr>)"
proof -
  let ?gs = "sweepAll (clock w) (guardOf w)"
  have wf: "guard_wf (guardOf w)" using inv by (auto simp: guard_inv_def dest: core_wf)
  consider "\<not> isReservationId rid" | "isReservationId rid" "jm_get (reservationTickets ?gs) rid = None"
    | t where "isReservationId rid" "jm_get (reservationTickets ?gs) rid = Some t"
    by (cases "jm_get (reservationTickets ?gs) rid") auto
  then show ?thesis
  proof cases
    case 1
    then show ?thesis using r inv by (auto simp: releaseReservation_def)
  next
    case 2
    have "guard_inv (w\<lparr>guardOf := ?gs\<rparr>)"
      by (rule guard_inv_same_live [OF inv]) (use wf same_live_sweepAll in blast)+
    then show ?thesis using r 2 by (auto simp: releaseReservation_def Let_def)
  next
    case 3
    obtain x g2 where rel: "releaseClaims (ticketClaims t) (clock w) (?gs
      \<lparr>reservationTickets := jm_delete rid (reservationTickets ?gs)\<rparr>) = (x, g2)" by fastforce
    have t0: "jm_get (reservationTickets (guardOf w)) rid = Some t"
      using 3(2) same_live_sweepAll [OF wf, of "clock w"] by (auto simp: same_live_def)
    show ?thesis using step_redeem_found [OF inv 3(2) rel] r 3 rel
      by (auto simp: releaseReservation_def Let_def t0 split: prod.splits)
  qed
qed

theorem guard_step_inv: "guard_step w w' \<Longrightarrow> guard_inv w \<Longrightarrow> guard_inv w'"
proof (induction rule: guard_step.induct)
  case (tick w t)
  then show ?case using guard_inv_tick by blast
next
  case (sweep w)
  then have "guard_wf (guardOf w)" by (auto simp: guard_inv_def dest: core_wf)
  then show ?case by (intro guard_inv_same_live [OF sweep] same_live_evict evict_wf)
next
  case (probe k w r g')
  then have "g' = snd (isOutpointReserved k (clock w) (guardOf w))" by simp
  then show ?case using probe
    by (metis core_wf isOutpointReserved_wf guard_inv_def guard_inv_same_live same_live_probe)
next
  case (take_free k w g1 l g2 h)
  then show ?case using step_take_free by blast
next
  case (take_cancel txid vout w i g' l h)
  then show ?case using step_take_cancel by blast
next
  case (refuse_cancel txid vout w i g' e)
  then have "guard_wf (guardOf w)" by (auto simp: guard_inv_def dest: core_wf)
  from claimCommitOutpoint_refused [OF this refuse_cancel(1)] show ?case
    using guard_inv_same_live [OF refuse_cancel(2)] by blast
next
  case (fail_create w h cs)
  then show ?case using step_fail_create by blast
next
  case (fail_cancel w h c i)
  then show ?case using step_fail_cancel by blast
next
  case (mint w h l rid rc g')
  then show ?case using step_mint by blast
next
  case (redeem rid w g' r)
  then show ?case using step_redeem by blast
qed

theorem guard_reachable_inv: "guard_reachable w \<Longrightarrow> guard_inv w"
  by (induction rule: guard_reachable.induct) (auto intro: guard_inv_init guard_step_inv)

end
