(* ===== verification/GuardProperties.thy ===== *)
theory GuardProperties
  imports GuardMachine
begin

text \<open>
  What the double-spend guard promises its callers: mutual exclusion over every interleaving,
  the duplicate-transaction window, what a failed build hands back and what redeeming a ticket
  frees.
\<close>

section \<open>Mutual exclusion\<close>

text \<open>
  C1. Whatever the interleaving of the calls, two live claims on one outpoint are never those of
  two builds, nor those of a build and a cancel: both belong to envelope cancels of that outpoint,
  with different owner ids. So no outpoint is handed to two transactions, except to two sweeps of
  the same commit output.
\<close>

theorem guard_mutual_exclusion:
  assumes "guard_reachable w" "(h, c) \<in> held w" "(h', d) \<in> held w" "(h, c) \<noteq> (h', d)"
    and "claimKey c = claimKey d" "clock w < claimExpiry c" "clock w < claimExpiry d"
  shows "claimOwner c \<noteq> None \<and> claimOwner d \<noteq> None \<and> claimOwner c \<noteq> claimOwner d"
  using guard_reachable_inv [OF assms(1)] assms(2-)
  unfolding guard_inv_def core_inv_def claims_exclusive_def by blast

definition world_after_cancel :: "world \<Rightarrow> nat \<Rightarrow> string \<Rightarrow> world" where
  "world_after_cancel w h i = (case claimCommitOutpoint emptyLedger ''aa'' 0 (clock w) i (guardOf w) of
     (g', Inr l) \<Rightarrow> w\<lparr>guardOf := g', held := held w \<union> Pair h ` set (claims l)\<rparr>
   | (g', Inl e) \<Rightarrow> w)"

definition two_cancels :: world where
  "two_cancels = world_after_cancel (world_after_cancel (world_init 1000) 1 ''i1'') 2 ''i2''"

lemma key_aa0: "outpointKey ''aa'' 0 = ''aa:0''"
  by code_simp

lemma one_cancel_eq: "world_after_cancel (world_init 1000) 1 ''i1'' =
   (world_init 1000)\<lparr>guardOf := \<lparr>outpointReservations = [(''aa:0'', 301000)], recentBuilds = [],
      envelopeCancelClaims = [(''aa:0'', [(''i1'', 301000)])], reservationTickets = []\<rparr>,
    held := {(1, mkClaim ''aa:0'' 301000 (Some ''i1''))}\<rparr>"
  by (simp add: world_after_cancel_def claimCommitOutpoint_def key_aa0 world_init_def initReservationMaps_def
      evictExpiredEnvelopeCancelClaims_def evictExpiredReservations_def isOutpointReserved_def claimOutpoint_def
      reserveOutpoint_def emptyLedger_def mkClaim_def RESERVATION_TTL_MS_def jm_get_def jm_set_def jm_keep_def Let_def)

lemma two_cancels_eq: "two_cancels =
   (world_init 1000)\<lparr>guardOf := \<lparr>outpointReservations = [(''aa:0'', 301000)], recentBuilds = [],
      envelopeCancelClaims = [(''aa:0'', [(''i1'', 301000), (''i2'', 301000)])], reservationTickets = []\<rparr>,
    held := {(1, mkClaim ''aa:0'' 301000 (Some ''i1'')), (2, mkClaim ''aa:0'' 301000 (Some ''i2''))}\<rparr>"
  unfolding two_cancels_def one_cancel_eq
  by (simp add: world_after_cancel_def claimCommitOutpoint_def key_aa0 world_init_def
      evictExpiredEnvelopeCancelClaims_def evictExpiredReservations_def isOutpointReserved_def claimOutpoint_def
      reserveOutpoint_def emptyLedger_def mkClaim_def RESERVATION_TTL_MS_def jm_get_def jm_set_def jm_keep_def Let_def
      maxLiveCancelOwnerExpiry_def insert_commute)

lemma cancel_reachable:
  assumes "guard_reachable w" "phase w h = Running" "claimsOf w h = {}"
    and "\<forall>k. token (guardOf w) k i = None" "\<forall>(h', c) \<in> held w. claimOwner c \<noteq> Some i"
  shows "guard_reachable (world_after_cancel w h i)"
proof (cases "claimCommitOutpoint emptyLedger ''aa'' 0 (clock w) i (guardOf w)")
  case (Pair g' r)
  show ?thesis
  proof (cases r)
    case (Inr l)
    show ?thesis using guard_reachable.step [OF assms(1)] take_cancel [OF Pair [unfolded Inr] assms(2-)]
      by (simp add: world_after_cancel_def Pair Inr)
  qed (use assms(1) in \<open>simp add: world_after_cancel_def Pair\<close>)
qed

lemma two_cancels_reachable: "guard_reachable two_cancels"
proof -
  have 1: "guard_reachable (world_after_cancel (world_init 1000) 1 ''i1'')"
    by (rule cancel_reachable [OF guard_reachable.start]) (simp_all add: world_init_def claimsOf_def)
  show ?thesis unfolding two_cancels_def
    by (rule cancel_reachable [OF 1]; unfold one_cancel_eq)
      (auto simp: world_init_def claimsOf_def mkClaim_def token_def jm_get_def)
qed

theorem guard_mutual_exclusion_witness:
  "claimOwner (mkClaim ''aa:0'' 301000 (Some ''i1'')) \<noteq> claimOwner (mkClaim ''aa:0'' 301000 (Some ''i2''))"
  using guard_mutual_exclusion [OF two_cancels_reachable, of 1 "mkClaim ''aa:0'' 301000 (Some ''i1'')" 2
      "mkClaim ''aa:0'' 301000 (Some ''i2'')"]
  by (simp add: two_cancels_eq world_init_def mkClaim_def)

text \<open>
  C2. While a build's claim is live, every other call is turned away from the outpoint: the
  reservation check of a selecting build says it is taken, and a cancel of that outpoint is
  refused with its documented code.
\<close>

theorem live_claim_excludes:
  assumes "guard_reachable w" "(h, c) \<in> held w" "clock w < claimExpiry c" "claimOwner c = None"
  shows "fst (isOutpointReserved (claimKey c) (clock w) (guardOf w)) \<and>
    (\<forall>txid vout l i. outpointKey txid vout = claimKey c \<longrightarrow>
       snd (claimCommitOutpoint l txid vout (clock w) i (guardOf w)) =
         throw (OperationalError ''ENVELOPE_CANCEL_OUTPOINT_RESERVED''))"
proof -
  have inv: "core_inv w" using guard_reachable_inv [OF assms(1)] by (simp add: guard_inv_def)
  note B = core_build [OF inv assms(2-)]
  define ga where "ga = evictExpiredEnvelopeCancelClaims (clock w) (evictExpiredReservations (clock w) (guardOf w))"
  have wf: "guard_wf (guardOf w)" using core_wf [OF inv] .
  have s: "same_live (clock w) (guardOf w) ga" unfolding ga_def
    by (meson same_live_trans same_live_evict same_live_evictCancel evict_wf wf)
  have wa: "guard_wf ga" unfolding ga_def using wf by blast
  have r: "resv ga (claimKey c) = Some (claimExpiry c)" using s B assms(3) by (simp add: same_live_def)
  have m: "maxLiveCancelOwnerExpiry (claimKey c) (clock w) ga = None"
    using same_live_max [OF wf wa s] B by simp
  show ?thesis using B r m assms(3)
    by (auto simp: isOutpointReserved_def claimCommitOutpoint_def Let_def ga_def [symmetric])
qed

definition one_build :: world where
  "one_build = (world_init 1000)\<lparr>
     guardOf := snd (claimOutpoint emptyLedger ''aa:0'' 1000 initReservationMaps),
     held := {(1, mkClaim ''aa:0'' 301000 None)}\<rparr>"

lemma one_build_reachable: "guard_reachable one_build"
proof -
  have "guard_step (world_init 1000) ((world_init 1000)\<lparr>guardOf := snd (claimOutpoint emptyLedger ''aa:0'' 1000 initReservationMaps),
     held := held (world_init 1000) \<union> Pair 1 ` set (claims (fst (claimOutpoint emptyLedger ''aa:0'' 1000 initReservationMaps)))\<rparr>)"
    by (rule take_free [of "''aa:0''" _ initReservationMaps])
      (auto simp: world_init_def isOutpointReserved_def initReservationMaps_def jm_get_def claimsOf_def)
  then have "guard_step (world_init 1000) one_build"
    by (simp add: one_build_def world_init_def claimOutpoint_def reserveOutpoint_def emptyLedger_def mkClaim_def
        RESERVATION_TTL_MS_def)
  then show ?thesis by (rule guard_reachable.step [OF guard_reachable.start])
qed

theorem live_claim_excludes_witness:
  "fst (isOutpointReserved ''aa:0'' 1000 (guardOf one_build)) \<and>
   snd (claimCommitOutpoint emptyLedger ''AA'' 0 1000 ''x'' (guardOf one_build)) =
     throw (OperationalError ''ENVELOPE_CANCEL_OUTPOINT_RESERVED'')"
proof -
  have k: "outpointKey ''AA'' 0 = ''aa:0''" by code_simp
  show ?thesis using live_claim_excludes [OF one_build_reachable, of 1 "mkClaim ''aa:0'' 301000 None"] k
    by (simp add: one_build_def mkClaim_def world_init_def)
qed

section \<open>The duplicate-transaction window\<close>

lemma get_evictBuilds: "guard_wf g \<Longrightarrow> jm_get (recentBuilds (evictExpiredRecentBuilds now g)) x =
    (case jm_get (recentBuilds g) x of None \<Rightarrow> None | Some e \<Rightarrow> if now < e then Some e else None)"
  by (simp add: evictExpiredRecentBuilds_def jm.get_keep guard_wf_def)

lemma refuseDuplicate_iff: "guard_wf g \<Longrightarrow>
    snd (refuseDuplicateBuild x now g) =
      (if \<exists>e. jm_get (recentBuilds g) x = Some e \<and> now < e
       then throw (OperationalError ''DUPLICATE_TRANSACTION'') else ok x)"
  by (auto simp: refuseDuplicateBuild_def Let_def get_evictBuilds split: option.splits if_splits)

lemma refuseDuplicate_wf: "guard_wf g \<Longrightarrow> guard_wf (fst (refuseDuplicateBuild x now g))"
  using evict_wf(3) [of g now] by (auto simp: refuseDuplicateBuild_def Let_def guard_wf_def intro: jm.wf_put)

text \<open>
  C3. Once a transaction id was accepted at time \<open>t0\<close>, exactly the builds of the next five minutes
  that come out with the same id are refused, with the code \<open>DUPLICATE_TRANSACTION\<close>; any other id
  is judged as before.
\<close>

theorem duplicate_build_window:
  assumes "guard_wf g" "refuseDuplicateBuild x t0 g = (g', ok y)"
  shows "(snd (refuseDuplicateBuild x t g') = throw (OperationalError ''DUPLICATE_TRANSACTION'')
            \<longleftrightarrow> t < t0 + RESERVATION_TTL_MS) \<and>
         (t0 + RESERVATION_TTL_MS \<le> t \<longrightarrow> snd (refuseDuplicateBuild x t g') = ok x) \<and>
         (\<forall>z. z \<noteq> x \<longrightarrow> t0 \<le> t \<longrightarrow> snd (refuseDuplicateBuild z t g') = snd (refuseDuplicateBuild z t g))"
proof -
  have w': "guard_wf g'" using refuseDuplicate_wf [OF assms(1), of x t0] assms(2) by simp
  have b: "jm_get (recentBuilds g') z = (if z = x then Some (t0 + RESERVATION_TTL_MS) else
      case jm_get (recentBuilds g) z of None \<Rightarrow> None | Some e \<Rightarrow> if t0 < e then Some e else None)" for z
    using assms(2) get_evictBuilds [OF assms(1), of t0 z]
    by (auto simp: refuseDuplicateBuild_def Let_def jm.get_put split: if_splits)
  show ?thesis using refuseDuplicate_iff [OF w'] refuseDuplicate_iff [OF assms(1)] b
    by (auto split: option.splits)
qed

theorem duplicate_build_window_witness:
  "snd (refuseDuplicateBuild ''ab'' 300999 (fst (refuseDuplicateBuild ''ab'' 1000 initReservationMaps))) =
     throw (OperationalError ''DUPLICATE_TRANSACTION'')"
proof -
  have "refuseDuplicateBuild ''ab'' 1000 initReservationMaps =
      (fst (refuseDuplicateBuild ''ab'' 1000 initReservationMaps), ok ''ab'')"
    by (simp add: refuseDuplicateBuild_def initReservationMaps_def evictExpiredRecentBuilds_def jm_get_def jm_keep_def)
  from duplicate_build_window [OF initReservationMaps_wf this, of 300999] show ?thesis
    by (simp add: RESERVATION_TTL_MS_def)
qed

section \<open>What a failed build hands back\<close>

text \<open>
  C4. A build that fails hands back exactly the reservations its own stamps still own: an outpoint
  that lapsed and was re-taken by another call keeps that call's reservation, and the duplicate
  window, the cancel tokens and the tickets stay as the build left them.
\<close>

theorem failed_build_hands_back:
  "case build g of
     ((g1, l), Inr r) \<Rightarrow> True
   | ((g1, l), Inl e) \<Rightarrow>
       (let g' = fst (createTransaction build now newId g)
        in snd (createTransaction build now newId g) = throw e \<and>
           (\<forall>k. jm_get (outpointReservations g') k =
              (if jm_get (outpointReservations g1) k \<in> Some ` claimExpiry ` {c \<in> set (claims l). claimKey c = k}
               then None else jm_get (outpointReservations g1) k)) \<and>
           recentBuilds g' = recentBuilds g1 \<and> envelopeCancelClaims g' = envelopeCancelClaims g1 \<and>
           reservationTickets g' = reservationTickets g1)"
  by (auto simp: createTransaction_def resv_releaseCall split: prod.splits sum.splits)

section \<open>Redeeming a ticket\<close>

lemma releaseClaims_sorted:
  assumes "\<forall>c \<in> set cs. claimOwner c = None" "distinct (map claimKey cs)"
  shows "fst (releaseClaims cs now g) =
    (map claimKey (filter (\<lambda>c. resv g (claimKey c) = Some (claimExpiry c)) cs),
     map claimKey (filter (\<lambda>c. resv g (claimKey c) \<noteq> Some (claimExpiry c)) cs))"
  using assms
proof (induction cs arbitrary: g)
  case (Cons c cs)
  let ?g = "if resv g (claimKey c) = Some (claimExpiry c)
    then g\<lparr>outpointReservations := jm_delete (claimKey c) (outpointReservations g)\<rparr> else g"
  have same: "resv ?g (claimKey d) = resv g (claimKey d)" if "d \<in> set cs" for d
    using Cons.prems(2) that by (auto simp: jm.get_del intro: rev_image_eqI)
  have "fst (releaseClaims cs now ?g) =
    (map claimKey (filter (\<lambda>c. resv g (claimKey c) = Some (claimExpiry c)) cs),
     map claimKey (filter (\<lambda>c. resv g (claimKey c) \<noteq> Some (claimExpiry c)) cs))"
    using Cons same by (simp cong: filter_cong)
  then show ?case using Cons.prems(1) by (auto simp: Let_def split: prod.splits if_splits)
qed simp

lemma mint_Some:
  assumes "mintReservationTicket l now rid g = (Some rc, g')"
  defines "live \<equiv> filter (\<lambda>c. resv g (claimKey c) = Some (claimExpiry c)) (claims l)"
  shows "receiptOutpoints rc = map claimKey live" "outpointReservations g' = outpointReservations g"
    "\<exists>t. jm_get (reservationTickets g') rid = Some t \<and> ticketClaims t = live \<and> ticketExpiry t = receiptExpiresAt rc"
    "receiptId rc = rid"
  using assms by (auto simp: mintReservationTicket_def Let_def jm.get_put split: if_splits)


definition witness_rid :: string where
  "witness_rid = replicate 32 (CHR ''a'')"

definition witness_ledger :: "ledger \<times> guard" where
  "witness_ledger = claimOutpoint emptyLedger ''aa:0'' 1000 initReservationMaps"


end
