(* ===== verification/Wire.thy ===== *)
theory Wire
  imports Prelude "HOL-Library.Word"
begin

unbundle bit_operations_syntax

text \<open>
  Bytes and their framing: \<open>Buffer\<close> slices, the compactSize varint of
  \<open>src/src/XChainEncoder/script_amount_helpers.js\<close> with its serialized form, the push sizes of
  \<open>src/src/common/validator/action_data_checks.js\<close>, and what the code relies on from the script
  compiler of bitcoinjs-lib, which is a parameter of every definition that uses it.
\<close>

section \<open>Buffers\<close>

type_synonym byte = "8 word"
type_synonym Buffer = "byte list"

text \<open>\<open>data.subarray(i, j)\<close> for indices that are not negative: both ends are clamped.\<close>

definition subarray :: "'a list \<Rightarrow> nat \<Rightarrow> nat \<Rightarrow> 'a list" where
  "subarray d i j = take (j - i) (drop i d)"

lemma length_subarray [simp]: "length (subarray d i j) = min (j - i) (length d - i)"
  by (auto simp: subarray_def)

lemma subarray_all [simp]: "length d \<le> j \<Longrightarrow> subarray d i j = drop i d"
  by (simp add: subarray_def)

lemma subarray_append: "i \<le> j \<Longrightarrow> j \<le> k \<Longrightarrow> subarray d i j @ subarray d j k = subarray d i k"
proof -
  assume le: "i \<le> j" "j \<le> k"
  then have "drop j d = drop (j - i) (drop i d)" by simp
  moreover from le have "k - i = (j - i) + (k - j)" by simp
  ultimately show ?thesis by (simp only: subarray_def take_add)
qed

text \<open>\<open>Buffer.from('XCHN', 'utf8')\<close>\<close>

definition MAGIC_WORD :: Buffer where
  "MAGIC_WORD = [0x58, 0x43, 0x48, 0x4E]"

lemma length_MAGIC_WORD [simp]: "length MAGIC_WORD = 4"
  by (simp add: MAGIC_WORD_def)

section \<open>Hex\<close>

definition hexValue :: "char \<Rightarrow> nat option" where
  "hexValue c = (let n = of_char c :: nat in
     if 48 \<le> n \<and> n \<le> 57 then Some (n - 48)
     else if 97 \<le> n \<and> n \<le> 102 then Some (n - 87)
     else if 65 \<le> n \<and> n \<le> 70 then Some (n - 55) else None)"

definition isHexString :: "string \<Rightarrow> bool" where
  "isHexString s = list_all (\<lambda>c. hexValue c \<noteq> None) s"

text \<open>\<open>Buffer.from(s, 'hex')\<close>: decoding stops at the first pair that is not hex.\<close>

fun fromHex :: "string \<Rightarrow> Buffer" where
  "fromHex (a # b # r) = (case (hexValue a, hexValue b) of
     (Some x, Some y) \<Rightarrow> of_nat (16 * x + y) # fromHex r | _ \<Rightarrow> [])"
| "fromHex _ = []"

lemma length_fromHex: "isHexString s \<Longrightarrow> length (fromHex s) = length s div 2"
  by (induction s rule: fromHex.induct) (auto simp: isHexString_def)

section \<open>compactSize\<close>

definition compactSizeLen :: "nat \<Rightarrow> nat" where
  "compactSizeLen n = (if n < 253 then 1 else if n \<le> 0xffff then 3 else if n \<le> 0xffffffff then 5 else 9)"

text \<open>\<open>writeUInt16LE\<close> and \<open>writeUInt32LE\<close>: the bytes of the value, least significant first.\<close>

fun bytesLE :: "nat \<Rightarrow> nat \<Rightarrow> Buffer" where
  "bytesLE 0 n = []"
| "bytesLE (Suc k) n = of_nat (n mod 256) # bytesLE k (n div 256)"

fun readLE :: "Buffer \<Rightarrow> nat" where
  "readLE [] = 0"
| "readLE (b # bs) = unat b + 256 * readLE bs"

lemma length_bytesLE [simp]: "length (bytesLE k n) = k"
  by (induction k n rule: bytesLE.induct) auto

lemma unat_byte: "n < 256 \<Longrightarrow> unat (of_nat n :: byte) = n"
  by (simp add: unsigned_of_nat take_bit_nat_def)

lemma readLE_bytesLE: "n < 256 ^ k \<Longrightarrow> readLE (bytesLE k n) = n"
proof (induction k n rule: bytesLE.induct)
  case (2 k n)
  then have "n div 256 < 256 ^ k" by (simp add: less_mult_imp_div_less mult.commute)
  with 2 show ?case by (simp add: unat_byte)
qed simp

text \<open>
  \<open>compactSizeBuffer\<close>. A length over \<open>0xffffffff\<close> makes \<open>writeUInt32LE\<close> throw.
\<close>

definition compactSizeBuffer :: "nat \<Rightarrow> Buffer result" where
  "compactSizeBuffer n =
     (if n < 253 then ok [of_nat n]
      else if n \<le> 0xffff then ok (0xfd # bytesLE 2 n)
      else if n \<le> 0xffffffff then ok (0xfe # bytesLE 4 n)
      else throw (InternalError ''ERR_OUT_OF_RANGE''))"

text \<open>The reading side of the format, as a node does it.\<close>

definition parseCompactSize :: "Buffer \<Rightarrow> (nat \<times> Buffer) option" where
  "parseCompactSize bs =
     (case bs of
        [] \<Rightarrow> None
      | b # r \<Rightarrow>
          let w = (if b = 0xfd then 2 else if b = 0xfe then 4 else if b = 0xff then 8 else 0)
          in if w = 0 then Some (unat b, r)
             else if length r < w then None
             else Some (readLE (take w r), drop w r))"

lemma compactSizeLen_pos: "0 < compactSizeLen n" "compactSizeLen n \<le> 9"
  by (auto simp: compactSizeLen_def)

lemma compactSizeLen_mono: "m \<le> n \<Longrightarrow> compactSizeLen m \<le> compactSizeLen n"
  by (auto simp: compactSizeLen_def)

lemma small_byte_not_marker: "n < 253 \<Longrightarrow> of_nat n \<noteq> (0xfd :: byte) \<and> of_nat n \<noteq> (0xfe :: byte) \<and> of_nat n \<noteq> (0xff :: byte)"
proof -
  assume n: "n < 253"
  then have "unat (of_nat n :: byte) = n" by (simp add: unat_byte)
  then show ?thesis using n by auto
qed

section \<open>Script pushes\<close>

definition OP_RETURN_PUSH_OVERHEAD :: nat where
  "OP_RETURN_PUSH_OVERHEAD = 3"

definition compiledPushSize :: "nat \<Rightarrow> nat" where
  "compiledPushSize byteLength =
     (if byteLength \<le> 75 then byteLength + 1
      else if byteLength \<le> 255 then byteLength + 2
      else byteLength + OP_RETURN_PUSH_OVERHEAD)"

definition envelopePushSize :: "nat \<Rightarrow> nat" where
  "envelopePushSize byteLength = compiledPushSize byteLength + (if 0xffff < byteLength then 2 else 0)"

definition isMinimalOpSingleByte :: "Buffer \<Rightarrow> bool" where
  "isMinimalOpSingleByte buf =
     (if length buf \<noteq> 1 then False
      else (let b = hd buf in (0x01 \<le> b \<and> b \<le> 0x10) \<or> b = 0x81))"

lemma isMinimalOpSingleByte_long: "length buf \<noteq> 1 \<Longrightarrow> \<not> isMinimalOpSingleByte buf"
  by (simp add: isMinimalOpSingleByte_def)

lemma compiledPushSize_ge: "n < compiledPushSize n" "compiledPushSize n \<le> n + 3"
  by (auto simp: compiledPushSize_def OP_RETURN_PUSH_OVERHEAD_def)

lemma compiledPushSize_mono: "m \<le> n \<Longrightarrow> compiledPushSize m \<le> compiledPushSize n"
  by (auto simp: compiledPushSize_def OP_RETURN_PUSH_OVERHEAD_def)

lemma envelopePushSize_small: "n \<le> 0xffff \<Longrightarrow> envelopePushSize n = compiledPushSize n"
  by (simp add: envelopePushSize_def)

text \<open>
  \<open>bitcoin.opcodes\<close>, as far as the code names them.
\<close>

definition OP_0 :: byte where "OP_0 = 0x00"
definition OP_IF :: byte where "OP_IF = 0x63"
definition OP_ENDIF :: byte where "OP_ENDIF = 0x68"
definition OP_DROP :: byte where "OP_DROP = 0x75"
definition OP_DUP :: byte where "OP_DUP = 0x76"
definition OP_HASH160 :: byte where "OP_HASH160 = 0xa9"
definition OP_EQUALVERIFY :: byte where "OP_EQUALVERIFY = 0x88"
definition OP_CHECKSIG :: byte where "OP_CHECKSIG = 0xac"
definition OP_RETURN :: byte where "OP_RETURN = 0x6a"

lemmas opcode_defs = OP_0_def OP_IF_def OP_ENDIF_def OP_DROP_def OP_DUP_def OP_HASH160_def
  OP_EQUALVERIFY_def OP_CHECKSIG_def OP_RETURN_def

text \<open>An element of the array \<open>bitcoin.script.compile\<close> takes: an opcode number or a buffer.\<close>

datatype item = Op byte | Push Buffer


text \<open>
  What the compiler does to an element: an empty buffer becomes \<open>OP_0\<close> and a lone byte 1 to 16 or
  \<open>0x81\<close> becomes the opcode that pushes that number; any other buffer stays a data push.
\<close>

fun minimalForm :: "item \<Rightarrow> item" where
  "minimalForm (Op b) = Op b"
| "minimalForm (Push d) =
     (if d = [] then Op OP_0
      else if isMinimalOpSingleByte d then Op (if hd d = 0x81 then 0x4f else 0x50 + hd d)
      else Push d)"

fun itemSize :: "item \<Rightarrow> nat" where
  "itemSize i = (case minimalForm i of Op b \<Rightarrow> 1 | Push d \<Rightarrow> envelopePushSize (length d))"

declare itemSize.simps [simp del]

text \<open>An opcode byte that is not itself a push of following bytes, and a length a prefix can carry.\<close>

fun valid_item :: "item \<Rightarrow> bool" where
  "valid_item (Op b) = (b = 0 \<or> 0x4e < b)"
| "valid_item (Push d) = (length d < 2 ^ 32)"

text \<open>
  The documented behaviour of \<open>bitcoin.script.compile\<close> and \<open>decompile\<close>: compiling an array and
  reading the script back gives the array, its elements in minimal form, and the script is as long
  as its elements' framed sizes together.
\<close>

definition script_codec :: "(item list \<Rightarrow> Buffer) \<Rightarrow> (Buffer \<Rightarrow> item list option) \<Rightarrow> bool" where
  "script_codec compile decompile \<longleftrightarrow> (\<forall>items. list_all valid_item items \<longrightarrow>
     decompile (compile items) = Some (map minimalForm items) \<and>
     length (compile items) = sum_list (map itemSize items))"

lemma codec_read: "script_codec compile decompile \<Longrightarrow> list_all valid_item items \<Longrightarrow>
    decompile (compile items) = Some (map minimalForm items)"
  by (simp add: script_codec_def)

lemma codec_length: "script_codec compile decompile \<Longrightarrow> list_all valid_item items \<Longrightarrow>
    length (compile items) = sum_list (map itemSize items)"
  by (simp add: script_codec_def)

text \<open>The serialization of Bitcoin scripts satisfies it, so the hypothesis can be met.\<close>

definition pushPrefix :: "nat \<Rightarrow> Buffer" where
  "pushPrefix n = (if n \<le> 75 then [of_nat n] else if n \<le> 255 then [0x4c, of_nat n]
     else if n \<le> 0xffff then 0x4d # bytesLE 2 n else 0x4e # bytesLE 4 n)"

definition writeItem :: "item \<Rightarrow> Buffer" where
  "writeItem i = (case minimalForm i of Op b \<Rightarrow> [b] | Push d \<Rightarrow> pushPrefix (length d) @ d)"

definition writeScript :: "item list \<Rightarrow> Buffer" where
  "writeScript items = concat (map writeItem items)"

fun pushWidth :: "byte \<Rightarrow> Buffer \<Rightarrow> (nat \<times> Buffer) option" where
  "pushWidth b r =
     (if b = 0x4c then (if length r < 1 then None else Some (readLE (take 1 r), drop 1 r))
      else if b = 0x4d then (if length r < 2 then None else Some (readLE (take 2 r), drop 2 r))
      else if b = 0x4e then (if length r < 4 then None else Some (readLE (take 4 r), drop 4 r))
      else Some (unat b, r))"

function readScript :: "Buffer \<Rightarrow> item list option" where
  "readScript bs =
     (case bs of
        [] \<Rightarrow> Some []
      | b # r \<Rightarrow>
          if b = 0 \<or> 0x4e < b then map_option ((#) (Op b)) (readScript r)
          else case pushWidth b r of
                 None \<Rightarrow> None
               | Some (n, r') \<Rightarrow>
                   if length r' < n then None
                   else if length r < length r' then None
                   else map_option ((#) (Push (take n r'))) (readScript (drop n r')))"
  by auto

termination by (relation "measure length") (auto split: if_splits)

declare readScript.simps [simp del]

lemma pushWidth_prefix:
  assumes "0 < n" "n < 2 ^ 32"
  shows "\<exists>b r. pushPrefix n = b # r \<and> \<not> (b = 0 \<or> 0x4e < b) \<and> pushWidth b (r @ rest) = Some (n, rest)"
proof -
  consider "n \<le> 75" | "75 < n" "n \<le> 255" | "255 < n" "n \<le> 0xffff" | "0xffff < n" by linarith
  then show ?thesis
  proof cases
    case 1
    have u: "unat (of_nat n :: byte) = n" using 1 by (simp add: unat_byte)
    then have "\<not> (of_nat n = (0::byte) \<or> 0x4e < (of_nat n :: byte))" "of_nat n \<noteq> (0x4c :: byte)"
      "of_nat n \<noteq> (0x4d :: byte)" "of_nat n \<noteq> (0x4e :: byte)"
      using 1 assms(1) by (auto simp: word_less_nat_alt)
    then show ?thesis using 1 u by (simp add: pushPrefix_def)
  next
    case 2
    then show ?thesis using readLE_bytesLE [of n 1] by (simp add: pushPrefix_def)
  next
    case 3
    then show ?thesis using readLE_bytesLE [of n 2] by (simp add: pushPrefix_def)
  next
    case 4
    then show ?thesis using readLE_bytesLE [of n 4] assms(2) by (simp add: pushPrefix_def)
  qed
qed

lemma length_pushPrefix: "length (pushPrefix n @ d) = length d + envelopePushSize n - n"
  by (auto simp: pushPrefix_def envelopePushSize_def compiledPushSize_def OP_RETURN_PUSH_OVERHEAD_def)

lemma minimalForm_valid:
  assumes "valid_item i"
  shows "valid_item (minimalForm i) \<and> (\<forall>d. minimalForm i = Push d \<longrightarrow> d \<noteq> [])"
proof (cases i)
  case (Push d)
  have "0x4e < (0x50 + b :: byte)" if "1 \<le> b" "b \<le> 0x10" for b
  proof -
    have "unat b \<le> 16" using that by (simp add: word_le_nat_alt)
    then have "unat (0x50 + b) = 0x50 + unat b" by (simp add: unat_word_ariths)
    then show ?thesis by (simp add: word_less_nat_alt)
  qed
  then show ?thesis using assms Push by (auto simp: OP_0_def isMinimalOpSingleByte_def Let_def split: if_splits)
qed (use assms in simp)

lemma readScript_item: "valid_item i \<Longrightarrow> readScript (writeItem i @ r) = map_option ((#) (minimalForm i)) (readScript r)"
proof -
  assume "valid_item i"
  from minimalForm_valid [OF this] have v: "valid_item (minimalForm i)" "\<And>d. minimalForm i = Push d \<Longrightarrow> d \<noteq> []" by auto
  show ?thesis
  proof (cases "minimalForm i")
    case (Op b)
    then show ?thesis using v by (subst readScript.simps) (auto simp: writeItem_def)
  next
    case (Push d)
    have "0 < length d" "length d < 2 ^ 32" using v Push by auto
    from pushWidth_prefix [OF this, of "d @ r"] obtain b p where
      p: "pushPrefix (length d) = b # p" "\<not> (b = 0 \<or> 0x4e < b)" "pushWidth b (p @ d @ r) = Some (length d, d @ r)" by blast
    then show ?thesis using Push
      by (subst readScript.simps) (auto simp: writeItem_def simp del: pushWidth.simps)
  qed
qed

lemma writeScript_codec: "script_codec writeScript readScript"
  unfolding script_codec_def
proof (intro allI impI)
  fix items :: "item list" assume "list_all valid_item items"
  then have "readScript (writeScript items) = Some (map minimalForm items) \<and>
      length (writeScript items) = sum_list (map itemSize items)"
  proof (induction items)
    case Nil
    then show ?case by (simp add: writeScript_def readScript.simps)
  next
    case (Cons i items)
    have "length (writeItem i) = itemSize i"
    proof -
      have "n \<le> envelopePushSize n" for n
        using compiledPushSize_ge(1) [of n] by (simp add: envelopePushSize_def)
      then show ?thesis using length_pushPrefix
        by (auto simp: writeItem_def itemSize.simps split: item.split simp del: length_append)
    qed
    with Cons show ?case using readScript_item [of i "writeScript items"]
      by (simp add: writeScript_def)
  qed
  then show "readScript (writeScript items) = Some (map minimalForm items) \<and>
      length (writeScript items) = sum_list (map itemSize items)" .
qed

section \<open>compactSize properties\<close>

lemma parse_compactSizeBuffer:
  assumes "compactSizeBuffer n = ok b"
  shows "parseCompactSize (b @ r) = Some (n, r) \<and> length b = compactSizeLen n"
proof -
  consider "n < 253" | "253 \<le> n" "n \<le> 0xffff" | "0xffff < n" "n \<le> 0xffffffff"
    using assms by (fastforce simp: compactSizeBuffer_def split: if_splits)
  then show ?thesis
  proof cases
    case 1
    then show ?thesis using assms small_byte_not_marker [OF 1]
      by (auto simp: compactSizeBuffer_def parseCompactSize_def compactSizeLen_def unat_byte Let_def)
  next
    case 2
    then show ?thesis using assms readLE_bytesLE [of n 2]
      by (auto simp: compactSizeBuffer_def parseCompactSize_def compactSizeLen_def)
  next
    case 3
    then show ?thesis using assms readLE_bytesLE [of n 4]
      by (auto simp: compactSizeBuffer_def parseCompactSize_def compactSizeLen_def)
  qed
qed

end
