(* ===== verification/JsNumber.thy ===== *)
theory JsNumber
  imports Complex_Main Prelude "HOL-Library.Log_Nat"
begin

text \<open>
  JavaScript numbers. The fee code computes with IEEE 754 doubles, so its arithmetic is modelled
  as it is: every operation is the exact rational result rounded to a 53-bit significand, ties to
  even (\<open>fl\<close>). A double is a rational here, with the infinities and NaN kept apart where the code
  can meet them (\<open>jsnum\<close>). The exponent range is not bounded in \<open>fl\<close>: no rate, size or amount
  of the code comes near the subnormal or the overflow threshold, and the one place that can
  overflow, reading a caller's decimal string, goes through \<open>js_Number_int\<close>, which does.
\<close>

section \<open>Rounding to a double\<close>

text \<open>The binary exponent of a positive rational.\<close>

definition flog :: "rat \<Rightarrow> int" where
  "flog x = (let (p, q) = quotient_of x; e = bitlen p - bitlen q
             in if power_int 2 e \<le> x then e else e - 1)"

text \<open>Rounding to the nearest integer, ties to even.\<close>

definition rhe :: "rat \<Rightarrow> int" where
  "rhe y = (let f = \<lfloor>y\<rfloor>; d = y - of_int f
            in if d < 1/2 then f else if 1/2 < d then f + 1 else if even f then f else f + 1)"

definition fl :: "rat \<Rightarrow> rat" where
  "fl x = (if x = 0 then 0
           else let e = flog \<bar>x\<bar> - 52 in of_int (rhe (x / power_int 2 e)) * power_int 2 e)"

lemma bitlen_bounds_rat:
  assumes "0 < p"
  shows "power_int 2 (bitlen p - 1) \<le> (of_int p :: rat)" "(of_int p :: rat) < power_int 2 (bitlen p)"
proof -
  have b: "2 ^ nat (bitlen p - 1) \<le> p" "p < 2 ^ nat (bitlen p)"
    using bitlen_bounds [OF assms] by auto
  have pos: "1 \<le> bitlen p" using assms by (metis bitlen_bounds bitlen_nonneg int_one_le_iff_zero_less
      linorder_not_less nat_0_iff nat_int not_less_iff_gr_or_eq of_nat_0 order_le_less power_0 zless_imp_add1_zle add_0)
  have "(of_int (2 ^ nat (bitlen p - 1)) :: rat) \<le> of_int p" using b(1) by (subst of_int_le_iff)
  then show "power_int 2 (bitlen p - 1) \<le> (of_int p :: rat)" using pos by (simp add: power_int_def)
  have "(of_int p :: rat) < of_int (2 ^ nat (bitlen p))" using b(2) by (subst of_int_less_iff)
  then show "(of_int p :: rat) < power_int 2 (bitlen p)" using pos by (simp add: power_int_def)
qed

lemma flog_bounds:
  assumes "0 < x"
  shows "power_int 2 (flog x) \<le> x" "x < power_int 2 (flog x + 1)"
proof -
  obtain p q where pq: "quotient_of x = (p, q)" by (cases "quotient_of x")
  have x: "x = of_int p / of_int q" and q: "0 < q"
    using quotient_of_div [OF pq] quotient_of_denom_pos [OF pq] by auto
  have p: "0 < p" using assms x q by (simp add: zero_less_divide_iff)
  let ?e = "bitlen p - bitlen q"
  note P = bitlen_bounds_rat [OF p] and Q = bitlen_bounds_rat [OF q]
  have qpos: "(0::rat) < of_int q" using q by simp
  have lo: "power_int 2 (?e - 1) \<le> x"
  proof -
    have "power_int 2 (?e - 1) * (of_int q :: rat) \<le> power_int 2 (?e - 1) * power_int 2 (bitlen q)"
      using Q(2) by (intro mult_left_mono) auto
    also have "\<dots> = power_int 2 (bitlen p - 1)" by (subst power_int_add [symmetric]) auto
    also have "\<dots> \<le> of_int p" by (rule P)
    finally show ?thesis using qpos by (simp add: x field_simps)
  qed
  have hi: "x < power_int 2 (?e + 1)"
  proof -
    have "(of_int p :: rat) < power_int 2 (bitlen p)" by (rule P)
    also have "\<dots> = power_int 2 (?e + 1) * power_int 2 (bitlen q - 1)"
      by (subst power_int_add [symmetric]) auto
    also have "\<dots> \<le> power_int 2 (?e + 1) * of_int q" using Q(1) by (intro mult_left_mono) auto
    finally show ?thesis using qpos by (simp add: x field_simps)
  qed
  show "power_int 2 (flog x) \<le> x" "x < power_int 2 (flog x + 1)"
    using lo hi by (auto simp: flog_def pq Let_def)
qed

lemma rhe_err: "\<bar>of_int (rhe y) - y\<bar> \<le> 1/2"
proof -
  have "of_int \<lfloor>y\<rfloor> \<le> y" "y < of_int \<lfloor>y\<rfloor> + 1" by linarith+
  then show ?thesis by (auto simp: rhe_def Let_def abs_le_iff)
qed

lemma rhe_int [simp]: "rhe (of_int n) = n"
  by (simp add: rhe_def)

lemma rhe_mono: "x \<le> y \<Longrightarrow> rhe x \<le> rhe y"
proof -
  assume xy: "x \<le> y"
  then have "\<lfloor>x\<rfloor> \<le> \<lfloor>y\<rfloor>" by (rule floor_mono)
  then consider "\<lfloor>x\<rfloor> = \<lfloor>y\<rfloor>" | "\<lfloor>x\<rfloor> + 1 \<le> \<lfloor>y\<rfloor>" by linarith
  then show ?thesis using xy by cases (auto simp: rhe_def Let_def)
qed

lemma fl_0 [simp]: "fl 0 = 0"
  by (simp add: fl_def)

lemma pow2_pos [simp]: "(0::rat) < power_int 2 e"
  by simp

text \<open>The relative error of one rounding is at most half a unit in the last place.\<close>

lemma fl_err: "\<bar>fl x - x\<bar> \<le> \<bar>x\<bar> / 2 ^ 53"
proof (cases "x = 0")
  case False
  let ?e = "flog \<bar>x\<bar> - 52"
  let ?u = "power_int (2::rat) ?e"
  have u: "0 < ?u" by simp
  have "\<bar>fl x - x\<bar> = \<bar>of_int (rhe (x / ?u)) - x / ?u\<bar> * ?u"
  proof -
    have "fl x - x = (of_int (rhe (x / ?u)) - x / ?u) * ?u"
      using False by (simp add: fl_def Let_def left_diff_distrib)
    then show ?thesis using u by (simp add: abs_mult)
  qed
  also have "\<dots> \<le> 1/2 * ?u" by (rule mult_right_mono [OF rhe_err]) (use u in simp)
  also have "\<dots> \<le> \<bar>x\<bar> / 2 ^ 53"
  proof -
    have "?u * 2 ^ 52 = power_int 2 (flog \<bar>x\<bar>)"
    proof -
      have "?u * power_int 2 52 = power_int 2 (?e + 52)" by (subst power_int_add) auto
      then show ?thesis by (simp add: power_int_def)
    qed
    also have "\<dots> \<le> \<bar>x\<bar>" using False by (intro flog_bounds) simp
    finally show ?thesis by simp
  qed
  finally show ?thesis .
qed simp

lemma pow2_less_iff: "power_int (2::rat) a < power_int 2 b \<longleftrightarrow> a < b"
  by (meson linorder_not_less one_less_numeral_iff power_int_increasing power_int_strict_increasing
      semiring_norm(76) order_less_imp_le)

lemma fl_bounds:
  assumes "0 \<le> x"
  shows "x * (1 - 1 / 2 ^ 53) \<le> fl x" "fl x \<le> x * (1 + 1 / 2 ^ 53)"
proof -
  have "fl x - x \<le> x / 2 ^ 53" "- (x / 2 ^ 53) \<le> fl x - x"
    using fl_err [of x] assms by (auto simp: abs_le_iff simp del: power_numeral)
  then show "x * (1 - 1 / 2 ^ 53) \<le> fl x" "fl x \<le> x * (1 + 1 / 2 ^ 53)"
    by (simp_all add: algebra_simps)
qed

lemma fl_pos: "0 < x \<Longrightarrow> 0 < fl x"
proof -
  assume x: "0 < x"
  then have "0 < x * (1 - 1 / 2 ^ 53)" by simp
  also have "\<dots> \<le> fl x" using fl_bounds(1) [of x] x by simp
  finally show ?thesis .
qed

lemma fl_nonneg: "0 \<le> x \<Longrightarrow> 0 \<le> fl x"
  using fl_pos [of x] by (cases "x = 0") auto

text \<open>An integer of at most 53 bits is a double.\<close>

lemma fl_int:
  assumes "\<bar>n\<bar> < 2 ^ 53"
  shows "fl (of_int n) = of_int n"
proof (cases "n = 0")
  case False
  let ?x = "\<bar>of_int n :: rat\<bar>"
  have x: "1 \<le> ?x" using False by (metis int_one_le_iff_zero_less of_int_1_le_iff of_int_abs zero_less_abs_iff)
  have "power_int 2 (flog ?x) \<le> ?x" using x by (intro flog_bounds) simp
  also have "?x < 2 ^ 53" using assms by (metis of_int_abs of_int_less_iff of_int_numeral of_int_power)
  finally have "power_int (2::rat) (flog ?x) < power_int 2 53" by (simp add: power_int_def)
  then have e: "flog ?x \<le> 52" by (simp only: pow2_less_iff)
  have "of_int n / power_int (2::rat) (flog ?x - 52) = of_int n * power_int 2 (52 - flog ?x)"
    by (metis divide_inverse minus_diff_eq power_int_minus)
  also have "\<dots> = of_int (n * 2 ^ nat (52 - flog ?x))" using e by (simp add: power_int_def)
  finally have "rhe (of_int n / power_int (2::rat) (flog ?x - 52)) = n * 2 ^ nat (52 - flog ?x)"
    by (metis rhe_int)
  moreover have "(2::rat) ^ nat (52 - flog ?x) * power_int 2 (flog ?x - 52) = 1"
  proof -
    have "(2::rat) ^ nat (52 - flog ?x) = power_int 2 (52 - flog ?x)" using e by (simp add: power_int_def)
    then show ?thesis by (simp add: power_int_add [symmetric])
  qed
  ultimately show ?thesis using False by (simp add: fl_def Let_def mult.assoc)
qed simp

text \<open>Rounding is monotone on the non-negative rationals.\<close>

lemma fl_scale:
  assumes "0 < x"
  shows "power_int 2 (flog x) \<le> fl x" "fl x \<le> power_int 2 (flog x + 1)"
proof -
  let ?u = "power_int (2::rat) (flog x - 52)"
  have u: "0 < ?u" by simp
  have e: "of_int (2 ^ 52) * ?u = power_int 2 (flog x)" "of_int (2 ^ 53) * ?u = power_int 2 (flog x + 1)"
  proof -
    have "power_int 2 52 * ?u = power_int 2 (52 + (flog x - 52))"
      "power_int 2 53 * ?u = power_int 2 (53 + (flog x - 52))" by (rule power_int_add [symmetric], simp)+
    moreover have "power_int (2::rat) 52 = of_int (2 ^ 52)" "power_int (2::rat) 53 = of_int (2 ^ 53)"
      by (simp_all add: power_int_def)
    moreover have "52 + (flog x - 52) = flog x" "53 + (flog x - 52) = flog x + 1" by simp_all
    ultimately show "of_int (2 ^ 52) * ?u = power_int 2 (flog x)" "of_int (2 ^ 53) * ?u = power_int 2 (flog x + 1)"
      by simp_all
  qed
  have "of_int (2 ^ 52) \<le> x / ?u" using flog_bounds(1) [OF assms] e(1) u by (simp only: pos_le_divide_eq)
  then have lo: "2 ^ 52 \<le> rhe (x / ?u)" by (metis rhe_mono rhe_int)
  have "x / ?u \<le> of_int (2 ^ 53)" using flog_bounds(2) [OF assms] e(2) u
    by (simp only: pos_divide_le_eq less_imp_le)
  then have hi: "rhe (x / ?u) \<le> 2 ^ 53" by (metis rhe_mono rhe_int)
  have f: "fl x = of_int (rhe (x / ?u)) * ?u" using assms by (simp add: fl_def Let_def)
  show "power_int 2 (flog x) \<le> fl x" unfolding f e(1) [symmetric]
    using lo u by (intro mult_right_mono) (auto simp only: of_int_le_iff)
  show "fl x \<le> power_int 2 (flog x + 1)" unfolding f e(2) [symmetric]
    using hi u by (intro mult_right_mono) (auto simp only: of_int_le_iff)
qed

lemma fl_mono:
  assumes "0 \<le> x" "x \<le> y"
  shows "fl x \<le> fl y"
proof (cases "x = 0")
  case True
  then show ?thesis using assms by (simp add: fl_nonneg)
next
  case False
  then have x: "0 < x" and y: "0 < y" using assms by auto
  have "power_int (2::rat) (flog x) < power_int 2 (flog y + 1)"
    using flog_bounds [OF x] flog_bounds [OF y] assms by linarith
  then have "flog x < flog y + 1" by (simp add: pow2_less_iff)
  then consider "flog x = flog y" | "flog x + 1 \<le> flog y" by linarith
  then show ?thesis
  proof cases
    case 1
    have "rhe (x / power_int 2 (flog y - 52)) \<le> rhe (y / power_int 2 (flog y - 52))"
      using assms by (intro rhe_mono divide_right_mono) auto
    then show ?thesis using x y 1 by (simp add: fl_def Let_def)
  next
    case 2
    have "fl x \<le> power_int 2 (flog x + 1)" by (rule fl_scale [OF x])
    also have "\<dots> \<le> power_int 2 (flog y)" using 2 by (simp add: power_int_increasing)
    also have "\<dots> \<le> fl y" by (rule fl_scale [OF y])
    finally show ?thesis .
  qed
qed

lemma fl_minus: "fl (- x) = - fl x"
proof -
  have r: "rhe (- y) = - rhe y" for y
  proof (cases "y \<in> \<int>")
    case True
    then obtain n where "y = of_int n" by (rule Ints_cases)
    then show ?thesis by (metis of_int_minus rhe_int)
  next
    case False
    then have "of_int \<lfloor>y\<rfloor> \<noteq> y" by (metis Ints_of_int)
    moreover have "of_int \<lfloor>y\<rfloor> \<le> y" by (rule of_int_floor_le)
    ultimately have lt: "of_int \<lfloor>y\<rfloor> < y" by (rule order_le_neq_trans [rotated])
    have f: "\<lfloor>- y\<rfloor> = - \<lfloor>y\<rfloor> - 1"
    proof (rule floor_unique)
      show "of_int (- \<lfloor>y\<rfloor> - 1) \<le> - y" using floor_correct [of y] by simp
      show "- y < of_int (- \<lfloor>y\<rfloor> - 1) + 1" using lt by simp
    qed
    define d where "d = y - of_int \<lfloor>y\<rfloor>"
    have d': "- y - of_int (- \<lfloor>y\<rfloor> - 1) = 1 - d" by (simp add: d_def)
    have 1: "rhe y = (if d < 1/2 then \<lfloor>y\<rfloor> else if 1/2 < d then \<lfloor>y\<rfloor> + 1
                      else if even \<lfloor>y\<rfloor> then \<lfloor>y\<rfloor> else \<lfloor>y\<rfloor> + 1)"
      by (simp only: rhe_def Let_def d_def)
    have 2: "rhe (- y) = (if 1 - d < 1/2 then - \<lfloor>y\<rfloor> - 1 else if 1/2 < 1 - d then - \<lfloor>y\<rfloor> - 1 + 1
                      else if even (- \<lfloor>y\<rfloor> - 1) then - \<lfloor>y\<rfloor> - 1 else - \<lfloor>y\<rfloor> - 1 + 1)"
      by (simp only: rhe_def Let_def f d')
    show ?thesis unfolding 1 2 by auto
  qed
  show ?thesis by (simp add: fl_def Let_def r)
qed

section \<open>Numbers as values\<close>

text \<open>What a JavaScript expression of type \<open>number\<close> can hold.\<close>

datatype jsnum = Fin rat | PosInf | NegInf | NaN

text \<open>\<open>Number(s)\<close> of a string of decimal digits with value \<open>n\<close>: the nearest double, or an infinity.\<close>

definition js_Number_int :: "int \<Rightarrow> jsnum" where
  "js_Number_int n = (if 2 ^ 1024 \<le> fl (of_int n) then PosInf
                      else if fl (of_int n) \<le> - (2 ^ 1024) then NegInf else Fin (fl (of_int n)))"

fun isFinite :: "jsnum \<Rightarrow> bool" where
  "isFinite (Fin _) = True" | "isFinite _ = False"

fun isInteger :: "jsnum \<Rightarrow> bool" where
  "isInteger (Fin r) = (of_int \<lfloor>r\<rfloor> = r)" | "isInteger _ = False"

definition MAX_SAFE_INTEGER :: int where
  "MAX_SAFE_INTEGER = 9007199254740991"

fun isSafeInteger :: "jsnum \<Rightarrow> bool" where
  "isSafeInteger (Fin r) = (of_int \<lfloor>r\<rfloor> = r \<and> \<bar>r\<bar> \<le> of_int MAX_SAFE_INTEGER)" | "isSafeInteger _ = False"

text \<open>Comparisons of a number with a finite constant; every comparison with NaN is false.\<close>

fun js_lt :: "jsnum \<Rightarrow> rat \<Rightarrow> bool" where
  "js_lt (Fin r) c = (r < c)" | "js_lt NegInf c = True" | "js_lt _ c = False"

fun js_gt :: "jsnum \<Rightarrow> rat \<Rightarrow> bool" where
  "js_gt (Fin r) c = (c < r)" | "js_gt PosInf c = True" | "js_gt _ c = False"

fun js_le :: "jsnum \<Rightarrow> rat \<Rightarrow> bool" where
  "js_le (Fin r) c = (r \<le> c)" | "js_le NegInf c = True" | "js_le _ c = False"

text \<open>\<open>Math.round\<close> (ties towards plus infinity), \<open>Math.ceil\<close> and \<open>Math.trunc\<close>.\<close>

definition js_round :: "rat \<Rightarrow> int" where
  "js_round x = \<lfloor>x + 1/2\<rfloor>"

definition js_trunc :: "rat \<Rightarrow> int" where
  "js_trunc x = (if 0 \<le> x then \<lfloor>x\<rfloor> else \<lceil>x\<rceil>)"

text \<open>
  A decimal string denotes a safe integer exactly when its value is one: rounding neither brings
  an unsafe value into range nor takes a safe one out.
\<close>

lemma isSafeInteger_Number: "isSafeInteger (js_Number_int n) \<longleftrightarrow> \<bar>n\<bar> \<le> MAX_SAFE_INTEGER"
proof
  assume small: "\<bar>n\<bar> \<le> MAX_SAFE_INTEGER"
  then have fl: "fl (of_int n) = of_int n" by (intro fl_int) (simp add: MAX_SAFE_INTEGER_def)
  have "\<bar>of_int n :: rat\<bar> \<le> of_int MAX_SAFE_INTEGER" using small by (metis of_int_abs of_int_le_iff)
  moreover have "(of_int MAX_SAFE_INTEGER :: rat) < 2 ^ 1024"
    by (rule less_le_trans [of _ "2 ^ 53"]) (auto simp: MAX_SAFE_INTEGER_def intro: power_increasing)
  ultimately show "isSafeInteger (js_Number_int n)"
    by (auto simp: js_Number_int_def fl abs_le_iff not_le not_less)
next
  assume safe: "isSafeInteger (js_Number_int n)"
  show "\<bar>n\<bar> \<le> MAX_SAFE_INTEGER"
  proof (rule ccontr)
    assume "\<not> ?thesis"
    then have big: "2 ^ 53 \<le> \<bar>n\<bar>" by (simp add: MAX_SAFE_INTEGER_def)
    have "fl (2 ^ 53) = 2 ^ 53" by code_simp
    then have "2 ^ 53 \<le> fl (of_int \<bar>n\<bar>)"
      using fl_mono [of "2 ^ 53" "of_int \<bar>n\<bar>"] big
      by (metis of_int_le_iff of_int_numeral of_int_power zero_le_numeral zero_le_power)
    also have "fl (of_int \<bar>n\<bar>) = \<bar>fl (of_int n)\<bar>"
    proof (cases "0 \<le> n")
      case False
      then have "0 < fl (of_int (- n))" by (intro fl_pos) simp
      then show ?thesis using False by (simp add: fl_minus)
    qed (simp add: fl_nonneg)
    finally show False
      using safe by (auto simp: js_Number_int_def MAX_SAFE_INTEGER_def split: if_splits)
  qed
qed

lemma js_Number_int_small: "\<bar>n\<bar> \<le> MAX_SAFE_INTEGER \<Longrightarrow> js_Number_int n = Fin (of_int n)"
proof -
  assume small: "\<bar>n\<bar> \<le> MAX_SAFE_INTEGER"
  then have "isSafeInteger (js_Number_int n)" by (simp add: isSafeInteger_Number)
  moreover have "fl (of_int n) = of_int n" using small by (intro fl_int) (simp add: MAX_SAFE_INTEGER_def)
  ultimately show ?thesis by (auto simp: js_Number_int_def split: if_splits)
qed

lemma js_lt_Number_0: "js_lt (js_Number_int n) 0 \<longleftrightarrow> n < 0"
proof -
  have p: "(0::rat) < 2 ^ 1024" by (rule zero_less_power) simp
  have "fl (of_int n) < 0 \<longleftrightarrow> n < 0"
  proof (cases "n < 0")
    case True
    then have "0 < fl (of_int (- n))" by (intro fl_pos) simp
    then show ?thesis using True by (simp add: fl_minus)
  next
    case False
    then have "0 \<le> fl (of_int n)" by (intro fl_nonneg) simp
    then show ?thesis using False by simp
  qed
  then show ?thesis using p by (auto simp: js_Number_int_def not_le not_less)
qed

end
