(* ===== verification/Coins.thy ===== *)
theory Coins
  imports Prelude
begin

text \<open>
  The coins and their networks, as far as a build reads them: the network names of
  \<open>src/src/build/crypto_networks.js\<close>, the recognition heights of \<open>src/src/protocol/changes.js\<close>,
  the relay fields of \<open>src/src/coins/BTC.js\<close>, \<open>LTC.js\<close> and \<open>DOGE.js\<close>, the per-coin dust rules of
  \<open>src/src/XChainEncoder/script_amount_helpers.js\<close> and \<open>constants.js\<close>, and the node floors of
  \<open>src/src/XChainEncoder/build_transaction/stripped_floor.js\<close>.
\<close>

section \<open>Network names and the recognition height\<close>

datatype coin = BTC | LTC | DOGE
datatype net = mainnet | testnet | regtest

definition FULL_NAME_TO_TICK :: "string \<Rightarrow> coin option" where
  "FULL_NAME_TO_TICK s = (if s = ''bitcoin'' then Some BTC else if s = ''litecoin'' then Some LTC
     else if s = ''dogecoin'' then Some DOGE else None)"

definition NETWORKS :: "string \<Rightarrow> net option" where
  "NETWORKS s = (if s = ''mainnet'' then Some mainnet else if s = ''testnet'' then Some testnet
     else if s = ''regtest'' then Some regtest else None)"

text \<open>\<open>lastIndexOf('-')\<close> splits the key; no dash, an unknown coin or an unknown network is null.\<close>

definition splitLastDash :: "string \<Rightarrow> (string \<times> string) option" where
  "splitLastDash s =
     (if CHR ''-'' \<in> set s
      then Some (rev (drop 1 (dropWhile (\<lambda>c. c \<noteq> CHR ''-'') (rev s))),
                 rev (takeWhile (\<lambda>c. c \<noteq> CHR ''-'') (rev s)))
      else None)"

definition parseNetworkName :: "string \<Rightarrow> (coin \<times> net) option" where
  "parseNetworkName s =
     (case splitLastDash s of
        None \<Rightarrow> None
      | Some (name, n) \<Rightarrow>
          (case (FULL_NAME_TO_TICK name, NETWORKS n) of
             (Some t, Some m) \<Rightarrow> Some (t, m)
           | _ \<Rightarrow> None))"

fun ENVELOPE_RECOGNITION_ACTIVATION :: "coin \<Rightarrow> net \<Rightarrow> int option" where
  "ENVELOPE_RECOGNITION_ACTIVATION BTC mainnet = Some 960850"
| "ENVELOPE_RECOGNITION_ACTIVATION BTC testnet = Some 0"
| "ENVELOPE_RECOGNITION_ACTIVATION BTC regtest = Some 0"
| "ENVELOPE_RECOGNITION_ACTIVATION LTC mainnet = Some 3153500"
| "ENVELOPE_RECOGNITION_ACTIVATION LTC testnet = Some 0"
| "ENVELOPE_RECOGNITION_ACTIVATION LTC regtest = Some 0"
| "ENVELOPE_RECOGNITION_ACTIVATION DOGE _ = None"

text \<open>The height, or \<open>None\<close> for both \<open>null\<close> and \<open>undefined\<close>, which its only caller treats alike.\<close>

definition getEnvelopeRecognitionHeight :: "string \<Rightarrow> int option" where
  "getEnvelopeRecognitionHeight networkName =
     (case parseNetworkName networkName of
        None \<Rightarrow> None
      | Some (t, n) \<Rightarrow> ENVELOPE_RECOGNITION_ACTIVATION t n)"

section \<open>Relay fields of a network\<close>

text \<open>
  The fields of a \<open>net\<close> block the builder reads; they are the same on the three networks of a coin.
  An absent \<open>supportsSegwit\<close> means yes (the code tests \<open>!== false\<close>), an absent stripped floor is
  \<open>None\<close>.
\<close>

record network =
  dustThreshold :: nat
  minStandardTxNonWitnessSize :: "nat option"
  supportsSegwit :: bool

definition BTC_net :: network where
  "BTC_net = \<lparr>dustThreshold = 546, minStandardTxNonWitnessSize = Some 82, supportsSegwit = True\<rparr>"

definition LTC_net :: network where
  "LTC_net = \<lparr>dustThreshold = 5460, minStandardTxNonWitnessSize = Some 85, supportsSegwit = True\<rparr>"

definition DOGE_net :: network where
  "DOGE_net = \<lparr>dustThreshold = 100000, minStandardTxNonWitnessSize = None, supportsSegwit = False\<rparr>"

fun networkOf :: "coin \<Rightarrow> network" where
  "networkOf BTC = BTC_net" | "networkOf LTC = LTC_net" | "networkOf DOGE = DOGE_net"

lemmas network_defs = BTC_net_def LTC_net_def DOGE_net_def

text \<open>\<open>tickOf\<close>: the coin of a network key, whatever its network part.\<close>

definition tickOf :: "string \<Rightarrow> coin option" where
  "tickOf networkKey = (case splitLastDash networkKey of None \<Rightarrow> None | Some (name, n) \<Rightarrow> FULL_NAME_TO_TICK name)"

lemma parse_tick: "parseNetworkName k = Some (t, n) \<Longrightarrow> tickOf k = Some t"
  by (auto simp: parseNetworkName_def tickOf_def split: option.splits)

fun SOFT_DUST_FLOOR_BY_COIN :: "coin \<Rightarrow> nat option" where
  "SOFT_DUST_FLOOR_BY_COIN DOGE = Some 1000000"
| "SOFT_DUST_FLOOR_BY_COIN _ = None"

fun DUST_RELAY_FEE_PER_BYTE_BY_COIN :: "coin \<Rightarrow> nat option" where
  "DUST_RELAY_FEE_PER_BYTE_BY_COIN BTC = Some 3"
| "DUST_RELAY_FEE_PER_BYTE_BY_COIN LTC = Some 30"
| "DUST_RELAY_FEE_PER_BYTE_BY_COIN DOGE = None"

definition FLAT_RELAY_DUST_COINS :: "coin list" where
  "FLAT_RELAY_DUST_COINS = [DOGE]"

definition softDustFloorFor :: "string \<Rightarrow> nat" where
  "softDustFloorFor networkKey =
     (case tickOf networkKey of
        None \<Rightarrow> 0
      | Some t \<Rightarrow> (case SOFT_DUST_FLOOR_BY_COIN t of None \<Rightarrow> 0 | Some f \<Rightarrow> f))"

definition bareMultisigRelayDustFor :: "string \<Rightarrow> nat \<Rightarrow> nat \<Rightarrow> nat result" where
  "bareMultisigRelayDustFor networkKey scriptLength hardDustThreshold =
     (case tickOf networkKey of
        None \<Rightarrow> throw (InternalError ''No dust relay model for network'')
      | Some t \<Rightarrow>
          (case DUST_RELAY_FEE_PER_BYTE_BY_COIN t of
             Some perByte \<Rightarrow> ok ((8 + 1 + scriptLength + 148) * perByte)
           | None \<Rightarrow> if t \<in> set FLAT_RELAY_DUST_COINS then ok hardDustThreshold
                     else throw (InternalError ''No dust relay model for network'')))"

section \<open>Node floors on the stripped size\<close>

fun CORE_MIN_STANDARD_TX_NONWITNESS_SIZE :: "coin \<Rightarrow> nat option" where
  "CORE_MIN_STANDARD_TX_NONWITNESS_SIZE BTC = Some 65"
| "CORE_MIN_STANDARD_TX_NONWITNESS_SIZE LTC = Some 82"
| "CORE_MIN_STANDARD_TX_NONWITNESS_SIZE DOGE = None"

definition coreStrippedFloor :: "string \<Rightarrow> nat" where
  "coreStrippedFloor networkKey =
     (case tickOf networkKey of
        None \<Rightarrow> 0
      | Some t \<Rightarrow> (case CORE_MIN_STANDARD_TX_NONWITNESS_SIZE t of None \<Rightarrow> 0 | Some n \<Rightarrow> n))"

text \<open>The reveal pad's target is never under the node's own floor.\<close>

lemma pad_target_covers_node_floor:
  "CORE_MIN_STANDARD_TX_NONWITNESS_SIZE t = Some n \<Longrightarrow>
     \<exists>m. minStandardTxNonWitnessSize (networkOf t) = Some m \<and> n \<le> m"
  by (cases t) (auto simp: network_defs)

end
