(* ===== verification/Payload.thy ===== *)
theory Payload
  imports Wire JsNumber Coins
begin

text \<open>
  How a compiled ACTION stream becomes chunk buffers: \<open>src/src/XChainEncoder/payload_encodings.js\<close>,
  \<open>prepareData\<close>, \<open>isSegwitUTXO\<close>, \<open>dataToPubkey\<close>, \<open>obfuscate\<close> and \<open>assertEnvelopeRecognized\<close> of
  \<open>payload_preparation.js\<close>, \<open>selectEncoding\<close> of \<open>size_estimation.js\<close>, and the network names and
  recognition heights they read. The script compiler, the curve check, the address decoder and
  the AES cipher are parameters.
\<close>

section \<open>Constants\<close>

definition OP_RETURN_SIZE :: nat where "OP_RETURN_SIZE = 80"
definition P2SH_SIZE :: nat where "P2SH_SIZE = 520"
definition PW2SH_SIZE :: nat where "PW2SH_SIZE = 520"
definition MULTISIGN_SIZE :: nat where "MULTISIGN_SIZE = 69"
definition TAPROOT_ENVELOPE_CHUNK_SIZE :: nat where "TAPROOT_ENVELOPE_CHUNK_SIZE = 520"
definition TAPROOT_ENVELOPE_FORMAT_V0 :: byte where "TAPROOT_ENVELOPE_FORMAT_V0 = 0x00"
definition MAX_COMPILED_ACTION_DATA_LENGTH :: nat where "MAX_COMPILED_ACTION_DATA_LENGTH = 8192"
definition ENVELOPE_MAX_PAYLOAD :: nat where "ENVELOPE_MAX_PAYLOAD = 390000"

text \<open>The strings of \<open>Encoding\<close>; any other string a caller may pass is \<open>UnknownEncoding\<close>.\<close>

datatype Encoding = E_OP_RETURN | E_P2SH | E_MULTISIGN | E_P2WSH | E_TAPROOT | E_AUTO | UnknownEncoding string

record payload =
  dataBufferArray :: "Buffer list"
  payloadEncoding :: Encoding
  internalPubkey :: "Buffer option"

section \<open>Keys\<close>

text \<open>\<open>/^(02|03)[0-9a-fA-F]{64}$/\<close>\<close>

definition isCompressedPubKeyHex :: "string \<Rightarrow> bool" where
  "isCompressedPubKeyHex s = (length s = 66 \<and> (take 2 s = ''02'' \<or> take 2 s = ''03'') \<and> isHexString (drop 2 s))"

lemma compressed_length: "isCompressedPubKeyHex s \<Longrightarrow> length (fromHex s) = 33"
proof -
  assume a: "isCompressedPubKeyHex s"
  then have "isHexString (take 2 s)" by (auto simp: isCompressedPubKeyHex_def isHexString_def hexValue_def)
  then have "isHexString (take 2 s @ drop 2 s)" using a
    by (simp only: isHexString_def isCompressedPubKeyHex_def list_all_append)
  then show ?thesis using a length_fromHex [of s] by (simp add: isCompressedPubKeyHex_def)
qed

text \<open>\<open>validateCompressedPubKey\<close> for a string; \<open>onCurve\<close> stands for the secp256k1 library.\<close>

definition validateCompressedPubKey :: "(Buffer \<Rightarrow> bool) \<Rightarrow> string option \<Rightarrow> string option result" where
  "validateCompressedPubKey onCurve key =
     (case key of
        None \<Rightarrow> ok None
      | Some s \<Rightarrow>
          if \<not> isCompressedPubKeyHex s
          then throw (ParamTypeError ''compressedPubKey must be a 66-character hex string starting with 02 or 03'')
          else if \<not> onCurve (fromHex s)
          then throw (ParamTypeError ''compressedPubKey is not a valid secp256k1 point'')
          else ok (Some s))"

section \<open>Slicing\<close>

text \<open>
  The slicing loop. The chunk sizes are the constants 476, 520 and 60; with a size of zero the
  loop would not advance, so the model's loop asks for a positive one.
\<close>

function sliceLoop :: "nat \<Rightarrow> Buffer \<Rightarrow> nat \<Rightarrow> Buffer list" where
  "sliceLoop chunksSize d i =
     (if i < length d \<and> 0 < chunksSize
      then (let nextDataChunk = subarray d i (i + chunksSize)
            in nextDataChunk # sliceLoop chunksSize d (i + length nextDataChunk))
      else [])"
  by auto

termination by (relation "measure (\<lambda>(n, d, i). length d - i)") auto

declare sliceLoop.simps [simp del]

text \<open>The final two chunks are cut again when the last would compile to a bare opcode.\<close>

definition rebalance :: "Buffer \<Rightarrow> Buffer list \<Rightarrow> Buffer list" where
  "rebalance d chunks =
     (if 2 \<le> length chunks
      then (let lst = chunks ! (length chunks - 1)
            in if length lst = 1 \<and> ((0x01 \<le> lst ! 0 \<and> lst ! 0 \<le> 0x10) \<or> lst ! 0 = 0x81)
               then (let prevStart = length d - 1 - length (chunks ! (length chunks - 2))
                     in chunks[length chunks - 2 := subarray d prevStart (length d - 2),
                               length chunks - 1 := drop (length d - 2) d])
               else chunks)
      else chunks)"

definition sliceScriptHashChunks :: "Buffer \<Rightarrow> nat \<Rightarrow> Buffer list" where
  "sliceScriptHashChunks d chunksSize = rebalance d (sliceLoop chunksSize d 0)"

definition sliceEnvelopeChunks :: "Buffer \<Rightarrow> Buffer list" where
  "sliceEnvelopeChunks d = rebalance d (sliceLoop TAPROOT_ENVELOPE_CHUNK_SIZE d 0)"

section \<open>The payload layouts\<close>

definition opReturnPayload :: "Buffer \<Rightarrow> Encoding \<Rightarrow> Buffer \<Rightarrow> payload result" where
  "opReturnPayload d encoding magicWordBuffer =
     (let chunksSize = OP_RETURN_SIZE - length magicWordBuffer
      in if chunksSize < length d
         then throw (ParamRangeError ''OP_RETURN encoding requires compiled payload'')
         else ok \<lparr>dataBufferArray = [magicWordBuffer @ d], payloadEncoding = encoding, internalPubkey = None\<rparr>)"

text \<open>One redeem or witness script: the data push, dropped, then an ordinary P2PKH gate.\<close>

definition chunkScript :: "Buffer \<Rightarrow> Buffer \<Rightarrow> item list" where
  "chunkScript chunk hash160 = [Push chunk, Op OP_DROP, Op OP_DUP, Op OP_HASH160, Push hash160,
     Op OP_EQUALVERIFY, Op OP_CHECKSIG]"

definition scriptHashPayload ::
  "(item list \<Rightarrow> Buffer) \<Rightarrow> (string \<Rightarrow> Buffer result) \<Rightarrow> Buffer \<Rightarrow> Encoding \<Rightarrow> string \<Rightarrow> payload result" where
  "scriptHashPayload compile resolveCallerHash160 d encoding pubKey =
     (let chunksSize = (if encoding = E_P2SH then P2SH_SIZE else PW2SH_SIZE) - 44
      in andThen (resolveCallerHash160 pubKey) (\<lambda>pubkeyFromBase58.
         ok \<lparr>dataBufferArray = map (\<lambda>chunk. compile (chunkScript chunk pubkeyFromBase58))
                                 (sliceScriptHashChunks d chunksSize),
             payloadEncoding = encoding, internalPubkey = None\<rparr>))"

definition multisignSlotSize :: nat where "multisignSlotSize = 64"

definition multisignChunk :: "Buffer \<Rightarrow> Buffer \<Rightarrow> Buffer" where
  "multisignChunk magicWordBuffer nextDataChunk =
     (let nextChunk = magicWordBuffer @ nextDataChunk
      in if length nextChunk < multisignSlotSize
         then nextChunk @ replicate (multisignSlotSize - length nextChunk) 0
         else nextChunk)"

definition multisignPayload :: "Buffer \<Rightarrow> Encoding \<Rightarrow> Buffer \<Rightarrow> payload result" where
  "multisignPayload d encoding magicWordBuffer =
     (let chunksSize = MULTISIGN_SIZE - length magicWordBuffer - 1 - 1 - 1 - 1 - 1
      in ok \<lparr>dataBufferArray = map (multisignChunk magicWordBuffer) (sliceLoop chunksSize d 0),
             payloadEncoding = encoding, internalPubkey = None\<rparr>)"

definition envelopeItems :: "Buffer \<Rightarrow> Buffer list \<Rightarrow> Buffer \<Rightarrow> item list" where
  "envelopeItems magicWordBuffer envelopeChunks internalKey =
     [Op OP_0, Op OP_IF, Push magicWordBuffer, Push [TAPROOT_ENVELOPE_FORMAT_V0]] @
     map Push envelopeChunks @
     [Op OP_ENDIF, Push internalKey, Op OP_CHECKSIG]"

definition envelopePayload ::
  "(item list \<Rightarrow> Buffer) \<Rightarrow> (Buffer \<Rightarrow> bool) \<Rightarrow> Buffer \<Rightarrow> Encoding \<Rightarrow> string option \<Rightarrow> Buffer \<Rightarrow> payload result" where
  "envelopePayload compile onCurve d encoding compressedPubKey magicWordBuffer =
     (case compressedPubKey of
        None \<Rightarrow> throw (ParamTypeError ''compressedPubKey is required for TAPROOT encoding'')
      | Some key \<Rightarrow>
          andThen (validateCompressedPubKey onCurve compressedPubKey) (\<lambda>_.
          let internalKey = drop 1 (fromHex key);
              envelopeChunks = sliceEnvelopeChunks d;
              envelopeScript = compile (envelopeItems magicWordBuffer envelopeChunks internalKey)
          in ok \<lparr>dataBufferArray = [envelopeScript], payloadEncoding = encoding,
                 internalPubkey = Some internalKey\<rparr>))"

definition prepareData ::
  "(item list \<Rightarrow> Buffer) \<Rightarrow> (string \<Rightarrow> Buffer result) \<Rightarrow> (Buffer \<Rightarrow> bool) \<Rightarrow>
     Buffer \<Rightarrow> Encoding option \<Rightarrow> string \<Rightarrow> string option \<Rightarrow> payload result" where
  "prepareData compile resolveCallerHash160 onCurve d encoding pubKey compressedPubKey =
     (let magicWordBuffer = MAGIC_WORD;
          enc = (case encoding of
                   Some e \<Rightarrow> e
                 | None \<Rightarrow> if length d + length magicWordBuffer \<le> OP_RETURN_SIZE then E_OP_RETURN else E_P2SH)
      in case enc of
           E_OP_RETURN \<Rightarrow> opReturnPayload d enc magicWordBuffer
         | E_P2SH \<Rightarrow> scriptHashPayload compile resolveCallerHash160 d enc pubKey
         | E_P2WSH \<Rightarrow> scriptHashPayload compile resolveCallerHash160 d enc pubKey
         | E_MULTISIGN \<Rightarrow> multisignPayload d enc magicWordBuffer
         | E_TAPROOT \<Rightarrow> envelopePayload compile onCurve d enc compressedPubKey magicWordBuffer
         | E_AUTO \<Rightarrow> throw (ParamTypeError ''Unknown encoding'')
         | UnknownEncoding s \<Rightarrow> throw (ParamTypeError ''Unknown encoding''))"

text \<open>Size-aware selection for \<open>AUTO\<close>; an absent or false capability means no.\<close>

definition selectEncoding :: "bool \<Rightarrow> nat \<Rightarrow> string option \<Rightarrow> bool option \<Rightarrow> Encoding" where
  "selectEncoding segwit compiledLength compressedPubKey signerSupportsTapscript =
     (let magicBytes = length MAGIC_WORD
      in if compiledLength + magicBytes \<le> OP_RETURN_SIZE then E_OP_RETURN
         else if segwit \<and> signerSupportsTapscript = Some True \<and>
                 compressedPubKey \<noteq> None \<and> compressedPubKey \<noteq> Some [] then E_TAPROOT
         else if segwit then E_P2WSH
         else E_P2SH)"

section \<open>Obfuscation, multisig halves, witness programs\<close>

text \<open>\<open>obfuscate\<close>: AES-128-CTR keyed by the first input's txid, 16 characters of key and 16 of IV.\<close>

definition obfuscate :: "(string \<Rightarrow> string \<Rightarrow> Buffer \<Rightarrow> Buffer) \<Rightarrow> Buffer \<Rightarrow> string \<Rightarrow> Buffer" where
  "obfuscate aes128ctr d key =
     (let cipherKey = subarray key 0 16; iv = subarray key 16 32 in aes128ctr cipherKey iv d)"

definition dataToPubkey :: "Buffer \<Rightarrow> Buffer" where
  "dataToPubkey d = 0x02 # (if length d < 32 then d @ replicate (32 - length d) 0 else d)"

text \<open>\<open>isSegwitUTXO\<close>: the script is exactly a version opcode and a push of 2 to 40 bytes.\<close>

definition isSegwitUTXO :: "(Buffer \<Rightarrow> item list option) \<Rightarrow> string \<Rightarrow> bool" where
  "isSegwitUTXO decompile scriptPubKey =
     (case decompile (fromHex scriptPubKey) of
        Some [Op version, Push program] \<Rightarrow>
          (version = OP_0 \<or> (0x51 \<le> version \<and> version \<le> 0x60)) \<and>
          2 \<le> length program \<and> length program \<le> 40
      | _ \<Rightarrow> False)"

section \<open>The recognition gate\<close>

text \<open>\<open>tip\<close> is what \<open>getBlockCount\<close> answered, \<open>None\<close> for anything that is not a number.\<close>

definition assertEnvelopeRecognized :: "string \<Rightarrow> jsnum option \<Rightarrow> unit result" where
  "assertEnvelopeRecognized networkKey tip =
     (case getEnvelopeRecognitionHeight networkKey of
        None \<Rightarrow> throw (ParamTypeError ''TAPROOT encoding is not recognized on this network'')
      | Some height \<Rightarrow>
          if height = 0 then ok ()
          else (case tip of
                  None \<Rightarrow> throw (OperationalError ''ENVELOPE_RECOGNITION_UNKNOWN'')
                | Some t \<Rightarrow>
                    if \<not> isFinite t then throw (OperationalError ''ENVELOPE_RECOGNITION_UNKNOWN'')
                    else if js_lt t (of_int height) then throw (OperationalError ''ENVELOPE_NOT_YET_ACTIVE'')
                    else ok ()))"

end
