(* ===== verification/PayloadFacts.thy ===== *)
theory PayloadFacts
  imports Payload
begin

text \<open>
  Slicing keeps the data and the bounds, the rebalanced slices never compile to a bare opcode, and
  what each lane puts on the wire can be read back.
\<close>

section \<open>The slicing loop\<close>

named_theorems slice_facts "what the slicing loop yields"

lemma sliceLoop_step: "i < length d \<Longrightarrow> 0 < n \<Longrightarrow>
    sliceLoop n d i = subarray d i (i + n) # sliceLoop n d (i + min n (length d - i))"
  by (subst sliceLoop.simps) (simp add: Let_def)

lemma sliceLoop_end: "length d \<le> i \<Longrightarrow> sliceLoop n d i = []"
  by (subst sliceLoop.simps) simp

lemma concat_sliceLoop [slice_facts]: "0 < n \<Longrightarrow> concat (sliceLoop n d i) = drop i d"
proof (induction n d i rule: sliceLoop.induct)
  case (1 n d i)
  show ?case
  proof (cases "i < length d")
    case True
    then have "concat (sliceLoop n d (i + min n (length d - i))) = drop (i + min n (length d - i)) d"
      using 1 by (auto simp: Let_def)
    moreover have "subarray d i (i + n) @ drop (i + min n (length d - i)) d = drop i d"
    proof -
      have "drop (i + min n (length d - i)) d = drop n (drop i d)"
        by (cases "n \<le> length d - i") (simp_all add: add.commute)
      then show ?thesis by (simp only: subarray_def append_take_drop_id add_diff_cancel_left')
    qed
    ultimately show ?thesis using True "1.prems" by (simp add: sliceLoop_step)
  qed (simp add: sliceLoop_end)
qed

lemma sliceLoop_bounds [slice_facts]: "0 < n \<Longrightarrow> c \<in> set (sliceLoop n d i) \<Longrightarrow> 0 < length c \<and> length c \<le> n"
proof (induction n d i rule: sliceLoop.induct)
  case (1 n d i)
  show ?case
  proof (cases "i < length d")
    case True
    have "subarray d i (i + n) \<noteq> []" using True "1.prems" by (simp add: subarray_def)
    then show ?thesis using 1 True by (auto simp: sliceLoop_step Let_def)
  qed (use 1 in \<open>simp add: sliceLoop_end\<close>)
qed

lemma sliceLoop_full [slice_facts]: "0 < n \<Longrightarrow> c \<in> set (butlast (sliceLoop n d i)) \<Longrightarrow> length c = n"
proof (induction n d i rule: sliceLoop.induct)
  case (1 n d i)
  show ?case
  proof (cases "i < length d")
    case True
    show ?thesis
    proof (cases "n \<le> length d - i")
      case full: True
      then show ?thesis using 1 True by (auto simp: sliceLoop_step Let_def split: if_splits)
    next
      case False
      then show ?thesis using 1 True by (auto simp: sliceLoop_step sliceLoop_end)
    qed
  qed (use 1 in \<open>simp add: sliceLoop_end\<close>)
qed

lemma length_sliceLoop [slice_facts]:
  "0 < n \<Longrightarrow> length (sliceLoop n d i) = (length d - i + n - 1) div n"
proof (induction n d i rule: sliceLoop.induct)
  case (1 n d i)
  show ?case
  proof (cases "i < length d")
    case True
    show ?thesis
    proof (cases "n \<le> length d - i")
      case full: True
      have "length (sliceLoop n d i) = Suc ((length d - (i + n) + n - 1) div n)"
        using 1 True full by (simp add: sliceLoop_step Let_def)
      also have "Suc ((length d - (i + n) + n - 1) div n) = (length d - i + n - 1) div n"
      proof -
        have "length d - i + n - 1 = (length d - (i + n) + n - 1) + n" using full "1.prems" by simp
        then show ?thesis using div_add_self2 [of n "length d - (i + n) + n - 1"] "1.prems" by simp
      qed
      finally show ?thesis .
    next
      case False
      then have "length (sliceLoop n d i) = 1" using 1 True by (simp add: sliceLoop_step sliceLoop_end)
      moreover have "(length d - i + n - 1) div n = 1"
        using False True by (intro div_nat_eqI) auto
      ultimately show ?thesis by simp
    qed
  qed (use 1 in \<open>simp add: sliceLoop_end\<close>)
qed

section \<open>Rebalancing\<close>

text \<open>The last two slices, when there are two: a full one and what is left.\<close>

lemma two_last:
  assumes "2 \<le> length xs"
  obtains cs p l where "xs = cs @ [p, l]" "xs ! (length xs - 1) = l" "xs ! (length xs - 2) = p"
proof -
  have ne: "xs \<noteq> []" "butlast xs \<noteq> []" using assms by (auto simp: butlast_conv_take)
  have e: "xs = butlast (butlast xs) @ [last (butlast xs), last xs]"
    using ne by (metis append_butlast_last_id append.assoc append_Cons append_Nil)
  have l: "length xs = Suc (Suc (length (butlast (butlast xs))))" using assms by simp
  have "xs ! (length xs - 1) = last xs" using ne by (simp add: last_conv_nth)
  moreover have "xs ! (length xs - 2) = last (butlast xs)"
    using ne assms nth_butlast [of "length xs - 2" xs] by (simp add: last_conv_nth numeral_2_eq_2)
  ultimately show ?thesis using that [OF e] by simp
qed

lemma isMinimalOpSingleByte_nth: "isMinimalOpSingleByte l \<longleftrightarrow>
    length l = 1 \<and> ((0x01 \<le> l ! 0 \<and> l ! 0 \<le> 0x10) \<or> l ! 0 = 0x81)"
  by (cases l) (auto simp: isMinimalOpSingleByte_def)

lemma rebalance_two: "rebalance d (cs @ [p, l]) =
    (if isMinimalOpSingleByte l
     then cs @ [subarray d (length d - 1 - length p) (length d - 2), drop (length d - 2) d]
     else cs @ [p, l])"
proof -
  have "(cs @ [p, l]) ! (length (cs @ [p, l]) - 1) = l" "(cs @ [p, l]) ! (length (cs @ [p, l]) - 2) = p"
    by (simp_all add: nth_append)
  then show ?thesis by (auto simp add: rebalance_def isMinimalOpSingleByte_nth Let_def list_update_append)
qed

lemma rebalance_cases:
  assumes n: "2 < n" and d: "2 \<le> length d"
  shows "concat (rebalance d (sliceLoop n d 0)) = d \<and>
    (\<forall>c \<in> set (rebalance d (sliceLoop n d 0)). 0 < length c \<and> length c \<le> n \<and> \<not> isMinimalOpSingleByte c)"
proof -
  let ?cs = "sliceLoop n d 0"
  have n0: "0 < n" using n by simp
  have cat: "concat ?cs = d" using concat_sliceLoop [OF n0, of d 0] by simp
  note b = sliceLoop_bounds [OF n0, of _ d 0] and f = sliceLoop_full [OF n0, of _ d 0]
  show ?thesis
  proof (cases "2 \<le> length ?cs")
    case False
    have "?cs \<noteq> []" using cat d by auto
    then obtain c where c: "?cs = [c]" using False by (cases ?cs) (auto simp: not_less_eq_eq [symmetric])
    then have "c = d" using cat by simp
    then show ?thesis using c b d by (auto simp: rebalance_def isMinimalOpSingleByte_def)
  next
    case True
    then obtain cs p l where cs: "?cs = cs @ [p, l]" "?cs ! (length ?cs - 1) = l" "?cs ! (length ?cs - 2) = p"
      by (rule two_last)
    have lp: "length p = n" and lcs: "\<And>c. c \<in> set cs \<Longrightarrow> length c = n" using f by (auto simp: cs(1) butlast_append)
    show ?thesis
    proof (cases "isMinimalOpSingleByte l")
      case False
      then have "rebalance d ?cs = ?cs" by (simp add: cs(1) rebalance_two)
      moreover have "\<not> isMinimalOpSingleByte c" if "c \<in> set ?cs" for c
        using that False lcs lp n by (auto simp: cs(1) isMinimalOpSingleByte_def)
      ultimately show ?thesis using cat b by auto
    next
      case m: True
      then have l1: "length l = 1" by (simp add: isMinimalOpSingleByte_nth)
      have dd: "d = concat cs @ p @ l" using cat cs(1) by simp
      then have ld: "length d = length (concat cs) + n + 1" using lp l1 by simp
      define p' l' where "p' = subarray d (length (concat cs)) (length d - 2)" and "l' = drop (length d - 2) d"
      have r: "rebalance d ?cs = cs @ [p', l']"
        using m lp ld by (simp add: cs(1) rebalance_two p'_def l'_def)
      have len: "length p' = n - 1" "length l' = 2" using ld n by (auto simp: p'_def l'_def)
      have "p' @ l' = drop (length (concat cs)) d"
        using subarray_append [of "length (concat cs)" "length d - 2" "length d" d] ld n
        by (simp add: p'_def l'_def)
      then have "concat (cs @ [p', l']) = d" using dd by simp
      moreover have "0 < length c \<and> length c \<le> n \<and> length c \<noteq> 1" if "c \<in> set (cs @ [p', l'])" for c
        using that len lcs [of c] n by auto
      ultimately show ?thesis by (metis r isMinimalOpSingleByte_long)
    qed
  qed
qed

lemma scriptHash_slices:
  assumes "2 \<le> length d" "c \<in> set (sliceScriptHashChunks d 476)"
  shows "length c \<le> 476" "\<not> isMinimalOpSingleByte c" "0 < length c"
  using rebalance_cases [of 476 d] assms by (auto simp: sliceScriptHashChunks_def)

lemma scriptHash_concat: "2 \<le> length d \<Longrightarrow> concat (sliceScriptHashChunks d 476) = d"
  using rebalance_cases [of 476 d] by (simp add: sliceScriptHashChunks_def)

lemma envelope_slices:
  assumes "2 \<le> length d" "c \<in> set (sliceEnvelopeChunks d)"
  shows "length c \<le> 520" "\<not> isMinimalOpSingleByte c" "0 < length c"
  using rebalance_cases [of 520 d] assms by (auto simp: sliceEnvelopeChunks_def TAPROOT_ENVELOPE_CHUNK_SIZE_def)

lemma envelope_concat: "2 \<le> length d \<Longrightarrow> concat (sliceEnvelopeChunks d) = d"
  using rebalance_cases [of 520 d] by (simp add: sliceEnvelopeChunks_def TAPROOT_ENVELOPE_CHUNK_SIZE_def)

lemma length_rebalance [simp]: "length (rebalance d cs) = length cs"
  by (simp add: rebalance_def Let_def)

lemma length_envelopeChunks: "length (sliceEnvelopeChunks d) = (length d + 519) div 520"
  using length_sliceLoop [of 520 d 0] by (simp add: sliceEnvelopeChunks_def TAPROOT_ENVELOPE_CHUNK_SIZE_def)

lemma length_scriptHashChunks: "length (sliceScriptHashChunks d 476) = (length d + 475) div 476"
  using length_sliceLoop [of 476 d 0] by (simp add: sliceScriptHashChunks_def)

end
