(* ===== verification/PayloadProperties.thy ===== *)
theory PayloadProperties
  imports PayloadFacts
begin

text \<open>
  What each carrier promises: the payload can be read back from what it puts on the wire, within
  the limits of the script interpreter and of relay policy, and the encoder refuses to build an
  envelope decoders would ignore.
\<close>

section \<open>Reading a lane back\<close>

text \<open>
  A decoder takes the leading push of each redeem or witness script, skipping a script that does
  not begin with one, and concatenates; for an envelope it takes the pushes after the format byte
  up to \<open>OP_ENDIF\<close>.
\<close>

definition leadingPush :: "(Buffer \<Rightarrow> item list option) \<Rightarrow> Buffer \<Rightarrow> Buffer" where
  "leadingPush decompile b = (case decompile b of Some (Push c # r) \<Rightarrow> c | _ \<Rightarrow> [])"

definition reassemble :: "(Buffer \<Rightarrow> item list option) \<Rightarrow> Buffer list \<Rightarrow> Buffer" where
  "reassemble decompile bs = concat (map (leadingPush decompile) bs)"

fun pushesBeforeOp :: "item list \<Rightarrow> Buffer list" where
  "pushesBeforeOp (Push c # r) = c # pushesBeforeOp r"
| "pushesBeforeOp _ = []"

definition envelopeBody :: "(Buffer \<Rightarrow> item list option) \<Rightarrow> Buffer \<Rightarrow> Buffer" where
  "envelopeBody decompile b = (case decompile b of
     Some (Op x # Op y # Push m # Push v # r) \<Rightarrow> concat (pushesBeforeOp r) | _ \<Rightarrow> [])"

lemma itemSize_Op [simp]: "itemSize (Op b) = 1"
  by (simp add: itemSize.simps)

lemma itemSize_Push: "d \<noteq> [] \<Longrightarrow> \<not> isMinimalOpSingleByte d \<Longrightarrow> itemSize (Push d) = envelopePushSize (length d)"
  by (simp add: itemSize.simps)

lemma itemSize_Push_le: "length d \<le> 0xffff \<Longrightarrow> itemSize (Push d) \<le> length d + 3"
  using compiledPushSize_ge(2) [of "length d"] envelopePushSize_small [of "length d"]
  by (auto simp: itemSize.simps)

lemma pushesBeforeOp_map: "pushesBeforeOp (map Push cs @ Op b # r) = cs"
  by (induction cs) auto

lemma valid_opcodes: "valid_item (Op OP_0)" "valid_item (Op OP_IF)" "valid_item (Op OP_ENDIF)" "valid_item (Op OP_DROP)"
  "valid_item (Op OP_DUP)" "valid_item (Op OP_HASH160)" "valid_item (Op OP_EQUALVERIFY)" "valid_item (Op OP_CHECKSIG)"
  by (simp_all add: opcode_defs word_less_nat_alt)

lemma minimalForm_same: "d \<noteq> [] \<Longrightarrow> \<not> isMinimalOpSingleByte d \<Longrightarrow> minimalForm (Push d) = Push d"
  by simp

lemma chunkScript_minimal:
  assumes "c \<noteq> []" "\<not> isMinimalOpSingleByte c" "length h = 20"
  shows "map minimalForm (chunkScript c h) = chunkScript c h"
proof -
  have "h \<noteq> []" "\<not> isMinimalOpSingleByte h" using assms(3) by (auto simp: isMinimalOpSingleByte_def)
  then show ?thesis using assms(1,2) by (simp add: chunkScript_def)
qed

lemma chunkScript_valid: "length c \<le> 476 \<Longrightarrow> length h = 20 \<Longrightarrow> list_all valid_item (chunkScript c h)"
  using valid_opcodes by (simp add: chunkScript_def)

text \<open>
  C6. The P2SH and P2WSH lanes: for a payload of two bytes or more, the build succeeds with one
  script per 476 bytes, no script exceeds the 520-byte element limit, each reads back as a data
  push followed by the P2PKH gate of the caller's key, and the pushes concatenate to the payload.
\<close>

theorem scriptHash_lane_roundtrip:
  assumes codec: "script_codec compile decompile" and key: "resolve pubKey = ok h" "length h = 20"
    and d: "2 \<le> length d"
  shows "\<exists>bufs. scriptHashPayload compile resolve d encoding pubKey =
           ok \<lparr>dataBufferArray = bufs, payloadEncoding = encoding, internalPubkey = None\<rparr> \<and>
         reassemble decompile bufs = d \<and> length bufs = (length d + 475) div 476 \<and>
         (\<forall>b \<in> set bufs. length b \<le> 520 \<and> (\<exists>c. decompile b = Some (chunkScript c h)))"
proof -
  let ?cs = "sliceScriptHashChunks d 476"
  let ?f = "\<lambda>c. compile (chunkScript c h)"
  have run: "scriptHashPayload compile resolve d encoding pubKey =
      ok \<lparr>dataBufferArray = map ?f ?cs, payloadEncoding = encoding, internalPubkey = None\<rparr>"
    by (simp add: scriptHashPayload_def key P2SH_SIZE_def PW2SH_SIZE_def)
  have read: "decompile (?f c) = Some (chunkScript c h) \<and> length (?f c) \<le> 520" if "c \<in> set ?cs" for c
  proof -
    note c = scriptHash_slices [OF d that]
    have v: "list_all valid_item (chunkScript c h)" using c(1) key(2) by (rule chunkScript_valid)
    have "decompile (?f c) = Some (chunkScript c h)"
      using codec_read [OF codec v] chunkScript_minimal [of c h] c key(2) by auto
    moreover have "length (?f c) \<le> 520"
      using codec_length [OF codec v] itemSize_Push_le [of c] itemSize_Push_le [of h] c key(2)
      by (simp add: chunkScript_def)
    ultimately show ?thesis ..
  qed
  have "map (leadingPush decompile) (map ?f ?cs) = ?cs"
    using read by (simp add: leadingPush_def chunkScript_def map_idI)
  then have "reassemble decompile (map ?f ?cs) = d"
    using scriptHash_concat [OF d] by (simp add: reassemble_def)
  then show ?thesis using run read length_scriptHashChunks [of d] by auto
qed

theorem scriptHash_lane_roundtrip_witness:
  "\<exists>bufs. scriptHashPayload writeScript (\<lambda>_. ok (replicate 20 1)) (replicate 476 7 @ [5]) E_P2SH ''k'' =
      ok \<lparr>dataBufferArray = bufs, payloadEncoding = E_P2SH, internalPubkey = None\<rparr> \<and>
    reassemble readScript bufs = replicate 476 7 @ [5]"
  using scriptHash_lane_roundtrip [OF writeScript_codec, of "\<lambda>_. ok (replicate 20 1)" "''k''" "replicate 20 1"
      "replicate 476 7 @ [5]" E_P2SH] by auto

lemma sum_list_le: "(\<And>x. x \<in> set xs \<Longrightarrow> f x \<le> g x + (k::nat)) \<Longrightarrow>
    sum_list (map f xs) \<le> sum_list (map g xs) + k * length xs"
proof (induction xs)
  case (Cons a xs)
  then have "f a \<le> g a + k" "sum_list (map f xs) \<le> sum_list (map g xs) + k * length xs" by simp_all
  then show ?case by simp
qed simp

lemma envelope_script:
  assumes codec: "script_codec compile decompile" and d: "2 \<le> length d" and lk: "length k = 32"
  defines "items \<equiv> envelopeItems MAGIC_WORD (sliceEnvelopeChunks d) k"
  shows "decompile (compile items) = Some items" "envelopeBody decompile (compile items) = d"
    "length (compile items) \<le> length d + 3 * ((length d + 519) div 520) + 44"
proof -
  let ?cs = "sliceEnvelopeChunks d"
  note c = envelope_slices [OF d]
  have "list_all valid_item (map Push ?cs)" using c(1) by (fastforce simp: list_all_iff)
  then have v: "list_all valid_item items" using valid_opcodes lk
    by (simp add: items_def envelopeItems_def)
  have mk: "minimalForm (Push k) = Push k" "minimalForm (Push MAGIC_WORD) = Push MAGIC_WORD"
    "minimalForm (Push [TAPROOT_ENVELOPE_FORMAT_V0]) = Push [TAPROOT_ENVELOPE_FORMAT_V0]"
    using lk by (auto simp: isMinimalOpSingleByte_def MAGIC_WORD_def TAPROOT_ENVELOPE_FORMAT_V0_def)
  have "map minimalForm (map Push ?cs) = map Push ?cs" using c by (auto simp: map_idI)
  then have "map minimalForm items = items" using mk by (simp add: items_def envelopeItems_def del: minimalForm.simps(2))
  then show read: "decompile (compile items) = Some items" using codec_read [OF codec v] by simp
  show "envelopeBody decompile (compile items) = d"
    using envelope_concat [OF d] unfolding envelopeBody_def read
    by (simp add: items_def envelopeItems_def pushesBeforeOp_map)
  have "sum_list (map (\<lambda>x. itemSize (Push x)) ?cs) \<le> sum_list (map length ?cs) + 3 * length ?cs"
    using c(1) by (intro sum_list_le) (fastforce intro: itemSize_Push_le)
  also have "sum_list (map length ?cs) = length d" by (metis envelope_concat [OF d] length_concat)
  finally have s: "sum_list (map (\<lambda>x. itemSize (Push x)) ?cs) \<le> length d + 3 * ((length d + 519) div 520)"
    by (simp add: length_envelopeChunks)
  have "itemSize (Push k) = 33" "itemSize (Push MAGIC_WORD) = 5" "itemSize (Push [TAPROOT_ENVELOPE_FORMAT_V0]) = 2"
    unfolding itemSize.simps mk using lk by (simp_all add: envelopePushSize_def compiledPushSize_def)
  then show "length (compile items) \<le> length d + 3 * ((length d + 519) div 520) + 44"
    using s codec_length [OF codec v] by (simp add: items_def envelopeItems_def o_def)
qed

lemma envelopePayload_run: "isCompressedPubKeyHex key \<Longrightarrow> onCurve (fromHex key) \<Longrightarrow>
    envelopePayload compile onCurve d encoding (Some key) magic =
      ok \<lparr>dataBufferArray = [compile (envelopeItems magic (sliceEnvelopeChunks d) (drop 1 (fromHex key)))],
          payloadEncoding = encoding, internalPubkey = Some (drop 1 (fromHex key))\<rparr>"
  by (simp add: envelopePayload_def validateCompressedPubKey_def Let_def)

text \<open>
  C7. The Taproot envelope: with a valid internal key the build yields one leaf script, which reads
  back as the documented grammar with pushes of at most 520 bytes that concatenate to the payload;
  the framing costs at most three bytes per push and 44 in all.
\<close>

theorem envelope_lane_roundtrip:
  assumes "script_codec compile decompile" "2 \<le> length d" "isCompressedPubKeyHex key" "onCurve (fromHex key)"
  shows "\<exists>script chunks. envelopePayload compile onCurve d encoding (Some key) MAGIC_WORD =
           ok \<lparr>dataBufferArray = [script], payloadEncoding = encoding, internalPubkey = Some (drop 1 (fromHex key))\<rparr> \<and>
         decompile script = Some (envelopeItems MAGIC_WORD chunks (drop 1 (fromHex key))) \<and>
         envelopeBody decompile script = d \<and> (\<forall>c \<in> set chunks. length c \<le> 520) \<and>
         length script \<le> length d + 3 * ((length d + 519) div 520) + 44"
proof -
  have "length (drop 1 (fromHex key)) = 32" using compressed_length [OF assms(3)] by simp
  from envelope_script [OF assms(1,2) this] envelopePayload_run [where key = key and onCurve = onCurve, OF assms(3,4)] envelope_slices(1) [OF assms(2)]
  show ?thesis by blast
qed

definition witness_key :: string where
  "witness_key = ''02'' @ replicate 64 (CHR ''a'')"

theorem envelope_lane_roundtrip_witness:
  "\<exists>script chunks. envelopePayload writeScript (\<lambda>_. True) (replicate 520 9 @ [0x81]) E_TAPROOT (Some witness_key) MAGIC_WORD =
      ok \<lparr>dataBufferArray = [script], payloadEncoding = E_TAPROOT, internalPubkey = Some (drop 1 (fromHex witness_key))\<rparr> \<and>
    envelopeBody readScript script = replicate 520 9 @ [0x81] \<and> length script \<le> 521 + 6 + 44"
proof -
  have "isCompressedPubKeyHex witness_key" by code_simp
  from envelope_lane_roundtrip [OF writeScript_codec _ this, of "replicate 520 9 @ [0x81]" "\<lambda>_. True" E_TAPROOT]
  show ?thesis by auto
qed

text \<open>
  The MULTISIGN lane: every chunk fills its 64-byte slot, so both 32-byte halves become 33-byte
  keys with the \<open>02\<close> prefix, and dropping each slot's magic and cutting the concatenation at the
  payload's length gives the payload back.
\<close>

theorem multisign_lane_roundtrip:
  "\<exists>slots. multisignPayload d encoding MAGIC_WORD =
       ok \<lparr>dataBufferArray = slots, payloadEncoding = encoding, internalPubkey = None\<rparr> \<and>
     length slots = (length d + 59) div 60 \<and>
     (\<forall>s \<in> set slots. length s = 64 \<and> take 4 s = MAGIC_WORD \<and>
        length (dataToPubkey (subarray s 0 32)) = 33 \<and> length (dataToPubkey (subarray s 32 64)) = 33) \<and>
     take (length d) (concat (map (drop 4) slots)) = d"
proof -
  let ?cs = "sliceLoop 60 d 0"
  have run: "multisignPayload d encoding MAGIC_WORD =
      ok \<lparr>dataBufferArray = map (multisignChunk MAGIC_WORD) ?cs, payloadEncoding = encoding, internalPubkey = None\<rparr>"
    by (simp add: multisignPayload_def MULTISIGN_SIZE_def)
  have len: "length (multisignChunk MAGIC_WORD c) = 64 \<and> take 4 (multisignChunk MAGIC_WORD c) = MAGIC_WORD \<and>
      (\<exists>n. drop 4 (multisignChunk MAGIC_WORD c) = c @ replicate n 0 \<and> (length c = 60 \<longrightarrow> n = 0))"
    if "c \<in> set ?cs" for c
    using sliceLoop_bounds [OF _ that] by (auto simp: multisignChunk_def multisignSlotSize_def Let_def)
  have "\<exists>z. concat (map (drop 4 \<circ> multisignChunk MAGIC_WORD) cs) = concat cs @ z"
    if "\<forall>c \<in> set cs. \<exists>n. drop 4 (multisignChunk MAGIC_WORD c) = c @ replicate n 0 \<and> (length c = 60 \<longrightarrow> n = 0)"
      "\<forall>c \<in> set (butlast cs). length c = 60" for cs
    using that
  proof (induction cs)
    case (Cons c cs)
    show ?case
    proof (cases "cs = []")
      case False
      then have "length c = 60" "\<forall>c \<in> set (butlast cs). length c = 60" using Cons.prems(2) by auto
      then show ?thesis using Cons by auto
    qed (use Cons in auto)
  qed simp
  from this [of ?cs] have "\<exists>z. concat (map (drop 4 \<circ> multisignChunk MAGIC_WORD) ?cs) = concat ?cs @ z"
    using len sliceLoop_full [of 60 _ d 0] by auto
  then have "take (length d) (concat (map (drop 4 \<circ> multisignChunk MAGIC_WORD) ?cs)) = d"
    using concat_sliceLoop [of 60 d 0] by auto
  then show ?thesis using run len length_sliceLoop [of 60 d 0] by (auto simp: dataToPubkey_def)
qed

theorem multisign_lane_roundtrip_witness:
  "\<exists>slots. multisignPayload [1, 2, 3] E_MULTISIGN MAGIC_WORD =
       ok \<lparr>dataBufferArray = slots, payloadEncoding = E_MULTISIGN, internalPubkey = None\<rparr> \<and>
     length slots = 1 \<and> take 3 (concat (map (drop 4) slots)) = [1, 2, 3]"
  using multisign_lane_roundtrip [of "[1, 2, 3]" E_MULTISIGN] by (auto simp: numeral_3_eq_3)

text \<open>
  Without an explicit encoding the payload always fits its carrier: up to 76 bytes it becomes
  the single 80-byte OP_RETURN push, and beyond that the P2SH lane; asked for OP_RETURN
  explicitly, exactly the payloads over 76 bytes are refused.
\<close>

theorem prepareData_default_fits:
  "(length d \<le> 76 \<longrightarrow> prepareData compile resolve onCurve d None pubKey key =
      ok \<lparr>dataBufferArray = [MAGIC_WORD @ d], payloadEncoding = E_OP_RETURN, internalPubkey = None\<rparr> \<and>
      length (MAGIC_WORD @ d) \<le> OP_RETURN_SIZE) \<and>
   (76 < length d \<longrightarrow> prepareData compile resolve onCurve d None pubKey key =
      scriptHashPayload compile resolve d E_P2SH pubKey) \<and>
   (prepareData compile resolve onCurve d (Some E_OP_RETURN) pubKey key =
      throw (ParamRangeError ''OP_RETURN encoding requires compiled payload'') \<longleftrightarrow> 76 < length d)"
  by (auto simp: prepareData_def opReturnPayload_def OP_RETURN_SIZE_def Let_def)

theorem prepareData_default_fits_witness:
  "prepareData writeScript (\<lambda>_. ok []) (\<lambda>_. True) [1, 2, 3] None ''k'' None =
     ok \<lparr>dataBufferArray = [MAGIC_WORD @ [1, 2, 3]], payloadEncoding = E_OP_RETURN, internalPubkey = None\<rparr>"
  using prepareData_default_fits [of "[1, 2, 3]" writeScript "\<lambda>_. ok []" "\<lambda>_. True" "''k''" None] by simp

text \<open>
  \<open>AUTO\<close> resolves to a carrier the builder accepts: it never picks MULTISIGN, picks the envelope
  only on a segwit network for a signer that affirmed tapscript and gave a key, and \<open>prepareData\<close>
  does not refuse the carrier it picked for the payload it was asked about.
\<close>

theorem auto_selection_builds:
  assumes "resolve pubKey = ok h"
    and "\<forall>k. key = Some k \<longrightarrow> k \<noteq> [] \<longrightarrow> isCompressedPubKeyHex k \<and> onCurve (fromHex k)"
  shows "(\<exists>p. prepareData compile resolve onCurve d (Some (selectEncoding segwit (length d) key signer)) pubKey key = ok p) \<and>
    selectEncoding segwit (length d) key signer \<in> {E_OP_RETURN, E_P2SH, E_P2WSH, E_TAPROOT} \<and>
    (selectEncoding segwit (length d) key signer = E_TAPROOT \<longrightarrow> segwit \<and> signer = Some True \<and> key \<noteq> None) \<and>
    (selectEncoding segwit (length d) key signer \<in> {E_P2WSH, E_TAPROOT} \<longrightarrow> segwit)"
  using assms
  by (auto simp: selectEncoding_def prepareData_def opReturnPayload_def scriptHashPayload_def envelopePayload_def
      validateCompressedPubKey_def OP_RETURN_SIZE_def Let_def)

theorem auto_selection_builds_witness:
  "\<exists>p. prepareData writeScript (\<lambda>_. ok (replicate 20 1)) (\<lambda>_. True) (replicate 100 7)
     (Some (selectEncoding True 100 (Some witness_key) (Some True))) ''k'' (Some witness_key) = ok p"
proof -
  have "isCompressedPubKeyHex witness_key" by code_simp
  then show ?thesis
    using auto_selection_builds [of "\<lambda>_. ok (replicate 20 1)" "''k''" "replicate 20 1" "Some witness_key"
        "\<lambda>_. True" writeScript "replicate 100 7" True "Some True"] by simp
qed

section \<open>Recognition of envelopes\<close>

text \<open>
  An envelope is built exactly where decoders recognize it: on the test networks of Bitcoin and
  Litecoin always, on their main networks once the node reports a finite tip at or over the
  activation height, on Dogecoin and unknown networks never; an unknown tip refuses.
\<close>

theorem envelope_recognition_exact:
  "assertEnvelopeRecognized networkKey tip = ok () \<longleftrightarrow>
     (\<exists>c n. parseNetworkName networkKey = Some (c, n) \<and> c \<noteq> DOGE \<and>
        (n \<noteq> mainnet \<or> (\<exists>r. tip = Some (Fin r) \<and> (if c = BTC then 960850 else 3153500) \<le> r)))"
proof (cases "parseNetworkName networkKey")
  case None
  then show ?thesis by (simp add: assertEnvelopeRecognized_def getEnvelopeRecognitionHeight_def)
next
  case (Some cn)
  obtain c n where cn: "cn = (c, n)" by (cases cn)
  have fin: "(\<exists>t. tip = Some t \<and> isFinite t \<and> \<not> js_lt t x) \<longleftrightarrow> (\<exists>r. tip = Some (Fin r) \<and> x \<le> r)" for x
    by (auto simp: not_less elim: isFinite.elims)
  show ?thesis using Some fin cn
    by (cases c; cases n)
      (auto simp: assertEnvelopeRecognized_def getEnvelopeRecognitionHeight_def not_less
        split: option.splits if_splits elim!: isFinite.elims)
qed

theorem envelope_recognition_exact_witness:
  "assertEnvelopeRecognized ''bitcoin-mainnet'' (Some (Fin 960850)) = ok () \<and>
   assertEnvelopeRecognized ''bitcoin-mainnet'' (Some (Fin 960849)) \<noteq> ok ()"
proof -
  have "parseNetworkName ''bitcoin-mainnet'' = Some (BTC, mainnet)" by code_simp
  then show ?thesis unfolding envelope_recognition_exact by simp
qed

end
