(* ===== verification/Sizes.thy ===== *)
theory Sizes
  imports Wire Coins
begin

text \<open>
  The size estimates a build prices its fees with: \<open>src/src/build/tx_size_estimator.js\<close>,
  \<open>src/src/XChainEncoder/size_estimation.js\<close> and \<open>build_transaction/stripped_floor.js\<close>. A PSBT
  is the two lists its \<open>addInput\<close> and \<open>addOutput\<close> calls fill. The multisig parser, \<open>hash160\<close>, the
  transaction parser and the address decoder of bitcoinjs-lib are parameters.
\<close>

section \<open>Unsigned transactions\<close>

record txInput =
  inHash :: string
  inIndex :: nat
  inSequence :: nat
  witnessUtxo :: "(Buffer \<times> int) option"
  nonWitnessUtxo :: "Buffer option"
  redeemScript :: "Buffer option"

record txOutput =
  outScript :: Buffer
  outValue :: int

record psbt =
  txInputs :: "txInput list"
  txOutputs :: "txOutput list"

definition emptyPsbt :: psbt where
  "emptyPsbt = \<lparr>txInputs = [], txOutputs = []\<rparr>"

definition addInput :: "txInput \<Rightarrow> psbt \<Rightarrow> psbt" where
  "addInput i p = p\<lparr>txInputs := txInputs p @ [i]\<rparr>"

definition addOutput :: "Buffer \<Rightarrow> int \<Rightarrow> psbt \<Rightarrow> psbt" where
  "addOutput s v p = p\<lparr>txOutputs := txOutputs p @ [\<lparr>outScript = s, outValue = v\<rparr>]\<rparr>"

section \<open>\<open>tx_size_estimator.js\<close>\<close>

definition estimateOpReturnOutput :: "nat \<Rightarrow> nat" where
  "estimateOpReturnOutput dataLength =
     (let scriptLength = 1 + compiledPushSize dataLength
      in 8 + compactSizeLen scriptLength + scriptLength)"

definition estimateP2shOutput :: nat where "estimateP2shOutput = 32"
definition estimateP2wshOutput :: nat where "estimateP2wshOutput = 43"
definition estimateTaprootOutput :: nat where "estimateTaprootOutput = 43"
definition estimateMultisignOutput :: nat where "estimateMultisignOutput = 114"

text \<open>\<open>toOutputScript\<close> is \<open>bitcoin.address.toOutputScript\<close>, \<open>None\<close> where it throws.\<close>

definition estimateOutputSizeForAddress :: "(string \<Rightarrow> Buffer option) \<Rightarrow> string option \<Rightarrow> nat" where
  "estimateOutputSizeForAddress toOutputScript address =
     (let LARGEST_STANDARD_OUTPUT = 43
      in case address of
           None \<Rightarrow> LARGEST_STANDARD_OUTPUT
         | Some a \<Rightarrow>
             if a = [] then LARGEST_STANDARD_OUTPUT
             else (case toOutputScript a of
                     None \<Rightarrow> LARGEST_STANDARD_OUTPUT
                   | Some script \<Rightarrow> 8 + (if length script < 0xfd then 1 else 3) + length script))"

text \<open>\<open>strippedFloor\<close> is falsy when absent or zero.\<close>

definition flooredTo :: "nat option \<Rightarrow> nat \<Rightarrow> nat" where
  "flooredTo strippedFloor n = (case strippedFloor of None \<Rightarrow> n | Some f \<Rightarrow> if f \<noteq> 0 \<and> n < f then f else n)"

text \<open>\<open>Math.ceil(n / 4)\<close> of a whole number.\<close>

definition ceil4 :: "nat \<Rightarrow> nat" where
  "ceil4 n = (n + 3) div 4"

definition estimateEnvelopeRevealTx :: "nat \<Rightarrow> nat \<Rightarrow> nat option \<Rightarrow> nat" where
  "estimateEnvelopeRevealTx envelopeScriptLength outputsBytes strippedFloor =
     (let witnessBytes = 2 + 1 + (1 + 65) + (compactSizeLen envelopeScriptLength + envelopeScriptLength) + (1 + 33);
          nonWitnessBytes = flooredTo strippedFloor (10 + (36 + 1 + 4) + outputsBytes)
      in nonWitnessBytes + ceil4 witnessBytes + 2)"

definition estimateP2shInputWithRedeem :: "nat \<Rightarrow> nat" where
  "estimateP2shInputWithRedeem redeemLength =
     (let sigPush = 1 + 72;
          pubkeyPush = 1 + 33;
          redeemPush = compiledPushSize redeemLength - redeemLength;
          scriptSig = sigPush + pubkeyPush + redeemPush + redeemLength;
          scriptVarint = (if scriptSig < 253 then 1 else 3)
      in 40 + scriptVarint + scriptSig)"

text \<open>
  \<open>p2ms\<close> is \<open>bitcoin.payments.p2ms\<close> on the redeem script: the threshold, the key count and the
  keys, \<open>None\<close> where it throws.
\<close>

definition legacyP2shMultisigInputSize :: "(Buffer \<Rightarrow> (nat \<times> nat \<times> Buffer list) option) \<Rightarrow> Buffer \<Rightarrow> nat option" where
  "legacyP2shMultisigInputSize p2ms script =
     (case p2ms script of
        None \<Rightarrow> None
      | Some (m, n, pubkeys) \<Rightarrow>
          if m < 1 \<or> n < m \<or> length pubkeys \<noteq> n then None
          else
            (let redeemScriptLength = 3 + sum_list (map (\<lambda>pubkey. compiledPushSize (length pubkey)) pubkeys)
             in if redeemScriptLength \<noteq> length script then None
                else
                  (let signaturePushSize = compiledPushSize 73;
                       redeemPushPrefix = compiledPushSize redeemScriptLength - redeemScriptLength;
                       scriptSigLength = 1 + m * signaturePushSize + redeemPushPrefix + redeemScriptLength
                   in Some (40 + compactSizeLen scriptSigLength + scriptSigLength))))"

definition startsWith :: "Buffer \<Rightarrow> Buffer \<Rightarrow> bool" where
  "startsWith s p = (take (length p) s = p)"

definition endsWith :: "Buffer \<Rightarrow> Buffer \<Rightarrow> bool" where
  "endsWith s p = (length p \<le> length s \<and> drop (length s - length p) s = p)"

definition inputSizeForScript ::
  "(Buffer \<Rightarrow> (nat \<times> nat \<times> Buffer list) option) \<Rightarrow> (Buffer \<Rightarrow> Buffer) \<Rightarrow> Buffer \<Rightarrow> bool \<Rightarrow> Buffer option \<Rightarrow> nat" where
  "inputSizeForScript p2ms hash160 scriptPubKey isSegwit redeem =
     (if isSegwit \<and> startsWith scriptPubKey [0x00, 0x14] then 68
      else if isSegwit \<and> startsWith scriptPubKey [0x00, 0x20] then 105
      else if isSegwit \<and> length scriptPubKey = 23 \<and> startsWith scriptPubKey [0xa9, 0x14] \<and>
              endsWith scriptPubKey [0x87] then 91
      else if isSegwit \<and> startsWith scriptPubKey [0x51, 0x20] then 58
      else if startsWith scriptPubKey [0x76, 0xa9, 0x14] \<and> endsWith scriptPubKey [0x88, 0xac] then 180
      else if startsWith scriptPubKey [0xa9, 0x14] \<and> endsWith scriptPubKey [0x87] then
        (case redeem of
           None \<Rightarrow> 289
         | Some r \<Rightarrow>
             if length scriptPubKey = 23 \<and> hash160 r = subarray scriptPubKey 2 22
             then (case legacyP2shMultisigInputSize p2ms r of None \<Rightarrow> 289 | Some n \<Rightarrow> n)
             else 289)
      else 350)"

text \<open>\<open>txOuts\<close> is \<open>Transaction.fromBuffer(..).outs\<close>, \<open>None\<close> where the bytes do not parse.\<close>

definition estimateInputSize ::
  "(Buffer \<Rightarrow> (nat \<times> nat \<times> Buffer list) option) \<Rightarrow> (Buffer \<Rightarrow> Buffer) \<Rightarrow> (Buffer \<Rightarrow> txOutput list option) \<Rightarrow> txInput \<Rightarrow> nat" where
  "estimateInputSize p2ms hash160 txOuts utxo =
     (case witnessUtxo utxo of
        Some (script, v) \<Rightarrow> inputSizeForScript p2ms hash160 script True (redeemScript utxo)
      | None \<Rightarrow>
          (case nonWitnessUtxo utxo of
             None \<Rightarrow> 350
           | Some raw \<Rightarrow>
               (case txOuts raw of
                  None \<Rightarrow> 350
                | Some outs \<Rightarrow>
                    if inIndex utxo < length outs
                    then inputSizeForScript p2ms hash160 (outScript (outs ! inIndex utxo)) False (redeemScript utxo)
                    else 180)))"

section \<open>\<open>size_estimation.js\<close>\<close>

definition varIntSize :: "nat \<Rightarrow> nat" where
  "varIntSize n = (if n < 0xfd then 1 else if n \<le> 0xffff then 3 else if n \<le> 0xffffffff then 5 else 9)"

definition strippedTxSize :: "psbt \<Rightarrow> nat" where
  "strippedTxSize p =
     (let size = 4 + 4;
          size = size + varIntSize (length (txInputs p)) + 41 * length (txInputs p);
          size = size + varIntSize (length (txOutputs p))
      in foldl (\<lambda>size out. size + 8 + varIntSize (length (outScript out)) + length (outScript out))
           size (txOutputs p))"

definition raiseOutputValue :: "psbt \<Rightarrow> nat \<Rightarrow> int \<Rightarrow> psbt result" where
  "raiseOutputValue p outputIndex delta =
     (if delta \<le> 0 then throw (InternalError ''output uplift must be a positive integer'')
      else if length (txOutputs p) \<le> outputIndex then throw (InternalError ''no output at index to raise'')
      else ok (p\<lparr>txOutputs := (txOutputs p)[outputIndex :=
                   (txOutputs p ! outputIndex)\<lparr>outValue := outValue (txOutputs p ! outputIndex) + delta\<rparr>]\<rparr>))"

text \<open>The marker pushes are \<open>XCHNp2sh\<close> and \<open>XCHNp2wsh\<close>, 8 and 9 bytes.\<close>

definition p2shMarkerLength :: nat where "p2shMarkerLength = length MAGIC_WORD + length ''p2sh''"
definition p2wshMarkerLength :: nat where "p2wshMarkerLength = length MAGIC_WORD + length ''p2wsh''"

definition estimateSpendingP2shTx :: "nat \<Rightarrow> nat" where
  "estimateSpendingP2shTx redeemLength =
     10 + estimateP2shInputWithRedeem redeemLength + estimateOpReturnOutput p2shMarkerLength + 8"

definition estimateP2shRevealTx :: "nat list \<Rightarrow> nat \<Rightarrow> nat" where
  "estimateP2shRevealTx redeemLengths extraOutputsBytes =
     (let inputsBytes = foldl (\<lambda>n l. n + estimateP2shInputWithRedeem l + 8) 0 redeemLengths
      in 10 + inputsBytes + estimateOpReturnOutput p2shMarkerLength + extraOutputsBytes)"

definition estimateSpendingP2wshTx :: "network \<Rightarrow> nat \<Rightarrow> nat \<Rightarrow> nat" where
  "estimateSpendingP2wshTx network witnessLength padOutputBytes =
     (let witnessScriptPrefix = compactSizeLen witnessLength;
          witnessBytes = 2 + 1 + (1 + 72) + (1 + 33) + (witnessScriptPrefix + witnessLength);
          nonWitnessBytes = 10 + (36 + 1 + 4) + estimateOpReturnOutput p2wshMarkerLength;
          nonWitnessBytes =
            (case minStandardTxNonWitnessSize network of
               None \<Rightarrow> nonWitnessBytes
             | Some f \<Rightarrow> if f \<noteq> 0 \<and> nonWitnessBytes < f then max (nonWitnessBytes + padOutputBytes) f
                         else nonWitnessBytes)
      in nonWitnessBytes + ceil4 witnessBytes + 8)"

definition estimateP2wshRevealTx :: "network \<Rightarrow> nat list \<Rightarrow> nat \<Rightarrow> nat" where
  "estimateP2wshRevealTx network witnessLengths extraOutputsBytes =
     (let witnessBytes = foldl (\<lambda>n l. n + 1 + (1 + 72) + (1 + 33) + compactSizeLen l + l) 2 witnessLengths;
          nonWitnessBytes = 10 + (36 + 1 + 4) * length witnessLengths + estimateOpReturnOutput p2wshMarkerLength
            + extraOutputsBytes;
          nonWitnessBytes = flooredTo (minStandardTxNonWitnessSize network) nonWitnessBytes
      in nonWitnessBytes + ceil4 witnessBytes + 8)"

section \<open>\<open>stripped_floor.js\<close>\<close>

definition scriptSigLowerBound :: "txInput \<Rightarrow> nat" where
  "scriptSigLowerBound input =
     (if witnessUtxo input \<noteq> None
      then (case redeemScript input of None \<Rightarrow> 0 | Some r \<Rightarrow> 1 + length r)
      else 106)"

definition predictedStrippedSize :: "psbt \<Rightarrow> nat \<Rightarrow> nat" where
  "predictedStrippedSize p changeOutputBytes =
     foldl (\<lambda>size input. size + scriptSigLowerBound input) (strippedTxSize p + changeOutputBytes) (txInputs p)"

text \<open>
  \<open>change\<close> is the change address, falsy when absent; \<open>isReveal\<close> says whether \<open>p2shHash\<close> is set.
\<close>

definition clearsStrippedFloor ::
  "(string \<Rightarrow> Buffer option) \<Rightarrow> string \<Rightarrow> int \<Rightarrow> bool \<Rightarrow> string option \<Rightarrow> psbt \<Rightarrow> int \<Rightarrow> int \<Rightarrow> int \<Rightarrow> bool" where
  "clearsStrippedFloor toOutputScript networkKey outputFloor isReveal change p outputSatoshis inputSatoshis selectionFee =
     (let floor = coreStrippedFloor networkKey
      in if floor = 0 \<or> isReveal \<or> change = None \<or> change = Some [] then True
         else
           (let changeSatoshis = inputSatoshis - outputSatoshis - selectionFee;
                changeBytes = (if outputFloor \<le> changeSatoshis
                               then estimateOutputSizeForAddress toOutputScript change else 0)
            in floor \<le> predictedStrippedSize p changeBytes))"

definition refuseUnderStrippedFloor :: "string \<Rightarrow> bool \<Rightarrow> psbt \<Rightarrow> unit result" where
  "refuseUnderStrippedFloor networkKey isReveal p =
     (let floor = coreStrippedFloor networkKey
      in if floor = 0 \<or> isReveal then ok ()
         else if floor \<le> predictedStrippedSize p 0 then ok ()
         else throw (OperationalError ''TX_BELOW_MIN_STANDARD_SIZE''))"

end
