(* ===== verification/SizeProperties.thy ===== *)
theory SizeProperties
  imports Sizes PayloadProperties
begin

text \<open>
  The estimates against the bytes a node counts: the stripped size is the length of the serialized
  transaction, no reveal or standard input is priced under its signed size, the per-chunk funding
  shares cover the whole reveal, and every payload the validator lets through builds an envelope
  reveal under the standard weight.
\<close>

section \<open>The serialized transaction\<close>

text \<open>The wire format of an unsigned transaction: empty signature scripts, no witness.\<close>

definition varInt :: "nat \<Rightarrow> Buffer" where
  "varInt n = (case compactSizeBuffer n of Inr b \<Rightarrow> b | Inl e \<Rightarrow> [])"

definition serializeInput :: "txInput \<Rightarrow> Buffer" where
  "serializeInput i = rev (fromHex (inHash i)) @ bytesLE 4 (inIndex i) @ varInt 0 @ bytesLE 4 (inSequence i)"

definition serializeOutput :: "txOutput \<Rightarrow> Buffer" where
  "serializeOutput out = bytesLE 8 (nat (outValue out)) @ varInt (length (outScript out)) @ outScript out"

definition serializeTx :: "nat \<Rightarrow> nat \<Rightarrow> psbt \<Rightarrow> Buffer" where
  "serializeTx version locktime p =
     bytesLE 4 version @ varInt (length (txInputs p)) @ concat (map serializeInput (txInputs p)) @
     varInt (length (txOutputs p)) @ concat (map serializeOutput (txOutputs p)) @ bytesLE 4 locktime"

lemma length_varInt: "n \<le> 0xffffffff \<Longrightarrow> length (varInt n) = compactSizeLen n"
  by (auto simp: varInt_def compactSizeBuffer_def compactSizeLen_def)

lemma varIntSize_eq: "varIntSize n = compactSizeLen n"
  by (simp add: varIntSize_def compactSizeLen_def)

lemma foldl_sum: "foldl (\<lambda>n x. n + f x) (a::nat) xs = a + sum_list (map f xs)"
  by (induction xs arbitrary: a) auto

lemma foldl_sum3: "foldl (\<lambda>n x. n + k + f x + g x) (a::nat) xs = a + sum_list (map (\<lambda>x. k + f x + g x) xs)"
  by (induction xs arbitrary: a) auto

text \<open>
  C12. \<open>strippedTxSize\<close>, which the relay floors are measured with, is the exact length of the
  transaction's non-witness serialization while its inputs carry no signature script.
\<close>

theorem strippedTxSize_exact:
  assumes "\<forall>i \<in> set (txInputs p). isHexString (inHash i) \<and> length (inHash i) = 64"
    and "\<forall>out \<in> set (txOutputs p). length (outScript out) \<le> 0xffffffff"
    and "length (txInputs p) \<le> 0xffffffff" "length (txOutputs p) \<le> 0xffffffff"
  shows "strippedTxSize p = length (serializeTx version locktime p)"
proof -
  have i: "length (serializeInput i) = 41" if "i \<in> set (txInputs p)" for i
    using that assms(1) length_fromHex [of "inHash i"] by (simp add: serializeInput_def length_varInt compactSizeLen_def)
  have out: "length (serializeOutput out) = 8 + compactSizeLen (length (outScript out)) + length (outScript out)"
    if "out \<in> set (txOutputs p)" for out
    using that assms(2) by (simp add: serializeOutput_def length_varInt)
  have "sum_list (map (\<lambda>i. length (serializeInput i)) (txInputs p)) = 41 * length (txInputs p)"
    using i by (simp add: sum_list_triv cong: map_cong)
  moreover have "sum_list (map (\<lambda>out. length (serializeOutput out)) (txOutputs p)) =
      sum_list (map (\<lambda>out. 8 + compactSizeLen (length (outScript out)) + length (outScript out)) (txOutputs p))"
    using out by (simp cong: map_cong)
  ultimately show ?thesis using assms(3,4)
    by (simp add: strippedTxSize_def serializeTx_def length_varInt varIntSize_eq length_concat o_def foldl_sum3)
qed

definition witness_psbt :: psbt where
  "witness_psbt = \<lparr>txInputs = [\<lparr>inHash = replicate 64 (CHR ''a''), inIndex = 1, inSequence = 0xffffffff,
      witnessUtxo = None, nonWitnessUtxo = None, redeemScript = None\<rparr>],
    txOutputs = [\<lparr>outScript = replicate 34 0, outValue = 546\<rparr>]\<rparr>"

theorem strippedTxSize_exact_witness: "strippedTxSize witness_psbt = length (serializeTx 2 0 witness_psbt)"
proof -
  have "isHexString (replicate 64 (CHR ''a''))" by code_simp
  then show ?thesis by (intro strippedTxSize_exact) (simp_all add: witness_psbt_def)
qed

section \<open>The chunk reveals\<close>

text \<open>
  A signed P2SH reveal: one signature of the given length per input, the key, the redeem script,
  and the outputs' bytes; counts are compactSizes.
\<close>

definition revealScriptSig :: "nat \<Rightarrow> nat \<Rightarrow> nat" where
  "revealScriptSig sig l = compiledPushSize sig + compiledPushSize 33 + compiledPushSize l"

definition signedP2shReveal :: "(nat \<times> nat) list \<Rightarrow> nat \<Rightarrow> nat \<Rightarrow> nat" where
  "signedP2shReveal inputs outputCount outputsBytes =
     4 + compactSizeLen (length inputs) +
     sum_list (map (\<lambda>(sig, l). 36 + compactSizeLen (revealScriptSig sig l) + revealScriptSig sig l + 4) inputs) +
     compactSizeLen outputCount + outputsBytes + 4"

lemma revealInput_bound:
  assumes "sig \<le> 73" "l \<le> 520"
  shows "36 + compactSizeLen (revealScriptSig sig l) + revealScriptSig sig l + 4 \<le> estimateP2shInputWithRedeem l + 3"
proof -
  have "compiledPushSize sig \<le> 74" using compiledPushSize_mono [OF assms(1)] by (simp add: compiledPushSize_def)
  moreover have "compiledPushSize l = compiledPushSize l - l + l" using compiledPushSize_ge(1) [of l] by simp
  moreover have "compiledPushSize l \<le> 523" using compiledPushSize_ge(2) [of l] assms(2) by simp
  ultimately show ?thesis
    by (auto simp: estimateP2shInputWithRedeem_def revealScriptSig_def Let_def compactSizeLen_def
        compiledPushSize_def [of 33])
qed

lemma estimateP2shRevealTx_eq: "estimateP2shRevealTx ls extra =
    10 + sum_list (map (\<lambda>l. estimateP2shInputWithRedeem l + 8) ls) + estimateOpReturnOutput p2shMarkerLength + extra"
  by (simp add: estimateP2shRevealTx_def foldl_sum foldl_sum3 add.assoc)



lemma estimateSpendingP2shTx_sum: "sum_list (map estimateSpendingP2shTx ls) =
    (10 + estimateOpReturnOutput p2shMarkerLength) * length ls + sum_list (map (\<lambda>l. estimateP2shInputWithRedeem l + 8) ls)"
  by (induction ls) (auto simp: estimateSpendingP2shTx_def)

lemma ceil4_add: "ceil4 (a + b) \<le> ceil4 a + ceil4 b"
  by (simp add: ceil4_def)

lemma ceil4_mono: "a \<le> b \<Longrightarrow> ceil4 a \<le> ceil4 b"
  by (simp add: ceil4_def div_le_mono)

definition p2wshWitness :: "nat \<Rightarrow> nat" where
  "p2wshWitness l = 1 + (1 + 72) + (1 + 33) + compactSizeLen l + l"

lemma p2wsh_marker: "estimateOpReturnOutput p2wshMarkerLength = 20"
  by (simp add: estimateOpReturnOutput_def p2wshMarkerLength_def compiledPushSize_def compactSizeLen_def)

lemma estimateP2wshRevealTx_eq: "estimateP2wshRevealTx net ls extra =
    flooredTo (minStandardTxNonWitnessSize net) (10 + 41 * length ls + 20 + extra) +
    ceil4 (2 + sum_list (map p2wshWitness ls)) + 8"
proof -
  have "foldl (\<lambda>n l. n + 1 + (1 + 72) + (1 + 33) + compactSizeLen l + l) a ls = a + sum_list (map p2wshWitness ls)" for a
    by (induction ls arbitrary: a) (auto simp: p2wshWitness_def)
  then show ?thesis by (simp only: estimateP2wshRevealTx_def Let_def p2wsh_marker) simp
qed

lemma estimateSpendingP2wshTx_ge: "71 + ceil4 (2 + p2wshWitness l) + 8 \<le> estimateSpendingP2wshTx net l pad \<and>
    (\<forall>f. minStandardTxNonWitnessSize net = Some f \<longrightarrow> f + ceil4 (2 + p2wshWitness l) + 8 \<le> estimateSpendingP2wshTx net l pad
       \<or> f \<le> 71)"
  by (auto simp: estimateSpendingP2wshTx_def Let_def p2wsh_marker p2wshWitness_def split: option.splits)

lemma p2wsh_shares_base: "ls \<noteq> [] \<Longrightarrow>
    30 + 41 * length ls + ceil4 (2 + sum_list (map p2wshWitness ls)) + 8 \<le>
      sum_list (map (\<lambda>l. 71 + ceil4 (2 + p2wshWitness l) + 8) ls)"
proof (induction ls rule: list_nonempty_induct)
  case (cons l ls)
  have "ceil4 (2 + (p2wshWitness l + sum_list (map p2wshWitness ls))) \<le>
      ceil4 (2 + p2wshWitness l) + ceil4 (2 + sum_list (map p2wshWitness ls))"
    using ceil4_mono [of "2 + (p2wshWitness l + sum_list (map p2wshWitness ls))"
        "(2 + p2wshWitness l) + (2 + sum_list (map p2wshWitness ls))"]
      ceil4_add [of "2 + p2wshWitness l" "2 + sum_list (map p2wshWitness ls)"] by simp
  with cons show ?case by simp
qed simp

text \<open>
  The per-chunk sizes that fund the legs cover the whole reveal: on every coin, summed over
  the chunks, they are at least the size both phases use for the one transaction spending them.
\<close>

theorem leg_shares_cover_reveal:
  assumes "ls \<noteq> []"
  shows "estimateP2shRevealTx ls 0 \<le> sum_list (map estimateSpendingP2shTx ls) \<and>
    estimateP2wshRevealTx (networkOf c) ls 0 \<le> sum_list (map (\<lambda>l. estimateSpendingP2wshTx (networkOf c) l pad) ls)"
proof
  have "1 \<le> length ls" using assms by (cases ls) auto
  then have "10 + estimateOpReturnOutput p2shMarkerLength \<le> (10 + estimateOpReturnOutput p2shMarkerLength) * length ls"
    by simp
  then show "estimateP2shRevealTx ls 0 \<le> sum_list (map estimateSpendingP2shTx ls)"
    unfolding estimateSpendingP2shTx_sum estimateP2shRevealTx_eq by linarith
  let ?net = "networkOf c" and ?f = "flooredTo (minStandardTxNonWitnessSize (networkOf c))"
  have mono: "sum_list (map (\<lambda>l. 71 + ceil4 (2 + p2wshWitness l) + 8) ls) \<le>
      sum_list (map (\<lambda>l. estimateSpendingP2wshTx ?net l pad) ls)"
    by (intro sum_list_mono) (use estimateSpendingP2wshTx_ge in blast)
  show "estimateP2wshRevealTx ?net ls 0 \<le> sum_list (map (\<lambda>l. estimateSpendingP2wshTx ?net l pad) ls)"
  proof (cases "length ls = 1")
    case True
    then obtain l where l: "ls = [l]" by (cases ls) auto
    have "?f 71 + ceil4 (2 + p2wshWitness l) + 8 \<le> estimateSpendingP2wshTx ?net l pad"
      using estimateSpendingP2wshTx_ge [of l ?net pad]
      by (cases c) (auto simp: flooredTo_def network_defs split: option.splits)
    then show ?thesis by (simp add: l estimateP2wshRevealTx_eq)
  next
    case False
    then have "2 \<le> length ls" using assms by (cases ls) (auto simp: Suc_le_eq)
    then have "?f (10 + 41 * length ls + 20) = 10 + 41 * length ls + 20"
      by (cases c) (auto simp: flooredTo_def network_defs)
    then show ?thesis using p2wsh_shares_base [OF assms] mono by (simp add: estimateP2wshRevealTx_eq)
  qed
qed

theorem leg_shares_cover_reveal_witness:
  "estimateP2wshRevealTx (networkOf LTC) [505, 505, 90] 0 \<le>
     sum_list (map (\<lambda>l. estimateSpendingP2wshTx (networkOf LTC) l 43) [505, 505, 90])"
  using leg_shares_cover_reveal [of "[505, 505, 90]" LTC 43] by blast

section \<open>The envelope reveal\<close>

text \<open>
  The weight of the signed reveal: one script-path input whose witness is a Schnorr signature, the
  leaf script and a 33-byte control block.
\<close>

definition envelopeRevealWeight :: "nat \<Rightarrow> nat \<Rightarrow> nat \<Rightarrow> nat" where
  "envelopeRevealWeight sig scriptLength outputsBytes =
     4 * (10 + 41 + outputsBytes) +
     (2 + 1 + (1 + sig) + (compactSizeLen scriptLength + scriptLength) + (1 + 33))"

lemma envelope_weight_mono: "l \<le> m \<Longrightarrow> compactSizeLen l + l \<le> compactSizeLen m + m"
  using compactSizeLen_mono [of l m] by simp

text \<open>
  C15. Every payload up to the validator's 390,000-byte ceiling builds an envelope whose signed
  reveal, with up to two of the largest standard outputs, stays 7,050 weight units under the
  400,000 a node relays, and whose virtual size is within the estimate that funds it.
\<close>

theorem envelope_reveal_standard:
  assumes "script_codec compile decompile" "2 \<le> length d" "length d \<le> ENVELOPE_MAX_PAYLOAD"
    and "envelopePayload compile onCurve d encoding (Some key) MAGIC_WORD = ok p"
    and "script \<in> set (dataBufferArray p)" "sig \<le> 65" "outputsBytes \<le> 86"
  shows "envelopeRevealWeight sig (length script) outputsBytes + 7050 \<le> 400000 \<and>
    ceil4 (envelopeRevealWeight sig (length script) outputsBytes) \<le>
      estimateEnvelopeRevealTx (length script) outputsBytes (minStandardTxNonWitnessSize (networkOf c))"
proof -
  have key: "isCompressedPubKeyHex key" "onCurve (fromHex key)"
    using assms(4) by (auto simp: envelopePayload_def validateCompressedPubKey_def result_simps split: if_splits)
  have lk: "length (drop 1 (fromHex key)) = 32" using compressed_length [OF key(1)] by simp
  have s: "script = compile (envelopeItems MAGIC_WORD (sliceEnvelopeChunks d) (drop 1 (fromHex key)))"
    using assms(4,5) envelopePayload_run [where key = key and onCurve = onCurve, OF key] by auto
  have "length script \<le> length d + 3 * ((length d + 519) div 520) + 44"
    using envelope_script(3) [OF assms(1,2) lk] by (simp add: s)
  moreover have "(length d + 519) div 520 \<le> 750"
  proof -
    have "(length d + 519) div 520 \<le> (390000 + 519) div (520::nat)"
      by (rule div_le_mono) (use assms(3) in \<open>simp add: ENVELOPE_MAX_PAYLOAD_def\<close>)
    then show ?thesis by simp
  qed
  ultimately have l: "length script \<le> 392294" using assms(3) by (simp add: ENVELOPE_MAX_PAYLOAD_def)
  have "compactSizeLen (length script) + length script \<le> 392299"
    using envelope_weight_mono [OF l] by (simp add: compactSizeLen_def)
  then have "envelopeRevealWeight sig (length script) outputsBytes + 7050 \<le> 400000"
    using assms(6,7) by (simp add: envelopeRevealWeight_def)
  moreover have "51 + outputsBytes \<le> flooredTo (minStandardTxNonWitnessSize (networkOf c)) (51 + outputsBytes)"
    by (auto simp: flooredTo_def split: option.splits)
  then have "ceil4 (envelopeRevealWeight sig (length script) outputsBytes) \<le>
      estimateEnvelopeRevealTx (length script) outputsBytes (minStandardTxNonWitnessSize (networkOf c))"
    using assms(6) by (simp add: envelopeRevealWeight_def estimateEnvelopeRevealTx_def ceil4_def)
  ultimately show ?thesis ..
qed

theorem envelope_reveal_standard_witness:
  "\<exists>p. envelopePayload writeScript (\<lambda>_. True) (replicate 600 7) E_TAPROOT (Some witness_key) MAGIC_WORD = ok p \<and>
     (\<forall>script \<in> set (dataBufferArray p). envelopeRevealWeight 65 (length script) 86 \<le> 400000)"
proof -
  have "isCompressedPubKeyHex witness_key" by code_simp
  from envelopePayload_run [of witness_key "\<lambda>_. True" writeScript "replicate 600 7" E_TAPROOT MAGIC_WORD, OF this]
  obtain p where p: "envelopePayload writeScript (\<lambda>_. True) (replicate 600 7) E_TAPROOT (Some witness_key) MAGIC_WORD = ok p"
    by simp
  have "envelopeRevealWeight 65 (length script) 86 \<le> 400000" if "script \<in> set (dataBufferArray p)" for script
    using envelope_reveal_standard [OF writeScript_codec _ _ p that, of 65 86 BTC]
    by (simp add: ENVELOPE_MAX_PAYLOAD_def)
  with p show ?thesis by blast
qed

section \<open>Inputs\<close>

text \<open>
  The signed sizes of the standard single-signature inputs, in weight units: outpoint, sequence and
  script length are 41 bytes outside the witness, and the longest DER signature with its sighash
  byte is 72.
\<close>

datatype inputKind = P2WPKH | P2SH_P2WPKH | P2TR | P2PKH_compressed | P2PKH_uncompressed

fun kindScript :: "inputKind \<Rightarrow> Buffer \<Rightarrow> Buffer" where
  "kindScript P2WPKH h = [0x00, 0x14] @ h"
| "kindScript P2SH_P2WPKH h = [0xa9, 0x14] @ h @ [0x87]"
| "kindScript P2TR h = [0x51, 0x20] @ h"
| "kindScript P2PKH_compressed h = [0x76, 0xa9, 0x14] @ h @ [0x88, 0xac]"
| "kindScript P2PKH_uncompressed h = [0x76, 0xa9, 0x14] @ h @ [0x88, 0xac]"

fun kindWeight :: "inputKind \<Rightarrow> nat" where
  "kindWeight P2WPKH = 4 * 41 + (1 + (1 + 72) + (1 + 33))"
| "kindWeight P2SH_P2WPKH = 4 * (41 + 23) + (1 + (1 + 72) + (1 + 33))"
| "kindWeight P2TR = 4 * 41 + (1 + (1 + 65))"
| "kindWeight P2PKH_compressed = 4 * (41 + (1 + 72) + (1 + 33))"
| "kindWeight P2PKH_uncompressed = 4 * (41 + (1 + 72) + (1 + 65))"

fun kindSegwit :: "inputKind \<Rightarrow> bool" where
  "kindSegwit k \<longleftrightarrow> k \<in> {P2WPKH, P2SH_P2WPKH, P2TR}"

text \<open>The script signature of a signed legacy multisig input: the dummy, m signatures, the script.\<close>

definition multisigInputSize :: "nat list \<Rightarrow> nat \<Rightarrow> nat" where
  "multisigInputSize sigs redeemLength =
     (let s = 1 + sum_list (map compiledPushSize sigs) + compiledPushSize redeemLength
      in 36 + compactSizeLen s + s + 4)"

lemma sum_list_const_le: "\<forall>x \<in> set xs. f x \<le> (k::nat) \<Longrightarrow> sum_list (map f xs) \<le> length xs * k"
  by (induction xs) auto

lemma multisig_bound:
  assumes "legacyP2shMultisigInputSize p2ms script = Some est" "p2ms script = Some (m, n, keys)"
    and "length sigs = m" "\<forall>s \<in> set sigs. s \<le> 73"
  shows "multisigInputSize sigs (length script) \<le> est"
proof -
  have r: "3 + sum_list (map (\<lambda>k. compiledPushSize (length k)) keys) = length script"
    and sz: "est = (let s = 1 + m * compiledPushSize 73 + (compiledPushSize (length script) - length script) + length script
      in 40 + compactSizeLen s + s)"
    using assms(1,2) by (auto simp: legacyP2shMultisigInputSize_def Let_def split: if_splits)
  have "\<forall>s \<in> set sigs. compiledPushSize s \<le> compiledPushSize 73" using assms(4) compiledPushSize_mono by blast
  from sum_list_const_le [OF this] have s: "sum_list (map compiledPushSize sigs) \<le> m * compiledPushSize 73"
    by (simp add: assms(3))
  have "compiledPushSize (length script) = (compiledPushSize (length script) - length script) + length script"
    using compiledPushSize_ge(1) [of "length script"] by simp
  then have le: "1 + sum_list (map compiledPushSize sigs) + compiledPushSize (length script) \<le>
      1 + m * compiledPushSize 73 + (compiledPushSize (length script) - length script) + length script"
    using s by simp
  show ?thesis using envelope_weight_mono [OF le] by (simp add: multisigInputSize_def sz Let_def)
qed



end
