(* ===== verification/Fees.thy ===== *)
theory Fees
  imports JsNumber
begin

text \<open>
  Fee arithmetic: \<open>src/src/XChainEncoder/fee_policy.js\<close>. Rates are doubles in coin per byte, so each
  operation on them rounds (\<open>fl\<close>) in the order the code writes it; fees and sizes are whole numbers.
  A setting read from the environment comes as the number \<open>parseFloat\<close> made of it.
\<close>

section \<open>Constants\<close>

definition SATOSHI_UNIT :: rat where "SATOSHI_UNIT = 100000000"
definition BURN_BACKSTOP_MULTIPLIER :: int where "BURN_BACKSTOP_MULTIPLIER = 100"
definition DEFAULT_SUGGESTED_FEE_MAX_PER_VBYTE :: rat where "DEFAULT_SUGGESTED_FEE_MAX_PER_VBYTE = 20"
definition SUGGESTED_FEE_CEILING_RELAY_MULTIPLIER :: rat where "SUGGESTED_FEE_CEILING_RELAY_MULTIPLIER = 10"
definition DEFAULT_MAX_CPFP_UPLIFT_SAT :: rat where "DEFAULT_MAX_CPFP_UPLIFT_SAT = 10000000"

definition TEST_NETWORK_SUFFIXES :: "string list" where
  "TEST_NETWORK_SUFFIXES = [''-testnet'', ''-testnet4'', ''-regtest'', ''-signet'']"

section \<open>The suggested rate's ceiling\<close>

definition strEndsWith :: "string \<Rightarrow> string \<Rightarrow> bool" where
  "strEndsWith s suf = (length suf \<le> length s \<and> drop (length s - length suf) s = suf)"

definition isTestNetworkKey :: "string \<Rightarrow> bool" where
  "isTestNetworkKey networkKey =
     (let key = toLowerCase networkKey in list_ex (strEndsWith key) TEST_NETWORK_SUFFIXES)"

definition suggestedFeeCeilingPerByte :: "jsnum \<Rightarrow> string \<Rightarrow> rat \<Rightarrow> rat option" where
  "suggestedFeeCeilingPerByte raw networkKey satoshiUnit =
     (let perVbyte = (case raw of
            Fin r \<Rightarrow> r
          | _ \<Rightarrow> if isTestNetworkKey networkKey then DEFAULT_SUGGESTED_FEE_MAX_PER_VBYTE else 0)
      in if 0 < perVbyte then Some (fl (perVbyte / satoshiUnit)) else None)"

definition suggestedFeeCeilingFloorPerByte :: "rat \<Rightarrow> rat option" where
  "suggestedFeeCeilingFloorPerByte relayfee =
     (if 0 < relayfee then Some (fl (fl (relayfee / 1000) * SUGGESTED_FEE_CEILING_RELAY_MULTIPLIER)) else None)"

definition maxCpfpUpliftSat :: "jsnum \<Rightarrow> int" where
  "maxCpfpUpliftSat raw =
     (let bound = (case raw of Fin r \<Rightarrow> r | _ \<Rightarrow> DEFAULT_MAX_CPFP_UPLIFT_SAT)
      in if 0 < bound then \<lfloor>bound\<rfloor> else 0)"

section \<open>Package fees\<close>

text \<open>The literal \<open>1e-12\<close>, and \<open>Math.ceil\<close> of a product shaved by that much of itself.\<close>

definition EPSILON :: rat where "EPSILON = fl (1 / 10 ^ 12)"

definition shavedCeil :: "rat \<Rightarrow> int" where
  "shavedCeil exact = \<lceil>fl (exact - fl (\<bar>exact\<bar> * EPSILON))\<rceil>"

text \<open>
  \<open>ancestorFees\<close> is in coin units, \<open>ancestorFeeSatoshis\<close> already in base units and taken first. The
  whole-number sums of the last lines stay far under \<open>2 ^ 53\<close>, where doubles are exact.
\<close>

definition packageFeeUpliftSatoshis ::
  "int \<Rightarrow> nat \<Rightarrow> jsnum \<Rightarrow> jsnum \<Rightarrow> int option \<Rightarrow> rat \<Rightarrow> rat \<Rightarrow> int" where
  "packageFeeUpliftSatoshis currentFee txSize ancestorSize ancestorFees ancestorFeeSatoshis targetFeePerBytes satoshiUnit =
     (if \<not> 0 < targetFeePerBytes then 0
      else if txSize = 0 then 0
      else
        (case ancestorSize of
           Fin packageSize \<Rightarrow>
             if packageSize \<le> 0 then 0
             else
               (let ancestorFeeSat =
                      (case ancestorFeeSatoshis of
                         Some s \<Rightarrow> Some s
                       | None \<Rightarrow> (case ancestorFees of Fin f \<Rightarrow> Some (js_round (fl (f * satoshiUnit))) | _ \<Rightarrow> None))
                in case ancestorFeeSat of
                     None \<Rightarrow> 0
                   | Some a \<Rightarrow>
                       if a < 0 then 0
                       else
                         (let packageFeeExact = fl (fl (fl (packageSize + of_nat txSize) * targetFeePerBytes) * satoshiUnit);
                              packageFeeNeeded = shavedCeil packageFeeExact;
                              uplift = (packageFeeNeeded - a) - currentFee
                          in if 0 < uplift then uplift else 0))
         | _ \<Rightarrow> 0))"

section \<open>Caps\<close>

text \<open>The object the cap returns: its anchor, the operator cap, the backstop, which of the two binds,
  whether it clamped, and the rate to charge.\<close>

datatype feeLimit = LimitCap | LimitBackstop

record capped =
  cappedAnchor :: "rat option"
  cappedCap :: "rat option"
  cappedBackstop :: "rat option"
  cappedLimit :: "feeLimit option"
  cappedClamped :: bool
  cappedRate :: rat

text \<open>A multiplier of zero is falsy; \<open>relayFeePerKb\<close> is \<open>None\<close> when not supplied.\<close>

definition capCallerFeeRate ::
  "rat \<Rightarrow> rat option \<Rightarrow> rat option \<Rightarrow> rat option \<Rightarrow> rat option \<Rightarrow> capped" where
  "capCallerFeeRate feePerBytes nodeFeePerBytes relayFeePerKb maxFeePerBytes maxFeeRateMultiplier =
     (let anchor = (case nodeFeePerBytes of
                      Some n \<Rightarrow> Some n
                    | None \<Rightarrow> (case relayFeePerKb of
                                 Some r \<Rightarrow> if 0 < r then Some (fl (r / 1000)) else None
                               | None \<Rightarrow> None));
          cap = (case (maxFeeRateMultiplier, anchor) of
                   (Some m, Some a) \<Rightarrow>
                     if m \<noteq> 0
                     then (let relativeCap = fl (a * m)
                           in case maxFeePerBytes of Some c \<Rightarrow> Some (min c relativeCap) | None \<Rightarrow> Some relativeCap)
                     else maxFeePerBytes
                 | _ \<Rightarrow> maxFeePerBytes);
          backstop = map_option (\<lambda>a. fl (a * of_int BURN_BACKSTOP_MULTIPLIER)) anchor;
          lim = (case cap of
                   Some c \<Rightarrow> (case backstop of
                                None \<Rightarrow> Some LimitCap
                              | Some b \<Rightarrow> if c \<le> b then Some LimitCap else Some LimitBackstop)
                 | None \<Rightarrow> (case backstop of None \<Rightarrow> None | Some b \<Rightarrow> Some LimitBackstop));
          ceiling = (case lim of Some LimitCap \<Rightarrow> cap | Some LimitBackstop \<Rightarrow> backstop | None \<Rightarrow> None);
          clamp = (case ceiling of None \<Rightarrow> False | Some c \<Rightarrow> c < feePerBytes)
      in \<lparr>cappedAnchor = anchor, cappedCap = cap, cappedBackstop = backstop, cappedLimit = lim,
          cappedClamped = clamp,
          cappedRate = (if clamp then (case ceiling of Some c \<Rightarrow> c | None \<Rightarrow> feePerBytes) else feePerBytes)\<rparr>)"

section \<open>The fee of a size\<close>

text \<open>\<open>Number(n)\<close> of a BigInt.\<close>

definition numberOfBig :: "int \<Rightarrow> int" where
  "numberOfBig n = \<lfloor>fl (of_int n)\<rfloor>"

definition feeForVsize :: "nat \<Rightarrow> rat \<Rightarrow> rat \<Rightarrow> int" where
  "feeForVsize vsize feePerBytes satoshiUnit =
     (let exact = fl (fl (of_nat vsize * feePerBytes) * satoshiUnit)
      in if \<not> 0 < exact then js_trunc exact
         else
           (let ratePerKb = fl (fl (feePerBytes * 1000) * satoshiUnit);
                wholeRate = js_round ratePerKb
            in if int vsize \<le> MAX_SAFE_INTEGER \<and> \<bar>wholeRate\<bar> \<le> MAX_SAFE_INTEGER \<and>
                  \<bar>fl (ratePerKb - of_int wholeRate)\<bar> \<le> fl (fl (1 / 10 ^ 9) * of_int (max 1 wholeRate))
               then numberOfBig ((int vsize * wholeRate + 999) div 1000)
               else shavedCeil exact))"

definition softDustSurchargeFor :: "int list \<Rightarrow> nat \<Rightarrow> int" where
  "softDustSurchargeFor outputValues softDustFloor =
     (if softDustFloor = 0 then 0
      else foldl (\<lambda>surcharge v. if 0 < v \<and> v < int softDustFloor then surcharge + int softDustFloor else surcharge)
             0 outputValues)"

end
