(* ===== verification/FeeFacts.thy ===== *)
theory FeeFacts
  imports Fees
begin

text \<open>
  Rounding errors of the fee arithmetic, tracked as relative bounds, and the fee function's two
  branches: exact on whole per-kilobyte rates, and never under the node's relay minimum at a rate
  that is not under the relay rate.
\<close>

section \<open>Relative bounds\<close>

definition near :: "rat \<Rightarrow> rat \<Rightarrow> rat \<Rightarrow> bool" where
  "near \<delta> y x \<longleftrightarrow> x * (1 - \<delta>) \<le> y \<and> y \<le> x * (1 + \<delta>)"

named_theorems near_intros "how relative bounds compose"

lemma near_refl: "0 \<le> x \<Longrightarrow> 0 \<le> \<delta> \<Longrightarrow> near \<delta> x x"
  by (simp add: near_def algebra_simps)

lemma near_fl [near_intros]:
  assumes "near \<delta> y x" "0 \<le> x" "0 \<le> \<delta>" "\<delta> \<le> 1"
  shows "near (\<delta> + 1 / 2 ^ 52) (fl y) x"
proof -
  have b: "x * (1 - \<delta>) \<le> y" "y \<le> x * (1 + \<delta>)" using assms(1) by (simp_all add: near_def)
  have y: "0 \<le> y" using b(1) assms by (meson diff_ge_0_iff_ge mult_nonneg_nonneg order_trans)
  have "x * (1 - (\<delta> + 1 / 2 ^ 52)) \<le> x * (1 - \<delta>) * (1 - 1 / 2 ^ 53)"
  proof -
    have "(1 - \<delta>) * (1 - 1 / 2 ^ 53) \<ge> 1 - (\<delta> + 1 / 2 ^ 52)" using assms(3) by (simp add: algebra_simps)
    then show ?thesis using assms(2) by (simp only: mult.assoc mult_left_mono)
  qed
  also have "\<dots> \<le> y * (1 - 1 / 2 ^ 53)" using b(1) by (rule mult_right_mono) simp
  also have "\<dots> \<le> fl y" by (rule fl_bounds(1) [OF y])
  finally have lo: "x * (1 - (\<delta> + 1 / 2 ^ 52)) \<le> fl y" .
  have "fl y \<le> y * (1 + 1 / 2 ^ 53)" by (rule fl_bounds(2) [OF y])
  also have "\<dots> \<le> x * (1 + \<delta>) * (1 + 1 / 2 ^ 53)" using b(2) by (rule mult_right_mono) simp
  also have "\<dots> \<le> x * (1 + (\<delta> + 1 / 2 ^ 52))"
  proof -
    have "(1 + \<delta>) * (1 + 1 / 2 ^ 53) \<le> 1 + (\<delta> + 1 / 2 ^ 52)" using assms(4) by (simp add: algebra_simps)
    then show ?thesis using assms(2) by (simp only: mult.assoc mult_left_mono)
  qed
  finally show ?thesis using lo by (simp add: near_def)
qed

lemma near_mult [near_intros]: "near \<delta> y x \<Longrightarrow> 0 \<le> c \<Longrightarrow> near \<delta> (y * c) (x * c)"
  using mult_right_mono [of "x * (1 - \<delta>)" y c] mult_right_mono [of y "x * (1 + \<delta>)" c]
  by (simp add: near_def mult.assoc mult.commute mult.left_commute)

lemma near_mult_left [near_intros]: "near \<delta> y x \<Longrightarrow> 0 \<le> c \<Longrightarrow> near \<delta> (c * y) (c * x)"
  using near_mult [of \<delta> y x c] by (simp add: mult.commute)

lemma near_divide [near_intros]: "near \<delta> y x \<Longrightarrow> 0 \<le> c \<Longrightarrow> near \<delta> (y / c) (x / c)"
  using near_mult [of \<delta> y x "1 / c"] by simp

lemma near_weaken: "near \<delta> y x \<Longrightarrow> \<delta> \<le> \<delta>' \<Longrightarrow> 0 \<le> x \<Longrightarrow> near \<delta>' y x"
  using mult_left_mono [of \<delta> \<delta>' x] by (auto simp: near_def algebra_simps)

lemma near_trans:
  assumes "near \<delta> y x" "near \<epsilon> z y" "0 \<le> x" "0 \<le> \<delta>" "\<delta> \<le> 1" "0 \<le> \<epsilon>" "\<epsilon> \<le> 1"
  shows "near (\<delta> + 2 * \<epsilon>) z x"
proof -
  have b: "x * (1 - \<delta>) \<le> y" "y \<le> x * (1 + \<delta>)" "y * (1 - \<epsilon>) \<le> z" "z \<le> y * (1 + \<epsilon>)"
    using assms(1,2) by (simp_all add: near_def)
  have "x * (1 - (\<delta> + 2 * \<epsilon>)) \<le> x * (1 - \<delta>) * (1 - \<epsilon>)"
  proof -
    have "1 - (\<delta> + 2 * \<epsilon>) \<le> (1 - \<delta>) * (1 - \<epsilon>)" using assms(4,6) by (simp add: algebra_simps)
    then show ?thesis using assms(3) by (simp only: mult.assoc mult_left_mono)
  qed
  also have "\<dots> \<le> y * (1 - \<epsilon>)" using b(1) assms(7) by (intro mult_right_mono) auto
  finally have lo: "x * (1 - (\<delta> + 2 * \<epsilon>)) \<le> z" using b(3) by simp
  have "y * (1 + \<epsilon>) \<le> x * (1 + \<delta>) * (1 + \<epsilon>)" using b(2) assms(6) by (intro mult_right_mono) auto
  also have "\<dots> \<le> x * (1 + (\<delta> + 2 * \<epsilon>))"
  proof -
    have "\<delta> * \<epsilon> \<le> 1 * \<epsilon>" using assms(5,6) by (rule mult_right_mono)
    then have "(1 + \<delta>) * (1 + \<epsilon>) \<le> 1 + (\<delta> + 2 * \<epsilon>)" by (simp add: algebra_simps)
    then show ?thesis using assms(3) by (simp only: mult.assoc mult_left_mono)
  qed
  finally show ?thesis using lo b(4) by (simp add: near_def)
qed

lemma near_abs: "near \<delta> y x \<Longrightarrow> \<bar>y - x\<bar> \<le> x * \<delta>"
  by (simp add: near_def abs_le_iff algebra_simps)

section \<open>Whole rates\<close>

text \<open>A rate in coin per byte that stands for \<open>R\<close> base units per kilobyte.\<close>

definition stands_for :: "rat \<Rightarrow> int \<Rightarrow> bool" where
  "stands_for x R \<longleftrightarrow> near (1 / 2 ^ 50) (x * 10 ^ 11) (of_int R)"

lemma perKb_near:
  assumes "near \<delta> (x * 10 ^ 11) r" "0 \<le> r" "0 \<le> \<delta>" "\<delta> \<le> 1 / 2"
  shows "near (\<delta> + 1 / 2 ^ 51) (fl (fl (x * 1000) * SATOSHI_UNIT)) r"
proof -
  have "near \<delta> (x * 1000) (r / 10 ^ 8)" using near_divide [OF assms(1), of "10 ^ 8"] by (simp add: mult.commute)
  then have "near (\<delta> + 1 / 2 ^ 52) (fl (x * 1000)) (r / 10 ^ 8)" by (rule near_fl) (use assms in auto)
  then have "near (\<delta> + 1 / 2 ^ 52) (fl (x * 1000) * 10 ^ 8) (r / 10 ^ 8 * 10 ^ 8)" by (rule near_mult) simp
  then have "near (\<delta> + 1 / 2 ^ 52) (fl (x * 1000) * 10 ^ 8) r" by simp
  then have "near (\<delta> + 1 / 2 ^ 52 + 1 / 2 ^ 52) (fl (fl (x * 1000) * 10 ^ 8)) r" by (rule near_fl) (use assms in auto)
  then show ?thesis by (simp add: SATOSHI_UNIT_def add.commute)
qed

lemma js_round_near: "\<bar>p - of_int R\<bar> < 1 / 2 \<Longrightarrow> js_round p = R"
  unfolding js_round_def by (rule floor_unique) linarith+

lemma numberOfBig_exact: "\<bar>n\<bar> < 2 ^ 53 \<Longrightarrow> numberOfBig n = n"
  by (simp add: numberOfBig_def fl_int)

lemma ceil_div_1000: "(n + 999) div 1000 = \<lceil>(of_int n :: rat) / 1000\<rceil>"
proof -
  define q where "q = (n + 999) div 1000"
  have m: "1000 * q + (n + 999) mod 1000 = n + 999" by (simp add: q_def)
  moreover have "0 \<le> (n + 999) mod 1000" "(n + 999) mod 1000 < 1000" by simp_all
  ultimately have "n \<le> 1000 * q" "1000 * q < n + 1000" by linarith+
  then have "(of_int n :: rat) \<le> of_int (1000 * q)" "(of_int (1000 * q) :: rat) < of_int (n + 1000)"
    by (simp_all only: of_int_le_iff of_int_less_iff)
  then have "of_int q - 1 < (of_int n :: rat) / 1000" "(of_int n :: rat) / 1000 \<le> of_int q" by simp_all
  then have "\<lceil>(of_int n :: rat) / 1000\<rceil> = q" by (rule ceiling_unique)
  then show ?thesis by (simp add: q_def)
qed

lemma tolerance_bound:
  assumes "1 \<le> R"
  shows "of_int R / 2 ^ 30 \<le> fl (fl (1 / 10 ^ 9) * of_int (max 1 R))"
proof -
  have m: "max 1 R = R" using assms by simp
  have "near (1 / 2 ^ 52) (fl (1 / 10 ^ 9)) (1 / 10 ^ 9)" using near_fl [OF near_refl [of "1 / 10 ^ 9" 0]] by simp
  then have "near (1 / 2 ^ 52) (fl (1 / 10 ^ 9) * of_int R) (1 / 10 ^ 9 * of_int R)"
    by (rule near_mult) (use assms in simp)
  then have "near (1 / 2 ^ 52 + 1 / 2 ^ 52) (fl (fl (1 / 10 ^ 9) * of_int R)) (1 / 10 ^ 9 * of_int R)"
    by (rule near_fl) (use assms in auto)
  then have "1 / 10 ^ 9 * of_int R * (1 - (1 / 2 ^ 52 + 1 / 2 ^ 52)) \<le> fl (fl (1 / 10 ^ 9) * of_int R)"
    by (simp add: near_def)
  moreover have "of_int R / 2 ^ 30 \<le> 1 / 10 ^ 9 * of_int R * (1 - (1 / 2 ^ 52 + 1 / 2 ^ 52 :: rat))"
    using assms by (simp add: field_simps)
  ultimately show ?thesis unfolding m by (rule order.trans [rotated])
qed

lemma fl_abs_le: "\<bar>fl x\<bar> \<le> 2 * \<bar>x\<bar>"
proof -
  have "\<bar>fl x\<bar> \<le> \<bar>x\<bar> + \<bar>x\<bar> / 2 ^ 53" using fl_err [of x] by linarith
  then show ?thesis by simp
qed

lemma exact_pos: "0 < v \<Longrightarrow> 0 < x \<Longrightarrow> 0 < fl (fl (of_nat v * x) * SATOSHI_UNIT)"
  by (intro fl_pos mult_pos_pos) (auto simp: SATOSHI_UNIT_def)

lemma stands_for_pos: "stands_for x R \<Longrightarrow> 1 \<le> R \<Longrightarrow> 0 < x"
proof -
  assume a: "stands_for x R" "1 \<le> R"
  then have "0 < of_int R * (1 - 1 / 2 ^ 50 :: rat)" by simp
  also have "\<dots> \<le> x * 10 ^ 11" using a(1) by (simp add: stands_for_def near_def)
  finally show ?thesis by (simp add: zero_less_mult_iff)
qed

lemma feeForVsize_whole:
  assumes "stands_for x R" "1 \<le> R" "R \<le> 2100000000000" "0 < v" "v \<le> 4000000"
  shows "feeForVsize v x SATOSHI_UNIT = \<lceil>of_nat v * of_int R / (1000 :: rat)\<rceil>"
proof -
  let ?p = "fl (fl (x * 1000) * SATOSHI_UNIT)"
  have x: "0 < x" by (rule stands_for_pos) (use assms in auto)
  have "near (1 / 2 ^ 50 + 1 / 2 ^ 51) ?p (of_int R)"
    by (rule perKb_near) (use assms in \<open>auto simp: stands_for_def\<close>)
  from near_abs [OF this] have d: "\<bar>?p - of_int R\<bar> \<le> of_int R * (1 / 2 ^ 50 + 1 / 2 ^ 51)" .
  also have "\<dots> < 1 / 2"
  proof -
    have "(of_int R :: rat) \<le> 2100000000000" using assms(3) by (metis of_int_le_iff of_int_numeral)
    then show ?thesis by simp
  qed
  finally have r: "js_round ?p = R" by (rule js_round_near)
  have "\<bar>fl (?p - of_int R)\<bar> \<le> of_int R / 2 ^ 30"
  proof -
    have "\<bar>fl (?p - of_int R)\<bar> \<le> 2 * \<bar>?p - of_int R\<bar>" by (rule fl_abs_le)
    also have "\<dots> \<le> of_int R / 2 ^ 30" using d assms(2) by simp
    finally show ?thesis .
  qed
  also note tolerance_bound [OF assms(2)]
  finally have t: "\<bar>fl (?p - of_int R)\<bar> \<le> fl (fl (1 / 10 ^ 9) * of_int (max 1 R))" .
  have le: "int v * R \<le> 4000000 * 2100000000000" using assms by (intro mult_mono) auto
  have "0 \<le> int v * R" using assms by simp
  then have "\<bar>(int v * R + 999) div 1000\<bar> < 2 ^ 53" using le by simp
  then have n: "numberOfBig ((int v * R + 999) div 1000) = (int v * R + 999) div 1000" by (rule numberOfBig_exact)
  have safe: "int v \<le> MAX_SAFE_INTEGER" "\<bar>R\<bar> \<le> MAX_SAFE_INTEGER"
    using assms by (simp_all add: MAX_SAFE_INTEGER_def)
  show ?thesis
    using exact_pos [OF assms(4) x] safe t n ceil_div_1000 [of "int v * R"]
    by (simp add: feeForVsize_def Let_def r)
qed

text \<open>The two ways the code reaches a whole rate: a caller's, and the node's in coin per kilobyte.\<close>

lemma caller_rate_stands_for:
  assumes "1 \<le> R"
  shows "stands_for (fl (fl (of_int R / 1000) / SATOSHI_UNIT)) R"
proof -
  have "near (1 / 2 ^ 52) (fl (of_int R / 1000)) (of_int R / 1000)"
    using near_fl [OF near_refl [of "of_int R / 1000" 0]] assms by simp
  then have "near (1 / 2 ^ 52) (fl (of_int R / 1000) / SATOSHI_UNIT) (of_int R / 1000 / SATOSHI_UNIT)"
    by (rule near_divide) (simp add: SATOSHI_UNIT_def)
  then have "near (1 / 2 ^ 52 + 1 / 2 ^ 52) (fl (fl (of_int R / 1000) / SATOSHI_UNIT)) (of_int R / 1000 / SATOSHI_UNIT)"
    by (rule near_fl) (use assms in \<open>auto simp: SATOSHI_UNIT_def\<close>)
  then have "near (1 / 2 ^ 52 + 1 / 2 ^ 52) (fl (fl (of_int R / 1000) / SATOSHI_UNIT) * 10 ^ 11)
      (of_int R / 1000 / SATOSHI_UNIT * 10 ^ 11)"
    by (rule near_mult) simp
  moreover have "of_int R / 1000 / SATOSHI_UNIT * 10 ^ 11 = of_int R" by (simp add: SATOSHI_UNIT_def)
  ultimately have "near (1 / 2 ^ 52 + 1 / 2 ^ 52) (fl (fl (of_int R / 1000) / SATOSHI_UNIT) * 10 ^ 11) (of_int R)"
    by simp
  then show ?thesis unfolding stands_for_def by (rule near_weaken) (use assms in auto)
qed

lemma node_rate_stands_for:
  assumes "1 \<le> R"
  shows "stands_for (fl (fl (of_int R / SATOSHI_UNIT) / 1000)) R"
proof -
  have "near (1 / 2 ^ 52) (fl (of_int R / SATOSHI_UNIT)) (of_int R / SATOSHI_UNIT)"
    using near_fl [OF near_refl [of "of_int R / SATOSHI_UNIT" 0]] assms by (simp add: SATOSHI_UNIT_def)
  then have "near (1 / 2 ^ 52) (fl (of_int R / SATOSHI_UNIT) / 1000) (of_int R / SATOSHI_UNIT / 1000)"
    by (rule near_divide) simp
  then have "near (1 / 2 ^ 52 + 1 / 2 ^ 52) (fl (fl (of_int R / SATOSHI_UNIT) / 1000)) (of_int R / SATOSHI_UNIT / 1000)"
    by (rule near_fl) (use assms in \<open>auto simp: SATOSHI_UNIT_def\<close>)
  then have "near (1 / 2 ^ 52 + 1 / 2 ^ 52) (fl (fl (of_int R / SATOSHI_UNIT) / 1000) * 10 ^ 11)
      (of_int R / SATOSHI_UNIT / 1000 * 10 ^ 11)"
    by (rule near_mult) simp
  moreover have "of_int R / SATOSHI_UNIT / 1000 * 10 ^ 11 = of_int R" by (simp add: SATOSHI_UNIT_def)
  ultimately have "near (1 / 2 ^ 52 + 1 / 2 ^ 52) (fl (fl (of_int R / SATOSHI_UNIT) / 1000) * 10 ^ 11) (of_int R)"
    by simp
  then show ?thesis unfolding stands_for_def by (rule near_weaken) (use assms in auto)
qed

section \<open>The shaved ceiling\<close>

lemma EPSILON_bounds: "0 < EPSILON" "EPSILON \<le> 1 / 10 ^ 12 * (1 + 1 / 2 ^ 53)"
  using fl_pos [of "1 / 10 ^ 12"] fl_bounds(2) [of "1 / 10 ^ 12"] by (simp_all add: EPSILON_def)

lemma shaved_near:
  assumes "0 < e"
  shows "near (2 / 10 ^ 12) (fl (e - fl (\<bar>e\<bar> * EPSILON))) e"
proof -
  have f: "0 \<le> fl (e * EPSILON)" using assms EPSILON_bounds by (intro fl_nonneg) simp
  have "fl (e * EPSILON) \<le> e * EPSILON * (1 + 1 / 2 ^ 53)" using assms EPSILON_bounds by (intro fl_bounds) simp
  also have "\<dots> \<le> e * (1 / 10 ^ 12 * (1 + 1 / 2 ^ 53)) * (1 + 1 / 2 ^ 53)"
    using assms EPSILON_bounds by (intro mult_right_mono mult_left_mono) auto
  also have "\<dots> \<le> e * (3 / 2 / 10 ^ 12)" using assms by (simp add: mult.assoc)
  finally have "near (3 / 2 / 10 ^ 12) (e - fl (e * EPSILON)) e" using f assms by (simp add: near_def algebra_simps)
  then have "near (3 / 2 / 10 ^ 12 + 1 / 2 ^ 52) (fl (e - fl (e * EPSILON))) e" by (rule near_fl) (use assms in auto)
  then have "near (2 / 10 ^ 12) (fl (e - fl (e * EPSILON))) e" by (rule near_weaken) (use assms in auto)
  then show ?thesis using assms by simp
qed

lemma shavedCeil_bounds:
  assumes "0 < e"
  shows "e * (1 - 2 / 10 ^ 12) \<le> of_int (shavedCeil e)" "of_int (shavedCeil e) < e * (1 + 2 / 10 ^ 12) + 1"
  using shaved_near [OF assms] unfolding near_def shavedCeil_def by linarith+

section \<open>The relay minimum\<close>

text \<open>The per-kilobyte rate in base units the branch test reads off a rate.\<close>

definition perKbOf :: "rat \<Rightarrow> rat" where
  "perKbOf x = fl (fl (x * 1000) * SATOSHI_UNIT)"

lemma perKbOf_mono: "0 \<le> x \<Longrightarrow> x \<le> y \<Longrightarrow> perKbOf x \<le> perKbOf y"
  unfolding perKbOf_def by (intro fl_mono mult_right_mono mult_nonneg_nonneg fl_nonneg)
    (auto simp: SATOSHI_UNIT_def)

lemma js_round_mono: "x \<le> y \<Longrightarrow> js_round x \<le> js_round y"
  unfolding js_round_def by (intro floor_mono) simp

lemma js_round_ge: "of_int (js_round p) - 1 / 2 \<le> p"
  unfolding js_round_def by linarith

lemma stands_for_perKb:
  assumes "stands_for x R" "1 \<le> R"
  shows "near (1 / 2 ^ 49) (perKbOf x) (of_int R)"
proof -
  have "near (1 / 2 ^ 50 + 1 / 2 ^ 51) (perKbOf x) (of_int R)" unfolding perKbOf_def
    by (rule perKb_near) (use assms in \<open>auto simp: stands_for_def\<close>)
  then show ?thesis by (rule near_weaken) (use assms in auto)
qed

lemma exact_of_perKb:
  assumes "0 < x"
  shows "of_nat v * perKbOf x / 1000 * (1 - 1 / 2 ^ 49) \<le> fl (fl (of_nat v * x) * SATOSHI_UNIT)"
proof -
  let ?X = "of_nat v * x * SATOSHI_UNIT"
  have X: "0 \<le> ?X" using assms by (simp add: SATOSHI_UNIT_def)
  have "near (1 / 2 ^ 52) (fl (of_nat v * x)) (of_nat v * x)"
    using near_fl [OF near_refl [of "of_nat v * x" 0]] assms by simp
  then have "near (1 / 2 ^ 52) (fl (of_nat v * x) * SATOSHI_UNIT) ?X" by (rule near_mult) (simp add: SATOSHI_UNIT_def)
  then have "near (1 / 2 ^ 52 + 1 / 2 ^ 52) (fl (fl (of_nat v * x) * SATOSHI_UNIT)) ?X"
    by (rule near_fl) (use X in auto)
  then have e: "?X * (1 - 1 / 2 ^ 51) \<le> fl (fl (of_nat v * x) * SATOSHI_UNIT)" by (simp add: near_def)
  have "near (0 + 1 / 2 ^ 51) (perKbOf x) (x * 10 ^ 11)" unfolding perKbOf_def
    by (rule perKb_near) (use assms near_refl in auto)
  then have "perKbOf x \<le> x * 10 ^ 11 * (1 + 1 / 2 ^ 51)" by (simp add: near_def)
  then have "of_nat v * perKbOf x / 1000 * (1 - 1 / 2 ^ 49) \<le> of_nat v * (x * 10 ^ 11 * (1 + 1 / 2 ^ 51)) / 1000 * (1 - 1 / 2 ^ 49)"
    by (intro mult_right_mono divide_right_mono mult_left_mono) auto
  also have "\<dots> = ?X * ((1 + 1 / 2 ^ 51) * (1 - 1 / 2 ^ 49))" by (simp add: SATOSHI_UNIT_def)
  also have "\<dots> \<le> ?X * (1 - 1 / 2 ^ 51)" using X by (intro mult_left_mono) auto
  finally show ?thesis using e by linarith
qed

lemma feeForVsize_relay:
  assumes "stands_for x0 R" "1 \<le> R" "R \<le> 100000000000" "0 < v" "v \<le> 4000000" "x0 \<le> x"
  shows "\<lceil>of_nat v * of_int R / (1000 :: rat)\<rceil> \<le> feeForVsize v x SATOSHI_UNIT"
proof -
  let ?p = "perKbOf x" and ?W = "js_round (perKbOf x)" and ?e = "fl (fl (of_nat v * x) * SATOSHI_UNIT)"
  have x0: "0 < x0" by (rule stands_for_pos) (use assms in auto)
  then have x: "0 < x" using assms(6) by simp
  note e = exact_pos [OF assms(4) x]
  have R1: "(1::rat) \<le> of_int R" and R2: "(of_int R :: rat) \<le> 100000000000"
    using assms(2,3) by (metis of_int_1_le_iff, metis of_int_le_iff of_int_numeral)
  have n0: "near (1 / 2 ^ 49) (perKbOf x0) (of_int R)" by (rule stands_for_perKb) (use assms in auto)
  have p0: "of_int R * (1 - 1 / 2 ^ 49) \<le> ?p"
    using n0 perKbOf_mono [of x0 x] x0 assms(6) unfolding near_def by linarith
  have "js_round (perKbOf x0) = R"
    proof (rule js_round_near)
    show "\<bar>perKbOf x0 - of_int R\<bar> < 1 / 2" using near_abs [OF n0] R2 by simp
  qed
  then have W: "R \<le> ?W" using js_round_mono [OF perKbOf_mono [of x0 x]] x0 assms(6) by simp
  show ?thesis
  proof (cases "int v \<le> MAX_SAFE_INTEGER \<and> \<bar>?W\<bar> \<le> MAX_SAFE_INTEGER \<and>
      \<bar>fl (?p - of_int ?W)\<bar> \<le> fl (fl (1 / 10 ^ 9) * of_int (max 1 ?W))")
    case True
    then have f: "feeForVsize v x SATOSHI_UNIT = numberOfBig ((int v * ?W + 999) div 1000)"
      using e by (simp add: feeForVsize_def Let_def perKbOf_def)
    let ?m = "(int v * R + 999) div 1000"
    have "int v * R \<le> 4000000 * 100000000000" using assms by (intro mult_mono) auto
    moreover have "0 \<le> int v * R" using assms by simp
    ultimately have m: "\<bar>?m\<bar> < 2 ^ 53" "0 \<le> ?m" by auto
    have "?m \<le> (int v * ?W + 999) div 1000"
      using W by (intro zdiv_mono1) (auto intro: mult_left_mono)
    then have "of_int ?m \<le> (of_int ((int v * ?W + 999) div 1000) :: rat)" by (simp only: of_int_le_iff)
    then have "fl (of_int ?m) \<le> fl (of_int ((int v * ?W + 999) div 1000))"
      using m(2) by (intro fl_mono) (auto simp only: of_int_0_le_iff)
    then have "?m \<le> feeForVsize v x SATOSHI_UNIT"
      unfolding f numberOfBig_def using fl_int [OF m(1)] by (simp add: le_floor_iff)
    then show ?thesis using ceil_div_1000 [of "int v * R"] by simp
  next
    case False
    then have f: "feeForVsize v x SATOSHI_UNIT = shavedCeil ?e"
      using e by (auto simp: feeForVsize_def Let_def perKbOf_def)
    have big: "of_int R * (1 + 4 / 10 ^ 12) \<le> ?p"
    proof (cases "?W = R")
      case True
      have "int v \<le> MAX_SAFE_INTEGER" "\<bar>R\<bar> \<le> MAX_SAFE_INTEGER" using assms by (simp_all add: MAX_SAFE_INTEGER_def)
      then have "fl (fl (1 / 10 ^ 9) * of_int (max 1 R)) < \<bar>fl (?p - of_int R)\<bar>" using False True by simp
      then have "of_int R / 2 ^ 30 < \<bar>fl (?p - of_int R)\<bar>" using tolerance_bound [OF assms(2)] by linarith
      also have "\<dots> \<le> 2 * \<bar>?p - of_int R\<bar>" by (rule fl_abs_le)
      finally have g: "of_int R / 2 ^ 31 < \<bar>?p - of_int R\<bar>" by simp
      have "of_int R \<le> ?p"
      proof (rule ccontr)
        assume "\<not> of_int R \<le> ?p"
        then have "of_int R / 2 ^ 31 < of_int R - ?p" using g by linarith
        moreover have "of_int R - ?p \<le> of_int R / 2 ^ 49" using p0 by (simp add: algebra_simps)
        moreover have "of_int R / 2 ^ 49 \<le> (of_int R / 2 ^ 31 :: rat)" using R1 by simp
        ultimately show False by linarith
      qed
      then have "of_int R + of_int R / 2 ^ 31 < ?p" using g by linarith
      moreover have "of_int R * (1 + 4 / 10 ^ 12) \<le> (of_int R + of_int R / 2 ^ 31 :: rat)" using R1 by simp
      ultimately show ?thesis by linarith
    next
      case W1: False
      then have "(of_int (R + 1) :: rat) \<le> of_int ?W" using W by (simp only: of_int_le_iff)
      then have "of_int R + 1 / 2 \<le> ?p" using js_round_ge [of ?p] by simp
      moreover have "of_int R * (1 + 4 / 10 ^ 12) \<le> (of_int R + 1 / 2 :: rat)" using R2 by simp
      ultimately show ?thesis by linarith
    qed
    have "(of_nat v * of_int R / 1000 :: rat) \<le> of_nat v * (of_int R * (1 + 4 / 10 ^ 12)) / 1000 * (1 - 1 / 2 ^ 49) * (1 - 2 / 10 ^ 12)"
    proof -
      have "0 \<le> of_nat v * (of_int R :: rat)" using assms(2) by simp
      then have "of_nat v * of_int R * 1 \<le> of_nat v * of_int R * ((1 + 4 / 10 ^ 12) * (1 - 1 / 2 ^ 49) * (1 - 2 / 10 ^ 12) :: rat)"
        by (intro mult_left_mono) auto
      then show ?thesis by simp
    qed
    also have "\<dots> \<le> of_nat v * ?p / 1000 * (1 - 1 / 2 ^ 49) * (1 - 2 / 10 ^ 12)"
      by (intro mult_right_mono divide_right_mono mult_left_mono big) auto
    also have "\<dots> \<le> ?e * (1 - 2 / 10 ^ 12)" by (intro mult_right_mono exact_of_perKb x) auto
    also have "\<dots> \<le> of_int (shavedCeil ?e)" by (rule shavedCeil_bounds(1) [OF e])
    finally show ?thesis unfolding f by (simp add: ceiling_le_iff)
  qed
qed

text \<open>The node's minimum, as the code computes it in doubles, is not over the exact one.\<close>

lemma minimum_relay_le:
  assumes "1 \<le> R" "R \<le> 2000000000" "v \<le> 4000000"
  shows "\<lceil>fl (fl (of_nat v * of_int R) / 1000)\<rceil> \<le> \<lceil>of_nat v * of_int R / (1000 :: rat)\<rceil>"
proof -
  let ?n = "int v * R" and ?c = "\<lceil>of_nat v * of_int R / (1000 :: rat)\<rceil>"
  have n: "0 \<le> ?n" "?n \<le> 4000000 * 2000000000"
    using assms by (simp, intro mult_mono) auto
  have fn: "fl (of_int ?n) = of_int ?n" by (rule fl_int) (use n in simp)
  have c: "?c = (?n + 999) div 1000" using ceil_div_1000 [of ?n] by simp
  have c2: "\<bar>?c\<bar> < 2 ^ 53" unfolding c using n by simp
  have le: "of_int ?n / 1000 \<le> (of_int ?c :: rat)" using le_of_int_ceiling [of "of_nat v * of_int R / (1000::rat)"] by simp
  have "(0::rat) \<le> of_int ?n" using n(1) by (simp only: of_int_0_le_iff)
  then have "fl (of_int ?n / 1000) \<le> fl (of_int ?c)" using le by (intro fl_mono) auto
  also have "\<dots> = of_int ?c" by (rule fl_int [OF c2])
  finally have "fl (fl (of_int ?n) / 1000) \<le> of_int ?c" unfolding fn .
  then have "\<lceil>fl (fl (of_int ?n) / 1000)\<rceil> \<le> ?c" by (simp only: ceiling_le_iff)
  then show ?thesis by simp
qed

text \<open>Reading the node's rate back in base units.\<close>

lemma relay_round:
  assumes "1 \<le> R" "R \<le> 100000000000"
  shows "js_round (fl (fl (of_int R / SATOSHI_UNIT) * SATOSHI_UNIT)) = R"
proof (rule js_round_near)
  have "near (1 / 2 ^ 52) (fl (of_int R / SATOSHI_UNIT)) (of_int R / SATOSHI_UNIT)"
    using near_fl [OF near_refl [of "of_int R / SATOSHI_UNIT" 0]] assms by (simp add: SATOSHI_UNIT_def)
  then have "near (1 / 2 ^ 52) (fl (of_int R / SATOSHI_UNIT) * SATOSHI_UNIT) (of_int R / SATOSHI_UNIT * SATOSHI_UNIT)"
    by (rule near_mult) (simp add: SATOSHI_UNIT_def)
  then have "near (1 / 2 ^ 52) (fl (of_int R / SATOSHI_UNIT) * SATOSHI_UNIT) (of_int R)"
    by (simp add: SATOSHI_UNIT_def)
  then have "near (1 / 2 ^ 52 + 1 / 2 ^ 52) (fl (fl (of_int R / SATOSHI_UNIT) * SATOSHI_UNIT)) (of_int R)"
    by (rule near_fl) (use assms in auto)
  from near_abs [OF this] have "\<bar>fl (fl (of_int R / SATOSHI_UNIT) * SATOSHI_UNIT) - of_int R\<bar> \<le>
      of_int R * (1 / 2 ^ 52 + 1 / 2 ^ 52)" .
  moreover have "(of_int R :: rat) \<le> 100000000000" using assms(2) by (metis of_int_le_iff of_int_numeral)
  ultimately show "\<bar>fl (fl (of_int R / SATOSHI_UNIT) * SATOSHI_UNIT) - of_int R\<bar> < 1 / 2" by simp
qed

end
