(* ===== verification/Build.thy ===== *)
theory Build
  imports Reservations Payload Sizes Fees
begin

text \<open>
  The state of one build and of the encoder it runs on. \<open>build\<close> is the object
  \<open>_buildTransaction\<close> of \<open>src/src/XChainEncoder.js\<close> threads through its steps, \<open>encoder\<close> the fields
  the constructor sets, \<open>lib\<close> the functions of bitcoinjs-lib, Node's crypto and the curve library the
  steps call. The fee-rate step (\<open>build_transaction/fee_rates.js\<close>) is here too; what the node
  answers is an argument.
\<close>

section \<open>The library\<close>

record lib =
  compile :: "item list \<Rightarrow> Buffer"
  decompile :: "Buffer \<Rightarrow> item list option"
  toOutputScript :: "string \<Rightarrow> Buffer option"
  p2shOutput :: "Buffer \<Rightarrow> Buffer"
  p2wshOutput :: "Buffer \<Rightarrow> Buffer"
  p2trOutput :: "Buffer \<Rightarrow> Buffer \<Rightarrow> Buffer"
  p2wpkhOutput :: "Buffer \<Rightarrow> Buffer option"
  p2msOutput :: "Buffer list \<Rightarrow> Buffer option"
  embedOutput :: "Buffer \<Rightarrow> Buffer"
  p2ms :: "Buffer \<Rightarrow> (nat \<times> nat \<times> Buffer list) option"
  hash160 :: "Buffer \<Rightarrow> Buffer"
  txOuts :: "Buffer \<Rightarrow> txOutput list option"
  getId :: "Buffer \<Rightarrow> string"
  unsignedId :: "psbt \<Rightarrow> string"
  aes128ctr :: "string \<Rightarrow> string \<Rightarrow> Buffer \<Rightarrow> Buffer"
  onCurve :: "Buffer \<Rightarrow> bool"
  fromBase58Check :: "string \<Rightarrow> Buffer option"
  fromBech32 :: "string \<Rightarrow> (nat \<times> Buffer) option"
  p2pkhAddress :: "Buffer \<Rightarrow> string option"
  p2wpkhAddress :: "Buffer \<Rightarrow> string option"
  taggedHash :: "string \<Rightarrow> Buffer \<Rightarrow> Buffer"
  controlBlockOf :: "Buffer \<Rightarrow> Buffer \<Rightarrow> Buffer"
  p2trHash :: "Buffer \<Rightarrow> Buffer \<Rightarrow> Buffer"

section \<open>The caller's identity\<close>

text \<open>
  \<open>resolveCallerHash160\<close> and \<open>resolveCallerAddress\<close> of \<open>request_resolution.js\<close>: the caller is a key in hex or an
  address. Decoding either is bitcoinjs-lib's, \<open>None\<close> where it throws.
\<close>

definition isUncompressedPubKeyHex :: "string \<Rightarrow> bool" where
  "isUncompressedPubKeyHex s = (length s = 130 \<and> take 2 s = ''04'' \<and> isHexString (drop 2 s))"

definition isPubKeyHex :: "string \<Rightarrow> bool" where
  "isPubKeyHex s = (isCompressedPubKeyHex s \<or> isUncompressedPubKeyHex s)"

definition resolveCallerHash160 :: "lib \<Rightarrow> string \<Rightarrow> Buffer result" where
  "resolveCallerHash160 L pk =
     (if isPubKeyHex pk
      then (if onCurve L (fromHex pk) then ok (hash160 L (fromHex pk)) else throw (ParamTypeError ''pubkey is not a valid secp256k1 point''))
      else case fromBase58Check L pk of
             Some h \<Rightarrow> ok h
           | None \<Rightarrow>
               (case fromBech32 L pk of
                  Some (version, prog) \<Rightarrow>
                    if version = 0 \<and> length prog = 20 then ok prog
                    else throw (ParamTypeError ''the chunk-lane P2PKH gate needs a 20-byte HASH160'')
                | None \<Rightarrow> throw (ParamTypeError ''prepareData: cannot resolve a 20-byte caller HASH160'')))"

definition resolveCallerAddress :: "lib \<Rightarrow> network \<Rightarrow> string \<Rightarrow> string result" where
  "resolveCallerAddress L net pk =
     (if pk = [] then ok pk
      else case toOutputScript L pk of
             Some _ \<Rightarrow> ok pk
           | None \<Rightarrow>
               if isPubKeyHex pk
               then (if \<not> onCurve L (fromHex pk) then throw (ParamTypeError ''pubkey is not a valid secp256k1 point'')
                     else case (if supportsSegwit net then p2wpkhAddress L (fromHex pk) else p2pkhAddress L (fromHex pk)) of
                            Some a \<Rightarrow> ok a | None \<Rightarrow> throw (InternalError ''the payment rejected the key''))
               else throw (ParamTypeError ''pubkey is neither a valid address for this network nor a public key hex''))"

section \<open>The encoder\<close>

record encoder =
  network :: network
  networkKey :: string
  dustAmount :: int
  outputFloor :: int
  paymentOutputFloor :: int
  maxFeePerBytes :: "rat option"
  maxFeeRateMultiplier :: "rat option"
  suggestedFeeMaxSetting :: jsnum
  maxCpfpUpliftSetting :: jsnum

definition DEFAULT_MAX_FEE_RATE_MULTIPLIER :: rat where "DEFAULT_MAX_FEE_RATE_MULTIPLIER = 100"

text \<open>
  The constructor's floors and caps. The three settings are what \<open>Number\<close> made of the arguments,
  \<open>None\<close> for an absent multiplier; an unknown network throws.
\<close>

definition newEncoder :: "string \<Rightarrow> jsnum \<Rightarrow> jsnum option \<Rightarrow> jsnum \<Rightarrow> jsnum \<Rightarrow> jsnum \<Rightarrow> encoder result" where
  "newEncoder key capKb multiplier operatorDust suggestedFeeMax maxCpfp =
     (case parseNetworkName key of
        None \<Rightarrow> throw (ParamTypeError ''Unknown network'')
      | Some (t, n) \<Rightarrow>
          (let dust = int (dustThreshold (networkOf t));
               floor = max dust (max (int (softDustFloorFor key))
                         (case operatorDust of Fin r \<Rightarrow> if 0 < r then \<lfloor>r\<rfloor> else 0 | _ \<Rightarrow> 0));
               cap = (case capKb of Fin r \<Rightarrow> if 0 < r then Some (fl (fl (r / 1000) / SATOSHI_UNIT)) else None | _ \<Rightarrow> None);
               mult = (case multiplier of
                         None \<Rightarrow> None
                       | Some (Fin r) \<Rightarrow> if r = 0 then None else if 0 < r then Some r else Some DEFAULT_MAX_FEE_RATE_MULTIPLIER
                       | Some _ \<Rightarrow> Some DEFAULT_MAX_FEE_RATE_MULTIPLIER)
           in ok \<lparr>network = networkOf t, networkKey = key, dustAmount = dust, outputFloor = floor,
                  paymentOutputFloor = dust, maxFeePerBytes = cap, maxFeeRateMultiplier = mult,
                  suggestedFeeMaxSetting = suggestedFeeMax, maxCpfpUpliftSetting = maxCpfp\<rparr>))"

section \<open>The build\<close>

text \<open>A candidate input; \<open>confirmations\<close> is \<open>None\<close> when the field is missing.\<close>

record utxo =
  txid :: string
  vout :: nat
  utxoValue :: int
  scriptPubKey :: string
  confirmations :: "int option"
  utxoRedeem :: "string option"

text \<open>A caller payment, or the injected fee-quote output, which the emission step tells apart.\<close>

record customOutput =
  coAddress :: string
  coValue :: int
  isFeeQuote :: bool

record prefund =
  prefundIndex :: nat
  prefundSize :: nat
  prefundFee :: int

record envelopeContext =
  ecInternalPubkey :: Buffer
  ecScript :: Buffer
  ecOutput :: Buffer
  commitValue :: int
  ecRevealFee :: int
  revealPadNeeded :: bool
  revealChangeAddress :: string

record build =
  utxos :: "utxo list"
  pubkey :: string
  customOutputs :: "customOutput list"
  fee :: "int option"
  feePerKb :: "rat option"
  dust :: "int option"
  replacebyfee :: bool
  change :: "string option"
  p2shHash :: "string option"
  p2shHex :: "string option"
  compressedPubKey :: "string option"
  unconfirmed :: bool
  attachPrevTx :: bool
  exactInputs :: bool
  hasActionPayload :: bool
  preparedData :: payload
  callReservations :: ledger
  firstReservedOutpoint :: "string option"
  txidFirstInput :: "string option"
  psbtOf :: "psbt option"
  p2shTx :: "txOutput list option"
  feePerBytes :: rat
  nodeFeePerBytes :: "rat option"
  relayFeePerKb :: rat
  capFeePerBytes :: "rat option"
  finalDust :: int
  isP2shFamily :: bool
  revealCustomOutputsValue :: int
  revealCustomOutputsBytes :: nat
  revealCustomOutputsFee :: int
  revealHeadroomFunded :: bool
  revealPrefund :: "prefund option"
  envelopeContextOf :: "envelopeContext option"
  outputSatoshis :: int
  inputSatoshis :: int
  phaseLegInputSatoshis :: int
  voutPsbtIndex :: nat
  estimatedTxSize :: nat
  estimatedFee :: int
  requestedFee :: "int option"
  softDustSurcharge :: int
  selectedInputCount :: nat
  unconfirmedInputTxids :: "string list"
  reservedCandidates :: nat
  segwitMarkerCounted :: bool
  cpfpUpliftBound :: int
  commitAncestorSize :: rat
  commitAncestorFeeSat :: int
  changeSatoshis :: int

text \<open>
  \<open>psbtOf\<close> is \<open>null\<close> on a reveal until its first leg creates the PSBT. Amounts are whole numbers of base
  units: the code narrows a BigInt to a Number only where it is exact (\<open>asSatValue\<close>).
\<close>

text \<open>\<open>!!p2shHash\<close>, and a truthy string.\<close>

definition truthy :: "string option \<Rightarrow> bool" where
  "truthy s = (s \<noteq> None \<and> s \<noteq> Some [])"

abbreviation isReveal :: "build \<Rightarrow> bool" where
  "isReveal b \<equiv> truthy (p2shHash b)"

section \<open>Fee rates\<close>

definition resolveRelayFeeRate :: "jsnum \<Rightarrow> build \<Rightarrow> build result" where
  "resolveRelayFeeRate relayfee b =
     (case relayfee of
        Fin r \<Rightarrow> if 0 < r then ok (b\<lparr>relayFeePerKb := r\<rparr>)
                 else throw (InternalError ''Node did not report a positive relayfee'')
      | _ \<Rightarrow> throw (InternalError ''Node did not report a positive relayfee''))"

text \<open>
  The caller's rate in base units per kilobyte; the node's estimate is fetched for the caps and a
  failed estimate is only logged.
\<close>

definition useCallerFeeRate :: "rat result \<Rightarrow> rat \<Rightarrow> build \<Rightarrow> build" where
  "useCallerFeeRate nodeEstimate perKb b =
     b\<lparr>feePerBytes := fl (fl (perKb / 1000) / SATOSHI_UNIT),
       nodeFeePerBytes := (case nodeEstimate of Inr e \<Rightarrow> Some (fl (e / 1000)) | Inl _ \<Rightarrow> nodeFeePerBytes b)\<rparr>"

definition useNodeFeeRate :: "encoder \<Rightarrow> rat result \<Rightarrow> build \<Rightarrow> build result" where
  "useNodeFeeRate enc nodeEstimate b =
     andThen nodeEstimate (\<lambda>e.
     let rate = fl (e / 1000);
         suggestedCap = suggestedFeeCeilingPerByte (suggestedFeeMaxSetting enc) (networkKey enc) SATOSHI_UNIT;
         suggestedCap =
           (case suggestedCap of
              None \<Rightarrow> None
            | Some c \<Rightarrow>
                if c < rate
                then (case suggestedFeeCeilingFloorPerByte (relayFeePerKb b) of
                        Some f \<Rightarrow> Some (if c < f then f else c) | None \<Rightarrow> Some c)
                else Some c);
         charged = (case suggestedCap of
                      None \<Rightarrow> rate
                    | Some c \<Rightarrow> if fl (c * fl (1 + EPSILON)) < rate then c else rate);
         relayFeePerBytes = fl (relayFeePerKb b / 1000);
         charged = (if charged < relayFeePerBytes then relayFeePerBytes else charged)
     in ok (b\<lparr>feePerBytes := charged, nodeFeePerBytes := Some rate\<rparr>))"

definition anchorRelayFeeRate :: "build \<Rightarrow> build" where
  "anchorRelayFeeRate b =
     (case nodeFeePerBytes b of
        None \<Rightarrow> b\<lparr>nodeFeePerBytes := Some (fl (relayFeePerKb b / 1000))\<rparr>
      | Some n \<Rightarrow> b)"

definition applyFeeCapAndDustFloor :: "encoder \<Rightarrow> build \<Rightarrow> build" where
  "applyFeeCapAndDustFloor enc b =
     (let c = capCallerFeeRate (feePerBytes b) (nodeFeePerBytes b) (Some (relayFeePerKb b))
                (maxFeePerBytes enc) (maxFeeRateMultiplier enc);
          finalDust' = (case dust b of
                          Some d \<Rightarrow> if d \<noteq> 0 then max d (outputFloor enc) else outputFloor enc
                        | None \<Rightarrow> outputFloor enc)
      in b\<lparr>capFeePerBytes := cappedCap c,
           feePerBytes := (if cappedClamped c then cappedRate c else feePerBytes b),
           finalDust := finalDust'\<rparr>)"

definition resolveFeeRates :: "encoder \<Rightarrow> jsnum \<Rightarrow> rat result \<Rightarrow> build \<Rightarrow> build result" where
  "resolveFeeRates enc relayfee nodeEstimate b =
     andThen (resolveRelayFeeRate relayfee (b\<lparr>nodeFeePerBytes := None\<rparr>)) (\<lambda>b.
     andThen (case feePerKb b of
                Some r \<Rightarrow> if r \<noteq> 0 then ok (useCallerFeeRate nodeEstimate r b) else useNodeFeeRate enc nodeEstimate b
              | None \<Rightarrow> useNodeFeeRate enc nodeEstimate b) (\<lambda>b.
     ok (applyFeeCapAndDustFloor enc (anchorRelayFeeRate b))))"

end
