(* ===== verification/Instances.thy ===== *)
theory Instances
  imports Build
begin

text \<open>
  Concrete values the witnesses evaluate the model on: an encoder the constructor builds for each
  kind of network, a build before its first step, and a library whose script codec is the exact
  one of \<open>Wire\<close> and whose hashes are stand-ins that keep their input.
\<close>

definition blankBuild :: build where
  "blankBuild = \<lparr>utxos = [], pubkey = [], customOutputs = [], fee = None, feePerKb = None, dust = None, replacebyfee = False,
     change = None, p2shHash = None, p2shHex = None, compressedPubKey = None, unconfirmed = True, attachPrevTx = False,
     exactInputs = False, hasActionPayload = False,
     preparedData = \<lparr>dataBufferArray = [], payloadEncoding = E_OP_RETURN, internalPubkey = None\<rparr>,
     callReservations = \<lparr>claims = [], buildTxid = None\<rparr>, firstReservedOutpoint = None, txidFirstInput = None,
     psbtOf = Some emptyPsbt, p2shTx = None, feePerBytes = 0, nodeFeePerBytes = None, relayFeePerKb = 0, capFeePerBytes = None,
     finalDust = 0, isP2shFamily = False, revealCustomOutputsValue = 0, revealCustomOutputsBytes = 0,
     revealCustomOutputsFee = 0, revealHeadroomFunded = False, revealPrefund = None, envelopeContextOf = None,
     outputSatoshis = 0, inputSatoshis = 0, phaseLegInputSatoshis = 0, voutPsbtIndex = 0, estimatedTxSize = 10,
     estimatedFee = 0, requestedFee = None, softDustSurcharge = 0, selectedInputCount = 0, unconfirmedInputTxids = [],
     reservedCandidates = 0, segwitMarkerCounted = False, cpfpUpliftBound = 0, commitAncestorSize = 0,
     commitAncestorFeeSat = 0, changeSatoshis = 0\<rparr>"

definition btcEncoder :: encoder where
  "btcEncoder = \<lparr>network = BTC_net, networkKey = ''bitcoin-regtest'', dustAmount = 546, outputFloor = 546,
     paymentOutputFloor = 546, maxFeePerBytes = None, maxFeeRateMultiplier = Some 100, suggestedFeeMaxSetting = NaN,
     maxCpfpUpliftSetting = NaN\<rparr>"

definition dogeEncoder :: encoder where
  "dogeEncoder = \<lparr>network = DOGE_net, networkKey = ''dogecoin-regtest'', dustAmount = 100000, outputFloor = 1000000,
     paymentOutputFloor = 100000, maxFeePerBytes = None, maxFeeRateMultiplier = Some 100, suggestedFeeMaxSetting = NaN,
     maxCpfpUpliftSetting = NaN\<rparr>"

lemma parse_regtest [simp]: "parseNetworkName ''bitcoin-regtest'' = Some (BTC, regtest)"
  "parseNetworkName ''dogecoin-regtest'' = Some (DOGE, regtest)"
  by code_simp+

lemma tickOf_regtest [simp]: "tickOf ''bitcoin-regtest'' = Some BTC" "tickOf ''dogecoin-regtest'' = Some DOGE"
  by code_simp+

lemma softDust_regtest [simp]: "softDustFloorFor ''bitcoin-regtest'' = 0" "softDustFloorFor ''dogecoin-regtest'' = 1000000"
  by (simp_all add: softDustFloorFor_def)

lemma btcEncoder_new: "newEncoder ''bitcoin-regtest'' NaN (Some (Fin 100)) NaN NaN NaN = Inr btcEncoder"
  by (simp add: newEncoder_def btcEncoder_def network_defs)

lemma dogeEncoder_new: "newEncoder ''dogecoin-regtest'' NaN (Some (Fin 100)) NaN NaN NaN = Inr dogeEncoder"
  by (simp add: newEncoder_def dogeEncoder_def network_defs)

definition exampleLib :: lib where
  "exampleLib = \<lparr>compile = writeScript, decompile = readScript,
     toOutputScript = (\<lambda>a. if a = [] then None else Some ([0x00, 0x14] @ map of_char a)),
     p2shOutput = (\<lambda>s. [0xa9, 0x14] @ s @ [0x87]), p2wshOutput = (\<lambda>s. [0x00, 0x20] @ s),
     p2trOutput = (\<lambda>k s. [0x51, 0x20] @ k @ s), p2wpkhOutput = (\<lambda>k. Some ([0x00, 0x14] @ k)),
     p2msOutput = (\<lambda>ks. Some (0x51 # concat ks @ [0x53, 0xae])), embedOutput = (\<lambda>d. 0x6a # d),
     p2ms = (\<lambda>s. None), hash160 = (\<lambda>s. s), txOuts = (\<lambda>raw. None), getId = (\<lambda>raw. ''id''), unsignedId = (\<lambda>p. ''id''),
     aes128ctr = (\<lambda>k iv d. d), onCurve = (\<lambda>k. True), fromBase58Check = (\<lambda>a. None), fromBech32 = (\<lambda>a. None),
     p2pkhAddress = (\<lambda>k. Some ''caller''), p2wpkhAddress = (\<lambda>k. Some ''caller''),
     taggedHash = (\<lambda>t d. d), controlBlockOf = (\<lambda>k s. 0xc0 # k),
     p2trHash = (\<lambda>k h. [0x51, 0x20] @ k @ (case parseCompactSize (drop 1 h) of Some (n, s) \<Rightarrow> s | None \<Rightarrow> h))\<rparr>"

end
