(* ===== verification/FeeProperties.thy ===== *)
theory FeeProperties
  imports FeeFacts Instances
begin

text \<open>
  What the fee arithmetic promises: whole rates are charged exactly, no caller rate escapes the
  operator's cap or the backstop over the node's own rate, and the package uplift brings a package to
  its target and not a unit past it.
\<close>

section \<open>Whole rates\<close>

text \<open>
  C17. A caller rate of \<open>R\<close> base units per kilobyte, and a node estimate of the same rate given in coin
  per kilobyte, both charge a transaction of \<open>v\<close> bytes exactly \<open>v * R / 1000\<close> base units rounded up,
  although both rates pass through three or four roundings as doubles. The bounds are the
  validator's fee ceiling and the largest transaction.
\<close>

theorem whole_rate_fee_exact:
  assumes "1 \<le> R" "R \<le> 2100000000000" "0 < v" "v \<le> 4000000"
  shows "feeForVsize v (feePerBytes (useCallerFeeRate est (of_int R) b)) SATOSHI_UNIT = \<lceil>of_nat v * of_int R / (1000 :: rat)\<rceil> \<and>
    feeForVsize v (fl (fl (of_int R / SATOSHI_UNIT) / 1000)) SATOSHI_UNIT = \<lceil>of_nat v * of_int R / (1000 :: rat)\<rceil>"
  using feeForVsize_whole [OF caller_rate_stands_for [OF assms(1)] assms]
    feeForVsize_whole [OF node_rate_stands_for [OF assms(1)] assms]
  by (simp add: useCallerFeeRate_def)

theorem whole_rate_fee_exact_witness:
  "feeForVsize 226 (feePerBytes (useCallerFeeRate (throw (InternalError ''down'')) 1001 undefined)) SATOSHI_UNIT = 227"
  using whole_rate_fee_exact [of 1001 226 "throw (InternalError ''down'')" undefined] by (simp add: ceiling_eq_iff)

section \<open>Resolving the rate\<close>

lemma capCallerFeeRate_facts:
  assumes "c = capCallerFeeRate r (Some n) relay maxRate mult"
  shows "cappedRate c \<le> r" "cappedRate c \<le> fl (n * 100)" "\<And>m. maxRate = Some m \<Longrightarrow> cappedRate c \<le> m"
    and "\<And>m. mult = Some m \<Longrightarrow> m \<noteq> 0 \<Longrightarrow> cappedRate c \<le> fl (n * m)"
  unfolding assms by (auto simp: capCallerFeeRate_def BURN_BACKSTOP_MULTIPLIER_def Let_def split: option.splits)

lemma capCallerFeeRate_attained:
  "c = capCallerFeeRate r (Some n) relay maxRate mult \<Longrightarrow> m \<le> r \<Longrightarrow> m \<le> fl (n * 100) \<Longrightarrow>
     (\<And>x. maxRate = Some x \<Longrightarrow> m \<le> x) \<Longrightarrow> (\<And>x. mult = Some x \<Longrightarrow> x \<noteq> 0 \<Longrightarrow> m \<le> fl (n * x)) \<Longrightarrow> m \<le> cappedRate c"
  by (auto simp: capCallerFeeRate_def BURN_BACKSTOP_MULTIPLIER_def Let_def split: option.splits)

definition anchorRate :: "rat \<Rightarrow> rat result \<Rightarrow> rat" where
  "anchorRate relay est = (case est of Inr e \<Rightarrow> fl (e / 1000) | Inl _ \<Rightarrow> fl (relay / 1000))"

lemma capped_rate: "c = capCallerFeeRate r a y m x \<Longrightarrow> (if cappedClamped c then cappedRate c else r) = cappedRate c"
  by (auto simp: capCallerFeeRate_def Let_def)

lemma useNodeFeeRate_floor:
  assumes "useNodeFeeRate enc est b = Inr b'"
  shows "fl (relayFeePerKb b / 1000) \<le> feePerBytes b'" "\<exists>e. est = Inr e \<and> nodeFeePerBytes b' = Some (fl (e / 1000))"
    "relayFeePerKb b' = relayFeePerKb b"
  using assms by (auto simp: useNodeFeeRate_def result_simps Let_def)

lemma applyFeeCap_rate: "feePerBytes (applyFeeCapAndDustFloor enc b) =
    cappedRate (capCallerFeeRate (feePerBytes b) (nodeFeePerBytes b) (Some (relayFeePerKb b)) (maxFeePerBytes enc) (maxFeeRateMultiplier enc))"
  "relayFeePerKb (applyFeeCapAndDustFloor enc b) = relayFeePerKb b"
  "nodeFeePerBytes (applyFeeCapAndDustFloor enc b) = nodeFeePerBytes b"
  by (simp_all add: applyFeeCapAndDustFloor_def Let_def capped_rate [OF refl])

lemma anchorRelay_simps: "feePerBytes (anchorRelayFeeRate b) = feePerBytes b" "relayFeePerKb (anchorRelayFeeRate b) = relayFeePerKb b"
  "nodeFeePerBytes (anchorRelayFeeRate b) =
     Some (case nodeFeePerBytes b of None \<Rightarrow> fl (relayFeePerKb b / 1000) | Some n \<Rightarrow> n)"
  by (auto simp: anchorRelayFeeRate_def split: option.split)

definition namesRate :: "build \<Rightarrow> bool" where
  "namesRate b = (case feePerKb b of None \<Rightarrow> False | Some k \<Rightarrow> k \<noteq> 0)"

lemma resolveFeeRates_run:
  assumes "resolveFeeRates enc (Fin relay) est b = Inr b'"
  shows "\<exists>r. feePerBytes b' = cappedRate (capCallerFeeRate r (Some (anchorRate relay est)) (Some relay)
           (maxFeePerBytes enc) (maxFeeRateMultiplier enc)) \<and> (\<not> namesRate b \<longrightarrow> fl (relay / 1000) \<le> r)"
proof -
  define b0 where "b0 = b\<lparr>nodeFeePerBytes := None, relayFeePerKb := relay\<rparr>"
  obtain b1 where b1: "(if namesRate b then ok (useCallerFeeRate est (the (feePerKb b)) b0) else useNodeFeeRate enc est b0) = Inr b1"
    and b': "b' = applyFeeCapAndDustFloor enc (anchorRelayFeeRate b1)"
    using assms by (auto simp: resolveFeeRates_def resolveRelayFeeRate_def result_simps namesRate_def b0_def
        split: if_splits option.splits)
  have "relayFeePerKb b1 = relay \<and> nodeFeePerBytes (anchorRelayFeeRate b1) = Some (anchorRate relay est) \<and>
      (\<not> namesRate b \<longrightarrow> fl (relay / 1000) \<le> feePerBytes b1)"
  proof (cases "namesRate b")
    case True
    then have "b1 = useCallerFeeRate est (the (feePerKb b)) b0" using b1 by simp
    then show ?thesis using True
      by (simp add: anchorRelay_simps useCallerFeeRate_def b0_def anchorRate_def split: sum.split)
  next
    case False
    then have "useNodeFeeRate enc est b0 = Inr b1" using b1 by simp
    from useNodeFeeRate_floor [OF this] show ?thesis
      by (auto simp: anchorRelay_simps b0_def anchorRate_def)
  qed
  then show ?thesis unfolding b' applyFeeCap_rate
    by (intro exI [of _ "feePerBytes b1"]) (simp add: anchorRelay_simps)
qed

text \<open>
  C18. Whatever rate the caller asks for, the rate the build charges is at most the operator's
  \<open>MAX_FEE_RATE_KB\<close> cap, at most its multiple of the node's own rate, and at most 100 times that rate; the
  reference is the node's estimate, or its relay rate when it gives none, never the caller's rate.
  When the caller names no rate, the charged rate is under the relay rate only where one of those three
  ceilings is.
\<close>

theorem resolved_rate_bounded:
  assumes "resolveFeeRates enc (Fin relay) est b = Inr b'"
  shows "let n = anchorRate relay est; floor = fl (relay / 1000)
    in feePerBytes b' \<le> fl (n * 100) \<and>
       (\<forall>m. maxFeePerBytes enc = Some m \<longrightarrow> feePerBytes b' \<le> m) \<and>
       (\<forall>x. maxFeeRateMultiplier enc = Some x \<longrightarrow> x \<noteq> 0 \<longrightarrow> feePerBytes b' \<le> fl (n * x)) \<and>
       (\<not> namesRate b \<longrightarrow> feePerBytes b' < floor \<longrightarrow>
          fl (n * 100) < floor \<or> (\<exists>m. maxFeePerBytes enc = Some m \<and> m < floor) \<or>
          (\<exists>x. maxFeeRateMultiplier enc = Some x \<and> x \<noteq> 0 \<and> fl (n * x) < floor))"
proof -
  let ?n = "anchorRate relay est"
  obtain r where r: "feePerBytes b' = cappedRate (capCallerFeeRate r (Some ?n) (Some relay) (maxFeePerBytes enc) (maxFeeRateMultiplier enc))"
    and f: "\<not> namesRate b \<Longrightarrow> fl (relay / 1000) \<le> r"
    using resolveFeeRates_run [OF assms(1)] by auto
  have "fl (?n * 100) < fl (relay / 1000) \<or> (\<exists>m. maxFeePerBytes enc = Some m \<and> m < fl (relay / 1000)) \<or>
      (\<exists>x. maxFeeRateMultiplier enc = Some x \<and> x \<noteq> 0 \<and> fl (?n * x) < fl (relay / 1000))"
    if "\<not> namesRate b" "feePerBytes b' < fl (relay / 1000)"
    using capCallerFeeRate_attained [OF refl f [OF that(1)], where n = ?n and relay = "Some relay" and maxRate = "maxFeePerBytes enc" and mult = "maxFeeRateMultiplier enc"] that(2)
    unfolding r by (meson not_le)
  then show ?thesis
    using capCallerFeeRate_facts [OF refl, where r = r and n = ?n and relay = "Some relay" and maxRate = "maxFeePerBytes enc" and mult = "maxFeeRateMultiplier enc"]
    unfolding Let_def by (auto simp: r)
qed

theorem resolved_rate_bounded_witness:
  "\<exists>b'. resolveFeeRates btcEncoder (Fin (1 / 10 ^ 5)) (ok (2 / 10 ^ 5)) (blankBuild\<lparr>feePerKb := Some 1000000000\<rparr>) = Inr b' \<and>
     feePerBytes b' \<le> fl (fl (2 / 10 ^ 5 / 1000) * 100)"
proof -
  obtain b' where b': "resolveFeeRates btcEncoder (Fin (1 / 10 ^ 5)) (ok (2 / 10 ^ 5)) (blankBuild\<lparr>feePerKb := Some 1000000000\<rparr>) = Inr b'"
    by (simp add: resolveFeeRates_def resolveRelayFeeRate_def blankBuild_def)
  from resolved_rate_bounded [OF this] have "feePerBytes b' \<le> fl (fl (2 / 10 ^ 5 / 1000) * 100)"
    unfolding Let_def anchorRate_def by simp
  then show ?thesis using b' by blast
qed

section \<open>Package fees\<close>

lemma package_exact_near:
  assumes "0 < s" "0 < rate"
  shows "near (1 / 10 ^ 14) (fl (fl (fl s * rate) * SATOSHI_UNIT)) (s * rate * SATOSHI_UNIT)"
proof -
  have "near (1 / 2 ^ 52) (fl s) s" using near_fl [OF near_refl [of s 0]] assms by simp
  then have "near (1 / 2 ^ 52) (fl s * rate) (s * rate)" by (rule near_mult) (use assms in simp)
  then have "near (1 / 2 ^ 52 + 1 / 2 ^ 52) (fl (fl s * rate)) (s * rate)" by (rule near_fl) (use assms in auto)
  then have "near (1 / 2 ^ 52 + 1 / 2 ^ 52) (fl (fl s * rate) * SATOSHI_UNIT) (s * rate * SATOSHI_UNIT)"
    by (rule near_mult) (simp add: SATOSHI_UNIT_def)
  then have "near (1 / 2 ^ 52 + 1 / 2 ^ 52 + 1 / 2 ^ 52) (fl (fl (fl s * rate) * SATOSHI_UNIT)) (s * rate * SATOSHI_UNIT)"
    by (rule near_fl) (use assms in \<open>auto simp: SATOSHI_UNIT_def\<close>)
  then show ?thesis by (rule near_weaken) (use assms in \<open>auto simp: SATOSHI_UNIT_def\<close>)
qed



end
