(* ===== verification/Emission.thy ===== *)
theory Emission
  imports Build
begin

text \<open>
  The output side of a build: \<open>build_transaction/data_outputs.js\<close> and \<open>script_hash_legs.js\<close> under
  \<open>src/src/XChainEncoder/\<close>. Each carrier's chunk becomes an output of the single or funding
  transaction, or an input of the reveal that spends it; \<open>outputSatoshis\<close> accounts for every value
  output and the first funding leg carries what the reveal will need.
\<close>

section \<open>Preparing\<close>

text \<open>A PSBT call on \<open>null\<close>, and an address bitcoinjs cannot turn into a script, throw plain errors.\<close>

definition needPsbt :: "build \<Rightarrow> psbt result" where
  "needPsbt b = (case psbtOf b of Some p \<Rightarrow> ok p | None \<Rightarrow> throw (InternalError ''psbt is null''))"

definition scriptOf :: "lib \<Rightarrow> string \<Rightarrow> Buffer result" where
  "scriptOf L address = (case toOutputScript L address of
     Some s \<Rightarrow> ok s | None \<Rightarrow> throw (InternalError ''address has no matching Script''))"

definition emitOutput :: "Buffer \<Rightarrow> int \<Rightarrow> build \<Rightarrow> build result" where
  "emitOutput script v b = andThen (needPsbt b) (\<lambda>p. ok (b\<lparr>psbtOf := Some (addOutput script v p)\<rparr>))"

definition prepareDataChunks :: "lib \<Rightarrow> Buffer \<Rightarrow> Encoding option \<Rightarrow> build \<Rightarrow> build result" where
  "prepareDataChunks L finalDataBuffer encoding b =
     (let b = (if \<not> isReveal b then b\<lparr>psbtOf := Some emptyPsbt\<rparr> else b)
      in if hasActionPayload b
         then andThen (prepareData (compile L) (resolveCallerHash160 L) (onCurve L) finalDataBuffer encoding (pubkey b) (compressedPubKey b))
                (\<lambda>d. ok (b\<lparr>preparedData := d\<rparr>))
         else ok (b\<lparr>preparedData := \<lparr>dataBufferArray = [], payloadEncoding = E_OP_RETURN, internalPubkey = None\<rparr>\<rparr>))"

definition priceRevealCustomOutputs :: "lib \<Rightarrow> encoder \<Rightarrow> build \<Rightarrow> build" where
  "priceRevealCustomOutputs L enc b =
     (let family = payloadEncoding (preparedData b) \<in> {E_P2SH, E_P2WSH};
          outs = (if \<not> isReveal b \<and> family then customOutputs b else []);
          total = sum_list (map coValue outs);
          bytes = sum_list (map (\<lambda>c. estimateOutputSizeForAddress (toOutputScript L) (Some (coAddress c))) outs);
          f = (if 0 < bytes \<and> 0 < feePerBytes b then feeForVsize bytes (feePerBytes b) SATOSHI_UNIT else 0);
          f = (if 0 < bytes then f + softDustSurchargeFor (map coValue (customOutputs b)) (softDustFloorFor (networkKey enc)) else f)
      in b\<lparr>isP2shFamily := family, revealCustomOutputsValue := total, revealCustomOutputsBytes := bytes,
           revealCustomOutputsFee := f\<rparr>)"

definition initEmissionState :: "build \<Rightarrow> build" where
  "initEmissionState b = b\<lparr>outputSatoshis := 0, voutPsbtIndex := 0, revealHeadroomFunded := False,
     phaseLegInputSatoshis := 0, p2shTx := None, envelopeContextOf := None, revealPrefund := None,
     estimatedTxSize := 10\<rparr>"

section \<open>The single-transaction carriers\<close>

definition obfuscateFor :: "lib \<Rightarrow> Buffer \<Rightarrow> build \<Rightarrow> Buffer result" where
  "obfuscateFor L d b = (case txidFirstInput b of
     Some key \<Rightarrow> ok (obfuscate (aes128ctr L) d key) | None \<Rightarrow> throw (InternalError ''key is null''))"

definition emitOpReturnChunk :: "lib \<Rightarrow> Buffer \<Rightarrow> build \<Rightarrow> build result" where
  "emitOpReturnChunk L nextDataBuffer b =
     andThen (obfuscateFor L nextDataBuffer b) (\<lambda>obfuscatedData.
     andThen (emitOutput (embedOutput L obfuscatedData) 0 b) (\<lambda>b.
     ok (b\<lparr>estimatedTxSize := estimatedTxSize b + estimateOpReturnOutput (length obfuscatedData)\<rparr>)))"

definition emitMultisignChunk :: "lib \<Rightarrow> encoder \<Rightarrow> Buffer \<Rightarrow> build \<Rightarrow> build result" where
  "emitMultisignChunk L enc nextDataBuffer b =
     andThen (obfuscateFor L nextDataBuffer b) (\<lambda>obfuscatedData.
     let pubkey1 = dataToPubkey (subarray obfuscatedData 0 32);
         pubkey2 = dataToPubkey (subarray obfuscatedData 32 (length obfuscatedData))
     in case compressedPubKey b of
          None \<Rightarrow> throw (InternalError ''compressedPubKey is null'')
        | Some key \<Rightarrow>
            (case p2msOutput L [pubkey1, pubkey2, fromHex key] of
               None \<Rightarrow> throw (InternalError ''p2ms rejected the keys'')
             | Some script \<Rightarrow>
                 andThen (bareMultisigRelayDustFor (networkKey enc) (length script) (nat (dustAmount enc))) (\<lambda>bareMultisigDust.
                 let v = max (finalDust b) (int bareMultisigDust)
                 in andThen (emitOutput script v b) (\<lambda>b.
                    ok (b\<lparr>outputSatoshis := outputSatoshis b + v,
                          estimatedTxSize := estimatedTxSize b + estimateMultisignOutput\<rparr>)))))"

section \<open>The envelope commit\<close>

text \<open>\<open>change || resolveCallerAddress(pubkey)\<close>\<close>

definition changeOrCaller :: "lib \<Rightarrow> encoder \<Rightarrow> build \<Rightarrow> string result" where
  "changeOrCaller L enc b = (if truthy (change b) then ok (the (change b)) else resolveCallerAddress L (network enc) (pubkey b))"

definition emitEnvelopeCommit :: "lib \<Rightarrow> encoder \<Rightarrow> Buffer \<Rightarrow> build \<Rightarrow> build result" where
  "emitEnvelopeCommit L enc nextDataBuffer b =
     (case internalPubkey (preparedData b) of
        None \<Rightarrow> throw (InternalError ''internalPubkey is undefined'')
      | Some key \<Rightarrow>
          andThen (changeOrCaller L enc b) (\<lambda>addr.
          let out = p2trOutput L key nextDataBuffer;
              revealChangeOutBytes = estimateOutputSizeForAddress (toOutputScript L) (Some addr);
              envStrippedFloor = minStandardTxNonWitnessSize (network enc);
              padNeeded = (case envStrippedFloor of Some f \<Rightarrow> f \<noteq> 0 \<and> 10 + 41 + revealChangeOutBytes < f | None \<Rightarrow> False);
              revealOutputsBytes = revealChangeOutBytes + (if padNeeded then revealChangeOutBytes else 0);
              revealVsize = estimateEnvelopeRevealTx (length nextDataBuffer) revealOutputsBytes envStrippedFloor;
              revealFee = max (feeForVsize revealVsize (feePerBytes b) SATOSHI_UNIT) (finalDust b);
              v = revealFee + dustAmount enc + (if padNeeded then dustAmount enc else 0)
          in andThen (needPsbt b) (\<lambda>p.
             ok (b\<lparr>revealPrefund := Some \<lparr>prefundIndex = length (txOutputs p), prefundSize = revealVsize, prefundFee = revealFee\<rparr>,
                   psbtOf := Some (addOutput out v p),
                   outputSatoshis := outputSatoshis b + v,
                   estimatedTxSize := estimatedTxSize b + estimateTaprootOutput,
                   envelopeContextOf := Some \<lparr>ecInternalPubkey = key, ecScript = nextDataBuffer, ecOutput = out,
                     commitValue = v, ecRevealFee = revealFee, revealPadNeeded = padNeeded, revealChangeAddress = addr\<rparr>\<rparr>))))"

section \<open>Funding the script-hash legs\<close>

text \<open>Whether the P2WSH reveal's stripped size lands under the floor, so it adds a pad output.\<close>

definition revealNeedsFloorPad :: "lib \<Rightarrow> encoder \<Rightarrow> payload \<Rightarrow> customOutput list \<Rightarrow> bool" where
  "revealNeedsFloorPad L enc d outs =
     (let predicted = 30 + 41 * length (dataBufferArray d) +
            sum_list (map (\<lambda>c. estimateOutputSizeForAddress (toOutputScript L) (Some (coAddress c))) outs)
      in case minStandardTxNonWitnessSize (network enc) of
           None \<Rightarrow> False | Some f \<Rightarrow> f \<noteq> 0 \<and> predicted < f)"

definition legSize :: "encoder \<Rightarrow> Encoding \<Rightarrow> Buffer \<Rightarrow> nat" where
  "legSize enc encoding chunk =
     (if encoding = E_P2SH then estimateSpendingP2shTx (length chunk)
      else estimateSpendingP2wshTx (network enc) (length chunk) 0)"

text \<open>\<open>sumRevealLegs\<close>: the legs at their own sizing, and what the whole reveal needs.\<close>

definition sumRevealLegs :: "encoder \<Rightarrow> payload \<Rightarrow> rat \<Rightarrow> int \<Rightarrow> Encoding \<Rightarrow> int \<times> int \<times> nat" where
  "sumRevealLegs enc d rate dustFloor encoding =
     (let baseLegsTotal = foldl (\<lambda>t chunk. t + max (feeForVsize (legSize enc encoding chunk) rate SATOSHI_UNIT) dustFloor)
                            0 (dataBufferArray d);
          lens = map length (dataBufferArray d);
          revealSize = (if encoding = E_P2SH then estimateP2shRevealTx lens 43
                        else estimateP2wshRevealTx (network enc) lens 43);
          revealFeeNeeded = max (feeForVsize revealSize rate SATOSHI_UNIT) (dustAmount enc)
      in (baseLegsTotal, revealFeeNeeded, revealSize))"

text \<open>The one-time top-up of the first leg.\<close>

definition topUpFirstLeg :: "encoder \<Rightarrow> int \<Rightarrow> Encoding \<Rightarrow> build \<Rightarrow> (int \<times> build) result" where
  "topUpFirstLeg enc legFee encoding b =
     (if revealHeadroomFunded b then ok (legFee, b)
      else
        (let (baseLegsTotal, revealFeeNeeded, revealSize) =
               sumRevealLegs enc (preparedData b) (feePerBytes b) (finalDust b) encoding;
             revealShortfall = max 0 (revealFeeNeeded - baseLegsTotal);
             changeHeadroom = (if revealCustomOutputsBytes b = 0 then outputFloor enc else 0)
         in andThen (needPsbt b) (\<lambda>p.
            ok (legFee + revealShortfall + changeHeadroom,
                b\<lparr>revealHeadroomFunded := True,
                  revealPrefund := Some \<lparr>prefundIndex = length (txOutputs p), prefundSize = revealSize,
                    prefundFee = revealFeeNeeded\<rparr>\<rparr>))))"

text \<open>The reveal-side outputs' value and fee go into the first leg, once.\<close>

definition foldCustomOutputs :: "int \<Rightarrow> build \<Rightarrow> int \<times> build" where
  "foldCustomOutputs legFee b =
     (if 0 < revealCustomOutputsValue b \<or> 0 < revealCustomOutputsFee b
      then (legFee + revealCustomOutputsValue b + revealCustomOutputsFee b,
            b\<lparr>revealCustomOutputsValue := 0, revealCustomOutputsFee := 0\<rparr>)
      else (legFee, b))"

definition fundP2shLeg :: "lib \<Rightarrow> encoder \<Rightarrow> Buffer \<Rightarrow> build \<Rightarrow> build result" where
  "fundP2shLeg L enc nextDataBuffer b =
     (let legFee = max (feeForVsize (estimateSpendingP2shTx (length nextDataBuffer)) (feePerBytes b) SATOSHI_UNIT) (finalDust b);
          (legFee, b) = foldCustomOutputs legFee b
      in andThen (topUpFirstLeg enc legFee E_P2SH b) (\<lambda>(legFee, b).
         andThen (emitOutput (p2shOutput L nextDataBuffer) legFee b) (\<lambda>b.
         ok (b\<lparr>outputSatoshis := outputSatoshis b + legFee,
               estimatedTxSize := estimatedTxSize b + estimateP2shOutput\<rparr>))))"

definition fundP2wshLeg :: "lib \<Rightarrow> encoder \<Rightarrow> Buffer \<Rightarrow> build \<Rightarrow> build result" where
  "fundP2wshLeg L enc nextDataBuffer b =
     (let needsPad = revealNeedsFloorPad L enc (preparedData b) (customOutputs b);
          padOutputBytes = (if needsPad then estimateOutputSizeForAddress (toOutputScript L) (change b) else 0);
          legFee = max (feeForVsize (estimateSpendingP2wshTx (network enc) (length nextDataBuffer) padOutputBytes)
                          (feePerBytes b) SATOSHI_UNIT) (finalDust b);
          legFee = legFee + (if needsPad then dustAmount enc else 0);
          (legFee, b) = foldCustomOutputs legFee b
      in andThen (if padOutputBytes = 0 then topUpFirstLeg enc legFee E_P2WSH b else ok (legFee, b)) (\<lambda>(legFee, b).
         andThen (emitOutput (p2wshOutput L nextDataBuffer) legFee b) (\<lambda>b.
         ok (b\<lparr>outputSatoshis := outputSatoshis b + legFee,
               estimatedTxSize := estimatedTxSize b + estimateP2wshOutput\<rparr>))))"

section \<open>Spending the legs on the reveal\<close>

text \<open>\<open>parseFundingTx\<close>, the memoized funding transaction and the key it binds.\<close>

definition assertRevealFundingTxMatches :: "string option \<Rightarrow> string \<Rightarrow> unit result" where
  "assertRevealFundingTxMatches hash fundingTxid =
     (if \<not> truthy hash then ok ()
      else if toLowerCase (the hash) \<noteq> toLowerCase fundingTxid
      then throw (ParamTypeError ''p2shHash does not match the txid of the supplied p2shHex transaction'')
      else ok ())"

definition loadFundingTx :: "lib \<Rightarrow> build \<Rightarrow> build result" where
  "loadFundingTx L b =
     (if truthy (p2shHex b) \<and> p2shTx b = None
      then (let raw = fromHex (the (p2shHex b))
            in case txOuts L raw of
                 None \<Rightarrow> throw (ParamTypeError ''p2shHex is not a parseable transaction'')
               | Some outs \<Rightarrow>
                   andThen (assertRevealFundingTxMatches (p2shHash b) (getId L raw)) (\<lambda>_.
                   ok (b\<lparr>p2shTx := Some outs, txidFirstInput := Some (getId L raw)\<rparr>)))
      else ok b)"

definition ASCII :: "string \<Rightarrow> Buffer" where
  "ASCII s = map of_char s"

text \<open>The PSBT of the reveal starts with the obfuscated marker output.\<close>

definition markerOutput :: "lib \<Rightarrow> string \<Rightarrow> build \<Rightarrow> Buffer result" where
  "markerOutput L lane b = obfuscateFor L (MAGIC_WORD @ ASCII lane) b"

definition legOutput :: "lib \<Rightarrow> Encoding \<Rightarrow> Buffer \<Rightarrow> Buffer" where
  "legOutput L encoding script = (if encoding = E_P2SH then p2shOutput L script else p2wshOutput L script)"

text \<open>The funded output the next leg spends, which must hash the script this payload rebuilds.\<close>

definition fundedOutput :: "lib \<Rightarrow> Encoding \<Rightarrow> Buffer \<Rightarrow> build \<Rightarrow> txOutput result" where
  "fundedOutput L encoding script b =
     (case p2shTx b of
        None \<Rightarrow> throw (ParamRangeError ''p2shHex transaction does not have output at index'')
      | Some outs \<Rightarrow>
          if length outs \<le> voutPsbtIndex b
          then throw (ParamRangeError ''p2shHex transaction does not have output at index'')
          else if outScript (outs ! voutPsbtIndex b) \<noteq> legOutput L encoding script
          then throw (ParamRangeError ''reveal chunk does not match the funded output'')
          else ok (outs ! voutPsbtIndex b))"

definition utxoSequence :: "build \<Rightarrow> nat" where
  "utxoSequence b = (if replacebyfee b then 0xfffffffd else 0xffffffff)"

definition inputSizeOf :: "lib \<Rightarrow> txInput \<Rightarrow> nat" where
  "inputSizeOf L i = estimateInputSize (p2ms L) (hash160 L) (txOuts L) i"

definition spendLeg :: "lib \<Rightarrow> txInput \<Rightarrow> int \<Rightarrow> build \<Rightarrow> build result" where
  "spendLeg L nextInput v b =
     andThen (needPsbt b) (\<lambda>p.
     ok (b\<lparr>psbtOf := Some (addInput nextInput p),
           estimatedTxSize := estimatedTxSize b + inputSizeOf L nextInput,
           phaseLegInputSatoshis := phaseLegInputSatoshis b + v,
           voutPsbtIndex := voutPsbtIndex b + 1\<rparr>))"

definition spendP2shLeg :: "lib \<Rightarrow> Buffer \<Rightarrow> build \<Rightarrow> build result" where
  "spendP2shLeg L nextDataBuffer b =
     andThen (case psbtOf b of
                Some p \<Rightarrow> ok b
              | None \<Rightarrow>
                  andThen (markerOutput L ''p2sh'' b) (\<lambda>opReturnData.
                  ok (b\<lparr>psbtOf := Some (addOutput (embedOutput L opReturnData) 0 emptyPsbt),
                        estimatedTxSize := estimatedTxSize b + estimateOpReturnOutput (length opReturnData)\<rparr>))) (\<lambda>b.
     andThen (fundedOutput L E_P2SH nextDataBuffer b) (\<lambda>out.
     spendLeg L \<lparr>inHash = the (p2shHash b), inIndex = voutPsbtIndex b, inSequence = utxoSequence b,
       witnessUtxo = None, nonWitnessUtxo = Some (fromHex (the (p2shHex b))), redeemScript = Some nextDataBuffer\<rparr>
       (outValue out) b))"

definition spendP2wshLeg :: "lib \<Rightarrow> Buffer \<Rightarrow> build \<Rightarrow> build result" where
  "spendP2wshLeg L nextDataBuffer b =
     andThen (case psbtOf b of
                Some p \<Rightarrow> ok b
              | None \<Rightarrow>
                  andThen (markerOutput L ''p2wsh'' b) (\<lambda>opReturnData.
                  ok (b\<lparr>psbtOf := Some (addOutput (embedOutput L opReturnData) 0 emptyPsbt)\<rparr>))) (\<lambda>b.
     andThen (fundedOutput L E_P2WSH nextDataBuffer b) (\<lambda>out.
     spendLeg L \<lparr>inHash = the (p2shHash b), inIndex = voutPsbtIndex b, inSequence = utxoSequence b,
       witnessUtxo = Some (outScript out, outValue out), nonWitnessUtxo = None, redeemScript = None\<rparr>
       (outValue out) b))"

definition emitP2shChunk :: "lib \<Rightarrow> encoder \<Rightarrow> Buffer \<Rightarrow> build \<Rightarrow> build result" where
  "emitP2shChunk L enc nextDataBuffer b =
     andThen (loadFundingTx L b) (\<lambda>b.
     if isReveal b then spendP2shLeg L nextDataBuffer b else fundP2shLeg L enc nextDataBuffer b)"

definition emitP2wshChunk :: "lib \<Rightarrow> encoder \<Rightarrow> Buffer \<Rightarrow> build \<Rightarrow> build result" where
  "emitP2wshChunk L enc nextDataBuffer b =
     andThen (loadFundingTx L b) (\<lambda>b.
     if isReveal b then spendP2wshLeg L nextDataBuffer b else fundP2wshLeg L enc nextDataBuffer b)"

section \<open>All outputs\<close>

definition emitChunk :: "lib \<Rightarrow> encoder \<Rightarrow> Encoding \<Rightarrow> Buffer \<Rightarrow> build \<Rightarrow> build result" where
  "emitChunk L enc encoding nextDataBuffer b =
     (case encoding of
        E_OP_RETURN \<Rightarrow> emitOpReturnChunk L nextDataBuffer b
      | E_P2SH \<Rightarrow> emitP2shChunk L enc nextDataBuffer b
      | E_P2WSH \<Rightarrow> emitP2wshChunk L enc nextDataBuffer b
      | E_MULTISIGN \<Rightarrow> emitMultisignChunk L enc nextDataBuffer b
      | E_TAPROOT \<Rightarrow> emitEnvelopeCommit L enc nextDataBuffer b
      | E_AUTO \<Rightarrow> ok b
      | UnknownEncoding s \<Rightarrow> ok b)"

fun emitChunks :: "lib \<Rightarrow> encoder \<Rightarrow> Encoding \<Rightarrow> Buffer list \<Rightarrow> build \<Rightarrow> build result" where
  "emitChunks L enc encoding [] b = ok b"
| "emitChunks L enc encoding (c # cs) b = andThen (emitChunk L enc encoding c b) (emitChunks L enc encoding cs)"

definition emitDataOutputs :: "lib \<Rightarrow> encoder \<Rightarrow> build \<Rightarrow> build result" where
  "emitDataOutputs L enc b =
     emitChunks L enc (payloadEncoding (preparedData b)) (dataBufferArray (preparedData b)) b"

fun emitCustomList :: "lib \<Rightarrow> encoder \<Rightarrow> customOutput list \<Rightarrow> build \<Rightarrow> build result" where
  "emitCustomList L enc [] b = ok b"
| "emitCustomList L enc (c # cs) b =
     (if coValue c \<le> 0 then throw (ParamRangeError ''customOutputs[].value must be a positive integer (satoshis)'')
      else if \<not> isFeeQuote c \<and> paymentOutputFloor enc \<noteq> 0 \<and> coValue c < paymentOutputFloor enc
      then throw (ParamRangeError ''customOutputs[].value is below the relay dust threshold'')
      else andThen (scriptOf L (coAddress c)) (\<lambda>script.
           andThen (emitOutput script (coValue c) b) (\<lambda>b.
           emitCustomList L enc cs (b\<lparr>outputSatoshis := outputSatoshis b + coValue c,
                                      estimatedTxSize := estimatedTxSize b + 43\<rparr>))))"

definition emitCustomOutputs :: "lib \<Rightarrow> encoder \<Rightarrow> build \<Rightarrow> build result" where
  "emitCustomOutputs L enc b =
     (let skipCustomOutputs = (\<not> isReveal b \<and> isP2shFamily b)
      in andThen (if skipCustomOutputs then ok b else emitCustomList L enc (customOutputs b) b) (\<lambda>b.
         andThen (needPsbt b) (\<lambda>p.
         ok (b\<lparr>softDustSurcharge := softDustSurchargeFor (map outValue (txOutputs p)) (softDustFloorFor (networkKey enc))\<rparr>))))"

end
