(* ===== verification/Settlement.thy ===== *)
theory Settlement
  imports Emission
begin

text \<open>
  Settling the fee and the change: \<open>build_transaction/fee_settlement.js\<close> and \<open>reveal_outputs.js\<close>
  under \<open>src/src/XChainEncoder/\<close>. The ancestor package the node reports is an argument, \<open>None\<close> where
  the lookup fails, is missing or finds nothing; whole-number products here stay far under
  \<open>2 ^ 53\<close>, where doubles are exact. Log lines are left out.
\<close>

section \<open>Refusals\<close>

text \<open>\<open>Math.ceil(estimatedTxSize * rate * SATOSHI_UNIT)\<close>\<close>

definition ceilFee :: "nat \<Rightarrow> rat \<Rightarrow> int" where
  "ceilFee vsize rate = \<lceil>fl (fl (of_nat vsize * rate) * SATOSHI_UNIT)\<rceil>"

text \<open>The rate a fair fee is measured at: the node's, or the build's own as a last resort.\<close>

definition referenceRate :: "build \<Rightarrow> rat" where
  "referenceRate b = (case nodeFeePerBytes b of Some n \<Rightarrow> n | None \<Rightarrow> feePerBytes b)"

definition refuseExcessiveFee :: "encoder \<Rightarrow> build \<Rightarrow> unit result" where
  "refuseExcessiveFee enc b =
     (let estFee = estimatedFee b - softDustSurcharge b
      in case fee b of
           None \<Rightarrow> ok ()
         | Some f \<Rightarrow>
             andThen (case capFeePerBytes b of
                        None \<Rightarrow> ok ()
                      | Some cap \<Rightarrow>
                          refuseIf (max (dustAmount enc) (ceilFee (estimatedTxSize b) cap) < estFee)
                            (ParamRangeError ''fee exceeds the maximum allowed''))  (\<lambda>_.
             let fairFee = ceilFee (estimatedTxSize b) (referenceRate b);
                 hardCeiling = max (dustAmount enc) (fairFee * BURN_BACKSTOP_MULTIPLIER)
             in refuseIf (hardCeiling < estFee) (ParamRangeError ''fee exceeds 100x the estimated fair fee'')))"

definition minimumRelayFee :: "nat \<Rightarrow> rat \<Rightarrow> int" where
  "minimumRelayFee vsize relay =
     \<lceil>fl (fl (of_nat vsize * of_int (js_round (fl (relay * SATOSHI_UNIT)))) / 1000)\<rceil>"

definition refuseInsufficientRelayFee :: "encoder \<Rightarrow> build \<Rightarrow> unit result" where
  "refuseInsufficientRelayFee enc b =
     (let hasExplicitFee = (fee b \<noteq> None);
          hasCallerRate = (feePerKb b \<noteq> None);
          rateFee = (if hasExplicitFee then estimatedFee b - softDustSurcharge b
                     else if isReveal b then feeForVsize (estimatedTxSize b) (feePerBytes b) SATOSHI_UNIT
                     else estimatedFee b - softDustSurcharge b);
          isNodePath = (\<not> hasExplicitFee \<and> \<not> hasCallerRate);
          suppliedFee = (if isNodePath then max rateFee (dustAmount enc) else rateFee)
      in if minimumRelayFee (estimatedTxSize b) (relayFeePerKb b) \<le> suppliedFee then ok ()
         else if isNodePath then throw (InternalError ''fee from the node fee estimate is below the node relay minimum'')
         else if hasExplicitFee then throw (ParamRangeError ''fee is below the node relay minimum'')
         else throw (ParamRangeError ''feePerKb produces a fee below the node relay minimum''))"

section \<open>Package uplifts\<close>

type_synonym ancestorPackage = "jsnum \<times> jsnum"

definition clampToHeadroom :: "int \<Rightarrow> int \<Rightarrow> int" where
  "clampToHeadroom headroom allowed =
     (if headroom \<le> 0 then 0 else if 0 < allowed \<and> headroom < allowed then headroom else allowed)"

definition upliftAncestorFee :: "encoder \<Rightarrow> int \<Rightarrow> int \<Rightarrow> build \<Rightarrow> int" where
  "upliftAncestorFee enc wanted bound b =
     (let allowed = min wanted bound;
          allowed = (case capFeePerBytes b of
                       None \<Rightarrow> allowed
                     | Some cap \<Rightarrow> min allowed (max (dustAmount enc) (ceilFee (estimatedTxSize b) cap) - estimatedFee b));
          fairFee = ceilFee (estimatedTxSize b) (referenceRate b);
          allowed = min allowed (max (dustAmount enc) (fairFee * BURN_BACKSTOP_MULTIPLIER) - estimatedFee b);
          allowed = (if \<not> isReveal b
                     then clampToHeadroom (inputSatoshis b - outputSatoshis b - estimatedFee b) allowed
                     else allowed)
      in if 0 < allowed then estimatedFee b + allowed else estimatedFee b)"

text \<open>The ancestors' size and fees are carried on only when both are usable numbers.\<close>

definition measuredAncestors :: "ancestorPackage \<Rightarrow> rat \<times> int" where
  "measuredAncestors pkg =
     (case pkg of
        (Fin s, Fin f) \<Rightarrow>
          (let sat = js_round (fl (f * SATOSHI_UNIT)) in if 0 < s \<and> 0 \<le> sat then (s, sat) else (0, 0))
      | _ \<Rightarrow> (0, 0))"

definition upliftForAncestors :: "encoder \<Rightarrow> ancestorPackage option \<Rightarrow> build \<Rightarrow> build" where
  "upliftForAncestors enc pkg b =
     (let bound = maxCpfpUpliftSat (maxCpfpUpliftSetting enc);
          b = b\<lparr>cpfpUpliftBound := bound, commitAncestorSize := 0, commitAncestorFeeSat := 0\<rparr>
      in if unconfirmedInputTxids b \<noteq> [] \<and> 0 < feePerBytes b \<and> 0 < bound
         then (case pkg of
                 None \<Rightarrow> b
               | Some (asize, fees) \<Rightarrow>
                   let (s, f) = measuredAncestors (asize, fees);
                       wanted = packageFeeUpliftSatoshis (estimatedFee b) (estimatedTxSize b) asize fees None
                                  (feePerBytes b) SATOSHI_UNIT
                   in b\<lparr>commitAncestorSize := s, commitAncestorFeeSat := f,
                        estimatedFee := (if 0 < wanted then upliftAncestorFee enc wanted bound b else estimatedFee b)\<rparr>)
         else b)"

definition floorEstimatedFee :: "encoder \<Rightarrow> build \<Rightarrow> build" where
  "floorEstimatedFee enc b =
     (let floor = dustAmount enc + softDustSurcharge b
      in b\<lparr>estimatedFee := (if estimatedFee b < floor then floor else estimatedFee b)\<rparr>)"

definition applyRevealPrefund :: "prefund \<Rightarrow> int \<Rightarrow> build \<Rightarrow> build result" where
  "applyRevealPrefund r wanted b =
     (let allowed = min wanted (cpfpUpliftBound b);
          headroom = inputSatoshis b - outputSatoshis b - estimatedFee b;
          allowed = (if headroom \<le> 0 then 0 else if headroom < allowed then headroom else allowed);
          allowed = max 0 allowed
      in if 0 < allowed
         then andThen (needPsbt b) (\<lambda>p.
              andThen (raiseOutputValue p (prefundIndex r) allowed) (\<lambda>p.
              ok (b\<lparr>psbtOf := Some p, outputSatoshis := outputSatoshis b + allowed,
                    revealPrefund := Some (r\<lparr>prefundFee := prefundFee r + allowed\<rparr>),
                    envelopeContextOf := map_option (\<lambda>c. c\<lparr>commitValue := commitValue c + allowed,
                      ecRevealFee := ecRevealFee c + allowed\<rparr>) (envelopeContextOf b)\<rparr>)))
         else ok b)"

definition prefundRevealPackage :: "build \<Rightarrow> build result" where
  "prefundRevealPackage b =
     (case revealPrefund b of
        Some r \<Rightarrow>
          if \<not> isReveal b \<and> 0 < feePerBytes b \<and> 0 < cpfpUpliftBound b
          then (let wanted = packageFeeUpliftSatoshis (prefundFee r) (prefundSize r)
                      (Fin (fl (of_nat (estimatedTxSize b) + commitAncestorSize b))) NaN
                      (Some (estimatedFee b + commitAncestorFeeSat b)) (feePerBytes b) SATOSHI_UNIT
                in if 0 < wanted then applyRevealPrefund r wanted b else ok b)
          else ok b
      | None \<Rightarrow> ok b)"

section \<open>Change\<close>

text \<open>The fee is a whole number by type here, so the code's check for one that is not has no branch.\<close>

definition computeChange :: "encoder \<Rightarrow> build \<Rightarrow> build result" where
  "computeChange enc b =
     (let changeSat = inputSatoshis b - outputSatoshis b - estimatedFee b
      in if \<not> isReveal b \<and> changeSat < 0 then throw (OperationalError ''INSUFFICIENT_FUNDS'')
         else if dustAmount enc < changeSat \<and> \<not> truthy (change b) then throw (OperationalError ''CHANGE_ADDRESS_REQUIRED'')
         else ok (b\<lparr>changeSatoshis := changeSat\<rparr>))"

definition payTo :: "lib \<Rightarrow> string \<Rightarrow> int \<Rightarrow> build \<Rightarrow> build result" where
  "payTo L address v b = andThen (scriptOf L address) (\<lambda>script. emitOutput script v b)"

definition emitChangeAndPad :: "lib \<Rightarrow> encoder \<Rightarrow> build \<Rightarrow> build result" where
  "emitChangeAndPad L enc b =
     andThen (if 0 < changeSatoshis b \<and> truthy (change b) \<and> outputFloor enc \<le> changeSatoshis b
              then payTo L (the (change b)) (changeSatoshis b) b else ok b) (\<lambda>b.
     case minStandardTxNonWitnessSize (network enc) of
       None \<Rightarrow> ok b
     | Some strippedFloor \<Rightarrow>
         if isReveal b \<and> payloadEncoding (preparedData b) = E_P2WSH \<and> strippedFloor \<noteq> 0
         then andThen (needPsbt b) (\<lambda>p.
              if strippedTxSize p < strippedFloor
              then andThen (changeOrCaller L enc b) (\<lambda>addr. payTo L addr (dustAmount enc) b)
              else ok b)
         else ok b)"

section \<open>The reveal's surplus\<close>

definition sweepsRevealSurplus :: "lib \<Rightarrow> encoder \<Rightarrow> build \<Rightarrow> bool" where
  "sweepsRevealSurplus L enc b =
     (payloadEncoding (preparedData b) = E_P2SH \<or>
      (payloadEncoding (preparedData b) = E_P2WSH \<and> \<not> revealNeedsFloorPad L enc (preparedData b) (customOutputs b)))"

definition clampRevealUplift :: "encoder \<Rightarrow> int \<Rightarrow> int \<Rightarrow> int \<Rightarrow> build \<Rightarrow> int" where
  "clampRevealUplift enc wanted bound revealFeeKept b =
     (let sweepReserve = (if customOutputs b \<noteq> [] then 0 else outputFloor enc);
          spendable = phaseLegInputSatoshis b - outputSatoshis b - revealFeeKept - sweepReserve;
          allowed = min wanted bound;
          allowed = (if spendable \<le> 0 then 0 else if spendable < allowed then spendable else allowed)
      in if 0 < allowed then revealFeeKept + allowed else revealFeeKept)"

definition upliftRevealForCommit :: "encoder \<Rightarrow> ancestorPackage option \<Rightarrow> nat \<Rightarrow> int \<Rightarrow> build \<Rightarrow> int" where
  "upliftRevealForCommit enc pkg revealSizeForFee revealFeeKept b =
     (let bound = maxCpfpUpliftSat (maxCpfpUpliftSetting enc)
      in if 0 < bound \<and> 0 < feePerBytes b
         then (case pkg of
                 None \<Rightarrow> revealFeeKept
               | Some (asize, fees) \<Rightarrow>
                   let wanted = packageFeeUpliftSatoshis revealFeeKept revealSizeForFee asize fees None (feePerBytes b) SATOSHI_UNIT
                   in if 0 < wanted then clampRevealUplift enc wanted bound revealFeeKept b else revealFeeKept)
         else revealFeeKept)"

definition revealFeeBase :: "lib \<Rightarrow> encoder \<Rightarrow> build \<Rightarrow> nat \<times> int" where
  "revealFeeBase L enc b =
     (let bytes = 43 + sum_list (map (\<lambda>c. estimateOutputSizeForAddress (toOutputScript L) (Some (coAddress c))) (customOutputs b));
          lens = map length (dataBufferArray (preparedData b));
          rsize = (if payloadEncoding (preparedData b) = E_P2SH then estimateP2shRevealTx lens bytes
                  else estimateP2wshRevealTx (network enc) lens bytes)
      in (rsize, max (feeForVsize rsize (feePerBytes b) SATOSHI_UNIT) (estimatedFee b - softDustSurcharge b) + softDustSurcharge b))"

definition sweepP2shReveal :: "lib \<Rightarrow> encoder \<Rightarrow> ancestorPackage option \<Rightarrow> build \<Rightarrow> build result" where
  "sweepP2shReveal L enc pkg b =
     (if isReveal b \<and> sweepsRevealSurplus L enc b \<and> 0 < phaseLegInputSatoshis b
      then (let (rsize, feeBase) = revealFeeBase L enc b;
                revealFeeKept = upliftRevealForCommit enc pkg rsize feeBase b;
                revealSurplus = phaseLegInputSatoshis b - outputSatoshis b - revealFeeKept
            in if outputFloor enc \<le> revealSurplus
               then andThen (changeOrCaller L enc b) (\<lambda>addr. payTo L addr revealSurplus b)
               else ok b)
      else ok b)"

section \<open>The envelope reveal\<close>

record envelopeResult =
  erCommitTxid :: string
  erCommitVout :: nat
  erCommitValue :: int
  erInternalPubkey :: Buffer
  erTapleafHash :: Buffer
  erControlBlock :: Buffer
  erRevealFee :: int

definition TAPROOT_LEAF_VERSION :: byte where "TAPROOT_LEAF_VERSION = 0xc0"

definition envelopeTapLeafHash :: "lib \<Rightarrow> Buffer \<Rightarrow> Buffer result" where
  "envelopeTapLeafHash L script = andThen (compactSizeBuffer (length script)) (\<lambda>prefix.
     ok (taggedHash L ''TapLeaf'' ([TAPROOT_LEAF_VERSION] @ prefix @ script)))"

text \<open>\<open>findIndex\<close> of the commit output by its script; an index of -1 is no outpoint the PSBT accepts.\<close>

fun findScript :: "Buffer \<Rightarrow> txOutput list \<Rightarrow> nat option" where
  "findScript s [] = None"
| "findScript s (out # outs) = (if outScript out = s then Some 0 else map_option Suc (findScript s outs))"

text \<open>The reveal's PSBT: its single input spends the commit output, its outputs go to one address.\<close>

definition buildRevealPsbt :: "lib \<Rightarrow> encoder \<Rightarrow> envelopeContext \<Rightarrow> string \<Rightarrow> nat \<Rightarrow> nat \<Rightarrow> (psbt \<times> envelopeResult) result" where
  "buildRevealPsbt L enc c commitTxid commitVout sequence =
     andThen (scriptOf L (revealChangeAddress c)) (\<lambda>script.
     andThen (envelopeTapLeafHash L (ecScript c)) (\<lambda>leaf.
     let p = addInput \<lparr>inHash = commitTxid, inIndex = commitVout, inSequence = sequence,
               witnessUtxo = Some (ecOutput c, commitValue c), nonWitnessUtxo = None, redeemScript = None\<rparr> emptyPsbt;
         revealChangeValue = commitValue c - ecRevealFee c - (if revealPadNeeded c then dustAmount enc else 0);
         p = addOutput script revealChangeValue p;
         p = (if revealPadNeeded c then addOutput script (dustAmount enc) p else p)
     in ok (p, \<lparr>erCommitTxid = commitTxid, erCommitVout = commitVout, erCommitValue = commitValue c,
               erInternalPubkey = ecInternalPubkey c, erTapleafHash = leaf,
               erControlBlock = controlBlockOf L (ecInternalPubkey c) (ecScript c), erRevealFee = ecRevealFee c\<rparr>)))"

definition buildEnvelopeReveal :: "lib \<Rightarrow> encoder \<Rightarrow> build \<Rightarrow> (psbt \<times> envelopeResult) option result" where
  "buildEnvelopeReveal L enc b =
     (case envelopeContextOf b of
        None \<Rightarrow> ok None
      | Some c \<Rightarrow>
          andThen (needPsbt b) (\<lambda>p.
          case findScript (ecOutput c) (txOutputs p) of
            None \<Rightarrow> throw (InternalError ''commit output not found'')
          | Some v \<Rightarrow> andThen (buildRevealPsbt L enc c (unsignedId L p) v (utxoSequence b)) (\<lambda>r. ok (Some r))))"

section \<open>The settlement as a whole\<close>

text \<open>The steps between input selection and the response, in the order \<open>buildSteps\<close> runs them.\<close>

definition settle :: "lib \<Rightarrow> encoder \<Rightarrow> ancestorPackage option \<Rightarrow> build \<Rightarrow> build result" where
  "settle L enc pkg b =
     andThen (refuseInsufficientRelayFee enc b) (\<lambda>_.
     andThen (refuseExcessiveFee enc b) (\<lambda>_.
     andThen (prefundRevealPackage (floorEstimatedFee enc (upliftForAncestors enc pkg b))) (\<lambda>b.
     andThen (computeChange enc b) (\<lambda>b.
     andThen (emitChangeAndPad L enc b) (\<lambda>b.
     andThen (needPsbt b) (\<lambda>p.
     andThen (refuseUnderStrippedFloor (networkKey enc) (isReveal b) p) (\<lambda>_. ok b)))))))"

end
