(* ===== verification/SettlementFacts.thy ===== *)
theory SettlementFacts
  imports Settlement FeeFacts
begin

text \<open>
  One lemma per settlement step: which fields it changes, and how far it can move the fee, the
  outputs and the total.
\<close>

section \<open>Accounting\<close>

definition totalOut :: "psbt \<Rightarrow> int" where
  "totalOut p = sum_list (map outValue (txOutputs p))"

text \<open>The build's running total is what its outputs pay.\<close>

definition accounted :: "build \<Rightarrow> bool" where
  "accounted b = (case psbtOf b of None \<Rightarrow> True | Some p \<Rightarrow> outputSatoshis b = totalOut p)"

lemma totalOut_simps [simp]: "totalOut emptyPsbt = 0" "totalOut (addOutput s v p) = totalOut p + v"
  "totalOut (addInput i p) = totalOut p" "totalOut (p\<lparr>txInputs := is\<rparr>) = totalOut p"
  by (simp_all add: totalOut_def emptyPsbt_def addOutput_def addInput_def)

lemma addOutput_simps [simp]: "txInputs (addOutput s v p) = txInputs p"
  "txOutputs (addOutput s v p) = txOutputs p @ [\<lparr>outScript = s, outValue = v\<rparr>]"
  "txInputs (addInput i p) = txInputs p @ [i]" "txOutputs (addInput i p) = txOutputs p"
  by (simp_all add: addOutput_def addInput_def)

lemma sum_list_update_int: "k < length xs \<Longrightarrow> sum_list (xs[k := x]) = sum_list xs - xs ! k + (x::int)"
  by (induction xs arbitrary: k) (auto split: nat.splits)

lemma raiseOutputValue_facts:
  assumes "raiseOutputValue p k d = Inr q"
  shows "0 < d" "k < length (txOutputs p)" "totalOut q = totalOut p + d" "txInputs q = txInputs p"
    "map outScript (txOutputs q) = map outScript (txOutputs p)"
    "map outValue (txOutputs q) = (map outValue (txOutputs p))[k := outValue (txOutputs p ! k) + d]"
  using assms by (auto simp: raiseOutputValue_def totalOut_def map_update sum_list_update_int Let_def split: if_splits
      intro!: nth_equalityI simp: nth_list_update)

lemma emitOutput_facts: "emitOutput s v b = Inr b' \<longleftrightarrow> (\<exists>p. psbtOf b = Some p \<and> b' = b\<lparr>psbtOf := Some (addOutput s v p)\<rparr>)"
  by (auto simp: emitOutput_def needPsbt_def result_simps split: option.splits)

lemma payTo_facts: "payTo L a v b = Inr b' \<longleftrightarrow>
    (\<exists>p s. psbtOf b = Some p \<and> toOutputScript L a = Some s \<and> b' = b\<lparr>psbtOf := Some (addOutput s v p)\<rparr>)"
  by (auto simp: payTo_def scriptOf_def result_simps emitOutput_facts split: option.splits)

section \<open>The uplifts\<close>

lemma packageUplift_nonneg: "0 \<le> packageFeeUpliftSatoshis c s a f af r u"
  by (auto simp: packageFeeUpliftSatoshis_def Let_def split: jsnum.splits option.splits)

lemma upliftAncestorFee_bounds:
  "estimatedFee b \<le> upliftAncestorFee enc wanted bound b"
  "0 \<le> bound \<Longrightarrow> upliftAncestorFee enc wanted bound b \<le> estimatedFee b + bound"
  "\<not> isReveal b \<Longrightarrow> upliftAncestorFee enc wanted bound b \<le> max (estimatedFee b) (inputSatoshis b - outputSatoshis b)"
  by (auto simp: upliftAncestorFee_def clampToHeadroom_def Let_def min_def max_def split: option.splits if_splits)

text \<open>The fee after the ancestor uplift, and everything else it leaves alone.\<close>

definition afterUplift :: "encoder \<Rightarrow> ancestorPackage option \<Rightarrow> build \<Rightarrow> int" where
  "afterUplift enc pkg b = estimatedFee (upliftForAncestors enc pkg b)"

lemma uplift_frame:
  "\<exists>bd s f. 0 \<le> bd \<and> upliftForAncestors enc pkg b = b\<lparr>cpfpUpliftBound := bd, commitAncestorSize := s,
      commitAncestorFeeSat := f, estimatedFee := afterUplift enc pkg b\<rparr> \<and>
      bd = maxCpfpUpliftSat (maxCpfpUpliftSetting enc)"
proof -
  have bd: "0 \<le> maxCpfpUpliftSat (maxCpfpUpliftSetting enc)"
    by (auto simp: maxCpfpUpliftSat_def Let_def split: jsnum.splits)
  show ?thesis unfolding afterUplift_def using bd
    by (cases pkg) (auto simp: upliftForAncestors_def Let_def split: prod.splits)
qed

lemma afterUplift_bounds:
  "estimatedFee b \<le> afterUplift enc pkg b"
  "afterUplift enc pkg b \<le> estimatedFee b + maxCpfpUpliftSat (maxCpfpUpliftSetting enc)"
  "\<not> isReveal b \<Longrightarrow> afterUplift enc pkg b \<le> max (estimatedFee b) (inputSatoshis b - outputSatoshis b)"
proof -
  let ?bd = "maxCpfpUpliftSat (maxCpfpUpliftSetting enc)"
  let ?b = "b\<lparr>cpfpUpliftBound := ?bd, commitAncestorSize := 0, commitAncestorFeeSat := 0\<rparr>"
  have bd: "0 \<le> ?bd" by (auto simp: maxCpfpUpliftSat_def Let_def split: jsnum.splits)
  have a: "afterUplift enc pkg b = estimatedFee b \<or> (\<exists>w. afterUplift enc pkg b = upliftAncestorFee enc w ?bd ?b)"
    unfolding afterUplift_def upliftForAncestors_def by (auto simp: Let_def split: option.split prod.split)
  show "estimatedFee b \<le> afterUplift enc pkg b" using a upliftAncestorFee_bounds(1) [of ?b enc _ ?bd] by auto
  show "afterUplift enc pkg b \<le> estimatedFee b + ?bd" using a bd upliftAncestorFee_bounds(2) [OF bd, of enc _ ?b] by auto
  show "\<not> isReveal b \<Longrightarrow> afterUplift enc pkg b \<le> max (estimatedFee b) (inputSatoshis b - outputSatoshis b)"
    using a upliftAncestorFee_bounds(3) [of ?b enc _ ?bd] by auto
qed

lemma floorEstimatedFee_eq: "floorEstimatedFee enc b =
    b\<lparr>estimatedFee := max (estimatedFee b) (dustAmount enc + softDustSurcharge b)\<rparr>"
  by (simp add: floorEstimatedFee_def Let_def max_def)

lemma applyRevealPrefund_cases:
  assumes "applyRevealPrefund r wanted b = Inr b'"
  shows "b' = b \<or> (\<exists>a p q. 0 < a \<and> a \<le> wanted \<and> a \<le> cpfpUpliftBound b \<and> a \<le> inputSatoshis b - outputSatoshis b - estimatedFee b \<and>
      psbtOf b = Some p \<and> raiseOutputValue p (prefundIndex r) a = Inr q \<and>
      b' = b\<lparr>psbtOf := Some q, outputSatoshis := outputSatoshis b + a,
             revealPrefund := Some (r\<lparr>prefundFee := prefundFee r + a\<rparr>),
             envelopeContextOf := map_option (\<lambda>c. c\<lparr>commitValue := commitValue c + a, ecRevealFee := ecRevealFee c + a\<rparr>) (envelopeContextOf b)\<rparr>)"
proof -
  define a where "a = max 0 (let allowed = min wanted (cpfpUpliftBound b);
          headroom = inputSatoshis b - outputSatoshis b - estimatedFee b in
          (if headroom \<le> 0 then 0 else if headroom < allowed then headroom else allowed))"
  have run: "applyRevealPrefund r wanted b = (if 0 < a
         then andThen (needPsbt b) (\<lambda>p.
              andThen (raiseOutputValue p (prefundIndex r) a) (\<lambda>p.
              ok (b\<lparr>psbtOf := Some p, outputSatoshis := outputSatoshis b + a,
                    revealPrefund := Some (r\<lparr>prefundFee := prefundFee r + a\<rparr>),
                    envelopeContextOf := map_option (\<lambda>c. c\<lparr>commitValue := commitValue c + a,
                      ecRevealFee := ecRevealFee c + a\<rparr>) (envelopeContextOf b)\<rparr>)))
         else ok b)"
    unfolding applyRevealPrefund_def a_def Let_def ..
  have a: "0 < a \<Longrightarrow> a \<le> wanted \<and> a \<le> cpfpUpliftBound b \<and> a \<le> inputSatoshis b - outputSatoshis b - estimatedFee b"
    by (auto simp: a_def Let_def split: if_splits)
  show ?thesis
  proof (cases "0 < a")
    case True
    then obtain p q where "psbtOf b = Some p" "raiseOutputValue p (prefundIndex r) a = Inr q"
      "b' = b\<lparr>psbtOf := Some q, outputSatoshis := outputSatoshis b + a,
             revealPrefund := Some (r\<lparr>prefundFee := prefundFee r + a\<rparr>),
             envelopeContextOf := map_option (\<lambda>c. c\<lparr>commitValue := commitValue c + a, ecRevealFee := ecRevealFee c + a\<rparr>) (envelopeContextOf b)\<rparr>"
      using assms unfolding run by (auto simp: needPsbt_def result_simps split: option.splits)
    then show ?thesis using True a by blast
  qed (use assms run in auto)
qed

lemma prefund_cases:
  assumes "prefundRevealPackage b = Inr b'"
  shows "b' = b \<or> (\<exists>r a p q. revealPrefund b = Some r \<and> \<not> isReveal b \<and> 0 < a \<and> a \<le> cpfpUpliftBound b \<and>
      a \<le> inputSatoshis b - outputSatoshis b - estimatedFee b \<and>
      psbtOf b = Some p \<and> raiseOutputValue p (prefundIndex r) a = Inr q \<and>
      b' = b\<lparr>psbtOf := Some q, outputSatoshis := outputSatoshis b + a,
             revealPrefund := Some (r\<lparr>prefundFee := prefundFee r + a\<rparr>),
             envelopeContextOf := map_option (\<lambda>c. c\<lparr>commitValue := commitValue c + a, ecRevealFee := ecRevealFee c + a\<rparr>) (envelopeContextOf b)\<rparr>)"
proof (cases "revealPrefund b")
  case None
  then show ?thesis using assms by (simp add: prefundRevealPackage_def)
next
  case (Some r)
  show ?thesis
  proof (cases "b' = b")
    case False
    obtain w where "\<not> isReveal b" "applyRevealPrefund r w b = Inr b'"
      using assms False Some unfolding prefundRevealPackage_def by (simp add: Let_def split: if_splits)
    then show ?thesis using applyRevealPrefund_cases [of r w b b'] Some False by blast
  qed simp
qed

lemma prefund_total: "prefundRevealPackage b = Inr b' \<Longrightarrow> psbtOf b = Some p \<Longrightarrow> accounted b \<Longrightarrow>
    \<exists>q. psbtOf b' = Some q \<and> outputSatoshis b' = totalOut q \<and> txInputs q = txInputs p \<and>
      map outScript (txOutputs q) = map outScript (txOutputs p) \<and> list_all2 (\<le>) (map outValue (txOutputs p)) (map outValue (txOutputs q)) \<and>
      totalOut q \<le> totalOut p + max 0 (cpfpUpliftBound b)"
proof -
  assume a: "prefundRevealPackage b = Inr b'" "psbtOf b = Some p" "accounted b"
  from prefund_cases [OF a(1)] show ?thesis
  proof (elim disjE exE conjE)
    fix r d p' q
    assume r: "0 < d" "d \<le> cpfpUpliftBound b" "psbtOf b = Some p'" "raiseOutputValue p' (prefundIndex r) d = Inr q"
      and b': "b' = b\<lparr>psbtOf := Some q, outputSatoshis := outputSatoshis b + d, revealPrefund := Some (r\<lparr>prefundFee := prefundFee r + d\<rparr>),
        envelopeContextOf := map_option (\<lambda>c. c\<lparr>commitValue := commitValue c + d, ecRevealFee := ecRevealFee c + d\<rparr>) (envelopeContextOf b)\<rparr>"
    note f = raiseOutputValue_facts [OF r(4)]
    have "list_all2 (\<le>) (map outValue (txOutputs p')) (map outValue (txOutputs q))"
      unfolding f(6)
      using r(1) f(2) by (intro list_all2_all_nthI) (simp_all add: nth_list_update)
    then show ?thesis using a(2,3) r f by (auto simp: b' accounted_def)
  qed (use a in \<open>auto simp: accounted_def list.rel_refl\<close>)
qed

section \<open>Change\<close>

lemma computeChange_facts:
  assumes "computeChange enc b = Inr b'"
  shows "b' = b\<lparr>changeSatoshis := inputSatoshis b - outputSatoshis b - estimatedFee b\<rparr>"
    "\<not> isReveal b \<Longrightarrow> 0 \<le> inputSatoshis b - outputSatoshis b - estimatedFee b"
    "truthy (change b) \<or> inputSatoshis b - outputSatoshis b - estimatedFee b \<le> dustAmount enc"
  using assms unfolding computeChange_def Let_def by (simp_all split: if_splits) linarith+

lemma emitChange_build:
  assumes "\<not> isReveal b" "emitChangeAndPad L enc b = Inr b'"
  shows "if 0 < changeSatoshis b \<and> truthy (change b) \<and> outputFloor enc \<le> changeSatoshis b
     then payTo L (the (change b)) (changeSatoshis b) b = Inr b' else b' = b"
proof -
  obtain b1 where b1: "(if 0 < changeSatoshis b \<and> truthy (change b) \<and> outputFloor enc \<le> changeSatoshis b
      then payTo L (the (change b)) (changeSatoshis b) b else ok b) = Inr b1"
    and b': "b1 = b' \<or> isReveal b1"
    using assms(2) unfolding emitChangeAndPad_def
    by (simp only: andThen_Inr_iff) (auto split: option.splits if_splits)
  have "isReveal b1 = isReveal b" using b1 by (auto simp: payTo_facts split: if_splits)
  then show ?thesis using b1 b' assms(1) by (auto split: if_splits)
qed

section \<open>The whole settlement\<close>

lemma settle_run:
  assumes "settle L enc pkg b = Inr b'"
  obtains b1 b2 where
    "prefundRevealPackage (floorEstimatedFee enc (upliftForAncestors enc pkg b)) = Inr b1"
    "computeChange enc b1 = Inr b2" "emitChangeAndPad L enc b2 = Inr b'"
  using assms unfolding settle_def by (auto simp: andThen_Inr_iff)

lemma settle_money:
  assumes "settle L enc pkg b = Inr b'" "\<not> isReveal b" "psbtOf b = Some p" "accounted b"
  shows "\<exists>p'. psbtOf b' = Some p' \<and> txInputs p' = txInputs p \<and>
     (let paid = inputSatoshis b - totalOut p'
      in estimatedFee b' \<le> paid \<and> (paid < estimatedFee b' + max 1 (outputFloor enc) \<or> \<not> truthy (change b) \<and> paid \<le> estimatedFee b' + dustAmount enc)) \<and>
     (\<exists>outs extra. txOutputs p' = outs @ extra \<and> length outs = length (txOutputs p) \<and>
        map outScript outs = map outScript (txOutputs p) \<and> list_all2 (\<le>) (map outValue (txOutputs p)) (map outValue outs) \<and>
        length extra \<le> 1 \<and> (\<forall>out \<in> set extra. outputFloor enc \<le> outValue out \<and> toOutputScript L (the (change b)) = Some (outScript out))) \<and>
     max (estimatedFee b) (dustAmount enc + softDustSurcharge b) \<le> estimatedFee b' \<and>
     estimatedFee b' \<le> max (estimatedFee b + maxCpfpUpliftSat (maxCpfpUpliftSetting enc)) (dustAmount enc + softDustSurcharge b)"
proof -
  let ?b0 = "floorEstimatedFee enc (upliftForAncestors enc pkg b)"
  obtain b1 b2 where s: "prefundRevealPackage ?b0 = Inr b1" "computeChange enc b1 = Inr b2" "emitChangeAndPad L enc b2 = Inr b'"
    using assms(1) by (rule settle_run)
  obtain bd sz f where u: "upliftForAncestors enc pkg b = b\<lparr>cpfpUpliftBound := bd, commitAncestorSize := sz,
      commitAncestorFeeSat := f, estimatedFee := afterUplift enc pkg b\<rparr>" using uplift_frame by blast
  let ?F = "max (afterUplift enc pkg b) (dustAmount enc + softDustSurcharge b)"
  have f0: "psbtOf ?b0 = Some p" "accounted ?b0" "p2shHash ?b0 = p2shHash b" "estimatedFee ?b0 = ?F"
      "inputSatoshis ?b0 = inputSatoshis b" "change ?b0 = change b"
    using assms(3,4) by (simp_all add: u floorEstimatedFee_eq accounted_def)
  obtain q where q: "psbtOf b1 = Some q" "outputSatoshis b1 = totalOut q" "txInputs q = txInputs p"
      "map outScript (txOutputs q) = map outScript (txOutputs p)" "list_all2 (\<le>) (map outValue (txOutputs p)) (map outValue (txOutputs q))"
    using prefund_total [OF s(1) f0(1,2)] by blast
  have f1: "p2shHash b1 = p2shHash b" "estimatedFee b1 = ?F" "inputSatoshis b1 = inputSatoshis b" "change b1 = change b"
    using prefund_cases [OF s(1)] f0 by auto
  let ?c = "inputSatoshis b - totalOut q - ?F"
  note ch = computeChange_facts [OF s(2)]
  have c: "0 \<le> ?c" "truthy (change b) \<or> ?c \<le> dustAmount enc" using ch(2,3) q f1 assms(2) by simp_all
  have b2: "b2 = b1\<lparr>changeSatoshis := ?c\<rparr>" using ch(1) q f1 by simp
  have r2: "\<not> isReveal b2" using assms(2) f1 b2 by simp
  note e = emitChange_build [OF r2 s(3)]
  have len: "length (txOutputs q) = length (txOutputs p)" using q(4) by (rule map_eq_imp_length_eq)
  have fee: "max (estimatedFee b) (dustAmount enc + softDustSurcharge b) \<le> ?F"
      "?F \<le> max (estimatedFee b + maxCpfpUpliftSat (maxCpfpUpliftSetting enc)) (dustAmount enc + softDustSurcharge b)"
    using afterUplift_bounds(1,2) [where b = b and enc = enc and pkg = pkg] by auto
  show ?thesis
  proof (cases "0 < ?c \<and> truthy (change b) \<and> outputFloor enc \<le> ?c")
    case True
    then obtain sc where sc: "toOutputScript L (the (change b)) = Some sc" "b' = b2\<lparr>psbtOf := Some (addOutput sc ?c q)\<rparr>"
      using e q(1) f1 by (auto simp: b2 payTo_facts)
    have "\<exists>outs extra. txOutputs (addOutput sc ?c q) = outs @ extra \<and> length outs = length (txOutputs p) \<and>
        map outScript outs = map outScript (txOutputs p) \<and> list_all2 (\<le>) (map outValue (txOutputs p)) (map outValue outs) \<and>
        length extra \<le> 1 \<and> (\<forall>out \<in> set extra. outputFloor enc \<le> outValue out \<and> toOutputScript L (the (change b)) = Some (outScript out))"
      by (intro exI [of _ "txOutputs q"] exI [of _ "[\<lparr>outScript = sc, outValue = ?c\<rparr>]"]) (use True q(4,5) len sc(1) in simp)
    then show ?thesis using True q(1-3) f1 fee sc(2)
      by (intro exI [of _ "addOutput sc ?c q"]) (simp add: b2 Let_def)
  next
    case False
    then have b': "b' = b2" using e f1 by (simp add: b2)
    have "?c < max 1 (outputFloor enc) \<or> \<not> truthy (change b) \<and> ?c \<le> dustAmount enc" using False c by auto
    moreover have "\<exists>outs extra. txOutputs q = outs @ extra \<and> length outs = length (txOutputs p) \<and>
        map outScript outs = map outScript (txOutputs p) \<and> list_all2 (\<le>) (map outValue (txOutputs p)) (map outValue outs) \<and>
        length extra \<le> 1 \<and> (\<forall>out \<in> set extra. outputFloor enc \<le> outValue out \<and> toOutputScript L (the (change b)) = Some (outScript out))"
      by (intro exI [of _ "txOutputs q"] exI [of _ "[]"]) (use q(4,5) len in simp)
    ultimately show ?thesis using q(1-3) f1 fee c
      by (intro exI [of _ q]) (simp add: b' b2 Let_def; linarith)
  qed
qed

end
