(* ===== verification/Selection.thy ===== *)
theory Selection
  imports Settlement
begin

text \<open>
  The input side of a build: \<open>input_candidates.js\<close>, \<open>first_input_key.js\<close>, \<open>input_selection.js\<close>,
  \<open>nested_segwit.js\<close> and \<open>legacy_p2sh.js\<close> of \<open>src/src/XChainEncoder/build_transaction/\<close>. A step that
  claims outpoints runs on the guard and the build together and keeps both when it throws, since the
  ledger in the build is what a failed call hands back.
\<close>

section \<open>Steps over the guard and the build\<close>

type_synonym bstate = "guard \<times> build"

fun bindS :: "bstate \<times> 'a result \<Rightarrow> ('a \<Rightarrow> bstate \<Rightarrow> bstate \<times> 'b result) \<Rightarrow> bstate \<times> 'b result" where
  "bindS (s, Inl e) f = (s, Inl e)"
| "bindS (s, Inr x) f = f x s"

text \<open>A check, and a step, that touch the build only.\<close>

definition checkS :: "(build \<Rightarrow> 'a result) \<Rightarrow> bstate \<Rightarrow> bstate \<times> 'a result" where
  "checkS f s = (s, f (snd s))"

definition stepS :: "(build \<Rightarrow> build result) \<Rightarrow> bstate \<Rightarrow> bstate \<times> unit result" where
  "stepS f s = (case f (snd s) of Inl e \<Rightarrow> (s, throw e) | Inr b \<Rightarrow> ((fst s, b), ok ()))"

section \<open>Candidates\<close>

definition isUnconfirmedUtxo :: "utxo \<Rightarrow> bool" where
  "isUnconfirmedUtxo u = (confirmations u = None \<or> confirmations u = Some 0)"

definition keyOf :: "utxo \<Rightarrow> string" where
  "keyOf u = outpointKey (txid u) (vout u)"

definition initInputState :: "build \<Rightarrow> build" where
  "initInputState b = b\<lparr>psbtOf := None, inputSatoshis := 0\<rparr>"

text \<open>\<open>exact\<close> is \<open>options.exactInputs\<close>; an absent candidate list is the empty one.\<close>

definition checkExactInputs :: "bool \<Rightarrow> build \<Rightarrow> build result" where
  "checkExactInputs exact b =
     (if exact \<and> isReveal b then throw (ParamTypeError ''options.exactInputs cannot be combined with p2shHash'')
      else if exact \<and> utxos b = [] then throw (ParamTypeError ''options.exactInputs requires a non-empty utxos array'')
      else ok (b\<lparr>exactInputs := exact\<rparr>))"

text \<open>\<open>fetch\<close> is the tracker's answer for the caller's address, already checked.\<close>

definition gatherUtxos :: "utxo list result \<Rightarrow> build \<Rightarrow> build result" where
  "gatherUtxos fetch b =
     (if utxos b \<noteq> [] then ok b
      else if isReveal b \<and> truthy (p2shHex b) then ok b
      else andThen fetch (\<lambda>us. ok (b\<lparr>utxos := us\<rparr>)))"

fun repeatedKey :: "string set \<Rightarrow> utxo list \<Rightarrow> bool" where
  "repeatedKey seen [] = False"
| "repeatedKey seen (u # us) = (keyOf u \<in> seen \<or> repeatedKey (insert (keyOf u) seen) us)"

definition refuseShrunkExactInputs :: "build \<Rightarrow> unit result" where
  "refuseShrunkExactInputs b =
     (if \<not> exactInputs b then ok ()
      else if \<not> unconfirmed b \<and> list_ex isUnconfirmedUtxo (utxos b)
      then throw (ParamTypeError ''options.exactInputs names unconfirmed utxo'')
      else if repeatedKey {} (utxos b) then throw (ParamTypeError ''options.exactInputs names outpoint more than once'')
      else ok ())"

text \<open>The compacting pass: the mempool filter first, then the first entry of each outpoint.\<close>

fun dedupUtxos :: "bool \<Rightarrow> string set \<Rightarrow> utxo list \<Rightarrow> utxo list" where
  "dedupUtxos unconf seen [] = []"
| "dedupUtxos unconf seen (u # us) =
     (if \<not> unconf \<and> isUnconfirmedUtxo u then dedupUtxos unconf seen us
      else if keyOf u \<in> seen then dedupUtxos unconf seen us
      else u # dedupUtxos unconf (insert (keyOf u) seen) us)"

text \<open>JavaScript's string order: by code unit, a proper prefix first.\<close>

fun strLess :: "string \<Rightarrow> string \<Rightarrow> bool" where
  "strLess _ [] = False"
| "strLess [] (_ # _) = True"
| "strLess (a # as) (b # bs) =
     (let m = of_char a :: nat; n = of_char b in m < n \<or> (m = n \<and> strLess as bs))"

definition compareCandidates :: "utxo \<Rightarrow> utxo \<Rightarrow> int" where
  "compareCandidates a b =
     (if utxoValue a < utxoValue b then 1
      else if utxoValue b < utxoValue a then - 1
      else if toLowerCase (txid a) \<noteq> toLowerCase (txid b)
      then (if strLess (toLowerCase (txid a)) (toLowerCase (txid b)) then - 1 else 1)
      else int (vout a) - int (vout b))"

text \<open>\<open>Array.prototype.sort\<close>, which is stable.\<close>

fun insertBy :: "('a \<Rightarrow> 'a \<Rightarrow> int) \<Rightarrow> 'a \<Rightarrow> 'a list \<Rightarrow> 'a list" where
  "insertBy cmp x [] = [x]"
| "insertBy cmp x (y # ys) = (if cmp x y \<le> 0 then x # y # ys else y # insertBy cmp x ys)"

definition sortBy :: "('a \<Rightarrow> 'a \<Rightarrow> int) \<Rightarrow> 'a list \<Rightarrow> 'a list" where
  "sortBy cmp xs = foldr (insertBy cmp) xs []"

definition filterAndOrderUtxos :: "build \<Rightarrow> build result" where
  "filterAndOrderUtxos b =
     (let us = dedupUtxos (unconfirmed b) {} (utxos b)
      in if us = [] \<and> \<not> isReveal b then throw (OperationalError ''NO_UTXOS'')
         else ok (b\<lparr>utxos := (if exactInputs b then us else sortBy compareCandidates us)\<rparr>))"

section \<open>The first input's key\<close>

fun heldByOthers :: "int \<Rightarrow> utxo list \<Rightarrow> guard \<Rightarrow> string list \<times> guard" where
  "heldByOthers now [] g = ([], g)"
| "heldByOthers now (u # us) g =
     (let (r, g) = isOutpointReserved (keyOf u) now g; (ks, g) = heldByOthers now us g
      in (if r then keyOf u # ks else ks, g))"

fun claimAll :: "int \<Rightarrow> utxo list \<Rightarrow> ledger \<times> guard \<Rightarrow> ledger \<times> guard" where
  "claimAll now [] lg = lg"
| "claimAll now (u # us) (l, g) = claimAll now us (claimOutpoint l (keyOf u) now g)"

definition claimExactInputs :: "int \<Rightarrow> bstate \<Rightarrow> bstate \<times> unit result" where
  "claimExactInputs now s =
     (let (g, b) = s; (held, g) = heldByOthers now (utxos b) (evictExpiredReservations now g)
      in if held \<noteq> [] then ((g, b), throw (OperationalError ''INPUT_RESERVED''))
         else (let (l, g) = claimAll now (utxos b) (callReservations b, g)
               in ((g, b\<lparr>callReservations := l, txidFirstInput := Some (txid (hd (utxos b)))\<rparr>), ok ())))"

text \<open>The loop's first free candidate: the reserved ones before it, itself, the rest.\<close>

fun firstFree :: "int \<Rightarrow> utxo list \<Rightarrow> guard \<Rightarrow> (utxo list \<times> utxo \<times> utxo list) option \<times> guard" where
  "firstFree now [] g = (None, g)"
| "firstFree now (u # us) g =
     (let (r, g) = isOutpointReserved (keyOf u) now g
      in if \<not> r then (Some ([], u, us), g)
         else (let (f, g) = firstFree now us g
               in (map_option (\<lambda>(pre, x, post). (u # pre, x, post)) f, g)))"

definition claimFirstFreeInput :: "int \<Rightarrow> bstate \<Rightarrow> bstate \<times> unit result" where
  "claimFirstFreeInput now s =
     (let (g, b) = s; (f, g) = firstFree now (utxos b) (evictExpiredReservations now g)
      in case f of
           None \<Rightarrow> ((g, b\<lparr>txidFirstInput := Some (txid (hd (utxos b)))\<rparr>), ok ())
         | Some (pre, u, post) \<Rightarrow>
             (let (l, g) = claimOutpoint (callReservations b) (keyOf u) now g
              in ((g, b\<lparr>callReservations := l, firstReservedOutpoint := Some (keyOf u), txidFirstInput := Some (txid u),
                        utxos := u # pre @ post\<rparr>), ok ())))"

definition bindObfuscationKey :: "int \<Rightarrow> bstate \<Rightarrow> bstate \<times> unit result" where
  "bindObfuscationKey now s =
     (let (g, b) = s; b = b\<lparr>firstReservedOutpoint := None, txidFirstInput := None\<rparr>
      in if utxos b = [] then ((g, b), ok ())
         else bindS (if exactInputs b then claimExactInputs now (g, b) else claimFirstFreeInput now (g, b))
                (\<lambda>_ (g, b). ((g, b\<lparr>txidFirstInput := map_option toLowerCase (txidFirstInput b)\<rparr>), ok ())))"

section \<open>Selecting\<close>

definition MAX_UTXO_COUNT :: nat where "MAX_UTXO_COUNT = 500"

text \<open>\<open>parseSatoshiAmount\<close> of a value that is already a whole number.\<close>

definition parseSatoshi :: "bool \<Rightarrow> int \<Rightarrow> int result" where
  "parseSatoshi allowBig v =
     (if v < 0 then throw (ParamRangeError ''must be a non-negative integer'')
      else if v \<le> MAX_SAFE_INTEGER then ok v
      else if \<not> allowBig then throw (ParamRangeError ''exceeds the maximum safe satoshi amount'')
      else if v > 0xffffffffffffffff then throw (ParamRangeError ''exceeds the maximum 64-bit satoshi amount'')
      else ok v)"

definition initSelection :: "build \<Rightarrow> build result" where
  "initSelection b =
     (let outs = (case psbtOf b of Some p \<Rightarrow> length (txOutputs p) | None \<Rightarrow> 0);
          vsize = estimatedTxSize b + 43;
          vsize = (if psbtOf b \<noteq> None \<and> 252 < outs + 1 then vsize + 2 else vsize);
          b = b\<lparr>estimatedTxSize := vsize, estimatedFee := 0, requestedFee := None, selectedInputCount := 0,
                unconfirmedInputTxids := [], reservedCandidates := 0, segwitMarkerCounted := False\<rparr>
      in case fee b of
           None \<Rightarrow> ok b
         | Some f \<Rightarrow> andThen (parseSatoshi False f) (\<lambda>f. ok (b\<lparr>requestedFee := Some f, estimatedFee := f + softDustSurcharge b\<rparr>)))"

definition selectionTargetFee :: "encoder \<Rightarrow> int \<Rightarrow> int" where
  "selectionTargetFee enc estFee = max estFee (dustAmount enc)"

definition isSegwit :: "lib \<Rightarrow> utxo \<Rightarrow> bool" where
  "isSegwit L u = isSegwitUTXO (decompile L) (scriptPubKey u)"

definition framingBytesForInput :: "lib \<Rightarrow> utxo \<Rightarrow> nat \<Rightarrow> bool \<Rightarrow> build \<Rightarrow> nat \<times> build" where
  "framingBytesForInput L u count nested b =
     (let marks = (\<not> segwitMarkerCounted b \<and> (nested \<or> isSegwit L u))
      in ((if marks then 1 else 0) + (if count = 253 then 2 else 0),
          if marks then b\<lparr>segwitMarkerCounted := True\<rparr> else b))"

text \<open>The walk over the candidates left, when the input cap is reached.\<close>

fun remainingCandidatesCanFund :: "int \<Rightarrow> bool \<Rightarrow> string option \<Rightarrow> int \<Rightarrow> utxo list \<Rightarrow> int \<Rightarrow> guard \<Rightarrow> guard \<times> bool result" where
  "remainingCandidatesCanFund now exact first required [] available g = (g, ok False)"
| "remainingCandidatesCanFund now exact first required (u # us) available g =
     (let (r, g) = (if \<not> exact \<and> Some (keyOf u) \<noteq> first then isOutpointReserved (keyOf u) now g else (False, g))
      in if r then remainingCandidatesCanFund now exact first required us available g
         else (case parseSatoshi True (utxoValue u) of
                 Inl e \<Rightarrow> (g, throw e)
               | Inr v \<Rightarrow> if required < available + v then (g, ok True)
                          else remainingCandidatesCanFund now exact first required us (available + v) g))"

definition refuseCappedSelection :: "encoder \<Rightarrow> int \<Rightarrow> utxo list \<Rightarrow> bstate \<Rightarrow> bstate \<times> unit result" where
  "refuseCappedSelection enc now rest s =
     (let (g, b) = s
      in if selectedInputCount b < MAX_UTXO_COUNT then (s, ok ())
         else (let required = outputSatoshis b + selectionTargetFee enc (estimatedFee b);
                   (g, r) = remainingCandidatesCanFund now (exactInputs b) (firstReservedOutpoint b) required rest (inputSatoshis b) g
               in ((g, b), andThen r (\<lambda>can.
                    if can then throw (ParamRangeError ''selected input count would exceed the maximum'')
                    else throw (OperationalError ''NO_CONFIRMED_UTXO'')))))"

definition refuseUnsignableInput :: "lib \<Rightarrow> encoder \<Rightarrow> utxo \<Rightarrow> build \<Rightarrow> unit result" where
  "refuseUnsignableInput L enc u b =
     (if payloadEncoding (preparedData b) = E_TAPROOT \<and> \<not> isSegwit L u
      then throw (ParamTypeError ''TAPROOT commit inputs must be native-segwit UTXOs'')
      else if \<not> supportsSegwit (network enc) \<and> isSegwit L u
      then throw (ParamTypeError ''Input carries a witness-program scriptPubKey this network does not support'')
      else ok ())"

text \<open>True when another build holds the candidate; claims it otherwise.\<close>

definition skipReservedInput :: "int \<Rightarrow> utxo \<Rightarrow> bstate \<Rightarrow> bool \<times> bstate" where
  "skipReservedInput now u s =
     (let (g, b) = s
      in if exactInputs b \<or> Some (keyOf u) = firstReservedOutpoint b then (False, s)
         else (let (r, g) = isOutpointReserved (keyOf u) now g
               in if r then (True, (g, b))
                  else (let (l, g) = claimOutpoint (callReservations b) (keyOf u) now g
                        in (False, (g, b\<lparr>callReservations := l\<rparr>)))))"

definition isEvenHex :: "string \<Rightarrow> bool" where
  "isEvenHex s = (s \<noteq> [] \<and> even (length s) \<and> isHexString s)"

definition isP2shScript :: "Buffer \<Rightarrow> bool" where
  "isP2shScript s = (length s = 23 \<and> s ! 0 = 0xa9 \<and> s ! 1 = 0x14 \<and> s ! 22 = 0x87)"

definition matchingLegacyRedeemScript :: "lib \<Rightarrow> utxo \<Rightarrow> Buffer option" where
  "matchingLegacyRedeemScript L u =
     (case utxoRedeem u of
        None \<Rightarrow> None
      | Some hex \<Rightarrow>
          if \<not> isEvenHex hex then None
          else (let redeem = fromHex hex; script = fromHex (scriptPubKey u)
                in if \<not> isP2shScript script then None
                   else if hash160 L redeem = subarray script 2 22 then Some redeem else None))"

definition nestedP2wpkhRedeem :: "lib \<Rightarrow> encoder \<Rightarrow> utxo \<Rightarrow> build \<Rightarrow> Buffer option" where
  "nestedP2wpkhRedeem L enc u b =
     (let script = fromHex (scriptPubKey u)
      in if \<not> supportsSegwit (network enc) \<or> \<not> isP2shScript script then None
         else (let keys = filter isCompressedPubKeyHex (pubkey b # (case compressedPubKey b of None \<Rightarrow> [] | Some k \<Rightarrow> [k]));
                   redeems = List.map_filter (\<lambda>k. p2wpkhOutput L (fromHex k)) keys
               in List.find (\<lambda>r. p2shOutput L r = script) redeems))"

definition assertPrevOutValueMatches :: "lib \<Rightarrow> bool \<Rightarrow> Buffer \<Rightarrow> utxo \<Rightarrow> unit result" where
  "assertPrevOutValueMatches L fetched prevTx u =
     (let problem = (case txOuts L prevTx of
                       None \<Rightarrow> True
                     | Some outs \<Rightarrow> length outs \<le> vout u \<or> outValue (outs ! vout u) \<noteq> utxoValue u)
      in if \<not> problem then ok ()
         else if fetched then throw (OperationalError ''UTXO_TRACKER_ERROR'')
         else throw (ParamRangeError ''utxo states a value its previous transaction does not pay''))"

text \<open>\<open>txHex\<close> is what the node returns for the previous transaction; a node error propagates.\<close>

definition selectedInput :: "lib \<Rightarrow> (string \<Rightarrow> Buffer result) \<Rightarrow> bool \<Rightarrow> utxo \<Rightarrow> Buffer option \<Rightarrow> build \<Rightarrow> txInput result" where
  "selectedInput L txHex fetched u nested b =
     (if nested \<noteq> None \<or> isSegwit L u
      then (let i = \<lparr>inHash = txid u, inIndex = vout u, inSequence = utxoSequence b,
                     witnessUtxo = Some (fromHex (scriptPubKey u), utxoValue u), nonWitnessUtxo = None, redeemScript = nested\<rparr>
            in if attachPrevTx b
               then andThen (txHex (txid u)) (\<lambda>prev.
                    andThen (assertPrevOutValueMatches L fetched prev u) (\<lambda>_. ok (i\<lparr>nonWitnessUtxo := Some prev\<rparr>)))
               else ok i)
      else andThen (txHex (txid u)) (\<lambda>prev.
           andThen (assertPrevOutValueMatches L fetched prev u) (\<lambda>_.
           ok \<lparr>inHash = txid u, inIndex = vout u, inSequence = utxoSequence b, witnessUtxo = None,
               nonWitnessUtxo = Some prev, redeemScript = matchingLegacyRedeemScript L u\<rparr>)))"

definition addSelectedInput :: "lib \<Rightarrow> (string \<Rightarrow> Buffer result) \<Rightarrow> bool \<Rightarrow> utxo \<Rightarrow> Buffer option \<Rightarrow> build \<Rightarrow> build result" where
  "addSelectedInput L txHex fetched u nested b =
     andThen (selectedInput L txHex fetched u nested b) (\<lambda>i.
     andThen (needPsbt b) (\<lambda>p.
     ok (b\<lparr>psbtOf := Some (addInput i p), estimatedTxSize := estimatedTxSize b + inputSizeOf L i,
           inputSatoshis := inputSatoshis b + utxoValue u\<rparr>)))"

text \<open>The bookkeeping after an input is added, and the body of the loop for a candidate it takes.\<close>

definition countInput :: "lib \<Rightarrow> utxo \<Rightarrow> bool \<Rightarrow> build \<Rightarrow> build" where
  "countInput L u nested b =
     (let count = selectedInputCount b + 1;
          (framing, b) = framingBytesForInput L u count nested b;
          vsize = estimatedTxSize b + framing
      in b\<lparr>selectedInputCount := count, estimatedTxSize := vsize,
           unconfirmedInputTxids := unconfirmedInputTxids b @ (if isUnconfirmedUtxo u then [txid u] else []),
           estimatedFee := (if fee b = None then feeForVsize vsize (feePerBytes b) SATOSHI_UNIT + softDustSurcharge b
                            else estimatedFee b)\<rparr>)"

definition takeCandidate :: "lib \<Rightarrow> encoder \<Rightarrow> (string \<Rightarrow> Buffer result) \<Rightarrow> bool \<Rightarrow> utxo \<Rightarrow> build \<Rightarrow> build result" where
  "takeCandidate L enc txHex fetched u b =
     andThen (parseSatoshi True (utxoValue u)) (\<lambda>_.
     let nested = nestedP2wpkhRedeem L enc u b
     in andThen (addSelectedInput L txHex fetched u nested b) (\<lambda>b. ok (countInput L u (nested \<noteq> None) b)))"

definition selectionDone :: "lib \<Rightarrow> encoder \<Rightarrow> build \<Rightarrow> bool" where
  "selectionDone L enc b =
     (let targetFee = selectionTargetFee enc (estimatedFee b)
      in \<not> exactInputs b \<and> outputSatoshis b + targetFee < inputSatoshis b \<and>
         (case psbtOf b of
            None \<Rightarrow> False
          | Some p \<Rightarrow> clearsStrippedFloor (toOutputScript L) (networkKey enc) (outputFloor enc) (isReveal b) (change b) p
                       (outputSatoshis b) (inputSatoshis b) targetFee))"

text \<open>
  The loop, on the candidates left. While it waits for a previous transaction other calls run:
  \<open>others n\<close> is what they do to the guard before the \<open>n\<close>th input is in.
\<close>

fun selectLoop :: "lib \<Rightarrow> encoder \<Rightarrow> (string \<Rightarrow> Buffer result) \<Rightarrow> bool \<Rightarrow> (nat \<Rightarrow> guard \<Rightarrow> guard) \<Rightarrow> int \<Rightarrow> utxo list \<Rightarrow> bstate \<Rightarrow> bstate \<times> unit result" where
  "selectLoop L enc txHex fetched others now [] s = (s, ok ())"
| "selectLoop L enc txHex fetched others now (u # us) s =
     bindS (refuseCappedSelection enc now (u # us) s) (\<lambda>_ s.
     bindS (checkS (refuseUnsignableInput L enc u) s) (\<lambda>_ s.
     let (skip, (g, b)) = skipReservedInput now u s
     in if skip then selectLoop L enc txHex fetched others now us (g, b\<lparr>reservedCandidates := reservedCandidates b + 1\<rparr>)
        else bindS (stepS (takeCandidate L enc txHex fetched u) (others (selectedInputCount b) g, b)) (\<lambda>_ (g, b).
             if selectionDone L enc b then ((g, b), ok ())
             else selectLoop L enc txHex fetched others now us (g, b))))"

definition selectInputs :: "lib \<Rightarrow> encoder \<Rightarrow> (string \<Rightarrow> Buffer result) \<Rightarrow> bool \<Rightarrow> (nat \<Rightarrow> guard \<Rightarrow> guard) \<Rightarrow> int \<Rightarrow> bstate \<Rightarrow> bstate \<times> unit result" where
  "selectInputs L enc txHex fetched others now s =
     (let (g, b) = s in selectLoop L enc txHex fetched others now (utxos b) (evictExpiredReservations now g, b))"

definition refuseEmptySelection :: "build \<Rightarrow> unit result" where
  "refuseEmptySelection b =
     (if MAX_UTXO_COUNT < selectedInputCount b then throw (ParamRangeError ''selected input count exceeds the maximum'')
      else if selectedInputCount b = 0 then throw (OperationalError ''INSUFFICIENT_FUNDS'')
      else ok ())"

definition refuseFirstInputRace :: "build \<Rightarrow> unit result" where
  "refuseFirstInputRace b =
     (let keyBindsToFirstInput = (hasActionPayload b \<and> payloadEncoding (preparedData b) \<in> {E_OP_RETURN, E_MULTISIGN})
      in case (psbtOf b, txidFirstInput b) of
           (Some p, Some key) \<Rightarrow>
             if keyBindsToFirstInput \<and> toLowerCase (inHash (hd (txInputs p))) \<noteq> key
             then throw (OperationalError ''INPUT_SELECTION_RACE'') else ok ()
         | _ \<Rightarrow> ok ())"

definition selectFundingInputs :: "lib \<Rightarrow> encoder \<Rightarrow> (string \<Rightarrow> Buffer result) \<Rightarrow> bool \<Rightarrow> (nat \<Rightarrow> guard \<Rightarrow> guard) \<Rightarrow> int \<Rightarrow> bstate \<Rightarrow> bstate \<times> unit result" where
  "selectFundingInputs L enc txHex fetched others now s =
     (if isReveal (snd s) then (s, ok ())
      else bindS (selectInputs L enc txHex fetched others now s) (\<lambda>_ s.
           bindS (checkS refuseEmptySelection s) (\<lambda>_ s. checkS refuseFirstInputRace s)))"

end
