(* ===== verification/SelectionFacts.thy ===== *)
theory SelectionFacts
  imports Selection SettlementFacts "HOL-Library.Product_Lexorder" "HOL-Library.List_Lexorder" "HOL-Library.Sublist"
begin

text \<open>
  The candidate order as a sort by a key in a linear order, what the compacting pass keeps, and the
  selection loop's invariant: the inputs it has added are the candidates it took, in order.
\<close>

section \<open>The candidate order\<close>

definition candidateKey :: "utxo \<Rightarrow> int \<times> nat list \<times> nat" where
  "candidateKey u = (- utxoValue u, map of_char (toLowerCase (txid u)), vout u)"

lemma strLess_lex: "strLess s t \<longleftrightarrow> map of_char s < (map of_char t :: nat list)"
  by (induction s t rule: strLess.induct) (auto simp: Let_def)

lemma map_of_char_eq [simp]: "map of_char s = (map of_char t :: nat list) \<longleftrightarrow> s = t"
  by (simp add: inj_map_eq_map inj_def)

lemma compare_key: "compareCandidates a b \<le> 0 \<longleftrightarrow> candidateKey a \<le> candidateKey b"
proof -
  have "strLess s t \<or> s = t \<or> strLess t s" for s t unfolding strLess_lex
    using linorder_less_linear [of "map of_char s :: nat list"] by auto
  then show ?thesis
    by (auto simp: compareCandidates_def candidateKey_def less_eq_prod_def strLess_lex)
qed

lemma insertBy_insort: "insertBy compareCandidates x xs = insort_key candidateKey x xs"
  by (induction xs) (simp_all add: compare_key)

lemma sortBy_sort_key: "sortBy compareCandidates xs = sort_key candidateKey xs"
  by (induction xs) (simp_all add: sortBy_def insertBy_insort)

lemma keyOf_eq: "candidateKey a = candidateKey b \<Longrightarrow> keyOf a = keyOf b"
  by (simp add: candidateKey_def keyOf_def outpointKey_def)

lemma sort_key_unique:
  assumes "distinct xs" "distinct ys" "set xs = set ys" "inj_on f (set xs)"
  shows "sort_key f xs = sort_key f (ys :: 'a list) "
proof -
  have "map f (sort_key f xs) = map f (sort_key f ys)"
    by (rule sorted_distinct_set_unique) (use assms in \<open>auto simp: distinct_map\<close>)
  then show ?thesis by (rule map_inj_on) (use assms in auto)
qed

section \<open>The compacting pass\<close>

lemma dedup_set: "\<forall>u \<in> set us. \<forall>v \<in> set us. keyOf u = keyOf v \<longrightarrow> u = v \<Longrightarrow>
    set (dedupUtxos unconf seen us) = {u \<in> set us. keyOf u \<notin> seen \<and> (unconf \<or> \<not> isUnconfirmedUtxo u)}"
proof (induction unconf seen us rule: dedupUtxos.induct)
  case (2 unconf seen u us)
  then show ?case by (auto 4 3)
qed simp

lemma dedup_fresh: "u \<in> set (dedupUtxos unconf seen us) \<Longrightarrow> keyOf u \<notin> seen"
proof (induction unconf seen us rule: dedupUtxos.induct)
  case (2 unconf seen v us)
  then show ?case by (cases "\<not> unconf \<and> isUnconfirmedUtxo v"; cases "keyOf v \<in> seen") auto
qed simp

lemma dedup_distinct: "distinct (map keyOf (dedupUtxos unconf seen us))"
proof (induction us arbitrary: seen)
  case (Cons v us)
  have "keyOf v \<notin> keyOf ` set (dedupUtxos unconf (insert (keyOf v) seen) us)"
    by (auto dest!: dedup_fresh)
  then show ?case using Cons.IH [of seen] Cons.IH [of "insert (keyOf v) seen"]
    by (simp only: dedupUtxos.simps list.map distinct.simps set_map split: if_split) blast
qed simp

lemma dedup_subset: "set (dedupUtxos unconf seen us) \<subseteq> set us"
  by (induction unconf seen us rule: dedupUtxos.induct) auto

section \<open>Frames\<close>

definition inputsOf :: "build \<Rightarrow> txInput list" where
  "inputsOf b = (case psbtOf b of Some p \<Rightarrow> txInputs p | None \<Rightarrow> [])"

definition outputsOf :: "build \<Rightarrow> txOutput list" where
  "outputsOf b = (case psbtOf b of Some p \<Rightarrow> txOutputs p | None \<Rightarrow> [])"

text \<open>The fields selection reads and never writes.\<close>

definition sameRequest :: "build \<Rightarrow> build \<Rightarrow> bool" where
  "sameRequest b b' \<longleftrightarrow> utxos b' = utxos b \<and> exactInputs b' = exactInputs b \<and> firstReservedOutpoint b' = firstReservedOutpoint b \<and>
     txidFirstInput b' = txidFirstInput b \<and> fee b' = fee b \<and> feePerBytes b' = feePerBytes b \<and> feePerKb b' = feePerKb b \<and>
     outputSatoshis b' = outputSatoshis b \<and> softDustSurcharge b' = softDustSurcharge b \<and> p2shHash b' = p2shHash b \<and>
     preparedData b' = preparedData b \<and> hasActionPayload b' = hasActionPayload b \<and> outputsOf b' = outputsOf b \<and>
     envelopeContextOf b' = envelopeContextOf b \<and> revealPrefund b' = revealPrefund b \<and> change b' = change b \<and>
     relayFeePerKb b' = relayFeePerKb b \<and> customOutputs b' = customOutputs b \<and> pubkey b' = pubkey b \<and>
     compressedPubKey b' = compressedPubKey b \<and> finalDust b' = finalDust b \<and> replacebyfee b' = replacebyfee b \<and> (psbtOf b = None \<longleftrightarrow> psbtOf b' = None)"

lemma sameRequest_refl [simp]: "sameRequest b b"
  by (simp add: sameRequest_def)

lemma sameRequest_trans: "sameRequest a b \<Longrightarrow> sameRequest b c \<Longrightarrow> sameRequest a c"
  by (simp add: sameRequest_def)

lemma bindS_Inr: "bindS m f = (s', Inr y) \<longleftrightarrow> (\<exists>s x. m = (s, Inr x) \<and> f x s = (s', Inr y))"
  by (cases "(m, f)" rule: bindS.cases) auto

lemma bindS_InrE: assumes "bindS m f = (s', Inr y)" obtains s x where "m = (s, Inr x)" "f x s = (s', Inr y)"
  using assms by (auto simp: bindS_Inr)

lemma bindS_Inl: "bindS m f = (s', Inl e) \<longleftrightarrow> m = (s', Inl e) \<or> (\<exists>s x. m = (s, Inr x) \<and> f x s = (s', Inl e))"
  by (cases "(m, f)" rule: bindS.cases) auto

lemma stepS_Inr: "stepS f (g, b) = (s', Inr u) \<longleftrightarrow> (\<exists>b'. f b = Inr b' \<and> s' = (g, b'))"
  by (auto simp: stepS_def split: sum.splits)

lemma checkS_Inr: "checkS f s = (s', Inr x) \<longleftrightarrow> s' = s \<and> f (snd s) = Inr x"
  by (auto simp: checkS_def)

lemma refuseCapped_Inr: "refuseCappedSelection enc now rest (g, b) = (s', Inr u) \<Longrightarrow>
    s' = (g, b) \<and> selectedInputCount b < MAX_UTXO_COUNT"
  by (auto simp: refuseCappedSelection_def Let_def result_simps split: if_splits prod.splits)

text \<open>What a skip test leaves in the build: a claim of the candidate, unless it was skipped.\<close>

lemma skip_frame:
  assumes "skipReservedInput now u (g, b) = (skip, (g', b'))"
  shows "\<exists>l. b' = b\<lparr>callReservations := l\<rparr> \<and> set (claims (callReservations b)) \<subseteq> set (claims l)"
    "exactInputs b \<or> Some (keyOf u) = firstReservedOutpoint b \<Longrightarrow> \<not> skip \<and> b' = b \<and> g' = g"
    "\<not> skip \<Longrightarrow> \<not> exactInputs b \<Longrightarrow> Some (keyOf u) \<noteq> firstReservedOutpoint b \<Longrightarrow>
       keyOf u \<in> claimKey ` set (claims (callReservations b')) \<and> \<not> fst (isOutpointReserved (keyOf u) now g)"
    "skip \<Longrightarrow> fst (isOutpointReserved (keyOf u) now g)"
proof -
  have same: "b = b\<lparr>callReservations := callReservations b\<rparr>" by simp
  show "\<exists>l. b' = b\<lparr>callReservations := l\<rparr> \<and> set (claims (callReservations b)) \<subseteq> set (claims l)"
    using assms same
    by (auto simp: skipReservedInput_def claimOutpoint_def reserveOutpoint_def Let_def split: if_splits prod.splits
        intro: exI [of _ "callReservations b"])
qed (use assms in \<open>auto simp: skipReservedInput_def claimOutpoint_def reserveOutpoint_def Let_def split: if_splits prod.splits\<close>)

lemma selectedInput_outpoint: "selectedInput L txHex fetched u nested b = Inr i \<Longrightarrow> inHash i = txid u \<and> inIndex i = vout u"
  by (auto simp: selectedInput_def result_simps Let_def split: if_splits)

lemma countInput_facts:
  "sameRequest b (countInput L u nested b)" "psbtOf (countInput L u nested b) = psbtOf b"
  "inputSatoshis (countInput L u nested b) = inputSatoshis b" "selectedInputCount (countInput L u nested b) = selectedInputCount b + 1"
  "fee b = None \<Longrightarrow> estimatedFee (countInput L u nested b) =
     feeForVsize (estimatedTxSize (countInput L u nested b)) (feePerBytes b) SATOSHI_UNIT + softDustSurcharge b"
  "fee b \<noteq> None \<Longrightarrow> estimatedFee (countInput L u nested b) = estimatedFee b"
  "callReservations (countInput L u nested b) = callReservations b" "reservedCandidates (countInput L u nested b) = reservedCandidates b"
  by (auto simp: countInput_def framingBytesForInput_def sameRequest_def outputsOf_def Let_def)

lemma addSelected_facts:
  assumes "addSelectedInput L txHex fetched u nested b = Inr b'"
  shows "\<exists>i p. psbtOf b = Some p \<and> inHash i = txid u \<and> inIndex i = vout u \<and> selectedInput L txHex fetched u nested b = Inr i \<and>
    b' = b\<lparr>psbtOf := Some (addInput i p), estimatedTxSize := estimatedTxSize b + inputSizeOf L i,
           inputSatoshis := inputSatoshis b + utxoValue u\<rparr>"
  using assms selectedInput_outpoint [of L txHex fetched u nested b]
  by (auto simp: addSelectedInput_def needPsbt_def result_simps split: option.splits)

lemma takeCandidate_facts:
  assumes "takeCandidate L enc txHex fetched u b = Inr b'"
  shows "sameRequest b b'" "\<exists>i. inputsOf b' = inputsOf b @ [i] \<and> inHash i = txid u \<and> inIndex i = vout u"
    "inputSatoshis b' = inputSatoshis b + utxoValue u" "selectedInputCount b' = selectedInputCount b + 1"
    "fee b = None \<Longrightarrow> estimatedFee b' = feeForVsize (estimatedTxSize b') (feePerBytes b) SATOSHI_UNIT + softDustSurcharge b"
    "fee b \<noteq> None \<Longrightarrow> estimatedFee b' = estimatedFee b"
    "callReservations b' = callReservations b" "reservedCandidates b' = reservedCandidates b" "0 \<le> utxoValue u"
proof -
  obtain v b1 where b1: "addSelectedInput L txHex fetched u (nestedP2wpkhRedeem L enc u b) b = Inr b1"
      "b' = countInput L u (nestedP2wpkhRedeem L enc u b \<noteq> None) b1" and v: "parseSatoshi True (utxoValue u) = Inr v"
    using assms by (auto simp: takeCandidate_def result_simps Let_def)
  obtain i p where i: "psbtOf b = Some p" "inHash i = txid u" "inIndex i = vout u"
    "b1 = b\<lparr>psbtOf := Some (addInput i p), estimatedTxSize := estimatedTxSize b + inputSizeOf L i,
           inputSatoshis := inputSatoshis b + utxoValue u\<rparr>"
    using addSelected_facts [OF b1(1)] by blast
  note c = countInput_facts [where b = b1 and L = L and u = u and nested = "nestedP2wpkhRedeem L enc u b \<noteq> None", folded b1(2)]
  have "sameRequest b b1" using i by (simp add: sameRequest_def outputsOf_def)
  then show "sameRequest b b'" using c(1) by (rule sameRequest_trans)
  show "\<exists>i. inputsOf b' = inputsOf b @ [i] \<and> inHash i = txid u \<and> inIndex i = vout u"
    using i by (auto simp: inputsOf_def c(2))
  show "inputSatoshis b' = inputSatoshis b + utxoValue u" "selectedInputCount b' = selectedInputCount b + 1"
    "callReservations b' = callReservations b" "reservedCandidates b' = reservedCandidates b"
    by (simp_all add: c(3,4,7,8) i(4))
  show "fee b = None \<Longrightarrow> estimatedFee b' = feeForVsize (estimatedTxSize b') (feePerBytes b) SATOSHI_UNIT + softDustSurcharge b"
    "fee b \<noteq> None \<Longrightarrow> estimatedFee b' = estimatedFee b"
    using c(5,6) by (simp_all add: i(4))
  show "0 \<le> utxoValue u" using v by (auto simp: parseSatoshi_def split: if_splits)
qed

section \<open>The loop\<close>

text \<open>
  What a selection that ends normally has done to the build it started from: \<open>taken\<close> are the
  candidates it spent and \<open>skipped\<close> counts the reserved ones.
\<close>

definition selectedFrom :: "build \<Rightarrow> utxo list \<Rightarrow> build \<Rightarrow> utxo list \<Rightarrow> bool" where
  "selectedFrom b us b' taken \<longleftrightarrow> sameRequest b b' \<and> subseq taken us \<and>
     (\<exists>is. inputsOf b' = inputsOf b @ is \<and> map (\<lambda>i. (inHash i, inIndex i)) is = map (\<lambda>u. (txid u, vout u)) taken) \<and>
     inputSatoshis b' = inputSatoshis b + sum_list (map utxoValue taken) \<and> (\<forall>u \<in> set taken. 0 \<le> utxoValue u) \<and>
     selectedInputCount b' = selectedInputCount b + length taken \<and>
     (taken = [] \<longrightarrow> estimatedTxSize b' = estimatedTxSize b \<and> estimatedFee b' = estimatedFee b) \<and>
     (taken \<noteq> [] \<longrightarrow> selectedInputCount b' \<le> MAX_UTXO_COUNT \<and>
        (fee b = None \<longrightarrow> estimatedFee b' = feeForVsize (estimatedTxSize b') (feePerBytes b) SATOSHI_UNIT + softDustSurcharge b)) \<and>
     (fee b \<noteq> None \<longrightarrow> estimatedFee b' = estimatedFee b) \<and>
     set (claims (callReservations b)) \<subseteq> set (claims (callReservations b')) \<and>
     (\<not> exactInputs b \<longrightarrow> (\<forall>u \<in> set taken. Some (keyOf u) \<noteq> firstReservedOutpoint b \<longrightarrow>
        keyOf u \<in> claimKey ` set (claims (callReservations b')))) \<and>
     reservedCandidates b \<le> reservedCandidates b' \<and> (exactInputs b \<longrightarrow> reservedCandidates b' = reservedCandidates b)"

lemma selectedFrom_nil: "selectedFrom b us b []"
  by (simp add: selectedFrom_def)

lemma selectedFrom_skip:
  assumes "selectedFrom (b\<lparr>callReservations := l, reservedCandidates := n\<rparr>) us b' taken"
    "set (claims (callReservations b)) \<subseteq> set (claims l)" "reservedCandidates b \<le> n" "\<not> exactInputs b"
  shows "selectedFrom b (u # us) b' taken"
  using assms by (auto simp: selectedFrom_def sameRequest_def inputsOf_def outputsOf_def intro: list_emb_Cons)

lemma selectedFrom_take:
  assumes t: "takeCandidate L enc txHex fetched u (b\<lparr>callReservations := l\<rparr>) = Inr b1" and s: "selectedFrom b1 us b' taken"
    and "set (claims (callReservations b)) \<subseteq> set (claims l)" "selectedInputCount b < MAX_UTXO_COUNT"
    and k: "\<not> exactInputs b \<Longrightarrow> Some (keyOf u) \<noteq> firstReservedOutpoint b \<Longrightarrow> keyOf u \<in> claimKey ` set (claims l)"
  shows "selectedFrom b (u # us) b' (u # taken)"
proof -
  note f = takeCandidate_facts [OF t]
  have fee1: "fee b1 = fee b" "feePerBytes b1 = feePerBytes b" "softDustSurcharge b1 = softDustSurcharge b"
      "exactInputs b1 = exactInputs b" "firstReservedOutpoint b1 = firstReservedOutpoint b"
    using f(1) by (simp_all add: sameRequest_def)
  have "sameRequest b (b\<lparr>callReservations := l\<rparr>)" by (simp add: sameRequest_def outputsOf_def)
  then have r: "sameRequest b b'" using f(1) s by (auto simp: selectedFrom_def intro: sameRequest_trans)
  obtain i where i: "inputsOf b1 = inputsOf b @ [i]" "inHash i = txid u" "inIndex i = vout u"
    using f(2) by (auto simp: inputsOf_def)
  obtain "is" where ins: "inputsOf b' = inputsOf b1 @ is" "map (\<lambda>i. (inHash i, inIndex i)) is = map (\<lambda>u. (txid u, vout u)) taken"
    using s by (auto simp: selectedFrom_def)
  have p1: "\<exists>is. inputsOf b' = inputsOf b @ is \<and> map (\<lambda>i. (inHash i, inIndex i)) is = map (\<lambda>u. (txid u, vout u)) (u # taken)"
    by (rule exI [of _ "i # is"]) (simp add: i ins)
  have p2: "fee b = None \<Longrightarrow> estimatedFee b' = feeForVsize (estimatedTxSize b') (feePerBytes b) SATOSHI_UNIT + softDustSurcharge b"
    using s f(5) fee1 by (cases "taken = []") (auto simp: selectedFrom_def)
  have p3: "fee b \<noteq> None \<Longrightarrow> estimatedFee b' = estimatedFee b" using s f(6) fee1 by (auto simp: selectedFrom_def)
  have p4: "selectedInputCount b' \<le> MAX_UTXO_COUNT" using s f(4) assms(4) by (cases "taken = []") (auto simp: selectedFrom_def)
  have p5: "subseq (u # taken) (u # us)" "inputSatoshis b' = inputSatoshis b + sum_list (map utxoValue (u # taken))"
      "\<forall>u \<in> set (u # taken). 0 \<le> utxoValue u" "selectedInputCount b' = selectedInputCount b + length (u # taken)"
      "reservedCandidates b \<le> reservedCandidates b'" "exactInputs b \<Longrightarrow> reservedCandidates b' = reservedCandidates b"
    using s f(3,4,8,9) fee1 by (auto simp: selectedFrom_def)
  have l: "callReservations b1 = l" using f(7) by simp
  then have p6: "set (claims l) \<subseteq> set (claims (callReservations b'))" using s by (simp add: selectedFrom_def)
  have p7: "\<not> exactInputs b \<Longrightarrow> \<forall>v \<in> set (u # taken). Some (keyOf v) \<noteq> firstReservedOutpoint b \<longrightarrow>
      keyOf v \<in> claimKey ` set (claims (callReservations b'))"
  proof -
    assume "\<not> exactInputs b"
    moreover then have "\<forall>v \<in> set taken. Some (keyOf v) \<noteq> firstReservedOutpoint b \<longrightarrow>
        keyOf v \<in> claimKey ` set (claims (callReservations b'))"
      using s fee1 by (simp add: selectedFrom_def)
    moreover have "claimKey ` set (claims l) \<subseteq> claimKey ` set (claims (callReservations b'))" using p6 by (rule image_mono)
    ultimately show ?thesis using k by auto
  qed
  show ?thesis unfolding selectedFrom_def using r p1 p2 p3 p4 p5 p6 p7 assms(3) by auto
qed

lemma selectLoop_ConsE:
  assumes "selectLoop L enc txHex fetched others now (u # us) (g, b) = ((g', b'), Inr ())"
  obtains (skip) g1 b1 where "skipReservedInput now u (g, b) = (True, (g1, b1))"
      "selectLoop L enc txHex fetched others now us (g1, b1\<lparr>reservedCandidates := reservedCandidates b1 + 1\<rparr>) = ((g', b'), Inr ())"
    | (take) g1 b1 b2 where "skipReservedInput now u (g, b) = (False, (g1, b1))" "selectedInputCount b < MAX_UTXO_COUNT"
      "takeCandidate L enc txHex fetched u b1 = Inr b2"
      "(if selectionDone L enc b2 then ((others (selectedInputCount b1) g1, b2), ok ())
        else selectLoop L enc txHex fetched others now us (others (selectedInputCount b1) g1, b2)) = ((g', b'), Inr ())"
proof -
  obtain s1 x1 where r1: "refuseCappedSelection enc now (u # us) (g, b) = (s1, Inr x1)"
    "bindS (checkS (refuseUnsignableInput L enc u) s1) (\<lambda>_ s.
       let (skip, (g, b)) = skipReservedInput now u s
       in if skip then selectLoop L enc txHex fetched others now us (g, b\<lparr>reservedCandidates := reservedCandidates b + 1\<rparr>)
          else bindS (stepS (takeCandidate L enc txHex fetched u) (others (selectedInputCount b) g, b)) (\<lambda>_ (g, b).
               if selectionDone L enc b then ((g, b), ok ())
               else selectLoop L enc txHex fetched others now us (g, b))) = ((g', b'), Inr ())"
    using assms unfolding selectLoop.simps by (rule bindS_InrE)
  from refuseCapped_Inr [OF r1(1)] have c: "s1 = (g, b)" "selectedInputCount b < MAX_UTXO_COUNT" by simp_all
  obtain sk g1 b1 where sk: "skipReservedInput now u (g, b) = (sk, (g1, b1))" by (metis surj_pair)
  from r1(2) obtain s2 x2 where "checkS (refuseUnsignableInput L enc u) (g, b) = (s2, Inr x2)"
    "(let (skip, (g, b)) = skipReservedInput now u s2
       in if skip then selectLoop L enc txHex fetched others now us (g, b\<lparr>reservedCandidates := reservedCandidates b + 1\<rparr>)
          else bindS (stepS (takeCandidate L enc txHex fetched u) (others (selectedInputCount b) g, b)) (\<lambda>_ (g, b).
               if selectionDone L enc b then ((g, b), ok ())
               else selectLoop L enc txHex fetched others now us (g, b))) = ((g', b'), Inr ())"
    unfolding c(1) by (rule bindS_InrE)
  then have run: "(if sk then selectLoop L enc txHex fetched others now us (g1, b1\<lparr>reservedCandidates := reservedCandidates b1 + 1\<rparr>)
      else bindS (stepS (takeCandidate L enc txHex fetched u) (others (selectedInputCount b1) g1, b1)) (\<lambda>_ (g, b).
           if selectionDone L enc b then ((g, b), ok ())
           else selectLoop L enc txHex fetched others now us (g, b))) = ((g', b'), Inr ())"
    by (simp add: checkS_Inr sk)
  show thesis
  proof (cases sk)
    case True
    then show ?thesis using skip [of g1 b1] sk run by simp
  next
    case False
    from run False have "bindS (stepS (takeCandidate L enc txHex fetched u) (others (selectedInputCount b1) g1, b1)) (\<lambda>_ (g, b).
             if selectionDone L enc b then ((g, b), ok ())
             else selectLoop L enc txHex fetched others now us (g, b)) = ((g', b'), Inr ())" by simp
    then obtain st x where st: "stepS (takeCandidate L enc txHex fetched u) (others (selectedInputCount b1) g1, b1) = (st, Inr x)"
      "(case st of (g, b) \<Rightarrow> if selectionDone L enc b then ((g, b), ok ())
         else selectLoop L enc txHex fetched others now us (g, b)) = ((g', b'), Inr ())"
      by (rule bindS_InrE)
    then obtain b2 where "takeCandidate L enc txHex fetched u b1 = Inr b2" "st = (others (selectedInputCount b1) g1, b2)"
      by (auto simp: stepS_Inr)
    then show ?thesis using take [of g1 b1 b2] sk False c(2) st(2) by simp
  qed
qed

lemma selectLoop_run:
  assumes "selectLoop L enc txHex fetched others now us (g, b) = ((g', b'), Inr ())"
  shows "\<exists>taken. selectedFrom b us b' taken \<and> (selectionDone L enc b' \<and> taken \<noteq> [] \<or> length us = length taken + (reservedCandidates b' - reservedCandidates b)) \<and>
     (\<forall>u vs. us = u # vs \<longrightarrow> exactInputs b \<or> Some (keyOf u) = firstReservedOutpoint b \<longrightarrow> (\<exists>rest. taken = u # rest))"
  using assms
proof (induction us arbitrary: g b)
  case Nil
  then show ?case using selectedFrom_nil [of b "[]"] by (intro exI [of _ "[]"]) auto
next
  case (Cons u us)
  from Cons.prems show ?case
  proof (cases rule: selectLoop_ConsE)
    case (skip g1 b1)
    obtain l where b1: "b1 = b\<lparr>callReservations := l\<rparr>" "set (claims (callReservations b)) \<subseteq> set (claims l)"
      using skip_frame(1) [OF skip(1)] by auto
    have no: "\<not> (exactInputs b \<or> Some (keyOf u) = firstReservedOutpoint b)" using skip_frame(2) [OF skip(1)] by auto
    let ?b2 = "b\<lparr>callReservations := l, reservedCandidates := reservedCandidates b + 1\<rparr>"
    have "selectLoop L enc txHex fetched others now us (g1, ?b2) = ((g', b'), Inr ())" using skip(2) by (simp add: b1)
    from Cons.IH [OF this] obtain taken where t: "selectedFrom ?b2 us b' taken"
      "selectionDone L enc b' \<and> taken \<noteq> [] \<or> length us = length taken + (reservedCandidates b' - reservedCandidates ?b2)" by auto
    have "reservedCandidates ?b2 \<le> reservedCandidates b'" using t(1) by (simp only: selectedFrom_def)
    then show ?thesis using t selectedFrom_skip [OF t(1) b1(2), of u] no by (intro exI [of _ taken]) auto
  next
    case (take g1 b1 b2)
    obtain l where b1: "b1 = b\<lparr>callReservations := l\<rparr>" "set (claims (callReservations b)) \<subseteq> set (claims l)"
      using skip_frame(1) [OF take(1)] by auto
    have k: "\<not> exactInputs b \<Longrightarrow> Some (keyOf u) \<noteq> firstReservedOutpoint b \<Longrightarrow> keyOf u \<in> claimKey ` set (claims l)"
      using skip_frame(3) [OF take(1)] by (simp add: b1)
    have r: "reservedCandidates b2 = reservedCandidates b" using takeCandidate_facts(8) [OF take(3)] by (simp add: b1)
    note sel = selectedFrom_take [OF take(3) [unfolded b1(1)] _ b1(2) take(2) k]
    show ?thesis
    proof (cases "selectionDone L enc b2")
      case True
      then have b': "b' = b2" using take(4) by simp
      have "selectedFrom b (u # us) b' [u]" unfolding b' by (rule sel [OF selectedFrom_nil])
      then show ?thesis using True b' by (intro exI [of _ "[u]"]) auto
    next
      case F: False
      then have "selectLoop L enc txHex fetched others now us (others (selectedInputCount b1) g1, b2) = ((g', b'), Inr ())"
        using take(4) by simp
      from Cons.IH [OF this] obtain taken where t: "selectedFrom b2 us b' taken"
        "selectionDone L enc b' \<and> taken \<noteq> [] \<or> length us = length taken + (reservedCandidates b' - reservedCandidates b2)" by auto
      have "selectedFrom b (u # us) b' (u # taken)" by (rule sel [OF t(1)])
      then show ?thesis using t(2) r by (intro exI [of _ "u # taken"]) auto
    qed
  qed
qed

lemma selectFunding_run:
  assumes "selectFundingInputs L enc txHex fetched others now (g, b) = ((g', b'), Inr ())" "\<not> isReveal b"
  shows "selectLoop L enc txHex fetched others now (utxos b) (evictExpiredReservations now g, b) = ((g', b'), Inr ())"
    "refuseEmptySelection b' = ok ()" "refuseFirstInputRace b' = ok ()"
  using assms by (auto simp: selectFundingInputs_def selectInputs_def bindS_Inr checkS_Inr)

section \<open>The key's input\<close>

lemma firstFree_split: "firstFree now us g = (Some (pre, u, post), g') \<Longrightarrow> us = pre @ u # post"
proof (induction us arbitrary: g g' pre u post)
  case (Cons v us)
  then show ?case by (fastforce simp: Let_def split: prod.splits if_splits)
qed simp

lemma bindKey_run:
  assumes "bindObfuscationKey now (g0, b0) = ((g1, b1), Inr ())" "utxos b0 \<noteq> []"
    and "firstReservedOutpoint b1 \<noteq> None \<or> exactInputs b0"
  shows "exactInputs b1 = exactInputs b0 \<and> txidFirstInput b1 = Some (toLowerCase (txid (hd (utxos b1)))) \<and> utxos b1 \<noteq> [] \<and>
     (exactInputs b0 \<or> firstReservedOutpoint b1 = Some (keyOf (hd (utxos b1)))) \<and>
     (exactInputs b0 \<longrightarrow> utxos b1 = utxos b0) \<and> set (utxos b1) = set (utxos b0)"
proof (cases "exactInputs b0")
  case True
  then show ?thesis using assms(1,2)
    by (auto simp: bindObfuscationKey_def bindS_Inr claimExactInputs_def Let_def split: prod.splits if_splits)
next
  case False
  obtain f g where f: "firstFree now (utxos b0) (evictExpiredReservations now g0) = (f, g)" by (metis surj_pair)
  show ?thesis
  proof (cases f)
    case None
    then show ?thesis using assms False f
      by (auto simp: bindObfuscationKey_def bindS_Inr claimFirstFreeInput_def Let_def)
  next
    case (Some t)
    obtain pre u post where t: "t = (pre, u, post)" by (cases t)
    have "set (u # pre @ post) = set (utxos b0)" using firstFree_split [OF f [unfolded Some t]] by auto
    obtain l g2 where cl: "claimOutpoint (callReservations b0) (keyOf u) now g = (l, g2)" by (metis surj_pair)
    have "b1 = b0\<lparr>callReservations := l, firstReservedOutpoint := Some (keyOf u), txidFirstInput := Some (toLowerCase (txid u)),
        utxos := u # pre @ post\<rparr>"
      using assms(1,2) False by (auto simp: bindObfuscationKey_def claimFirstFreeInput_def f Some t cl Let_def)
    then show ?thesis using \<open>set (u # pre @ post) = set (utxos b0)\<close> False by simp
  qed
qed

lemma coin_segwit: "isSegwitUTXO readScript ''00020102''" "fromHex ''00020102'' = [0x00, 0x02, 0x01, 0x02]"
  by code_simp+

end
