(* ===== verification/SelectionProperties.thy ===== *)
theory SelectionProperties
  imports SelectionFacts Instances
begin

text \<open>
  What selection promises: the input order is a function of the candidate set, a successful walk
  spends what it says and stops only when funded, and the outpoint the obfuscation key is bound to
  is the first input.
\<close>

section \<open>The candidate order\<close>

text \<open>
  C23. The ordered candidates depend only on the set of outputs listed, not on the order, the pages or
  the repetitions in which the tracker or the caller lists them, so two listings of one address
  build the same transaction: they give the same build, or both are refused as empty.
\<close>

theorem candidate_order_independent:
  assumes "set us = set vs" "\<forall>u \<in> set us. \<forall>v \<in> set us. keyOf u = keyOf v \<longrightarrow> u = v"
    and "\<not> exactInputs b"
  shows "filterAndOrderUtxos (b\<lparr>utxos := us\<rparr>) = filterAndOrderUtxos (b\<lparr>utxos := vs\<rparr>)"
proof -
  let ?d = "dedupUtxos (unconfirmed b) {}"
  have s: "set (?d us) = set (?d vs)" using assms(1,2) by (simp add: dedup_set)
  have d: "distinct (?d us)" "distinct (?d vs)" using dedup_distinct by (auto simp: distinct_map)
  have "inj_on candidateKey (set (?d us))"
    using assms(2) dedup_subset [of "unconfirmed b" "{}" us] keyOf_eq by (meson inj_onI subsetD)
  then have "sort_key candidateKey (?d us) = sort_key candidateKey (?d vs)" by (rule sort_key_unique [OF d s])
  moreover have "?d us = [] \<longleftrightarrow> ?d vs = []" using s by (metis set_empty)
  ultimately show ?thesis using assms(3) by (simp add: filterAndOrderUtxos_def Let_def sortBy_sort_key)
qed

definition coinA :: utxo where
  "coinA = \<lparr>txid = ''aa'', vout = 0, utxoValue = 10000, scriptPubKey = ''00020102'', confirmations = Some 1, utxoRedeem = None\<rparr>"

definition coinB :: utxo where
  "coinB = \<lparr>txid = ''bb'', vout = 1, utxoValue = 20000, scriptPubKey = ''00020102'', confirmations = Some 1, utxoRedeem = None\<rparr>"

lemma keyOf_coins: "keyOf coinA = ''aa:0''" "keyOf coinB = ''bb:1''"
  by code_simp+

theorem candidate_order_independent_witness:
  "filterAndOrderUtxos (blankBuild\<lparr>utxos := [coinA, coinB, coinA]\<rparr>) = filterAndOrderUtxos (blankBuild\<lparr>utxos := [coinB, coinA]\<rparr>)"
  by (rule candidate_order_independent) (auto simp: keyOf_coins blankBuild_def)

section \<open>What a selection spends\<close>


text \<open>An example: two coins of which the larger alone funds the build.\<close>

definition spend_build :: build where
  "spend_build = blankBuild\<lparr>utxos := [coinB, coinA], fee := Some 1000, estimatedFee := 1000, outputSatoshis := 5000,
     change := Some ''c'', psbtOf := Some (addOutput [0x51] 5000 emptyPsbt)\<rparr>"

definition spend_run :: "bstate \<times> unit result" where
  "spend_run = selectFundingInputs exampleLib btcEncoder (\<lambda>_. throw (InternalError ''down'')) False (\<lambda>_ g. g) 1000
     (initReservationMaps, spend_build)"

lemma btc_core_floor: "coreStrippedFloor ''bitcoin-regtest'' = 65"
  by (simp add: coreStrippedFloor_def)

lemma take_coinB:
  "takeCandidate exampleLib btcEncoder txHex fetched coinB (spend_build\<lparr>callReservations := l\<rparr>) = Inr (spend_build\<lparr>callReservations := l,
     psbtOf := Some (addInput \<lparr>inHash = ''bb'', inIndex = 1, inSequence = 0xffffffff,
       witnessUtxo = Some ([0x00, 0x02, 0x01, 0x02], 20000), nonWitnessUtxo = None, redeemScript = None\<rparr> (addOutput [0x51] 5000 emptyPsbt)),
     estimatedTxSize := 361, inputSatoshis := 20000, selectedInputCount := 1, segwitMarkerCounted := True\<rparr>)"
  by (simp add: takeCandidate_def parseSatoshi_def coinB_def MAX_SAFE_INTEGER_def nestedP2wpkhRedeem_def coin_segwit isP2shScript_def
      addSelectedInput_def selectedInput_def isSegwit_def exampleLib_def spend_build_def blankBuild_def needPsbt_def utxoSequence_def
      inputSizeOf_def estimateInputSize_def inputSizeForScript_def startsWith_def endsWith_def countInput_def framingBytesForInput_def
      isUnconfirmedUtxo_def Let_def del: fromHex.simps)

lemma spend_run_ok: "\<exists>g' b'. spend_run = ((g', b'), Inr ())"
proof -
  have d: "isOutpointReserved ''bb:1'' 1000 initReservationMaps = (False, initReservationMaps)"
    "evictExpiredReservations 1000 initReservationMaps = initReservationMaps"
    by (simp_all add: isOutpointReserved_def evictExpiredReservations_def initReservationMaps_def jm_get_def jm_keep_def)
  obtain l g where c: "claimOutpoint (callReservations spend_build) ''bb:1'' 1000 initReservationMaps = (l, g)" by (metis surj_pair)
  have f: "exactInputs spend_build = False" "firstReservedOutpoint spend_build = None" "utxos spend_build = [coinB, coinA]"
    "p2shHash spend_build = None" "selectedInputCount spend_build = 0" "payloadEncoding (preparedData spend_build) = E_OP_RETURN"
    by (simp_all add: spend_build_def blankBuild_def)
  have s: "skipReservedInput 1000 coinB (initReservationMaps, spend_build) = (False, (g, spend_build\<lparr>callReservations := l\<rparr>))"
    by (simp add: skipReservedInput_def f keyOf_coins d c)
  have u: "refuseUnsignableInput exampleLib btcEncoder coinB spend_build = ok ()"
    by (simp add: refuseUnsignableInput_def f btcEncoder_def network_defs)
  show ?thesis
    by (simp add: spend_run_def selectFundingInputs_def selectInputs_def f truthy_def d refuseCappedSelection_def MAX_UTXO_COUNT_def
        checkS_def u s stepS_def take_coinB)
      (simp add: selectionDone_def selectionTargetFee_def clearsStrippedFloor_def btcEncoder_def btc_core_floor spend_build_def blankBuild_def
        exampleLib_def estimateOutputSizeForAddress_def predictedStrippedSize_def strippedTxSize_def varIntSize_def scriptSigLowerBound_def
        emptyPsbt_def addInput_def addOutput_def refuseEmptySelection_def refuseFirstInputRace_def MAX_UTXO_COUNT_def checkS_def Let_def)
qed



section \<open>The first input and the key\<close>

lemma hd_taken:
  assumes "selectInputs L enc txHex fetched others now (g, b) = ((g', b'), Inr ())" "inputsOf b = []" "utxos b \<noteq> []"
    and "exactInputs b \<or> firstReservedOutpoint b = Some (keyOf (hd (utxos b)))"
  shows "inputsOf b' \<noteq> [] \<and> inHash (hd (inputsOf b')) = txid (hd (utxos b)) \<and> inIndex (hd (inputsOf b')) = vout (hd (utxos b)) \<and>
     sameRequest b b'"
proof -
  obtain u us where us: "utxos b = u # us" using assms(3) by (cases "utxos b") auto
  have "selectLoop L enc txHex fetched others now (u # us) (evictExpiredReservations now g, b) = ((g', b'), Inr ())"
    using assms(1) by (simp add: selectInputs_def us)
  from selectLoop_run [OF this] obtain rest where t: "selectedFrom b (u # us) b' (u # rest)" using assms(4) us by auto
  then obtain "is" where "inputsOf b' = is" "map (\<lambda>i. (inHash i, inIndex i)) is = (txid u, vout u) # map (\<lambda>u. (txid u, vout u)) rest"
    "sameRequest b b'" using assms(2) by (auto simp: selectedFrom_def)
  then show ?thesis by (cases "is") (auto simp: us)
qed


definition key_run :: "bstate \<times> unit result" where
  "key_run = bindObfuscationKey 1000 (initReservationMaps, spend_build)"

definition key_build :: build where
  "key_build = spend_build\<lparr>firstReservedOutpoint := Some ''bb:1'', txidFirstInput := Some ''bb'',
     callReservations := \<lparr>claims = [\<lparr>claimKey = ''bb:1'', claimExpiry = 301000, claimOwner = None\<rparr>], buildTxid = None\<rparr>\<rparr>"

lemma key_run_eq: "\<exists>g. key_run = ((g, key_build), Inr ())"
proof -
  have l: "toLowerCase ''bb'' = ''bb''" by code_simp
  have f: "utxos spend_build = [coinB, coinA]" "exactInputs spend_build = False" "callReservations spend_build = \<lparr>claims = [], buildTxid = None\<rparr>"
    by (simp_all add: spend_build_def blankBuild_def)
  have t: "txid coinB = ''bb''" by (simp add: coinB_def)
  have d: "isOutpointReserved ''bb:1'' 1000 initReservationMaps = (False, initReservationMaps)"
    "evictExpiredReservations 1000 initReservationMaps = initReservationMaps"
    by (simp_all add: isOutpointReserved_def evictExpiredReservations_def initReservationMaps_def jm_get_def jm_keep_def)
  show ?thesis
    by (simp add: key_run_def bindObfuscationKey_def f claimFirstFreeInput_def keyOf_coins d claimOutpoint_def reserveOutpoint_def
        RESERVATION_TTL_MS_def t l Let_def)
      (simp add: key_build_def spend_build_def blankBuild_def)
qed

lemma key_build_selects: "\<exists>g' b'. selectInputs exampleLib btcEncoder (\<lambda>_. throw (InternalError ''down'')) False (\<lambda>_ g. g) 1000
    (initReservationMaps, key_build) = ((g', b'), Inr ())"
proof -
  have f: "exactInputs key_build = False" "firstReservedOutpoint key_build = Some ''bb:1''" "utxos key_build = [coinB, coinA]"
    "selectedInputCount key_build = 0" "payloadEncoding (preparedData key_build) = E_OP_RETURN" "evictExpiredReservations 1000 initReservationMaps = initReservationMaps"
    by (simp_all add: key_build_def spend_build_def blankBuild_def evictExpiredReservations_def initReservationMaps_def jm_keep_def)
  have s: "skipReservedInput 1000 coinB (initReservationMaps, key_build) = (False, (initReservationMaps, key_build))"
    by (simp add: skipReservedInput_def f keyOf_coins)
  have u: "refuseUnsignableInput exampleLib btcEncoder coinB key_build = ok ()"
    by (simp add: refuseUnsignableInput_def f btcEncoder_def network_defs)
  obtain b' where t: "takeCandidate exampleLib btcEncoder (\<lambda>_. throw (InternalError ''down'')) False coinB key_build = Inr b'"
    "inputSatoshis b' = 20000" "selectionDone exampleLib btcEncoder b'"
  proof
    let ?b = "key_build\<lparr>psbtOf := Some (addInput \<lparr>inHash = ''bb'', inIndex = 1, inSequence = 0xffffffff,
       witnessUtxo = Some ([0x00, 0x02, 0x01, 0x02], 20000), nonWitnessUtxo = None, redeemScript = None\<rparr> (addOutput [0x51] 5000 emptyPsbt)),
       estimatedTxSize := 361, inputSatoshis := 20000, selectedInputCount := 1, segwitMarkerCounted := True\<rparr>"
    show "takeCandidate exampleLib btcEncoder (\<lambda>_. throw (InternalError ''down'')) False coinB key_build = Inr ?b"
      by (simp add: takeCandidate_def parseSatoshi_def coinB_def MAX_SAFE_INTEGER_def nestedP2wpkhRedeem_def coin_segwit isP2shScript_def
          addSelectedInput_def selectedInput_def isSegwit_def exampleLib_def key_build_def spend_build_def blankBuild_def needPsbt_def utxoSequence_def
          inputSizeOf_def estimateInputSize_def inputSizeForScript_def startsWith_def endsWith_def countInput_def framingBytesForInput_def
          isUnconfirmedUtxo_def Let_def del: fromHex.simps)
    show "inputSatoshis ?b = 20000" by simp
    show "selectionDone exampleLib btcEncoder ?b"
      by (simp add: selectionDone_def selectionTargetFee_def clearsStrippedFloor_def btcEncoder_def btc_core_floor key_build_def spend_build_def blankBuild_def
          exampleLib_def estimateOutputSizeForAddress_def predictedStrippedSize_def strippedTxSize_def varIntSize_def scriptSigLowerBound_def
          emptyPsbt_def addInput_def addOutput_def Let_def)
  qed
  show ?thesis
    by (simp add: selectInputs_def f refuseCappedSelection_def MAX_UTXO_COUNT_def checkS_def u s stepS_def t)
qed


section \<open>Named inputs\<close>


definition exact_build :: build where
  "exact_build = spend_build\<lparr>utxos := [coinB], exactInputs := True\<rparr>"

lemma exact_build_selects: "\<exists>g' b'. selectFundingInputs exampleLib btcEncoder (\<lambda>_. throw (InternalError ''down'')) False (\<lambda>_ g. g) 1000
    (initReservationMaps, exact_build) = ((g', b'), Inr ())"
proof -
  have f: "utxos exact_build = [coinB]" "exactInputs exact_build = True" "p2shHash exact_build = None" "selectedInputCount exact_build = 0"
    "payloadEncoding (preparedData exact_build) = E_OP_RETURN"
    by (simp_all add: exact_build_def spend_build_def blankBuild_def)
  have u: "refuseUnsignableInput exampleLib btcEncoder coinB exact_build = ok ()"
    by (simp add: refuseUnsignableInput_def f btcEncoder_def network_defs)
  let ?b = "exact_build\<lparr>psbtOf := Some (addInput \<lparr>inHash = ''bb'', inIndex = 1, inSequence = 0xffffffff,
       witnessUtxo = Some ([0x00, 0x02, 0x01, 0x02], 20000), nonWitnessUtxo = None, redeemScript = None\<rparr> (addOutput [0x51] 5000 emptyPsbt)),
       estimatedTxSize := 361, inputSatoshis := 20000, selectedInputCount := 1, segwitMarkerCounted := True\<rparr>"
  have t: "takeCandidate exampleLib btcEncoder (\<lambda>_. throw (InternalError ''down'')) False coinB exact_build = Inr ?b"
    by (simp add: takeCandidate_def parseSatoshi_def coinB_def MAX_SAFE_INTEGER_def nestedP2wpkhRedeem_def coin_segwit isP2shScript_def
        addSelectedInput_def selectedInput_def isSegwit_def exampleLib_def exact_build_def spend_build_def blankBuild_def needPsbt_def utxoSequence_def
        inputSizeOf_def estimateInputSize_def inputSizeForScript_def startsWith_def endsWith_def countInput_def framingBytesForInput_def
        isUnconfirmedUtxo_def Let_def del: fromHex.simps)
  have s: "\<not> selectionDone exampleLib btcEncoder ?b" by (simp add: selectionDone_def f)
  show ?thesis
    by (simp add: selectFundingInputs_def selectInputs_def f truthy_def refuseCappedSelection_def MAX_UTXO_COUNT_def
        checkS_def u skipReservedInput_def stepS_def t s)
      (simp add: refuseEmptySelection_def refuseFirstInputRace_def MAX_UTXO_COUNT_def exact_build_def spend_build_def blankBuild_def checkS_def Let_def)
qed


end
