(* ===== verification/JsValue.thy ===== *)
theory JsValue
  imports JsNumber Wire
begin

text \<open>
  JavaScript values as they reach the service: parsed JSON, plus \<open>undefined\<close> for what is absent and a
  \<open>BigInt\<close> for an amount the code has already parsed. A string is its UTF-16 code units, so an
  unpaired surrogate or a unit above \<open>U+00FF\<close> is a value like any other. The regular
  expressions of \<open>src/src/common/validator/\<close> are predicates here; an object is its own properties in
  insertion order, and no property the code reads is on \<open>Object.prototype\<close>.
\<close>

section \<open>Strings\<close>

type_synonym jstring = "16 word list"

text \<open>The JavaScript string with the characters of an Isabelle literal.\<close>

definition js :: "string \<Rightarrow> jstring" where
  "js s = map (\<lambda>c. of_nat (of_char c)) s"

lemma unat_js_char [simp]: "unat (of_nat (of_char c) :: 16 word) = (of_char c :: nat)"
proof -
  have "(of_char c :: nat) < 256" by (metis mod_less_divisor of_char_mod_256 zero_less_numeral)
  then have "(of_char c :: nat) mod 65536 = of_char c" by (intro mod_less) linarith
  then show ?thesis by (simp add: unsigned_of_nat take_bit_nat_def)
qed

lemma js_eq_iff [simp]: "js s = js t \<longleftrightarrow> s = t"
proof
  assume "js s = js t"
  then have "map unat (js s) = map unat (js t)" by simp
  then have "map (of_char :: char \<Rightarrow> nat) s = map of_char t" by (simp add: js_def comp_def)
  then show "s = t" by (simp add: inj_map_eq_map inj_on_def)
qed simp

lemma js_simps [simp]: "length (js s) = length s" "js [] = []" "js s = [] \<longleftrightarrow> s = []"
  "js (s @ t) = js s @ js t" "js (c # s) = of_nat (of_char c) # js s"
  by (simp_all add: js_def)

text \<open>The characters of a string of units below 256; \<open>asciiOf\<close> is partial, for what must be ASCII.\<close>

definition narrow :: "jstring \<Rightarrow> string" where
  "narrow s = map (\<lambda>u. char_of (unat u)) s"

definition asciiOf :: "jstring \<Rightarrow> string option" where
  "asciiOf s = (if list_all (\<lambda>u. unat u < 128) s then Some (narrow s) else None)"

lemma narrow_js [simp]: "narrow (js s) = s"
  by (induction s) (simp_all add: narrow_def)

text \<open>\<open>trim\<close>: white space and line terminators, the byte order mark and the space separators.\<close>

definition isSpaceUnit :: "16 word \<Rightarrow> bool" where
  "isSpaceUnit u = (let n = unat u in 9 \<le> n \<and> n \<le> 13 \<or> n = 32 \<or> n = 160 \<or> n = 0x1680 \<or> 0x2000 \<le> n \<and> n \<le> 0x200a \<or>
     n = 0x2028 \<or> n = 0x2029 \<or> n = 0x202f \<or> n = 0x205f \<or> n = 0x3000 \<or> n = 0xfeff)"

definition trim :: "jstring \<Rightarrow> jstring" where
  "trim s = rev (dropWhile isSpaceUnit (rev (dropWhile isSpaceUnit s)))"

definition isDigit :: "16 word \<Rightarrow> bool" where
  "isDigit u = (48 \<le> unat u \<and> unat u \<le> 57)"

definition isHexUnit :: "16 word \<Rightarrow> bool" where
  "isHexUnit u = (isDigit u \<or> 65 \<le> unat u \<and> unat u \<le> 70 \<or> 97 \<le> unat u \<and> unat u \<le> 102)"

text \<open>\<open>toLowerCase\<close> on a string already known to be ASCII.\<close>

definition lowerUnit :: "16 word \<Rightarrow> 16 word" where
  "lowerUnit u = (if 65 \<le> unat u \<and> unat u \<le> 90 then u + 32 else u)"

text \<open>The patterns, each anchored at both ends.\<close>

definition isHex64 :: "jstring \<Rightarrow> bool" where "isHex64 s = (length s = 64 \<and> list_all isHexUnit s)"
definition isRawHex :: "jstring \<Rightarrow> bool" where "isRawHex s = (s \<noteq> [] \<and> even (length s) \<and> list_all isHexUnit s)"
definition isCompressedHex :: "jstring \<Rightarrow> bool" where
  "isCompressedHex s = (length s = 66 \<and> (take 2 s = js ''02'' \<or> take 2 s = js ''03'') \<and> list_all isHexUnit (drop 2 s))"
definition isUncompressedHex :: "jstring \<Rightarrow> bool" where
  "isUncompressedHex s = (length s = 130 \<and> take 2 s = js ''04'' \<and> list_all isHexUnit (drop 2 s))"
definition isReservationHex :: "jstring \<Rightarrow> bool" where
  "isReservationHex s = (length s = 32 \<and> list_all (\<lambda>u. isDigit u \<or> 97 \<le> unat u \<and> unat u \<le> 102) s)"
definition isNatLiteral :: "jstring \<Rightarrow> bool" where "isNatLiteral s = (s \<noteq> [] \<and> list_all isDigit s)"

definition unsign :: "jstring \<Rightarrow> jstring" where
  "unsign s = (case s of u # r \<Rightarrow> if unat u = 45 then r else s | [] \<Rightarrow> [])"

definition isIntLiteral :: "jstring \<Rightarrow> bool" where "isIntLiteral s = isNatLiteral (unsign s)"

definition isDecimalLiteral :: "jstring \<Rightarrow> bool" where
  "isDecimalLiteral s =
     (let t = unsign s; whole = takeWhile (\<lambda>u. unat u \<noteq> 46) t; rest = dropWhile (\<lambda>u. unat u \<noteq> 46) t
      in isNatLiteral whole \<and> (rest = [] \<or> isNatLiteral (tl rest)))"

section \<open>Numbers in strings\<close>

definition digitsValue :: "jstring \<Rightarrow> nat" where
  "digitsValue s = foldl (\<lambda>a u. 10 * a + (unat u - 48)) 0 s"

definition intValue :: "jstring \<Rightarrow> int" where
  "intValue s = (if unsign s = s then int (digitsValue s) else - int (digitsValue (unsign s)))"

text \<open>
  The double nearest to an exact decimal: rounded to a 53-bit significand, to a multiple of
  \<open>2 ^ -1074\<close> below the normal range, and to an infinity above it.
\<close>

definition js_Number_rat :: "rat \<Rightarrow> jsnum" where
  "js_Number_rat r =
     (if \<bar>r\<bar> < 1 / 2 ^ 1022 then Fin (of_int (rhe (r * 2 ^ 1074)) / 2 ^ 1074)
      else if 2 ^ 1024 \<le> fl r then PosInf else if fl r \<le> - (2 ^ 1024) then NegInf else Fin (fl r))"

definition decimalValue :: "jstring \<Rightarrow> rat" where
  "decimalValue s =
     (let t = unsign s; whole = takeWhile (\<lambda>u. unat u \<noteq> 46) t; frac = drop 1 (dropWhile (\<lambda>u. unat u \<noteq> 46) t);
          r = of_nat (digitsValue (whole @ frac)) / 10 ^ length frac
      in if t = s then r else - r)"

lemma digitsValue_snoc [simp]: "digitsValue (s @ [u]) = 10 * digitsValue s + (unat u - 48)"
  by (simp add: digitsValue_def)

lemma digit_js: "d < 10 \<Longrightarrow> isDigit (of_nat (of_char (digitChar d))) \<and> unat (of_nat (of_char (digitChar d)) :: 16 word) - 48 = d"
proof -
  assume d: "d < 10"
  then have "(of_char (digitChar d) :: nat) = 48 + d" by (simp add: digitChar_def)
  then have "unat (of_nat (of_char (digitChar d)) :: 16 word) = 48 + d" using unat_js_char [of "digitChar d"] by simp
  then show ?thesis using d unfolding isDigit_def by presburger
qed

lemma decimal_digits: "list_all isDigit (js (decimal n)) \<and> digitsValue (js (decimal n)) = n \<and> decimal n \<noteq> []"
proof (induction n rule: decimal.induct)
  case (1 n)
  show ?case
  proof (cases "n < 10")
    case True
    then have "decimal n = [digitChar n]" by (subst decimal.simps) simp
    then show ?thesis using True digit_js [of n] by (simp only: js_def digitsValue_def) simp
  next
    case False
    then have "js (decimal n) = js (decimal (n div 10)) @ [of_nat (of_char (digitChar (n mod 10)))]" by (subst decimal.simps) simp
    then show ?thesis using 1 False digit_js [of "n mod 10"] by (subst (3) decimal.simps) (simp del: unat_js_char)
  qed
qed

section \<open>Values\<close>

datatype jsval =
    Undefined
  | Null
  | Bool bool
  | Num jsnum
  | BigInt int
  | Str jstring
  | Arr "jsval list"
  | Obj "(jstring \<times> jsval) list"

text \<open>\<open>v == null\<close>, a plain object, and the value of a condition.\<close>

fun isNullish :: "jsval \<Rightarrow> bool" where
  "isNullish Undefined = True" | "isNullish Null = True" | "isNullish _ = False"

fun isPlainObject :: "jsval \<Rightarrow> bool" where
  "isPlainObject (Obj _) = True" | "isPlainObject _ = False"

fun truthyVal :: "jsval \<Rightarrow> bool" where
  "truthyVal Undefined = False"
| "truthyVal Null = False"
| "truthyVal (Bool b) = b"
| "truthyVal (Num n) = (n \<noteq> NaN \<and> n \<noteq> Fin 0)"
| "truthyVal (BigInt n) = (n \<noteq> 0)"
| "truthyVal (Str s) = (s \<noteq> [])"
| "truthyVal (Arr _) = True"
| "truthyVal (Obj _) = True"

text \<open>Reading and writing a named property of an object; reading one of any other value gives \<open>undefined\<close>.\<close>

definition getProp :: "jsval \<Rightarrow> string \<Rightarrow> jsval" where
  "getProp v k = (case v of Obj fs \<Rightarrow> (case jm_get fs (js k) of Some x \<Rightarrow> x | None \<Rightarrow> Undefined) | _ \<Rightarrow> Undefined)"

definition setProp :: "string \<Rightarrow> jsval \<Rightarrow> jsval \<Rightarrow> jsval" where
  "setProp k x v = (case v of Obj fs \<Rightarrow> Obj (jm_set (js k) x fs) | _ \<Rightarrow> v)"

definition keysOf :: "jsval \<Rightarrow> jstring list" where
  "keysOf v = (case v of Obj fs \<Rightarrow> map fst fs | _ \<Rightarrow> [])"

lemma getProp_setProp [simp]: "isPlainObject v \<Longrightarrow> getProp (setProp k x v) k' = (if k' = k then x else getProp v k')"
  by (cases v) (auto simp: getProp_def setProp_def jm.get_put)

lemma isPlainObject_setProp [simp]: "isPlainObject (setProp k x v) = isPlainObject v"
  by (cases v) (auto simp: setProp_def)

lemma setProp_same: "isPlainObject v \<Longrightarrow> getProp v k = x \<Longrightarrow> x \<noteq> Undefined \<Longrightarrow> setProp k x v = v"
proof -
  have u: "map_of fs a = Some y \<Longrightarrow> AList.update a y fs = fs" for fs :: "(jstring \<times> jsval) list" and a y
    by (induction fs) auto
  assume "isPlainObject v" "getProp v k = x" "x \<noteq> Undefined"
  then show ?thesis by (cases v) (auto simp: getProp_def setProp_def jm_get_def jm_set_def u split: option.splits)
qed

text \<open>\<open>Number(s)\<close> of a string, and of a JSON value: an array converts through its joined string.\<close>

definition exponentOf :: "jstring \<Rightarrow> int option" where
  "exponentOf s =
     (case s of
        [] \<Rightarrow> Some 0
      | u # r \<Rightarrow>
          if unat u = 101 \<or> unat u = 69
          then (let d = (case r of v # w \<Rightarrow> if unat v = 43 then w else unsign r | [] \<Rightarrow> [])
                in if isNatLiteral d then Some (if d \<noteq> r \<and> unat (hd r) = 45 then - int (digitsValue d) else int (digitsValue d)) else None)
          else None)"

definition unsignedNumber :: "jstring \<Rightarrow> rat option" where
  "unsignedNumber s =
     (let whole = takeWhile isDigit s; rest = dropWhile isDigit s;
          (frac, rest) = (case rest of u # r \<Rightarrow> if unat u = 46 then (takeWhile isDigit r, dropWhile isDigit r) else ([], rest) | [] \<Rightarrow> ([], []))
      in if whole @ frac = [] then None
         else map_option (\<lambda>e. of_nat (digitsValue (whole @ frac)) * power_int 10 (e - int (length frac))) (exponentOf rest))"

definition hexDigitValue :: "16 word \<Rightarrow> nat" where
  "hexDigitValue u = (if isDigit u then unat u - 48 else if unat u \<le> 70 then unat u - 55 else unat u - 87)"

definition radixNumber :: "nat \<Rightarrow> jstring \<Rightarrow> jsnum" where
  "radixNumber b s =
     (if s \<noteq> [] \<and> list_all (\<lambda>u. isHexUnit u \<and> hexDigitValue u < b) s
      then js_Number_int (int (foldl (\<lambda>a u. b * a + hexDigitValue u) 0 s)) else NaN)"

definition stringNumber :: "jstring \<Rightarrow> jsnum" where
  "stringNumber s =
     (let t = trim s; lead = map lowerUnit (take 2 t)
      in if t = [] then Fin 0
         else if lead = js ''0x'' then radixNumber 16 (drop 2 t)
         else if lead = js ''0o'' then radixNumber 8 (drop 2 t)
         else if lead = js ''0b'' then radixNumber 2 (drop 2 t)
         else (let neg = (unat (hd t) = 45); m = (if neg \<or> unat (hd t) = 43 then tl t else t)
               in if m = js ''Infinity'' then (if neg then NegInf else PosInf)
                  else case unsignedNumber m of None \<Rightarrow> NaN | Some r \<Rightarrow> js_Number_rat (if neg then - r else r)))"

fun toNumber :: "jsval \<Rightarrow> jsnum" where
  "toNumber Undefined = NaN"
| "toNumber Null = Fin 0"
| "toNumber (Bool b) = Fin (if b then 1 else 0)"
| "toNumber (Num n) = n"
| "toNumber (BigInt n) = js_Number_int n"
| "toNumber (Str s) = stringNumber s"
| "toNumber (Arr []) = Fin 0"
| "toNumber (Arr [v]) = (case v of Undefined \<Rightarrow> Fin 0 | Null \<Rightarrow> Fin 0 | Bool _ \<Rightarrow> NaN | _ \<Rightarrow> toNumber v)"
| "toNumber (Arr (_ # _ # _)) = NaN"
| "toNumber (Obj _) = NaN"

section \<open>Amounts\<close>

text \<open>\<open>toExactInt\<close>: a number that is one, or a decimal integer literal.\<close>

fun toExactInt :: "jsval \<Rightarrow> jsnum" where
  "toExactInt (Num n) = (if isInteger n then n else NaN)"
| "toExactInt (Str s) = (if isIntLiteral (trim s) then js_Number_int (intValue (trim s)) else NaN)"
| "toExactInt _ = NaN"

definition MAX_SATOSHI_U64 :: int where "MAX_SATOSHI_U64 = 0xffffffffffffffff"

definition parseBigInt :: "bool \<Rightarrow> int \<Rightarrow> int result" where
  "parseBigInt allowBig n =
     (if n < 0 then throw (ParamRangeError ''must be a non-negative integer'')
      else if n \<le> MAX_SAFE_INTEGER then ok n
      else if \<not> allowBig then throw (ParamRangeError ''exceeds the maximum safe satoshi amount'')
      else if MAX_SATOSHI_U64 < n then throw (ParamRangeError ''exceeds the maximum 64-bit satoshi amount'')
      else ok n)"

definition parseSatoshiAmount :: "bool \<Rightarrow> jsval \<Rightarrow> int result" where
  "parseSatoshiAmount allowBig raw =
     (case raw of
        BigInt n \<Rightarrow> parseBigInt allowBig n
      | _ \<Rightarrow>
          (let num = toExactInt raw
           in if num = NaN \<or> js_lt num 0 then throw (ParamRangeError ''must be a non-negative integer'')
              else case (num, isSafeInteger num) of
                (Fin r, True) \<Rightarrow> ok \<lfloor>r\<rfloor>
              | _ \<Rightarrow>
                (case raw of
                   Str s \<Rightarrow>
                     if allowBig
                     then (let big = intValue (trim s)
                           in if MAX_SATOSHI_U64 < big then throw (ParamRangeError ''exceeds the maximum 64-bit satoshi amount'') else ok big)
                     else throw (ParamRangeError ''exceeds the maximum safe satoshi amount'')
                 | _ \<Rightarrow> throw (ParamRangeError ''exceeds the maximum safe satoshi amount''))))"

text \<open>The value the code stores back: a Number where it is exact, a BigInt above.\<close>

definition satoshiVal :: "int \<Rightarrow> jsval" where
  "satoshiVal n = (if n \<le> MAX_SAFE_INTEGER then Num (Fin (of_int n)) else BigInt n)"

end
