(* ===== verification/Validator.thy ===== *)
theory Validator
  imports JsValue Selection
begin

text \<open>
  The request validator of \<open>src/src/common/validator/\<close>: what \<open>create_tx\<close>, \<open>create_envelope_cancel_tx\<close>,
  \<open>broadcast_tx\<close> and \<open>release_inputs\<close> refuse, in the order the code refuses it, and the coerced value
  each check hands on. The curve check is the library's. A field's label is not part of the model's
  message.
\<close>

section \<open>Text on the wire\<close>

definition isHigh :: "16 word \<Rightarrow> bool" where "isHigh u = (0xd800 \<le> unat u \<and> unat u < 0xdc00)"
definition isLow :: "16 word \<Rightarrow> bool" where "isLow u = (0xdc00 \<le> unat u \<and> unat u < 0xe000)"

text \<open>\<open>isWellFormed\<close>: no unpaired surrogate.\<close>

fun isWellFormed :: "jstring \<Rightarrow> bool" where
  "isWellFormed [] = True"
| "isWellFormed [u] = (\<not> isHigh u \<and> \<not> isLow u)"
| "isWellFormed (u # v # r) =
     (if isHigh u \<and> isLow v then isWellFormed r else \<not> isHigh u \<and> \<not> isLow u \<and> isWellFormed (v # r))"

text \<open>\<open>Buffer.from(s, 'utf8')\<close>, which writes \<open>U+FFFD\<close> for an unpaired surrogate, and \<open>Buffer.from(s, 'binary')\<close>.\<close>

definition utf8Unit :: "16 word \<Rightarrow> Buffer" where
  "utf8Unit u =
     (let n = unat u
      in if n < 0x80 then [of_nat n]
         else if n < 0x800 then [of_nat (0xc0 + n div 64), of_nat (0x80 + n mod 64)]
         else if isHigh u \<or> isLow u then [0xef, 0xbf, 0xbd]
         else [of_nat (0xe0 + n div 4096), of_nat (0x80 + n div 64 mod 64), of_nat (0x80 + n mod 64)])"

definition utf8Pair :: "16 word \<Rightarrow> 16 word \<Rightarrow> Buffer" where
  "utf8Pair u v =
     (let n = 0x10000 + (unat u - 0xd800) * 1024 + (unat v - 0xdc00)
      in [of_nat (0xf0 + n div 262144), of_nat (0x80 + n div 4096 mod 64), of_nat (0x80 + n div 64 mod 64), of_nat (0x80 + n mod 64)])"

fun utf8 :: "jstring \<Rightarrow> Buffer" where
  "utf8 [] = []"
| "utf8 [u] = utf8Unit u"
| "utf8 (u # v # r) = (if isHigh u \<and> isLow v then utf8Pair u v @ utf8 r else utf8Unit u @ utf8 (v # r))"

definition latin1 :: "jstring \<Rightarrow> Buffer" where
  "latin1 s = map (\<lambda>u. of_nat (unat u)) s"

fun firstNonLatin1 :: "nat \<Rightarrow> jstring \<Rightarrow> nat option" where
  "firstNonLatin1 i [] = None"
| "firstNonLatin1 i (u # r) = (if 0xff < unat u then Some i else firstNonLatin1 (i + 1) r)"

section \<open>The action fields\<close>

text \<open>\<open>isRaw\<close> says the field is \<open>rawData\<close>.\<close>

definition validateDataParam :: "bool \<Rightarrow> jsval \<Rightarrow> jstring option result" where
  "validateDataParam isRaw v =
     (if isNullish v then ok None
      else case v of
        Str s \<Rightarrow>
          if isRaw
          then (if firstNonLatin1 0 s \<noteq> None then throw (ParamRangeError ''contains a code point above U+00FF'') else ok (Some s))
          else (if isWellFormed s then ok (Some s) else throw (ParamRangeError ''is not well-formed Unicode''))
      | _ \<Rightarrow> throw (ParamTypeError ''must be a string''))"

definition validateActionPushDecodability :: "jstring option \<Rightarrow> jstring option \<Rightarrow> unit result" where
  "validateActionPushDecodability data rawData =
     (if (case data of None \<Rightarrow> False | Some s \<Rightarrow> isMinimalOpSingleByte (utf8 s))
      then throw (ParamRangeError ''data must not be a single byte in the minimal-opcode range'')
      else if (case rawData of None \<Rightarrow> False | Some s \<Rightarrow> isMinimalOpSingleByte (latin1 s))
      then throw (ParamRangeError ''rawData must not be a single byte in the minimal-opcode range'')
      else ok ())"

definition VALID_ACTION_NAMES :: "string list" where
  "VALID_ACTION_NAMES =
     [''ADDRESS'', ''AIRDROP'', ''ANCHOR'', ''ATTEST'', ''BATCH'', ''BET'', ''BROADCAST'', ''CALLBACK'', ''COINPAY'', ''COLLECT'',
      ''DELEGATE'', ''DEPLOY'', ''DEPOSIT'', ''DESTROY'', ''DISPENSER'', ''DIVIDEND'', ''EXECUTE'', ''FILE'', ''ISSUE'', ''LINK'', ''LIST'',
      ''MESSAGE'', ''MINT'', ''NODEPROOF'', ''ORDER'', ''PRICE'', ''ROLLCALL'', ''SEND'', ''SLASH'', ''SLEEP'', ''STAKE'', ''SWAP'', ''SWEEP'',
      ''UNSTAKE'', ''VOTE'', ''WITHDRAW'', ''XBRIDGE'']"

definition ACTION_ALIASES :: "(string \<times> string) list" where
  "ACTION_ALIASES = [(''TRANSFER'', ''SEND''), (''ADDR'', ''ADDRESS''), (''DROP'', ''AIRDROP''), (''CAST'', ''BROADCAST''), (''MSG'', ''MESSAGE'')]"

text \<open>\<open>s.split('|')\<close>, and the leading token when the decoder would not recognize it.\<close>

fun splitBar :: "jstring \<Rightarrow> jstring list" where
  "splitBar [] = [[]]"
| "splitBar (u # r) = (if u = 124 then [] # splitBar r else (u # hd (splitBar r)) # tl (splitBar r))"

definition unknownActionName :: "jstring option \<Rightarrow> jstring option" where
  "unknownActionName data =
     (case data of
        None \<Rightarrow> None
      | Some s \<Rightarrow>
          if s = [] then None
          else (let rawActionName = hd (splitBar s);
                    actionName = (case jm_get (map (map_prod js js) ACTION_ALIASES) rawActionName of Some n \<Rightarrow> n | None \<Rightarrow> rawActionName)
                in if actionName \<in> set (map js VALID_ACTION_NAMES) then None else Some rawActionName))"

definition validateActionName :: "jstring option \<Rightarrow> unit result" where
  "validateActionName data =
     refuseIf (unknownActionName data \<noteq> None) (ParamRangeError ''data has unknown ACTION name'')"

definition MAX_OP_RETURN_COMPILED_LENGTH :: nat where "MAX_OP_RETURN_COMPILED_LENGTH = 76"

definition validateCombinedDataLength :: "jstring option \<Rightarrow> jstring option \<Rightarrow> Encoding option \<Rightarrow> unit result" where
  "validateCombinedDataLength data rawData encoding =
     (if data = None \<and> rawData = None then ok ()
      else (let dataBytes = (case data of Some s \<Rightarrow> length (utf8 s) | None \<Rightarrow> 0);
                rawBytes = (case rawData of Some s \<Rightarrow> length (latin1 s) | None \<Rightarrow> 0);
                compiled = envelopePushSize dataBytes + (if rawData \<noteq> None then envelopePushSize rawBytes else 0);
                wideCeiling = (encoding = Some E_TAPROOT \<or> encoding = Some E_AUTO);
                ceiling = (if wideCeiling then ENVELOPE_MAX_PAYLOAD else MAX_COMPILED_ACTION_DATA_LENGTH)
            in if ceiling < compiled then throw (ParamRangeError ''Combined compiled payload exceeds maximum'')
               else refuseIf (encoding = Some E_OP_RETURN \<and> MAX_OP_RETURN_COMPILED_LENGTH < compiled)
                      (ParamRangeError ''OP_RETURN encoding requires compiled payload <= 76 bytes'')))"

definition encodingNames :: "(jstring \<times> Encoding) list" where
  "encodingNames = [(js ''OP_RETURN'', E_OP_RETURN), (js ''P2SH'', E_P2SH), (js ''MULTISIGN'', E_MULTISIGN), (js ''P2WSH'', E_P2WSH),
     (js ''TAPROOT'', E_TAPROOT), (js ''AUTO'', E_AUTO)]"

definition validateEncoding :: "jsval \<Rightarrow> Encoding option result" where
  "validateEncoding v =
     (if isNullish v then ok None
      else case v of
        Str s \<Rightarrow> (case jm_get encodingNames s of Some e \<Rightarrow> ok (Some e) | None \<Rightarrow> throw (ParamTypeError ''Invalid encoding''))
      | _ \<Rightarrow> throw (ParamTypeError ''Invalid encoding''))"

definition validateActionFields :: "jsval \<Rightarrow> (jstring option \<times> jstring option \<times> Encoding option) result" where
  "validateActionFields params =
     andThen (validateDataParam False (getProp params ''data'')) (\<lambda>data.
     andThen (validateDataParam True (getProp params ''rawData'')) (\<lambda>rawData.
     andThen (validateEncoding (getProp params ''encoding'')) (\<lambda>encoding.
     andThen (if data \<noteq> None \<or> rawData \<noteq> None
              then andThen (validateCombinedDataLength data rawData encoding) (\<lambda>_.
                   andThen (validateActionPushDecodability data rawData) (\<lambda>_. validateActionName data))
              else ok ()) (\<lambda>_.
     ok (data, rawData, encoding)))))"

section \<open>Money fields\<close>

definition MAX_FEE_SATOSHIS :: int where "MAX_FEE_SATOSHIS = 2100000000000"

fun absent :: "jsval \<Rightarrow> bool" where
  "absent (Bool False) = True" | "absent v = isNullish v"

text \<open>\<open>validateFee\<close> and \<open>validateDust\<close>, which differ in their messages only.\<close>

definition validateMoney :: "string \<Rightarrow> jsval \<Rightarrow> int option result" where
  "validateMoney label v =
     (if absent v then ok None
      else case toExactInt v of
        NaN \<Rightarrow> throw (ParamTypeError (label @ '' must be a valid integer''))
      | num \<Rightarrow>
          if js_lt num 0 then throw (ParamRangeError (label @ '' must be non-negative''))
          else if js_gt num (of_int MAX_FEE_SATOSHIS) then throw (ParamRangeError (label @ '' exceeds maximum''))
          else (case num of Fin r \<Rightarrow> ok (Some \<lfloor>r\<rfloor>) | _ \<Rightarrow> throw (ParamRangeError (label @ '' exceeds maximum''))))"

definition validateFee :: "jsval \<Rightarrow> int option result" where "validateFee v = validateMoney ''fee'' v"
definition validateDust :: "jsval \<Rightarrow> int option result" where "validateDust v = validateMoney ''dust'' v"

definition validateFeePerKb :: "jsval \<Rightarrow> rat option result" where
  "validateFeePerKb v =
     (if absent v then ok None
      else andThen (case v of
                      Num n \<Rightarrow> ok n
                    | Str s \<Rightarrow> if isDecimalLiteral (trim s) then ok (js_Number_rat (decimalValue (trim s)))
                               else throw (ParamTypeError ''feePerKb must be a finite number'')
                    | _ \<Rightarrow> throw (ParamTypeError ''feePerKb must be a finite number'')) (\<lambda>num.
           case num of
             Fin r \<Rightarrow> if r \<le> 0 then throw (ParamRangeError ''feePerKb must be positive'')
                       else if of_int MAX_FEE_SATOSHIS < r then throw (ParamRangeError ''feePerKb exceeds maximum'')
                       else ok (Some r)
           | _ \<Rightarrow> throw (ParamTypeError ''feePerKb must be a finite number'')))"

definition validateOptionalBoolean :: "jsval \<Rightarrow> bool option result" where
  "validateOptionalBoolean v =
     (if isNullish v then ok None else case v of Bool b \<Rightarrow> ok (Some b) | _ \<Rightarrow> throw (ParamTypeError ''must be a boolean''))"

section \<open>Candidates and outputs\<close>

definition validateOutpoint :: "jsval \<Rightarrow> jsval \<Rightarrow> (jstring \<times> nat) result" where
  "validateOutpoint tx out =
     (case tx of
        Str s \<Rightarrow>
          if \<not> isHex64 s then throw (ParamTypeError ''txid must be a 64-character hex string'')
          else (case toExactInt out of
                  Fin r \<Rightarrow> if r < 0 \<or> 0xffffffff < r then throw (ParamTypeError ''vout must be a non-negative integer no greater than 4294967295'')
                            else ok (map lowerUnit s, nat \<lfloor>r\<rfloor>)
                | _ \<Rightarrow> throw (ParamTypeError ''vout must be a non-negative integer no greater than 4294967295''))
      | _ \<Rightarrow> throw (ParamTypeError ''txid must be a 64-character hex string''))"

definition validateUtxoOutpoint :: "jsval \<Rightarrow> jsval result" where
  "validateUtxoOutpoint entry =
     (if \<not> isPlainObject entry then throw (ParamTypeError ''utxos entry must be an object'')
      else andThen (validateOutpoint (getProp entry ''txid'') (getProp entry ''vout'')) (\<lambda>(tx, out).
           ok (setProp ''vout'' (Num (Fin (of_nat out))) (setProp ''txid'' (Str tx) entry))))"

definition MAX_SCRIPTPUBKEY_HEX_LENGTH :: nat where "MAX_SCRIPTPUBKEY_HEX_LENGTH = 20000"

definition validateConfirmations :: "jsval \<Rightarrow> jsval result" where
  "validateConfirmations entry =
     (let c = getProp entry ''confirmations''
      in if isNullish c then ok (setProp ''confirmations'' (Num (Fin 0)) entry)
         else (case toExactInt c of
                 Fin r \<Rightarrow> if r < 0 then throw (ParamTypeError ''confirmations must be a non-negative integer'')
                           else ok (setProp ''confirmations'' (Num (Fin r)) entry)
               | _ \<Rightarrow> throw (ParamTypeError ''confirmations must be a non-negative integer'')))"

definition validateUtxoValueAndScript :: "jsval \<Rightarrow> jsval result" where
  "validateUtxoValueAndScript entry =
     andThen (parseSatoshiAmount True (getProp entry ''value'')) (\<lambda>value.
     let entry = setProp ''value'' (satoshiVal value) entry
     in case getProp entry ''scriptPubKey'' of
          Str s \<Rightarrow>
            if s = [] then throw (ParamTypeError ''scriptPubKey must be a non-empty string'')
            else if MAX_SCRIPTPUBKEY_HEX_LENGTH < length s then throw (ParamRangeError ''scriptPubKey exceeds maximum length'')
            else if \<not> isRawHex s then throw (ParamTypeError ''scriptPubKey must be an even-length hex string'')
            else validateConfirmations entry
        | _ \<Rightarrow> throw (ParamTypeError ''scriptPubKey must be a non-empty string''))"

definition validateUtxoEntry :: "jsval \<Rightarrow> jsval result" where
  "validateUtxoEntry entry = andThen (validateUtxoOutpoint entry) validateUtxoValueAndScript"

definition validateUtxoArray :: "jsval \<Rightarrow> jsval list option result" where
  "validateUtxoArray v =
     (if isNullish v then ok None
      else case v of
        Arr us \<Rightarrow> if MAX_UTXO_COUNT < length us then throw (ParamRangeError ''utxos array length exceeds maximum'')
                   else andThen (forEach validateUtxoEntry us) (\<lambda>us. ok (Some us))
      | _ \<Rightarrow> throw (ParamTypeError ''utxos must be an array''))"

definition validateAddress :: "jsval \<Rightarrow> jstring result" where
  "validateAddress v =
     (case v of
        Str s \<Rightarrow> if s = [] then throw (ParamTypeError ''address must be a non-empty string'')
                  else if 100 < length s then throw (ParamTypeError ''address exceeds maximum length (100)'') else ok s
      | _ \<Rightarrow> throw (ParamTypeError ''address must be a non-empty string''))"

text \<open>A threshold of \<open>None\<close>, or of 0, leaves only the rule for positive amounts.\<close>

definition assertPaymentOverDust :: "int option \<Rightarrow> int \<Rightarrow> unit result" where
  "assertPaymentOverDust minPay value =
     refuseIf (case minPay of Some f \<Rightarrow> f \<noteq> 0 \<and> value < f | None \<Rightarrow> False)
       (ParamRangeError ''customOutputs value is below the relay dust threshold for this coin'')"

definition validateCustomOutput :: "int option \<Rightarrow> jsval \<Rightarrow> jsval result" where
  "validateCustomOutput minPay v =
     (if \<not> isPlainObject v then throw (ParamTypeError ''customOutputs entry must be an object'')
      else andThen (validateAddress (getProp v ''address'')) (\<lambda>_.
           andThen (parseSatoshiAmount True (getProp v ''value'')) (\<lambda>value.
           if value \<le> 0 then throw (ParamRangeError ''customOutputs value must be a positive integer'')
           else andThen (assertPaymentOverDust minPay value) (\<lambda>_. ok (setProp ''value'' (satoshiVal value) v)))))"

definition MAX_CUSTOM_OUTPUTS :: nat where "MAX_CUSTOM_OUTPUTS = 100"

definition validateCustomOutputs :: "int option \<Rightarrow> jsval \<Rightarrow> jsval list option result" where
  "validateCustomOutputs minPay v =
     (if isNullish v then ok None
      else case v of
        Arr os \<Rightarrow> if MAX_CUSTOM_OUTPUTS < length os then throw (ParamRangeError ''customOutputs length exceeds maximum'')
                   else andThen (forEach (validateCustomOutput minPay) os) (\<lambda>os. ok (Some os))
      | _ \<Rightarrow> throw (ParamTypeError ''customOutputs must be an array''))"

definition validateFeeQuote :: "jsval \<Rightarrow> jsval option result" where
  "validateFeeQuote v =
     (if isNullish v then ok None
      else if \<not> isPlainObject v then throw (ParamTypeError ''feeQuote must be an object with address and amount'')
      else andThen (validateAddress (getProp v ''address'')) (\<lambda>_.
           case toExactInt (getProp v ''amount'') of
             Fin r \<Rightarrow>
               if r \<le> 0 then throw (ParamRangeError ''feeQuote.amount must be a positive integer'')
               else if of_int MAX_FEE_SATOSHIS < r then throw (ParamRangeError ''feeQuote.amount exceeds maximum'')
               else ok (Some (setProp ''amount'' (Num (Fin r)) v))
           | PosInf \<Rightarrow> throw (ParamRangeError ''feeQuote.amount exceeds maximum'')
           | _ \<Rightarrow> throw (ParamRangeError ''feeQuote.amount must be a positive integer'')))"

section \<open>Keys, transactions and options\<close>

text \<open>\<open>isPoint\<close> is the secp256k1 point check on the bytes of the hex string.\<close>

definition hexBytes :: "jstring \<Rightarrow> Buffer" where "hexBytes s = fromHex (narrow s)"

definition validatePubkey :: "(Buffer \<Rightarrow> bool) \<Rightarrow> jsval \<Rightarrow> jstring option result" where
  "validatePubkey isPoint v =
     (if isNullish v then ok None
      else if (case v of Str s \<Rightarrow> isUncompressedHex s | _ \<Rightarrow> False)
      then throw (ParamTypeError ''pubkey: uncompressed public keys (04 + 128 hex) are not supported'')
      else andThen (validateAddress v) (\<lambda>s.
           if isCompressedHex s \<and> \<not> isPoint (hexBytes s) then throw (ParamTypeError ''pubkey is not a valid secp256k1 point'')
           else ok (Some s)))"

definition validateCompressedKey :: "(Buffer \<Rightarrow> bool) \<Rightarrow> jsval \<Rightarrow> jstring option result" where
  "validateCompressedKey isPoint v =
     (if isNullish v then ok None
      else case v of
        Str s \<Rightarrow>
          if \<not> isCompressedHex s then throw (ParamTypeError ''compressedPubKey must be a 66-character hex string starting with 02 or 03'')
          else if \<not> isPoint (hexBytes s) then throw (ParamTypeError ''compressedPubKey is not a valid secp256k1 point'')
          else ok (Some s)
      | _ \<Rightarrow> throw (ParamTypeError ''compressedPubKey must be a 66-character hex string starting with 02 or 03''))"

definition MAX_RAW_TX_HEX_LENGTH :: nat where "MAX_RAW_TX_HEX_LENGTH = 400000"
definition MAX_BROADCAST_TX_HEX_LENGTH :: nat where "MAX_BROADCAST_TX_HEX_LENGTH = 1000000"

definition validateP2shParams :: "jsval \<Rightarrow> jsval \<Rightarrow> (jstring \<times> jstring) option result" where
  "validateP2shParams hash hex =
     (if absent hash \<and> absent hex then ok None
      else if absent hash \<noteq> absent hex then throw (ParamTypeError ''p2shHash and p2shHex must both be provided or both omitted'')
      else case hash of
        Str h \<Rightarrow>
          if \<not> isHex64 h then throw (ParamTypeError ''p2shHash must be a 64-character hex string'')
          else (case hex of
                  Str x \<Rightarrow>
                    if x = [] then throw (ParamTypeError ''p2shHex must be a non-empty hex string'')
                    else if MAX_RAW_TX_HEX_LENGTH < length x then throw (ParamTypeError ''p2shHex exceeds maximum length'')
                    else if \<not> isRawHex x then throw (ParamTypeError ''p2shHex must be an even-length hex string'')
                    else ok (Some (h, x))
                | _ \<Rightarrow> throw (ParamTypeError ''p2shHex must be a non-empty hex string''))
      | _ \<Rightarrow> throw (ParamTypeError ''p2shHash must be a 64-character hex string''))"

definition validateRawTxHex :: "jsval \<Rightarrow> jstring result" where
  "validateRawTxHex v =
     (case v of
        Str s \<Rightarrow>
          if s = [] then throw (ParamTypeError ''tx_hex must be a non-empty hex string'')
          else if MAX_BROADCAST_TX_HEX_LENGTH < length s then throw (ParamTypeError ''tx_hex exceeds maximum length'')
          else if \<not> isRawHex s then throw (ParamTypeError ''tx_hex must be an even-length hex string'') else ok s
      | _ \<Rightarrow> throw (ParamTypeError ''tx_hex must be a non-empty hex string''))"

definition validateReservationId :: "jsval \<Rightarrow> jstring result" where
  "validateReservationId v =
     (case v of
        Str s \<Rightarrow> if isReservationHex s then ok s
                  else throw (ParamTypeError ''reservationId must be a 32-character lowercase hex string'')
      | _ \<Rightarrow> throw (ParamTypeError ''reservationId must be a 32-character lowercase hex string''))"

definition validateChange :: "jsval \<Rightarrow> jstring option result" where
  "validateChange v = (if isNullish v then ok None else andThen (validateAddress v) (\<lambda>s. ok (Some s)))"

definition VALID_CREATE_TX_OPTIONS :: "string list" where
  "VALID_CREATE_TX_OPTIONS = [''signerSupportsTapscript'', ''exactInputs'']"

text \<open>An options bag, read: its two flags.\<close>

definition validateCreateTxOptions :: "jsval \<Rightarrow> (bool option \<times> bool option) option result" where
  "validateCreateTxOptions v =
     (if isNullish v then ok None
      else if \<not> isPlainObject v then throw (ParamTypeError ''options must be an object'')
      else if \<not> set (keysOf v) \<subseteq> set (map js VALID_CREATE_TX_OPTIONS) then throw (ParamTypeError ''Unknown options key'')
      else andThen (validateOptionalBoolean (getProp v ''signerSupportsTapscript'')) (\<lambda>tapscript.
           andThen (validateOptionalBoolean (getProp v ''exactInputs'')) (\<lambda>exact. ok (Some (tapscript, exact)))))"

section \<open>The whole request\<close>

definition VALID_CREATE_TX_PARAMS :: "string list" where
  "VALID_CREATE_TX_PARAMS =
     [''utxos'', ''pubkey'', ''customOutputs'', ''data'', ''rawData'', ''fee'', ''rbf'', ''encoding'', ''change'', ''p2shHash'', ''p2shHex'',
      ''compressedPubKey'', ''unconfirmed'', ''feePerKb'', ''dust'', ''feeQuote'', ''attachPrevTx'', ''compress'', ''options'']"

definition VALID_CREATE_ENVELOPE_CANCEL_PARAMS :: "string list" where
  "VALID_CREATE_ENVELOPE_CANCEL_PARAMS =
     [''commitTxid'', ''commitVout'', ''commitValue'', ''internalPubkey'', ''tapleafHash'', ''destination'', ''feePerKb'', ''replacebyfee'']"

definition validateEnvelopeCancelParamKeys :: "jsval \<Rightarrow> unit result" where
  "validateEnvelopeCancelParamKeys v =
     (if \<not> isPlainObject v then throw (ParamTypeError ''Request params must be an object'')
      else refuseIf (\<not> set (keysOf v) \<subseteq> set (map js VALID_CREATE_ENVELOPE_CANCEL_PARAMS))
             (ParamTypeError ''Unknown create_envelope_cancel_tx param''))"

record txParams =
  pUtxos :: "jsval list option"
  pPubkey :: jstring
  pCustomOutputs :: "jsval list option"
  pData :: "jstring option"
  pRawData :: "jstring option"
  pFee :: "int option"
  pRbf :: "bool option"
  pEncoding :: "Encoding option"
  pChange :: "jstring option"
  pP2sh :: "(jstring \<times> jstring) option"
  pCompressedPubKey :: "jstring option"
  pUnconfirmed :: "bool option"
  pFeePerKb :: "rat option"
  pDust :: "int option"
  pFeeQuote :: "jsval option"
  pAttachPrevTx :: "bool option"
  pCompress :: "bool option"
  pOptions :: "(bool option \<times> bool option) option"

text \<open>\<open>validateEncodingRequirements\<close> hands the required caller identity on.\<close>

definition validateEncodingRequirements :: "Encoding option \<Rightarrow> jstring option \<Rightarrow> (jstring \<times> jstring) option \<Rightarrow> jstring option \<Rightarrow> jstring result" where
  "validateEncodingRequirements encoding key p2sh pk =
     (if encoding = Some E_MULTISIGN \<and> key = None then throw (ParamTypeError ''compressedPubKey is required for MULTISIGN encoding'')
      else if encoding = Some E_TAPROOT \<and> key = None then throw (ParamTypeError ''compressedPubKey is required for TAPROOT encoding'')
      else if encoding = Some E_TAPROOT \<and> p2sh \<noteq> None then throw (ParamTypeError ''TAPROOT encoding does not use the p2shHash reveal flow'')
      else case pk of None \<Rightarrow> throw (ParamRangeError ''pubkey is required'') | Some s \<Rightarrow> ok s)"

definition validateAll :: "(Buffer \<Rightarrow> bool) \<Rightarrow> int option \<Rightarrow> jsval \<Rightarrow> txParams result" where
  "validateAll isPoint minPay params =
     (if \<not> isPlainObject params then throw (ParamTypeError ''Request params must be an object'')
      else if \<not> set (keysOf params) \<subseteq> set (map js VALID_CREATE_TX_PARAMS) then throw (ParamTypeError ''Unknown create_tx param'')
      else andThen (validateActionFields params) (\<lambda>(data, rawData, encoding).
           andThen (validatePubkey isPoint (getProp params ''pubkey'')) (\<lambda>pk.
           andThen (validateFee (getProp params ''fee'')) (\<lambda>fee.
           andThen (validateFeePerKb (getProp params ''feePerKb'')) (\<lambda>feePerKb.
           andThen (validateDust (getProp params ''dust'')) (\<lambda>dust.
           andThen (validateUtxoArray (getProp params ''utxos'')) (\<lambda>utxos.
           andThen (validateCustomOutputs minPay (getProp params ''customOutputs'')) (\<lambda>outs.
           andThen (validateFeeQuote (getProp params ''feeQuote'')) (\<lambda>feeQuote.
           andThen (validateP2shParams (getProp params ''p2shHash'') (getProp params ''p2shHex'')) (\<lambda>p2sh.
           andThen (validateCompressedKey isPoint (getProp params ''compressedPubKey'')) (\<lambda>key.
           andThen (validateChange (getProp params ''change'')) (\<lambda>change.
           andThen (validateEncodingRequirements encoding key p2sh pk) (\<lambda>pk.
           andThen (validateOptionalBoolean (getProp params ''rbf'')) (\<lambda>rbf.
           andThen (validateOptionalBoolean (getProp params ''unconfirmed'')) (\<lambda>unconf.
           andThen (validateOptionalBoolean (getProp params ''attachPrevTx'')) (\<lambda>prevTx.
           andThen (validateOptionalBoolean (getProp params ''compress'')) (\<lambda>compress.
           andThen (validateCreateTxOptions (getProp params ''options'')) (\<lambda>opts.
           ok \<lparr>pUtxos = utxos, pPubkey = pk, pCustomOutputs = outs, pData = data, pRawData = rawData, pFee = fee, pRbf = rbf,
               pEncoding = encoding, pChange = change, pP2sh = p2sh, pCompressedPubKey = key, pUnconfirmed = unconf,
               pFeePerKb = feePerKb, pDust = dust, pFeeQuote = feeQuote, pAttachPrevTx = prevTx, pCompress = compress,
               pOptions = opts\<rparr>))))))))))))))))))"

end
