(* ===== verification/ValidatorProperties.thy ===== *)
theory ValidatorProperties
  imports Validator
begin

text \<open>
  What the validator guarantees: an amount is read exactly at every size or refused, and an accepted
  candidate input is in canonical form, which a second validation leaves alone.
\<close>

section \<open>Literals\<close>

lemma digit_not_space: "isDigit u \<Longrightarrow> \<not> isSpaceUnit u"
  by (auto simp: isDigit_def isSpaceUnit_def Let_def)

lemma trim_digits: "list_all isDigit s \<Longrightarrow> trim s = s"
proof -
  have d: "list_all isDigit s \<Longrightarrow> dropWhile isSpaceUnit s = s" for s
    by (cases s) (auto dest: digit_not_space)
  assume "list_all isDigit s"
  moreover from this have "list_all isDigit (rev s)" by (simp add: list_all_iff)
  ultimately show ?thesis by (simp add: trim_def d)
qed

lemma unsign_digits: "list_all isDigit s \<Longrightarrow> unsign s = s"
  by (cases s) (auto simp: unsign_def isDigit_def)

lemma decimal_literal [simp]: "isIntLiteral (trim (js (decimal n)))" "intValue (trim (js (decimal n))) = int n"
  using decimal_digits [of n] by (auto simp: trim_digits isIntLiteral_def unsign_digits isNatLiteral_def intValue_def)

lemma minus_literal [simp]: "isIntLiteral (trim (js (CHR ''-'' # decimal n)))" "intValue (trim (js (CHR ''-'' # decimal n))) = - int n"
proof -
  let ?d = "js (decimal n)" and ?m = "of_nat (of_char (CHR ''-'')) :: 16 word"
  have d: "list_all isDigit ?d" "digitsValue ?d = n" "?d \<noteq> []" using decimal_digits [of n] by auto
  have m: "\<not> isSpaceUnit ?m" "unat ?m = 45" by (simp_all add: isSpaceUnit_def Let_def)
  have "dropWhile isSpaceUnit (rev ?d @ [?m]) = rev ?d @ [?m]"
    using d(1,3) by (cases "rev ?d") (auto simp: list_all_iff dest: digit_not_space)
  then have t: "trim (js (CHR ''-'' # decimal n)) = ?m # ?d" using m by (simp add: trim_def del: of_nat_of_char)
  have u: "unsign (?m # ?d) = ?d" using m(2) by (simp add: unsign_def del: of_nat_of_char)
  show "isIntLiteral (trim (js (CHR ''-'' # decimal n)))" "intValue (trim (js (CHR ''-'' # decimal n))) = - int n"
    unfolding t isIntLiteral_def intValue_def u using d by (simp_all add: isNatLiteral_def)
qed

lemma Number_int_not_NaN [simp]: "js_Number_int n \<noteq> NaN"
  by (simp add: js_Number_int_def)

lemma parse_literal:
  assumes "isIntLiteral (trim s)" "intValue (trim s) = n"
  shows "parseSatoshiAmount big (Str s) =
     (if n < 0 then throw (ParamRangeError ''must be a non-negative integer'')
      else if n \<le> MAX_SAFE_INTEGER then ok n
      else if \<not> big then throw (ParamRangeError ''exceeds the maximum safe satoshi amount'')
      else if MAX_SATOSHI_U64 < n then throw (ParamRangeError ''exceeds the maximum 64-bit satoshi amount'') else ok n)"
proof (cases "\<bar>n\<bar> \<le> MAX_SAFE_INTEGER")
  case True
  then show ?thesis using assms by (simp add: parseSatoshiAmount_def js_Number_int_small MAX_SAFE_INTEGER_def abs_le_iff)
next
  case False
  then have u: "\<not> isSafeInteger (js_Number_int n)" by (simp add: isSafeInteger_Number)
  have "js_Number_int n \<noteq> NaN" "js_lt (js_Number_int n) 0 = (n < 0)" by (simp_all add: js_lt_Number_0)
  moreover have "n < 0 \<or> MAX_SAFE_INTEGER < n" using False by auto
  ultimately show ?thesis using assms u
    by (cases "js_Number_int n") (auto simp: parseSatoshiAmount_def Let_def simp del: isSafeInteger.simps)
qed

lemma parse_stored: "0 \<le> n \<Longrightarrow> n \<le> MAX_SATOSHI_U64 \<Longrightarrow> parseSatoshiAmount True (satoshiVal n) = ok n"
  by (auto simp: satoshiVal_def parseSatoshiAmount_def parseBigInt_def MAX_SAFE_INTEGER_def)

text \<open>
  C27. Amounts are never rounded. A decimal string is read as exactly the integer it spells, the ones
  no double holds included, or refused: below zero always, above \<open>2 ^ 53 - 1\<close> where the field does not
  take big amounts, above \<open>2 ^ 64 - 1\<close> where it does. What the validator stores back for it, a Number or a
  BigInt, is read again as the same amount.
\<close>

theorem satoshi_strings_exact:
  "parseSatoshiAmount big (Str (js (decimal n))) =
     (if int n \<le> MAX_SAFE_INTEGER then ok (int n)
      else if \<not> big then throw (ParamRangeError ''exceeds the maximum safe satoshi amount'')
      else if MAX_SATOSHI_U64 < int n then throw (ParamRangeError ''exceeds the maximum 64-bit satoshi amount'') else ok (int n)) \<and>
   parseSatoshiAmount big (Str (js (CHR ''-'' # decimal (Suc n)))) = throw (ParamRangeError ''must be a non-negative integer'') \<and>
   parseSatoshiAmount True (satoshiVal (int n mod (MAX_SATOSHI_U64 + 1))) = ok (int n mod (MAX_SATOSHI_U64 + 1))"
proof (intro conjI)
  show "parseSatoshiAmount True (satoshiVal (int n mod (MAX_SATOSHI_U64 + 1))) = ok (int n mod (MAX_SATOSHI_U64 + 1))"
    by (rule parse_stored) (simp_all add: MAX_SATOSHI_U64_def)
qed (simp_all only: parse_literal [OF decimal_literal] parse_literal [OF minus_literal], simp_all)

section \<open>Candidate inputs\<close>

text \<open>The canonical form of a candidate.\<close>

definition canonicalUtxo :: "jsval \<Rightarrow> bool" where
  "canonicalUtxo u =
     (isPlainObject u \<and>
      (\<exists>s. getProp u ''txid'' = Str s \<and> isHex64 s \<and> map lowerUnit s = s) \<and>
      (\<exists>n. getProp u ''vout'' = Num (Fin (of_nat n)) \<and> n \<le> 0xffffffff) \<and>
      (\<exists>v. getProp u ''value'' = satoshiVal v \<and> 0 \<le> v \<and> v \<le> MAX_SATOSHI_U64) \<and>
      (\<exists>s. getProp u ''scriptPubKey'' = Str s \<and> isRawHex s \<and> length s \<le> 20000) \<and>
      (\<exists>n. getProp u ''confirmations'' = Num (Fin (of_nat n))))"

lemma lowerUnit_hex: "isHexUnit u \<Longrightarrow> isHexUnit (lowerUnit u) \<and> lowerUnit (lowerUnit u) = lowerUnit u"
proof -
  assume h: "isHexUnit u"
  show ?thesis
  proof (cases "65 \<le> unat u \<and> unat u \<le> 90")
    case True
    then have "unat (u + 32) = unat u + 32" by (simp add: unat_word_ariths)
    then show ?thesis using h True by (auto simp: lowerUnit_def isHexUnit_def isDigit_def)
  qed (use h in \<open>auto simp: lowerUnit_def\<close>)
qed

lemma lower_hex64: "isHex64 s \<Longrightarrow> isHex64 (map lowerUnit s) \<and> map lowerUnit (map lowerUnit s) = map lowerUnit s"
  by (auto simp: isHex64_def list_all_iff dest: lowerUnit_hex)

lemma fl_integer: "\<exists>i. fl (of_int n) = of_int i"
proof (cases "\<bar>n\<bar> < 2 ^ 53")
  case False
  let ?x = "\<bar>of_int n :: rat\<bar>"
  have n: "(2::rat) ^ 53 \<le> ?x" using False by (metis not_less of_int_abs of_int_le_iff of_int_numeral of_int_power)
  also have "?x < power_int 2 (flog ?x + 1)" using n by (intro flog_bounds) auto
  finally have "power_int (2::rat) 53 < power_int 2 (flog ?x + 1)" by simp
  then have "53 < flog ?x + 1" by (simp only: pow2_less_iff)
  then obtain k where "flog ?x - 52 = int k" by (intro that [of "nat (flog ?x - 52)"]) simp
  then show ?thesis unfolding fl_def Let_def by (auto intro: exI [of _ "rhe _ * 2 ^ k"])
qed (auto simp: fl_int)

lemma toExactInt_Fin: "toExactInt v = Fin r \<Longrightarrow> \<exists>i. r = of_int i"
proof (cases v)
  case (Num n)
  then show "toExactInt v = Fin r \<Longrightarrow> ?thesis" by (cases n) (auto split: if_splits intro: sym)
next
  case (Str s)
  then show "toExactInt v = Fin r \<Longrightarrow> ?thesis" using fl_integer by (auto simp: js_Number_int_def split: if_splits)
qed auto

lemma toExactInt_whole [simp]: "toExactInt (Num (Fin (of_nat n))) = Fin (of_nat n)"
  by simp

lemma satoshiVal_neq [simp]: "satoshiVal v \<noteq> Undefined" "\<not> isNullish (satoshiVal v)"
  by (simp_all add: satoshiVal_def)

lemma canonical_stays: "canonicalUtxo u \<Longrightarrow> validateUtxoEntry u = Inr u"
proof -
  assume c: "canonicalUtxo u"
  then obtain t n v s k where o: "isPlainObject u" and
    f: "getProp u ''txid'' = Str t" "getProp u ''vout'' = Num (Fin (of_nat n))" "getProp u ''value'' = satoshiVal v"
      "getProp u ''scriptPubKey'' = Str s" "getProp u ''confirmations'' = Num (Fin (of_nat k))" and
    b: "isHex64 t" "map lowerUnit t = t" "n \<le> 0xffffffff" "0 \<le> v" "v \<le> MAX_SATOSHI_U64" "isRawHex s" "length s \<le> 20000"
    by (auto simp: canonicalUtxo_def)
  have n: "(of_nat n :: rat) \<le> 0xffffffff" using b(3) by (metis of_nat_le_iff of_nat_numeral)
  have w: "validateOutpoint (Str t) (Num (Fin (of_nat n))) = ok (t, n)"
    using b(1,2) n by (simp add: validateOutpoint_def del: toExactInt.simps)
  have same: "setProp ''txid'' (Str t) u = u" "setProp ''vout'' (Num (Fin (of_nat n))) u = u"
    "setProp ''value'' (satoshiVal v) u = u" "setProp ''confirmations'' (Num (Fin (of_nat k))) u = u"
    using o f by (simp_all add: setProp_same)
  have x: "validateUtxoOutpoint u = ok u" using o by (simp add: validateUtxoOutpoint_def f w same)
  have y: "validateConfirmations u = ok u"
    by (simp add: validateConfirmations_def f Let_def same del: toExactInt.simps)
  have "s \<noteq> []" using b(6) by (simp add: isRawHex_def)
  then have "validateUtxoValueAndScript u = ok u"
    using b by (simp add: validateUtxoValueAndScript_def f parse_stored same Let_def y MAX_SCRIPTPUBKEY_HEX_LENGTH_def)
  then show ?thesis using x by (simp add: validateUtxoEntry_def)
qed

lemma parse_bounds: "parseSatoshiAmount True v = Inr n \<Longrightarrow> 0 \<le> n \<and> n \<le> MAX_SATOSHI_U64"
proof -
  have safe: "isSafeInteger (Fin r) \<Longrightarrow> \<not> r < 0 \<Longrightarrow> 0 \<le> \<lfloor>r\<rfloor> \<and> \<lfloor>r\<rfloor> \<le> MAX_SATOSHI_U64" for r
  proof -
    assume r: "isSafeInteger (Fin r)" "\<not> r < 0"
    then have "(of_int \<lfloor>r\<rfloor> :: rat) \<le> of_int MAX_SAFE_INTEGER" by auto
    then show ?thesis using r by (simp add: MAX_SAFE_INTEGER_def MAX_SATOSHI_U64_def)
  qed
  assume p: "parseSatoshiAmount True v = Inr n"
  show ?thesis
  proof (cases v)
    case (BigInt m)
    then show ?thesis using p by (auto simp: parseSatoshiAmount_def parseBigInt_def MAX_SAFE_INTEGER_def MAX_SATOSHI_U64_def split: if_splits)
  next
    case (Num m)
    then obtain r where "isSafeInteger (Fin r)" "\<not> r < 0" "n = \<lfloor>r\<rfloor>"
      using p by (cases m) (auto simp: parseSatoshiAmount_def Let_def simp del: isSafeInteger.simps split: if_splits bool.splits)
    then show ?thesis using safe by simp
  next
    case (Str s)
    then have "isIntLiteral (trim s)" using p by (auto simp: parseSatoshiAmount_def Let_def split: if_splits)
    from parse_literal [OF this refl] show ?thesis using p Str
      by (auto simp: MAX_SAFE_INTEGER_def MAX_SATOSHI_U64_def split: if_splits)
  qed (use p in \<open>auto simp: parseSatoshiAmount_def Let_def\<close>)
qed

lemma outpoint_run: "validateOutpoint t v = Inr (tx, out) \<Longrightarrow>
    isHex64 tx \<and> map lowerUnit tx = tx \<and> out \<le> 0xffffffff \<and> (\<exists>s. t = Str s \<and> tx = map lowerUnit s)"
proof -
  assume r: "validateOutpoint t v = Inr (tx, out)"
  then obtain s q where s: "t = Str s" "isHex64 s" "tx = map lowerUnit s" "toExactInt v = Fin q" "\<not> q < 0" "\<not> 0xffffffff < q" "out = nat \<lfloor>q\<rfloor>"
    by (auto simp: validateOutpoint_def split: jsval.splits jsnum.splits if_splits)
  then have "\<lfloor>q\<rfloor> \<le> 0xffffffff" by (simp add: floor_le_iff)
  then show ?thesis using s lower_hex64 [of s] by (simp add: nat_le_iff)
qed

lemma confirmations_run: "validateConfirmations e = Inr u \<Longrightarrow> \<exists>n. u = setProp ''confirmations'' (Num (Fin (of_nat n))) e"
proof -
  assume r: "validateConfirmations e = Inr u"
  show ?thesis
  proof (cases "isNullish (getProp e ''confirmations'')")
    case True
    then show ?thesis using r by (auto simp: validateConfirmations_def Let_def intro: exI [of _ 0])
  next
    case False
    then obtain q where q: "toExactInt (getProp e ''confirmations'') = Fin q" "\<not> q < 0" "u = setProp ''confirmations'' (Num (Fin q)) e"
      using r by (auto simp: validateConfirmations_def Let_def split: jsnum.splits if_splits)
    then obtain i where "q = of_int i" using toExactInt_Fin by blast
    then have "q = of_nat (nat i)" using q(2) by simp
    then show ?thesis using q(3) by blast
  qed
qed

lemma entry_run:
  assumes "validateUtxoEntry e = Inr u"
  obtains tx out v n where "isPlainObject e" "validateOutpoint (getProp e ''txid'') (getProp e ''vout'') = Inr (tx, out)"
    "parseSatoshiAmount True (getProp e ''value'') = Inr v" "\<exists>s. getProp e ''scriptPubKey'' = Str s \<and> isRawHex s \<and> length s \<le> 20000"
    "u = setProp ''confirmations'' (Num (Fin (of_nat n))) (setProp ''value'' (satoshiVal v)
           (setProp ''vout'' (Num (Fin (of_nat out))) (setProp ''txid'' (Str tx) e)))"
proof -
  obtain w where w: "validateUtxoOutpoint e = Inr w" "validateUtxoValueAndScript w = Inr u"
    using assms by (auto simp: validateUtxoEntry_def result_simps)
  then obtain tx out where t: "isPlainObject e" "validateOutpoint (getProp e ''txid'') (getProp e ''vout'') = Inr (tx, out)"
    "w = setProp ''vout'' (Num (Fin (of_nat out))) (setProp ''txid'' (Str tx) e)"
    by (auto simp: validateUtxoOutpoint_def result_simps split: if_splits)
  moreover from this have e: "getProp w ''value'' = getProp e ''value''" "isPlainObject w"
    "\<And>x. getProp (setProp ''value'' x w) ''scriptPubKey'' = getProp e ''scriptPubKey''" by simp_all
  moreover obtain v where v: "parseSatoshiAmount True (getProp e ''value'') = Inr v"
    using w(2) e by (auto simp: validateUtxoValueAndScript_def result_simps)
  moreover have "(\<exists>s. getProp e ''scriptPubKey'' = Str s \<and> isRawHex s \<and> length s \<le> 20000) \<and> validateConfirmations (setProp ''value'' (satoshiVal v) w) = Inr u"
    using w(2) e v by (cases "getProp e ''scriptPubKey''")
      (auto simp: validateUtxoValueAndScript_def Let_def MAX_SCRIPTPUBKEY_HEX_LENGTH_def split: if_splits)
  ultimately show ?thesis using that confirmations_run by metis
qed

lemma entry_canonical: "validateUtxoEntry e = Inr u \<Longrightarrow> canonicalUtxo u"
proof -
  assume "validateUtxoEntry e = Inr u"
  from entry_run [OF this] obtain tx out v n where "isPlainObject e" and o: "validateOutpoint (getProp e ''txid'') (getProp e ''vout'') = Inr (tx, out)"
    and p: "parseSatoshiAmount True (getProp e ''value'') = Inr v" and "\<exists>s. getProp e ''scriptPubKey'' = Str s \<and> isRawHex s \<and> length s \<le> 20000"
    "u = setProp ''confirmations'' (Num (Fin (of_nat n))) (setProp ''value'' (satoshiVal v)
           (setProp ''vout'' (Num (Fin (of_nat out))) (setProp ''txid'' (Str tx) e)))" .
  then show ?thesis using outpoint_run [OF o] parse_bounds [OF p] by (auto simp: canonicalUtxo_def)
qed


text \<open>An entry with an upper-case txid and its amount as a string.\<close>

definition sample_entry :: jsval where
  "sample_entry = Obj [(js ''txid'', Str (replicate 64 0x41)), (js ''vout'', Num (Fin 1)), (js ''value'', Str (js (decimal 20000000000000000))),
     (js ''scriptPubKey'', Str (js ''51'')), (js ''note'', Null)]"


end
