(* ===== verification/Compression.thy ===== *)
theory Compression
  imports Validator
begin

text \<open>
  Transparent compression of FILE payloads, \<open>src/src/build/compression.js\<close>. An action string is read and
  rewritten by its \<open>|\<close>-separated fields; deflate is zlib's, a parameter that answers \<open>None\<close> when it fails.
\<close>

section \<open>The action string\<close>

definition GATE_TICKER_FIELD_INDEX :: nat where "GATE_TICKER_FIELD_INDEX = 6"
definition COMPRESSION_FIELD_INDEX :: nat where "COMPRESSION_FIELD_INDEX = 10"
definition COMPRESSION_CODE_DEFLATE_RAW :: jstring where "COMPRESSION_CODE_DEFLATE_RAW = js ''1''"
definition COMPRESSION_MAX_RATIO :: nat where "COMPRESSION_MAX_RATIO = 150"
definition COMPRESSION_MAX_INPUT_BYTES :: nat where "COMPRESSION_MAX_INPUT_BYTES = 16 * 1024 * 1024"

text \<open>
  \<open>toUpperCase\<close>, on the units whose upper case has an ASCII letter: the small letters, the sharp and the long s, the
  dotless i and the ligatures. Any other unit has none.
\<close>

definition upperUnit :: "16 word \<Rightarrow> jstring" where
  "upperUnit u =
     (if 97 \<le> unat u \<and> unat u \<le> 122 then [u - 32]
      else if u = 0xdf then js ''SS'' else if u = 0x131 then js ''I'' else if u = 0x17f then js ''S''
      else if u = 0xfb00 then js ''FF'' else if u = 0xfb01 then js ''FI'' else if u = 0xfb02 then js ''FL''
      else if u = 0xfb03 then js ''FFI'' else if u = 0xfb04 then js ''FFL''
      else if u = 0xfb05 \<or> u = 0xfb06 then js ''ST''
      else [u])"

definition toUpper :: "jstring \<Rightarrow> jstring" where "toUpper s = concat (map upperUnit s)"

fun joinBar :: "jstring list \<Rightarrow> jstring" where
  "joinBar [] = []"
| "joinBar [p] = p"
| "joinBar (p # q # r) = p @ js ''|'' @ joinBar (q # r)"

definition isFileV0Action :: "jstring option \<Rightarrow> bool" where
  "isFileV0Action action =
     (case action of
        None \<Rightarrow> False
      | Some s \<Rightarrow> s \<noteq> [] \<and> toUpper (splitBar s ! 0) = js ''FILE'' \<and>
                  1 < length (splitBar s) \<and> splitBar s ! 1 = js ''0'')"

text \<open>The field at an index of a FILE, empty when there is none.\<close>

definition fileField :: "nat \<Rightarrow> jstring option \<Rightarrow> jstring" where
  "fileField i action =
     (if isFileV0Action action \<and> i < length (splitBar (the action)) then splitBar (the action) ! i else [])"

definition isGatedFileAction :: "jstring option \<Rightarrow> bool" where
  "isGatedFileAction action = (fileField GATE_TICKER_FIELD_INDEX action \<noteq> [])"

definition compressionFieldOf :: "jstring option \<Rightarrow> jstring" where
  "compressionFieldOf action = fileField COMPRESSION_FIELD_INDEX action"

text \<open>\<open>while (parts.length > 2 && last is empty) parts.pop()\<close>\<close>

function dropTrailingEmpty :: "jstring list \<Rightarrow> jstring list" where
  "dropTrailingEmpty parts = (if 2 < length parts \<and> last parts = [] then dropTrailingEmpty (butlast parts) else parts)"
  by auto
termination by (relation "measure length") auto

declare dropTrailingEmpty.simps [simp del]

definition padFields :: "jstring list \<Rightarrow> jstring list" where
  "padFields parts = parts @ replicate (Suc COMPRESSION_FIELD_INDEX - length parts) []"

definition withCompressionField :: "jstring \<Rightarrow> jstring \<Rightarrow> jstring" where
  "withCompressionField action value =
     joinBar (dropTrailingEmpty ((padFields (splitBar action))[COMPRESSION_FIELD_INDEX := value]))"

section \<open>The decision\<close>

text \<open>The first guard that refuses, as the error class and the reason it reports.\<close>

definition guardCompressible :: "jstring option \<Rightarrow> Buffer \<Rightarrow> (err \<times> string) option" where
  "guardCompressible action rawData =
     (if \<not> isFileV0Action action then Some (ParamTypeError ''Compression requested, but COMPRESSION is a FILE v0 field'', ''not-a-file-action'')
      else if isGatedFileAction action then Some (ParamTypeError ''Compression requested for a token-gated FILE'', ''gated-file'')
      else if compressionFieldOf action \<noteq> []
      then Some (ParamTypeError ''Compression requested, but the action already declares COMPRESSION'', ''codec-already-declared'')
      else if COMPRESSION_MAX_INPUT_BYTES < length rawData then Some (ParamRangeError ''Payload exceeds the compression input cap'', ''over-input-cap'')
      else None)"

record compression =
  crData :: "jstring option"
  crRawData :: Buffer
  crCompressed :: bool
  crRawLength :: nat
  crStoredLength :: nat
  crReason :: "string option"

definition unchanged :: "jstring option \<Rightarrow> Buffer \<Rightarrow> string \<Rightarrow> compression" where
  "unchanged action rawData reason =
     \<lparr>crData = action, crRawData = rawData, crCompressed = False, crRawLength = length rawData,
      crStoredLength = length rawData, crReason = Some reason\<rparr>"

definition overRatio :: "nat \<Rightarrow> nat \<Rightarrow> bool" where
  "overRatio rawLen storedLen = (storedLen = 0 \<or> of_nat COMPRESSION_MAX_RATIO < fl (of_nat rawLen / of_nat storedLen))"

definition compressPayloadForAction :: "(Buffer \<Rightarrow> Buffer option) \<Rightarrow> bool \<Rightarrow> jstring option \<Rightarrow> Buffer \<Rightarrow> compression result" where
  "compressPayloadForAction deflate explicit action rawData =
     (if rawData = [] then ok (unchanged action rawData ''no-payload'')
      else case guardCompressible action rawData of
        Some (e, reason) \<Rightarrow> if explicit then throw e else ok (unchanged action rawData reason)
      | None \<Rightarrow>
          (case deflate rawData of
             None \<Rightarrow> ok (unchanged action rawData ''deflate-failed'')
           | Some deflated \<Rightarrow>
               if length rawData \<le> length deflated then ok (unchanged action rawData ''not-smaller'')
               else if overRatio (length rawData) (length deflated) then ok (unchanged action rawData ''ratio-guard'')
               else ok \<lparr>crData = Some (withCompressionField (the action) COMPRESSION_CODE_DEFLATE_RAW), crRawData = deflated,
                        crCompressed = True, crRawLength = length rawData, crStoredLength = length deflated, crReason = None\<rparr>))"

section \<open>Fields of a rewritten action\<close>

lemma splitBar_neq [simp]: "splitBar s \<noteq> []"
  by (cases s) auto

lemma bar [simp]: "js ''|'' = [124]"
  by (simp add: js_def)

lemma join_split: "joinBar (splitBar s) = s"
proof (induction s)
  case (Cons u r)
  obtain p ps where s: "splitBar r = p # ps" by (cases "splitBar r") auto
  show ?case using Cons s by (cases "u = 124"; cases ps) auto
qed simp

lemma split_parts: "p \<in> set (splitBar s) \<Longrightarrow> 124 \<notin> set p"
proof (induction s arbitrary: p)
  case (Cons u r)
  have m: "hd (splitBar r) \<in> set (splitBar r)" "set (tl (splitBar r)) \<subseteq> set (splitBar r)"
    by (auto intro: list.set_sel(2))
  then show ?case using Cons by (auto split: if_splits dest: list.set_sel(2) [rotated])
qed simp

lemma split_append: "124 \<notin> set p \<Longrightarrow> splitBar (p @ s) = (p @ hd (splitBar s)) # tl (splitBar s)"
  by (induction p) auto

lemma split_join: "ps \<noteq> [] \<Longrightarrow> \<forall>p \<in> set ps. 124 \<notin> set p \<Longrightarrow> splitBar (joinBar ps) = ps"
proof (induction ps rule: joinBar.induct)
  case (2 p)
  then show ?case using split_append [of p "[]"] by simp
next
  case (3 p q r)
  then show ?case using split_append [of p "124 # joinBar (q # r)"] by simp
qed simp

lemma dropTrailing_prefix: "\<exists>k. dropTrailingEmpty ps @ replicate k [] = ps \<and> (2 \<le> length ps \<longrightarrow> 2 \<le> length (dropTrailingEmpty ps))"
proof (induction ps rule: dropTrailingEmpty.induct)
  case (1 ps)
  show ?case
  proof (cases "2 < length ps \<and> last ps = []")
    case True
    from 1 [OF this] obtain k where k: "dropTrailingEmpty (butlast ps) @ replicate k [] = butlast ps" "2 \<le> length (dropTrailingEmpty (butlast ps))"
      using True by auto
    have "dropTrailingEmpty (butlast ps) @ replicate (Suc k) [] = (dropTrailingEmpty (butlast ps) @ replicate k []) @ [[]]"
      by (simp add: replicate_append_same)
    then have "dropTrailingEmpty ps @ replicate (Suc k) [] = butlast ps @ [[]]"
      using k(1) True by (subst dropTrailingEmpty.simps) (simp del: replicate_Suc)
    moreover have "butlast ps @ [[]] = ps" using True by (metis append_butlast_last_id list.size(3) not_less_zero)
    ultimately show ?thesis using k(2) True by (subst (2) dropTrailingEmpty.simps) (auto intro!: exI [of _ "Suc k"])
  next
    case False
    then show ?thesis by (subst (1 2) dropTrailingEmpty.simps) (auto intro: exI [of _ 0])
  qed
qed

text \<open>A field by index, empty past the end; this is what the readers of an action look at.\<close>

definition nthField :: "jstring list \<Rightarrow> nat \<Rightarrow> jstring" where
  "nthField ps i = (if i < length ps then ps ! i else [])"

lemma nthField_drop [simp]: "nthField (dropTrailingEmpty ps) i = nthField ps i"
proof -
  obtain k where "ps = dropTrailingEmpty ps @ replicate k []" using dropTrailing_prefix by metis
  then have "nthField ps i = nthField (dropTrailingEmpty ps @ replicate k []) i" by metis
  then show ?thesis by (auto simp: nthField_def nth_append)
qed

lemma nthField_pad [simp]: "nthField (padFields ps) i = nthField ps i"
  by (auto simp: nthField_def padFields_def nth_append)

lemma length_padFields: "length (padFields ps) = max 11 (length ps)"
  by (simp add: padFields_def COMPRESSION_FIELD_INDEX_def)

lemma nthField_update: "i < length ps \<Longrightarrow> nthField (ps[i := v]) j = (if j = i then v else nthField ps j)"
  by (auto simp: nthField_def)

lemma split_with:
  assumes "124 \<notin> set v"
  shows "splitBar (withCompressionField s v) = dropTrailingEmpty ((padFields (splitBar s))[COMPRESSION_FIELD_INDEX := v])"
proof -
  let ?ps = "(padFields (splitBar s))[COMPRESSION_FIELD_INDEX := v]"
  have l: "length ?ps = max 11 (length (splitBar s))" by (simp add: length_padFields)
  obtain k where k: "dropTrailingEmpty ?ps @ replicate k [] = ?ps" "2 \<le> length ?ps \<longrightarrow> 2 \<le> length (dropTrailingEmpty ?ps)"
    using dropTrailing_prefix by metis
  then have "dropTrailingEmpty ?ps \<noteq> []" using l by auto
  moreover have "\<forall>p \<in> set ?ps. 124 \<notin> set p"
    using assms set_update_subset_insert [of "padFields (splitBar s)" COMPRESSION_FIELD_INDEX v] split_parts [of _ s] by (auto simp: padFields_def)
  then have "\<forall>p \<in> set (dropTrailingEmpty ?ps). 124 \<notin> set p" using k(1) by (metis UnI1 set_append)
  ultimately show ?thesis unfolding withCompressionField_def by (rule split_join)
qed

lemma field_with: "124 \<notin> set v \<Longrightarrow> nthField (splitBar (withCompressionField s v)) i =
    (if i = COMPRESSION_FIELD_INDEX then v else nthField (splitBar s) i)"
  by (simp add: split_with nthField_update length_padFields COMPRESSION_FIELD_INDEX_def)

text \<open>The FILE test in terms of fields.\<close>

lemma isFileV0_fields: "isFileV0Action (Some s) \<longleftrightarrow>
    toUpper (nthField (splitBar s) 0) = js ''FILE'' \<and> nthField (splitBar s) 1 = js ''0''"
  by (auto simp: isFileV0Action_def nthField_def split: if_splits)

lemma isFileV0_None [simp]: "\<not> isFileV0Action None"
  by (simp add: isFileV0Action_def)

lemma fileField_eq: "fileField i (Some s) = (if isFileV0Action (Some s) then nthField (splitBar s) i else [])"
  by (simp add: fileField_def nthField_def)

lemma marked:
  assumes "isFileV0Action (Some s)" "124 \<notin> set v"
  shows "isFileV0Action (Some (withCompressionField s v)) \<and>
     fileField i (Some (withCompressionField s v)) = (if i = COMPRESSION_FIELD_INDEX then v else fileField i (Some s))"
proof -
  have "isFileV0Action (Some (withCompressionField s v))"
    using assms unfolding isFileV0_fields field_with [OF assms(2)] by (simp add: COMPRESSION_FIELD_INDEX_def)
  then show ?thesis using assms by (simp add: fileField_eq field_with)
qed

end
