(* ===== verification/PayloadChecks.thy ===== *)
theory PayloadChecks
  imports Compression
begin

text \<open>
  The payload steps of a build, \<open>src/src/XChainEncoder/build_transaction/payload_checks.js\<close>, and the address
  check they share with the cancel path (\<open>request_resolution.js\<close>). Payload fields are strings; a library
  caller may also hand over a \<open>Buffer\<close>, which is copied byte for byte and not modelled.
\<close>

section \<open>What the caller asked for\<close>

record request =
  rqData :: "jstring option"
  rqRawData :: "jstring option"
  rqFeeQuote :: "(string \<times> int) option"
  rqEncoding :: "Encoding option"
  rqCompress :: "bool option"
  rqTapscript :: "bool option"

record payloadState =
  psData :: "jstring option"
  psRawData :: "jstring option"
  psCompression :: "compression option"
  psUnknownAction :: "jstring option"
  psFinal :: Buffer
  psHasAction :: bool
  psRawDataOnly :: bool
  psEncoding :: "Encoding option"

definition startPayload :: "request \<Rightarrow> payloadState" where
  "startPayload rq = \<lparr>psData = rqData rq, psRawData = rqRawData rq, psCompression = None, psUnknownAction = None,
     psFinal = [], psHasAction = False, psRawDataOnly = False, psEncoding = rqEncoding rq\<rparr>"

section \<open>Addresses and payments\<close>

definition assertAddressOnNetwork :: "lib \<Rightarrow> string \<Rightarrow> unit result" where
  "assertAddressOnNetwork L address =
     (if address = [] then throw (ParamTypeError ''address must be a non-empty string'')
      else if 100 < length address then throw (ParamTypeError ''address exceeds maximum length (100)'')
      else case toOutputScript L address of
             None \<Rightarrow> throw (ParamTypeError ''is not a valid address for this network'')
           | Some _ \<Rightarrow> ok ())"

text \<open>The fee quote that becomes an output: \<open>feeQuote && feeQuote.address && feeQuote.amount > 0\<close>.\<close>

definition effectiveQuote :: "request \<Rightarrow> (string \<times> int) option" where
  "effectiveQuote rq = (case rqFeeQuote rq of
     Some (a, v) \<Rightarrow> if a \<noteq> [] \<and> 0 < v then Some (a, v) else None | None \<Rightarrow> None)"

definition checkOutputAddresses :: "lib \<Rightarrow> request \<Rightarrow> build \<Rightarrow> unit result" where
  "checkOutputAddresses L rq b =
     andThen (forEach (\<lambda>c. assertAddressOnNetwork L (coAddress c)) (customOutputs b)) (\<lambda>_.
     andThen (case effectiveQuote rq of Some (a, v) \<Rightarrow> assertAddressOnNetwork L a | None \<Rightarrow> ok ()) (\<lambda>_.
     if truthy (change b) then assertAddressOnNetwork L (the (change b)) else ok ()))"

definition checkPayment :: "encoder \<Rightarrow> customOutput \<Rightarrow> unit result" where
  "checkPayment enc c =
     andThen (parseBigInt True (coValue c)) (\<lambda>value.
     if value \<le> 0 then throw (ParamRangeError ''customOutputs value must be a positive integer'')
     else assertPaymentOverDust (Some (paymentOutputFloor enc)) value)"

definition checkPaymentDust :: "encoder \<Rightarrow> build \<Rightarrow> unit result" where
  "checkPaymentDust enc b = andThen (forEach (checkPayment enc) (customOutputs b)) (\<lambda>_. ok ())"

definition injectFeeQuoteOutput :: "request \<Rightarrow> build \<Rightarrow> build" where
  "injectFeeQuoteOutput rq b =
     (case effectiveQuote rq of
        None \<Rightarrow> b
      | Some (a, v) \<Rightarrow> b\<lparr>customOutputs := customOutputs b @ [\<lparr>coAddress = a, coValue = v, isFeeQuote = True\<rparr>]\<rparr>)"

definition checkPayloadInput :: "lib \<Rightarrow> encoder \<Rightarrow> request \<Rightarrow> build \<Rightarrow> (payloadState \<times> build) result" where
  "checkPayloadInput L enc rq b =
     andThen (case rqData rq of Some s \<Rightarrow> validateDataParam False (Str s) | None \<Rightarrow> ok None) (\<lambda>_.
     andThen (case rqRawData rq of Some s \<Rightarrow> validateDataParam True (Str s) | None \<Rightarrow> ok None) (\<lambda>_.
     let unknownAction = unknownActionName (rqData rq)
     in andThen (checkOutputAddresses L rq b) (\<lambda>_.
        andThen (checkPaymentDust enc b) (\<lambda>_.
        ok ((startPayload rq)\<lparr>psUnknownAction := unknownAction\<rparr>, injectFeeQuoteOutput rq b)))))"

section \<open>Compression, compilation and the carrier\<close>

text \<open>The deployment default: on, unless the environment says \<open>0\<close>, \<open>false\<close> or \<open>off\<close>.\<close>

definition defaultCompressionEnabled :: "string option \<Rightarrow> bool" where
  "defaultCompressionEnabled raw =
     (case raw of None \<Rightarrow> True | Some s \<Rightarrow> s = [] \<or> \<not> (s = ''0'' \<or> toLowerCase s = ''false'' \<or> toLowerCase s = ''off''))"

text \<open>\<open>toString('binary')\<close>\<close>

definition fromLatin1 :: "Buffer \<Rightarrow> jstring" where
  "fromLatin1 d = map (\<lambda>b. of_nat (unat b)) d"

definition compressPayload :: "(Buffer \<Rightarrow> Buffer option) \<Rightarrow> string option \<Rightarrow> request \<Rightarrow> payloadState \<Rightarrow> payloadState result" where
  "compressPayload deflate setting rq ps =
     (let enabled = (case rqCompress rq of Some c \<Rightarrow> c | None \<Rightarrow> defaultCompressionEnabled setting)
      in case psRawData ps of
           Some raw \<Rightarrow>
             if enabled
             then andThen (compressPayloadForAction deflate (rqCompress rq \<noteq> None) (psData ps) (latin1 raw)) (\<lambda>r.
                  ok (if crCompressed r then ps\<lparr>psData := crData r, psRawData := Some (fromLatin1 (crRawData r)), psCompression := Some r\<rparr>
                      else ps\<lparr>psCompression := Some r\<rparr>))
             else ok ps
         | None \<Rightarrow> ok ps)"

definition payloadBuffers :: "jstring option \<Rightarrow> jstring option \<Rightarrow> Buffer list" where
  "payloadBuffers data rawData =
     (case data of Some s \<Rightarrow> utf8 s | None \<Rightarrow> []) # (case rawData of Some r \<Rightarrow> [latin1 r] | None \<Rightarrow> [])"

definition compilePayload :: "lib \<Rightarrow> payloadState \<Rightarrow> payloadState result" where
  "compilePayload L ps =
     andThen (validateActionPushDecodability (psData ps) (psRawData ps)) (\<lambda>_.
     ok (ps\<lparr>psFinal := compile L (map Push (payloadBuffers (psData ps) (psRawData ps)))\<rparr>))"

definition classifyPayload :: "payloadState \<Rightarrow> payloadState" where
  "classifyPayload ps =
     (let empty = (hd (payloadBuffers (psData ps) (psRawData ps)) = [])
      in ps\<lparr>psHasAction := (\<not> empty \<or> psRawData ps \<noteq> None), psRawDataOnly := (empty \<and> psRawData ps \<noteq> None)\<rparr>)"

definition compiledCeiling :: "Encoding option \<Rightarrow> nat" where
  "compiledCeiling encoding = (if encoding = Some E_TAPROOT then ENVELOPE_MAX_PAYLOAD else MAX_COMPILED_ACTION_DATA_LENGTH)"

definition chooseEncoding :: "encoder \<Rightarrow> request \<Rightarrow> build \<Rightarrow> payloadState \<Rightarrow> payloadState result" where
  "chooseEncoding enc rq b ps =
     (let encoding = (if psEncoding ps = Some E_AUTO
                      then Some (selectEncoding (supportsSegwit (network enc)) (length (psFinal ps)) (compressedPubKey b) (rqTapscript rq))
                      else psEncoding ps)
      in if compiledCeiling encoding < length (psFinal ps) then throw (ParamRangeError ''Payload too large'')
         else if encoding = Some E_P2WSH \<and> \<not> supportsSegwit (network enc)
         then throw (ParamTypeError ''P2WSH encoding is not supported on this network'')
         else ok (ps\<lparr>psEncoding := encoding\<rparr>))"

definition checkEnvelopeEncoding :: "encoder \<Rightarrow> jsnum option \<Rightarrow> build \<Rightarrow> payloadState \<Rightarrow> unit result" where
  "checkEnvelopeEncoding enc tip b ps =
     (if psEncoding ps \<noteq> Some E_TAPROOT then ok ()
      else if \<not> supportsSegwit (network enc) then throw (ParamTypeError ''TAPROOT encoding is not supported on this network'')
      else if isReveal b then throw (ParamTypeError ''TAPROOT encoding does not use the p2shHash reveal flow'')
      else assertEnvelopeRecognized (networkKey enc) tip)"

text \<open>The steps from the caller's payload to the bytes the carriers cut up.\<close>

definition preparePayload :: "lib \<Rightarrow> encoder \<Rightarrow> (Buffer \<Rightarrow> Buffer option) \<Rightarrow> string option \<Rightarrow> jsnum option \<Rightarrow> request \<Rightarrow> build \<Rightarrow>
    payloadState \<Rightarrow> (payloadState \<times> build) result" where
  "preparePayload L enc deflate setting tip rq b ps =
     andThen (compressPayload deflate setting rq ps) (\<lambda>ps.
     andThen (compilePayload L ps) (\<lambda>ps.
     let ps = classifyPayload ps; b = b\<lparr>hasActionPayload := psHasAction ps\<rparr>
     in andThen (chooseEncoding enc rq b ps) (\<lambda>ps.
        andThen (checkEnvelopeEncoding enc tip b ps) (\<lambda>_. ok (ps, b)))))"

end
