(* ===== verification/Utf8.thy ===== *)
theory Utf8
  imports Validator
begin

text \<open>
  Reading the wire text back: a UTF-8 reader, and that it inverts the encoder exactly on the strings
  \<open>validateDataParam\<close> accepts.
\<close>

text \<open>UTF-8 as a decoder reads it, one or two code units for each sequence.\<close>

fun readUtf8 :: "Buffer \<Rightarrow> jstring option" where
  "readUtf8 [] = Some []"
| "readUtf8 (b # r) =
     (if unat b < 0x80 then map_option ((#) (of_nat (unat b))) (readUtf8 r)
      else case r of
        c # r \<Rightarrow>
          if unat b < 0xe0 then map_option ((#) (of_nat ((unat b - 0xc0) * 64 + (unat c - 0x80)))) (readUtf8 r)
          else (case r of
            d # r \<Rightarrow>
              if unat b < 0xf0
              then map_option ((#) (of_nat ((unat b - 0xe0) * 4096 + (unat c - 0x80) * 64 + (unat d - 0x80)))) (readUtf8 r)
              else (case r of
                e # r \<Rightarrow>
                  let n = (unat b - 0xf0) * 262144 + (unat c - 0x80) * 4096 + (unat d - 0x80) * 64 + (unat e - 0x80) - 0x10000
                  in map_option (\<lambda>s. of_nat (0xd800 + n div 1024) # of_nat (0xdc00 + n mod 1024) # s) (readUtf8 r)
              | [] \<Rightarrow> None)
          | [] \<Rightarrow> None)
      | [] \<Rightarrow> None)"

declare readUtf8.simps(2) [simp del]

lemma read1: "n < 0x80 \<Longrightarrow> readUtf8 (of_nat n # r) = map_option ((#) (of_nat n)) (readUtf8 r)"
  by (simp add: readUtf8.simps(2) unat_byte)

lemma read2:
  assumes "a < 32" "c < 64"
  shows "readUtf8 (of_nat (0xc0 + a) # of_nat (0x80 + c) # r) = map_option ((#) (of_nat (a * 64 + c))) (readUtf8 r)"
proof -
  have "unat (of_nat (0xc0 + a) :: byte) = 0xc0 + a" "unat (of_nat (0x80 + c) :: byte) = 0x80 + c"
    using assms by (simp_all only: unat_byte)
  then show ?thesis using assms by (simp add: readUtf8.simps(2) del: of_nat_add of_nat_mult)
qed

lemma read3:
  assumes "a < 16" "c < 64" "d < 64"
  shows "readUtf8 (of_nat (0xe0 + a) # of_nat (0x80 + c) # of_nat (0x80 + d) # r) =
     map_option ((#) (of_nat (a * 4096 + c * 64 + d))) (readUtf8 r)"
proof -
  have "unat (of_nat (0xe0 + a) :: byte) = 0xe0 + a" "unat (of_nat (0x80 + c) :: byte) = 0x80 + c" "unat (of_nat (0x80 + d) :: byte) = 0x80 + d"
    using assms by (simp_all only: unat_byte)
  then show ?thesis using assms by (simp add: readUtf8.simps(2) del: of_nat_add of_nat_mult)
qed

lemma read4:
  assumes "a < 8" "c < 64" "d < 64" "e < 64"
  shows "readUtf8 (of_nat (0xf0 + a) # of_nat (0x80 + c) # of_nat (0x80 + d) # of_nat (0x80 + e) # r) =
     (let n = a * 262144 + c * 4096 + d * 64 + e - 0x10000
      in map_option (\<lambda>s. of_nat (0xd800 + n div 1024) # of_nat (0xdc00 + n mod 1024) # s) (readUtf8 r))"
proof -
  have "unat (of_nat (0xf0 + a) :: byte) = 0xf0 + a" "unat (of_nat (0x80 + c) :: byte) = 0x80 + c" "unat (of_nat (0x80 + d) :: byte) = 0x80 + d"
    "unat (of_nat (0x80 + e) :: byte) = 0x80 + e" using assms by (simp_all only: unat_byte)
  then show ?thesis using assms by (simp add: readUtf8.simps(2) Let_def del: of_nat_add of_nat_mult)
qed

lemma unat_16: "unat (u :: 16 word) < 65536"
  using unsigned_less [of u] by simp

lemma of_nat_unat_16 [simp]: "(of_nat (unat u) :: 16 word) = u"
  by simp

lemma digits64: "n div 4096 * 4096 + n div 64 mod 64 * 64 + n mod 64 = (n :: nat)"
proof -
  have "n div 4096 = n div 64 div 64" by (simp add: div_mult2_eq [symmetric])
  moreover have "n div 64 div 64 * 64 + n div 64 mod 64 = n div 64" "n div 64 * 64 + n mod 64 = n" by (rule div_mult_mod_eq)+
  ultimately show ?thesis by linarith
qed

lemma digits64': "n div 262144 * 262144 + n div 4096 mod 64 * 4096 = n div 4096 * (4096 :: nat)"
proof -
  have "n div 262144 = n div 4096 div 64" by (simp add: div_mult2_eq [symmetric])
  moreover have "n div 4096 div 64 * 64 + n div 4096 mod 64 = n div 4096" by (rule div_mult_mod_eq)
  ultimately show ?thesis by linarith
qed

lemma map_cons_Some: "map_option ((#) w) x = Some (u # s) \<longleftrightarrow> w = u \<and> x = Some s"
  by (cases x) auto

lemma readUtf8_unit:
  assumes "\<not> isHigh u" "\<not> isLow u"
  shows "readUtf8 (utf8Unit u @ r) = map_option ((#) u) (readUtf8 r)"
proof -
  define n where "n = unat u"
  have n: "n < 65536" "of_nat n = u" using unat_16 [of u] by (simp_all add: n_def)
  consider "n < 0x80" | "0x80 \<le> n" "n < 0x800" | "0x800 \<le> n" by linarith
  then show ?thesis
  proof cases
    case 1
    then show ?thesis using read1 [of n r] n by (simp add: utf8Unit_def n_def [symmetric])
  next
    case 2
    have "n div 64 < 32" "n mod 64 < 64" "n div 64 * 64 + n mod 64 = n" using 2 by auto
    from read2 [OF this(1,2), of r] this(3) show ?thesis using 2 n
      by (simp add: utf8Unit_def n_def [symmetric] del: of_nat_add of_nat_mult)
  next
    case 3
    have "n div 4096 * 4096 + n div 64 mod 64 * 64 + n mod 64 = n" using digits64 [of n] by simp
    moreover have "n div 4096 < 16" "n div 64 mod 64 < 64" "n mod 64 < 64" using n by auto
    note read3 [OF this, of r]
    ultimately show ?thesis using 3 n assms
      by (simp add: utf8Unit_def n_def [symmetric] del: of_nat_add of_nat_mult)
  qed
qed

lemma readUtf8_pair:
  assumes "isHigh u" "isLow v"
  shows "readUtf8 (utf8Pair u v @ r) = map_option (\<lambda>s. u # v # s) (readUtf8 r)"
proof -
  define h l where "h = unat u - 0xd800" and "l = unat v - 0xdc00"
  have u: "unat u = 0xd800 + h" "h < 1024" using assms by (auto simp: isHigh_def h_def)
  have v: "unat v = 0xdc00 + l" "l < 1024" using assms by (auto simp: isLow_def l_def)
  have uv: "of_nat (0xd800 + h) = u" "of_nat (0xdc00 + l) = v" unfolding u(1) [symmetric] v(1) [symmetric] by simp_all
  define n where "n = 0x10000 + h * 1024 + l"
  have n: "n < 262144 * 8" "n - 0x10000 = h * 1024 + l" using u(2) v(2) by (simp_all add: n_def)
  have d: "(h * 1024 + l) div 1024 = h" "l mod 1024 = l" using v(2) by simp_all
  have s: "n div 262144 * 262144 + n div 4096 mod 64 * 4096 + n div 64 mod 64 * 64 + n mod 64 = n"
    using digits64 [of n] digits64' [of n] by simp
  have b: "n div 262144 < 8" "n div 4096 mod 64 < 64" "n div 64 mod 64 < 64" "n mod 64 < 64" using n(1) by auto
  have "utf8Pair u v = [of_nat (0xf0 + n div 262144), of_nat (0x80 + n div 4096 mod 64), of_nat (0x80 + n div 64 mod 64), of_nat (0x80 + n mod 64)]"
    by (simp add: utf8Pair_def h_def [symmetric] l_def [symmetric] n_def [symmetric] Let_def del: of_nat_add)
  then show ?thesis using read4 [OF b, of r] by (simp add: s n d uv Let_def del: of_nat_add of_nat_mult)
qed

lemma isWellFormed_split: "isWellFormed (u # s) \<Longrightarrow> \<not> isHigh u \<and> \<not> isLow u \<and> isWellFormed s \<or>
    (\<exists>v r. s = v # r \<and> isHigh u \<and> isLow v \<and> isWellFormed r)"
  by (cases s) (auto split: if_splits)

lemma readUtf8_utf8: "isWellFormed s \<Longrightarrow> readUtf8 (utf8 s) = Some s"
proof (induction s rule: utf8.induct)
  case (2 u)
  then show ?case using readUtf8_unit [of u "[]"] by simp
next
  case (3 u v r)
  then show ?case using readUtf8_unit [of u "utf8 (v # r)"] readUtf8_pair [of u v "utf8 r"] by (auto split: if_splits)
qed simp

text \<open>A string with an unpaired surrogate does not read back: the encoder wrote \<open>U+FFFD\<close> for it.\<close>

lemma replacement_unit: "readUtf8 ([0xef, 0xbf, 0xbd] @ r) = map_option ((#) 0xfffd) (readUtf8 r)"
  by (simp add: readUtf8.simps(2))

lemma surrogate_unit: "isHigh u \<or> isLow u \<Longrightarrow> utf8Unit u = [0xef, 0xbf, 0xbd] \<and> u \<noteq> 0xfffd"
  by (auto simp: utf8Unit_def isHigh_def isLow_def Let_def)

lemma readUtf8_only: "readUtf8 (utf8 s) = Some s \<Longrightarrow> isWellFormed s"
proof (induction s rule: utf8.induct)
  case (2 u)
  then show ?case using surrogate_unit [of u] replacement_unit [of "[]"] by auto
next
  case (3 u v r)
  show ?case
  proof (cases "isHigh u \<and> isLow v")
    case True
    then have "readUtf8 (utf8 r) = Some r" using 3(3) readUtf8_pair [of u v "utf8 r"] by (cases "readUtf8 (utf8 r)") auto
    then show ?thesis using 3(1) True by simp
  next
    case False
    show ?thesis
    proof (cases "isHigh u \<or> isLow u")
      case True
      then have "map_option ((#) 0xfffd) (readUtf8 (utf8 (v # r))) = Some (u # v # r)"
        using 3(3) False surrogate_unit [of u] replacement_unit [of "utf8 (v # r)"] by simp
      then show ?thesis using True surrogate_unit [of u] by (simp add: map_cons_Some)
    next
      case False
      then have "readUtf8 (utf8 (v # r)) = Some (v # r)"
        using 3(3) readUtf8_unit [of u "utf8 (v # r)"] by (simp add: map_cons_Some)
      then show ?thesis using 3(2) False by simp
    qed
  qed
qed simp

end
