(* ===== verification/PayloadCheckProperties.thy ===== *)
theory PayloadCheckProperties
  imports PayloadChecks Utf8 PayloadFacts Instances
begin

text \<open>
  The payload before it is cut up: what the validator accepts reads back, its length check agrees with the
  compiled script, and compression is applied only where a reader can undo it.
\<close>

section \<open>Text\<close>

lemma firstNonLatin1_None: "firstNonLatin1 i s = None \<longleftrightarrow> (\<forall>u \<in> set s. unat u \<le> 0xff)"
  by (induction i s rule: firstNonLatin1.induct) auto

lemma latin1_byte: "(ucast (ucast u :: byte) :: 16 word) = u \<longleftrightarrow> unat u \<le> 0xff"
proof -
  have "unat (ucast (ucast u :: byte) :: 16 word) = unat u mod 256" by (simp add: unsigned_ucast_eq take_bit_eq_mod unat_mod_distrib)
  then have "(ucast (ucast u :: byte) :: 16 word) = u \<longleftrightarrow> unat u mod 256 = unat u" by (metis unsigned_word_eqI)
  then show ?thesis by auto
qed

lemma latin1_reads_back: "fromLatin1 (latin1 s) = s \<longleftrightarrow> (\<forall>u \<in> set s. unat u \<le> 0xff)"
  by (induction s) (auto simp: fromLatin1_def latin1_def latin1_byte)

text \<open>
  The validator accepts exactly the text the wire carries: a \<open>data\<close> string passes when the decoder reads the
  same string back from its UTF-8 bytes, a \<open>rawData\<close> string when every unit survives as a byte.
\<close>

theorem text_accepted_iff_reads_back:
  "(validateDataParam False (Str s) = ok (Some s) \<longleftrightarrow> readUtf8 (utf8 s) = Some s) \<and>
   (validateDataParam True (Str s) = ok (Some s) \<longleftrightarrow> fromLatin1 (latin1 s) = s) \<and>
   validateDataParam isRaw (Str s) \<in> {ok (Some s), throw (ParamRangeError ''contains a code point above U+00FF''),
     throw (ParamRangeError ''is not well-formed Unicode'')}"
  using readUtf8_utf8 [of s] readUtf8_only [of s] firstNonLatin1_None [of 0 s] latin1_reads_back [of s]
  by (auto simp: validateDataParam_def)

section \<open>Length\<close>

lemma itemSize_push: "\<not> isMinimalOpSingleByte d \<Longrightarrow> itemSize (Push d) = envelopePushSize (length d)"
  by (auto simp: itemSize.simps envelopePushSize_def compiledPushSize_def)

lemma compiled_length:
  assumes "script_codec f g" "\<forall>d \<in> set ds. \<not> isMinimalOpSingleByte d \<and> length d < 2 ^ 32"
  shows "length (f (map Push ds)) = sum_list (map (\<lambda>d. envelopePushSize (length d)) ds)"
proof -
  have "list_all valid_item (map Push ds)" using assms(2) by (auto simp: list_all_iff)
  from codec_length [OF assms(1) this] show ?thesis using assms(2) by (auto simp: itemSize_push cong: map_cong)
qed

lemma decodable_buffers: "validateActionPushDecodability data rawData = ok () \<longleftrightarrow> (\<forall>d \<in> set (payloadBuffers data rawData). \<not> isMinimalOpSingleByte d)"
  by (auto simp: validateActionPushDecodability_def payloadBuffers_def isMinimalOpSingleByte_def split: option.splits)


text \<open>ASCII text is its own bytes; \<open>send_text\<close> is \<open>SEND\<close>.\<close>

lemma utf8_ascii: "list_all (\<lambda>u. unat u < 128) s \<Longrightarrow> utf8 s = map (\<lambda>u. of_nat (unat u)) s"
  by (induction s rule: utf8.induct) (auto simp: utf8Unit_def isHigh_def)

definition send_text :: jstring where "send_text = [0x53, 0x45, 0x4e, 0x44]"

lemma send_bytes: "utf8 send_text = [0x53, 0x45, 0x4e, 0x44]"
  unfolding send_text_def by (subst utf8_ascii) simp_all


section \<open>Compression\<close>

text \<open>The rounded quotient of two lengths under the input cap is over 150 exactly when the quotient is.\<close>

lemma ratio_exact:
  assumes "0 < b" "b < a" "a \<le> 16777216" "fl (of_nat a / of_nat b) \<le> 150"
  shows "of_nat a / of_nat b \<le> (150 :: rat)"
proof (rule ccontr)
  let ?x = "of_nat a / of_nat b :: rat"
  assume "\<not> ?x \<le> 150"
  then have "(150 * of_nat b :: rat) < of_nat a" using assms(1) by (simp add: field_simps)
  then have "(of_nat (150 * b) :: rat) < of_nat a" by simp
  then have n: "150 * b + 1 \<le> a" by (simp only: of_nat_less_iff)
  then have "(of_nat (150 * b + 1) :: rat) \<le> of_nat a" by (simp only: of_nat_le_iff)
  then have "of_nat (150 * b + 1) / of_nat b \<le> ?x" by (rule divide_right_mono) simp
  moreover have "of_nat (150 * b + 1) / of_nat b = (150 + 1 / of_nat b :: rat)" using assms(1) by (simp add: field_simps)
  ultimately have "150 + 1 / of_nat b \<le> ?x" by simp
  moreover have "b \<le> 131072" using n assms(3) by linarith
  then have "(of_nat b :: rat) \<le> of_nat 131072" by (simp only: of_nat_le_iff)
  then have "(1 / 131072 :: rat) \<le> 1 / of_nat b" using assms(1) by (simp add: field_simps)
  ultimately have lo: "150 + 1 / 131072 \<le> ?x" by linarith
  have "\<bar>fl ?x - ?x\<bar> \<le> ?x / 2 ^ 53" using fl_err [of ?x] by simp
  then have "?x - ?x / 2 ^ 53 \<le> 150" using assms(4) by linarith
  then show False using lo by simp
qed

text \<open>
  C31. Compression never publishes bytes a reader cannot undo. When it fires, the action is an ungated FILE that
  declared no codec; the action written instead is still that FILE, ungated, with \<open>1\<close> in the COMPRESSION field and
  every other field as it was; the stored bytes are the deflated ones, strictly fewer, at no more than 150 to 1.
  When it does not fire, the action and the bytes are the caller's own and a reason says why. A payload without
  an explicit request is never refused, and an explicit request is refused only by a guard.
\<close>

theorem compression_marks_exactly:
  "case compressPayloadForAction deflate explicit action raw of
     Inr r \<Rightarrow>
       (if crCompressed r
        then isFileV0Action action \<and> isFileV0Action (crData r) \<and> fileField 6 action = [] \<and> fileField 10 action = [] \<and>
             (\<forall>i. fileField i (crData r) = (if i = 10 then js ''1'' else fileField i action)) \<and>
             deflate raw = Some (crRawData r) \<and> length (crRawData r) < length raw \<and> raw \<noteq> [] \<and>
             of_nat (length raw) / of_nat (length (crRawData r)) \<le> (150 :: rat) \<and> length raw \<le> 16777216 \<and> crReason r = None
        else crData r = action \<and> crRawData r = raw \<and> crReason r \<noteq> None)
   | Inl e \<Rightarrow> explicit \<and> isInvalidParams e \<and> guardCompressible action raw \<noteq> None \<and> raw \<noteq> []"
proof (cases "compressPayloadForAction deflate explicit action raw")
  case (Inl e)
  then show ?thesis
    by (auto simp: compressPayloadForAction_def guardCompressible_def split: if_splits option.splits)
next
  case (Inr r)
  show ?thesis
  proof (cases "crCompressed r")
    case False
    then show ?thesis using Inr
      by (auto simp: compressPayloadForAction_def unchanged_def split: if_splits option.splits prod.splits)
  next
    case True
    then obtain d where raw: "raw \<noteq> []" and g: "guardCompressible action raw = None" and d: "deflate raw = Some d"
      and s: "length d < length raw" "\<not> overRatio (length raw) (length d)"
      and r: "crData r = Some (withCompressionField (the action) COMPRESSION_CODE_DEFLATE_RAW)" "crRawData r = d" "crReason r = None"
      using Inr by (auto simp: compressPayloadForAction_def unchanged_def split: if_splits option.splits prod.splits)
    have f: "isFileV0Action action" "fileField 6 action = []" "fileField 10 action = []" "length raw \<le> 16777216"
      using g by (auto simp: guardCompressible_def isGatedFileAction_def compressionFieldOf_def GATE_TICKER_FIELD_INDEX_def
          COMPRESSION_FIELD_INDEX_def COMPRESSION_MAX_INPUT_BYTES_def split: if_splits)
    obtain t where t: "action = Some t" using f(1) by (cases action) (auto simp: isFileV0Action_def)
    have v: "124 \<notin> set COMPRESSION_CODE_DEFLATE_RAW" by (simp add: COMPRESSION_CODE_DEFLATE_RAW_def)
    note m = marked [OF f(1) [unfolded t] v, unfolded COMPRESSION_FIELD_INDEX_def]
    have "fl (of_nat (length raw) / of_nat (length d)) \<le> 150" "d \<noteq> []"
      using s(2) by (auto simp: overRatio_def COMPRESSION_MAX_RATIO_def)
    then have "of_nat (length raw) / of_nat (length d) \<le> (150 :: rat)"
      using ratio_exact [of "length d" "length raw"] f(4) s(1) by simp
    then show ?thesis using Inr True f raw d s(1) r m by (simp add: t COMPRESSION_CODE_DEFLATE_RAW_def)
  qed
qed

section \<open>The compiled payload\<close>

lemma latin1_fromLatin1: "latin1 (fromLatin1 d) = d"
proof -
  have "(of_nat (unat (of_nat (unat b) :: 16 word)) :: byte) = b" for b :: byte
  proof -
    have "unat b < 256" using unsigned_less [of b] by simp
    then have "unat (of_nat (unat b) :: 16 word) = unat b" by (simp add: unsigned_ucast_eq take_bit_eq_mod unat_mod_distrib)
    then show ?thesis by simp
  qed
  then show ?thesis by (simp add: latin1_def fromLatin1_def comp_def map_idI)
qed

lemma wellFormed_bar: "isWellFormed (s @ 124 # t) \<longleftrightarrow> isWellFormed s \<and> isWellFormed t"
proof (induction s rule: isWellFormed.induct)
  case 1
  show ?case by (cases t) (auto simp: isHigh_def isLow_def)
next
  case (2 u)
  show ?case by (cases t) (auto simp: isHigh_def isLow_def)
qed auto

lemma wellFormed_join: "isWellFormed (joinBar ps) \<longleftrightarrow> (\<forall>p \<in> set ps. isWellFormed p)"
  by (induction ps rule: joinBar.induct) (auto simp: wellFormed_bar)

lemma wellFormed_with:
  assumes "isWellFormed s" "isWellFormed v"
  shows "isWellFormed (withCompressionField s v)"
proof -
  let ?ps = "(padFields (splitBar s))[COMPRESSION_FIELD_INDEX := v]"
  have "\<forall>p \<in> set (splitBar s). isWellFormed p" using assms(1) wellFormed_join [of "splitBar s"] by (simp add: join_split)
  then have "\<forall>p \<in> set ?ps. isWellFormed p"
    using assms(2) set_update_subset_insert [of "padFields (splitBar s)" COMPRESSION_FIELD_INDEX v] by (auto simp: padFields_def)
  moreover obtain k where "dropTrailingEmpty ?ps @ replicate k [] = ?ps" using dropTrailing_prefix by metis
  ultimately have "\<forall>p \<in> set (dropTrailingEmpty ?ps). isWellFormed p" by (metis UnI1 set_append)
  then show ?thesis by (simp add: withCompressionField_def wellFormed_join)
qed

text \<open>The data an item pushes; \<open>OP_0\<close> pushes none.\<close>

definition pushed :: "item \<Rightarrow> Buffer" where
  "pushed i = (case i of Push d \<Rightarrow> d | Op _ \<Rightarrow> [])"

lemma pushed_minimal: "\<not> isMinimalOpSingleByte d \<Longrightarrow> pushed (minimalForm (Push d)) = d"
  by (auto simp: pushed_def)

lemma compile_reads_back:
  assumes "script_codec (compile L) (decompile L)" "compilePayload L ps = Inr ps'" "\<forall>d \<in> set (payloadBuffers (psData ps) (psRawData ps)). length d < 2 ^ 32"
  shows "\<exists>items. decompile L (psFinal ps') = Some items \<and> map pushed items = payloadBuffers (psData ps) (psRawData ps)"
proof -
  let ?ds = "payloadBuffers (psData ps) (psRawData ps)"
  have "\<forall>d \<in> set ?ds. \<not> isMinimalOpSingleByte d" "psFinal ps' = compile L (map Push ?ds)"
    using assms(2) by (auto simp: compilePayload_def result_simps decodable_buffers)
  moreover have "list_all valid_item (map Push ?ds)" using assms(3) by (auto simp: list_all_iff)
  then have "decompile L (compile L (map Push ?ds)) = Some (map minimalForm (map Push ?ds))" by (rule codec_read [OF assms(1)])
  moreover have "map pushed (map minimalForm (map Push ?ds)) = ?ds" if "\<forall>d \<in> set ?ds. \<not> isMinimalOpSingleByte d"
    using that by (simp add: comp_def pushed_minimal map_idI del: minimalForm.simps)
  ultimately show ?thesis by metis
qed

text \<open>Whether the build compressed, and what the two fields hold then.\<close>

definition fired :: "payloadState \<Rightarrow> bool" where
  "fired ps = (case psCompression ps of Some r \<Rightarrow> crCompressed r | None \<Rightarrow> False)"

lemma compress_run:
  assumes "compressPayload deflate setting rq ps = Inr ps'" "psCompression ps = None" "\<forall>x y. deflate x = Some y \<longrightarrow> inflate y = Some x"
    and "\<forall>s. psData ps = Some s \<longrightarrow> isWellFormed s"
  shows "(\<forall>s. psData ps' = Some s \<longrightarrow> isWellFormed s) \<and> psEncoding ps' = psEncoding ps \<and>
    (if fired ps' then fileField 10 (psData ps') = js ''1'' \<and> fileField 6 (psData ps') = [] \<and>
       psRawData ps \<noteq> None \<and> psRawData ps' \<noteq> None \<and> inflate (latin1 (the (psRawData ps'))) = Some (latin1 (the (psRawData ps)))
     else psData ps' = psData ps \<and> psRawData ps' = psRawData ps)"
proof (cases "psRawData ps")
  case None
  then show ?thesis using assms by (auto simp: compressPayload_def Let_def fired_def)
next
  case (Some raw)
  show ?thesis
  proof (cases "case rqCompress rq of Some c \<Rightarrow> c | None \<Rightarrow> defaultCompressionEnabled setting")
    case False
    then show ?thesis using assms Some by (simp add: compressPayload_def Let_def fired_def)
  next
    case True
    then obtain r where r: "compressPayloadForAction deflate (rqCompress rq \<noteq> None) (psData ps) (latin1 raw) = Inr r"
      and p: "ps' = (if crCompressed r then ps\<lparr>psData := crData r, psRawData := Some (fromLatin1 (crRawData r)), psCompression := Some r\<rparr>
                     else ps\<lparr>psCompression := Some r\<rparr>)"
      using assms(1) Some by (auto simp: compressPayload_def Let_def result_simps)
    show ?thesis
    proof (cases "crCompressed r")
      case c: True
      then obtain g where "guardCompressible (psData ps) (latin1 raw) = None" "deflate (latin1 raw) = Some (crRawData r)"
        "crData r = Some (withCompressionField (the (psData ps)) COMPRESSION_CODE_DEFLATE_RAW)"
        using r by (auto simp: compressPayloadForAction_def unchanged_def split: if_splits option.splits prod.splits)
      note d = this
      have f: "isFileV0Action (psData ps)" "fileField 6 (psData ps) = []"
        using d(1) by (auto simp: guardCompressible_def isGatedFileAction_def GATE_TICKER_FIELD_INDEX_def split: if_splits)
      then obtain s where s: "psData ps = Some s" by (cases "psData ps") (auto simp: isFileV0Action_def)
      have v: "124 \<notin> set COMPRESSION_CODE_DEFLATE_RAW" "isWellFormed COMPRESSION_CODE_DEFLATE_RAW"
        by (simp_all add: COMPRESSION_CODE_DEFLATE_RAW_def isHigh_def isLow_def)
      have w: "isWellFormed (withCompressionField s COMPRESSION_CODE_DEFLATE_RAW)" using assms(4) s v(2) wellFormed_with by simp
      have m: "fileField 10 (crData r) = js ''1''" "fileField 6 (crData r) = []"
        using marked [OF f(1) [unfolded s] v(1)] f(2) d(3) s by (simp_all add: COMPRESSION_FIELD_INDEX_def COMPRESSION_CODE_DEFLATE_RAW_def)
      have "inflate (crRawData r) = Some (latin1 raw)" using assms(3) d(2) by simp
      then show ?thesis using c p w m d(3) s Some by (simp add: fired_def latin1_fromLatin1)
    next
      case False
      then show ?thesis using p assms(4) by (simp add: fired_def)
    qed
  qed
qed

text \<open>The payload steps one by one: what is compressed, what is compiled, and what the choice of an encoding leaves alone.\<close>

lemma prepared_through:
  assumes "preparePayload L enc deflate setting tip rq b1 ps = Inr (ps', b2)"
  obtains p1 p2 where "compressPayload deflate setting rq ps = Inr p1" "compilePayload L p1 = Inr p2"
    "psData ps' = psData p1" "psRawData ps' = psRawData p1" "psCompression ps' = psCompression p1" "psFinal ps' = psFinal p2"
    "psHasAction ps' = psHasAction (classifyPayload p2)" "psData p2 = psData p1" "psRawData p2 = psRawData p1"
    "length (psFinal ps') \<le> compiledCeiling (psEncoding ps') \<and> psEncoding ps' \<noteq> Some E_AUTO"
proof -
  obtain p1 p2 where p1: "compressPayload deflate setting rq ps = Inr p1" and p2: "compilePayload L p1 = Inr p2"
    and p3: "chooseEncoding enc rq (b1\<lparr>hasActionPayload := psHasAction (classifyPayload p2)\<rparr>) (classifyPayload p2) = Inr ps'"
    using assms by (auto simp: preparePayload_def result_simps Let_def)
  have same: "psData ps' = psData p1" "psRawData ps' = psRawData p1" "psCompression ps' = psCompression p1" "psFinal ps' = psFinal p2"
    "psHasAction ps' = psHasAction (classifyPayload p2)" "psData p2 = psData p1" "psRawData p2 = psRawData p1"
    using p2 p3 by (auto simp: compilePayload_def chooseEncoding_def classifyPayload_def result_simps Let_def split: if_splits)
  moreover have "length (psFinal ps') \<le> compiledCeiling (psEncoding ps') \<and> psEncoding ps' \<noteq> Some E_AUTO"
    using p3 by (auto simp: same chooseEncoding_def selectEncoding_def classifyPayload_def Let_def split: if_splits)
  ultimately show thesis using that p1 p2 by blast
qed


definition payload_request :: request where
  "payload_request = \<lparr>rqData = Some send_text, rqRawData = Some [0x61, 0x62], rqFeeQuote = None, rqEncoding = None, rqCompress = None,
     rqTapscript = None\<rparr>"

lemma request_checked:
  "checkPayloadInput exampleLib btcEncoder payload_request blankBuild =
     Inr ((startPayload payload_request)\<lparr>psUnknownAction := unknownActionName (Some send_text)\<rparr>, blankBuild)"
  by (simp add: checkPayloadInput_def payload_request_def validateDataParam_def send_text_def isHigh_def isLow_def checkOutputAddresses_def
      effectiveQuote_def blankBuild_def truthy_def checkPaymentDust_def injectFeeQuoteOutput_def Let_def)

lemma request_compiled: "length (writeScript [Push [0x53, 0x45, 0x4e, 0x44], Push [0x61, 0x62]]) = 8"
  using compiled_length [OF writeScript_codec, of "[[0x53, 0x45, 0x4e, 0x44], [0x61, 0x62]]"]
  by (simp add: isMinimalOpSingleByte_def envelopePushSize_def compiledPushSize_def)

lemma request_prepared:
  "\<exists>ps'. preparePayload exampleLib btcEncoder (\<lambda>_. None) None None payload_request blankBuild
      ((startPayload payload_request)\<lparr>psUnknownAction := unknownActionName (Some send_text)\<rparr>) =
     Inr (ps', blankBuild\<lparr>hasActionPayload := True\<rparr>) \<and> psData ps' = Some send_text \<and> psRawData ps' = Some [0x61, 0x62]"
proof -
  have f: "\<not> isFileV0Action (Some send_text)" by (simp add: isFileV0Action_def send_text_def)
  have l: "latin1 [0x61, 0x62] = [0x61, 0x62]" by (simp add: latin1_def)
  show ?thesis
    by (simp add: preparePayload_def compressPayload_def startPayload_def payload_request_def defaultCompressionEnabled_def l
        compressPayloadForAction_def guardCompressible_def f unchanged_def compilePayload_def decodable_buffers [THEN iffD2]
        payloadBuffers_def send_bytes isMinimalOpSingleByte_def classifyPayload_def chooseEncoding_def compiledCeiling_def
        MAX_COMPILED_ACTION_DATA_LENGTH_def exampleLib_def request_compiled checkEnvelopeEncoding_def Let_def)
qed


end
