(* ===== verification/Tracker.thy ===== *)
theory Tracker
  imports Validator
begin

text \<open>
  The UTXO tracker client: the freshness verdict (\<open>classifyTrackerFreshness\<close> of \<open>request_resolution.js\<close>), the two
  deployment profiles (\<open>trackerless_profile.js\<close>), the paginated fetch (\<open>src/src/build/utxo_tracker.js\<close>) and what the
  build accepts of it (\<open>input_candidates.js\<close>). The tracker is a function from the number of the request, the page
  limit and the cursor to the JSON body it answers, so it may answer differently every time.
\<close>

section \<open>Freshness\<close>

fun isObject :: "jsval \<Rightarrow> bool" where
  "isObject (Obj _) = True" | "isObject (Arr _) = True" | "isObject _ = False"

record verdict =
  vPresent :: bool
  vLag :: "jsnum option"
  vOverLag :: bool
  vBehindNode :: bool
  vHalted :: bool
  vMempoolReady :: bool
  vSyncedClaimed :: bool
  vCode :: "string option"

definition lagOf :: "jsval \<Rightarrow> jsnum option" where
  "lagOf sync = (case getProp sync ''lag'' of Num n \<Rightarrow> if n = NaN then None else Some n | _ \<Rightarrow> None)"

definition classifyTrackerFreshness :: "jsval \<Rightarrow> rat \<Rightarrow> verdict" where
  "classifyTrackerFreshness sync maxLagBlocks =
     (if \<not> isObject sync
      then \<lparr>vPresent = False, vLag = None, vOverLag = False, vBehindNode = False, vHalted = False, vMempoolReady = True,
            vSyncedClaimed = False, vCode = None\<rparr>
      else (let lag = lagOf sync;
                overLag = (case lag of Some n \<Rightarrow> js_gt n maxLagBlocks | None \<Rightarrow> False);
                behindNode = (case lag of Some n \<Rightarrow> js_lt n 0 | None \<Rightarrow> False);
                halted = (getProp sync ''halted'' = Bool True);
                mempoolReady = (getProp sync ''mempool_ready'' \<noteq> Bool False);
                code = (if halted then Some ''UTXO_TRACKER_HALTED''
                        else if getProp sync ''synced'' = Bool False \<or> overLag \<or> behindNode then Some ''UTXO_TRACKER_STALE''
                        else if \<not> mempoolReady then Some ''UTXO_TRACKER_NOT_READY'' else None)
            in \<lparr>vPresent = True, vLag = lag, vOverLag = overLag, vBehindNode = behindNode, vHalted = halted,
                vMempoolReady = mempoolReady, vSyncedClaimed = truthyVal (getProp sync ''synced''), vCode = code\<rparr>))"

datatype profile = PROFILE_DEFAULT | PROFILE_REMOTE

definition resolveTrackerProfile :: "jstring option \<Rightarrow> profile result" where
  "resolveTrackerProfile raw =
     (let p = (case raw of Some s \<Rightarrow> map lowerUnit (trim s) | None \<Rightarrow> [])
      in if p = [] then ok PROFILE_DEFAULT
         else if p = js ''default'' then ok PROFILE_DEFAULT
         else if p = js ''remote'' then ok PROFILE_REMOTE
         else throw (InternalError ''UTXO_TRACKER_PROFILE must be default or remote''))"

definition assertRemoteTrackerConfigured :: "profile \<Rightarrow> jstring option \<Rightarrow> jstring option \<Rightarrow> unit result" where
  "assertRemoteTrackerConfigured p url port =
     (let missing = (\<lambda>s. case s of Some t \<Rightarrow> trim t = [] | None \<Rightarrow> True)
      in refuseIf (p = PROFILE_REMOTE \<and> (missing url \<or> missing port)) (OperationalError ''UTXO_TRACKER_NOT_CONFIGURED''))"

definition classifyRemoteSync :: "profile \<Rightarrow> jsval \<Rightarrow> rat \<Rightarrow> string option" where
  "classifyRemoteSync p sync maxLagBlocks =
     (let verdict = classifyTrackerFreshness sync maxLagBlocks
      in if p \<noteq> PROFILE_REMOTE then vCode verdict
         else if \<not> vPresent verdict \<or> vLag verdict = None then Some ''UTXO_TRACKER_SYNC_MISSING''
         else if vCode verdict \<noteq> None then vCode verdict
         else if \<not> vSyncedClaimed verdict then Some ''UTXO_TRACKER_STALE''
         else None)"

definition throwIfRefused :: "profile \<Rightarrow> jsval \<Rightarrow> rat \<Rightarrow> unit result" where
  "throwIfRefused p sync maxLagBlocks =
     (case classifyRemoteSync p sync maxLagBlocks of Some code \<Rightarrow> throw (OperationalError code) | None \<Rightarrow> ok ())"

text \<open>The preflight, on what \<open>get_sync_status\<close> answered: a status object, none, or a failed request.\<close>

datatype syncAnswer = SyncStatus jsval | SyncMissing | SyncFailed

definition assertRemoteTrackerReady :: "rat \<Rightarrow> syncAnswer \<Rightarrow> unit result" where
  "assertRemoteTrackerReady maxLagBlocks answer =
     (case answer of
        SyncStatus status \<Rightarrow> throwIfRefused PROFILE_REMOTE status maxLagBlocks
      | SyncMissing \<Rightarrow> throw (OperationalError ''UTXO_TRACKER_SYNC_MISSING'')
      | SyncFailed \<Rightarrow> throw (OperationalError ''UTXO_TRACKER_UNREACHABLE''))"

definition assertTrackerReady :: "profile \<Rightarrow> rat \<Rightarrow> syncAnswer \<Rightarrow> unit result" where
  "assertTrackerReady p maxLagBlocks answer =
     (if p = PROFILE_REMOTE then assertRemoteTrackerReady maxLagBlocks answer
      else case answer of
        SyncStatus status \<Rightarrow>
          (let lag = getProp status ''lag''
           in if isNullish lag then throw (InternalError ''utxo-tracker has not indexed any blocks yet'')
              else if getProp status ''halted'' = Bool True then throw (InternalError ''utxo-tracker is halted'')
              else if js_lt (toNumber lag) 0 then throw (InternalError ''utxo-tracker is ahead of the node'')
              else if \<not> truthyVal (getProp status ''synced'') then throw (InternalError ''utxo-tracker is lagging'')
              else if getProp status ''mempool_ready'' = Bool False then throw (InternalError ''utxo-tracker has not reconverged its mempool yet'')
              else ok ())
      | SyncMissing \<Rightarrow> throw (InternalError ''Error getting sync status: empty result'')
      | SyncFailed \<Rightarrow> throw (InternalError ''sync status request failed''))"

section \<open>Pages\<close>

definition DEFAULT_MAX_ADDRESS_UTXOS :: nat where "DEFAULT_MAX_ADDRESS_UTXOS = 10000"
definition UTXO_PAGE_LIMIT :: nat where "UTXO_PAGE_LIMIT = 10000"
definition MAX_UTXO_PAGES :: nat where "MAX_UTXO_PAGES = 1000"

definition maxAddressUtxos :: "jsval \<Rightarrow> nat" where
  "maxAddressUtxos raw =
     (case toNumber raw of
        Fin r \<Rightarrow> if isSafeInteger (Fin r) \<and> 0 < r then nat \<lfloor>r\<rfloor> else DEFAULT_MAX_ADDRESS_UTXOS
      | _ \<Rightarrow> DEFAULT_MAX_ADDRESS_UTXOS)"

text \<open>A plain \<open>Error\<close> whose \<open>code\<close> is \<open>UTXO_SET_TOO_LARGE\<close>.\<close>

definition UTXO_SET_TOO_LARGE :: err where "UTXO_SET_TOO_LARGE = InternalError ''UTXO_SET_TOO_LARGE''"

definition assertWithinUtxoCap :: "nat \<Rightarrow> nat \<Rightarrow> unit result" where
  "assertWithinUtxoCap count cap = refuseIf (cap < count) UTXO_SET_TOO_LARGE"

text \<open>Both are numbers, and \<open>!==\<close>; both are strings, and \<open>!==\<close>.\<close>

definition numbersDiffer :: "jsval \<Rightarrow> jsval \<Rightarrow> bool" where
  "numbersDiffer x y = (case (x, y) of (Num a, Num b) \<Rightarrow> a \<noteq> b \<or> a = NaN | _ \<Rightarrow> False)"

definition stringsDiffer :: "jsval \<Rightarrow> jsval \<Rightarrow> bool" where
  "stringsDiffer x y = (case (x, y) of (Str a, Str b) \<Rightarrow> a \<noteq> b | _ \<Rightarrow> False)"

text \<open>Whether two pages describe different chain states; \<open>null\<close> for a page without a sync object.\<close>

definition snapshotDivergence :: "jsval \<Rightarrow> jsval \<Rightarrow> bool" where
  "snapshotDivergence first later =
     (if first = Null \<or> later = Null then False
      else getProp later ''halted'' = Bool True \<or> getProp later ''synced'' = Bool False \<or>
           (case getProp later ''lag'' of Num n \<Rightarrow> js_lt n 0 | _ \<Rightarrow> False) \<or>
           numbersDiffer (getProp first ''tracker_height'') (getProp later ''tracker_height'') \<or>
           numbersDiffer (getProp first ''reorg_count'') (getProp later ''reorg_count'') \<or>
           numbersDiffer (getProp first ''mempool_epoch'') (getProp later ''mempool_epoch'') \<or>
           stringsDiffer (getProp first ''committed_hash'') (getProp later ''committed_hash''))"

definition assertSameSnapshot :: "jsval \<Rightarrow> jsval \<Rightarrow> unit result" where
  "assertSameSnapshot first later =
     refuseIf (snapshotDivergence first later) (InternalError ''utxo-tracker chain state changed while paginating'')"

definition readUtxoResult :: "jsval \<Rightarrow> (jsval \<times> jsval list) result" where
  "readUtxoResult body =
     (let r = getProp body ''result''
      in if isObject r
         then (case getProp r ''utxos'' of
                 Arr us \<Rightarrow> ok (r, us) | _ \<Rightarrow> throw (InternalError ''UTXO tracker result missing utxos array''))
         else throw (InternalError ''Error getting utxos''))"

definition checkRow :: "jsval \<Rightarrow> jsval result" where
  "checkRow u =
     (case getProp u ''txid'' of
        Str t \<Rightarrow>
          if getProp u ''vout'' = Undefined \<or> getProp u ''value'' = Undefined then throw (InternalError ''UTXO tracker returned malformed utxo'')
          else if \<not> isHex64 t then throw (InternalError ''UTXO tracker returned malformed utxo'')
          else if (case getProp u ''scriptPubKey'' of Str s \<Rightarrow> s = [] | _ \<Rightarrow> True) then throw (InternalError ''UTXO tracker returned malformed utxo'')
          else if isNullish (getProp u ''confirmations'') then ok (setProp ''confirmations'' (Num (Fin 0)) u)
          else (case toNumber (getProp u ''confirmations'') of
                  Fin r \<Rightarrow> if isInteger (Fin r) \<and> 0 \<le> r then ok (setProp ''confirmations'' (Num (Fin r)) u)
                            else throw (InternalError ''UTXO tracker returned malformed utxo'')
                | _ \<Rightarrow> throw (InternalError ''UTXO tracker returned malformed utxo''))
      | _ \<Rightarrow> throw (InternalError ''UTXO tracker returned malformed utxo''))"

definition appendPageUtxos :: "jsval list \<Rightarrow> jsval list \<Rightarrow> jsval list result" where
  "appendPageUtxos rows allUtxos = andThen (forEach checkRow rows) (\<lambda>us. ok (allUtxos @ us))"

text \<open>\<open>Set.has\<close>: the same primitive value; an object is only ever itself, and each page's is new.\<close>

definition sameCursor :: "jsval \<Rightarrow> jsval \<Rightarrow> bool" where
  "sameCursor a b = (a = b \<and> \<not> isObject a)"

definition assertFreshCursor :: "jsval \<Rightarrow> jsval list \<Rightarrow> jsval list result" where
  "assertFreshCursor nextCursor seenCursors =
     (if list_ex (sameCursor nextCursor) seenCursors then throw (InternalError ''utxo-tracker returned a repeated pagination cursor'')
      else ok (seenCursors @ [nextCursor]))"

record pageState =
  pgCursor :: jsval
  pgFirstSync :: jsval
  pgCount :: nat
  pgSeen :: "jsval list"
  pgUtxos :: "jsval list"

text \<open>One page merged, and whether another follows.\<close>

definition mergeUtxoPage :: "nat \<Rightarrow> jsval \<Rightarrow> jsval list \<Rightarrow> pageState \<Rightarrow> (bool \<times> pageState) result" where
  "mergeUtxoPage cap r rows st =
     (let pageSync = (if isObject (getProp r ''sync'') then getProp r ''sync'' else Null)
      in andThen (if pgCount st = 1 then ok (st\<lparr>pgFirstSync := pageSync\<rparr>)
                  else andThen (assertSameSnapshot (pgFirstSync st) pageSync) (\<lambda>_. ok st)) (\<lambda>st.
         andThen (assertWithinUtxoCap (length (pgUtxos st) + length rows) cap) (\<lambda>_.
         andThen (appendPageUtxos rows (pgUtxos st)) (\<lambda>all.
         let st = st\<lparr>pgUtxos := all\<rparr>; nextCursor = getProp r ''nextCursor''
         in if \<not> truthyVal nextCursor then ok (False, st)
            else andThen (assertFreshCursor nextCursor (pgSeen st)) (\<lambda>seen.
                 ok (True, st\<lparr>pgSeen := seen, pgCursor := nextCursor\<rparr>))))))"

type_synonym trackerPages = "nat \<Rightarrow> nat \<Rightarrow> jsval \<Rightarrow> jsval result"

text \<open>The loop, on the number of pages it may still request.\<close>

primrec fetchPages :: "nat \<Rightarrow> trackerPages \<Rightarrow> nat \<Rightarrow> pageState \<Rightarrow> (jsval \<times> jsval list) result" where
  "fetchPages 0 page cap st = throw (InternalError ''utxo-tracker returned more than 1000 pages'')"
| "fetchPages (Suc left) page cap st =
     (let st = st\<lparr>pgCount := pgCount st + 1\<rparr>;
          pageLimit = min UTXO_PAGE_LIMIT (cap - length (pgUtxos st) + 1)
      in andThen (page (pgCount st) pageLimit (pgCursor st)) (\<lambda>body.
         andThen (readUtxoResult body) (\<lambda>(r, rows).
         andThen (mergeUtxoPage cap r rows st) (\<lambda>(more, st).
         if more then fetchPages left page cap st else ok (getProp r ''sync'', pgUtxos st)))))"

definition fetchAllUtxoPages :: "trackerPages \<Rightarrow> nat \<Rightarrow> (jsval \<times> jsval list) result" where
  "fetchAllUtxoPages page cap =
     fetchPages MAX_UTXO_PAGES page cap \<lparr>pgCursor = Undefined, pgFirstSync = Null, pgCount = 0, pgSeen = [], pgUtxos = []\<rparr>"

definition getUtxosFromAddress :: "profile \<Rightarrow> rat \<Rightarrow> syncAnswer \<Rightarrow> trackerPages \<Rightarrow> nat \<Rightarrow> (jsval \<times> jsval list) result" where
  "getUtxosFromAddress p maxLagBlocks answer page cap =
     andThen (assertTrackerReady p maxLagBlocks answer) (\<lambda>_. fetchAllUtxoPages page cap)"

section \<open>What a build accepts\<close>

text \<open>A validated entry as the record the selection works on.\<close>

definition readUtxo :: "jsval \<Rightarrow> utxo" where
  "readUtxo u =
     \<lparr>txid = (case getProp u ''txid'' of Str s \<Rightarrow> narrow s | _ \<Rightarrow> []),
      vout = (case getProp u ''vout'' of Num (Fin r) \<Rightarrow> nat \<lfloor>r\<rfloor> | _ \<Rightarrow> 0),
      utxoValue = (case getProp u ''value'' of Num (Fin r) \<Rightarrow> \<lfloor>r\<rfloor> | BigInt n \<Rightarrow> n | _ \<Rightarrow> 0),
      scriptPubKey = (case getProp u ''scriptPubKey'' of Str s \<Rightarrow> narrow s | _ \<Rightarrow> []),
      confirmations = (case getProp u ''confirmations'' of Num (Fin r) \<Rightarrow> Some \<lfloor>r\<rfloor> | _ \<Rightarrow> None),
      utxoRedeem = (case getProp u ''redeemScript'' of Str s \<Rightarrow> asciiOf s | _ \<Rightarrow> None)\<rparr>"

definition acceptTrackerUtxos :: "jsval list \<Rightarrow> utxo list result" where
  "acceptTrackerUtxos fetched =
     (if fetched = [] then throw (OperationalError ''NO_UTXOS'')
      else case forEach validateUtxoEntry fetched of
             Inl e \<Rightarrow> throw (OperationalError ''UTXO_TRACKER_ERROR'')
           | Inr us \<Rightarrow> ok (map readUtxo us))"

text \<open>How a failed fetch is reported, by profile; an operational error keeps its code on the remote one.\<close>

definition trackerFailure :: "profile \<Rightarrow> err \<Rightarrow> err" where
  "trackerFailure p e =
     (if e = UTXO_SET_TOO_LARGE then OperationalError ''UTXO_SET_TOO_LARGE''
      else if p = PROFILE_REMOTE
      then (case e of OperationalError c \<Rightarrow> e | _ \<Rightarrow> OperationalError ''UTXO_TRACKER_UNREACHABLE'')
      else OperationalError ''UTXO_TRACKER_ERROR'')"

definition fetchTrackerUtxos :: "lib \<Rightarrow> encoder \<Rightarrow> profile \<Rightarrow> rat \<Rightarrow> syncAnswer \<Rightarrow> (string \<Rightarrow> trackerPages) \<Rightarrow> nat \<Rightarrow> build \<Rightarrow> utxo list result" where
  "fetchTrackerUtxos L enc p maxLagBlocks answer pages cap b =
     andThen (resolveCallerAddress L (network enc) (pubkey b)) (\<lambda>address.
     case getUtxosFromAddress p maxLagBlocks answer (pages address) cap of
       Inl e \<Rightarrow> throw (trackerFailure p e)
     | Inr (sync, fetched) \<Rightarrow>
         andThen (throwIfRefused p sync maxLagBlocks) (\<lambda>_. acceptTrackerUtxos fetched))"

end
