(* ===== verification/TrackerProperties.thy ===== *)
theory TrackerProperties
  imports Tracker ValidatorProperties Instances
begin

text \<open>
  The tracker client never hands on part of an address, never waits for more than 1000 pages, and the
  remote profile refuses whatever does not vouch for itself.
\<close>

section \<open>The pages of a fetch\<close>

definition nextCursorOf :: "jsval \<Rightarrow> jsval" where "nextCursorOf body = getProp (getProp body ''result'') ''nextCursor''"
definition syncOf :: "jsval \<Rightarrow> jsval" where "syncOf body = getProp (getProp body ''result'') ''sync''"
definition rowsOf :: "jsval \<Rightarrow> jsval list" where
  "rowsOf body = (case getProp (getProp body ''result'') ''utxos'' of Arr us \<Rightarrow> us | _ \<Rightarrow> [])"

text \<open>Bodies the tracker answers in a row, each to the cursor of the one before, the last without a next one.\<close>

fun pageChain :: "trackerPages \<Rightarrow> nat \<Rightarrow> nat \<Rightarrow> nat \<Rightarrow> jsval \<Rightarrow> jsval list \<Rightarrow> bool" where
  "pageChain page cap k n cursor [] = False"
| "pageChain page cap k n cursor (b # bs) =
     (page (Suc k) (min UTXO_PAGE_LIMIT (cap - n + 1)) cursor = Inr b \<and>
      (if bs = [] then \<not> truthyVal (nextCursorOf b)
       else truthyVal (nextCursorOf b) \<and> pageChain page cap (Suc k) (n + length (rowsOf b)) (nextCursorOf b) bs))"

definition pageSync :: "jsval \<Rightarrow> jsval" where
  "pageSync body = (if isObject (syncOf body) then syncOf body else Null)"

lemma readUtxoResult_run: "readUtxoResult body = Inr (r, rows) \<Longrightarrow> r = getProp body ''result'' \<and> rows = rowsOf body"
  by (auto simp: readUtxoResult_def rowsOf_def Let_def split: if_splits jsval.splits)

lemma mergeUtxoPage_run:
  assumes "mergeUtxoPage cap (getProp body ''result'') rows st = Inr (again, st')"
  shows "again = truthyVal (nextCursorOf body) \<and> length (pgUtxos st) + length rows \<le> cap \<and> pgCount st' = pgCount st \<and>
     (\<exists>us. forEach checkRow rows = Inr us \<and> pgUtxos st' = pgUtxos st @ us) \<and>
     (again \<longrightarrow> pgCursor st' = nextCursorOf body) \<and>
     (if pgCount st = 1 then pgFirstSync st' = pageSync body
      else pgFirstSync st' = pgFirstSync st \<and> \<not> snapshotDivergence (pgFirstSync st) (pageSync body))"
  using assms
  by (auto simp: mergeUtxoPage_def result_simps Let_def assertWithinUtxoCap_def appendPageUtxos_def assertSameSnapshot_def
      nextCursorOf_def pageSync_def syncOf_def split: if_splits)

lemma forEach_append: "forEach f (xs @ ys) = andThen (forEach f xs) (\<lambda>as. andThen (forEach f ys) (\<lambda>bs. ok (as @ bs)))"
proof (induction xs)
  case Nil
  show ?case by (cases "forEach f ys") auto
next
  case (Cons x xs)
  show ?case using Cons by (cases "f x"; cases "forEach f xs"; cases "forEach f ys") auto
qed

lemma fetchPages_run:
  assumes "fetchPages n page cap st = Inr (sync, us)" "length (pgUtxos st) \<le> cap"
  shows "\<exists>bodies new. pageChain page cap (pgCount st) (length (pgUtxos st)) (pgCursor st) bodies \<and> length bodies \<le> n \<and>
     forEach checkRow (concat (map rowsOf bodies)) = Inr new \<and> us = pgUtxos st @ new \<and> length us \<le> cap \<and>
     sync = syncOf (last bodies) \<and>
     list_all (\<lambda>b. \<not> snapshotDivergence (if pgCount st = 0 then pageSync (hd bodies) else pgFirstSync st) (pageSync b))
       (if pgCount st = 0 then tl bodies else bodies)"
  using assms
proof (induction n arbitrary: st)
  case (Suc n)
  let ?st = "st\<lparr>pgCount := pgCount st + 1\<rparr>"
  obtain body r rows again st' where b0: "page (pgCount st + 1) (min UTXO_PAGE_LIMIT (cap - length (pgUtxos st) + 1)) (pgCursor st) = Inr body"
    "readUtxoResult body = Inr (r, rows)" "mergeUtxoPage cap r rows ?st = Inr (again, st')"
    "(if again then fetchPages n page cap st' else ok (getProp r ''sync'', pgUtxos st')) = Inr (sync, us)"
    using Suc.prems(1) by (auto simp: Let_def result_simps)
  have rr: "r = getProp body ''result''" and rows: "rows = rowsOf body" using readUtxoResult_run [OF b0(2)] by simp_all
  note b = b0 [unfolded rr, folded syncOf_def]
  note m = mergeUtxoPage_run [OF b(3)]
  then obtain new where new: "forEach checkRow rows = Inr new" "pgUtxos st' = pgUtxos st @ new" by auto
  have len: "length (pgUtxos st') = length (pgUtxos st) + length rows" using new by (simp add: forEach_Inr_length)
  show ?case
  proof (cases again)
    case False
    then show ?thesis using b m new rows len by (intro exI [of _ "[body]"] exI [of _ new]) (auto split: if_splits)
  next
    case True
    then have f: "fetchPages n page cap st' = Inr (sync, us)" "length (pgUtxos st') \<le> cap" using b(4) m len by auto
    from Suc.IH [OF this] m obtain bodies rest where h: "pageChain page cap (Suc (pgCount st)) (length (pgUtxos st')) (nextCursorOf body) bodies"
      "length bodies \<le> n" "forEach checkRow (concat (map rowsOf bodies)) = Inr rest" "us = pgUtxos st' @ rest" "length us \<le> cap"
      "sync = syncOf (last bodies)" "list_all (\<lambda>b. \<not> snapshotDivergence (pgFirstSync st') (pageSync b)) bodies"
      using True by auto
    have ne: "bodies \<noteq> []" using h(1) by auto
    show ?thesis using b(1) m new rows len h ne True
      by (intro exI [of _ "body # bodies"] exI [of _ "new @ rest"]) (auto simp: forEach_append split: if_splits)
  qed
qed simp


definition one_page :: trackerPages where
  "one_page k count cursor = ok (Obj [(js ''result'', Obj [(js ''utxos'', Arr []), (js ''sync'', Obj [(js ''lag'', Num (Fin 0))])])])"


text \<open>
  C34. The fetch ends whatever the tracker does: it looks at no more than 1000 answers, so two trackers that agree
  on those give the same outcome.
\<close>

theorem fetch_bounded:
  assumes "\<forall>k \<le> 1000. page k = page' k"
  shows "fetchAllUtxoPages page cap = fetchAllUtxoPages page' cap"
proof -
  have "\<forall>k \<le> n + pgCount st. page k = page' k \<Longrightarrow> fetchPages n page cap st = fetchPages n page' cap st" for n st
  proof (induction n arbitrary: st)
    case (Suc n)
    have p: "page (pgCount st + 1) = page' (pgCount st + 1)" using Suc.prems by simp
    have r: "mergeUtxoPage cap (getProp body ''result'') rows (st\<lparr>pgCount := pgCount st + 1\<rparr>) = Inr (again, st') \<Longrightarrow>
        fetchPages n page cap st' = fetchPages n page' cap st'" for body rows again st'
      using Suc.IH [of st'] Suc.prems by (auto dest!: mergeUtxoPage_run)
    let ?p = "page' (pgCount st + 1) (min UTXO_PAGE_LIMIT (cap - length (pgUtxos st) + 1)) (pgCursor st)"
    show ?case
    proof (cases ?p)
      case (Inr body)
      then show ?thesis
      proof (cases "readUtxoResult body")
        case (Inr x)
        then obtain rows where x: "x = (getProp body ''result'', rows)" using readUtxoResult_run by (cases x) auto
        then show ?thesis using p r [of body rows] \<open>?p = Inr body\<close> Inr
          by (cases "mergeUtxoPage cap (getProp body ''result'') rows (st\<lparr>pgCount := pgCount st + 1\<rparr>)") (auto simp: Let_def)
      qed (use p \<open>?p = Inr body\<close> in \<open>simp add: Let_def\<close>)
    qed (use p in \<open>simp add: Let_def\<close>)
  qed simp
  from this [of MAX_UTXO_PAGES "\<lparr>pgCursor = Undefined, pgFirstSync = Null, pgCount = 0, pgSeen = [], pgUtxos = []\<rparr>"] assms
  show ?thesis by (simp add: fetchAllUtxoPages_def MAX_UTXO_PAGES_def)
qed

theorem fetch_bounded_witness:
  "fetchAllUtxoPages one_page 10000 = fetchAllUtxoPages (\<lambda>k. if k \<le> 1000 then one_page k else (\<lambda>_ _. throw UTXO_SET_TOO_LARGE)) 10000"
  by (rule fetch_bounded) simp

section \<open>The freshness gate\<close>

text \<open>A sync state that vouches for its view, at most \<open>maxLag\<close> blocks behind.\<close>

definition vouched :: "rat \<Rightarrow> jsval \<Rightarrow> bool" where
  "vouched maxLag sync =
     (isObject sync \<and> (case lagOf sync of Some l \<Rightarrow> \<not> js_lt l 0 \<and> \<not> js_gt l maxLag | None \<Rightarrow> False) \<and>
      truthyVal (getProp sync ''synced'') \<and> getProp sync ''halted'' \<noteq> Bool True \<and> getProp sync ''mempool_ready'' \<noteq> Bool False)"

lemma remote_gate: "throwIfRefused PROFILE_REMOTE sync maxLag = Inr () \<longleftrightarrow> vouched maxLag sync"
  by (auto simp: throwIfRefused_def classifyRemoteSync_def classifyTrackerFreshness_def vouched_def Let_def split: option.splits)

lemma accepted_rows: "forEach validateUtxoEntry rows = Inr es \<Longrightarrow> list_all canonicalUtxo es"
  by (auto simp: list_all_iff dest!: forEach_Inr_set' entry_canonical)

text \<open>
  C35. The remote profile fails closed. When it hands candidates to a build, the preflight status and the sync state of
  the fetch both claim to be synced, at a lag from zero to the bound, neither halted nor with a mempool still
  converging; the candidates are the whole address at one chain state, no more than the cap, and each one is
  in canonical form.
\<close>

theorem remote_profile_fails_closed:
  assumes "fetchTrackerUtxos L enc PROFILE_REMOTE maxLag answer pages cap b = Inr us"
  shows "\<exists>address status sync rows es. resolveCallerAddress L (network enc) (pubkey b) = ok address \<and> answer = SyncStatus status \<and> vouched maxLag status \<and>
     fetchAllUtxoPages (pages address) cap = Inr (sync, rows) \<and> vouched maxLag sync \<and> us = map readUtxo es \<and> us \<noteq> [] \<and>
     length us \<le> cap \<and> list_all canonicalUtxo es"
proof -
  obtain address where c: "resolveCallerAddress L (network enc) (pubkey b) = Inr address"
    using assms by (auto simp: fetchTrackerUtxos_def result_simps)
  obtain sync rows where g: "getUtxosFromAddress PROFILE_REMOTE maxLag answer (pages address) cap = Inr (sync, rows)"
    "throwIfRefused PROFILE_REMOTE sync maxLag = Inr ()" "acceptTrackerUtxos rows = Inr us"
    using assms c by (cases "getUtxosFromAddress PROFILE_REMOTE maxLag answer (pages address) cap") (auto simp: fetchTrackerUtxos_def result_simps)
  then have a: "resolveCallerAddress L (network enc) (pubkey b) = Inr address" "assertTrackerReady PROFILE_REMOTE maxLag answer = Inr ()"
    "fetchAllUtxoPages (pages address) cap = Inr (sync, rows)" "throwIfRefused PROFILE_REMOTE sync maxLag = Inr ()" "acceptTrackerUtxos rows = Inr us"
    using c by (auto simp: getUtxosFromAddress_def result_simps)
  obtain status where "answer = SyncStatus status" "vouched maxLag status"
    using a(2) by (cases answer) (auto simp: assertTrackerReady_def assertRemoteTrackerReady_def remote_gate)
  moreover obtain es where "forEach validateUtxoEntry rows = Inr es" "us = map readUtxo es" "rows \<noteq> []"
    using a(5) by (auto simp: acceptTrackerUtxos_def split: if_splits sum.splits)
  moreover from this have "list_all canonicalUtxo es" "length us = length rows" "es \<noteq> []"
    using forEach_Inr_length [of validateUtxoEntry rows es] by (auto simp: accepted_rows)
  moreover have "length rows \<le> cap"
    using fetchPages_run [OF a(3) [unfolded fetchAllUtxoPages_def]] by auto
  ultimately show ?thesis using a(1,3,4) by (auto simp: remote_gate)
qed

definition good_entry :: jsval where
  "good_entry = Obj [(js ''txid'', Str (replicate 64 0x61)), (js ''vout'', Num (Fin 0)), (js ''value'', Num (Fin 5000)),
     (js ''scriptPubKey'', Str [0x35, 0x31]), (js ''confirmations'', Num (Fin 3))]"

definition good_sync :: jsval where "good_sync = Obj [(js ''lag'', Num (Fin 0)), (js ''synced'', Bool True)]"

definition good_page :: trackerPages where
  "good_page k count cursor = ok (Obj [(js ''result'', Obj [(js ''utxos'', Arr [good_entry]), (js ''sync'', good_sync)])])"

lemma good_entry_fields [simp]: "getProp good_entry ''txid'' = Str (replicate 64 0x61)" "getProp good_entry ''vout'' = Num (Fin 0)"
  "getProp good_entry ''value'' = Num (Fin 5000)" "getProp good_entry ''scriptPubKey'' = Str [0x35, 0x31]"
  "getProp good_entry ''confirmations'' = Num (Fin 3)" "isPlainObject good_entry"
  by (simp_all add: good_entry_def getProp_def jm_get_def)

lemma good_sync_vouched: "vouched 6 good_sync" "isObject good_sync"
  by (simp_all add: vouched_def lagOf_def good_sync_def getProp_def jm_get_def)

lemma good_canonical: "canonicalUtxo good_entry"
proof -
  have l: "lowerUnit 0x61 = 0x61" by (simp add: lowerUnit_def)
  have h: "isHex64 (replicate 64 0x61)" "map lowerUnit (replicate 64 0x61) = replicate 64 0x61" "isRawHex [0x35, 0x31]"
    by (simp_all add: isHex64_def isHexUnit_def isDigit_def isRawHex_def list_all_iff l)
  have "\<exists>n. getProp good_entry ''vout'' = Num (Fin (of_nat n)) \<and> n \<le> 0xffffffff" by (intro exI [of _ 0]) simp
  moreover have "\<exists>v. getProp good_entry ''value'' = satoshiVal v \<and> 0 \<le> v \<and> v \<le> MAX_SATOSHI_U64"
    by (intro exI [of _ 5000]) (simp add: satoshiVal_def MAX_SAFE_INTEGER_def MAX_SATOSHI_U64_def)
  moreover have "\<exists>n. getProp good_entry ''confirmations'' = Num (Fin (of_nat n))" by (intro exI [of _ 3]) simp
  ultimately show ?thesis using h by (simp add: canonicalUtxo_def)
qed

theorem remote_profile_fails_closed_witness:
  "\<exists>us. fetchTrackerUtxos exampleLib btcEncoder PROFILE_REMOTE 6 (SyncStatus good_sync) (\<lambda>_. good_page) 10000 blankBuild = Inr us \<and> us \<noteq> []"
proof -
  have m: "MAX_UTXO_PAGES = Suc 999" by (simp add: MAX_UTXO_PAGES_def)
  have row: "checkRow good_entry = Inr good_entry"
    using good_canonical by (auto simp: checkRow_def canonicalUtxo_def setProp_same)
  have f: "fetchAllUtxoPages good_page 10000 = Inr (good_sync, [good_entry])"
    unfolding fetchAllUtxoPages_def m fetchPages.simps
    by (simp add: good_page_def readUtxoResult_def getProp_def jm_get_def mergeUtxoPage_def assertWithinUtxoCap_def
        appendPageUtxos_def row Let_def)
  have "\<exists>us. fetchTrackerUtxos exampleLib btcEncoder PROFILE_REMOTE 6 (SyncStatus good_sync) (\<lambda>_. good_page) 10000 blankBuild = Inr us"
    using good_sync_vouched remote_gate [of good_sync 6]
    by (simp add: fetchTrackerUtxos_def resolveCallerAddress_def getUtxosFromAddress_def assertTrackerReady_def assertRemoteTrackerReady_def f exampleLib_def
        acceptTrackerUtxos_def canonical_stays good_canonical)
  then show ?thesis using remote_profile_fails_closed by metis
qed

end
