(* ===== verification/Pipeline.thy ===== *)
theory Pipeline
  imports PayloadChecks Selection Tracker
begin

text \<open>
  One build from end to end: \<open>buildSteps\<close> of \<open>src/src/XChainEncoder.js\<close>, the response of
  \<open>build_transaction/build_result.js\<close> and the entry point that owns the call's reservations. What the node,
  the tracker, zlib and the clock answer is gathered in \<open>answers\<close>, with what other calls do to the guard
  while the build waits for them.
\<close>

section \<open>The surroundings of a call\<close>

record trackerSetup =
  tsProfile :: profile
  tsMaxLag :: rat
  tsCap :: nat

record answers =
  aRelayFee :: jsnum
  aEstimate :: "rat result"
  aDeflate :: "Buffer \<Rightarrow> Buffer option"
  aSetting :: "string option"
  aTip :: "jsnum option"
  aSync :: syncAnswer
  aPages :: "string \<Rightarrow> trackerPages"
  aTxHex :: "string \<Rightarrow> Buffer result"
  aAncestors :: "string list \<Rightarrow> ancestorPackage option"
  aBefore :: "guard \<Rightarrow> guard"
  aEmitting :: "guard \<Rightarrow> guard"
  aSelecting :: "nat \<Rightarrow> guard \<Rightarrow> guard"
  aSettling :: "guard \<Rightarrow> guard"
  aNowKey :: int
  aNowSelect :: int
  aNowFinish :: int

text \<open>The arguments: the payload side, the exact-inputs option, and the rest as the build record they start.\<close>

section \<open>Phases\<close>

definition payloadPhase :: "lib \<Rightarrow> encoder \<Rightarrow> answers \<Rightarrow> request \<Rightarrow> build \<Rightarrow> (payloadState \<times> build) result" where
  "payloadPhase L enc a rq b =
     andThen (checkPayloadInput L enc rq b) (\<lambda>(ps, b).
     andThen (resolveFeeRates enc (aRelayFee a) (aEstimate a) b) (\<lambda>b.
     preparePayload L enc (aDeflate a) (aSetting a) (aTip a) rq b ps))"

text \<open>\<open>fetchedFromTracker\<close> is set where the tracker was asked.\<close>

definition asksTracker :: "build \<Rightarrow> bool" where
  "asksTracker b = (utxos b = [] \<and> \<not> (isReveal b \<and> truthy (p2shHex b)))"

definition candidatePhase :: "lib \<Rightarrow> encoder \<Rightarrow> trackerSetup \<Rightarrow> answers \<Rightarrow> bool \<Rightarrow> build \<Rightarrow> (bool \<times> build) result" where
  "candidatePhase L enc t a exact b =
     andThen (checkExactInputs exact (initInputState b)) (\<lambda>b.
     let fetched = asksTracker b
     in andThen (gatherUtxos (fetchTrackerUtxos L enc (tsProfile t) (tsMaxLag t) (aSync a) (aPages a) (tsCap t) b) b) (\<lambda>b.
        andThen (refuseShrunkExactInputs b) (\<lambda>_.
        andThen (filterAndOrderUtxos b) (\<lambda>b. ok (fetched, b)))))"

definition emissionPhase :: "lib \<Rightarrow> encoder \<Rightarrow> payloadState \<Rightarrow> build \<Rightarrow> build result" where
  "emissionPhase L enc ps b =
     andThen (prepareDataChunks L (psFinal ps) (psEncoding ps) b) (\<lambda>b.
     andThen (emitDataOutputs L enc (initEmissionState (priceRevealCustomOutputs L enc b))) (\<lambda>b.
     andThen (emitCustomOutputs L enc b) initSelection))"

definition settlementPhase :: "lib \<Rightarrow> encoder \<Rightarrow> answers \<Rightarrow> build \<Rightarrow> build result" where
  "settlementPhase L enc a b =
     andThen (settle L enc (aAncestors a (unconfirmedInputTxids b)) b) (\<lambda>b.
     sweepP2shReveal L enc (case p2shHash b of Some h \<Rightarrow> aAncestors a [h] | None \<Rightarrow> None) b)"

section \<open>The response\<close>

record compressionReport =
  cmCompressed :: bool
  cmRawLength :: nat
  cmStoredLength :: nat
  cmReason :: "string option"
  cmData :: "jstring option"
  cmRawData :: "jstring option"

record buildResult =
  resPsbt :: psbt
  resEncoding :: Encoding
  resWarnings :: "string list"
  resCompression :: "compressionReport option"
  resCarriers :: "Buffer list option"
  resReveal :: "(psbt \<times> envelopeResult) option"

definition attachAdvisories :: "payloadState \<Rightarrow> string list" where
  "attachAdvisories ps =
     (if psRawDataOnly ps then [''RAWDATA_ONLY_NOT_DECODED''] else []) @
     (if psUnknownAction ps \<noteq> None then [''UNKNOWN_ACTION_NAME''] else [])"

definition attachCompression :: "payloadState \<Rightarrow> compressionReport option" where
  "attachCompression ps =
     map_option (\<lambda>r. \<lparr>cmCompressed = crCompressed r, cmRawLength = crRawLength r, cmStoredLength = crStoredLength r,
       cmReason = crReason r, cmData = (if crCompressed r then crData r else None),
       cmRawData = (if crCompressed r then Some (fromLatin1 (crRawData r)) else None)\<rparr>) (psCompression ps)"

definition attachCarriers :: "build \<Rightarrow> (psbt \<times> envelopeResult) option \<Rightarrow> Buffer list option" where
  "attachCarriers b reveal =
     (if payloadEncoding (preparedData b) \<in> {E_P2SH, E_P2WSH} \<or> reveal \<noteq> None
      then Some (dataBufferArray (preparedData b)) else None)"

definition finishBuild :: "lib \<Rightarrow> payloadState \<Rightarrow> (psbt \<times> envelopeResult) option \<Rightarrow> int \<Rightarrow> bstate \<Rightarrow> bstate \<times> buildResult result" where
  "finishBuild L ps reveal now s =
     (let (g, b) = s
      in case needPsbt b of
           Inl e \<Rightarrow> (s, throw e)
         | Inr p \<Rightarrow>
             (case refuseDuplicateBuild (unsignedId L p) now g of
                (g, Inl e) \<Rightarrow> ((g, b), throw e)
              | (g, Inr newTxid) \<Rightarrow>
                  ((g, b\<lparr>callReservations := (callReservations b)\<lparr>buildTxid := Some newTxid\<rparr>\<rparr>),
                   ok \<lparr>resPsbt = p, resEncoding = payloadEncoding (preparedData b), resWarnings = attachAdvisories ps,
                       resCompression = attachCompression ps, resCarriers = attachCarriers b reveal, resReveal = reveal\<rparr>)))"

section \<open>The build\<close>

definition buildSteps :: "lib \<Rightarrow> encoder \<Rightarrow> trackerSetup \<Rightarrow> answers \<Rightarrow> request \<Rightarrow> bool \<Rightarrow> bstate \<Rightarrow> bstate \<times> buildResult result" where
  "buildSteps L enc t a rq exact s =
     bindS (s, payloadPhase L enc a rq (snd s)) (\<lambda>(ps, b) (g, _).
     bindS ((aBefore a g, b), candidatePhase L enc t a exact b) (\<lambda>(fetched, b) (g, _).
     bindS (bindObfuscationKey (aNowKey a) (g, b)) (\<lambda>_ (g, b).
     bindS (stepS (emissionPhase L enc ps) (aEmitting a g, b)) (\<lambda>_ s.
     bindS (selectFundingInputs L enc (aTxHex a) fetched (aSelecting a) (aNowSelect a) s) (\<lambda>_ (g, b).
     bindS (stepS (settlementPhase L enc a) (aSettling a g, b)) (\<lambda>_ s.
     bindS (checkS (buildEnvelopeReveal L enc) s) (\<lambda>reveal s.
     finishBuild L ps reveal (aNowFinish a) s)))))))"

text \<open>The call: its ledger starts empty, a failure hands back what it took, a success mints the receipt.\<close>

definition create :: "lib \<Rightarrow> encoder \<Rightarrow> trackerSetup \<Rightarrow> answers \<Rightarrow> request \<Rightarrow> bool \<Rightarrow> build \<Rightarrow> int \<Rightarrow> string \<Rightarrow> guard \<Rightarrow>
    guard \<times> (buildResult \<times> receipt option) result" where
  "create L enc t a rq exact b now newId g =
     createTransaction (\<lambda>g. case buildSteps L enc t a rq exact (g, b\<lparr>callReservations := \<lparr>claims = [], buildTxid = None\<rparr>\<rparr>) of
                              ((g, b), r) \<Rightarrow> ((g, callReservations b), r)) now newId g"

end
