(* ===== verification/EmissionFacts.thy ===== *)
theory EmissionFacts
  imports Pipeline SelectionFacts
begin

text \<open>
  What the emission steps of a build that is not a reveal add to the transaction: one output per chunk, which
  carries that chunk, and one per payment; nothing else of the call changes and the running total stays exact.
\<close>

section \<open>The outputs asked for\<close>

text \<open>The script that carries a chunk, by lane; \<open>key\<close> is the txid the payload is obfuscated with.\<close>

definition carrierScript :: "lib \<Rightarrow> string option \<Rightarrow> build \<Rightarrow> Encoding \<Rightarrow> Buffer \<Rightarrow> Buffer option" where
  "carrierScript L key b e c =
     (case e of
        E_OP_RETURN \<Rightarrow> map_option (\<lambda>k. embedOutput L (obfuscate (aes128ctr L) c k)) key
      | E_P2SH \<Rightarrow> Some (p2shOutput L c)
      | E_P2WSH \<Rightarrow> Some (p2wshOutput L c)
      | E_TAPROOT \<Rightarrow> map_option (\<lambda>k. p2trOutput L k c) (internalPubkey (preparedData b))
      | E_MULTISIGN \<Rightarrow>
          (case (key, compressedPubKey b) of
             (Some k, Some pk) \<Rightarrow>
               (let d = obfuscate (aes128ctr L) c k
                in p2msOutput L [dataToPubkey (subarray d 0 32), dataToPubkey (subarray d 32 (length d)), fromHex pk])
           | _ \<Rightarrow> None)
      | _ \<Rightarrow> None)"

text \<open>The fields emission reads and never writes.\<close>

definition sameCall :: "build \<Rightarrow> build \<Rightarrow> bool" where
  "sameCall b b' \<longleftrightarrow> customOutputs b' = customOutputs b \<and> change b' = change b \<and> p2shHash b' = p2shHash b \<and> pubkey b' = pubkey b \<and>
     compressedPubKey b' = compressedPubKey b \<and> utxos b' = utxos b \<and> exactInputs b' = exactInputs b \<and>
     firstReservedOutpoint b' = firstReservedOutpoint b \<and> fee b' = fee b \<and> feePerKb b' = feePerKb b \<and> feePerBytes b' = feePerBytes b \<and>
     relayFeePerKb b' = relayFeePerKb b \<and> hasActionPayload b' = hasActionPayload b \<and> preparedData b' = preparedData b \<and>
     callReservations b' = callReservations b \<and> inputSatoshis b' = inputSatoshis b \<and> finalDust b' = finalDust b \<and>
     isP2shFamily b' = isP2shFamily b \<and> replacebyfee b' = replacebyfee b \<and> attachPrevTx b' = attachPrevTx b"

lemma sameCall_refl [simp]: "sameCall b b"
  by (simp add: sameCall_def)

lemma sameCall_trans: "sameCall a b \<Longrightarrow> sameCall b c \<Longrightarrow> sameCall a c"
  by (simp add: sameCall_def)

definition prefundedOk :: "build \<Rightarrow> bool" where
  "prefundedOk b \<longleftrightarrow> 0 \<le> revealCustomOutputsValue b \<and> 0 \<le> revealCustomOutputsFee b"

definition carrierEncodings :: "Encoding set" where
  "carrierEncodings = {E_OP_RETURN, E_P2SH, E_P2WSH, E_MULTISIGN, E_TAPROOT}"

section \<open>One chunk\<close>

lemma obfuscateFor_Inr: "obfuscateFor L d b = Inr x \<longleftrightarrow> (\<exists>k. txidFirstInput b = Some k \<and> x = obfuscate (aes128ctr L) d k)"
  by (auto simp: obfuscateFor_def split: option.splits)

lemma needPsbt_Inr: "needPsbt b = Inr p \<longleftrightarrow> psbtOf b = Some p"
  by (auto simp: needPsbt_def split: option.splits)

text \<open>What one emission step does: one output, of a value at least \<open>least\<close>, for the script it carries.\<close>

definition emitsOne :: "Buffer option \<Rightarrow> int \<Rightarrow> build \<Rightarrow> build \<Rightarrow> bool" where
  "emitsOne script least b b' \<longleftrightarrow> sameCall b b' \<and>
     (\<exists>p s v. psbtOf b = Some p \<and> script = Some s \<and> least \<le> v \<and> psbtOf b' = Some (addOutput s v p) \<and>
        outputSatoshis b' = outputSatoshis b + v \<and>
        (revealPrefund b' = revealPrefund b \<or> map_option prefundIndex (revealPrefund b') = Some (length (txOutputs p)))) \<and>
     (prefundedOk b \<longrightarrow> prefundedOk b')"

lemma emitOpReturn_one:
  "emitOpReturnChunk L c b = Inr b' \<Longrightarrow>
     emitsOne (carrierScript L (txidFirstInput b) b E_OP_RETURN c) 0 b b' \<and> txidFirstInput b' = txidFirstInput b"
  by (auto simp: emitOpReturnChunk_def result_simps obfuscateFor_Inr emitOutput_facts emitsOne_def carrierScript_def sameCall_def prefundedOk_def)

lemma emitMultisign_one:
  assumes "emitMultisignChunk L enc c b = Inr b'"
  shows "emitsOne (carrierScript L (txidFirstInput b) b E_MULTISIGN c) (finalDust b) b b' \<and> txidFirstInput b' = txidFirstInput b"
proof (cases "compressedPubKey b")
  case None
  then show ?thesis using assms by (auto simp: emitMultisignChunk_def result_simps)
next
  case (Some key)
  obtain k where k: "txidFirstInput b = Some k" using assms by (auto simp: emitMultisignChunk_def result_simps obfuscateFor_Inr)
  define d where "d = obfuscate (aes128ctr L) c k"
  have o: "obfuscateFor L c b = ok d" by (simp add: obfuscateFor_def k d_def)
  obtain script where script: "p2msOutput L [dataToPubkey (subarray d 0 32), dataToPubkey (drop 32 d), fromHex key] = Some script"
    using assms by (cases "p2msOutput L [dataToPubkey (subarray d 0 32), dataToPubkey (drop 32 d), fromHex key]")
      (simp_all add: emitMultisignChunk_def o Some)
  obtain m b1 where b1: "emitOutput script (max (finalDust b) (int m)) b = Inr b1"
    "b' = b1\<lparr>outputSatoshis := outputSatoshis b1 + max (finalDust b) (int m), estimatedTxSize := estimatedTxSize b1 + estimateMultisignOutput\<rparr>"
    using assms by (auto simp: emitMultisignChunk_def o Some script result_simps Let_def)
  have "carrierScript L (txidFirstInput b) b E_MULTISIGN c = Some script"
    using script by (simp add: carrierScript_def k Some d_def)
  then show ?thesis using b1 by (auto simp: emitsOne_def emitOutput_facts sameCall_def prefundedOk_def)
qed

text \<open>The commit: the value it funds is the reveal's fee, the dust it pays back and the pad's dust.\<close>

lemma emitEnvelope_run:
  assumes "emitEnvelopeCommit L enc c b = Inr b'"
  obtains key addr p vsize f pad where "internalPubkey (preparedData b) = Some key" "changeOrCaller L enc b = ok addr" "psbtOf b = Some p"
    "finalDust b \<le> f" "feeForVsize vsize (feePerBytes b) SATOSHI_UNIT \<le> f"
    "b' = b\<lparr>revealPrefund := Some \<lparr>prefundIndex = length (txOutputs p), prefundSize = vsize, prefundFee = f\<rparr>,
        psbtOf := Some (addOutput (p2trOutput L key c) (f + dustAmount enc + (if pad then dustAmount enc else 0)) p),
        outputSatoshis := outputSatoshis b + (f + dustAmount enc + (if pad then dustAmount enc else 0)),
        estimatedTxSize := estimatedTxSize b + estimateTaprootOutput,
        envelopeContextOf := Some \<lparr>ecInternalPubkey = key, ecScript = c, ecOutput = p2trOutput L key c,
          commitValue = f + dustAmount enc + (if pad then dustAmount enc else 0), ecRevealFee = f, revealPadNeeded = pad,
          revealChangeAddress = addr\<rparr>\<rparr>"
proof (cases "internalPubkey (preparedData b)")
  case None
  then show ?thesis using assms by (simp add: emitEnvelopeCommit_def)
next
  case (Some key)
  obtain addr where addr: "changeOrCaller L enc b = ok addr"
    using assms by (cases "changeOrCaller L enc b") (simp_all add: emitEnvelopeCommit_def Some)
  obtain p where p: "psbtOf b = Some p"
    using assms by (cases "psbtOf b") (simp_all add: emitEnvelopeCommit_def Some addr needPsbt_def Let_def)
  show ?thesis
    by (rule that [OF Some addr p max.cobounded2 max.cobounded1])
      (use assms in \<open>simp only: emitEnvelopeCommit_def Some option.case addr andThen.simps needPsbt_def p Let_def sum.inject HOL.eq_commute [of b']\<close>)
qed

lemma emitEnvelope_one:
  assumes "emitEnvelopeCommit L enc c b = Inr b'" "0 \<le> dustAmount enc"
  shows "emitsOne (carrierScript L k b E_TAPROOT c) (finalDust b) b b' \<and> txidFirstInput b' = txidFirstInput b"
proof -
  obtain key p f v r e n where e: "internalPubkey (preparedData b) = Some key" "psbtOf b = Some p" "finalDust b \<le> v"
    "map_option prefundIndex r = Some (length (txOutputs p))"
    "b' = b\<lparr>revealPrefund := r, psbtOf := Some (addOutput (p2trOutput L key c) v p),
        outputSatoshis := outputSatoshis b + v, estimatedTxSize := n, envelopeContextOf := e\<rparr>"
  proof (rule emitEnvelope_run [OF assms(1)])
    fix key addr p vsize f pad
    assume r: "internalPubkey (preparedData b) = Some key" "psbtOf b = Some p" "finalDust b \<le> f"
      "b' = b\<lparr>revealPrefund := Some \<lparr>prefundIndex = length (txOutputs p), prefundSize = vsize, prefundFee = f\<rparr>,
        psbtOf := Some (addOutput (p2trOutput L key c) (f + dustAmount enc + (if pad then dustAmount enc else 0)) p),
        outputSatoshis := outputSatoshis b + (f + dustAmount enc + (if pad then dustAmount enc else 0)),
        estimatedTxSize := estimatedTxSize b + estimateTaprootOutput,
        envelopeContextOf := Some \<lparr>ecInternalPubkey = key, ecScript = c, ecOutput = p2trOutput L key c,
          commitValue = f + dustAmount enc + (if pad then dustAmount enc else 0), ecRevealFee = f, revealPadNeeded = pad,
          revealChangeAddress = addr\<rparr>\<rparr>"
    have "finalDust b \<le> f + dustAmount enc + (if pad then dustAmount enc else 0)" using r(3) assms(2) by simp
    from that [OF r(1,2) this _ r(4)] show ?thesis by simp
  qed
  have "sameCall b b'" "prefundedOk b \<longrightarrow> prefundedOk b'" "txidFirstInput b' = txidFirstInput b"
    unfolding e(5) by (simp_all add: sameCall_def prefundedOk_def)
  moreover have "carrierScript L k b E_TAPROOT c = Some (p2trOutput L key c)" by (simp add: carrierScript_def e(1))
  ultimately show ?thesis unfolding emitsOne_def using e(2-4) by (simp add: e(5))
qed

lemma foldCustom_facts:
  "foldCustomOutputs f b = (f', b1) \<Longrightarrow> sameCall b b1 \<and> psbtOf b1 = psbtOf b \<and> outputSatoshis b1 = outputSatoshis b \<and>
     txidFirstInput b1 = txidFirstInput b \<and> revealPrefund b1 = revealPrefund b \<and> (prefundedOk b \<longrightarrow> f \<le> f' \<and> prefundedOk b1)"
  by (auto simp: foldCustomOutputs_def sameCall_def prefundedOk_def split: if_splits)

lemma topUp_facts:
  "topUpFirstLeg enc f e b = Inr (f', b1) \<Longrightarrow> 0 \<le> outputFloor enc \<Longrightarrow> f \<le> f' \<and> sameCall b b1 \<and> psbtOf b1 = psbtOf b \<and>
     outputSatoshis b1 = outputSatoshis b \<and> txidFirstInput b1 = txidFirstInput b \<and> (prefundedOk b \<longrightarrow> prefundedOk b1) \<and>
     (revealPrefund b1 = revealPrefund b \<or> map_option prefundIndex (revealPrefund b1) = map_option (\<lambda>p. length (txOutputs p)) (psbtOf b))"
  by (auto simp: topUpFirstLeg_def sumRevealLegs_def result_simps needPsbt_Inr sameCall_def prefundedOk_def Let_def split: if_splits)

lemma loadFunding_facts:
  "loadFundingTx L b = Inr b1 \<Longrightarrow> sameCall b b1 \<and> psbtOf b1 = psbtOf b \<and> outputSatoshis b1 = outputSatoshis b \<and>
     revealPrefund b1 = revealPrefund b \<and> (prefundedOk b \<longrightarrow> prefundedOk b1)"
  by (auto simp: loadFundingTx_def result_simps sameCall_def prefundedOk_def Let_def split: if_splits option.splits)

lemma emitLeg_one:
  assumes "sameCall b b1" "psbtOf b1 = psbtOf b" "outputSatoshis b1 = outputSatoshis b" "prefundedOk b \<longrightarrow> prefundedOk b1"
    and "emitOutput s v b1 = Inr b2" "least \<le> v"
    and "revealPrefund b1 = revealPrefund b \<or> map_option prefundIndex (revealPrefund b1) = map_option (\<lambda>p. length (txOutputs p)) (psbtOf b)"
  shows "emitsOne (Some s) least b (b2\<lparr>outputSatoshis := outputSatoshis b2 + v, estimatedTxSize := n\<rparr>)"
proof -
  obtain p where p: "psbtOf b1 = Some p" "b2 = b1\<lparr>psbtOf := Some (addOutput s v p)\<rparr>"
    using assms(5) by (auto simp: emitOutput_facts)
  have h: "revealPrefund b1 = revealPrefund b \<or> map_option prefundIndex (revealPrefund b1) = Some (length (txOutputs p))"
    using assms(7) p(1) assms(2) by simp
  have "sameCall b (b2\<lparr>outputSatoshis := outputSatoshis b2 + v, estimatedTxSize := n\<rparr>)"
    using assms(1) unfolding p(2) sameCall_def by simp
  moreover have "prefundedOk b \<Longrightarrow> prefundedOk (b2\<lparr>outputSatoshis := outputSatoshis b2 + v, estimatedTxSize := n\<rparr>)"
    using assms(4) unfolding p(2) prefundedOk_def by simp
  moreover have "\<exists>p s' v'. psbtOf b = Some p \<and> Some s = Some s' \<and> least \<le> v' \<and>
      psbtOf (b2\<lparr>outputSatoshis := outputSatoshis b2 + v, estimatedTxSize := n\<rparr>) = Some (addOutput s' v' p) \<and>
      outputSatoshis (b2\<lparr>outputSatoshis := outputSatoshis b2 + v, estimatedTxSize := n\<rparr>) = outputSatoshis b + v' \<and>
      (revealPrefund (b2\<lparr>outputSatoshis := outputSatoshis b2 + v, estimatedTxSize := n\<rparr>) = revealPrefund b \<or>
       map_option prefundIndex (revealPrefund (b2\<lparr>outputSatoshis := outputSatoshis b2 + v, estimatedTxSize := n\<rparr>)) = Some (length (txOutputs p)))"
    by (rule exI [of _ p], rule exI [of _ s], rule exI [of _ v]) (use assms(2,3,6) p h in simp)
  ultimately show ?thesis unfolding emitsOne_def by blast
qed

lemma fundP2sh_one:
  assumes "fundP2shLeg L enc c b = Inr b'" "0 \<le> outputFloor enc" "prefundedOk b"
  shows "emitsOne (Some (p2shOutput L c)) (finalDust b) b b'"
proof -
  let ?f = "max (feeForVsize (estimateSpendingP2shTx (length c)) (feePerBytes b) SATOSHI_UNIT) (finalDust b)"
  obtain f1 b1 where f: "foldCustomOutputs ?f b = (f1, b1)" by (metis surj_pair)
  obtain f2 b2 b3 where t: "topUpFirstLeg enc f1 E_P2SH b1 = Inr (f2, b2)" "emitOutput (p2shOutput L c) f2 b2 = Inr b3"
    "b' = b3\<lparr>outputSatoshis := outputSatoshis b3 + f2, estimatedTxSize := estimatedTxSize b3 + estimateP2shOutput\<rparr>"
    using assms(1) by (auto simp: fundP2shLeg_def f result_simps Let_def)
  have o1: "sameCall b b1" "psbtOf b1 = psbtOf b" "outputSatoshis b1 = outputSatoshis b" "?f \<le> f1" "prefundedOk b1"
    "revealPrefund b1 = revealPrefund b"
    using foldCustom_facts [OF f] assms(3) by auto
  have o2: "sameCall b1 b2" "psbtOf b2 = psbtOf b1" "outputSatoshis b2 = outputSatoshis b1" "f1 \<le> f2" "prefundedOk b2"
    "revealPrefund b2 = revealPrefund b1 \<or> map_option prefundIndex (revealPrefund b2) = map_option (\<lambda>p. length (txOutputs p)) (psbtOf b1)"
    using topUp_facts [OF t(1) assms(2)] o1 by auto
  show ?thesis unfolding t(3)
    by (rule emitLeg_one [OF sameCall_trans [OF o1(1) o2(1)] _ _ _ t(2)]) (use o1 o2 in auto)
qed

lemma fundP2wsh_one:
  assumes "fundP2wshLeg L enc c b = Inr b'" "0 \<le> outputFloor enc" "0 \<le> dustAmount enc" "prefundedOk b"
  shows "emitsOne (Some (p2wshOutput L c)) (finalDust b) b b'"
proof -
  let ?pad = "revealNeedsFloorPad L enc (preparedData b) (customOutputs b)"
  let ?n = "if ?pad then estimateOutputSizeForAddress (toOutputScript L) (change b) else 0"
  let ?f = "max (feeForVsize (estimateSpendingP2wshTx (network enc) (length c) ?n) (feePerBytes b) SATOSHI_UNIT) (finalDust b)
      + (if ?pad then dustAmount enc else 0)"
  obtain f1 b1 where f: "foldCustomOutputs ?f b = (f1, b1)" by (metis surj_pair)
  obtain f2 b2 b3 where t: "(if ?n = 0 then topUpFirstLeg enc f1 E_P2WSH b1 else ok (f1, b1)) = Inr (f2, b2)"
    "emitOutput (p2wshOutput L c) f2 b2 = Inr b3"
    "b' = b3\<lparr>outputSatoshis := outputSatoshis b3 + f2, estimatedTxSize := estimatedTxSize b3 + estimateP2wshOutput\<rparr>"
    using assms(1) unfolding fundP2wshLeg_def Let_def f by (auto simp: result_simps)
  have o1: "sameCall b b1" "psbtOf b1 = psbtOf b" "outputSatoshis b1 = outputSatoshis b" "?f \<le> f1" "prefundedOk b1"
    "revealPrefund b1 = revealPrefund b"
    using foldCustom_facts [OF f] assms(4) by auto
  have "f1 \<le> f2 \<and> sameCall b1 b2 \<and> psbtOf b2 = psbtOf b1 \<and> outputSatoshis b2 = outputSatoshis b1 \<and> prefundedOk b2 \<and>
    (revealPrefund b2 = revealPrefund b1 \<or> map_option prefundIndex (revealPrefund b2) = map_option (\<lambda>p. length (txOutputs p)) (psbtOf b1))"
  proof (cases "?n = 0")
    case True
    then have "topUpFirstLeg enc f1 E_P2WSH b1 = Inr (f2, b2)" using t(1) by (simp only: if_True refl simp_thms)
    from topUp_facts [OF this assms(2)] o1(5) show ?thesis by blast
  next
    case False
    then have "f2 = f1 \<and> b2 = b1" using t(1) by (simp only: if_False sum.inject prod.inject)
    then show ?thesis using o1(5) by simp
  qed
  then have o2: "sameCall b1 b2" "psbtOf b2 = psbtOf b1" "outputSatoshis b2 = outputSatoshis b1" "f1 \<le> f2" "prefundedOk b2"
    "revealPrefund b2 = revealPrefund b1 \<or> map_option prefundIndex (revealPrefund b2) = map_option (\<lambda>p. length (txOutputs p)) (psbtOf b1)"
    by blast+
  have "finalDust b \<le> f2" using o1(4) o2(4) assms(3) by (auto split: if_splits)
  then show ?thesis unfolding t(3)
    by (intro emitLeg_one [OF sameCall_trans [OF o1(1) o2(1)] _ _ _ t(2)]) (use o1 o2 in auto)
qed

lemma emitsOne_before:
  assumes "loadFundingTx L b = Inr b1" "emitsOne script (finalDust b1) b1 b'"
  shows "emitsOne script (finalDust b) b b'"
  using loadFunding_facts [OF assms(1)] assms(2) unfolding emitsOne_def
  by (auto intro: sameCall_trans simp: sameCall_def)

lemma emitChunk_one:
  assumes "emitChunk L enc e c b = Inr b'" "\<not> isReveal b" "e \<in> carrierEncodings" "0 \<le> outputFloor enc" "0 \<le> dustAmount enc" "prefundedOk b"
  shows "emitsOne (carrierScript L (txidFirstInput b) b e c) (if e = E_OP_RETURN then 0 else finalDust b) b b' \<and>
     (e \<in> {E_OP_RETURN, E_MULTISIGN} \<longrightarrow> txidFirstInput b' = txidFirstInput b)"
proof (cases e)
  case E_P2SH
  then obtain b1 where b1: "loadFundingTx L b = Inr b1" "(if isReveal b1 then spendP2shLeg L c b1 else fundP2shLeg L enc c b1) = Inr b'"
    using assms(1) by (auto simp: emitChunk_def emitP2shChunk_def result_simps)
  then have "\<not> isReveal b1" "prefundedOk b1" using loadFunding_facts [OF b1(1)] assms(2,6) by (auto simp: sameCall_def)
  then have "emitsOne (Some (p2shOutput L c)) (finalDust b1) b1 b'" using fundP2sh_one assms(4) b1(2) by auto
  then show ?thesis using emitsOne_before [OF b1(1)] E_P2SH by (simp add: carrierScript_def)
next
  case E_P2WSH
  then obtain b1 where b1: "loadFundingTx L b = Inr b1" "(if isReveal b1 then spendP2wshLeg L c b1 else fundP2wshLeg L enc c b1) = Inr b'"
    using assms(1) by (auto simp: emitChunk_def emitP2wshChunk_def result_simps)
  then have "\<not> isReveal b1" "prefundedOk b1" using loadFunding_facts [OF b1(1)] assms(2,6) by (auto simp: sameCall_def)
  then have "emitsOne (Some (p2wshOutput L c)) (finalDust b1) b1 b'" using fundP2wsh_one assms(4,5) b1(2) by auto
  then show ?thesis using emitsOne_before [OF b1(1)] E_P2WSH by (simp add: carrierScript_def)
qed (use assms emitOpReturn_one emitMultisign_one emitEnvelope_one in \<open>auto simp: emitChunk_def carrierEncodings_def\<close>)

section \<open>All chunks\<close>

text \<open>What emission has done so far: the outputs added, and what they are worth.\<close>

definition emitted :: "build \<Rightarrow> build \<Rightarrow> txOutput list \<Rightarrow> bool" where
  "emitted b b' outs \<longleftrightarrow> sameCall b b' \<and>
     (\<exists>p p'. psbtOf b = Some p \<and> psbtOf b' = Some p' \<and> txInputs p' = txInputs p \<and> txOutputs p' = txOutputs p @ outs) \<and>
     outputSatoshis b' = outputSatoshis b + sum_list (map outValue outs) \<and>
     (revealPrefund b' = revealPrefund b \<or> (\<exists>r p'. revealPrefund b' = Some r \<and> psbtOf b' = Some p' \<and> prefundIndex r < length (txOutputs p')))"

lemma emitted_nil: "psbtOf b = Some p \<Longrightarrow> emitted b b []"
  by (simp add: emitted_def)

lemma emitted_trans: "emitted a b os \<Longrightarrow> emitted b c ps \<Longrightarrow> emitted a c (os @ ps)"
  unfolding emitted_def by (elim conjE exE, intro conjI, erule (1) sameCall_trans) (auto simp: sameCall_def)

lemma emitsOne_emitted:
  assumes "emitsOne script least b b'"
  obtains s v where "script = Some s" "least \<le> v" "emitted b b' [\<lparr>outScript = s, outValue = v\<rparr>]" "prefundedOk b \<longrightarrow> prefundedOk b'"
proof -
  obtain p s v where o: "sameCall b b'" "psbtOf b = Some p" "script = Some s" "least \<le> v" "psbtOf b' = Some (addOutput s v p)"
    "outputSatoshis b' = outputSatoshis b + v" "prefundedOk b \<longrightarrow> prefundedOk b'"
    "revealPrefund b' = revealPrefund b \<or> map_option prefundIndex (revealPrefund b') = Some (length (txOutputs p))"
    using assms unfolding emitsOne_def by blast
  have "emitted b b' [\<lparr>outScript = s, outValue = v\<rparr>]" using o unfolding emitted_def by auto
  then show ?thesis using that o by blast
qed

lemma carrierScript_cong: "sameCall b b' \<Longrightarrow> carrierScript L k b' e c = carrierScript L k b e c"
  by (simp add: carrierScript_def sameCall_def split: Encoding.split)

lemma emitChunks_run:
  assumes "emitChunks L enc e cs b = Inr b'" "\<not> isReveal b" "e \<in> carrierEncodings" "0 \<le> outputFloor enc" "0 \<le> dustAmount enc"
    and "prefundedOk b" "psbtOf b \<noteq> None"
  shows "\<exists>outs. emitted b b' outs \<and>
     list_all2 (\<lambda>c out. \<exists>k. carrierScript L k b e c = Some (outScript out) \<and> (e \<in> {E_OP_RETURN, E_MULTISIGN} \<longrightarrow> k = txidFirstInput b) \<and>
       (if e = E_OP_RETURN then 0 else finalDust b) \<le> outValue out) cs outs \<and>
     (e \<in> {E_OP_RETURN, E_MULTISIGN} \<longrightarrow> txidFirstInput b' = txidFirstInput b)"
  using assms
proof (induction cs arbitrary: b)
  case Nil
  then show ?case using emitted_nil by (intro exI [of _ "[]"]) auto
next
  case (Cons c cs)
  obtain b1 where b1: "emitChunk L enc e c b = Inr b1" "emitChunks L enc e cs b1 = Inr b'"
    using Cons.prems(1) by (auto simp: andThen_Inr_iff)
  note one = emitChunk_one [OF b1(1) Cons.prems(2-6)]
  obtain s v where o: "carrierScript L (txidFirstInput b) b e c = Some s" "(if e = E_OP_RETURN then 0 else finalDust b) \<le> v"
    "emitted b b1 [\<lparr>outScript = s, outValue = v\<rparr>]" "prefundedOk b1"
    by (rule emitsOne_emitted [OF conjunct1 [OF one]]) (use Cons.prems(6) in blast)
  have same: "sameCall b b1" "psbtOf b1 \<noteq> None" using o(3) by (auto simp: emitted_def)
  then have "\<not> isReveal b1" "finalDust b1 = finalDust b" using Cons.prems(2) by (simp_all add: sameCall_def)
  from Cons.IH [OF b1(2) this(1) Cons.prems(3-5) o(4) same(2)] obtain outs where t: "emitted b1 b' outs"
    "list_all2 (\<lambda>c out. \<exists>k. carrierScript L k b1 e c = Some (outScript out) \<and> (e \<in> {E_OP_RETURN, E_MULTISIGN} \<longrightarrow> k = txidFirstInput b1) \<and>
       (if e = E_OP_RETURN then 0 else finalDust b1) \<le> outValue out) cs outs"
    "e \<in> {E_OP_RETURN, E_MULTISIGN} \<longrightarrow> txidFirstInput b' = txidFirstInput b1" by blast
  have "list_all2 (\<lambda>c out. \<exists>k. carrierScript L k b e c = Some (outScript out) \<and> (e \<in> {E_OP_RETURN, E_MULTISIGN} \<longrightarrow> k = txidFirstInput b) \<and>
       (if e = E_OP_RETURN then 0 else finalDust b) \<le> outValue out) cs outs"
    using t(2) by (rule list_all2_mono) (use one carrierScript_cong [OF same(1)] \<open>finalDust b1 = finalDust b\<close> in auto)
  then show ?case using o(1,2) emitted_trans [OF o(3) t(1)] t(3) one
    by (intro exI [of _ "\<lparr>outScript = s, outValue = v\<rparr> # outs"]) auto
qed

section \<open>The payments\<close>

lemma emitCustomList_run:
  assumes "emitCustomList L enc cs b = Inr b'" "psbtOf b \<noteq> None"
  shows "\<exists>outs. emitted b b' outs \<and>
     list_all2 (\<lambda>c out. toOutputScript L (coAddress c) = Some (outScript out) \<and> outValue out = coValue c \<and> 0 < coValue c) cs outs \<and>
     txidFirstInput b' = txidFirstInput b \<and> revealPrefund b' = revealPrefund b"
  using assms
proof (induction cs arbitrary: b)
  case Nil
  then show ?case using emitted_nil by (intro exI [of _ "[]"]) auto
next
  case (Cons c cs)
  obtain p where p: "psbtOf b = Some p" using Cons.prems(2) by blast
  obtain s where s: "toOutputScript L (coAddress c) = Some s" "0 < coValue c"
    using Cons.prems(1) by (cases "toOutputScript L (coAddress c)") (auto simp: scriptOf_def split: if_splits)
  define b1 where "b1 = b\<lparr>psbtOf := Some (addOutput s (coValue c) p), outputSatoshis := outputSatoshis b + coValue c,
      estimatedTxSize := estimatedTxSize b + 43\<rparr>"
  have run: "emitCustomList L enc cs b1 = Inr b'"
    using Cons.prems(1) s by (simp add: scriptOf_def emitOutput_def needPsbt_def p b1_def split: if_splits)
  have one: "emitted b b1 [\<lparr>outScript = s, outValue = coValue c\<rparr>]"
    by (simp add: emitted_def p b1_def sameCall_def)
  have "psbtOf b1 \<noteq> None" by (simp add: b1_def)
  from Cons.IH [OF run this] obtain outs where t: "emitted b1 b' outs"
    "list_all2 (\<lambda>c out. toOutputScript L (coAddress c) = Some (outScript out) \<and> outValue out = coValue c \<and> 0 < coValue c) cs outs"
    "txidFirstInput b' = txidFirstInput b1" "revealPrefund b' = revealPrefund b1" by blast
  have "txidFirstInput b1 = txidFirstInput b" "revealPrefund b1 = revealPrefund b" by (simp_all add: b1_def)
  then show ?case using s t emitted_trans [OF one t(1)]
    by (intro exI [of _ "\<lparr>outScript = s, outValue = coValue c\<rparr> # outs"]) auto
qed

section \<open>The phase\<close>

lemma shavedCeil_nonneg: "0 \<le> x \<Longrightarrow> 0 \<le> shavedCeil x"
proof -
  assume x: "0 \<le> x"
  have "0 \<le> EPSILON" "EPSILON \<le> 1 / 10 ^ 11" using EPSILON_bounds by auto
  then have "x * EPSILON \<le> x * (1 / 10 ^ 11)" "0 \<le> x * EPSILON" using x by - (rule mult_left_mono, assumption+, rule mult_nonneg_nonneg, assumption+)
  then have "fl (x * EPSILON) \<le> x" using fl_abs_le [of "x * EPSILON"] x by auto
  then have "0 \<le> fl (x - fl (\<bar>x\<bar> * EPSILON))" using x by (intro fl_nonneg) simp
  then show ?thesis by (simp add: shavedCeil_def)
qed

lemma feeForVsize_nonneg: "0 \<le> rate \<Longrightarrow> 0 \<le> feeForVsize n rate SATOSHI_UNIT"
proof -
  assume r: "0 \<le> rate"
  let ?e = "fl (fl (of_nat n * rate) * SATOSHI_UNIT)" and ?w = "js_round (fl (fl (rate * 1000) * SATOSHI_UNIT))"
  have u: "(0::rat) \<le> SATOSHI_UNIT" by (simp add: SATOSHI_UNIT_def)
  have e: "0 \<le> ?e" using r u by (intro fl_nonneg mult_nonneg_nonneg) auto
  have "0 \<le> fl (fl (rate * 1000) * SATOSHI_UNIT)" using r u by (intro fl_nonneg mult_nonneg_nonneg) auto
  then have "0 \<le> ?w" by (simp add: js_round_def)
  then have "0 \<le> int n * ?w + 999" by simp
  then have "0 \<le> (int n * ?w + 999) div 1000" by (simp only: pos_imp_zdiv_nonneg_iff)
  then have "0 \<le> numberOfBig ((int n * ?w + 999) div 1000)" by (simp add: numberOfBig_def fl_nonneg del: of_int_0_le_iff)
  then show ?thesis using e shavedCeil_nonneg [OF e] by (simp add: feeForVsize_def Let_def js_trunc_def)
qed

lemma softDust_nonneg: "0 \<le> softDustSurchargeFor vs n"
proof -
  have "0 \<le> a \<Longrightarrow> 0 \<le> foldl (\<lambda>surcharge v. if 0 < v \<and> v < int n then surcharge + int n else surcharge) a vs" for a :: int
    by (induction vs arbitrary: a) auto
  then show ?thesis by (simp add: softDustSurchargeFor_def)
qed

lemma prepareData_encodings: "prepareData cmp h c d e pk k = Inr r \<Longrightarrow> payloadEncoding r \<in> carrierEncodings"
  by (auto simp: prepareData_def opReturnPayload_def scriptHashPayload_def multisignPayload_def envelopePayload_def carrierEncodings_def
      result_simps Let_def split: Encoding.splits option.splits if_splits)

lemma prepareChunks_run:
  assumes "prepareDataChunks L d e b = Inr b'" "\<not> isReveal b"
  shows "psbtOf b' = Some emptyPsbt \<and> b' = b\<lparr>psbtOf := Some emptyPsbt, preparedData := preparedData b'\<rparr> \<and>
     payloadEncoding (preparedData b') \<in> carrierEncodings \<and>
     (if hasActionPayload b
      then prepareData (compile L) (resolveCallerHash160 L) (onCurve L) d e (pubkey b) (compressedPubKey b) = Inr (preparedData b')
      else dataBufferArray (preparedData b') = [] \<and> payloadEncoding (preparedData b') = E_OP_RETURN)"
  using assms prepareData_encodings [of "compile L" "resolveCallerHash160 L" "onCurve L" d e "pubkey b" "compressedPubKey b"]
  by (auto simp: prepareDataChunks_def carrierEncodings_def result_simps Let_def split: if_splits)

text \<open>
  The emitted transaction of a build that is not a reveal: the carriers of the prepared payload, then the
  payments, except on the script-hash lanes, where they wait for the reveal.
\<close>

definition emissionOf :: "lib \<Rightarrow> string option \<Rightarrow> build \<Rightarrow> txOutput list \<Rightarrow> bool" where
  "emissionOf L key b outs \<longleftrightarrow>
     (let d = preparedData b; e = payloadEncoding d
      in \<exists>carriers payments. outs = carriers @ payments \<and>
           list_all2 (\<lambda>c out. \<exists>k. carrierScript L k b e c = Some (outScript out) \<and> (e \<in> {E_OP_RETURN, E_MULTISIGN} \<longrightarrow> k = key) \<and>
             (if e = E_OP_RETURN then 0 else finalDust b) \<le> outValue out) (dataBufferArray d) carriers \<and>
           list_all2 (\<lambda>c out. toOutputScript L (coAddress c) = Some (outScript out) \<and> outValue out = coValue c \<and> 0 < coValue c)
             (if e \<in> {E_P2SH, E_P2WSH} then [] else customOutputs b) payments)"

lemma priceReveal_facts:
  assumes "list_all (\<lambda>c. 0 < coValue c) (customOutputs b)"
  shows "sameCall (b\<lparr>isP2shFamily := (payloadEncoding (preparedData b) \<in> {E_P2SH, E_P2WSH})\<rparr>) (priceRevealCustomOutputs L enc b)"
    "prefundedOk (priceRevealCustomOutputs L enc b)" "psbtOf (priceRevealCustomOutputs L enc b) = psbtOf b"
    "txidFirstInput (priceRevealCustomOutputs L enc b) = txidFirstInput b"
proof -
  have "0 \<le> sum_list (map coValue (customOutputs b))"
    by (rule sum_list_nonneg) (use assms in \<open>auto simp: list_all_iff intro: less_imp_le\<close>)
  moreover have "0 < feePerBytes b \<Longrightarrow> 0 \<le> feeForVsize n (feePerBytes b) SATOSHI_UNIT" for n
    by (rule feeForVsize_nonneg) simp
  ultimately show "prefundedOk (priceRevealCustomOutputs L enc b)"
    using softDust_nonneg by (simp add: prefundedOk_def priceRevealCustomOutputs_def Let_def)
qed (simp_all add: priceRevealCustomOutputs_def sameCall_def Let_def)

lemma initSelection_facts:
  assumes "initSelection b = Inr b'"
  shows "sameCall b b'" "psbtOf b' = psbtOf b" "outputSatoshis b' = outputSatoshis b" "txidFirstInput b' = txidFirstInput b"
    "softDustSurcharge b' = softDustSurcharge b" "selectedInputCount b' = 0" "reservedCandidates b' = 0"
    "revealPrefund b' = revealPrefund b" "envelopeContextOf b' = envelopeContextOf b"
  using assms by (auto simp: initSelection_def sameCall_def result_simps Let_def split: option.splits)

lemma emissionPhase_run:
  assumes "emissionPhase L enc ps b = Inr b'" "\<not> isReveal b" "list_all (\<lambda>c. 0 < coValue c) (customOutputs b)"
    and "0 \<le> outputFloor enc" "0 \<le> dustAmount enc"
  shows "\<exists>p. psbtOf b' = Some p \<and> txInputs p = [] \<and> emissionOf L (txidFirstInput b) b' (txOutputs p) \<and> accounted b' \<and>
     (payloadEncoding (preparedData b') \<in> {E_OP_RETURN, E_MULTISIGN} \<longrightarrow> txidFirstInput b' = txidFirstInput b) \<and>
     sameCall (b\<lparr>preparedData := preparedData b'\<rparr>) (b'\<lparr>isP2shFamily := isP2shFamily b\<rparr>) \<and>
     (if hasActionPayload b
      then prepareData (compile L) (resolveCallerHash160 L) (onCurve L) (psFinal ps) (psEncoding ps) (pubkey b) (compressedPubKey b) =
             Inr (preparedData b')
      else dataBufferArray (preparedData b') = [] \<and> payloadEncoding (preparedData b') = E_OP_RETURN) \<and>
     selectedInputCount b' = 0 \<and> reservedCandidates b' = 0 \<and>
     (\<forall>r. revealPrefund b' = Some r \<longrightarrow> prefundIndex r < length (dataBufferArray (preparedData b'))) \<and>
     softDustSurcharge b' = softDustSurchargeFor (map outValue (txOutputs p)) (softDustFloorFor (networkKey enc))"
proof -
  obtain b1 b2 b3 where r: "prepareDataChunks L (psFinal ps) (psEncoding ps) b = Inr b1"
    "emitDataOutputs L enc (initEmissionState (priceRevealCustomOutputs L enc b1)) = Inr b2" "emitCustomOutputs L enc b2 = Inr b3"
    "initSelection b3 = Inr b'"
    using assms(1) by (auto simp: emissionPhase_def andThen_Inr_iff)
  note run = prepareChunks_run [OF r(1) assms(2)]
  then have p: "psbtOf b1 = Some emptyPsbt" "payloadEncoding (preparedData b1) \<in> carrierEncodings"
    "if hasActionPayload b
      then prepareData (compile L) (resolveCallerHash160 L) (onCurve L) (psFinal ps) (psEncoding ps) (pubkey b) (compressedPubKey b) = Inr (preparedData b1)
      else dataBufferArray (preparedData b1) = [] \<and> payloadEncoding (preparedData b1) = E_OP_RETURN" by blast+
  let ?e = "payloadEncoding (preparedData b1)"
  have f1: "sameCall (b\<lparr>preparedData := preparedData b1\<rparr>) b1" "txidFirstInput b1 = txidFirstInput b"
    by (subst conjunct1 [OF conjunct2 [OF run]], simp add: sameCall_def)+
  have c1: "list_all (\<lambda>c. 0 < coValue c) (customOutputs b1)" "\<not> isReveal b1" using f1 assms(2,3) by (simp_all add: sameCall_def)
  note pr = priceReveal_facts [OF c1(1), of L enc]
  define s where "s = initEmissionState (priceRevealCustomOutputs L enc b1)"
  have i: "sameCall (priceRevealCustomOutputs L enc b1) s" "prefundedOk s \<longleftrightarrow> prefundedOk (priceRevealCustomOutputs L enc b1)"
    "psbtOf s = psbtOf (priceRevealCustomOutputs L enc b1)" "outputSatoshis s = 0"
    "txidFirstInput s = txidFirstInput (priceRevealCustomOutputs L enc b1)" "revealPrefund s = None"
    by (simp_all add: s_def initEmissionState_def sameCall_def prefundedOk_def)
  have s: "psbtOf s = Some emptyPsbt" "prefundedOk s" "\<not> isReveal s" "preparedData s = preparedData b1" "outputSatoshis s = 0"
    "txidFirstInput s = txidFirstInput b" "isP2shFamily s \<longleftrightarrow> ?e \<in> {E_P2SH, E_P2WSH}" "sameCall (b1\<lparr>isP2shFamily := isP2shFamily s\<rparr>) s"
    using pr i p(1) c1(2) f1(2) by (simp_all add: sameCall_def)
  note e = p(2)
  obtain cs where cs: "emitted s b2 cs" "list_all2 (\<lambda>c out. \<exists>k. carrierScript L k s ?e c = Some (outScript out) \<and>
       (?e \<in> {E_OP_RETURN, E_MULTISIGN} \<longrightarrow> k = txidFirstInput s) \<and> (if ?e = E_OP_RETURN then 0 else finalDust s) \<le> outValue out)
       (dataBufferArray (preparedData b1)) cs"
     "?e \<in> {E_OP_RETURN, E_MULTISIGN} \<longrightarrow> txidFirstInput b2 = txidFirstInput s"
    using emitChunks_run [of L enc ?e _ s b2] r(2) s(1-4) e assms(4,5) by (auto simp: emitDataOutputs_def s_def [symmetric])
  have s2: "sameCall s b2" "psbtOf b2 \<noteq> None" using cs(1) by (auto simp: emitted_def)
  then have n2: "\<not> isReveal b2" "isP2shFamily b2 \<longleftrightarrow> ?e \<in> {E_P2SH, E_P2WSH}" "customOutputs b2 = customOutputs s"
    using s(3,7) by (simp_all add: sameCall_def)
  obtain b2' where b2': "(if isP2shFamily b2 then ok b2 else emitCustomList L enc (customOutputs b2) b2) = Inr b2'"
    "b3 = b2'\<lparr>softDustSurcharge := softDustSurchargeFor (map outValue (txOutputs (the (psbtOf b2')))) (softDustFloorFor (networkKey enc))\<rparr>"
    using r(3) n2(1) by (auto simp: emitCustomOutputs_def result_simps needPsbt_Inr Let_def)
  have "\<exists>qs. emitted b2 b2' qs \<and> list_all2 (\<lambda>c out. toOutputScript L (coAddress c) = Some (outScript out) \<and> outValue out = coValue c \<and> 0 < coValue c)
      (if ?e \<in> {E_P2SH, E_P2WSH} then [] else customOutputs s) qs \<and> txidFirstInput b2' = txidFirstInput b2 \<and>
      revealPrefund b2' = revealPrefund b2"
  proof (cases "isP2shFamily b2")
    case True
    then show ?thesis using b2'(1) n2(2) s2(2) emitted_nil by (intro exI [of _ "[]"]) auto
  next
    case False
    then show ?thesis using b2'(1) n2 emitCustomList_run [of L enc "customOutputs b2" b2 b2'] s2(2) by auto
  qed
  then obtain qs where qs: "emitted b2 b2' qs" "list_all2 (\<lambda>c out. toOutputScript L (coAddress c) = Some (outScript out) \<and> outValue out = coValue c \<and> 0 < coValue c)
      (if ?e \<in> {E_P2SH, E_P2WSH} then [] else customOutputs s) qs" "txidFirstInput b2' = txidFirstInput b2"
      "revealPrefund b2' = revealPrefund b2" by blast
  have tot: "emitted s b2' (cs @ qs)" using cs(1) qs(1) by (rule emitted_trans)
  obtain q where q: "psbtOf b2' = Some q" "txInputs q = []" "txOutputs q = cs @ qs" "outputSatoshis b2' = totalOut q" "sameCall s b2'"
    using tot s(1,5) by (auto simp: emitted_def emptyPsbt_def totalOut_def)
  note ini = initSelection_facts [OF r(4)]
  have "sameCall b2' b3" unfolding b2'(2) by (simp add: sameCall_def)
  then have z: "sameCall b2' b'" "psbtOf b' = psbtOf b2'" "outputSatoshis b' = outputSatoshis b2'" "txidFirstInput b' = txidFirstInput b2'"
     "softDustSurcharge b' = softDustSurchargeFor (map outValue (txOutputs q)) (softDustFloorFor (networkKey enc))"
     "selectedInputCount b' = 0" "reservedCandidates b' = 0"
    using ini q(1) sameCall_trans [OF _ ini(1)] by (simp_all add: b2'(2))
  have sb: "sameCall s b'" using q(5) z(1) by (rule sameCall_trans)
  then have d: "preparedData b' = preparedData b1" "finalDust b' = finalDust s" "customOutputs b' = customOutputs s"
    using s(4) by (simp_all add: sameCall_def)
  have em: "emissionOf L (txidFirstInput b) b' (txOutputs q)"
    unfolding emissionOf_def Let_def d q(3) carrierScript_cong [OF sb] by (rule exI [of _ cs], rule exI [of _ qs]) (use cs(2) qs(2) s(6) in simp)
  have sc: "sameCall (b\<lparr>preparedData := preparedData b'\<rparr>) (b'\<lparr>isP2shFamily := isP2shFamily b\<rparr>)"
    using f1(1) s(8) sb d(1) by (simp add: sameCall_def)
  have k: "?e \<in> {E_OP_RETURN, E_MULTISIGN} \<longrightarrow> txidFirstInput b' = txidFirstInput b"
    using cs(3) qs(3) s(6) z(4) by simp
  obtain p2 where p2: "psbtOf b2 = Some p2" "txOutputs p2 = cs" using cs(1) s(1) by (auto simp: emitted_def emptyPsbt_def)
  have "revealPrefund b2 = None \<or> (\<exists>r. revealPrefund b2 = Some r \<and> prefundIndex r < length cs)"
    using cs(1) i(6) p2 by (auto simp: emitted_def)
  moreover have "revealPrefund b' = revealPrefund b2" using ini(8) qs(4) by (simp add: b2'(2))
  moreover have "length cs = length (dataBufferArray (preparedData b'))" using list_all2_lengthD [OF cs(2)] d(1) by simp
  ultimately have pf: "\<forall>r. revealPrefund b' = Some r \<longrightarrow> prefundIndex r < length (dataBufferArray (preparedData b'))" by auto
  show ?thesis
    by (rule exI [of _ q]) (use q z em sc k p(3) d pf in \<open>simp add: accounted_def\<close>)
qed

end
