(* ===== verification/PipelineFacts.thy ===== *)
theory PipelineFacts
  imports EmissionFacts
begin

text \<open>
  The phases of a build put together: what the settlement leaves of the emitted outputs, that the candidates
  never name an outpoint twice, and how a build that succeeds ran through its phases.
\<close>

section \<open>Settlement\<close>

text \<open>The outputs with one of them raised, as the prefund does.\<close>

definition raisedAt :: "nat \<Rightarrow> int \<Rightarrow> txOutput list \<Rightarrow> txOutput list" where
  "raisedAt i a outs = outs[i := (outs ! i)\<lparr>outValue := outValue (outs ! i) + a\<rparr>]"

definition raisedContext :: "int \<Rightarrow> envelopeContext option \<Rightarrow> envelopeContext option" where
  "raisedContext a = map_option (\<lambda>c. c\<lparr>commitValue := commitValue c + a, ecRevealFee := ecRevealFee c + a\<rparr>)"

lemma raiseOutput_raised: "raiseOutputValue p i a = Inr q \<Longrightarrow> txOutputs q = raisedAt i a (txOutputs p) \<and> i < length (txOutputs p) \<and> 0 < a"
  by (auto simp: raiseOutputValue_def raisedAt_def Let_def split: if_splits)

text \<open>The outputs were left alone, or the prefund raised the one it names and the envelope context with it.\<close>

definition prefunded :: "build \<Rightarrow> txOutput list \<Rightarrow> build \<Rightarrow> txOutput list \<Rightarrow> bool" where
  "prefunded b outs b' outs' \<longleftrightarrow>
     (outs' = outs \<and> envelopeContextOf b' = envelopeContextOf b) \<or>
     (\<exists>r a. revealPrefund b = Some r \<and> 0 < a \<and> prefundIndex r < length outs \<and> outs' = raisedAt (prefundIndex r) a outs \<and>
        envelopeContextOf b' = raisedContext a (envelopeContextOf b))"

lemma prefund_frame:
  assumes "prefundRevealPackage b = Inr b'" "psbtOf b = Some p"
  shows "\<exists>q. psbtOf b' = Some q \<and> txInputs q = txInputs p \<and> prefunded b (txOutputs p) b' (txOutputs q) \<and> sameCall b b' \<and>
     txidFirstInput b' = txidFirstInput b"
  using prefund_cases [OF assms(1)]
proof (elim disjE exE conjE)
  assume "b' = b"
  then show ?thesis using assms(2) by (simp add: prefunded_def)
next
  fix r a p1 q
  assume r: "revealPrefund b = Some r" "psbtOf b = Some p1" "raiseOutputValue p1 (prefundIndex r) a = Inr q"
    and b': "b' = b\<lparr>psbtOf := Some q, outputSatoshis := outputSatoshis b + a, revealPrefund := Some (r\<lparr>prefundFee := prefundFee r + a\<rparr>),
       envelopeContextOf := map_option (\<lambda>c. c\<lparr>commitValue := commitValue c + a, ecRevealFee := ecRevealFee c + a\<rparr>) (envelopeContextOf b)\<rparr>"
  have p1: "p1 = p" using r(2) assms(2) by simp
  note f = raiseOutput_raised [OF r(3) [unfolded p1]] raiseOutputValue_facts(4) [OF r(3) [unfolded p1]]
  have "prefunded b (txOutputs p) b' (txOutputs q)"
    unfolding prefunded_def by (rule disjI2, rule exI [of _ r], rule exI [of _ a]) (use f r(1) in \<open>simp add: b' raisedContext_def\<close>)
  then show ?thesis using f by (intro exI [of _ q]) (simp add: b' sameCall_def)
qed

lemma settle_frame:
  assumes "settle L enc pkg b = Inr b'" "\<not> isReveal b" "psbtOf b = Some p"
  shows "\<exists>p' outs extra. psbtOf b' = Some p' \<and> txOutputs p' = outs @ extra \<and> prefunded b (txOutputs p) b' outs \<and> sameCall b b' \<and>
     txidFirstInput b' = txidFirstInput b"
proof -
  let ?b0 = "floorEstimatedFee enc (upliftForAncestors enc pkg b)"
  obtain b1 b2 where s: "prefundRevealPackage ?b0 = Inr b1" "computeChange enc b1 = Inr b2" "emitChangeAndPad L enc b2 = Inr b'"
    using assms(1) by (rule settle_run)
  obtain bd sz f where u: "upliftForAncestors enc pkg b = b\<lparr>cpfpUpliftBound := bd, commitAncestorSize := sz,
      commitAncestorFeeSat := f, estimatedFee := afterUplift enc pkg b\<rparr>" using uplift_frame by blast
  have b0: "psbtOf ?b0 = Some p" "sameCall b ?b0" "revealPrefund ?b0 = revealPrefund b" "envelopeContextOf ?b0 = envelopeContextOf b"
      "txidFirstInput ?b0 = txidFirstInput b"
    using assms(3) by (simp_all add: u floorEstimatedFee_eq sameCall_def)
  obtain q where q: "psbtOf b1 = Some q" "prefunded ?b0 (txOutputs p) b1 (txOutputs q)" "sameCall ?b0 b1" "txidFirstInput b1 = txidFirstInput ?b0"
    using prefund_frame [OF s(1) b0(1)] by blast
  have "sameCall b1 b2" "psbtOf b2 = psbtOf b1" "envelopeContextOf b2 = envelopeContextOf b1" "txidFirstInput b2 = txidFirstInput b1"
    unfolding computeChange_facts(1) [OF s(2)] by (simp_all add: sameCall_def)
  note b2 = this
  have "\<not> isReveal b2" using assms(2) b0(2) q(3) b2(1) by (simp add: sameCall_def)
  note e = emitChange_build [OF this s(3)]
  have same: "sameCall b b2" using b0(2) q(3) b2(1) by (meson sameCall_trans)
  have pf: "prefunded b (txOutputs p) b2 (txOutputs q)" using q(2) b0(3,4) b2(3) by (simp add: prefunded_def)
  have key: "txidFirstInput b2 = txidFirstInput b" using b2(4) q(4) b0(5) by simp
  show ?thesis
  proof (cases "b' = b2")
    case True
    then show ?thesis using q(1) b2(2) pf same key by (intro exI [of _ q] exI [of _ "txOutputs q"] exI [of _ "[]"]) simp
  next
    case False
    then obtain sc where sc: "b' = b2\<lparr>psbtOf := Some (addOutput sc (changeSatoshis b2) q)\<rparr>"
      using e q(1) b2(2) by (auto simp: payTo_facts split: if_splits)
    have "sameCall b2 b'" "prefunded b (txOutputs p) b' (txOutputs q)" "txidFirstInput b' = txidFirstInput b2"
      using pf by (simp_all add: sc sameCall_def prefunded_def)
    then show ?thesis using sameCall_trans [OF same] key
      by (intro exI [of _ "addOutput sc (changeSatoshis b2) q"] exI [of _ "txOutputs q"] exI [of _ "[\<lparr>outScript = sc, outValue = changeSatoshis b2\<rparr>]"])
        (simp add: sc)
  qed
qed

text \<open>A raise of a carrier keeps what the outputs are: every payment is exact and a carrier only grows.\<close>

lemma emissionOf_raised:
  assumes "emissionOf L key b outs" "i < length (dataBufferArray (preparedData b))" "0 < a"
  shows "emissionOf L key b (raisedAt i a outs)"
proof -
  let ?e = "payloadEncoding (preparedData b)"
  obtain cs ps where o: "outs = cs @ ps" "list_all2 (\<lambda>c out. \<exists>k. carrierScript L k b ?e c = Some (outScript out) \<and>
       (?e \<in> {E_OP_RETURN, E_MULTISIGN} \<longrightarrow> k = key) \<and> (if ?e = E_OP_RETURN then 0 else finalDust b) \<le> outValue out)
       (dataBufferArray (preparedData b)) cs"
    "list_all2 (\<lambda>c out. toOutputScript L (coAddress c) = Some (outScript out) \<and> outValue out = coValue c \<and> 0 < coValue c)
       (if ?e \<in> {E_P2SH, E_P2WSH} then [] else customOutputs b) ps"
    using assms(1) unfolding emissionOf_def Let_def by blast
  have l: "i < length cs" using list_all2_lengthD [OF o(2)] assms(2) by simp
  have r: "raisedAt i a outs = raisedAt i a cs @ ps" using l by (simp add: raisedAt_def o(1) nth_append list_update_append)
  have "list_all2 (\<lambda>c out. \<exists>k. carrierScript L k b ?e c = Some (outScript out) \<and>
       (?e \<in> {E_OP_RETURN, E_MULTISIGN} \<longrightarrow> k = key) \<and> (if ?e = E_OP_RETURN then 0 else finalDust b) \<le> outValue out)
       (dataBufferArray (preparedData b)) (raisedAt i a cs)"
  proof (rule list_all2_all_nthI)
    fix n assume "n < length (dataBufferArray (preparedData b))"
    from list_all2_nthD [OF o(2) this] show "\<exists>k. carrierScript L k b ?e (dataBufferArray (preparedData b) ! n) = Some (outScript (raisedAt i a cs ! n)) \<and>
       (?e \<in> {E_OP_RETURN, E_MULTISIGN} \<longrightarrow> k = key) \<and> (if ?e = E_OP_RETURN then 0 else finalDust b) \<le> outValue (raisedAt i a cs ! n)"
      using l assms(3) by (cases "n = i") (auto simp: raisedAt_def split: if_splits)
  qed (use list_all2_lengthD [OF o(2)] in \<open>simp add: raisedAt_def\<close>)
  then show ?thesis unfolding emissionOf_def Let_def r using o(3) by blast
qed

section \<open>Candidates\<close>

lemma dedup_keys: "set (map keyOf (dedupUtxos unconf seen us)) \<inter> seen = {}"
  using dedup_fresh by fastforce

lemma sortBy_distinct: "distinct (map keyOf us) \<Longrightarrow> distinct (map keyOf (sortBy compareCandidates us))"
  unfolding sortBy_sort_key by (simp add: distinct_map)

lemma sort_key_Nil: "sort_key f xs = [] \<longleftrightarrow> xs = []"
  by (metis length_0_conv length_sort)

lemma filterAndOrder_run:
  assumes "filterAndOrderUtxos b = Inr b'"
  shows "distinct (map keyOf (utxos b'))" "\<not> isReveal b \<Longrightarrow> utxos b' \<noteq> []" "set (utxos b') \<subseteq> set (utxos b)"
    "sameCall b (b'\<lparr>utxos := utxos b\<rparr>)"
  using assms dedup_distinct dedup_subset [of "unconfirmed b" "{}" "utxos b"] sortBy_distinct [OF dedup_distinct]
  by (auto simp: filterAndOrderUtxos_def sortBy_sort_key sort_key_Nil sameCall_def Let_def split: if_splits)

lemma bindKey_frame:
  assumes "bindObfuscationKey now (g0, b0) = ((g1, b1), Inr ())" "utxos b0 \<noteq> []"
  shows "txidFirstInput b1 \<noteq> None \<and> set (utxos b1) = set (utxos b0) \<and> (distinct (map keyOf (utxos b0)) \<longrightarrow> distinct (map keyOf (utxos b1))) \<and>
     sameCall b0 (b1\<lparr>callReservations := callReservations b0, firstReservedOutpoint := firstReservedOutpoint b0, utxos := utxos b0\<rparr>)"
proof (cases "exactInputs b0")
  case True
  then show ?thesis using assms
    by (auto simp: bindObfuscationKey_def bindS_Inr claimExactInputs_def sameCall_def Let_def split: prod.splits if_splits)
next
  case False
  obtain f g where f: "firstFree now (utxos b0) (evictExpiredReservations now g0) = (f, g)" by (metis surj_pair)
  show ?thesis
  proof (cases f)
    case None
    then have "b1 = b0\<lparr>firstReservedOutpoint := None, txidFirstInput := Some (toLowerCase (txid (hd (utxos b0))))\<rparr>"
      using assms False f by (auto simp: bindObfuscationKey_def bindS_Inr claimFirstFreeInput_def Let_def)
    then show ?thesis by (simp add: sameCall_def)
  next
    case (Some t)
    obtain pre u post where t: "t = (pre, u, post)" by (cases t)
    note sp = firstFree_split [OF f [unfolded Some t]]
    obtain l g2 where cl: "claimOutpoint (callReservations b0) (keyOf u) now g = (l, g2)" by (metis surj_pair)
    have "b1 = b0\<lparr>callReservations := l, firstReservedOutpoint := Some (keyOf u), txidFirstInput := Some (toLowerCase (txid u)),
        utxos := u # pre @ post\<rparr>"
      using assms False by (auto simp: bindObfuscationKey_def claimFirstFreeInput_def f Some t cl Let_def)
    then show ?thesis using sp by (auto simp: sameCall_def)
  qed
qed

section \<open>The run\<close>

lemma finishBuild_run:
  assumes "finishBuild L ps reveal now (g, b) = ((g', b'), Inr r)"
  shows "psbtOf b = Some (resPsbt r) \<and> resReveal r = reveal \<and> resEncoding r = payloadEncoding (preparedData b) \<and>
     sameCall b (b'\<lparr>callReservations := callReservations b\<rparr>) \<and> estimatedFee b' = estimatedFee b \<and> psbtOf b' = psbtOf b \<and>
     resCarriers r = attachCarriers b reveal"
  using assms by (auto simp: finishBuild_def needPsbt_def sameCall_def split: option.splits prod.splits sum.splits)

lemma buildSteps_run:
  assumes "buildSteps L enc t a rq exact (g, b) = ((g', b'), Inr r)"
  obtains ps b1 fetched b2 g3 b3 b4 g5 b5 b6 reveal where
    "payloadPhase L enc a rq b = Inr (ps, b1)" "candidatePhase L enc t a exact b1 = Inr (fetched, b2)"
    "bindObfuscationKey (aNowKey a) (aBefore a g, b2) = ((g3, b3), Inr ())" "emissionPhase L enc ps b3 = Inr b4"
    "selectFundingInputs L enc (aTxHex a) fetched (aSelecting a) (aNowSelect a) (aEmitting a g3, b4) = ((g5, b5), Inr ())"
    "settlementPhase L enc a b5 = Inr b6" "buildEnvelopeReveal L enc b6 = Inr reveal"
    "finishBuild L ps reveal (aNowFinish a) (aSettling a g5, b6) = ((g', b'), Inr r)"
proof -
  note run = assms [unfolded buildSteps_def]
  from run obtain ps b1 where 1: "payloadPhase L enc a rq b = Inr (ps, b1)" by (auto elim!: bindS_InrE)
  note run = run [unfolded 1 bindS.simps snd_conv prod.case]
  from run obtain fetched b2 where 2: "candidatePhase L enc t a exact b1 = Inr (fetched, b2)" by (auto elim!: bindS_InrE)
  note run = run [unfolded 2 bindS.simps snd_conv prod.case]
  from run obtain s3 x3 where 3: "bindObfuscationKey (aNowKey a) (aBefore a g, b2) = (s3, Inr x3)" by (rule bindS_InrE)
  obtain g3 b3 where s3: "s3 = (g3, b3)" by (cases s3)
  note run = run [unfolded 3 s3 bindS.simps snd_conv prod.case]
  from run obtain s4 x4 where "stepS (emissionPhase L enc ps) (aEmitting a g3, b3) = (s4, Inr x4)" by (rule bindS_InrE)
  then obtain b4 where 4: "emissionPhase L enc ps b3 = Inr b4" by (auto simp: stepS_Inr)
  then have "stepS (emissionPhase L enc ps) (aEmitting a g3, b3) = ((aEmitting a g3, b4), Inr ())" by (simp add: stepS_def)
  note run = run [unfolded this bindS.simps]
  from run obtain s5 x5 where 5: "selectFundingInputs L enc (aTxHex a) fetched (aSelecting a) (aNowSelect a) (aEmitting a g3, b4) = (s5, Inr x5)"
    by (rule bindS_InrE)
  obtain g5 b5 where s5: "s5 = (g5, b5)" by (cases s5)
  note run = run [unfolded 5 s5 bindS.simps prod.case]
  from run obtain s6 x6 where "stepS (settlementPhase L enc a) (aSettling a g5, b5) = (s6, Inr x6)" by (rule bindS_InrE)
  then obtain b6 where 6: "settlementPhase L enc a b5 = Inr b6" by (auto simp: stepS_Inr)
  then have "stepS (settlementPhase L enc a) (aSettling a g5, b5) = ((aSettling a g5, b6), Inr ())" by (simp add: stepS_def)
  note run = run [unfolded this bindS.simps]
  from run obtain s7 reveal where "checkS (buildEnvelopeReveal L enc) (aSettling a g5, b6) = (s7, Inr reveal)" by (rule bindS_InrE)
  then have 7: "buildEnvelopeReveal L enc b6 = Inr reveal" by (simp add: checkS_Inr)
  then have "checkS (buildEnvelopeReveal L enc) (aSettling a g5, b6) = ((aSettling a g5, b6), Inr reveal)" by (simp add: checkS_def)
  note run = run [unfolded this bindS.simps]
  have u: "x3 = ()" "x5 = ()" by simp_all
  show ?thesis by (rule that [OF 1 2 3 [unfolded s3 u] 4 5 [unfolded s5 u] 6 7 run])
qed

lemma parseBigInt_same: "parseBigInt big v = Inr w \<Longrightarrow> w = v"
  by (auto simp: parseBigInt_def split: if_splits)

lemma resolveFeeRates_frame:
  assumes "resolveFeeRates enc relay est b = Inr b'"
  shows "sameCall b (b'\<lparr>feePerBytes := feePerBytes b, relayFeePerKb := relayFeePerKb b, finalDust := finalDust b\<rparr>) \<and>
     outputFloor enc \<le> finalDust b' \<and> relay = Fin (relayFeePerKb b')"
proof -
  obtain b1 b2 where r: "resolveRelayFeeRate relay (b\<lparr>nodeFeePerBytes := None\<rparr>) = Inr b1"
    "(case feePerKb b1 of Some r \<Rightarrow> if r \<noteq> 0 then ok (useCallerFeeRate est r b1) else useNodeFeeRate enc est b1
        | None \<Rightarrow> useNodeFeeRate enc est b1) = Inr b2" "b' = applyFeeCapAndDustFloor enc (anchorRelayFeeRate b2)"
    using assms by (auto simp: resolveFeeRates_def andThen_Inr_iff)
  have 1: "sameCall b (b1\<lparr>relayFeePerKb := relayFeePerKb b\<rparr>)" "relay = Fin (relayFeePerKb b1)"
    using r(1) by (cases relay; auto simp: resolveRelayFeeRate_def sameCall_def split: if_splits)+
  have "\<exists>x y. b2 = b1\<lparr>feePerBytes := x, nodeFeePerBytes := y\<rparr>"
  proof (cases "\<exists>p. feePerKb b1 = Some p \<and> p \<noteq> 0")
    case True
    then have "b2 = useCallerFeeRate est (the (feePerKb b1)) b1" using r(2) by auto
    then show ?thesis unfolding useCallerFeeRate_def by blast
  next
    case False
    then have "useNodeFeeRate enc est b1 = Inr b2" using r(2) by (auto split: option.splits)
    then show ?thesis unfolding useNodeFeeRate_def Let_def by (cases est) auto
  qed
  then have 2: "sameCall b1 (b2\<lparr>feePerBytes := feePerBytes b1\<rparr>)" by (auto simp: sameCall_def)
  have 3: "sameCall b2 (anchorRelayFeeRate b2)" by (simp add: anchorRelayFeeRate_def sameCall_def split: option.split)
  have "sameCall x ((applyFeeCapAndDustFloor enc x)\<lparr>feePerBytes := feePerBytes x, finalDust := finalDust x\<rparr>) \<and>
      outputFloor enc \<le> finalDust (applyFeeCapAndDustFloor enc x)" for x
    unfolding applyFeeCapAndDustFloor_def Let_def by (cases "dust x") (simp_all add: sameCall_def)
  from this [of "anchorRelayFeeRate b2"] show ?thesis using 1 2 3 unfolding r(3) by (simp add: sameCall_def)
qed

lemma payloadPhase_run:
  assumes "payloadPhase L enc a rq b = Inr (ps, b1)"
  shows "sameCall (injectFeeQuoteOutput rq b) (b1\<lparr>hasActionPayload := hasActionPayload b, feePerBytes := feePerBytes b, relayFeePerKb := relayFeePerKb b,
       finalDust := finalDust b\<rparr>) \<and> list_all (\<lambda>c. 0 < coValue c) (customOutputs b1) \<and> outputFloor enc \<le> finalDust b1 \<and>
     hasActionPayload b1 = psHasAction ps \<and> utxos b1 = utxos b \<and> aRelayFee a = Fin (relayFeePerKb b1)"
proof -
  obtain ps0 b0 bf where p: "checkPayloadInput L enc rq b = Inr (ps0, b0)" "resolveFeeRates enc (aRelayFee a) (aEstimate a) b0 = Inr bf"
    "preparePayload L enc (aDeflate a) (aSetting a) (aTip a) rq bf ps0 = Inr (ps, b1)"
    using assms by (auto simp: payloadPhase_def andThen_Inr_iff)
  have b0: "b0 = injectFeeQuoteOutput rq b" and pd: "checkPaymentDust enc b = Inr ()"
    using p(1) by (auto simp: checkPayloadInput_def andThen_Inr_iff Let_def)
  have "0 < coValue c" if c: "c \<in> set (customOutputs b)" for c
  proof -
    obtain ys where "forEach (checkPayment enc) (customOutputs b) = Inr ys" using pd by (auto simp: checkPaymentDust_def andThen_Inr_iff)
    from forEach_Inr_set [OF this c] obtain y where "checkPayment enc c = Inr y" by blast
    then show ?thesis using parseBigInt_same by (fastforce simp: checkPayment_def andThen_Inr_iff split: if_splits)
  qed
  then have pos: "list_all (\<lambda>c. 0 < coValue c) (customOutputs b0)"
    by (auto simp: b0 injectFeeQuoteOutput_def effectiveQuote_def list_all_iff split: option.splits prod.splits if_splits)
  have rates: "sameCall b0 (bf\<lparr>feePerBytes := feePerBytes b0, relayFeePerKb := relayFeePerKb b0, finalDust := finalDust b0\<rparr>) \<and> outputFloor enc \<le> finalDust bf"
    using resolveFeeRates_frame [OF p(2)] by (elim conjE) (intro conjI)
  have b1: "b1 = bf\<lparr>hasActionPayload := psHasAction ps\<rparr>"
  proof -
    obtain ps1 ps2 ps3 where q: "compressPayload (aDeflate a) (aSetting a) rq ps0 = Inr ps1" "compilePayload L ps1 = Inr ps2"
      "chooseEncoding enc rq (bf\<lparr>hasActionPayload := psHasAction (classifyPayload ps2)\<rparr>) (classifyPayload ps2) = Inr ps3"
      "(ps, b1) = (ps3, bf\<lparr>hasActionPayload := psHasAction (classifyPayload ps2)\<rparr>)"
      using p(3) by (auto simp: preparePayload_def andThen_Inr_iff Let_def)
    have "psHasAction ps3 = psHasAction (classifyPayload ps2)"
      using q(3) by (auto simp: chooseEncoding_def Let_def split: if_splits)
    then show ?thesis using q(4) by simp
  qed
  have "hasActionPayload b0 = hasActionPayload b" "feePerBytes b0 = feePerBytes b" "relayFeePerKb b0 = relayFeePerKb b" "finalDust b0 = finalDust b"
      "utxos b0 = utxos b"
    by (auto simp: b0 injectFeeQuoteOutput_def split: option.splits)
  then show ?thesis using rates pos b0 resolveFeeRates_frame [OF p(2)] unfolding b1 by (simp add: sameCall_def)
qed

lemma candidatePhase_run:
  assumes "candidatePhase L enc t a exact b = Inr (fetched, b')"
  shows "sameCall b (b'\<lparr>utxos := utxos b, exactInputs := exactInputs b, inputSatoshis := inputSatoshis b\<rparr>) \<and> inputSatoshis b' = 0 \<and> psbtOf b' = None \<and>
     distinct (map keyOf (utxos b')) \<and> (\<not> isReveal b \<longrightarrow> utxos b' \<noteq> [])"
proof -
  obtain b1 b2 where r: "checkExactInputs exact (initInputState b) = Inr b1" "\<exists>f. gatherUtxos f b1 = Inr b2" "filterAndOrderUtxos b2 = Inr b'"
    using assms by (auto simp: candidatePhase_def andThen_Inr_iff Let_def)
  have 1: "sameCall b (b1\<lparr>exactInputs := exactInputs b, inputSatoshis := inputSatoshis b\<rparr>)" "inputSatoshis b1 = 0" "psbtOf b1 = None"
    using r(1) by (auto simp: checkExactInputs_def initInputState_def sameCall_def split: if_splits)
  have 2: "sameCall b1 (b2\<lparr>utxos := utxos b1\<rparr>)" "psbtOf b2 = psbtOf b1"
    using r(2) by (auto simp: gatherUtxos_def sameCall_def andThen_Inr_iff split: if_splits)
  note 3 = filterAndOrder_run [OF r(3)]
  have "psbtOf b' = psbtOf b2" using r(3) by (auto simp: filterAndOrderUtxos_def Let_def split: if_splits)
  moreover have "p2shHash b2 = p2shHash b" using 1(1) 2(1) by (simp add: sameCall_def)
  ultimately show ?thesis using 1 2 3 by (simp add: sameCall_def)
qed

section \<open>Where the outputs come from\<close>

lemma emissionOf_key:
  assumes "emissionOf L key b outs"
    and "payloadEncoding (preparedData b) \<in> {E_OP_RETURN, E_MULTISIGN} \<Longrightarrow> dataBufferArray (preparedData b) \<noteq> [] \<Longrightarrow> key' = key"
  shows "emissionOf L key' b outs"
proof (cases "dataBufferArray (preparedData b) = []")
  case True
  then show ?thesis using assms(1) by (simp add: emissionOf_def)
next
  case ne: False
  show ?thesis
  proof (cases "payloadEncoding (preparedData b) \<in> {E_OP_RETURN, E_MULTISIGN}")
    case True
    then show ?thesis using assms ne by simp
  next
    case False
    then show ?thesis using assms(1) by (simp only: emissionOf_def Let_def simp_thms)
  qed
qed

lemma emissionOf_cong:
  assumes "preparedData b' = preparedData b" "customOutputs b' = customOutputs b" "finalDust b' = finalDust b" "compressedPubKey b' = compressedPubKey b"
  shows "emissionOf L key b' outs = emissionOf L key b outs"
  unfolding emissionOf_def carrierScript_def assms ..

lemma distinct_subseq_map: "subseq xs ys \<Longrightarrow> distinct (map f ys) \<Longrightarrow> distinct (map f xs)"
  by (metis in_set_subseqs subseq_map subseqs_distinctD)

lemma set_subseq_mono: "subseq xs ys \<Longrightarrow> set xs \<subseteq> set ys"
  by (auto simp: subseq_singleton_left [symmetric] intro: subseq_order.order_trans)

text \<open>The selection of a build that has no inputs yet, as the inputs it spends.\<close>

lemma selection_spends:
  assumes "selectFundingInputs L enc txHex fetched others now (g, b) = ((g', b'), Inr ())" "\<not> isReveal b"
    and "inputsOf b = []" "selectedInputCount b = 0" "distinct (map keyOf (utxos b))"
  obtains taken where "taken \<noteq> []" "subseq taken (utxos b)" "distinct (map keyOf taken)"
    "map (\<lambda>i. (inHash i, inIndex i)) (inputsOf b') = map (\<lambda>u. (txid u, vout u)) taken"
    "inputSatoshis b' = inputSatoshis b + sum_list (map utxoValue taken)" "sameRequest b b'" "refuseFirstInputRace b' = ok ()"
proof -
  note r = selectFunding_run [OF assms(1,2)]
  obtain taken where t: "selectedFrom b (utxos b) b' taken" using selectLoop_run [OF r(1)] by blast
  have "selectedInputCount b' = length taken" using t assms(4) by (simp add: selectedFrom_def)
  then have "taken \<noteq> []" using r(2) by (auto simp: refuseEmptySelection_def MAX_UTXO_COUNT_def split: if_splits)
  moreover have "subseq taken (utxos b)" using t by (simp add: selectedFrom_def)
  ultimately show ?thesis using that [of taken] t r(3) assms(3) distinct_subseq_map [OF _ assms(5)] by (auto simp: selectedFrom_def)
qed

lemma emissionOf_prefunded:
  assumes "emissionOf L key b outs" "prefunded b5 outs b6 outs'"
    and "\<And>r. revealPrefund b5 = Some r \<Longrightarrow> prefundIndex r < length (dataBufferArray (preparedData b))"
  shows "emissionOf L key b outs'"
  using assms(2) unfolding prefunded_def
proof (elim disjE exE conjE)
  fix q d assume "revealPrefund b5 = Some q" "0 < d" "outs' = raisedAt (prefundIndex q) d outs"
  then show ?thesis using emissionOf_raised [OF assms(1)] assms(3) by simp
qed (use assms(1) in simp)

section \<open>Through the phases\<close>

text \<open>The build the emission starts from, and what it leaves.\<close>

definition called :: "request \<Rightarrow> build \<Rightarrow> payloadState \<Rightarrow> build \<Rightarrow> bool" where
  "called rq b ps b3 \<longleftrightarrow> \<not> isReveal b3 \<and> customOutputs b3 = customOutputs (injectFeeQuoteOutput rq b) \<and> pubkey b3 = pubkey b \<and>
     compressedPubKey b3 = compressedPubKey b \<and> change b3 = change b \<and> hasActionPayload b3 = psHasAction ps \<and> inputSatoshis b3 = 0 \<and>
     txidFirstInput b3 \<noteq> None \<and> list_all (\<lambda>c. 0 < coValue c) (customOutputs b3)"

definition emittedBuild :: "lib \<Rightarrow> encoder \<Rightarrow> payloadState \<Rightarrow> build \<Rightarrow> build \<Rightarrow> psbt \<Rightarrow> bool" where
  "emittedBuild L enc ps b3 b4 p4 \<longleftrightarrow> psbtOf b4 = Some p4 \<and> txInputs p4 = [] \<and> emissionOf L (txidFirstInput b3) b4 (txOutputs p4) \<and> accounted b4 \<and>
     (payloadEncoding (preparedData b4) \<in> {E_OP_RETURN, E_MULTISIGN} \<longrightarrow> txidFirstInput b4 = txidFirstInput b3) \<and>
     sameCall (b3\<lparr>preparedData := preparedData b4\<rparr>) (b4\<lparr>isP2shFamily := isP2shFamily b3\<rparr>) \<and>
     (if hasActionPayload b3
      then prepareData (compile L) (resolveCallerHash160 L) (onCurve L) (psFinal ps) (psEncoding ps) (pubkey b3) (compressedPubKey b3) =
             Inr (preparedData b4)
      else dataBufferArray (preparedData b4) = [] \<and> payloadEncoding (preparedData b4) = E_OP_RETURN) \<and>
     selectedInputCount b4 = 0 \<and> (\<forall>r. revealPrefund b4 = Some r \<longrightarrow> prefundIndex r < length (dataBufferArray (preparedData b4)))"

lemma key_is_first_input:
  assumes "called rq b ps b3" "emittedBuild L enc ps b3 b4 p4" "sameRequest b4 b5" "refuseFirstInputRace b5 = ok ()" "psbtOf b5 = Some p5"
    and "payloadEncoding (preparedData b4) \<in> {E_OP_RETURN, E_MULTISIGN}" "dataBufferArray (preparedData b4) \<noteq> []"
  shows "txidFirstInput b3 = Some (toLowerCase (inHash (hd (txInputs p5))))"
proof -
  note m = assms(2) [unfolded emittedBuild_def]
  have h: "hasActionPayload b5" using m assms(3,7) by (auto simp: sameRequest_def sameCall_def split: if_splits)
  obtain k where k: "txidFirstInput b3 = Some k" using assms(1) by (auto simp: called_def)
  have "txidFirstInput b4 = Some k" using m assms(6) k by (elim conjE) simp
  then have "txidFirstInput b5 = Some k" "preparedData b5 = preparedData b4" using assms(3) by (simp_all add: sameRequest_def)
  then show ?thesis using assms(4-6) h k by (auto simp: refuseFirstInputRace_def Let_def split: if_splits)
qed

lemma build_through:
  assumes "buildSteps L enc t a rq exact (g, b) = ((g', b'), Inr r)" "\<not> isReveal b" "0 \<le> dustAmount enc" "0 \<le> outputFloor enc"
  obtains ps b1 b3 b4 p4 b5 p5 b6 taken reveal pkg g6 where "payloadPhase L enc a rq b = Inr (ps, b1)" "called rq b ps b3"
    "emissionPhase L enc ps b3 = Inr b4" "emittedBuild L enc ps b3 b4 p4" "taken \<noteq> []" "set taken \<subseteq> set (utxos b4)" "distinct (map keyOf taken)"
    "psbtOf b5 = Some p5" "txOutputs p5 = txOutputs p4" "map (\<lambda>i. (inHash i, inIndex i)) (txInputs p5) = map (\<lambda>u. (txid u, vout u)) taken"
    "inputSatoshis b5 = sum_list (map utxoValue taken)" "sameRequest b4 b5" "refuseFirstInputRace b5 = ok ()"
    "settle L enc pkg b5 = Inr b6" "buildEnvelopeReveal L enc b6 = Inr reveal"
    "finishBuild L ps reveal (aNowFinish a) (g6, b6) = ((g', b'), Inr r)"
proof -
  obtain ps b1 fetched b2 g3 b3 b4 g5 b5 b6 reveal where run:
    "payloadPhase L enc a rq b = Inr (ps, b1)" "candidatePhase L enc t a exact b1 = Inr (fetched, b2)"
    "bindObfuscationKey (aNowKey a) (aBefore a g, b2) = ((g3, b3), Inr ())" "emissionPhase L enc ps b3 = Inr b4"
    "selectFundingInputs L enc (aTxHex a) fetched (aSelecting a) (aNowSelect a) (aEmitting a g3, b4) = ((g5, b5), Inr ())"
    "settlementPhase L enc a b5 = Inr b6" "buildEnvelopeReveal L enc b6 = Inr reveal"
    "finishBuild L ps reveal (aNowFinish a) (aSettling a g5, b6) = ((g', b'), Inr r)"
    using assms(1) by (rule buildSteps_run)
  have quote: "p2shHash (injectFeeQuoteOutput rq b) = p2shHash b" "change (injectFeeQuoteOutput rq b) = change b"
      "pubkey (injectFeeQuoteOutput rq b) = pubkey b" "compressedPubKey (injectFeeQuoteOutput rq b) = compressedPubKey b"
    by (auto simp: injectFeeQuoteOutput_def split: option.splits)
  note 1 = payloadPhase_run [OF run(1)] and 2 = candidatePhase_run [OF run(2)]
  have nr2: "\<not> isReveal b2" using assms(2) 1 2 quote by (simp add: sameCall_def)
  have u2: "utxos b2 \<noteq> []" using 2 nr2 by (simp add: sameCall_def)
  note 3 = bindKey_frame [OF run(3) u2]
  have "list_all (\<lambda>c. 0 < coValue c) (customOutputs b1)" using 1 by (elim conjE)
  moreover have "customOutputs b3 = customOutputs b1" using 2 3 by (simp add: sameCall_def)
  ultimately have pos: "list_all (\<lambda>c. 0 < coValue c) (customOutputs b3)" by simp
  have nr3: "\<not> isReveal b3" using 3 nr2 by (simp add: sameCall_def)
  have "called rq b ps b3" unfolding called_def using 1 2 3 nr3 pos quote by (simp add: sameCall_def)
  note called = this
  obtain p4 where m: "emittedBuild L enc ps b3 b4 p4"
    using emissionPhase_run [OF run(4) nr3 pos assms(4,3)] unfolding emittedBuild_def by blast
  note m' = m [unfolded emittedBuild_def]
  have b4: "\<not> isReveal b4" "utxos b4 = utxos b3" "inputsOf b4 = []" "inputSatoshis b4 = 0" "selectedInputCount b4 = 0"
    using nr3 m' called by (simp_all add: sameCall_def inputsOf_def called_def)
  have dist: "distinct (map keyOf (utxos b4))" using 2 3 b4(2) by simp
  obtain taken where 5: "taken \<noteq> []" "subseq taken (utxos b4)" "distinct (map keyOf taken)"
    "map (\<lambda>i. (inHash i, inIndex i)) (inputsOf b5) = map (\<lambda>u. (txid u, vout u)) taken"
    "inputSatoshis b5 = inputSatoshis b4 + sum_list (map utxoValue taken)" "sameRequest b4 b5" "refuseFirstInputRace b5 = ok ()"
    using selection_spends [OF run(5) b4(1,3,5) dist] by blast
  obtain p5 where p5: "psbtOf b5 = Some p5" "txOutputs p5 = txOutputs p4"
    using 5(6) m' by (auto simp: sameRequest_def outputsOf_def split: option.splits)
  have nr5: "\<not> isReveal b5" using b4(1) 5(6) by (simp add: sameRequest_def)
  obtain bs where bs: "settle L enc (aAncestors a (unconfirmedInputTxids b5)) b5 = Inr bs" "sweepP2shReveal L enc
        (case p2shHash bs of Some h \<Rightarrow> aAncestors a [h] | None \<Rightarrow> None) bs = Inr b6"
    using run(6) by (auto simp: settlementPhase_def andThen_Inr_iff)
  have "\<not> isReveal bs" using settle_frame [OF bs(1) nr5 p5(1)] nr5 by (auto simp: sameCall_def)
  then have settled: "settle L enc (aAncestors a (unconfirmedInputTxids b5)) b5 = Inr b6" using bs by (simp add: sweepP2shReveal_def)
  show ?thesis
    by (rule that [OF run(1) called run(4) m 5(1) set_subseq_mono [OF 5(2)] 5(3) p5 5(4) [unfolded inputsOf_def p5(1) option.case] _ 5(6,7) settled run(7,8)])
      (use 5(5) b4(4) in simp)
qed

end
