(* ===== verification/PipelineInstances.thy ===== *)
theory PipelineInstances
  imports PipelineFacts Instances FeeProperties
begin

text \<open>
  Example builds, stage by stage: one named coin of 10000, a fee of 500 and a node whose estimate is zero, so
  that the rate is zero as well. The stages that are the same whatever the call carries are evaluated here; a
  property's witness adds the payload, the emission and the settlement of its own call.
\<close>

definition pay_setup :: trackerSetup where
  "pay_setup = \<lparr>tsProfile = PROFILE_REMOTE, tsMaxLag = 2, tsCap = 10000\<rparr>"

definition pay_answers :: answers where
  "pay_answers = \<lparr>aRelayFee = Fin (1 / 10 ^ 12), aEstimate = Inr 0, aDeflate = (\<lambda>_. None), aSetting = None, aTip = None,
     aSync = SyncStatus Null, aPages = (\<lambda>_ _ _ _. throw (InternalError ''down'')), aTxHex = (\<lambda>_. throw (InternalError ''down'')),
     aAncestors = (\<lambda>_. None), aBefore = (\<lambda>g. g), aEmitting = (\<lambda>g. g), aSelecting = (\<lambda>_ g. g), aSettling = (\<lambda>g. g),
     aNowKey = 1000, aNowSelect = 1000, aNowFinish = 1000\<rparr>"

definition pay_coin :: utxo where
  "pay_coin = \<lparr>txid = ''aa'', vout = 0, utxoValue = 10000, scriptPubKey = ''00020102'', confirmations = Some 1, utxoRedeem = None\<rparr>"

definition pay_input :: txInput where
  "pay_input = \<lparr>inHash = ''aa'', inIndex = 0, inSequence = 0xffffffff,
     witnessUtxo = Some ([0x00, 0x02, 0x01, 0x02], 10000), nonWitnessUtxo = None, redeemScript = None\<rparr>"

text \<open>A call that pays from \<open>pay_coin\<close>, with custom outputs \<open>cs\<close> and key \<open>k\<close>.\<close>

definition run_call :: "customOutput list \<Rightarrow> string option \<Rightarrow> build" where
  "run_call cs k = blankBuild\<lparr>utxos := [pay_coin], customOutputs := cs, fee := Some 500, change := Some ''c'', compressedPubKey := k\<rparr>"

text \<open>The fields the later steps read.\<close>

definition run_fields :: "customOutput list \<Rightarrow> bool \<Rightarrow> string option \<Rightarrow> build \<Rightarrow> bool" where
  "run_fields cs h k b \<longleftrightarrow> p2shHash b = None \<and> customOutputs b = cs \<and> fee b = Some 500 \<and>
     change b = Some ''c'' \<and> hasActionPayload b = h \<and> replacebyfee b = False \<and> attachPrevTx b = False \<and> pubkey b = [] \<and>
     compressedPubKey b = k \<and> relayFeePerKb b = 1 / 10 ^ 12 \<and> utxos b = [pay_coin] \<and> feePerBytes b \<le> 0 \<and> finalDust b = 546"

section \<open>The rate\<close>

lemma run_rates: "\<exists>b1. resolveFeeRates btcEncoder (aRelayFee pay_answers) (aEstimate pay_answers) (run_call cs k) = Inr b1 \<and>
    run_fields cs h k (b1\<lparr>hasActionPayload := h\<rparr>)"
proof -
  obtain b1 where b1: "resolveFeeRates btcEncoder (Fin (1 / 10 ^ 12)) (Inr 0) (run_call cs k) = Inr b1"
    by (simp add: resolveFeeRates_def resolveRelayFeeRate_def run_call_def blankBuild_def useNodeFeeRate_def Let_def)
  obtain r where r: "feePerBytes b1 = cappedRate (capCallerFeeRate r (Some (anchorRate (1 / 10 ^ 12) (Inr 0))) (Some (1 / 10 ^ 12))
      (maxFeePerBytes btcEncoder) (maxFeeRateMultiplier btcEncoder))"
    using resolveFeeRates_run [OF b1] by blast
  have "feePerBytes b1 \<le> 0" 
    using capCallerFeeRate_facts(2) [OF refl, of r 0 "Some (1 / 10 ^ 12)" "maxFeePerBytes btcEncoder" "maxFeeRateMultiplier btcEncoder"]
    unfolding r by (simp add: anchorRate_def)
  moreover have "finalDust b1 = 546" using b1
    by (auto simp: resolveFeeRates_def andThen_Inr_iff applyFeeCapAndDustFloor_def Let_def btcEncoder_def run_call_def blankBuild_def
        resolveRelayFeeRate_def useNodeFeeRate_def anchorRelayFeeRate_def split: option.splits if_splits)
  moreover have "relayFeePerKb b1 = 1 / 10 ^ 12" "sameCall ((run_call cs k)\<lparr>feePerBytes := feePerBytes b1, relayFeePerKb := relayFeePerKb b1, finalDust := finalDust b1\<rparr>) b1"
    using resolveFeeRates_frame [OF b1] by (simp_all add: sameCall_def)
  ultimately show ?thesis using b1
    by (auto simp: pay_answers_def run_fields_def sameCall_def run_call_def blankBuild_def)
qed

section \<open>Candidates and the key\<close>

lemma pay_key: "keyOf pay_coin = ''aa:0''"
  by code_simp

lemma run_candidates:
  assumes "run_fields cs h k b"
  shows "\<exists>b2. candidatePhase exampleLib btcEncoder pay_setup pay_answers True b = Inr (False, b2) \<and> run_fields cs h k b2 \<and> exactInputs b2 \<and> inputSatoshis b2 = 0"
  using assms by (simp add: candidatePhase_def checkExactInputs_def initInputState_def run_fields_def truthy_def asksTracker_def gatherUtxos_def
      refuseShrunkExactInputs_def filterAndOrderUtxos_def isUnconfirmedUtxo_def pay_coin_def Let_def)

lemma run_bound:
  assumes "run_fields cs h k b" "exactInputs b" "inputSatoshis b = 0"
  shows "\<exists>g3 b3. bindObfuscationKey 1000 (initReservationMaps, b) = ((g3, b3), Inr ()) \<and> run_fields cs h k b3 \<and> exactInputs b3 \<and>
     txidFirstInput b3 = Some ''aa'' \<and> inputSatoshis b3 = 0 \<and> recentBuilds g3 = jm_empty"
proof -
  have e: "evictExpiredReservations 1000 initReservationMaps = initReservationMaps"
    "isOutpointReserved ''aa:0'' 1000 initReservationMaps = (False, initReservationMaps)"
    by (simp_all add: isOutpointReserved_def evictExpiredReservations_def initReservationMaps_def jm_get_def jm_keep_def)
  obtain l g3 where c: "claimOutpoint (callReservations b) ''aa:0'' 1000 initReservationMaps = (l, g3)" by (metis surj_pair)
  then have "recentBuilds g3 = jm_empty" by (auto simp: claimOutpoint_def reserveOutpoint_def initReservationMaps_def Let_def)
  moreover have "toLowerCase (txid pay_coin) = ''aa''" by code_simp
  ultimately show ?thesis using assms
    by (simp add: bindObfuscationKey_def claimExactInputs_def run_fields_def e pay_key c Let_def)
qed

section \<open>Selection\<close>

text \<open>The state between emission and selection.\<close>

definition run_emitted :: "customOutput list \<Rightarrow> bool \<Rightarrow> string option \<Rightarrow> psbt \<Rightarrow> build \<Rightarrow> bool" where
  "run_emitted cs h k p b \<longleftrightarrow> run_fields cs h k b \<and> exactInputs b \<and> inputSatoshis b = 0 \<and> selectedInputCount b = 0 \<and> estimatedFee b = 500 \<and>
     unconfirmedInputTxids b = [] \<and> psbtOf b = Some p \<and> txInputs p = [] \<and> payloadEncoding (preparedData b) \<in> {E_OP_RETURN, E_TAPROOT}"

definition run_selected :: "customOutput list \<Rightarrow> bool \<Rightarrow> string option \<Rightarrow> psbt \<Rightarrow> build \<Rightarrow> bool" where
  "run_selected cs h k p b \<longleftrightarrow> run_fields cs h k b \<and> inputSatoshis b = 10000 \<and> estimatedFee b = 500 \<and>
     unconfirmedInputTxids b = [] \<and> psbtOf b = Some (addInput pay_input p)"

lemma run_takes:
  assumes "run_emitted cs h k p b"
  shows "\<exists>b5. takeCandidate exampleLib btcEncoder txHex fetched pay_coin b = Inr b5 \<and> sameRequest b b5 \<and> run_selected cs h k p b5 \<and>
     selectedInputCount b5 = 1"
  using assms
  by (simp add: takeCandidate_def parseSatoshi_def pay_coin_def MAX_SAFE_INTEGER_def nestedP2wpkhRedeem_def coin_segwit isP2shScript_def
      addSelectedInput_def selectedInput_def isSegwit_def exampleLib_def run_fields_def needPsbt_def utxoSequence_def sameRequest_def outputsOf_def
      inputSizeOf_def estimateInputSize_def inputSizeForScript_def startsWith_def endsWith_def countInput_def framingBytesForInput_def
      isUnconfirmedUtxo_def run_emitted_def run_selected_def pay_input_def Let_def del: fromHex.simps)

lemma run_selects:
  assumes "run_emitted cs h k p b" "txidFirstInput b = Some ''aa''" "recentBuilds g = jm_empty"
  shows "\<exists>g5 b5. selectFundingInputs exampleLib btcEncoder txHex fetched (\<lambda>_ g. g) 1000 (g, b) = ((g5, b5), Inr ()) \<and> sameRequest b b5 \<and>
     run_selected cs h k p b5 \<and> recentBuilds g5 = jm_empty"
proof -
  obtain b5 where b5: "takeCandidate exampleLib btcEncoder txHex fetched pay_coin b = Inr b5" "sameRequest b b5" "run_selected cs h k p b5"
    "selectedInputCount b5 = 1" using run_takes [OF assms(1)] by blast
  note f = assms(1) [unfolded run_emitted_def run_fields_def]
  have u: "refuseUnsignableInput exampleLib btcEncoder pay_coin b = ok ()"
    using f by (auto simp: refuseUnsignableInput_def btcEncoder_def network_defs isSegwit_def pay_coin_def exampleLib_def coin_segwit)
  have d: "\<not> selectionDone exampleLib btcEncoder b5" using b5(2) f by (simp add: selectionDone_def sameRequest_def)
  have e: "recentBuilds (evictExpiredReservations 1000 g) = jm_empty" using assms(3) by (simp add: evictExpiredReservations_def)
  have n: "refuseEmptySelection b5 = ok ()" using b5(4) by (simp add: refuseEmptySelection_def MAX_UTXO_COUNT_def)
  have c: "refuseFirstInputRace b5 = ok ()"
  proof -
    have "toLowerCase ''aa'' = ''aa''" by code_simp
    moreover have "p2shHash b5 = None" "txidFirstInput b5 = Some ''aa''" "\<exists>p5. psbtOf b5 = Some p5 \<and> inHash (hd (txInputs p5)) = ''aa''"
      using b5(2,3) f assms(2) by (auto simp: sameRequest_def run_selected_def run_fields_def pay_input_def addInput_def)
    ultimately show ?thesis by (auto simp: refuseFirstInputRace_def truthy_def split: option.split)
  qed
  have "selectFundingInputs exampleLib btcEncoder txHex fetched (\<lambda>_ g. g) 1000 (g, b) = ((evictExpiredReservations 1000 g, b5), Inr ())"
    using f by (simp add: selectFundingInputs_def selectInputs_def refuseCappedSelection_def MAX_UTXO_COUNT_def checkS_def u
        skipReservedInput_def stepS_def b5(1) d n c truthy_def)
  then show ?thesis using b5 e by simp
qed

section \<open>The whole run\<close>

lemma run_built:
  assumes 1: "payloadPhase exampleLib btcEncoder pay_answers rq b = Inr (ps, b1)" "run_fields cs h k b1"
    and 4: "\<And>b3. run_fields cs h k b3 \<Longrightarrow> exactInputs b3 \<Longrightarrow> inputSatoshis b3 = 0 \<Longrightarrow>
       \<exists>b4. emissionPhase exampleLib btcEncoder ps b3 = Inr b4 \<and> run_emitted cs h k p b4 \<and> txidFirstInput b4 = txidFirstInput b3 \<and> extra b4"
    and 6: "\<And>b4 b5. extra b4 \<Longrightarrow> sameRequest b4 b5 \<Longrightarrow> run_selected cs h k p b5 \<Longrightarrow>
       \<exists>b6 rv p6. settlementPhase exampleLib btcEncoder pay_answers b5 = Inr b6 \<and> buildEnvelopeReveal exampleLib btcEncoder b6 = Inr rv \<and>
         psbtOf b6 = Some p6 \<and> preparedData b6 = preparedData b4"
  shows "\<exists>g' b' b4 r. buildSteps exampleLib btcEncoder pay_setup pay_answers rq True (initReservationMaps, b) = ((g', b'), Inr r) \<and>
     extra b4 \<and> preparedData b' = preparedData b4"
proof -
  obtain b2 where 2: "candidatePhase exampleLib btcEncoder pay_setup pay_answers True b1 = Inr (False, b2)" "run_fields cs h k b2" "exactInputs b2" "inputSatoshis b2 = 0"
    using run_candidates [OF 1(2)] by blast
  obtain g3 b3 where 3: "bindObfuscationKey 1000 (initReservationMaps, b2) = ((g3, b3), Inr ())" "run_fields cs h k b3" "exactInputs b3"
    "txidFirstInput b3 = Some ''aa''" "inputSatoshis b3 = 0" "recentBuilds g3 = jm_empty" using run_bound [OF 2(2-4)] by blast
  obtain b4 where e: "emissionPhase exampleLib btcEncoder ps b3 = Inr b4" "run_emitted cs h k p b4" "txidFirstInput b4 = txidFirstInput b3" "extra b4"
    using 4 [OF 3(2,3,5)] by blast
  have key: "txidFirstInput b4 = Some ''aa''" using e(3) 3(4) by simp
  obtain g5 b5 where 5: "selectFundingInputs exampleLib btcEncoder (aTxHex pay_answers) False (\<lambda>_ g. g) 1000 (g3, b4) = ((g5, b5), Inr ())" "sameRequest b4 b5"
     "run_selected cs h k p b5" "recentBuilds g5 = jm_empty" using run_selects [OF e(2) key 3(6)] by blast
  obtain b6 rv p6 where s: "settlementPhase exampleLib btcEncoder pay_answers b5 = Inr b6" "buildEnvelopeReveal exampleLib btcEncoder b6 = Inr rv"
    "psbtOf b6 = Some p6" "preparedData b6 = preparedData b4"
    using 6 [OF e(4) 5(2,3)] by blast
  have n: "aNowKey pay_answers = 1000" "aNowSelect pay_answers = 1000" "aNowFinish pay_answers = 1000" "aBefore pay_answers = (\<lambda>g. g)"
    "aEmitting pay_answers = (\<lambda>g. g)" "aSettling pay_answers = (\<lambda>g. g)" "aSelecting pay_answers = (\<lambda>_ g. g)" by (simp_all add: pay_answers_def)
  obtain g7 where d: "refuseDuplicateBuild (unsignedId exampleLib p6) 1000 g5 = (g7, Inr (unsignedId exampleLib p6))"
    using 5(4) by (simp add: refuseDuplicateBuild_def evictExpiredRecentBuilds_def jm_keep_def jm_get_def Let_def)
  show ?thesis
    using e(4) s(4)
    by (auto simp: buildSteps_def 1(1) 2(1) 3(1) e(1) 5(1) s(1-3) n d stepS_def checkS_def finishBuild_def needPsbt_def intro!: exI [of _ b4])
qed

section \<open>Settlement at a zero rate\<close>

lemma run_settles:
  assumes "run_selected cs h k p b" "softDustSurcharge b = 0" "txInputs p = []" "outputSatoshis b \<le> 8908"
    and "payloadEncoding (preparedData b) \<in> {E_OP_RETURN, E_TAPROOT}" "\<And>q. 65 \<le> predictedStrippedSize (addOutput [0x00, 0x14, 0x63] q (addInput pay_input p)) 0"
  shows "\<exists>b6. settlementPhase exampleLib btcEncoder pay_answers b = Inr b6 \<and> envelopeContextOf b6 = envelopeContextOf b \<and>
    preparedData b6 = preparedData b \<and> psbtOf b6 = Some (addOutput [0x00, 0x14, 0x63] (9454 - outputSatoshis b) (addInput pay_input p))"
proof -
  note f = assms(1) [unfolded run_selected_def run_fields_def]
  have x: "1 / 10 ^ 12 * SATOSHI_UNIT = 1 / 10000" by (simp add: SATOSHI_UNIT_def)
  have "0 \<le> fl (1 / 10000)" by (rule fl_nonneg) simp
  moreover have "fl (1 / 10000) < 1 / 2" using fl_abs_le [of "1 / 10000"] \<open>0 \<le> fl (1 / 10000)\<close> by (simp add: abs_of_nonneg)
  ultimately have "js_round (fl (1 / 10 ^ 12 * SATOSHI_UNIT)) = 0" unfolding x js_round_def floor_eq_iff by simp
  then have m: "minimumRelayFee n (1 / 10 ^ 12) = 0" for n by (simp add: minimumRelayFee_def)
  have fee: "fee b = Some 500" "relayFeePerKb b = 1 / 10 ^ 12" "estimatedFee b = 500" using f by simp_all
  have 1: "refuseInsufficientRelayFee btcEncoder b = ok ()"
    by (simp only: refuseInsufficientRelayFee_def fee m assms(2)) (simp add: Let_def)
  have 2: "refuseExcessiveFee btcEncoder b = ok ()"
    by (simp add: refuseExcessiveFee_def fee assms(2) btcEncoder_def refuseIf_def Let_def split: option.split)
  obtain bd where bd: "upliftForAncestors btcEncoder None b = b\<lparr>cpfpUpliftBound := bd, commitAncestorSize := 0, commitAncestorFeeSat := 0\<rparr>"
    using f by (simp add: upliftForAncestors_def Let_def)
  have c: "coreStrippedFloor ''bitcoin-regtest'' = 65" by (simp add: coreStrippedFloor_def)
  have p: "prefundRevealPackage y = Inr y" if "feePerBytes y = feePerBytes b" for y
    using f that by (simp add: prefundRevealPackage_def split: option.split)
  have "\<exists>b6. settle exampleLib btcEncoder None b = Inr b6 \<and> p2shHash b6 = None \<and> envelopeContextOf b6 = envelopeContextOf b \<and>
      preparedData b6 = preparedData b \<and> psbtOf b6 = Some (addOutput [0x00, 0x14, 0x63] (9454 - outputSatoshis b) (addInput pay_input p))"
    by (simp only: settle_def 1 2 bd andThen.simps)
      (insert f assms(4,5,6), simp add: floorEstimatedFee_def p assms(2) btcEncoder_def computeChange_def truthy_def
        emitChangeAndPad_def payTo_def scriptOf_def exampleLib_def emitOutput_def needPsbt_def network_defs refuseUnderStrippedFloor_def
        c Let_def)
  moreover have "aAncestors pay_answers (unconfirmedInputTxids b) = None" by (simp add: pay_answers_def)
  ultimately show ?thesis by (auto simp: settlementPhase_def sweepP2shReveal_def truthy_def)
qed

end
