(* ===== verification/PipelineProperties.thy ===== *)
theory PipelineProperties
  imports PipelineInstances PayloadCheckProperties SelectionProperties
begin

text \<open>
  What a whole build promises its caller: where the money goes, and which payload and which key it carries.
\<close>

section \<open>The whole build\<close>

text \<open>The two views of the settlement together: what becomes of the emitted outputs, and of the money.\<close>

lemma settled_through:
  assumes "settle L enc pkg b5 = Inr b6" "\<not> isReveal b5" "psbtOf b5 = Some p5" "accounted b5"
  obtains p6 outs extra where "psbtOf b6 = Some p6" "txOutputs p6 = outs @ extra" "prefunded b5 (txOutputs p5) b6 outs" "sameCall b5 b6"
    "txInputs p6 = txInputs p5" "length extra \<le> 1"
    "\<forall>out \<in> set extra. outputFloor enc \<le> outValue out \<and> toOutputScript L (the (change b5)) = Some (outScript out)"
    "let paid = inputSatoshis b5 - totalOut p6
     in estimatedFee b6 \<le> paid \<and> (paid < estimatedFee b6 + max 1 (outputFloor enc) \<or> \<not> truthy (change b5) \<and> paid \<le> estimatedFee b6 + dustAmount enc)"
proof -
  obtain p6 outs extra where 6: "psbtOf b6 = Some p6" "txOutputs p6 = outs @ extra" "prefunded b5 (txOutputs p5) b6 outs" "sameCall b5 b6"
    using settle_frame [OF assms(1-3)] by blast
  obtain p6' outs' extra' where money: "psbtOf b6 = Some p6'" "txInputs p6' = txInputs p5" "txOutputs p6' = outs' @ extra'"
     "length outs' = length (txOutputs p5)" "length extra' \<le> 1"
     "\<forall>out \<in> set extra'. outputFloor enc \<le> outValue out \<and> toOutputScript L (the (change b5)) = Some (outScript out)"
     "let paid = inputSatoshis b5 - totalOut p6'
      in estimatedFee b6 \<le> paid \<and> (paid < estimatedFee b6 + max 1 (outputFloor enc) \<or> \<not> truthy (change b5) \<and> paid \<le> estimatedFee b6 + dustAmount enc)"
    using settle_money [OF assms] by blast
  have "p6' = p6" using 6(1) money(1) by simp
  moreover have "length outs = length (txOutputs p5)" using 6(3) by (auto simp: prefunded_def raisedAt_def)
  ultimately have "outs' = outs" "extra' = extra" using money(3,4) 6(2) by simp_all
  then show thesis using that 6 money \<open>p6' = p6\<close> by simp
qed

text \<open>
  C36. A build that succeeds pays exactly what was asked for and nothing else. Its transaction spends distinct
  candidates, each once. Its outputs are, in order, one carrier for each chunk of the prepared payload, every
  payment of the caller and the fee quote at its exact address and amount (on the script-hash lanes these wait for
  the reveal), and at most one change output, to the caller's change address and at least the relay floor; the
  rest of the inputs is the fee settled on, or over it by less than a change output would need. The payload is
  the one the payload phase compiled, and an obfuscated carrier is keyed by the txid of the transaction's own first
  input.
\<close>

theorem build_pays_exactly:
  assumes "buildSteps L enc t a rq exact (g, b) = ((g', b'), Inr r)" "\<not> isReveal b" "0 \<le> dustAmount enc" "0 \<le> outputFloor enc"
  shows "\<exists>ps b1 taken outs extra.
     payloadPhase L enc a rq b = Inr (ps, b1) \<and>
     (if psHasAction ps
      then prepareData (compile L) (resolveCallerHash160 L) (onCurve L) (psFinal ps) (psEncoding ps) (pubkey b) (compressedPubKey b) = Inr (preparedData b')
      else dataBufferArray (preparedData b') = []) \<and>
     taken \<noteq> [] \<and> set taken \<subseteq> set (utxos b') \<and> distinct (map keyOf taken) \<and>
     map (\<lambda>i. (inHash i, inIndex i)) (txInputs (resPsbt r)) = map (\<lambda>u. (txid u, vout u)) taken \<and>
     txOutputs (resPsbt r) = outs @ extra \<and> customOutputs b' = customOutputs (injectFeeQuoteOutput rq b) \<and>
     emissionOf L (Some (toLowerCase (inHash (hd (txInputs (resPsbt r)))))) b' outs \<and>
     length extra \<le> 1 \<and> (\<forall>out \<in> set extra. outputFloor enc \<le> outValue out \<and> toOutputScript L (the (change b)) = Some (outScript out)) \<and>
     (let paid = sum_list (map utxoValue taken) - totalOut (resPsbt r)
      in estimatedFee b' \<le> paid \<and> (paid < estimatedFee b' + max 1 (outputFloor enc) \<or> \<not> truthy (change b) \<and> paid \<le> estimatedFee b' + dustAmount enc))"
proof -
  obtain ps b1 b3 b4 p4 b5 p5 b6 taken reveal pkg g6 where run: "payloadPhase L enc a rq b = Inr (ps, b1)" "called rq b ps b3"
    "emissionPhase L enc ps b3 = Inr b4" "emittedBuild L enc ps b3 b4 p4" "taken \<noteq> []" "set taken \<subseteq> set (utxos b4)" "distinct (map keyOf taken)"
    "psbtOf b5 = Some p5" "txOutputs p5 = txOutputs p4" "map (\<lambda>i. (inHash i, inIndex i)) (txInputs p5) = map (\<lambda>u. (txid u, vout u)) taken"
    "inputSatoshis b5 = sum_list (map utxoValue taken)" "sameRequest b4 b5" "refuseFirstInputRace b5 = ok ()"
    "settle L enc pkg b5 = Inr b6" "buildEnvelopeReveal L enc b6 = Inr reveal"
    "finishBuild L ps reveal (aNowFinish a) (g6, b6) = ((g', b'), Inr r)"
    using assms by (rule build_through)
  note c = run(2) [unfolded called_def] and m = run(4) [unfolded emittedBuild_def] and 7 = finishBuild_run [OF run(16)]
  have b5: "\<not> isReveal b5" "accounted b5" "revealPrefund b5 = revealPrefund b4" "change b5 = change b"
    using c m run(8,9,12) by (auto simp: sameRequest_def sameCall_def accounted_def totalOut_def)
  obtain p6 outs extra where 6: "psbtOf b6 = Some p6" "txOutputs p6 = outs @ extra" "prefunded b5 (txOutputs p5) b6 outs" "sameCall b5 b6"
    and money: "txInputs p6 = txInputs p5" "length extra \<le> 1"
     "\<forall>out \<in> set extra. outputFloor enc \<le> outValue out \<and> toOutputScript L (the (change b5)) = Some (outScript out)"
     "let paid = inputSatoshis b5 - totalOut p6
      in estimatedFee b6 \<le> paid \<and> (paid < estimatedFee b6 + max 1 (outputFloor enc) \<or> \<not> truthy (change b5) \<and> paid \<le> estimatedFee b6 + dustAmount enc)"
    using settled_through [OF run(14) b5(1) run(8) b5(2)] by blast
  have p6: "resPsbt r = p6" using 6(1) 7 by simp
  have same: "preparedData b' = preparedData b4" "customOutputs b' = customOutputs b4" "finalDust b' = finalDust b4"
      "compressedPubKey b' = compressedPubKey b4" "utxos b' = utxos b4" "estimatedFee b' = estimatedFee b6"
    using 7 6(4) run(12) by (simp_all add: sameCall_def sameRequest_def)
  have "emissionOf L (txidFirstInput b3) b4 outs"
    by (rule emissionOf_prefunded [OF _ 6(3) [unfolded run(9)]]) (use m b5(3) in auto)
  then have fin: "emissionOf L (Some (toLowerCase (inHash (hd (txInputs (resPsbt r)))))) b' outs"
    unfolding emissionOf_cong [OF same(1-4)] p6 money(1)
    by (rule emissionOf_key) (use key_is_first_input [OF run(2,4,12,13,8)] in simp)
  have paid: "let paid = sum_list (map utxoValue taken) - totalOut (resPsbt r)
      in estimatedFee b' \<le> paid \<and> (paid < estimatedFee b' + max 1 (outputFloor enc) \<or> \<not> truthy (change b) \<and> paid \<le> estimatedFee b' + dustAmount enc)"
    using money(4) b5(4) run(11) same(6) by (simp add: p6)
  have ins: "map (\<lambda>i. (inHash i, inIndex i)) (txInputs (resPsbt r)) = map (\<lambda>u. (txid u, vout u)) taken"
    using run(10) money(1) by (simp add: p6)
  have co: "customOutputs b' = customOutputs (injectFeeQuoteOutput rq b)" using same(2) m c by (simp add: sameCall_def)
  have pd: "if psHasAction ps
      then prepareData (compile L) (resolveCallerHash160 L) (onCurve L) (psFinal ps) (psEncoding ps) (pubkey b) (compressedPubKey b) = Inr (preparedData b')
      else dataBufferArray (preparedData b') = []"
    using m c same(1) by (simp split: if_splits)
  have chg: "\<forall>out \<in> set extra. outputFloor enc \<le> outValue out \<and> toOutputScript L (the (change b)) = Some (outScript out)"
    using money(3) b5(4) by simp
  show ?thesis
    by (intro exI [of _ ps] exI [of _ b1] exI [of _ taken] exI [of _ outs] exI [of _ extra] conjI)
      (fact run(1) pd run(5) run(6) [folded same(5)] run(7) ins 6(2) [folded p6] co fin money(2) chg paid)+
qed

text \<open>An example: a payment of 6000 and no payload.\<close>

definition pay_request :: request where
  "pay_request = \<lparr>rqData = None, rqRawData = None, rqFeeQuote = None, rqEncoding = None, rqCompress = None, rqTapscript = None\<rparr>"

definition pay_custom :: "customOutput list" where
  "pay_custom = [\<lparr>coAddress = ''c'', coValue = 6000, isFeeQuote = False\<rparr>]"

lemma pay_checked: "checkPayloadInput exampleLib btcEncoder pay_request (run_call pay_custom None) =
    Inr ((startPayload pay_request)\<lparr>psUnknownAction := unknownActionName None\<rparr>, run_call pay_custom None)"
  by (simp add: checkPayloadInput_def pay_request_def checkOutputAddresses_def assertAddressOnNetwork_def effectiveQuote_def run_call_def
      blankBuild_def truthy_def checkPaymentDust_def checkPayment_def parseBigInt_def MAX_SAFE_INTEGER_def assertPaymentOverDust_def
      btcEncoder_def injectFeeQuoteOutput_def exampleLib_def pay_custom_def Let_def)

lemma pay_prepared:
  "\<exists>ps'. preparePayload exampleLib btcEncoder (\<lambda>_. None) None None pay_request b
      ((startPayload pay_request)\<lparr>psUnknownAction := unknownActionName None\<rparr>) = Inr (ps', b\<lparr>hasActionPayload := False\<rparr>)"
proof -
  have c: "length (writeScript [Push []]) = 1" by code_simp
  show ?thesis
    by (simp add: preparePayload_def compressPayload_def startPayload_def pay_request_def compilePayload_def decodable_buffers [THEN iffD2]
        payloadBuffers_def isMinimalOpSingleByte_def classifyPayload_def chooseEncoding_def compiledCeiling_def
        MAX_COMPILED_ACTION_DATA_LENGTH_def exampleLib_def c checkEnvelopeEncoding_def Let_def)
qed

lemma pay_payload: "\<exists>ps b1. payloadPhase exampleLib btcEncoder pay_answers pay_request (run_call pay_custom None) = Inr (ps, b1) \<and>
    run_fields pay_custom False None b1"
proof -
  obtain b1 where b1: "resolveFeeRates btcEncoder (aRelayFee pay_answers) (aEstimate pay_answers) (run_call pay_custom None) = Inr b1"
    "run_fields pay_custom False None (b1\<lparr>hasActionPayload := False\<rparr>)" using run_rates by blast
  obtain ps' where "preparePayload exampleLib btcEncoder (\<lambda>_. None) None None pay_request b1
      ((startPayload pay_request)\<lparr>psUnknownAction := unknownActionName None\<rparr>) = Inr (ps', b1\<lparr>hasActionPayload := False\<rparr>)"
    using pay_prepared by blast
  moreover have "aDeflate pay_answers = (\<lambda>_. None)" "aSetting pay_answers = None" "aTip pay_answers = None" by (simp_all add: pay_answers_def)
  ultimately show ?thesis using b1(2) by (simp add: payloadPhase_def pay_checked b1(1))
qed

definition pay_emission :: "build \<Rightarrow> bool" where
  "pay_emission b \<longleftrightarrow> outputSatoshis b = 6000 \<and> softDustSurcharge b = 0 \<and> envelopeContextOf b = None \<and> payloadEncoding (preparedData b) = E_OP_RETURN"

lemma pay_emitted:
  assumes "run_fields pay_custom False None b" "exactInputs b" "inputSatoshis b = 0"
  shows "\<exists>b4. emissionPhase exampleLib btcEncoder ps b = Inr b4 \<and> run_emitted pay_custom False None (addOutput [0x00, 0x14, 0x63] 6000 emptyPsbt) b4 \<and>
     txidFirstInput b4 = txidFirstInput b \<and> pay_emission b4"
  using assms
  by (simp add: emissionPhase_def prepareDataChunks_def run_fields_def pay_custom_def truthy_def priceRevealCustomOutputs_def initEmissionState_def emitDataOutputs_def
      emitCustomOutputs_def btcEncoder_def scriptOf_def exampleLib_def emitOutput_def needPsbt_def softDustSurchargeFor_def initSelection_def
      parseSatoshi_def MAX_SAFE_INTEGER_def addOutput_def emptyPsbt_def run_emitted_def pay_emission_def Let_def)

lemma pay_settles:
  assumes "pay_emission b4" "sameRequest b4 b5" "run_selected pay_custom False None (addOutput [0x00, 0x14, 0x63] 6000 emptyPsbt) b5"
  shows "\<exists>b6 rv p6. settlementPhase exampleLib btcEncoder pay_answers b5 = Inr b6 \<and> buildEnvelopeReveal exampleLib btcEncoder b6 = Inr rv \<and>
         psbtOf b6 = Some p6 \<and> preparedData b6 = preparedData b4"
proof -
  have m: "65 \<le> predictedStrippedSize (addOutput [0x00, 0x14, 0x63] q (addInput pay_input (addOutput [0x00, 0x14, 0x63] 6000 emptyPsbt))) 0" for q
    by (simp add: predictedStrippedSize_def strippedTxSize_def varIntSize_def emptyPsbt_def scriptSigLowerBound_def pay_input_def)
  have "outputSatoshis b5 = 6000" "softDustSurcharge b5 = 0" "envelopeContextOf b5 = None" "preparedData b5 = preparedData b4"
    "payloadEncoding (preparedData b4) = E_OP_RETURN"
    using assms(1,2) by (simp_all add: pay_emission_def sameRequest_def)
  then show ?thesis
    using run_settles [OF assms(3) _ _ _ _ m] by (auto simp: buildEnvelopeReveal_def emptyPsbt_def)
qed

theorem build_pays_exactly_witness:
  "\<exists>g' b' r (taken :: utxo list). buildSteps exampleLib btcEncoder pay_setup pay_answers pay_request True
        (initReservationMaps, run_call pay_custom None) = ((g', b'), Inr r) \<and>
     taken \<noteq> [] \<and> estimatedFee b' \<le> sum_list (map utxoValue taken) - totalOut (resPsbt r)"
proof -
  obtain ps b1 where 1: "payloadPhase exampleLib btcEncoder pay_answers pay_request (run_call pay_custom None) = Inr (ps, b1)"
    "run_fields pay_custom False None b1" using pay_payload by blast
  obtain g' b' r where b: "buildSteps exampleLib btcEncoder pay_setup pay_answers pay_request True (initReservationMaps, run_call pay_custom None) = ((g', b'), Inr r)"
    using run_built [OF 1 pay_emitted pay_settles] by blast
  have "\<not> isReveal (run_call pay_custom None)" "0 \<le> dustAmount btcEncoder" "0 \<le> outputFloor btcEncoder"
    by (simp_all add: run_call_def blankBuild_def truthy_def btcEncoder_def)
  from build_pays_exactly [OF b this] obtain taken :: "utxo list" where "taken \<noteq> []"
    "let paid = sum_list (map utxoValue taken) - totalOut (resPsbt r)
      in estimatedFee b' \<le> paid \<and> (paid < estimatedFee b' + max 1 (outputFloor btcEncoder) \<or>
        \<not> truthy (change (run_call pay_custom None)) \<and> paid \<le> estimatedFee b' + dustAmount btcEncoder)"
    by (elim exE conjE)
  then show ?thesis using b unfolding Let_def by blast
qed

end
