(* ===== verification/EnvelopeCancel.thy ===== *)
theory EnvelopeCancel
  imports PayloadChecks Settlement
begin

text \<open>
  The key-path cancel of an unrevealed envelope commit, \<open>src/src/XChainEncoder/envelope_cancel.js\<close>: reading the
  recovery record, pricing the cancel and sweeping the commit output. The claim it takes on the outpoint is
  in \<open>Reservations\<close>. \<open>p2trHash\<close> is the P2TR script of an internal key and a merkle root.
\<close>

record cancelRecord =
  cnTxid :: jstring
  cnVout :: nat
  cnValue :: int
  cnKey :: Buffer
  cnRate :: "rat option"
  cnRbf :: bool
  cnLeaf :: Buffer
  cnDestination :: string

definition readInternalKey :: "jsval \<Rightarrow> Buffer result" where
  "readInternalKey v =
     (case v of
        Str s \<Rightarrow> if isCompressedHex s then ok (drop 1 (hexBytes s))
                  else if isHex64 s then ok (hexBytes s)
                  else throw (ParamTypeError ''internalPubkey must be a 66-character compressed or 64-character x-only pubkey hex string'')
      | _ \<Rightarrow> throw (ParamTypeError ''internalPubkey must be a 66-character compressed or 64-character x-only pubkey hex string''))"

text \<open>An address that is not ASCII decodes on no network.\<close>

definition checkedAddress :: "lib \<Rightarrow> jsval \<Rightarrow> string result" where
  "checkedAddress L v =
     andThen (validateAddress v) (\<lambda>s.
     case asciiOf s of
       None \<Rightarrow> throw (ParamTypeError ''is not a valid address for this network'')
     | Some a \<Rightarrow> andThen (assertAddressOnNetwork L a) (\<lambda>_. ok a))"

definition readCancelRecord :: "lib \<Rightarrow> encoder \<Rightarrow> jsval \<Rightarrow> cancelRecord result" where
  "readCancelRecord L enc params =
     andThen (validateOutpoint (getProp params ''commitTxid'') (getProp params ''commitVout'')) (\<lambda>(tx, out).
     andThen (parseSatoshiAmount False (getProp params ''commitValue'')) (\<lambda>value.
     andThen (readInternalKey (getProp params ''internalPubkey'')) (\<lambda>key.
     if \<not> onCurve L key then throw (ParamTypeError ''internalPubkey is not a valid secp256k1 point'')
     else andThen (case getProp params ''tapleafHash'' of
                     Str s \<Rightarrow> if isHex64 s then ok (hexBytes s) else throw (ParamTypeError ''tapleafHash must be a 64-character hex string'')
                   | _ \<Rightarrow> throw (ParamTypeError ''tapleafHash must be a 64-character hex string'')) (\<lambda>leaf.
     andThen (checkedAddress L (getProp params ''destination'')) (\<lambda>destination.
     if \<not> supportsSegwit (network enc) then throw (ParamTypeError ''TAPROOT encoding is not supported on this network'')
     else andThen (validateFeePerKb (getProp params ''feePerKb'')) (\<lambda>rate.
          andThen (validateOptionalBoolean (getProp params ''replacebyfee'')) (\<lambda>rbf.
          ok \<lparr>cnTxid = tx, cnVout = out, cnValue = value, cnKey = key, cnRate = rate, cnRbf = (rbf = Some True),
              cnLeaf = leaf, cnDestination = destination\<rparr>)))))))"

text \<open>The rate in coins per byte, and the relay floor; the node's estimate is needed only without a caller rate.\<close>

definition cancelFeeRate :: "encoder \<Rightarrow> rat option \<Rightarrow> jsnum \<Rightarrow> rat result \<Rightarrow> (rat \<times> rat) result" where
  "cancelFeeRate enc feeRatePerKb relayfee nodeEstimate =
     (case relayfee of
        Fin relay \<Rightarrow>
          if relay \<le> 0 then throw (InternalError ''Node did not report a positive relayfee'')
          else andThen (case feeRatePerKb of
                          Some r \<Rightarrow> ok (fl (fl (r / 1000) / SATOSHI_UNIT),
                                       case nodeEstimate of Inr e \<Rightarrow> Some (fl (e / 1000)) | Inl _ \<Rightarrow> None)
                        | None \<Rightarrow> andThen nodeEstimate (\<lambda>e. ok (fl (e / 1000), Some (fl (e / 1000))))) (\<lambda>(rate, nodeRate).
               let c = capCallerFeeRate rate nodeRate (Some relay) (maxFeePerBytes enc) (maxFeeRateMultiplier enc)
               in ok (if cappedClamped c then cappedRate c else rate, relay))
      | _ \<Rightarrow> throw (InternalError ''Node did not report a positive relayfee''))"

definition cancelPadNeeded :: "lib \<Rightarrow> encoder \<Rightarrow> string \<Rightarrow> bool" where
  "cancelPadNeeded L enc destination =
     (case minStandardTxNonWitnessSize (network enc) of
        Some f \<Rightarrow> f \<noteq> 0 \<and> 10 + 41 + estimateOutputSizeForAddress (toOutputScript L) (Some destination) < f | None \<Rightarrow> False)"

definition cancelVsize :: "lib \<Rightarrow> encoder \<Rightarrow> string \<Rightarrow> nat" where
  "cancelVsize L enc destination =
     (let destOutBytes = estimateOutputSizeForAddress (toOutputScript L) (Some destination);
          strippedBytes = 10 + 41 + destOutBytes + (if cancelPadNeeded L enc destination then destOutBytes else 0)
      in (case minStandardTxNonWitnessSize (network enc) of Some f \<Rightarrow> max f strippedBytes | None \<Rightarrow> strippedBytes) +
         (2 + 1 + 1 + 65 + 3) div 4 + 2)"

definition sizeCancelSweep :: "lib \<Rightarrow> encoder \<Rightarrow> string \<Rightarrow> int \<Rightarrow> rat \<Rightarrow> rat \<Rightarrow> rat option \<Rightarrow> (bool \<times> int \<times> int) result" where
  "sizeCancelSweep L enc destination value rate relay callerRate =
     (let padNeeded = cancelPadNeeded L enc destination;
          vsize = cancelVsize L enc destination;
          cancelFee = feeForVsize vsize rate SATOSHI_UNIT
      in andThen (refuseIf (callerRate \<noteq> None \<and> cancelFee < minimumRelayFee vsize relay)
                    (ParamRangeError ''feePerKb produces fee below the node relay minimum'')) (\<lambda>_.
         let cancelFee = max cancelFee (dustAmount enc);
             sweepValue = value - cancelFee - (if padNeeded then dustAmount enc else 0)
         in if sweepValue < dustAmount enc then throw (OperationalError ''ENVELOPE_CANCEL_BELOW_DUST'')
            else ok (padNeeded, cancelFee, sweepValue)))"

definition cancelPsbt :: "lib \<Rightarrow> encoder \<Rightarrow> cancelRecord \<Rightarrow> bool \<Rightarrow> int \<Rightarrow> psbt result" where
  "cancelPsbt L enc r padNeeded sweepValue =
     andThen (scriptOf L (cnDestination r)) (\<lambda>script.
     let p = addInput \<lparr>inHash = narrow (cnTxid r), inIndex = cnVout r, inSequence = (if cnRbf r then 0xfffffffd else 0xffffffff),
               witnessUtxo = Some (p2trHash L (cnKey r) (cnLeaf r), cnValue r), nonWitnessUtxo = None, redeemScript = None\<rparr> emptyPsbt;
         p = addOutput script sweepValue p
     in ok (if padNeeded then addOutput script (dustAmount enc) p else p))"

text \<open>
  \<open>buildEnvelopeCancelTransaction\<close>: the record, the claim, the rate, the sweep. \<open>others\<close> is what other calls do to the
  guard while the node is asked; what the claim took stays in the ledger when a later step throws.
\<close>

definition buildEnvelopeCancelTransaction ::
  "lib \<Rightarrow> encoder \<Rightarrow> jsval \<Rightarrow> int \<Rightarrow> string \<Rightarrow> jsnum \<Rightarrow> rat result \<Rightarrow> (guard \<Rightarrow> guard) \<Rightarrow> ledger \<Rightarrow> guard \<Rightarrow> (guard \<times> ledger) \<times> (psbt \<times> int) result" where
  "buildEnvelopeCancelTransaction L enc params now ownerId relayfee nodeEstimate others l g =
     (case readCancelRecord L enc params of
        Inl e \<Rightarrow> ((g, l), throw e)
      | Inr r \<Rightarrow>
          (case claimCommitOutpoint l (narrow (cnTxid r)) (cnVout r) now ownerId g of
             (g, Inl e) \<Rightarrow> ((g, l), throw e)
           | (g, Inr l) \<Rightarrow>
               ((others g, l),
                andThen (cancelFeeRate enc (cnRate r) relayfee nodeEstimate) (\<lambda>(rate, relay).
                andThen (sizeCancelSweep L enc (cnDestination r) (cnValue r) rate relay (cnRate r)) (\<lambda>(padNeeded, cancelFee, sweepValue).
                andThen (cancelPsbt L enc r padNeeded sweepValue) (\<lambda>p. ok (p, cancelFee)))))))"

text \<open>The public entry point: unknown keys are refused before anything is claimed.\<close>

definition createEnvelopeCancel ::
  "lib \<Rightarrow> encoder \<Rightarrow> jsval \<Rightarrow> int \<Rightarrow> string \<Rightarrow> jsnum \<Rightarrow> rat result \<Rightarrow> (guard \<Rightarrow> guard) \<Rightarrow> int \<Rightarrow> string \<Rightarrow> guard \<Rightarrow>
     guard \<times> ((psbt \<times> int) \<times> receipt option) result" where
  "createEnvelopeCancel L enc params now ownerId relayfee nodeEstimate others now' ticketId g =
     (case validateEnvelopeCancelParamKeys params of
        Inl e \<Rightarrow> (g, throw e)
      | Inr _ \<Rightarrow> createEnvelopeCancelTransaction
          (buildEnvelopeCancelTransaction L enc params now ownerId relayfee nodeEstimate others \<lparr>claims = [], buildTxid = None\<rparr>)
          now' ticketId g)"

end
