(* ===== verification/CancelInstances.thy ===== *)
theory CancelInstances
  imports EnvelopeCancel Instances
begin

text \<open>
  A recovery record as it arrives at the cancel, and what the model reads from it.
\<close>

text \<open>An example: a commit of 10000 swept to one address at the node's rate, which is zero.\<close>

definition cancel_record :: jsval where
  "cancel_record = Obj [(js ''commitTxid'', Str (js (replicate 64 (CHR ''a'')))), (js ''commitVout'', Num (Fin 0)), (js ''commitValue'', Num (Fin 10000)),
     (js ''internalPubkey'', Str (js (replicate 64 (CHR ''b'')))), (js ''tapleafHash'', Str (js (replicate 64 (CHR ''c'')))),
     (js ''destination'', Str (js ''d''))]"

definition cancel_read :: cancelRecord where
  "cancel_read = \<lparr>cnTxid = js (replicate 64 (CHR ''a'')), cnVout = 0, cnValue = 10000, cnKey = hexBytes (js (replicate 64 (CHR ''b''))), cnRate = None, cnRbf = False,
     cnLeaf = hexBytes (js (replicate 64 (CHR ''c''))), cnDestination = ''d''\<rparr>"

lemma cancel_record_reads:
  "validateOutpoint (getProp cancel_record ''commitTxid'') (getProp cancel_record ''commitVout'') = ok (js (replicate 64 (CHR ''a'')), 0)"
  "parseSatoshiAmount False (getProp cancel_record ''commitValue'') = ok 10000"
  "getProp cancel_record ''internalPubkey'' = Str (js (replicate 64 (CHR ''b'')))" "isHex64 (js (replicate 64 (CHR ''b'')))"
  "getProp cancel_record ''tapleafHash'' = Str (js (replicate 64 (CHR ''c'')))" "isHex64 (js (replicate 64 (CHR ''c'')))"
  "getProp cancel_record ''feePerKb'' = Undefined" "getProp cancel_record ''replacebyfee'' = Undefined"
  "validateAddress (getProp cancel_record ''destination'') = ok (js ''d'')" "asciiOf (js ''d'') = Some ''d''"
  by code_simp+

lemma cancel_reads: "readCancelRecord exampleLib btcEncoder cancel_record = ok cancel_read"
proof -
  have "checkedAddress exampleLib (getProp cancel_record ''destination'') = ok ''d''"
    by (simp add: checkedAddress_def cancel_record_reads(9,10)  assertAddressOnNetwork_def exampleLib_def del: js_simps)
  moreover have "onCurve exampleLib k" for k by (simp add: exampleLib_def)
  moreover have "validateFeePerKb Undefined = ok None" "validateOptionalBoolean Undefined = ok None"
    by (simp_all add: validateFeePerKb_def validateOptionalBoolean_def)
  moreover have "\<not> isCompressedHex (js (replicate 64 (CHR ''b'')))" by code_simp
  ultimately show ?thesis
    by (simp add: readCancelRecord_def cancel_record_reads(1-8) readInternalKey_def cancel_read_def btcEncoder_def network_defs del: js_simps)
qed

end
