(* ===== verification/EnvelopeProperties.thy ===== *)
theory EnvelopeProperties
  imports PipelineInstances CancelInstances PayloadCheckProperties SelectionProperties
begin

text \<open>
  The Taproot lane's pair of transactions and the way out of it: what the commit funds, what the reveal spends
  and pays, and what a cancel built from the recovery record sweeps.
\<close>

section \<open>The commit\<close>

text \<open>
  The envelope context matches the transaction: the commit is output 0, for the carried script, worth the reveal's
  fee, the dust it pays back and its pad; and the prefund, if any, names it.
\<close>

definition commitMatches :: "lib \<Rightarrow> encoder \<Rightarrow> build \<Rightarrow> txOutput list \<Rightarrow> envelopeContext \<Rightarrow> bool" where
  "commitMatches L enc b outs c \<longleftrightarrow>
     dataBufferArray (preparedData b) = [ecScript c] \<and> internalPubkey (preparedData b) = Some (ecInternalPubkey c) \<and>
     ecOutput c = p2trOutput L (ecInternalPubkey c) (ecScript c) \<and> changeOrCaller L enc b = ok (revealChangeAddress c) \<and>
     commitValue c = ecRevealFee c + dustAmount enc + (if revealPadNeeded c then dustAmount enc else 0) \<and> finalDust b \<le> ecRevealFee c \<and>
     outs \<noteq> [] \<and> hd outs = \<lparr>outScript = ecOutput c, outValue = commitValue c\<rparr> \<and> envelopeContextOf b = Some c \<and>
     (\<forall>r. revealPrefund b = Some r \<longrightarrow> prefundIndex r = 0)"

lemma emitCustomList_envelope:
  "emitCustomList L enc cs b = Inr b' \<Longrightarrow> envelopeContextOf b' = envelopeContextOf b"
proof (induction cs arbitrary: b)
  case (Cons c cs)
  obtain s b1 where "emitOutput s (coValue c) b = Inr b1"
    "emitCustomList L enc cs (b1\<lparr>outputSatoshis := outputSatoshis b1 + coValue c, estimatedTxSize := estimatedTxSize b1 + 43\<rparr>) = Inr b'"
    using Cons.prems by (auto simp: andThen_Inr_iff split: if_splits)
  then show ?case using Cons.IH by (auto simp: emitOutput_facts)
qed simp

lemma envelopePayload_one:
  "prepareData cmp h c d e pk k = Inr r \<Longrightarrow> payloadEncoding r = E_TAPROOT \<Longrightarrow> \<exists>script. dataBufferArray r = [script]"
  by (auto simp: prepareData_def opReturnPayload_def scriptHashPayload_def multisignPayload_def envelopePayload_def
      result_simps Let_def split: Encoding.splits option.splits if_splits)

lemma emission_commit:
  assumes "emissionPhase L enc ps b = Inr b'" "\<not> isReveal b" "payloadEncoding (preparedData b') = E_TAPROOT" "emittedBuild L enc ps b b' p"
  shows "\<exists>c. commitMatches L enc b' (txOutputs p) c"
proof -
  obtain b1 b2 b3 where r: "prepareDataChunks L (psFinal ps) (psEncoding ps) b = Inr b1"
    "emitDataOutputs L enc (initEmissionState (priceRevealCustomOutputs L enc b1)) = Inr b2" "emitCustomOutputs L enc b2 = Inr b3"
    "initSelection b3 = Inr b'"
    using assms(1) by (auto simp: emissionPhase_def andThen_Inr_iff)
  note run = prepareChunks_run [OF r(1) assms(2)] and ini = initSelection_facts [OF r(4)]
  define s where "s = initEmissionState (priceRevealCustomOutputs L enc b1)"
  have s: "psbtOf s = psbtOf b1" "preparedData s = preparedData b1" "change s = change b1" "pubkey s = pubkey b1" "finalDust s = finalDust b1"
    "p2shHash s = p2shHash b1" "isP2shFamily s \<longleftrightarrow> payloadEncoding (preparedData b1) \<in> {E_P2SH, E_P2WSH}"
    by (simp_all add: s_def initEmissionState_def priceRevealCustomOutputs_def Let_def)
  have c23: "preparedData b3 = preparedData b2" "change b3 = change b2" "pubkey b3 = pubkey b2" "finalDust b3 = finalDust b2"
      "envelopeContextOf b3 = envelopeContextOf b2" "revealPrefund b3 = revealPrefund b2"
      "\<And>p2. psbtOf b2 = Some p2 \<Longrightarrow> \<exists>p3 outs. psbtOf b3 = Some p3 \<and> txOutputs p3 = txOutputs p2 @ outs"
    if b2: "psbtOf b2 \<noteq> None"
  proof -
    obtain bx sc where bx: "(if \<not> isReveal b2 \<and> isP2shFamily b2 then ok b2 else emitCustomList L enc (customOutputs b2) b2) = Inr bx"
      "b3 = bx\<lparr>softDustSurcharge := sc\<rparr>"
      using r(3) by (auto simp: emitCustomOutputs_def result_simps needPsbt_Inr Let_def)
    have "bx = b2 \<or> (\<exists>outs. emitted b2 bx outs) \<and> revealPrefund bx = revealPrefund b2 \<and> envelopeContextOf bx = envelopeContextOf b2"
    proof (cases "\<not> isReveal b2 \<and> isP2shFamily b2")
      case False
      then have l: "emitCustomList L enc (customOutputs b2) b2 = Inr bx" using bx(1) by (simp only: if_False)
      show ?thesis using emitCustomList_run [OF l b2] emitCustomList_envelope [OF l] by blast
    qed (use bx(1) in simp)
    then show "preparedData b3 = preparedData b2" "change b3 = change b2" "pubkey b3 = pubkey b2" "finalDust b3 = finalDust b2"
      "envelopeContextOf b3 = envelopeContextOf b2" "revealPrefund b3 = revealPrefund b2"
      "\<And>p2. psbtOf b2 = Some p2 \<Longrightarrow> \<exists>p3 outs. psbtOf b3 = Some p3 \<and> txOutputs p3 = txOutputs p2 @ outs"
      by (auto simp: bx(2) emitted_def sameCall_def)
  qed
  have h: "hasActionPayload b" using assms(3,4) by (auto simp: emittedBuild_def split: if_splits)
  then have e: "preparedData b' = preparedData b1" using run assms(4) by (simp add: emittedBuild_def)
  obtain script where sc: "dataBufferArray (preparedData b1) = [script]"
    using envelopePayload_one [of "compile L" "resolveCallerHash160 L" "onCurve L" "psFinal ps" "psEncoding ps" "pubkey b" "compressedPubKey b" "preparedData b1"]
      run h assms(3) by (auto simp: e)
  have "emitEnvelopeCommit L enc script s = Inr b2"
    using r(2) sc assms(3) by (simp add: emitDataOutputs_def s_def [symmetric] s(2) e emitChunk_def andThen_Inr_iff)
  then show ?thesis
  proof (rule emitEnvelope_run)
    fix key addr q vsize f pad
    assume k: "internalPubkey (preparedData s) = Some key" "changeOrCaller L enc s = ok addr" "psbtOf s = Some q" "finalDust s \<le> f"
      and b2: "b2 = s\<lparr>revealPrefund := Some \<lparr>prefundIndex = length (txOutputs q), prefundSize = vsize, prefundFee = f\<rparr>,
        psbtOf := Some (addOutput (p2trOutput L key script) (f + dustAmount enc + (if pad then dustAmount enc else 0)) q),
        outputSatoshis := outputSatoshis s + (f + dustAmount enc + (if pad then dustAmount enc else 0)),
        estimatedTxSize := estimatedTxSize s + estimateTaprootOutput,
        envelopeContextOf := Some \<lparr>ecInternalPubkey = key, ecScript = script, ecOutput = p2trOutput L key script,
          commitValue = f + dustAmount enc + (if pad then dustAmount enc else 0), ecRevealFee = f, revealPadNeeded = pad,
          revealChangeAddress = addr\<rparr>\<rparr>"
    have q: "q = emptyPsbt" using k(3) s(1) run by simp
    have p2: "psbtOf b2 = Some (addOutput (p2trOutput L key script) (f + dustAmount enc + (if pad then dustAmount enc else 0)) emptyPsbt)"
      by (simp add: b2 q)
    then obtain p3 outs where p3: "psbtOf b3 = Some p3"
      "txOutputs p3 = \<lparr>outScript = p2trOutput L key script, outValue = f + dustAmount enc + (if pad then dustAmount enc else 0)\<rparr> # outs"
      using c23(7) by (fastforce simp: emptyPsbt_def addOutput_def)
    have "p = p3" using p3(1) ini(2) assms(4) by (simp add: emittedBuild_def)
    moreover have "changeOrCaller L enc b' = changeOrCaller L enc s"
      using c23(2,3) p2 ini(1) by (simp add: changeOrCaller_def sameCall_def b2)
    ultimately show ?thesis
      by (intro exI [of _ "the (envelopeContextOf b2)"])
        (use p3 k c23 p2 ini e sc s run in \<open>simp add: commitMatches_def sameCall_def b2 q emptyPsbt_def\<close>)
  qed
qed

lemma commit_prefunded:
  assumes "commitMatches L enc b outs c" "prefunded b outs b' outs'" "sameCall b b'"
  shows "\<exists>c'. envelopeContextOf b' = Some c' \<and> ecScript c' = ecScript c \<and> ecInternalPubkey c' = ecInternalPubkey c \<and> ecOutput c' = ecOutput c \<and>
     revealChangeAddress c' = revealChangeAddress c \<and> revealPadNeeded c' = revealPadNeeded c \<and> ecRevealFee c \<le> ecRevealFee c' \<and>
     commitValue c' = ecRevealFee c' + dustAmount enc + (if revealPadNeeded c then dustAmount enc else 0) \<and>
     outs' \<noteq> [] \<and> hd outs' = \<lparr>outScript = ecOutput c', outValue = commitValue c'\<rparr>"
proof -
  note m = assms(1) [unfolded commitMatches_def]
  obtain o1 os where o: "outs = o1 # os" using m by (cases outs) auto
  show ?thesis using assms(2) unfolding prefunded_def
  proof (elim disjE exE conjE)
    fix r a assume r: "revealPrefund b = Some r" "0 < a" "outs' = raisedAt (prefundIndex r) a outs"
      "envelopeContextOf b' = raisedContext a (envelopeContextOf b)"
    then have "prefundIndex r = 0" using m by simp
    then show ?thesis using m r(2-4) o by (simp add: raisedAt_def raisedContext_def)
  qed (use m o in simp)
qed

lemma findScript_hd: "findScript (outScript out) (out # outs) = Some 0"
  by simp

section \<open>The reveal\<close>

text \<open>The reveal of an envelope whose commit value covers its fee and its outputs.\<close>

lemma reveal_built:
  assumes "buildRevealPsbt L enc e commit 0 sequence = Inr (rp, er)"
    and "commitValue e = ecRevealFee e + dustAmount enc + (if revealPadNeeded e then dustAmount enc else 0)"
  obtains out where "toOutputScript L (revealChangeAddress e) = Some out" "envelopeTapLeafHash L (ecScript e) = ok (erTapleafHash er)"
    "erCommitTxid er = commit" "erCommitVout er = 0" "erCommitValue er = commitValue e" "erInternalPubkey er = ecInternalPubkey e"
    "erRevealFee er = ecRevealFee e" "map (\<lambda>i. (inHash i, inIndex i, witnessUtxo i)) (txInputs rp) = [(commit, 0, Some (ecOutput e, commitValue e))]"
    "totalOut rp + erRevealFee er = erCommitValue er" "\<forall>o1 \<in> set (txOutputs rp). outScript o1 = out \<and> dustAmount enc \<le> outValue o1"
    "txOutputs rp \<noteq> []"
proof -
  obtain out leaf where out: "toOutputScript L (revealChangeAddress e) = Some out" "envelopeTapLeafHash L (ecScript e) = ok leaf"
    using assms(1) by (auto simp: buildRevealPsbt_def scriptOf_def andThen_Inr_iff split: option.splits)
  note reveal = assms(1) [unfolded buildRevealPsbt_def scriptOf_def out option.case andThen.simps Let_def]
  have er: "erCommitTxid er = commit" "erCommitVout er = 0" "erCommitValue er = commitValue e" "erInternalPubkey er = ecInternalPubkey e"
      "erTapleafHash er = leaf" "erRevealFee er = ecRevealFee e"
      "map (\<lambda>i. (inHash i, inIndex i, witnessUtxo i)) (txInputs rp) = [(commit, 0, Some (ecOutput e, commitValue e))]"
      "txOutputs rp = \<lparr>outScript = out, outValue = dustAmount enc\<rparr> # (if revealPadNeeded e then [\<lparr>outScript = out, outValue = dustAmount enc\<rparr>] else [])"
    using reveal assms(2) by (auto simp: emptyPsbt_def split: if_splits)
  have "totalOut rp + erRevealFee er = erCommitValue er" "\<forall>o1 \<in> set (txOutputs rp). outScript o1 = out \<and> dustAmount enc \<le> outValue o1" "txOutputs rp \<noteq> []"
    using er(3,6,8) assms(2) by (auto simp: totalOut_def)
  then show thesis using that out er by simp
qed


text \<open>An example: one raw byte on the Taproot lane, paid from the same coin.\<close>

definition env_request :: request where
  "env_request = \<lparr>rqData = None, rqRawData = Some [0x21], rqFeeQuote = None, rqEncoding = Some E_TAPROOT, rqCompress = Some False, rqTapscript = None\<rparr>"

definition env_key :: string where
  "env_key = ''02'' @ replicate 64 (CHR ''a'')"

lemma env_key_facts: "isCompressedPubKeyHex env_key" "env_key \<noteq> []"
  by code_simp+

lemma env_checked: "checkPayloadInput exampleLib btcEncoder env_request (run_call [] (Some env_key)) =
    Inr ((startPayload env_request)\<lparr>psUnknownAction := unknownActionName None\<rparr>, run_call [] (Some env_key))"
  by (simp add: checkPayloadInput_def env_request_def checkOutputAddresses_def assertAddressOnNetwork_def effectiveQuote_def run_call_def
      blankBuild_def truthy_def checkPaymentDust_def validateDataParam_def injectFeeQuoteOutput_def exampleLib_def Let_def)

lemma env_prepared:
  assumes "isReveal b = False"
  shows "\<exists>ps'. preparePayload exampleLib btcEncoder (\<lambda>_. None) None None env_request b
      ((startPayload env_request)\<lparr>psUnknownAction := unknownActionName None\<rparr>) = Inr (ps', b\<lparr>hasActionPayload := True\<rparr>) \<and>
      psEncoding ps' = Some E_TAPROOT \<and> psFinal ps' = [0x00, 0x01, 0x21]"
proof -
  have w: "writeScript [Push [], Push (latin1 [0x21])] = [0x00, 0x01, 0x21]" by code_simp
  have "length (writeScript [Push [], Push (latin1 [0x21])]) = 3" by code_simp
  then have c: "length (writeScript [Push [], Push (latin1 [0x21])]) \<le> ENVELOPE_MAX_PAYLOAD" by (simp add: ENVELOPE_MAX_PAYLOAD_def)
  have d: "\<not> isMinimalOpSingleByte (latin1 [0x21])" by code_simp
  have e: "getEnvelopeRecognitionHeight ''bitcoin-regtest'' = Some 0" by code_simp
  show ?thesis using assms c d e w
    by (simp add: preparePayload_def compressPayload_def startPayload_def env_request_def compilePayload_def validateActionPushDecodability_def
        payloadBuffers_def classifyPayload_def chooseEncoding_def compiledCeiling_def
        exampleLib_def checkEnvelopeEncoding_def btcEncoder_def network_defs assertEnvelopeRecognized_def Let_def)
qed

lemma env_payload: "\<exists>ps b1. payloadPhase exampleLib btcEncoder pay_answers env_request (run_call [] (Some env_key)) = Inr (ps, b1) \<and>
    run_fields [] True (Some env_key) b1 \<and> psEncoding ps = Some E_TAPROOT \<and> psFinal ps = [0x00, 0x01, 0x21]"
proof -
  obtain b1 where b1: "resolveFeeRates btcEncoder (aRelayFee pay_answers) (aEstimate pay_answers) (run_call [] (Some env_key)) = Inr b1"
    "run_fields [] True (Some env_key) (b1\<lparr>hasActionPayload := True\<rparr>)" using run_rates by blast
  have "\<not> isReveal b1" using b1(2) by (simp add: run_fields_def truthy_def)
  then obtain ps' where "preparePayload exampleLib btcEncoder (\<lambda>_. None) None None env_request b1
      ((startPayload env_request)\<lparr>psUnknownAction := unknownActionName None\<rparr>) = Inr (ps', b1\<lparr>hasActionPayload := True\<rparr>)" "psEncoding ps' = Some E_TAPROOT"
      "psFinal ps' = [0x00, 0x01, 0x21]"
    using env_prepared by blast
  moreover have "aDeflate pay_answers = (\<lambda>_. None)" "aSetting pay_answers = None" "aTip pay_answers = None" by (simp_all add: pay_answers_def)
  ultimately show ?thesis using b1(2) by (simp add: payloadPhase_def env_checked b1(1))
qed

text \<open>The rate is not positive, so the reveal's fee is the dust floor.\<close>

lemma feeForVsize_zero: "r \<le> 0 \<Longrightarrow> feeForVsize n r SATOSHI_UNIT \<le> 0"
proof -
  assume r: "r \<le> 0"
  have m: "fl x \<le> 0" if "x \<le> 0" for x using fl_nonneg [of "- x"] that by (simp add: fl_minus)
  have "of_nat n * r \<le> 0" by (rule mult_nonneg_nonpos) (use r in simp_all)
  from m [OF this] have "fl (of_nat n * r) * SATOSHI_UNIT \<le> 0" by (rule mult_nonpos_nonneg) (simp add: SATOSHI_UNIT_def)
  then have "fl (fl (of_nat n * r) * SATOSHI_UNIT) \<le> 0" by (rule m)
  then show ?thesis by (simp add: feeForVsize_def js_trunc_def Let_def)
qed

definition env_script :: "Buffer \<Rightarrow> Buffer" where
  "env_script d = writeScript (envelopeItems MAGIC_WORD (sliceEnvelopeChunks d) (drop 1 (fromHex env_key)))"

definition env_commit :: "Buffer \<Rightarrow> psbt" where
  "env_commit d = addOutput (p2trOutput exampleLib (drop 1 (fromHex env_key)) (env_script d)) 1638 emptyPsbt"

lemma env_prepareData:
  "prepareData writeScript rc (\<lambda>_. True) d (Some E_TAPROOT) [] (Some env_key) =
     Inr \<lparr>dataBufferArray = [env_script d], payloadEncoding = E_TAPROOT, internalPubkey = Some (drop 1 (fromHex env_key))\<rparr>"
  by (simp add: prepareData_def envelopePayload_def validateCompressedPubKey_def env_key_facts env_script_def Let_def del: fromHex.simps)

definition env_context :: "Buffer \<Rightarrow> envelopeContext" where
  "env_context d = \<lparr>ecInternalPubkey = drop 1 (fromHex env_key), ecScript = env_script d,
     ecOutput = p2trOutput exampleLib (drop 1 (fromHex env_key)) (env_script d), commitValue = 1638, ecRevealFee = 546, revealPadNeeded = True,
     revealChangeAddress = ''c''\<rparr>"

definition env_emission :: "Buffer \<Rightarrow> build \<Rightarrow> bool" where
  "env_emission d b \<longleftrightarrow> outputSatoshis b = 1638 \<and> softDustSurcharge b = 0 \<and> payloadEncoding (preparedData b) = E_TAPROOT \<and>
     envelopeContextOf b = Some (env_context d)"

lemma env_commit_fee:
  assumes "feePerBytes b \<le> 0" "finalDust b = 546" "internalPubkey (preparedData b) = Some (drop 1 (fromHex env_key))" "change b = Some ''c''"
    and "psbtOf b = Some emptyPsbt" "script = env_script d"
  shows "emitEnvelopeCommit exampleLib btcEncoder script b = Inr (b\<lparr>revealPrefund :=
        Some \<lparr>prefundIndex = 0, prefundSize = estimateEnvelopeRevealTx (length script) 24 (Some 82), prefundFee = 546\<rparr>,
      psbtOf := Some (env_commit d), outputSatoshis := outputSatoshis b + 1638,
      estimatedTxSize := estimatedTxSize b + estimateTaprootOutput, envelopeContextOf := Some (env_context d)\<rparr>)"
proof -
  have "max (feeForVsize n (feePerBytes b) SATOSHI_UNIT) 546 = 546" for n using feeForVsize_zero [OF assms(1), of n] by simp
  moreover have "toOutputScript exampleLib ''c'' = Some [0x00, 0x14, 0x63]" by (simp add: exampleLib_def)
  moreover have "length (txOutputs emptyPsbt) = 0" by (simp add: emptyPsbt_def)
  ultimately show ?thesis using assms
    by (simp add: emitEnvelopeCommit_def changeOrCaller_def truthy_def estimateOutputSizeForAddress_def btcEncoder_def network_defs needPsbt_def
        env_context_def env_commit_def Let_def del: fromHex.simps)
qed

lemma env_emitted:
  assumes "run_fields [] True (Some env_key) b" "exactInputs b" "inputSatoshis b = 0" "psEncoding ps = Some E_TAPROOT"
  shows "\<exists>b4. emissionPhase exampleLib btcEncoder ps b = Inr b4 \<and> run_emitted [] True (Some env_key) (env_commit (psFinal ps)) b4 \<and>
     txidFirstInput b4 = txidFirstInput b \<and> env_emission (psFinal ps) b4"
proof -
  note f = assms(1) [unfolded run_fields_def]
  define b1 where "b1 = b\<lparr>psbtOf := Some emptyPsbt, preparedData := \<lparr>dataBufferArray = [env_script (psFinal ps)], payloadEncoding = E_TAPROOT,
      internalPubkey = Some (drop 1 (fromHex env_key))\<rparr>\<rparr>"
  define s where "s = initEmissionState (priceRevealCustomOutputs exampleLib btcEncoder b1)"
  have lib: "compile exampleLib = writeScript" "onCurve exampleLib = (\<lambda>_. True)" by (simp_all add: exampleLib_def)
  have 1: "prepareDataChunks exampleLib (psFinal ps) (psEncoding ps) b = Inr b1"
    using f assms(4) by (simp add: prepareDataChunks_def truthy_def lib env_prepareData b1_def)
  have s: "feePerBytes s \<le> 0" "finalDust s = 546" "internalPubkey (preparedData s) = Some (drop 1 (fromHex env_key))" "change s = Some ''c''"
     "psbtOf s = Some emptyPsbt" "dataBufferArray (preparedData s) = [env_script (psFinal ps)]" "payloadEncoding (preparedData s) = E_TAPROOT"
     "outputSatoshis s = 0" "txidFirstInput s = txidFirstInput b" "exactInputs s" "inputSatoshis s = 0"
     "run_fields [] True (Some env_key) s" "isP2shFamily s = False"
    using f assms(2,3) by (simp_all add: s_def b1_def initEmissionState_def priceRevealCustomOutputs_def run_fields_def Let_def)
  obtain b2 where 2: "emitEnvelopeCommit exampleLib btcEncoder (env_script (psFinal ps)) s = Inr b2" "run_fields [] True (Some env_key) b2"
     "psbtOf b2 = Some (env_commit (psFinal ps))" "outputSatoshis b2 = 1638" "txidFirstInput b2 = txidFirstInput b"
     "exactInputs b2" "inputSatoshis b2 = 0" "payloadEncoding (preparedData b2) = E_TAPROOT" "envelopeContextOf b2 = Some (env_context (psFinal ps))" "isP2shFamily b2 = False"
    using env_commit_fee [OF s(1-5) refl] s(7-) by (simp add: run_fields_def)
  have 3: "emitDataOutputs exampleLib btcEncoder s = Inr b2"
    using s(6,7) 2(1) by (simp add: emitDataOutputs_def emitChunk_def)
  have p: "txInputs (env_commit (psFinal ps)) = []" by (simp add: env_commit_def emptyPsbt_def)
  show ?thesis using 1 3 2(2-) p unfolding s_def
    by (simp add: emissionPhase_def emitCustomOutputs_def run_fields_def btcEncoder_def softDustSurchargeFor_def initSelection_def
      parseSatoshi_def MAX_SAFE_INTEGER_def run_emitted_def env_emission_def needPsbt_def truthy_def Let_def)
qed

lemma env_stripped: "65 \<le> predictedStrippedSize (addOutput [0x00, 0x14, 0x63] q (addInput pay_input (env_commit d))) 0"
  by (simp add: predictedStrippedSize_def strippedTxSize_def varIntSize_def emptyPsbt_def scriptSigLowerBound_def pay_input_def env_commit_def
      exampleLib_def del: fromHex.simps)

lemma env_leaf: "\<exists>leaf. envelopeTapLeafHash exampleLib (env_script [0x00, 0x01, 0x21]) = ok leaf"
proof -
  have "length (env_script [0x00, 0x01, 0x21]) < 253" by code_simp
  then show ?thesis by (simp add: envelopeTapLeafHash_def compactSizeBuffer_def)
qed

lemma env_settles:
  assumes "env_emission d b4" "d = [0x00, 0x01, 0x21]" "sameRequest b4 b5" "run_selected [] True (Some env_key) (env_commit d) b5"
  shows "\<exists>b6 rv p6. settlementPhase exampleLib btcEncoder pay_answers b5 = Inr b6 \<and> buildEnvelopeReveal exampleLib btcEncoder b6 = Inr rv \<and>
         psbtOf b6 = Some p6 \<and> preparedData b6 = preparedData b4"
proof -
  have f: "outputSatoshis b5 = 1638" "softDustSurcharge b5 = 0" "envelopeContextOf b5 = Some (env_context d)" "preparedData b5 = preparedData b4"
    "payloadEncoding (preparedData b4) = E_TAPROOT"
    using assms(1,3) by (simp_all add: env_emission_def sameRequest_def)
  have p: "txInputs (env_commit d) = []" by (simp add: env_commit_def emptyPsbt_def)
  obtain b6 where b6: "settlementPhase exampleLib btcEncoder pay_answers b5 = Inr b6" "envelopeContextOf b6 = Some (env_context d)"
    "preparedData b6 = preparedData b4" "psbtOf b6 = Some (addOutput [0x00, 0x14, 0x63] (9454 - outputSatoshis b5) (addInput pay_input (env_commit d)))"
    using run_settles [OF assms(4) f(2) p _ _ env_stripped] f by auto
  obtain leaf where leaf: "envelopeTapLeafHash exampleLib (env_script d) = ok leaf" using env_leaf assms(2) by blast
  have "toOutputScript exampleLib ''c'' = Some [0x00, 0x14, 0x63]" by (simp add: exampleLib_def)
  then have "\<exists>rv. buildEnvelopeReveal exampleLib btcEncoder b6 = Inr rv"
    by (simp add: buildEnvelopeReveal_def b6(2,4) needPsbt_def env_commit_def emptyPsbt_def env_context_def buildRevealPsbt_def scriptOf_def leaf Let_def
        del: fromHex.simps)
  then show ?thesis using b6 by blast
qed


section \<open>The cancel\<close>

lemma assertAddress_nonempty: "assertAddressOnNetwork L a = Inr u \<Longrightarrow> a \<noteq> []"
  by (auto simp: assertAddressOnNetwork_def)

lemma checkedAddress_nonempty:
  assumes "checkedAddress L v = Inr a"
  shows "a \<noteq> []"
proof -
  obtain u where "assertAddressOnNetwork L a = Inr u"
    using assms unfolding checkedAddress_def andThen_Inr_iff by (fastforce simp: andThen_Inr_iff split: option.splits)
  then show ?thesis by (rule assertAddress_nonempty)
qed

text \<open>
  C38. A cancel built from the recovery record sweeps the whole commit. It spends the commit outpoint the record
  names and nothing else, through the key path of that internal key and leaf; everything goes to the destination, in
  outputs not below the dust threshold; what does not go there is exactly the fee reported, at least the dust
  threshold, and at least the node's relay minimum where the caller named the rate. Wherever the destination's
  script is one the network has (22 bytes or more), the transaction is not under the network's stripped floor.
\<close>

theorem cancel_sweeps_commit:
  assumes "buildEnvelopeCancelTransaction L enc params now owner relayfee est others l g = (gl, Inr (p, paid))" "0 \<le> dustAmount enc"
  shows "\<exists>r script. readCancelRecord L enc params = ok r \<and> toOutputScript L (cnDestination r) = Some script \<and>
     map (\<lambda>i. (inHash i, inIndex i, witnessUtxo i)) (txInputs p) =
       [(narrow (cnTxid r), cnVout r, Some (p2trHash L (cnKey r) (cnLeaf r), cnValue r))] \<and>
     txOutputs p \<noteq> [] \<and> (\<forall>out \<in> set (txOutputs p). outScript out = script \<and> dustAmount enc \<le> outValue out) \<and>
     totalOut p + paid = cnValue r \<and> dustAmount enc \<le> paid \<and>
     (cnRate r \<noteq> None \<longrightarrow> (\<exists>relay. relayfee = Fin relay \<and> minimumRelayFee (cancelVsize L enc (cnDestination r)) relay \<le> paid)) \<and>
     (22 \<le> length script \<longrightarrow> (\<forall>f \<le> 113. minStandardTxNonWitnessSize (network enc) = Some f \<longrightarrow> f \<le> strippedTxSize p))"
proof -
  obtain r where r: "readCancelRecord L enc params = ok r"
    using assms(1) by (cases "readCancelRecord L enc params") (simp_all add: buildEnvelopeCancelTransaction_def)
  define steps where "steps = andThen (cancelFeeRate enc (cnRate r) relayfee est) (\<lambda>(rate, relay).
      andThen (sizeCancelSweep L enc (cnDestination r) (cnValue r) rate relay (cnRate r)) (\<lambda>(pad, f, v).
      andThen (cancelPsbt L enc r pad v) (\<lambda>p. ok (p, f))))"
  have "steps = Inr (p, paid)"
    using assms(1) by (simp add: buildEnvelopeCancelTransaction_def r steps_def split: prod.splits sum.splits)
  then obtain rate relay pad v where s: "cancelFeeRate enc (cnRate r) relayfee est = Inr (rate, relay)"
    "sizeCancelSweep L enc (cnDestination r) (cnValue r) rate relay (cnRate r) = Inr (pad, paid, v)" "cancelPsbt L enc r pad v = Inr p"
    unfolding steps_def by (auto simp: andThen_Inr_iff)
  obtain script where script: "toOutputScript L (cnDestination r) = Some script"
    using s(3) by (auto simp: cancelPsbt_def scriptOf_def andThen_Inr_iff split: option.splits)
  have p: "txInputs p = [\<lparr>inHash = narrow (cnTxid r), inIndex = cnVout r, inSequence = (if cnRbf r then 0xfffffffd else 0xffffffff),
        witnessUtxo = Some (p2trHash L (cnKey r) (cnLeaf r), cnValue r), nonWitnessUtxo = None, redeemScript = None\<rparr>]"
     "txOutputs p = \<lparr>outScript = script, outValue = v\<rparr> # (if pad then [\<lparr>outScript = script, outValue = dustAmount enc\<rparr>] else [])"
    using s(3) by (auto simp: cancelPsbt_def scriptOf_def script Let_def emptyPsbt_def split: if_splits)
  have relay: "relayfee = Fin relay"
    using s(1) by (auto simp: cancelFeeRate_def andThen_Inr_iff Let_def split: jsnum.splits if_splits option.splits)
  have z: "pad = cancelPadNeeded L enc (cnDestination r)" "dustAmount enc \<le> paid" "dustAmount enc \<le> v"
     "v = cnValue r - paid - (if pad then dustAmount enc else 0)"
     "cnRate r \<noteq> None \<Longrightarrow> minimumRelayFee (cancelVsize L enc (cnDestination r)) relay \<le> paid"
    using s(2) by (auto simp: sizeCancelSweep_def andThen_Inr_iff refuseIf_def Let_def split: if_splits)
  have "checkedAddress L (getProp params ''destination'') = Inr (cnDestination r)"
    using r by (auto simp: readCancelRecord_def andThen_Inr_iff split: if_splits)
  then have "cnDestination r \<noteq> []" by (rule checkedAddress_nonempty)
  then have m: "f \<le> strippedTxSize p" if "22 \<le> length script" "f \<le> 113" "minStandardTxNonWitnessSize (network enc) = Some f" for f
    using that z(1) by (auto simp: strippedTxSize_def p script varIntSize_def cancelPadNeeded_def estimateOutputSizeForAddress_def Let_def split: if_splits)
  have t: "totalOut p + paid = cnValue r" using z(4) by (simp add: totalOut_def p(2))
  show ?thesis
    by (rule exI [of _ r], rule exI [of _ script]) (use r script p z relay m t in simp)
qed

lemma cancel_example:
  "\<exists>gl p paid. buildEnvelopeCancelTransaction exampleLib btcEncoder cancel_record 1000 ''owner'' (Fin (1 / 100000)) (Inr 0) (\<lambda>g. g)
      \<lparr>claims = [], buildTxid = None\<rparr> initReservationMaps = (gl, Inr (p, paid))"
proof -
  have r: "cancelFeeRate btcEncoder None (Fin (1 / 100000)) (Inr 0) = ok (0, 1 / 100000)"
    by (simp add: cancelFeeRate_def capCallerFeeRate_def btcEncoder_def Let_def)
  have f: "feeForVsize n 0 SATOSHI_UNIT = 0" for n by (simp add: feeForVsize_def js_trunc_def Let_def)
  have d: "toOutputScript exampleLib ''d'' = Some [0x00, 0x14, 0x64]" by (simp add: exampleLib_def)
  have s: "\<exists>p paid. andThen (sizeCancelSweep exampleLib btcEncoder (cnDestination cancel_read) (cnValue cancel_read) 0 (1 / 100000) (cnRate cancel_read))
      (\<lambda>(pad, f, v). andThen (cancelPsbt exampleLib btcEncoder cancel_read pad v) (\<lambda>p. ok (p, f))) = Inr (p, paid)"
    by (simp add: sizeCancelSweep_def cancel_read_def f cancelPsbt_def scriptOf_def d refuseIf_def btcEncoder_def Let_def)
  have e: "isOutpointReserved k 1000 initReservationMaps = (False, initReservationMaps)" for k
    by (simp add: isOutpointReserved_def evictExpiredReservations_def initReservationMaps_def jm_get_def jm_keep_def)
  have "evictExpiredEnvelopeCancelClaims 1000 (evictExpiredReservations 1000 initReservationMaps) = initReservationMaps"
    by (simp add: evictExpiredEnvelopeCancelClaims_def evictExpiredReservations_def initReservationMaps_def jm_keep_def)
  then have "\<exists>g l. claimCommitOutpoint \<lparr>claims = [], buildTxid = None\<rparr> t n 1000 ''owner'' initReservationMaps = (g, ok l)" for t n
    by (simp add: claimCommitOutpoint_def e Let_def split: prod.split)
  then obtain g1 l1 where "claimCommitOutpoint \<lparr>claims = [], buildTxid = None\<rparr> (narrow (cnTxid cancel_read)) (cnVout cancel_read) 1000 ''owner'' initReservationMaps = (g1, ok l1)"
    by blast
  moreover have "cnRate cancel_read = None" by (simp add: cancel_read_def)
  ultimately show ?thesis using s by (auto simp: buildEnvelopeCancelTransaction_def cancel_reads r)
qed

theorem cancel_sweeps_commit_witness:
  "\<exists>gl p paid. buildEnvelopeCancelTransaction exampleLib btcEncoder cancel_record 1000 ''owner'' (Fin (1 / 100000)) (Inr 0) (\<lambda>g. g)
      \<lparr>claims = [], buildTxid = None\<rparr> initReservationMaps = (gl, Inr (p, paid)) \<and> totalOut p + paid = 10000"
proof -
  obtain gl p paid where b: "buildEnvelopeCancelTransaction exampleLib btcEncoder cancel_record 1000 ''owner'' (Fin (1 / 100000)) (Inr 0) (\<lambda>g. g)
      \<lparr>claims = [], buildTxid = None\<rparr> initReservationMaps = (gl, Inr (p, paid))" using cancel_example by blast
  have "0 \<le> dustAmount btcEncoder" by (simp add: btcEncoder_def)
  from cancel_sweeps_commit [OF b this] obtain r where "readCancelRecord exampleLib btcEncoder cancel_record = ok r" "totalOut p + paid = cnValue r" by blast
  then have "totalOut p + paid = cnValue cancel_read" by (simp add: cancel_reads)
  then have "totalOut p + paid = 10000" by (simp add: cancel_read_def)
  then show ?thesis using b by blast
qed

end
