(* ===== verification/NodeRpc.thy ===== *)
theory NodeRpc
  imports JsValue "HOL-Library.Sublist"
begin

text \<open>
  The coin-node client, \<open>src/src/build/blockchain_connector/\<close>: what a failed call becomes, the identity of the
  chain behind the endpoint, the node queries and the broadcast. What the node and the network answer is a
  function of the call and of how many calls went before it, so two calls of one operation may see different
  node states. Log lines are left out.
\<close>

section \<open>Calls and failures\<close>

datatype rpc =
    Getblockhash int
  | Getnetworkinfo
  | Getblockchaininfo
  | Getblockcount
  | Getrawtransaction jstring
  | Getmempoolentry jstring
  | Getmempoolancestors jstring
  | Estimatesmartfee nat
  | Sendrawtransaction jstring "nat option"

text \<open>
  A thrown error: its message, \<open>code\<close>, \<open>isAxiosError\<close>, the body of \<open>response\<close> where there is a response, the
  node's code, and the \<open>xchainCode\<close> of an \<open>OperationalError\<close>.
\<close>

record fault =
  fMessage :: jstring
  fCode :: "string option"
  fAxios :: bool
  fResponse :: "jsval option"
  fNodeCode :: "int option"
  fOperational :: "string option"

text \<open>
  \<open>answer\<close> is the body of an HTTP success or the error of a failed request; \<open>textOf\<close> and \<open>jsonText\<close> are
  \<open>String(v)\<close> and \<open>JSON.stringify(v)\<close> of a value that is not a string.
\<close>

record node =
  answer :: "nat \<Rightarrow> rpc \<Rightarrow> fault + jsval"
  textOf :: "jsval \<Rightarrow> jstring"
  jsonText :: "jsval \<Rightarrow> jstring"

definition toText :: "node \<Rightarrow> jsval \<Rightarrow> jstring" where
  "toText N v = (case v of Str s \<Rightarrow> s | _ \<Rightarrow> textOf N v)"

definition plainError :: "jstring \<Rightarrow> fault" where
  "plainError m = \<lparr>fMessage = m, fCode = None, fAxios = False, fResponse = None, fNodeCode = None, fOperational = None\<rparr>"

definition operationalError :: "string \<Rightarrow> jstring \<Rightarrow> fault" where
  "operationalError c m = (plainError m)\<lparr>fOperational := Some c\<rparr>"

text \<open>The connector: the memoized chain name, what the identity checks settled, and the calls made.\<close>

record connector =
  chainNameCache :: "jstring option"
  consensusNetwork :: "string option"
  chainGenesisHash :: "jstring option"
  nodeTierOk :: bool
  nodeTierWarned :: bool
  nodeTierMismatch :: "jstring option"
  nodeGenesisOk :: bool
  nodeGenesisWarned :: bool
  calls :: nat

text \<open>An asynchronous method: it reads and writes the connector and returns or throws.\<close>

type_synonym 'a act = "connector \<Rightarrow> connector \<times> (fault + 'a)"

definition ret :: "'a \<Rightarrow> 'a act" where "ret x s = (s, Inr x)"
definition raise :: "fault \<Rightarrow> 'a act" where "raise e s = (s, Inl e)"

definition bindA :: "'a act \<Rightarrow> ('a \<Rightarrow> 'b act) \<Rightarrow> 'b act" where
  "bindA m f s = (case m s of (s, Inl e) \<Rightarrow> (s, Inl e) | (s, Inr x) \<Rightarrow> f x s)"

definition catchA :: "'a act \<Rightarrow> (fault \<Rightarrow> 'a act) \<Rightarrow> 'a act" where
  "catchA m h s = (case m s of (s, Inl e) \<Rightarrow> h e s | (s, Inr x) \<Rightarrow> (s, Inr x))"

definition post :: "node \<Rightarrow> rpc \<Rightarrow> jsval act" where
  "post N q s = (s\<lparr>calls := Suc (calls s)\<rparr>, answer N (calls s) q)"

text \<open>\<open>v.k\<close>: reading a property of \<open>null\<close> or \<open>undefined\<close> is a \<open>TypeError\<close>.\<close>

definition readProp :: "jsval \<Rightarrow> string \<Rightarrow> jsval act" where
  "readProp v k = (if isNullish v then raise (plainError (js ''Cannot read properties'')) else ret (getProp v k))"

section \<open>Upstream error text\<close>

definition TRANSPORT_ERROR_CODES :: "string list" where
  "TRANSPORT_ERROR_CODES = [''ECONNREFUSED'', ''ECONNRESET'', ''ETIMEDOUT'', ''ECONNABORTED'', ''ENOTFOUND'',
     ''EHOSTUNREACH'', ''ENETUNREACH'', ''EAI_AGAIN'', ''EPIPE'', ''ERR_BAD_RESPONSE'']"

definition isTransportError :: "fault \<Rightarrow> bool" where
  "isTransportError e \<longleftrightarrow> (\<exists>c \<in> set TRANSPORT_ERROR_CODES. fCode e = Some c) \<or> fAxios e \<and> fResponse e = None"

definition isLetterUnit :: "16 word \<Rightarrow> bool" where
  "isLetterUnit u = (65 \<le> unat u \<and> unat u \<le> 90 \<or> 97 \<le> unat u \<and> unat u \<le> 122)"

definition isWordUnit :: "16 word \<Rightarrow> bool" where
  "isWordUnit u = (isLetterUnit u \<or> isDigit u \<or> unat u = 95)"

definition isUnitOf :: "string \<Rightarrow> 16 word \<Rightarrow> bool" where
  "isUnitOf cs u = (u \<in> set (js cs))"

definition startsWithUnits :: "jstring \<Rightarrow> jstring \<Rightarrow> bool" where
  "startsWithUnits p s = (take (length p) s = p)"

text \<open>The three patterns, each tried at a position of the message.\<close>

definition urlAt :: "jstring \<Rightarrow> bool" where
  "urlAt s = (s \<noteq> [] \<and> isLetterUnit (hd s) \<and>
     startsWithUnits (js ''://'') (dropWhile (\<lambda>u. isLetterUnit u \<or> isDigit u \<or> isUnitOf ''+.-'' u) s))"

fun dottedAt :: "nat \<Rightarrow> jstring \<Rightarrow> bool" where
  "dottedAt n s =
     (let run = takeWhile isDigit s; rest = dropWhile isDigit s
      in run \<noteq> [] \<and> length run \<le> 3 \<and>
         (if n = 0 then rest = [] \<or> \<not> isWordUnit (hd rest)
          else rest \<noteq> [] \<and> hd rest = of_nat 46 \<and> dottedAt (n - 1) (tl rest)))"

declare dottedAt.simps [simp del]

definition hostPortAt :: "jstring \<Rightarrow> bool" where
  "hostPortAt s =
     (s \<noteq> [] \<and> isLetterUnit (hd s) \<and>
      (let rest = dropWhile (\<lambda>u. isWordUnit u \<or> isUnitOf ''.-'' u) s
       in rest \<noteq> [] \<and> hd rest = of_nat 58 \<and>
          (let run = takeWhile isDigit (tl rest); after = dropWhile isDigit (tl rest)
           in 2 \<le> length run \<and> length run \<le> 5 \<and> (after = [] \<or> \<not> isWordUnit (hd after)))))"

text \<open>A dotted quad starts at a word boundary.\<close>

fun boundaryQuad :: "bool \<Rightarrow> jstring \<Rightarrow> bool" where
  "boundaryQuad inWord [] = False"
| "boundaryQuad inWord (u # s) = (\<not> inWord \<and> dottedAt 3 (u # s) \<or> boundaryQuad (isWordUnit u) s)"

definition leaksInternalDetail :: "jstring \<Rightarrow> bool" where
  "leaksInternalDetail s = (list_ex urlAt (suffixes s) \<or> boundaryQuad False s \<or> list_ex hostPortAt (suffixes s))"

definition upstreamErrorMessage :: "fault \<Rightarrow> jstring \<Rightarrow> jstring" where
  "upstreamErrorMessage e fallback =
     (if isTransportError e then fallback
      else if fMessage e = [] \<or> leaksInternalDetail (fMessage e) then fallback else fMessage e)"

definition MAX_UPSTREAM_REASON_CHARS :: nat where "MAX_UPSTREAM_REASON_CHARS = 120"
definition MAX_CHECKED_REASON_CHARS :: nat where "MAX_CHECKED_REASON_CHARS = 4096"

definition safeUpstreamReason :: "jstring \<Rightarrow> jstring option" where
  "safeUpstreamReason v =
     (if MAX_CHECKED_REASON_CHARS < length v \<or> leaksInternalDetail v then None
      else let printable = trim (take MAX_UPSTREAM_REASON_CHARS
                 (trim (map (\<lambda>u. if 0x20 \<le> unat u \<and> unat u \<le> 0x7e then u else 32) v)))
           in if printable = [] then None else Some printable)"

text \<open>Once an error is sanitized its response is only the status; its message is what is shown.\<close>

definition sanitized :: "fault \<Rightarrow> fault" where
  "sanitized e = e\<lparr>fResponse := map_option (\<lambda>_. Undefined) (fResponse e)\<rparr>"

definition sanitizeRpcError :: "fault \<Rightarrow> jstring" where
  "sanitizeRpcError e = (if fMessage e \<noteq> [] then fMessage e else if fAxios e then js ''AxiosError'' else js ''Error'')"

definition rpcErrorDetail :: "node \<Rightarrow> jsval \<Rightarrow> jstring" where
  "rpcErrorDetail N body =
     (let rpcError = getProp body ''error''
      in case rpcError of
           Obj _ \<Rightarrow>
             (let code = getProp rpcError ''code''; message = getProp rpcError ''message'';
                  message = (if truthyVal message then toText N message else [])
              in if code = Undefined \<and> message = [] then []
                 else js '' (RPC error '' @ (if code = Undefined then js ''unknown'' else toText N code) @ js '': '' @ message @ js '')'')
         | _ \<Rightarrow> [])"

definition responseBody :: "fault \<Rightarrow> jsval" where
  "responseBody e = (case fResponse e of Some d \<Rightarrow> d | None \<Rightarrow> Undefined)"

definition nodeRequestError :: "node \<Rightarrow> fault \<Rightarrow> fault" where
  "nodeRequestError N e =
     (let message = sanitizeRpcError e
      in if fResponse e = None \<and> isTransportError e
         then operationalError ''NODE_UNREACHABLE'' (js ''Error in network request: coin node did not answer'' @
                (case safeUpstreamReason message of Some r \<Rightarrow> js '' ('' @ r @ js '')'' | None \<Rightarrow> []) @
                js ''; retry once the node is reachable'')
         else plainError (js ''Error in network request: '' @ message @ rpcErrorDetail N (responseBody e)))"

section \<open>The chain behind the endpoint\<close>

text \<open>A reported chain is none of the names every JavaScript object inherits.\<close>

definition CHAIN_TO_NETWORK :: "(string \<times> string) list" where
  "CHAIN_TO_NETWORK = [(''main'', ''mainnet''), (''test'', ''testnet''), (''testnet3'', ''testnet''), (''testnet4'', ''testnet''),
     (''regtest'', ''regtest''), (''signet'', ''signet'')]"

definition chainTierMismatch :: "string \<Rightarrow> jstring option \<Rightarrow> jstring option" where
  "chainTierMismatch consensus reported =
     (case reported of
        None \<Rightarrow> None
      | Some chain \<Rightarrow>
          (case map_of (map (\<lambda>(k, v). (js k, v)) CHAIN_TO_NETWORK) chain of
             None \<Rightarrow> None
           | Some mapped \<Rightarrow>
               if mapped = consensus then None
               else Some (js ''node reports chain='' @ [34] @ chain @ [34] @ js '' ('' @ js mapped @
                       js '') but this encoder is configured for '' @ js consensus)))"

definition chainGenesisUnpinned :: "jstring option \<Rightarrow> bool" where
  "chainGenesisUnpinned pinned = (pinned = None \<or> pinned = Some [])"

definition chainGenesisMismatch :: "jstring option \<Rightarrow> jstring \<Rightarrow> jstring option" where
  "chainGenesisMismatch pinned reported =
     (case pinned of
        None \<Rightarrow> None
      | Some p \<Rightarrow>
          if p = [] \<or> reported = [] then None
          else if map lowerUnit p = map lowerUnit reported then None
          else Some (js ''node block-0 hash is '' @ reported @ js '', but this encoder is pinned to '' @ p @
                 js '', so the endpoint is serving a different chain''))"

section \<open>Node queries\<close>

definition getBlockHash :: "node \<Rightarrow> int \<Rightarrow> jstring act" where
  "getBlockHash N height =
     catchA (bindA (post N (Getblockhash height)) (\<lambda>body.
       case getProp body ''result'' of
         Str s \<Rightarrow> if isHex64 s then ret (map lowerUnit s)
                   else raise (plainError (js ''Error getting block hash'' @ rpcErrorDetail N body))
       | _ \<Rightarrow> raise (plainError (js ''Error getting block hash'' @ rpcErrorDetail N body))))
     (\<lambda>e. raise (nodeRequestError N e))"

definition getNetworkInfo :: "node \<Rightarrow> jsval act" where
  "getNetworkInfo N =
     catchA (bindA (post N Getnetworkinfo) (\<lambda>body. bindA (readProp body ''result'') (\<lambda>result.
       if truthyVal result then ret result
       else raise (plainError (js ''Error getting network info'' @ rpcErrorDetail N body)))))
     (\<lambda>e. raise (nodeRequestError N e))"

definition chainName :: "node \<Rightarrow> jstring act" where
  "chainName N s =
     (case chainNameCache s of
        Some c \<Rightarrow> (s, Inr c)
      | None \<Rightarrow>
          catchA (bindA (post N Getblockchaininfo) (\<lambda>body. bindA (readProp body ''result'') (\<lambda>result.
            if truthyVal result \<and> truthyVal (getProp result ''chain'')
            then (\<lambda>s. let c = toText N (getProp result ''chain'') in (s\<lparr>chainNameCache := Some c\<rparr>, Inr c))
            else raise (plainError (js ''Error getting blockchain info'' @ rpcErrorDetail N body)))))
          (\<lambda>e. raise (nodeRequestError N e)) s)"

definition isRegtest :: "node \<Rightarrow> bool act" where
  "isRegtest N = bindA (chainName N) (\<lambda>c. ret (c = js ''regtest''))"

text \<open>\<open>null\<close> where the node cannot answer with a height.\<close>

definition getBlockCount :: "node \<Rightarrow> rat option act" where
  "getBlockCount N =
     catchA (bindA (post N Getblockcount) (\<lambda>body.
       ret (if isPlainObject body \<and> isNullish (getProp body ''error'')
            then (case getProp body ''result'' of
                    Num (Fin h) \<Rightarrow> if isSafeInteger (Fin h) \<and> 0 \<le> h then Some h else None
                  | _ \<Rightarrow> None)
            else None)))
     (\<lambda>_. ret None)"

definition notRetrievable :: "jstring \<Rightarrow> fault" where
  "notRetrievable txid = plainError (js ''Transaction '' @ txid @
     js '' not found (the coin node may require txindex=1 to retrieve confirmed transactions)'')"

definition errorIsMissing :: "jsval \<Rightarrow> bool" where
  "errorIsMissing body = (getProp (getProp body ''error'') ''code'' = Num (Fin (- 5)))"

text \<open>How both transaction lookups end on an error of the node: with its own reason where it sent one.\<close>

definition lookupError :: "node \<Rightarrow> string \<Rightarrow> fault \<Rightarrow> fault" where
  "lookupError N what e =
     (let detail = rpcErrorDetail N (responseBody e)
      in if detail = [] then sanitized e else plainError (js what @ js '': '' @ sanitizeRpcError e @ detail))"

definition getTransactionHex :: "node \<Rightarrow> jstring \<Rightarrow> jsval act" where
  "getTransactionHex N txid =
     catchA (bindA (post N (Getrawtransaction txid)) (\<lambda>body. bindA (readProp body ''result'') (\<lambda>result.
       if truthyVal result \<and> truthyVal (getProp result ''hex'') then ret (getProp result ''hex'')
       else if errorIsMissing body then raise (notRetrievable txid)
       else raise (plainError (js ''Error getting transaction hex'' @ rpcErrorDetail N body)))))
     (\<lambda>e. if truthyVal (responseBody e) \<and> errorIsMissing (responseBody e) then raise (notRetrievable txid)
           else raise (lookupError N ''Error getting transaction hex'' e))"

definition mempoolEntryAbsent :: "jsval \<Rightarrow> bool" where
  "mempoolEntryAbsent body = errorIsMissing body"

definition getMempoolEntry :: "node \<Rightarrow> jstring \<Rightarrow> jsval option act" where
  "getMempoolEntry N txid =
     catchA (bindA (post N (Getmempoolentry txid)) (\<lambda>body.
       if mempoolEntryAbsent body then ret None
       else if isPlainObject (getProp body ''result'') then ret (Some (getProp body ''result''))
       else raise (plainError (js ''Error getting mempool entry'' @ rpcErrorDetail N body))))
     (\<lambda>e. if mempoolEntryAbsent (responseBody e) then ret None
           else raise (lookupError N ''Error getting mempool entry'' e))"

section \<open>Refusing a node on the wrong chain\<close>

text \<open>\<open>assertNodeGenesis\<close>: skipped while unpinned or settled; an unreadable hash is let through, once with a warning.\<close>

definition assertNodeGenesis :: "node \<Rightarrow> unit act" where
  "assertNodeGenesis N s =
     (if chainGenesisUnpinned (chainGenesisHash s) \<or> nodeGenesisOk s then (s, Inr ())
      else case getBlockHash N 0 s of
             (s, Inl e) \<Rightarrow> (s\<lparr>nodeGenesisWarned := True\<rparr>, Inr ())
           | (s, Inr reported) \<Rightarrow>
               (case chainGenesisMismatch (chainGenesisHash s) reported of
                  Some reason \<Rightarrow>
                    (s\<lparr>nodeTierMismatch := Some reason\<rparr>,
                     Inl (operationalError ''NODE_CHAIN_MISMATCH'' (js ''Coin node is on the wrong chain: '' @ reason)))
                | None \<Rightarrow> (s\<lparr>nodeTierMismatch := None, nodeGenesisOk := True\<rparr>, Inr ())))"

text \<open>The tier step: an unreadable chain name is let through, and only an answered one is remembered.\<close>

definition assertChainTier :: "node \<Rightarrow> unit act" where
  "assertChainTier N s =
     (case consensusNetwork s of
        None \<Rightarrow> (s, Inr ())
      | Some network \<Rightarrow>
          if network = [] \<or> nodeTierOk s then (s, Inr ())
          else (case chainName N s of
                  (s, r) \<Rightarrow>
                    let s = (case r of Inl _ \<Rightarrow> s\<lparr>nodeTierWarned := True\<rparr> | Inr _ \<Rightarrow> s);
                        chain = (case r of Inl _ \<Rightarrow> None | Inr c \<Rightarrow> Some c)
                    in case chainTierMismatch network chain of
                         Some reason \<Rightarrow>
                           (s\<lparr>nodeTierMismatch := Some reason\<rparr>,
                            Inl (operationalError ''NODE_CHAIN_MISMATCH'' (js ''Coin node is on the wrong network: '' @ reason)))
                       | None \<Rightarrow> (if chain \<noteq> None then s\<lparr>nodeTierOk := True\<rparr> else s, Inr ())))"

definition assertNodeTier :: "node \<Rightarrow> unit act" where
  "assertNodeTier N = bindA (assertChainTier N) (\<lambda>_. assertNodeGenesis N)"

section \<open>Broadcast\<close>

definition nodeRejection :: "node \<Rightarrow> jsval \<Rightarrow> fault" where
  "nodeRejection N rpcError =
     (let message = getProp rpcError ''message''
      in (plainError (if truthyVal message then toText N message else jsonText N rpcError))
         \<lparr>fNodeCode := (case getProp rpcError ''code'' of Num n \<Rightarrow>
            (case n of Fin r \<Rightarrow> if isInteger n then Some \<lfloor>r\<rfloor> else None | _ \<Rightarrow> None) | _ \<Rightarrow> None)\<rparr>)"

definition sendRaw :: "node \<Rightarrow> jstring \<Rightarrow> nat option \<Rightarrow> jsval act" where
  "sendRaw N txHex maxfeerate =
     catchA (bindA (post N (Sendrawtransaction txHex maxfeerate)) (\<lambda>body.
       if truthyVal (getProp body ''error'') then raise (nodeRejection N (getProp body ''error''))
       else if truthyVal (getProp body ''result'') then ret (getProp body ''result'')
       else raise (plainError (js ''Error broadcasting transaction: empty result''))))
     (\<lambda>e. if fNodeCode e \<noteq> None then raise e
           else if truthyVal (getProp (responseBody e) ''error'') then raise (nodeRejection N (getProp (responseBody e) ''error''))
           else raise (sanitized e))"

definition containsUnits :: "jstring \<Rightarrow> jstring \<Rightarrow> bool" where
  "containsUnits p s = list_ex (\<lambda>t. map lowerUnit (take (length p) t) = map lowerUnit p) (suffixes s)"

definition isFeeCapError :: "fault \<Rightarrow> bool" where
  "isFeeCapError e = (containsUnits (js ''maxfeerate'') (fMessage e) \<or> containsUnits (js ''Fee exceeds maximum'') (fMessage e))"

text \<open>A fee-cap refusal is retried once with the cap lifted, only on a node that says it is on regtest.\<close>

definition sendRawTransaction :: "node \<Rightarrow> jstring \<Rightarrow> jsval act" where
  "sendRawTransaction N txHex =
     catchA (sendRaw N txHex None)
     (\<lambda>e s. if isFeeCapError e
             then (case isRegtest N s of
                     (s, Inr True) \<Rightarrow> sendRaw N txHex (Some 0) s
                   | (s, _) \<Rightarrow> (s, Inl e))
             else (s, Inl e))"

section \<open>Mempool calls\<close>

datatype mempoolAnswer = Answered jsval | Absent | Unanswered

definition classifyRpcError :: "node \<Rightarrow> jsval \<Rightarrow> mempoolAnswer" where
  "classifyRpcError N rpcError =
     (let message = getProp rpcError ''message''; text = (if truthyVal message then toText N message else [])
      in if getProp rpcError ''code'' = Num (Fin (- 5)) \<or> containsUnits (js ''not in mempool'') text \<or> containsUnits (js ''No such mempool'') text
         then Absent else Unanswered)"

text \<open>\<open>mempoolRpc\<close> never throws.\<close>

definition mempoolRpc :: "node \<Rightarrow> rpc \<Rightarrow> connector \<Rightarrow> connector \<times> mempoolAnswer" where
  "mempoolRpc N q s =
     (case post N q s of
        (s, Inr body) \<Rightarrow>
          (s, if truthyVal (getProp body ''error'') then classifyRpcError N (getProp body ''error'')
              else if isNullish (getProp body ''result'') then Unanswered
              else Answered (getProp body ''result''))
      | (s, Inl e) \<Rightarrow>
          (s, if truthyVal (getProp (responseBody e) ''error'') then classifyRpcError N (getProp (responseBody e) ''error'')
              else Unanswered))"

end
