(* ===== verification/FeeEstimate.thy ===== *)
theory FeeEstimate
  imports NodeRpc
begin

text \<open>
  The fee estimate and the unconfirmed ancestor package, \<open>blockchain_connector/fee_estimation.js\<close>: what a build
  takes the node's rate and the package behind its inputs from.
\<close>

section \<open>Reading a mempool entry\<close>

definition readNumeric :: "jsval \<Rightarrow> rat option" where
  "readNumeric raw =
     (case raw of
        Num (Fin r) \<Rightarrow> Some r
      | Str s \<Rightarrow> if trim s = [] then None else (case stringNumber s of Fin r \<Rightarrow> Some r | _ \<Rightarrow> None)
      | _ \<Rightarrow> None)"

definition entrySize :: "jsval \<Rightarrow> rat option" where
  "entrySize entry =
     (let raw = (if truthyVal entry
                 then (if getProp entry ''vsize'' \<noteq> Undefined then getProp entry ''vsize'' else getProp entry ''size'') else entry)
      in case readNumeric raw of Some r \<Rightarrow> if 0 < r then Some r else None | None \<Rightarrow> None)"

definition entryFee :: "jsval \<Rightarrow> rat option" where
  "entryFee entry =
     (let fees = getProp entry ''fees'';
          raw = (if truthyVal entry
                 then (if truthyVal fees \<and> getProp fees ''base'' \<noteq> Undefined then getProp fees ''base'' else getProp entry ''fee'') else entry)
      in case readNumeric raw of Some r \<Rightarrow> if 0 \<le> r then Some r else None | None \<Rightarrow> None)"

section \<open>The ancestor package\<close>

text \<open>Txids are hexadecimal, so lowercasing is that of ASCII.\<close>

definition lowered :: "jstring \<Rightarrow> jstring" where
  "lowered s = map lowerUnit s"

fun uniqueFrom :: "jstring list \<Rightarrow> jsval list \<Rightarrow> jstring list" where
  "uniqueFrom seen [] = []"
| "uniqueFrom seen (v # vs) =
     (case v of
        Str s \<Rightarrow> if s = [] \<or> lowered s \<in> set seen then uniqueFrom seen vs else s # uniqueFrom (lowered s # seen) vs
      | _ \<Rightarrow> uniqueFrom seen vs)"

definition uniqueTxids :: "jsval list \<Rightarrow> jstring list" where
  "uniqueTxids txids = uniqueFrom [] txids"

type_synonym packageMap = "(jstring, rat \<times> rat) jmap"

text \<open>\<open>None\<close> where the entry cannot be priced.\<close>

definition recordPackageEntry :: "packageMap \<Rightarrow> packageMap \<Rightarrow> jstring \<Rightarrow> jsval \<Rightarrow> packageMap option" where
  "recordPackageEntry entries staged txid entry =
     (let key = lowered txid
      in if jm_get entries key \<noteq> None \<or> jm_get staged key \<noteq> None then Some staged
         else case (entrySize entry, entryFee entry) of
                (Some sz, Some f) \<Rightarrow> Some (jm_set key (sz, f) staged)
              | _ \<Rightarrow> None)"

fun recordAll :: "packageMap \<Rightarrow> packageMap \<Rightarrow> (jstring \<times> jsval) list \<Rightarrow> packageMap option" where
  "recordAll entries staged [] = Some staged"
| "recordAll entries staged ((txid, entry) # rest) =
     (case recordPackageEntry entries staged txid entry of
        None \<Rightarrow> None
      | Some staged \<Rightarrow> recordAll entries staged rest)"

definition mergeStaged :: "packageMap \<Rightarrow> packageMap \<Rightarrow> packageMap" where
  "mergeStaged staged entries = foldl (\<lambda>m (k, v). jm_set k v m) entries staged"

text \<open>
  One root: its own entry, then its ancestors' in one verbose call. The branch is staged and merged only when both
  calls described it; a root confirmed before or between them adds nothing.
\<close>

definition collectAncestorBranch :: "node \<Rightarrow> packageMap \<Rightarrow> jstring \<Rightarrow> connector \<Rightarrow> connector \<times> packageMap option" where
  "collectAncestorBranch N entries txid s =
     (case mempoolRpc N (Getmempoolentry txid) s of
        (s, Absent) \<Rightarrow> (s, Some entries)
      | (s, Unanswered) \<Rightarrow> (s, None)
      | (s, Answered self) \<Rightarrow>
          (case recordPackageEntry entries [] txid self of
             None \<Rightarrow> (s, None)
           | Some staged \<Rightarrow>
               (case mempoolRpc N (Getmempoolancestors txid) s of
                  (s, Absent) \<Rightarrow> (s, Some entries)
                | (s, Unanswered) \<Rightarrow> (s, None)
                | (s, Answered result) \<Rightarrow>
                    (s, case result of
                          Obj fs \<Rightarrow> map_option (\<lambda>staged. mergeStaged staged entries) (recordAll entries staged fs)
                        | _ \<Rightarrow> None))))"

fun collectBranches :: "node \<Rightarrow> packageMap \<Rightarrow> jstring list \<Rightarrow> connector \<Rightarrow> connector \<times> packageMap option" where
  "collectBranches N entries [] s = (s, Some entries)"
| "collectBranches N entries (txid # rest) s =
     (case collectAncestorBranch N entries txid s of
        (s, None) \<Rightarrow> (s, None)
      | (s, Some entries) \<Rightarrow> collectBranches N entries rest s)"

definition sumPackageEntries :: "packageMap \<Rightarrow> rat \<times> rat" where
  "sumPackageEntries entries = foldl (\<lambda>(sz, fees) (k, es, ef). (fl (sz + es), fl (fees + ef))) (0, 0) entries"

definition getUnconfirmedAncestorPackage :: "node \<Rightarrow> jsval list \<Rightarrow> connector \<Rightarrow> connector \<times> (rat \<times> rat) option" where
  "getUnconfirmedAncestorPackage N txids s =
     (let roots = uniqueTxids txids
      in if roots = [] then (s, Some (0, 0))
         else case collectBranches N jm_empty roots s of
                (s, entries) \<Rightarrow> (s, map_option sumPackageEntries entries))"

section \<open>The fee estimate\<close>

text \<open>The settings of the deployment, as \<open>parseFloat\<close> reads them, and the coin prefix of \<open>NETWORK\<close>.\<close>

record feeSettings =
  relayMultiplierSetting :: jsnum
  sanityCeilingSetting :: jsnum
  coinPrefix :: string

definition noEstimateRelayMultiplier :: "feeSettings \<Rightarrow> rat" where
  "noEstimateRelayMultiplier f = (case relayMultiplierSetting f of Fin r \<Rightarrow> if 0 < r then r else 10 | _ \<Rightarrow> 10)"

definition DEFAULT_FEE_ESTIMATE_SANITY_CEILING :: "(string \<times> rat) list" where
  "DEFAULT_FEE_ESTIMATE_SANITY_CEILING = [(''bitcoin'', fl (1 / 100)), (''litecoin'', fl (1 / 100)), (''dogecoin'', 10)]"

definition feeEstimateSanityCeiling :: "feeSettings \<Rightarrow> rat" where
  "feeEstimateSanityCeiling f =
     (let default = (case map_of DEFAULT_FEE_ESTIMATE_SANITY_CEILING (coinPrefix f) of Some c \<Rightarrow> c | None \<Rightarrow> fl (1 / 100))
      in case sanityCeilingSetting f of Fin r \<Rightarrow> if 0 < r then r else default | _ \<Rightarrow> default)"

definition timesNum :: "jsnum \<Rightarrow> rat \<Rightarrow> jsnum" where
  "timesNum n r = (case n of Fin x \<Rightarrow> Fin (fl (x * r)) | _ \<Rightarrow> n)"

text \<open>\<open>Number(info && info.relayfee)\<close>\<close>

definition relayfeeOf :: "jsval \<Rightarrow> jsnum" where
  "relayfeeOf info = toNumber (if truthyVal info then getProp info ''relayfee'' else info)"

definition regtestFee :: "node \<Rightarrow> jsnum act" where
  "regtestFee N =
     bindA (catchA (getNetworkInfo N) (\<lambda>_. raise (operationalError ''NODE_UNREACHABLE''
              (js ''Coin node did not answer the fee query; retry once the node is reachable'')))) (\<lambda>info.
     ret (if js_gt (relayfeeOf info) 0 then relayfeeOf info else Fin (fl (1 / 100000))))"

definition requestSmartFee :: "node \<Rightarrow> nat \<Rightarrow> jsval act" where
  "requestSmartFee N blocks =
     catchA (post N (Estimatesmartfee blocks))
     (\<lambda>e. if fResponse e = None \<and> isTransportError e then raise (nodeRequestError N e) else raise e)"

text \<open>A usable rate, clamped to the ceiling on mainnet and discarded above it elsewhere.\<close>

definition usableSmartFee :: "node \<Rightarrow> feeSettings \<Rightarrow> jsval \<Rightarrow> jsnum option act" where
  "usableSmartFee N f body =
     bindA (readProp body ''result'') (\<lambda>result.
     let feerate = toNumber (getProp result ''feerate''); ceiling = feeEstimateSanityCeiling f
     in if \<not> truthyVal result \<or> \<not> js_gt feerate 0 then ret None
        else if js_gt feerate ceiling
        then bindA (chainName N) (\<lambda>c. ret (if c = js ''main'' then Some (Fin ceiling) else None))
        else ret (Some feerate))"

definition noEstimateRelayFallback :: "node \<Rightarrow> feeSettings \<Rightarrow> jsnum option act" where
  "noEstimateRelayFallback N f =
     bindA (chainName N) (\<lambda>c.
     if c = js ''main'' then ret None
     else bindA (getNetworkInfo N) (\<lambda>info.
          ret (if js_gt (relayfeeOf info) 0 then Some (timesNum (relayfeeOf info) (noEstimateRelayMultiplier f)) else None)))"

definition smartFeeResultErrors :: "jsval \<Rightarrow> jstring" where
  "smartFeeResultErrors body =
     (case getProp (getProp body ''result'') ''errors'' of
        Arr es \<Rightarrow>
          (let reasons = concat (map (\<lambda>e. case e of Str s \<Rightarrow> if s = [] then [] else [s] | _ \<Rightarrow> []) es)
           in if reasons = [] then [] else js '' (node: '' @ concat (hd reasons # map (\<lambda>r. js ''; '' @ r) (tl reasons)) @ js '')'')
      | _ \<Rightarrow> [])"

definition requireNoEstimateFallback :: "node \<Rightarrow> feeSettings \<Rightarrow> jsval \<Rightarrow> jsnum act" where
  "requireNoEstimateFallback N f body =
     bindA (noEstimateRelayFallback N f) (\<lambda>fallback.
     case fallback of
       Some r \<Rightarrow> ret r
     | None \<Rightarrow> raise (plainError (js ''Error getting smart fee from node'' @ smartFeeResultErrors body @ rpcErrorDetail N body)))"

text \<open>The chain query or the fallback failing as well leaves the first error.\<close>

definition recoverFeeEstimate :: "node \<Rightarrow> feeSettings \<Rightarrow> fault \<Rightarrow> jsnum act" where
  "recoverFeeEstimate N f e =
     (let detail = rpcErrorDetail N (responseBody e);
          rethrow = (if detail = [] then sanitized e else plainError (sanitizeRpcError e @ detail))
      in bindA (catchA (bindA (isRegtest N) (\<lambda>r. if r then bindA (regtestFee N) (\<lambda>x. ret (Some x)) else noEstimateRelayFallback N f))
                  (\<lambda>_. ret None)) (\<lambda>found.
         case found of Some r \<Rightarrow> ret r | None \<Rightarrow> raise rethrow))"

definition getFeePerKilobyte :: "node \<Rightarrow> feeSettings \<Rightarrow> nat \<Rightarrow> jsnum act" where
  "getFeePerKilobyte N f blocks =
     catchA (bindA (isRegtest N) (\<lambda>r.
       if r then regtestFee N
       else bindA (requestSmartFee N blocks) (\<lambda>body.
            bindA (usableSmartFee N f body) (\<lambda>feerate.
            case feerate of Some r \<Rightarrow> ret r | None \<Rightarrow> requireNoEstimateFallback N f body))))
     (\<lambda>e. if fOperational e \<noteq> None then raise e else recoverFeeEstimate N f e)"

end
