(* ===== verification/ConnectorProperties.thy ===== *)
theory ConnectorProperties
  imports FeeEstimate
begin

text \<open>
  What the node client promises the build: the ancestor package is the set of unconfirmed transactions behind the
  inputs, each counted once, and the estimate stays under its ceiling.
\<close>

section \<open>The mempool as a specification\<close>

text \<open>
  A mempool over time: at each call, the transactions it holds and the ancestors of each. The package behind a list
  of transactions is the union of the branches of those still unconfirmed at both of their calls.
\<close>

type_synonym pool = "nat \<Rightarrow> jstring \<Rightarrow> jstring set option"

fun carried :: "pool \<Rightarrow> jstring list \<Rightarrow> nat \<Rightarrow> jstring set" where
  "carried pool [] n = {}"
| "carried pool (r # rs) n =
     (if pool n r = None then carried pool rs (n + 1)
      else case pool (n + 1) r of
             None \<Rightarrow> carried pool rs (n + 2)
           | Some as \<Rightarrow> insert r as \<union> carried pool rs (n + 2))"

lemma carried_still: "(\<And>n. pool n = now) \<Longrightarrow> carried pool rs n = (\<Union>r \<in> set rs. case now r of None \<Rightarrow> {} | Some as \<Rightarrow> insert r as)"
  by (induction rs arbitrary: n) (auto split: option.splits)

text \<open>The node's answer to one mempool call, and what an entry is priced at.\<close>

definition mempoolAt :: "node \<Rightarrow> nat \<Rightarrow> rpc \<Rightarrow> mempoolAnswer" where
  "mempoolAt N n q =
     (case answer N n q of
        Inr body \<Rightarrow>
          if truthyVal (getProp body ''error'') then classifyRpcError N (getProp body ''error'')
          else if isNullish (getProp body ''result'') then Unanswered
          else Answered (getProp body ''result'')
      | Inl e \<Rightarrow>
          if truthyVal (getProp (responseBody e) ''error'') then classifyRpcError N (getProp (responseBody e) ''error'')
          else Unanswered)"

definition pricedAt :: "jsval \<Rightarrow> rat \<times> rat \<Rightarrow> bool" where
  "pricedAt v e \<longleftrightarrow> entrySize v = Some (fst e) \<and> entryFee v = Some (snd e)"

text \<open>A node that serves this mempool, where every transaction has one size and one fee.\<close>

definition servesPool :: "node \<Rightarrow> pool \<Rightarrow> (jstring \<Rightarrow> rat \<times> rat) \<Rightarrow> bool" where
  "servesPool N pool entry \<longleftrightarrow>
     (\<forall>n r. case pool n (lowered r) of
              None \<Rightarrow> mempoolAt N n (Getmempoolentry r) = Absent \<and> mempoolAt N n (Getmempoolancestors r) = Absent
            | Some as \<Rightarrow> (\<exists>v fs. mempoolAt N n (Getmempoolentry r) = Answered v \<and> pricedAt v (entry (lowered r)) \<and>
                mempoolAt N n (Getmempoolancestors r) = Answered (Obj fs) \<and> lowered ` fst ` set fs = as \<and>
                (\<forall>(k, v) \<in> set fs. pricedAt v (entry (lowered k)))))"

lemma mempoolRpc_at: "mempoolRpc N q s = (s\<lparr>calls := Suc (calls s)\<rparr>, mempoolAt N (calls s) q)"
  by (simp add: mempoolRpc_def mempoolAt_def post_def split: sum.split)

section \<open>The package map represents a set\<close>

definition holdsSet :: "(jstring \<Rightarrow> rat \<times> rat) \<Rightarrow> packageMap \<Rightarrow> jstring set \<Rightarrow> bool" where
  "holdsSet entry m S \<longleftrightarrow> jm_wf m \<and> (\<forall>k. jm_get m k = (if k \<in> S then Some (entry k) else None))"

lemma holdsSet_empty [simp]: "holdsSet entry jm_empty {}"
  by (simp add: holdsSet_def jm.wf_none jm.get_none)

lemma holdsSet_put: "holdsSet entry m S \<Longrightarrow> e = entry k \<Longrightarrow> holdsSet entry (jm_set k e m) (insert k S)"
  by (auto simp: holdsSet_def jm.wf_put jm.get_put)

lemma record_priced:
  assumes "holdsSet entry m S" "holdsSet entry st T" "pricedAt v (entry (lowered k))"
  shows "\<exists>st' T'. recordPackageEntry m st k v = Some st' \<and> holdsSet entry st' T' \<and> S \<union> T' = insert (lowered k) (S \<union> T)"
proof (cases "lowered k \<in> S \<union> T")
  case True
  then have "jm_get m (lowered k) \<noteq> None \<or> jm_get st (lowered k) \<noteq> None" using assms(1,2) by (auto simp: holdsSet_def)
  then have "recordPackageEntry m st k v = Some st" by (simp add: recordPackageEntry_def Let_def)
  then show ?thesis using assms(2) True by (intro exI [of _ st] exI [of _ T]) blast
next
  case False
  then have "recordPackageEntry m st k v = Some (jm_set (lowered k) (entry (lowered k)) st)"
    using assms by (simp add: recordPackageEntry_def holdsSet_def pricedAt_def Let_def)
  then show ?thesis using holdsSet_put [OF assms(2) refl, of "lowered k"] by (intro exI conjI) (assumption, assumption, blast)
qed

lemma recordAll_priced:
  assumes "holdsSet entry m S" "holdsSet entry st T" "\<forall>(k, v) \<in> set fs. pricedAt v (entry (lowered k))"
  shows "\<exists>st' T'. recordAll m st fs = Some st' \<and> holdsSet entry st' T' \<and> S \<union> T' = S \<union> T \<union> lowered ` fst ` set fs"
  using assms(2,3)
proof (induction fs arbitrary: st T)
  case (Cons f fs)
  obtain k v where f: "f = (k, v)" by (cases f)
  obtain st1 T1 where 1: "recordPackageEntry m st k v = Some st1" "holdsSet entry st1 T1" "S \<union> T1 = insert (lowered k) (S \<union> T)"
    using record_priced [OF assms(1) Cons.prems(1), of v k] Cons.prems(2) by (auto simp: f)
  obtain st' T' where 2: "recordAll m st1 fs = Some st'" "holdsSet entry st' T'" "S \<union> T' = S \<union> T1 \<union> lowered ` fst ` set fs"
    using Cons.IH [OF 1(2)] Cons.prems(2) by auto
  then show ?case using 1 by (auto simp: f)
qed auto

lemma holdsSet_list:
  assumes "holdsSet entry m S"
  shows "fst ` set m = S" "\<forall>(k, v) \<in> set m. v = entry k" "distinct (map fst m)"
proof -
  have d: "distinct (map fst m)" and g: "map_of m k = (if k \<in> S then Some (entry k) else None)" for k
    using assms by (simp_all add: holdsSet_def jm_wf_def jm_get_def)
  show "distinct (map fst m)" by (rule d)
  have e: "k \<in> S \<and> v = entry k" if "(k, v) \<in> set m" for k v
    using map_of_is_SomeI [OF d that] g [of k] by (simp split: if_splits)
  then show "\<forall>(k, v) \<in> set m. v = entry k" by auto
  show "fst ` set m = S"
  proof
    show "fst ` set m \<subseteq> S" using e by auto
    show "S \<subseteq> fst ` set m"
    proof
      fix k assume "k \<in> S"
      then have "(k, entry k) \<in> set m" using g [of k] by (intro map_of_SomeD) simp
      then show "k \<in> fst ` set m" by force
    qed
  qed
qed

lemma merge_entries:
  "holdsSet entry m S \<Longrightarrow> \<forall>(k, v) \<in> set st. v = entry k \<Longrightarrow> holdsSet entry (mergeStaged st m) (S \<union> fst ` set st)"
proof (induction st arbitrary: m S)
  case (Cons a st)
  obtain k v where a: "a = (k, v)" by (cases a)
  have "holdsSet entry (jm_set k v m) (insert k S)" by (rule holdsSet_put) (use Cons.prems a in auto)
  from Cons.IH [OF this] show ?case using Cons.prems(2) by (simp add: mergeStaged_def a)
qed (simp add: mergeStaged_def)

lemma merge_holds: "holdsSet entry m S \<Longrightarrow> holdsSet entry st T \<Longrightarrow> holdsSet entry (mergeStaged st m) (S \<union> T)"
  using merge_entries [of entry m S st] holdsSet_list [of entry st T] by simp

section \<open>Collecting the branches\<close>

lemma collectBranches_refines:
  assumes "servesPool N pool entry" "holdsSet entry m S"
  shows "\<exists>m' s'. collectBranches N m rs s = (s', Some m') \<and> holdsSet entry m' (S \<union> carried pool (map lowered rs) (calls s))"
  using assms(2)
proof (induction rs arbitrary: m S s)
  case (Cons r rs)
  note serve = assms(1) [unfolded servesPool_def, rule_format]
  let ?s1 = "s\<lparr>calls := Suc (calls s)\<rparr>" and ?s2 = "s\<lparr>calls := Suc (Suc (calls s))\<rparr>"
  show ?case
  proof (cases "pool (calls s) (lowered r)")
    case None
    then have "collectAncestorBranch N m r s = (?s1, Some m)"
      using serve [of "calls s" r] by (simp add: collectAncestorBranch_def mempoolRpc_at)
    then show ?thesis using Cons.IH [OF Cons.prems, of ?s1] None by simp
  next
    case (Some as0)
    obtain v where v: "mempoolAt N (calls s) (Getmempoolentry r) = Answered v" "pricedAt v (entry (lowered r))"
      using serve [of "calls s" r] Some by auto
    obtain st T where st: "recordPackageEntry m [] r v = Some st" "holdsSet entry st T" "S \<union> T = insert (lowered r) S"
      using record_priced [OF Cons.prems holdsSet_empty v(2)] by auto
    show ?thesis
    proof (cases "pool (Suc (calls s)) (lowered r)")
      case None
      then have "collectAncestorBranch N m r s = (?s2, Some m)"
        using serve [of "Suc (calls s)" r] v(1) st(1) by (simp add: collectAncestorBranch_def mempoolRpc_at)
      then show ?thesis using Cons.IH [OF Cons.prems, of ?s2] Some None by simp
    next
      case (Some as)
      then obtain fs where fs: "mempoolAt N (Suc (calls s)) (Getmempoolancestors r) = Answered (Obj fs)" "lowered ` fst ` set fs = as"
        "\<forall>(k, v) \<in> set fs. pricedAt v (entry (lowered k))"
        using serve [of "Suc (calls s)" r] by auto
      obtain st' T' where st': "recordAll m st fs = Some st'" "holdsSet entry st' T'" "S \<union> T' = S \<union> T \<union> as"
        using recordAll_priced [OF Cons.prems st(2) fs(3)] fs(2) by auto
      have "collectAncestorBranch N m r s = (?s2, Some (mergeStaged st' m))"
        using v(1) st(1) fs(1) st'(1) by (simp add: collectAncestorBranch_def mempoolRpc_at)
      then show ?thesis
        using Cons.IH [OF merge_holds [OF Cons.prems st'(2)], of ?s2] Some \<open>pool (calls s) (lowered r) = Some as0\<close> st(3) st'(3)
        by (simp add: Un_assoc [symmetric])
    qed
  qed
qed simp

section \<open>The sums\<close>

text \<open>Rounding once for each addend.\<close>

lemma fl_sum_exact:
  assumes "\<forall>x \<in> set xs. \<exists>i. x = of_int i \<and> 0 \<le> i" "0 \<le> a" "of_int a + sum_list xs < (2 ^ 53 :: rat)"
  shows "foldl (\<lambda>s x. fl (s + x)) (of_int a) xs = of_int a + sum_list xs"
  using assms
proof (induction xs arbitrary: a)
  case (Cons x xs)
  obtain i where i: "x = of_int i" "0 \<le> i" using Cons.prems(1) by auto
  have "0 \<le> sum_list xs" by (rule sum_list_nonneg) (use Cons.prems(1) in auto)
  then have "of_int (a + i) < (2 ^ 53 :: rat)" using Cons.prems(3) i by simp
  then have "a + i < 2 ^ 53" by (metis of_int_less_iff of_int_numeral of_int_power)
  then have "fl (of_int (a + i)) = of_int (a + i)" using Cons.prems(2) i(2) by (intro fl_int) simp
  then show ?case using Cons.IH [of "a + i"] Cons.prems i by (simp add: algebra_simps)
qed simp

lemma fl_sum_near:
  fixes a :: rat
  assumes "\<forall>x \<in> set xs. 0 \<le> x" "0 \<le> a" "0 \<le> b" "b * (1 - 1 / 2 ^ 53) ^ n \<le> a" "a \<le> b * (1 + 1 / 2 ^ 53) ^ n"
  shows "(b + sum_list xs) * (1 - 1 / 2 ^ 53) ^ (n + length xs) \<le> foldl (\<lambda>s x. fl (s + x)) a xs \<and>
     foldl (\<lambda>s x. fl (s + x)) a xs \<le> (b + sum_list xs) * (1 + 1 / 2 ^ 53) ^ (n + length xs)"
  using assms
proof (induction xs arbitrary: a b n)
  case (Cons x xs)
  define l u where "l = (1 - 1 / 2 ^ 53 :: rat)" and "u = (1 + 1 / 2 ^ 53 :: rat)"
  have lu: "0 \<le> l" "l \<le> 1" "1 \<le> u" by (simp_all add: l_def u_def)
  have x: "0 \<le> x" using Cons.prems(1) by simp
  have p: "l ^ n \<le> 1" "1 \<le> u ^ n" using lu by (simp_all add: power_le_one)
  have "x * l ^ n \<le> x" "x \<le> x * u ^ n" using mult_left_mono [OF p(1) x] mult_left_mono [OF p(2) x] by simp_all
  then have m: "(b + x) * l ^ n \<le> a + x" "a + x \<le> (b + x) * u ^ n"
    using Cons.prems(4,5) unfolding l_def [symmetric] u_def [symmetric] by (simp_all add: distrib_right)
  have ax: "0 \<le> a + x" using Cons.prems(2) x by simp
  have "(b + x) * l ^ Suc n \<le> (a + x) * l" using mult_right_mono [OF m(1) lu(1)] by (simp add: ac_simps)
  also have "\<dots> \<le> fl (a + x)" unfolding l_def by (rule fl_bounds(1) [OF ax])
  finally have lo: "(b + x) * l ^ Suc n \<le> fl (a + x)" .
  have "fl (a + x) \<le> (a + x) * u" unfolding u_def by (rule fl_bounds(2) [OF ax])
  also have "\<dots> \<le> (b + x) * u ^ Suc n" using mult_right_mono [OF m(2), of u] lu(3) by (simp add: ac_simps)
  finally have hi: "fl (a + x) \<le> (b + x) * u ^ Suc n" .
  have "\<forall>x \<in> set xs. 0 \<le> x" "0 \<le> fl (a + x)" "0 \<le> b + x" using Cons.prems(1,3) x fl_nonneg [OF ax] by simp_all
  from Cons.IH [OF this lo [unfolded l_def] hi [unfolded u_def]] show ?case by (simp add: add.assoc)
qed simp

lemma sumPackage_pair: "sumPackageEntries m =
    (foldl (\<lambda>s x. fl (s + x)) 0 (map (fst \<circ> snd) m), foldl (\<lambda>s x. fl (s + x)) 0 (map (snd \<circ> snd) m))"
proof -
  have "foldl (\<lambda>(sz, fees) (k, es, ef). (fl (sz + es), fl (fees + ef))) (a, b) m =
     (foldl (\<lambda>s x. fl (s + x)) a (map (fst \<circ> snd) m), foldl (\<lambda>s x. fl (s + x)) b (map (snd \<circ> snd) m))" for a b
    by (induction m arbitrary: a b) auto
  then show ?thesis by (simp add: sumPackageEntries_def)
qed

lemma holdsSet_sum:
  assumes "holdsSet entry m S"
  shows "finite S \<and> sum_list (map (g \<circ> snd) m) = (\<Sum>k \<in> S. g (entry k)) \<and> set (map (g \<circ> snd) m) = (g \<circ> entry) ` S \<and> length m = card S"
proof -
  note l = holdsSet_list [OF assms]
  have e: "map (g \<circ> snd) m = map (g \<circ> entry) (map fst m)" using l(2) by (auto simp: comp_def)
  have "sum_list (map (g \<circ> entry) (map fst m)) = (\<Sum>k \<in> S. g (entry k))"
    using sum_list_distinct_conv_sum_set [OF l(3), of "g \<circ> entry"] l(1) by (simp add: comp_def)
  moreover have "length m = card S" using distinct_card [OF l(3)] l(1) by simp
  moreover have "set (map (g \<circ> entry) (map fst m)) = (g \<circ> entry) ` S" using l(1) by (simp add: image_image comp_def) (metis image_image)
  moreover have "finite S" using l(1) by (metis List.finite_set finite_imageI)
  ultimately show ?thesis unfolding e by simp
qed

section \<open>The package\<close>

lemma pricedAt_bounds: "pricedAt v e \<Longrightarrow> 0 < fst e \<and> 0 \<le> snd e"
  by (auto simp: pricedAt_def entrySize_def entryFee_def Let_def split: option.splits if_splits)

lemma carried_priced:
  assumes "servesPool N pool entry" "k \<in> carried pool (map lowered rs) n"
  shows "0 < fst (entry k) \<and> 0 \<le> snd (entry k)"
  using assms(2)
proof (induction rs arbitrary: n)
  case (Cons r rs)
  note serve = assms(1) [unfolded servesPool_def, rule_format]
  consider "k \<in> carried pool (map lowered rs) (n + 1)" | "k \<in> carried pool (map lowered rs) (n + 2)"
    | as as' where "pool n (lowered r) = Some as'" "pool (n + 1) (lowered r) = Some as" "k = lowered r \<or> k \<in> as"
    using Cons.prems by (auto split: if_splits option.splits)
  then show ?case
  proof cases
    case 3
    have "\<exists>v. pricedAt v (entry k)"
    proof (cases "k = lowered r")
      case True
      then show ?thesis using serve [of n r] 3(1) by auto
    next
      case False
      then show ?thesis using serve [of "n + 1" r] 3(2,3) by fastforce
    qed
    then show ?thesis using pricedAt_bounds by blast
  qed (use Cons.IH in blast)+
qed simp

definition txidKeys :: "jsval list \<Rightarrow> jstring set" where
  "txidKeys vs = {lowered x |x. Str x \<in> set vs \<and> x \<noteq> []}"

lemma txidKeys_Cons: "txidKeys (v # vs) = (case v of Str s \<Rightarrow> if s = [] then {} else {lowered s} | _ \<Rightarrow> {}) \<union> txidKeys vs"
  by (cases v) (auto simp: txidKeys_def)

lemma uniqueFrom_set: "lowered ` set (uniqueFrom seen vs) \<union> set seen = txidKeys vs \<union> set seen"
proof (induction vs arbitrary: seen)
  case (Cons v vs)
  show ?case
  proof (cases "\<exists>s. v = Str s \<and> s \<noteq> [] \<and> lowered s \<notin> set seen")
    case True
    then obtain s where "v = Str s" "s \<noteq> []" "lowered s \<notin> set seen" by blast
    then show ?thesis using Cons.IH [of "lowered s # seen"] by (simp add: txidKeys_Cons)
  next
    case False
    then have "uniqueFrom seen (v # vs) = uniqueFrom seen vs" by (auto split: jsval.split)
    moreover have "txidKeys (v # vs) \<union> set seen = txidKeys vs \<union> set seen"
      using False by (auto simp: txidKeys_Cons split: jsval.splits if_splits)
    ultimately show ?thesis using Cons.IH [of seen] by simp
  qed
qed (simp add: txidKeys_def)

lemma uniqueTxids_set: "lowered ` set (uniqueTxids txids) = txidKeys txids"
  using uniqueFrom_set [of "[]" txids] by (simp add: uniqueTxids_def)

text \<open>
  C39. The ancestor package refines the mempool it is read from. For a node that serves any mempool, even one that
  blocks confirm out of between two calls, the answer is a package, and it is that of the set of transactions carried:
  each still-unconfirmed root with its ancestors, a shared ancestor counted once however many inputs or spellings of
  a txid lead to it. Its size is the exact sum over that set and its fee the sum within one rounding a transaction;
  over a mempool that does not change the set is the union of the requested branches.
\<close>

theorem ancestor_package_refines:
  assumes "servesPool N pool entry"
  shows "let S = carried pool (map lowered (uniqueTxids txids)) (calls s)
     in \<exists>s' sz fees. getUnconfirmedAncestorPackage N txids s = (s', Some (sz, fees)) \<and> finite S \<and>
       ((\<forall>k \<in> S. \<exists>i. fst (entry k) = of_int i) \<and> (\<Sum>k \<in> S. fst (entry k)) < 2 ^ 53 \<longrightarrow> sz = (\<Sum>k \<in> S. fst (entry k))) \<and>
       (\<Sum>k \<in> S. snd (entry k)) * (1 - 1 / 2 ^ 53) ^ card S \<le> fees \<and> fees \<le> (\<Sum>k \<in> S. snd (entry k)) * (1 + 1 / 2 ^ 53) ^ card S \<and>
       ((\<forall>n. pool n = now) \<longrightarrow> S = (\<Union>x \<in> txidKeys txids. case now x of None \<Rightarrow> {} | Some as \<Rightarrow> insert x as))"
proof -
  define S where "S = carried pool (map lowered (uniqueTxids txids)) (calls s)"
  obtain m s1 where m: "collectBranches N jm_empty (uniqueTxids txids) s = (s1, Some m)" "holdsSet entry m S"
    using collectBranches_refines [OF assms holdsSet_empty, of "uniqueTxids txids" s] by (auto simp: S_def)
  have run: "\<exists>s'. getUnconfirmedAncestorPackage N txids s = (s', Some (sumPackageEntries m))"
  proof (cases "uniqueTxids txids = []")
    case True
    then have "m = []" using m(1) by simp
    then show ?thesis using True by (simp add: getUnconfirmedAncestorPackage_def sumPackageEntries_def)
  qed (use m(1) in \<open>simp add: getUnconfirmedAncestorPackage_def\<close>)
  note sz = holdsSet_sum [OF m(2), of fst] and fe = holdsSet_sum [OF m(2), of snd]
  have pos: "0 < fst (entry k)" "0 \<le> snd (entry k)" if "k \<in> S" for k
    using carried_priced [OF assms, of k] that by (simp_all add: S_def)
  have size: "fst (sumPackageEntries m) = (\<Sum>k \<in> S. fst (entry k))"
    if "\<forall>k \<in> S. \<exists>i. fst (entry k) = of_int i" "(\<Sum>k \<in> S. fst (entry k)) < 2 ^ 53"
  proof -
    have "\<exists>i. x = of_int i \<and> 0 \<le> i" if "x \<in> set (map (fst \<circ> snd) m)" for x
    proof -
      have "x \<in> (fst \<circ> entry) ` S" using that sz by (simp only:)
      then obtain k where "k \<in> S" "x = fst (entry k)" by auto
      then show ?thesis using \<open>\<forall>k \<in> S. \<exists>i. fst (entry k) = of_int i\<close> pos(1) [of k] by fastforce
    qed
    then show ?thesis using fl_sum_exact [of "map (fst \<circ> snd) m" 0] sz that(2) by (simp add: sumPackage_pair)
  qed
  have "\<forall>x \<in> (snd \<circ> entry) ` S. 0 \<le> x" using pos(2) by auto
  then have "\<forall>x \<in> set (map (snd \<circ> snd) m). 0 \<le> x" using fe by (simp only:)
  from fl_sum_near [OF this, of 0 0 0] have fees: "(\<Sum>k \<in> S. snd (entry k)) * (1 - 1 / 2 ^ 53) ^ card S \<le> snd (sumPackageEntries m)"
    "snd (sumPackageEntries m) \<le> (\<Sum>k \<in> S. snd (entry k)) * (1 + 1 / 2 ^ 53) ^ card S"
    using fe by (simp_all add: sumPackage_pair)
  have still: "S = (\<Union>x \<in> txidKeys txids. case now x of None \<Rightarrow> {} | Some as \<Rightarrow> insert x as)" if "\<forall>n. pool n = now"
    using carried_still [of pool now "map lowered (uniqueTxids txids)" "calls s"] that uniqueTxids_set [of txids] by (simp add: S_def)
  show ?thesis unfolding Let_def S_def [symmetric]
    using run sz size fees still by (cases "sumPackageEntries m") auto
qed

text \<open>An example: two inputs whose parents share a grandparent, one of them named twice.\<close>

definition pool_entry :: jsval where
  "pool_entry = Obj [(js ''vsize'', Num (Fin 100)), (js ''fees'', Obj [(js ''base'', Num (Fin (1 / 4)))])]"

definition pool_now :: "jstring \<Rightarrow> jstring set option" where
  "pool_now k = (if k = js ''a1'' \<or> k = js ''b2'' then Some {js ''c3''} else None)"

definition pool_node :: node where
  "pool_node = \<lparr>answer = (\<lambda>n q. case q of
       Getmempoolentry r \<Rightarrow>
         Inr (if pool_now (lowered r) = None then Obj [(js ''error'', Obj [(js ''code'', Num (Fin (- 5)))])] else Obj [(js ''result'', pool_entry)])
     | Getmempoolancestors r \<Rightarrow>
         Inr (if pool_now (lowered r) = None then Obj [(js ''error'', Obj [(js ''code'', Num (Fin (- 5)))])]
              else Obj [(js ''result'', Obj [(js ''c3'', pool_entry)])])
     | _ \<Rightarrow> Inr Null), textOf = (\<lambda>_. []), jsonText = (\<lambda>_. [])\<rparr>"

definition new_connector :: connector where
  "new_connector = \<lparr>chainNameCache = None, consensusNetwork = None, chainGenesisHash = None, nodeTierOk = False, nodeTierWarned = False,
     nodeTierMismatch = None, nodeGenesisOk = False, nodeGenesisWarned = False, calls = 0\<rparr>"

lemma pool_entry_priced: "pricedAt pool_entry (100, 1 / 4)"
  by (simp add: pricedAt_def pool_entry_def entrySize_def entryFee_def getProp_def jm_get_def readNumeric_def Let_def del: js_simps)

lemma pool_node_serves: "servesPool pool_node (\<lambda>n. pool_now) (\<lambda>k. (100, 1 / 4))"
proof -
  have l: "lowered (js ''c3'') = js ''c3''" by code_simp
  have absent: "mempoolAt pool_node n (Getmempoolentry r) = Absent \<and> mempoolAt pool_node n (Getmempoolancestors r) = Absent" if "pool_now (lowered r) = None" for n r
    using that by (simp add: mempoolAt_def pool_node_def getProp_def jm_get_def classifyRpcError_def Let_def del: js_simps)
  have carried: "mempoolAt pool_node n (Getmempoolentry r) = Answered pool_entry"
    "mempoolAt pool_node n (Getmempoolancestors r) = Answered (Obj [(js ''c3'', pool_entry)])" if "pool_now (lowered r) = Some as" for n r as
    using that by (simp_all add: mempoolAt_def pool_node_def getProp_def jm_get_def pool_entry_def del: js_simps)
  show ?thesis unfolding servesPool_def
  proof (intro allI)
    fix n r
    show "case pool_now (lowered r) of
            None \<Rightarrow> mempoolAt pool_node n (Getmempoolentry r) = Absent \<and> mempoolAt pool_node n (Getmempoolancestors r) = Absent
          | Some as \<Rightarrow> (\<exists>v fs. mempoolAt pool_node n (Getmempoolentry r) = Answered v \<and> pricedAt v (100, 1 / 4) \<and>
              mempoolAt pool_node n (Getmempoolancestors r) = Answered (Obj fs) \<and> lowered ` fst ` set fs = as \<and>
              (\<forall>(k, v) \<in> set fs. pricedAt v (100, 1 / 4)))"
    proof (cases "pool_now (lowered r)")
      case None
      then show ?thesis using absent by simp
    next
      case (Some as)
      then have "as = {js ''c3''}" by (simp add: pool_now_def split: if_splits)
      then show ?thesis using Some carried pool_entry_priced l
        by (simp del: js_simps)
    qed
  qed
qed

theorem ancestor_package_refines_witness:
  "\<exists>s' fees. getUnconfirmedAncestorPackage pool_node [Str (js ''a1''), Str (js ''B2''), Str (js ''b2'')] new_connector = (s', Some (300, fees))"
proof -
  let ?S = "carried (\<lambda>n. pool_now) (map lowered (uniqueTxids [Str (js ''a1''), Str (js ''B2''), Str (js ''b2'')])) (calls new_connector)"
  have k: "lowered (js ''a1'') = js ''a1''" "lowered (js ''B2'') = js ''b2''" "lowered (js ''b2'') = js ''b2''" by code_simp+
  have "uniqueTxids [Str (js ''a1''), Str (js ''B2''), Str (js ''b2'')] = [js ''a1'', js ''B2'']"
    by (simp add: uniqueTxids_def k del: js_simps(5))
  then have S: "?S = {js ''a1'', js ''b2'', js ''c3''}"
    by (simp add: k pool_now_def del: js_simps(5)) blast
  have "(\<Sum>k \<in> ?S. fst (100 :: rat, 1 / 4 :: rat)) = 300" unfolding S by (simp del: js_simps(5))
  moreover have "\<forall>k \<in> ?S. \<exists>i. fst (100 :: rat, 1 / 4 :: rat) = of_int i" by (simp add: exI [of _ 100])
  ultimately show ?thesis
    using ancestor_package_refines [OF pool_node_serves, of "[Str (js ''a1''), Str (js ''B2''), Str (js ''b2'')]" new_connector pool_now]
    unfolding Let_def by auto
qed

end
