(* ===== verification/ConcurrencyGate.thy ===== *)
theory ConcurrencyGate
  imports JsNumber
begin

text \<open>
  The cap on requests in flight, \<open>src/src/server/concurrency_gate.js\<close>: the counter, a request's slot and the two
  ways it is freed, and the gate as a state machine over the requests of the process. A request is a number.
\<close>

section \<open>The gate\<close>

definition resolveLimit :: "jsnum \<Rightarrow> int \<Rightarrow> int" where
  "resolveLimit parsed defaultLimit =
     (let limit = (case parsed of Fin r \<Rightarrow> \<lfloor>r\<rfloor> | _ \<Rightarrow> defaultLimit) in if 0 < limit then limit else 0)"

record slot =
  released :: bool
  claimed :: bool

record gate =
  inFlight :: int
  shed :: nat
  slotOf :: "nat \<Rightarrow> slot option"

definition newGate :: gate where
  "newGate = \<lparr>inFlight = 0, shed = 0, slotOf = (\<lambda>_. None)\<rparr>"

datatype verdict = Passed | Refused | Admitted

text \<open>The middleware: pass an exempt request on, refuse at the cap, or take a slot.\<close>

definition concurrencyGate :: "int \<Rightarrow> bool \<Rightarrow> nat \<Rightarrow> gate \<Rightarrow> verdict \<times> gate" where
  "concurrencyGate limit skip r g =
     (if limit \<le> 0 \<or> skip then (Passed, g)
      else if limit \<le> inFlight g then (Refused, g\<lparr>shed := shed g + 1\<rparr>)
      else (Admitted, g\<lparr>inFlight := inFlight g + 1, slotOf := (slotOf g)(r \<mapsto> \<lparr>released = False, claimed = False\<rparr>)\<rparr>))"

text \<open>\<open>release\<close> works once.\<close>

definition releaseSlot :: "nat \<Rightarrow> gate \<Rightarrow> gate" where
  "releaseSlot r g =
     (case slotOf g r of
        None \<Rightarrow> g
      | Some sl \<Rightarrow> if released sl then g
                  else g\<lparr>inFlight := inFlight g - 1, slotOf := (slotOf g)(r \<mapsto> sl\<lparr>released := True\<rparr>)\<rparr>)"

text \<open>\<open>finish\<close> and \<open>close\<close> of the response: they free the slot unless a held handler claimed it.\<close>

definition releaseIfUnclaimed :: "nat \<Rightarrow> gate \<Rightarrow> gate" where
  "releaseIfUnclaimed r g = (case slotOf g r of None \<Rightarrow> g | Some sl \<Rightarrow> if claimed sl then g else releaseSlot r g)"

text \<open>Entering a handler wrapped in \<open>hold\<close>.\<close>

definition claimSlot :: "nat \<Rightarrow> gate \<Rightarrow> gate" where
  "claimSlot r g = (case slotOf g r of None \<Rightarrow> g | Some sl \<Rightarrow> g\<lparr>slotOf := (slotOf g)(r \<mapsto> sl\<lparr>claimed := True\<rparr>)\<rparr>)"

section \<open>The process\<close>

text \<open>
  The requests that ever arrived, those whose held handler has not settled, and those whose socket has ended.
\<close>

record server =
  theGate :: gate
  arrived :: "nat set"
  working :: "nat set"
  ended :: "nat set"

definition newServer :: server where
  "newServer = \<lparr>theGate = newGate, arrived = {}, working = {}, ended = {}\<rparr>"

text \<open>
  \<open>Arrive r held\<close> is a request this gate counts: once admitted it goes on, in the same turn of the event loop, to a
  held handler or to code that holds nothing. \<open>Exempt\<close> is one the gate skips. \<open>Settle\<close> is the end of a held
  handler's promise, \<open>SocketEnd\<close> a \<open>finish\<close> or \<open>close\<close> event, which may come more than once and at any time.
\<close>

datatype event = Arrive nat bool | Exempt nat | Settle nat | SocketEnd nat

inductive gateStep :: "int \<Rightarrow> server \<Rightarrow> event \<Rightarrow> server \<Rightarrow> bool" for limit where
  admit: "r \<notin> arrived s \<Longrightarrow> concurrencyGate limit False r (theGate s) = (Admitted, g) \<Longrightarrow>
    gateStep limit s (Arrive r held)
      (s\<lparr>theGate := (if held then claimSlot r g else g), arrived := insert r (arrived s),
         working := (if held then insert r (working s) else working s)\<rparr>)"
| refuse: "r \<notin> arrived s \<Longrightarrow> concurrencyGate limit False r (theGate s) = (Refused, g) \<Longrightarrow>
    gateStep limit s (Arrive r held) (s\<lparr>theGate := g, arrived := insert r (arrived s)\<rparr>)"
| exempt: "r \<notin> arrived s \<Longrightarrow> concurrencyGate limit True r (theGate s) = (Passed, g) \<Longrightarrow>
    gateStep limit s (Exempt r) (s\<lparr>theGate := g, arrived := insert r (arrived s)\<rparr>)"
| settle: "r \<in> working s \<Longrightarrow>
    gateStep limit s (Settle r) (s\<lparr>theGate := releaseSlot r (theGate s), working := working s - {r}\<rparr>)"
| socket: "r \<in> arrived s \<Longrightarrow>
    gateStep limit s (SocketEnd r) (s\<lparr>theGate := releaseIfUnclaimed r (theGate s), ended := insert r (ended s)\<rparr>)"

inductive_cases gateStep_Arrive: "gateStep limit s (Arrive r held) t"
inductive_cases gateStep_Exempt: "gateStep limit s (Exempt r) t"
inductive_cases gateStep_Settle: "gateStep limit s (Settle r) t"
inductive_cases gateStep_SocketEnd: "gateStep limit s (SocketEnd r) t"

text \<open>An unending run of the process from boot.\<close>

definition gateRun :: "int \<Rightarrow> (nat \<Rightarrow> server) \<Rightarrow> (nat \<Rightarrow> event) \<Rightarrow> bool" where
  "gateRun limit tr ev \<longleftrightarrow> tr 0 = newServer \<and> (\<forall>n. gateStep limit (tr n) (ev n) (tr (Suc n)))"

end
