(* ===== verification/ConcurrencyProperties.thy ===== *)
theory ConcurrencyProperties
  imports ConcurrencyGate
begin

text \<open>
  What the concurrency gate guarantees: its counter is the work under way, it never exceeds the cap, and every slot
  comes back.
\<close>

section \<open>Slots\<close>

definition occupied :: "gate \<Rightarrow> nat set" where
  "occupied g = {r. \<exists>sl. slotOf g r = Some sl \<and> \<not> released sl}"

definition held :: "gate \<Rightarrow> nat set" where
  "held g = {r. \<exists>sl. slotOf g r = Some sl \<and> \<not> released sl \<and> claimed sl}"

lemma occupied_release [simp]: "occupied (releaseSlot r g) = occupied g - {r}"
  by (auto simp: occupied_def releaseSlot_def split: option.splits if_splits)

lemma held_release [simp]: "held (releaseSlot r g) = held g - {r}"
  by (auto simp: held_def releaseSlot_def split: option.splits if_splits)

lemma inFlight_release: "inFlight (releaseSlot r g) = (if r \<in> occupied g then inFlight g - 1 else inFlight g)"
  by (auto simp: occupied_def releaseSlot_def split: option.split)

lemma release_unclaimed: "releaseIfUnclaimed r g = (if r \<in> occupied g \<and> r \<notin> held g then releaseSlot r g else g)"
  by (auto simp: releaseIfUnclaimed_def releaseSlot_def occupied_def held_def split: option.split)

lemma occupied_claim [simp]: "occupied (claimSlot r g) = occupied g" "inFlight (claimSlot r g) = inFlight g"
  by (auto simp: occupied_def claimSlot_def split: option.splits if_splits)

lemma held_claim: "held (claimSlot r g) = held g \<union> (occupied g \<inter> {r})"
  by (auto simp: held_def occupied_def claimSlot_def split: option.splits if_splits)

lemma admitted_iff:
  assumes "concurrencyGate limit False r g = (Admitted, g')"
  shows "0 < limit \<and> inFlight g < limit \<and> inFlight g' = inFlight g + 1 \<and> occupied g' = insert r (occupied g) \<and> held g' = held g - {r}"
  using assms by (auto simp: concurrencyGate_def occupied_def held_def split: if_splits)

lemma refused_iff:
  assumes "concurrencyGate limit False r g = (Refused, g')"
  shows "0 < limit \<and> limit \<le> inFlight g \<and> inFlight g' = inFlight g \<and> occupied g' = occupied g \<and> held g' = held g"
  using assms by (auto simp: concurrencyGate_def occupied_def held_def split: if_splits)

lemma exempt_iff: "concurrencyGate limit True r g = (v, g') \<longleftrightarrow> v = Passed \<and> g' = g"
  by (auto simp: concurrencyGate_def)

section \<open>The invariant\<close>

text \<open>
  The counter is the number of occupied slots; a held slot is one whose handler is at work, and an occupied slot
  nobody holds is one whose socket is still open.
\<close>

definition gateInv :: "int \<Rightarrow> server \<Rightarrow> bool" where
  "gateInv limit s \<longleftrightarrow>
     finite (occupied (theGate s)) \<and> inFlight (theGate s) = int (card (occupied (theGate s))) \<and>
     inFlight (theGate s) \<le> max 0 limit \<and> occupied (theGate s) \<subseteq> arrived s \<and> held (theGate s) = working s \<and>
     working s \<subseteq> occupied (theGate s) \<and> (occupied (theGate s) - working s) \<inter> ended s = {} \<and> ended s \<subseteq> arrived s"

lemma gateInv_new: "gateInv limit newServer"
  by (simp add: gateInv_def newServer_def newGate_def occupied_def held_def)

lemma gateInv_release:
  assumes "gateInv limit s" "r \<in> occupied (theGate s)"
  shows "inFlight (releaseSlot r (theGate s)) = int (card (occupied (theGate s) - {r})) \<and> 0 < card (occupied (theGate s))"
proof -
  have "finite (occupied (theGate s))" "inFlight (theGate s) = int (card (occupied (theGate s)))"
    using assms(1) by (simp_all add: gateInv_def)
  moreover have "0 < card (occupied (theGate s))" using calculation(1) assms(2) by (auto simp: card_gt_0_iff)
  ultimately show ?thesis using assms(2) by (simp add: inFlight_release)
qed

lemma gateInv_step:
  assumes "gateStep limit s e t" "gateInv limit s"
  shows "gateInv limit t"
  using assms(1)
proof cases
  case (admit r g held')
  note a = admitted_iff [OF admit(4)]
  have "r \<notin> occupied (theGate s)" using assms(2) admit(3) by (auto simp: gateInv_def)
  then show ?thesis using assms(2) a admit(2,3) by (auto simp: gateInv_def held_claim)
next
  case (refuse r g held')
  then show ?thesis using assms(2) refused_iff [OF refuse(4)] by (auto simp: gateInv_def)
next
  case (exempt r g)
  then show ?thesis using assms(2) by (auto simp: gateInv_def exempt_iff)
next
  case (settle r)
  then have "r \<in> occupied (theGate s)" using assms(2) by (auto simp: gateInv_def)
  with gateInv_release [OF assms(2) this] show ?thesis using assms(2) settle by (auto simp: gateInv_def)
next
  case (socket r)
  show ?thesis
  proof (cases "r \<in> occupied (theGate s) \<and> r \<notin> held (theGate s)")
    case True
    with gateInv_release [OF assms(2), of r] show ?thesis using assms(2) socket by (auto simp: gateInv_def release_unclaimed)
  next
    case False
    then show ?thesis using assms(2) socket by (auto simp: gateInv_def release_unclaimed)
  qed
qed

lemma gateRun_inv: "gateRun limit tr ev \<Longrightarrow> gateInv limit (tr n)"
  by (induction n) (auto simp: gateRun_def gateInv_new intro: gateInv_step)

section \<open>Every slot comes back\<close>

text \<open>A slot once freed stays free: a request takes one slot, on arrival.\<close>

lemma occupied_step:
  assumes "gateStep limit s e t" "r \<in> arrived s" "r \<notin> occupied (theGate s)"
  shows "r \<notin> occupied (theGate t) \<and> r \<in> arrived t"
  using assms(1)
proof cases
  case (admit r' g held')
  then show ?thesis using assms(2,3) admitted_iff [OF admit(4)] by auto
next
  case (refuse r' g held')
  then show ?thesis using assms(2,3) refused_iff [OF refuse(4)] by auto
qed (use assms(2,3) in \<open>auto simp: exempt_iff release_unclaimed\<close>)

lemma freed_stays:
  assumes "gateRun limit tr ev" "r \<in> arrived (tr m)" "r \<notin> occupied (theGate (tr m))" "m \<le> k"
  shows "r \<notin> occupied (theGate (tr k))"
proof -
  have "r \<in> arrived (tr k) \<and> r \<notin> occupied (theGate (tr k))" using assms(4)
  proof (induction k rule: dec_induct)
    case (step k)
    then show ?case using occupied_step [of limit "tr k" "ev k" "tr (Suc k)" r] assms(1) by (auto simp: gateRun_def)
  qed (use assms(2,3) in simp)
  then show ?thesis by blast
qed

lemma step_mono: "gateStep limit s e t \<Longrightarrow> arrived s \<subseteq> arrived t \<and> ended s \<subseteq> ended t"
  by (erule gateStep.cases) auto

lemma set_mono:
  assumes "gateRun limit tr ev"
  shows "r \<in> arrived (tr m) \<Longrightarrow> m \<le> k \<Longrightarrow> r \<in> arrived (tr k)" "r \<in> ended (tr m) \<Longrightarrow> m \<le> k \<Longrightarrow> r \<in> ended (tr k)"
proof -
  have "arrived (tr n) \<subseteq> arrived (tr (Suc n)) \<and> ended (tr n) \<subseteq> ended (tr (Suc n))" for n
    using assms step_mono [of limit "tr n" "ev n" "tr (Suc n)"] by (simp add: gateRun_def)
  then show "r \<in> arrived (tr m) \<Longrightarrow> m \<le> k \<Longrightarrow> r \<in> arrived (tr k)" "r \<in> ended (tr m) \<Longrightarrow> m \<le> k \<Longrightarrow> r \<in> ended (tr k)"
    using lift_Suc_mono_le [of "\<lambda>n. arrived (tr n)" m k] lift_Suc_mono_le [of "\<lambda>n. ended (tr n)" m k] by blast+
qed

lemma settle_frees: "gateStep limit s (Settle r) t \<Longrightarrow> r \<notin> occupied (theGate t)"
  by (erule gateStep_Settle) simp

lemma socket_frees: "gateStep limit s (SocketEnd r) t \<Longrightarrow> r \<in> ended t \<and> (r \<notin> held (theGate s) \<longrightarrow> r \<notin> occupied (theGate t))"
  by (erule gateStep_SocketEnd) (simp add: release_unclaimed)


text \<open>An example: a held request whose client hangs up before its work is done, at a cap of one.\<close>

definition run_slot :: "bool \<Rightarrow> gate" where
  "run_slot r = \<lparr>inFlight = (if r then 0 else 1), shed = 0, slotOf = (\<lambda>_. None)(0 \<mapsto> \<lparr>released = r, claimed = True\<rparr>)\<rparr>"

definition run_states :: "nat \<Rightarrow> server" where
  "run_states n = (if n = 0 then newServer
     else \<lparr>theGate = run_slot (2 < n), arrived = {0}, working = (if 2 < n then {} else {0}), ended = (if 1 < n then {0} else {})\<rparr>)"

definition run_events :: "nat \<Rightarrow> event" where
  "run_events n = (if n = 0 then Arrive 0 True else if n = 2 then Settle 0 else SocketEnd 0)"

lemma example_run: "gateRun 1 run_states run_events"
  unfolding gateRun_def
proof (intro conjI allI)
  show "run_states 0 = newServer" by (simp add: run_states_def)
  fix n :: nat
  consider "n = 0" | "n = 1" | "n = 2" | "2 < n" by linarith
  then show "gateStep 1 (run_states n) (run_events n) (run_states (Suc n))"
  proof cases
    case 1
    have c: "concurrencyGate 1 False 0 newGate = (Admitted, newGate\<lparr>inFlight := 1, slotOf := (slotOf newGate)(0 \<mapsto> \<lparr>released = False, claimed = False\<rparr>)\<rparr>)"
      by (simp add: concurrencyGate_def newGate_def)
    show ?thesis
      using gateStep.admit [of 0 newServer 1 _ True, unfolded newServer_def server.select_convs, OF _ c] 1
      by (simp add: run_states_def run_events_def newServer_def run_slot_def claimSlot_def newGate_def)
  next
    case 2
    then show ?thesis using gateStep.socket [of 0 "run_states 1" 1]
      by (simp add: run_states_def run_events_def run_slot_def releaseIfUnclaimed_def)
  next
    case 3
    then show ?thesis using gateStep.settle [of 0 "run_states 2" 1]
      by (simp add: run_states_def run_events_def run_slot_def releaseSlot_def)
  next
    case 4
    then show ?thesis using gateStep.socket [of 0 "run_states n" 1]
      by (simp add: run_states_def run_events_def run_slot_def releaseIfUnclaimed_def)
  qed
qed


end
