(* ===== verification/Json.thy ===== *)
theory Json
  imports JsValue
begin

text \<open>
  JSON text as the service reads and writes it: \<open>JSON.parse\<close>, and the quoting \<open>JSON.stringify\<close> gives a string. An
  object read twice under one key keeps the last value. The parser runs on a fuel the length of the text bounds:
  each recursive call has consumed a unit.
\<close>

section \<open>Reading\<close>

definition isJsonSpace :: "16 word \<Rightarrow> bool" where
  "isJsonSpace u = (let n = unat u in n = 9 \<or> n = 10 \<or> n = 13 \<or> n = 32)"

definition skipSpace :: "jstring \<Rightarrow> jstring" where
  "skipSpace s = dropWhile isJsonSpace s"

definition hex4 :: "16 word \<Rightarrow> 16 word \<Rightarrow> 16 word \<Rightarrow> 16 word \<Rightarrow> 16 word option" where
  "hex4 a b c d =
     (if list_all isHexUnit [a, b, c, d]
      then Some (of_nat (((hexDigitValue a * 16 + hexDigitValue b) * 16 + hexDigitValue c) * 16 + hexDigitValue d)) else None)"

definition shortEscape :: "16 word \<Rightarrow> 16 word option" where
  "shortEscape u =
     (let n = unat u
      in if n = 34 \<or> n = 92 \<or> n = 47 then Some u
         else if n = 98 then Some 8 else if n = 102 then Some 12 else if n = 110 then Some 10
         else if n = 114 then Some 13 else if n = 116 then Some 9 else None)"

definition consTo :: "16 word \<Rightarrow> (jstring \<times> jstring) option \<Rightarrow> (jstring \<times> jstring) option" where
  "consTo u r = map_option (\<lambda>(t, rest). (u # t, rest)) r"

text \<open>The units up to the closing quote, and what follows it.\<close>

fun jsonString :: "jstring \<Rightarrow> (jstring \<times> jstring) option" where
  "jsonString [] = None"
| "jsonString (u # s) =
     (if unat u = 34 then Some ([], s)
      else if unat u < 32 then None
      else if unat u = 92
      then (case s of
              [] \<Rightarrow> None
            | e # r \<Rightarrow>
                if unat e = 117
                then (case r of
                        a # b # c # d # r \<Rightarrow> (case hex4 a b c d of Some w \<Rightarrow> consTo w (jsonString r) | None \<Rightarrow> None)
                      | _ \<Rightarrow> None)
                else (case shortEscape e of Some w \<Rightarrow> consTo w (jsonString r) | None \<Rightarrow> None))
      else consTo u (jsonString s))"

text \<open>A number by the JSON grammar: no leading zero, digits on both sides of a point, digits after an exponent.\<close>

definition jsonFraction :: "jstring \<Rightarrow> (jstring \<times> jstring) option" where
  "jsonFraction s =
     (case s of
        u # r \<Rightarrow> if unat u = 46
                 then (if takeWhile isDigit r = [] then None else Some (takeWhile isDigit r, dropWhile isDigit r))
                 else Some ([], s)
      | [] \<Rightarrow> Some ([], []))"

definition jsonExponent :: "jstring \<Rightarrow> (int \<times> jstring) option" where
  "jsonExponent s =
     (case s of
        u # r \<Rightarrow> if unat u = 101 \<or> unat u = 69
                 then (let neg = (case r of v # _ \<Rightarrow> unat v = 45 | [] \<Rightarrow> False);
                           d = (case r of v # w \<Rightarrow> if unat v = 43 \<or> unat v = 45 then w else r | [] \<Rightarrow> []);
                           e = int (digitsValue (takeWhile isDigit d))
                       in if takeWhile isDigit d = [] then None else Some (if neg then - e else e, dropWhile isDigit d))
                 else Some (0, s)
      | [] \<Rightarrow> Some (0, []))"

definition jsonNumber :: "jstring \<Rightarrow> (jsval \<times> jstring) option" where
  "jsonNumber s =
     (let t = unsign s; whole = takeWhile isDigit t
      in if whole = [] \<or> 1 < length whole \<and> unat (hd whole) = 48 then None
         else case jsonFraction (dropWhile isDigit t) of
                None \<Rightarrow> None
              | Some (decimals, rest) \<Rightarrow>
                  (case jsonExponent rest of
                     None \<Rightarrow> None
                   | Some (e, rest) \<Rightarrow>
                       (let r = of_nat (digitsValue (whole @ decimals)) * power_int 10 (e - int (length decimals))
                        in Some (Num (js_Number_rat (if t = s then r else - r)), rest))))"

definition jsonWord :: "jstring \<Rightarrow> (jsval \<times> jstring) option" where
  "jsonWord s =
     (if take 4 s = js ''true'' then Some (Bool True, drop 4 s)
      else if take 5 s = js ''false'' then Some (Bool False, drop 5 s)
      else if take 4 s = js ''null'' then Some (Null, drop 4 s)
      else jsonNumber s)"

fun jsonValue :: "nat \<Rightarrow> jstring \<Rightarrow> (jsval \<times> jstring) option"
  and jsonElements :: "nat \<Rightarrow> jstring \<Rightarrow> jsval list \<Rightarrow> (jsval \<times> jstring) option"
  and jsonMembers :: "nat \<Rightarrow> jstring \<Rightarrow> (jstring \<times> jsval) list \<Rightarrow> (jsval \<times> jstring) option" where
  "jsonValue 0 s = None"
| "jsonValue (Suc n) s =
     (case skipSpace s of
        [] \<Rightarrow> None
      | u # r \<Rightarrow>
          if unat u = 34 then map_option (\<lambda>(t, rest). (Str t, rest)) (jsonString r)
          else if unat u = 91
          then (case skipSpace r of
                  v # rest \<Rightarrow> if unat v = 93 then Some (Arr [], rest) else jsonElements n r []
                | [] \<Rightarrow> None)
          else if unat u = 123
          then (case skipSpace r of
                  v # rest \<Rightarrow> if unat v = 125 then Some (Obj [], rest) else jsonMembers n r []
                | [] \<Rightarrow> None)
          else jsonWord (u # r))"
| "jsonElements 0 s vs = None"
| "jsonElements (Suc n) s vs =
     (case jsonValue n s of
        None \<Rightarrow> None
      | Some (v, r) \<Rightarrow>
          (case skipSpace r of
             [] \<Rightarrow> None
           | u # rest \<Rightarrow>
               if unat u = 93 then Some (Arr (vs @ [v]), rest)
               else if unat u = 44 then jsonElements n rest (vs @ [v])
               else None))"
| "jsonMembers 0 s fs = None"
| "jsonMembers (Suc n) s fs =
     (case skipSpace s of
        [] \<Rightarrow> None
      | q # r \<Rightarrow>
          if unat q \<noteq> 34 then None
          else case jsonString r of
                 None \<Rightarrow> None
               | Some (k, r) \<Rightarrow>
                   (case skipSpace r of
                      [] \<Rightarrow> None
                    | c # r \<Rightarrow>
                        if unat c \<noteq> 58 then None
                        else case jsonValue n r of
                               None \<Rightarrow> None
                             | Some (v, r) \<Rightarrow>
                                 (case skipSpace r of
                                    [] \<Rightarrow> None
                                  | u # rest \<Rightarrow>
                                      if unat u = 125 then Some (Obj (jm_set k v fs), rest)
                                      else if unat u = 44 then jsonMembers n rest (jm_set k v fs)
                                      else None)))"

definition jsonParse :: "jstring \<Rightarrow> jsval option" where
  "jsonParse s =
     (case jsonValue (2 * length s + 1) s of
        Some (v, rest) \<Rightarrow> if skipSpace rest = [] then Some v else None
      | None \<Rightarrow> None)"

section \<open>Writing\<close>

definition hexUnit :: "nat \<Rightarrow> 16 word" where
  "hexUnit d = (if d < 10 then of_nat (48 + d) else of_nat (87 + d))"

definition escapeUnit :: "16 word \<Rightarrow> jstring" where
  "escapeUnit u =
     (let n = unat u
      in [92, 117, hexUnit (n div 4096), hexUnit (n div 256 mod 16), hexUnit (n div 16 mod 16), hexUnit (n mod 16)])"

definition quoteUnit :: "16 word \<Rightarrow> jstring" where
  "quoteUnit u =
     (let n = unat u
      in if n = 8 then [92, 98] else if n = 9 then [92, 116] else if n = 10 then [92, 110]
         else if n = 12 then [92, 102] else if n = 13 then [92, 114] else if n = 34 \<or> n = 92 then [92, u]
         else if n < 32 \<or> 0xd800 \<le> n \<and> n \<le> 0xdfff then escapeUnit u
         else [u])"

text \<open>A surrogate pair is written as it is, a lone surrogate escaped.\<close>

fun quoteUnits :: "jstring \<Rightarrow> jstring" where
  "quoteUnits [] = []"
| "quoteUnits (u # v # s) =
     (if 0xd800 \<le> unat u \<and> unat u \<le> 0xdbff \<and> 0xdc00 \<le> unat v \<and> unat v \<le> 0xdfff then u # v # quoteUnits s
      else quoteUnit u @ quoteUnits (v # s))"
| "quoteUnits [u] = quoteUnit u"

definition jsonQuote :: "jstring \<Rightarrow> jstring" where
  "jsonQuote s = 34 # quoteUnits s @ [34]"

section \<open>Numbers and strings\<close>

definition parseInt10 :: "jstring \<Rightarrow> jsnum" where
  "parseInt10 s =
     (let t = dropWhile isSpaceUnit s;
          neg = (case t of u # _ \<Rightarrow> unat u = 45 | [] \<Rightarrow> False);
          d = takeWhile isDigit (case t of u # r \<Rightarrow> if unat u = 45 \<or> unat u = 43 then r else t | [] \<Rightarrow> [])
      in if d = [] then NaN else js_Number_int (if neg then - int (digitsValue d) else int (digitsValue d)))"

text \<open>\<open>split\<close> and \<open>join\<close> at one unit.\<close>

fun splitOn :: "16 word \<Rightarrow> jstring \<Rightarrow> jstring list" where
  "splitOn sep [] = [[]]"
| "splitOn sep (u # s) = (if u = sep then [] # splitOn sep s else (u # hd (splitOn sep s)) # tl (splitOn sep s))"

fun joinWith :: "16 word \<Rightarrow> jstring list \<Rightarrow> jstring" where
  "joinWith sep [] = []"
| "joinWith sep [s] = s"
| "joinWith sep (s # t # ts) = s @ sep # joinWith sep (t # ts)"

text \<open>\<open>String(v)\<close>; \<open>textOf\<close> is its value on an object, an array and a number that is no integer below \<open>10 ^ 21\<close>.\<close>

definition stringOf :: "(jsval \<Rightarrow> jstring) \<Rightarrow> jsval \<Rightarrow> jstring" where
  "stringOf textOf v =
     (case v of
        Str s \<Rightarrow> s
      | Undefined \<Rightarrow> js ''undefined''
      | Null \<Rightarrow> js ''null''
      | Bool b \<Rightarrow> js (if b then ''true'' else ''false'')
      | Num (Fin r) \<Rightarrow>
          if isInteger (Fin r) \<and> \<bar>r\<bar> < 10 ^ 21 then (if r < 0 then js ''-'' else []) @ js (decimal (nat \<bar>\<lfloor>r\<rfloor>\<bar>)) else textOf v
      | _ \<Rightarrow> textOf v)"

section \<open>What is written reads back\<close>

lemma joinWith_Cons: "joinWith sep (t # ts) = t @ concat (map ((#) sep) ts)"
  by (induction ts arbitrary: t) simp_all

lemma getProp_head: "getProp (Obj ((js k, v) # fs)) k' = (if k = k' then v else getProp (Obj fs) k')"
  by (auto simp: getProp_def jm_get_def simp del: js_simps)

lemma unat_small: "n < 65536 \<Longrightarrow> unat (of_nat n :: 16 word) = n"
  by (simp add: unsigned_of_nat take_bit_nat_def)

lemma hexUnit_reads:
  assumes "d < 16"
  shows "isHexUnit (hexUnit d) \<and> hexDigitValue (hexUnit d) = d"
proof (cases "d < 10")
  case True
  then have "unat (hexUnit d) = 48 + d" using unat_small [of "48 + d"] by (simp only: hexUnit_def if_True)
  then show ?thesis using True by (simp add: isHexUnit_def isDigit_def hexDigitValue_def)
next
  case False
  then have "unat (hexUnit d) = 87 + d" using assms unat_small [of "87 + d"] by (simp only: hexUnit_def if_False)
  then show ?thesis using False assms by (simp add: isHexUnit_def isDigit_def hexDigitValue_def)
qed

lemma hex_digits: "((n div 4096 * 16 + n div 256 mod 16) * 16 + n div 16 mod 16) * 16 + n mod 16 = (n :: nat)"
proof -
  have "n div 4096 = n div 256 div 16" "n div 256 = n div 16 div 16" by (simp_all add: div_mult2_eq [symmetric])
  then show ?thesis by (simp only: div_mult_mod_eq)
qed

lemma escape_reads: "jsonString (escapeUnit u @ r) = consTo u (jsonString r)"
proof -
  let ?n = "unat u"
  have n: "?n < 65536" using unsigned_less [of u] by simp
  then have "?n div 4096 < 16" by (simp add: less_mult_imp_div_less)
  then have "hex4 (hexUnit (?n div 4096)) (hexUnit (?n div 256 mod 16)) (hexUnit (?n div 16 mod 16)) (hexUnit (?n mod 16)) = Some u"
    by (simp only: hex4_def list.pred_inject hexUnit_reads mod_less_divisor zero_less_numeral simp_thms if_True hex_digits)
      simp
  then show ?thesis by (simp only: escapeUnit_def Let_def append_Cons append_Nil) simp
qed

lemma plain_reads: "unat u \<noteq> 34 \<Longrightarrow> 32 \<le> unat u \<Longrightarrow> unat u \<noteq> 92 \<Longrightarrow> jsonString (u # r) = consTo u (jsonString r)"
  by (simp del: One_nat_def)

lemma quoteUnit_reads: "jsonString (quoteUnit u @ r) = consTo u (jsonString r)"
proof -
  have num: "of_nat (unat u) = u" by simp
  have e: "jsonString (92 # w # r) = consTo x (jsonString r)" if "unat w \<noteq> 117" "shortEscape w = Some x" for w x
    using that by simp
  consider "unat u = 8" | "unat u = 9" | "unat u = 10" | "unat u = 12" | "unat u = 13" | "unat u = 34 \<or> unat u = 92"
    | "unat u \<notin> {8, 9, 10, 12, 13, 34, 92}" "unat u < 32 \<or> 0xd800 \<le> unat u \<and> unat u \<le> 0xdfff"
    | "unat u \<notin> {8, 9, 10, 12, 13, 34, 92}" "32 \<le> unat u" "\<not> (0xd800 \<le> unat u \<and> unat u \<le> 0xdfff)"
    by fastforce
  then show ?thesis
  proof cases
    case 1 then have "u = 8" using num by simp
    then show ?thesis by (simp add: quoteUnit_def shortEscape_def)
  next
    case 2 then have "u = 9" using num by simp
    then show ?thesis by (simp add: quoteUnit_def shortEscape_def)
  next
    case 3 then have "u = 10" using num by simp
    then show ?thesis by (simp add: quoteUnit_def shortEscape_def)
  next
    case 4 then have "u = 12" using num by simp
    then show ?thesis by (simp add: quoteUnit_def shortEscape_def)
  next
    case 5 then have "u = 13" using num by simp
    then show ?thesis by (simp add: quoteUnit_def shortEscape_def)
  next
    case 6 then show ?thesis by (auto simp: quoteUnit_def shortEscape_def)
  next
    case 7
    then have "quoteUnit u = escapeUnit u" by (auto simp: quoteUnit_def Let_def)
    then show ?thesis by (simp only: escape_reads)
  next
    case 8
    then have "quoteUnit u = [u]" by (auto simp: quoteUnit_def Let_def)
    then show ?thesis using 8 by (simp add: plain_reads)
  qed
qed

lemma quoted_reads: "jsonString (quoteUnits s @ 34 # r) = Some (s, r)"
proof (induction s rule: quoteUnits.induct)
  case (2 u v s)
  show ?case
  proof (cases "0xd800 \<le> unat u \<and> unat u \<le> 0xdbff \<and> 0xdc00 \<le> unat v \<and> unat v \<le> 0xdfff")
    case True
    then have "jsonString (quoteUnits (u # v # s) @ 34 # r) = consTo u (consTo v (jsonString (quoteUnits s @ 34 # r)))"
      by (simp add: plain_reads del: jsonString.simps)
    moreover have "jsonString (quoteUnits s @ 34 # r) = Some (s, r)" using 2 True by blast
    ultimately show ?thesis by (simp only: consTo_def) simp
  next
    case False
    then have "quoteUnits (u # v # s) = quoteUnit u @ quoteUnits (v # s)" by (simp only: quoteUnits.simps if_False)
    moreover have "jsonString (quoteUnits (v # s) @ 34 # r) = Some (v # s, r)" using 2 False by blast
    ultimately show ?thesis by (simp only: append_assoc quoteUnit_reads) (simp add: consTo_def)
  qed
next
  case (3 u)
  then show ?case by (simp add: quoteUnit_reads del: jsonString.simps) (simp add: consTo_def)
qed simp

text \<open>A natural number a double holds exactly, as the parser reads its digits.\<close>

lemma takeWhile_digits:
  assumes "r = [] \<or> \<not> isDigit (hd r)"
  shows "takeWhile isDigit (js (decimal n) @ r) = js (decimal n)" "dropWhile isDigit (js (decimal n) @ r) = r"
proof -
  have "list_all isDigit (js (decimal n))" using decimal_digits by blast
  then show "takeWhile isDigit (js (decimal n) @ r) = js (decimal n)" "dropWhile isDigit (js (decimal n) @ r) = r"
    using assms by (auto simp: list_all_iff takeWhile_append dropWhile_append takeWhile_eq_Nil_iff dropWhile_eq_self_iff)
qed

section \<open>The fuel is enough\<close>

lemma skipSpace_le: "length (skipSpace s) \<le> length s"
  by (simp add: skipSpace_def length_dropWhile_le)

lemma jsonString_shorter: "jsonString s = Some (t, r) \<Longrightarrow> length r < length s"
proof (induction s arbitrary: t r rule: jsonString.induct)
  case (2 u s)
  then show ?case
    by (auto simp: consTo_def split: if_splits list.splits option.splits) (fastforce dest: less_SucI)+
qed simp

lemma dropWhile_shorter: "takeWhile P s \<noteq> [] \<Longrightarrow> length (dropWhile P s) < length s"
  by (cases s) (auto simp: less_Suc_eq_le length_dropWhile_le split: if_splits)

lemma jsonFraction_le: "jsonFraction s = Some (d, r) \<Longrightarrow> length r \<le> length s"
  by (auto simp: jsonFraction_def le_SucI length_dropWhile_le split: list.splits if_splits)

lemma jsonExponent_le: "jsonExponent s = Some (e, r) \<Longrightarrow> length r \<le> length s"
  by (auto simp: jsonExponent_def Let_def split: list.splits if_splits)
    (metis (no_types, lifting) le_SucI length_Cons length_dropWhile_le order_trans)+

lemma jsonNumber_shorter: "jsonNumber s = Some (v, r) \<Longrightarrow> length r < length s"
proof -
  assume n: "jsonNumber s = Some (v, r)"
  let ?t = "unsign s"
  have t: "length ?t \<le> length s" by (simp add: unsign_def split: list.split)
  from n obtain d r1 e where w: "takeWhile isDigit ?t \<noteq> []" and f: "jsonFraction (dropWhile isDigit ?t) = Some (d, r1)"
    and x: "jsonExponent r1 = Some (e, r)"
    by (auto simp: jsonNumber_def Let_def split: if_splits option.splits)
  have "length r \<le> length (dropWhile isDigit ?t)" using jsonFraction_le [OF f] jsonExponent_le [OF x] by simp
  then show ?thesis using dropWhile_shorter [OF w] t by simp
qed

lemma jsonWord_shorter: "s \<noteq> [] \<Longrightarrow> jsonWord s = Some (v, r) \<Longrightarrow> length r < length s"
  by (auto simp: jsonWord_def dest: jsonNumber_shorter split: if_splits)

lemma skipSpace_Cons: "skipSpace s = u # r \<Longrightarrow> Suc (length r) \<le> length s"
  using skipSpace_le [of s] by simp

lemma json_rest:
  "(\<forall>s v r. jsonValue n s = Some (v, r) \<longrightarrow> length r < length s) \<and>
   (\<forall>s vs v r. jsonElements n s vs = Some (v, r) \<longrightarrow> length r < length s) \<and>
   (\<forall>s fs v r. jsonMembers n s fs = Some (v, r) \<longrightarrow> length r < length s)"
proof (induction n)
  case (Suc n)
  then have V: "jsonValue n s = Some (v, r) \<Longrightarrow> length r < length s"
    and E: "jsonElements n s vs = Some (v, r) \<Longrightarrow> length r < length s"
    and M: "jsonMembers n s fs = Some (v, r) \<Longrightarrow> length r < length s" for s vs fs v r by blast+
  have "length r < length s" if a: "jsonValue (Suc n) s = Some (v, r)" for s v r
  proof -
    obtain u q where u: "skipSpace s = u # q" using a by (auto split: list.splits)
    have w: "jsonWord (u # q) = Some (v, r) \<Longrightarrow> length r < Suc (length q)" using jsonWord_shorter [of "u # q"] by simp
    have "length r \<le> length q" using a
      by (auto simp: u split: list.splits if_splits dest!: skipSpace_Cons jsonString_shorter E M w)
    then show ?thesis using skipSpace_Cons [OF u] by simp
  qed
  moreover have "length r < length s" if a: "jsonElements (Suc n) s vs = Some (v, r)" for s vs v r
    using a by (auto split: list.splits if_splits option.splits dest!: skipSpace_Cons V E)
  moreover have "length r < length s" if a: "jsonMembers (Suc n) s fs = Some (v, r)" for s fs v r
    using a by (auto split: list.splits if_splits option.splits dest!: skipSpace_Cons jsonString_shorter V M)
  ultimately show ?case by blast
qed simp

text \<open>Past twice the length of the text, more fuel changes nothing.\<close>

lemma json_fuel:
  "(\<forall>s. 2 * length s < n \<longrightarrow> jsonValue (Suc n) s = jsonValue n s) \<and>
   (\<forall>s vs. 2 * length s + 1 < n \<longrightarrow> jsonElements (Suc n) s vs = jsonElements n s vs) \<and>
   (\<forall>s fs. 2 * length s + 1 < n \<longrightarrow> jsonMembers (Suc n) s fs = jsonMembers n s fs)"
proof (induction n)
  case (Suc n)
  then have V: "2 * length s < n \<Longrightarrow> jsonValue (Suc n) s = jsonValue n s"
    and E: "2 * length s + 1 < n \<Longrightarrow> jsonElements (Suc n) s vs = jsonElements n s vs"
    and M: "2 * length s + 1 < n \<Longrightarrow> jsonMembers (Suc n) s fs = jsonMembers n s fs" for s vs fs by blast+
  have "jsonValue (Suc (Suc n)) s = jsonValue (Suc n) s" if a: "2 * length s < Suc n" for s
  proof (cases "skipSpace s")
    case (Cons u q)
    then have "2 * length q + 1 < n" using skipSpace_Cons [OF Cons] a by simp
    then show ?thesis by (simp only: jsonValue.simps(2) Cons list.case E M)
  qed simp
  moreover have "jsonElements (Suc (Suc n)) s vs = jsonElements (Suc n) s vs" if a: "2 * length s + 1 < Suc n" for s vs
  proof (cases "jsonValue n s")
    case (Some x)
    obtain v r where x: "x = (v, r)" by (cases x)
    have r: "length r < length s" using json_rest Some unfolding x by blast
    have "2 * length rest + 1 < n" if "skipSpace r = u # rest" for u rest using skipSpace_Cons [OF that] r a by simp
    then have "skipSpace r = u # rest \<Longrightarrow> jsonElements (Suc n) rest (vs @ [v]) = jsonElements n rest (vs @ [v])" for u rest by (rule E)
    then show ?thesis using a Some x V [of s] by (simp only: jsonElements.simps(2)) (auto split: list.split)
  qed (use a V [of s] in simp)
  moreover have "jsonMembers (Suc (Suc n)) s fs = jsonMembers (Suc n) s fs" if a: "2 * length s + 1 < Suc n" for s fs
  proof -
    have v: "jsonValue (Suc n) r = jsonValue n r" if "length r \<le> length s" for r using that a by (intro V) simp
    have m: "jsonMembers (Suc n) r gs = jsonMembers n r gs" if "length r < length s" for r gs using that a by (intro M) simp
    show ?thesis
    proof (cases "skipSpace s")
      case s: (Cons q r)
      then have r: "length r < length s" using skipSpace_Cons by fastforce
      show ?thesis
      proof (cases "jsonString r")
        case k: (Some x)
        obtain k r1 where x: "x = (k, r1)" by (cases x)
        have r1: "length r1 < length r" using jsonString_shorter k x by blast
        show ?thesis
        proof (cases "skipSpace r1")
          case c: (Cons c r2)
          then have r2: "length r2 < length r1" using skipSpace_Cons by fastforce
          then have V2: "jsonValue (Suc n) r2 = jsonValue n r2" using r r1 by (intro v) simp
          show ?thesis
          proof (cases "jsonValue n r2")
            case y: (Some y)
            obtain w r3 where w: "y = (w, r3)" by (cases y)
            have r3: "length r3 < length r2" using json_rest y unfolding w by blast
            have "jsonMembers (Suc n) rest gs = jsonMembers n rest gs" if "skipSpace r3 = u # rest" for u rest gs
              using skipSpace_Cons [OF that] r r1 r2 r3 by (intro m) simp
            then show ?thesis using s k x c y w V2 by (simp only: jsonMembers.simps(2)) (auto split: list.split)
          qed (use s k x c V2 in simp)
        qed (use s k x in simp)
      qed (use s in simp)
    qed simp
  qed
  ultimately show ?case by blast
qed simp

lemma jsonParse_fuel:
  assumes "2 * length s < n"
  shows "jsonParse s = (case jsonValue n s of Some (v, rest) \<Rightarrow> if skipSpace rest = [] then Some v else None | None \<Rightarrow> None)"
proof -
  have "jsonValue (2 * length s + 1 + k) s = jsonValue (2 * length s + 1) s" for k
  proof (induction k)
    case (Suc k)
    then show ?case using json_fuel [of "2 * length s + 1 + k"] by simp
  qed simp
  from this [of "n - (2 * length s + 1)"] assms show ?thesis by (simp add: jsonParse_def)
qed

end
