(* ===== verification/InstanceLock.thy ===== *)
theory InstanceLock
  imports Json Tracker
begin

text \<open>
  The single-instance guard, \<open>src/src/server/single_instance_guard.js\<close> and \<open>stale_lock_breaker.js\<close>: the declared
  replica count, the record of the lock file, and the lock protocol of the processes of one host as a step
  relation, one step for each file-system call. What a process sees of the others, the process table and
  the failures of the file system, is an argument of the step.
\<close>

section \<open>The declared replicas\<close>

definition assertSingleInstance :: "jsval \<Rightarrow> bool result" where
  "assertSingleInstance replicas =
     (if replicas = Undefined \<or> replicas = Str [] then ok True
      else case toNumber replicas of
             Fin r \<Rightarrow>
               if \<not> isInteger (Fin r) \<or> r < 1 then throw (InternalError ''ENCODER_REPLICAS must be a positive integer'')
               else if 1 < r then throw (InternalError ''ENCODER_REPLICAS is unsupported'')
               else ok True
           | _ \<Rightarrow> throw (InternalError ''ENCODER_REPLICAS must be a positive integer''))"

section \<open>Command lines\<close>

definition firstWord :: "jstring \<Rightarrow> jstring" where
  "firstWord s = takeWhile (\<lambda>u. \<not> isSpaceUnit u) (trim s)"

definition afterSlash :: "jstring \<Rightarrow> jstring" where
  "afterSlash s = rev (takeWhile (\<lambda>u. unat u \<noteq> 47) (rev s))"

text \<open>\<open>api.js\<close> as a whole path component or word, from the units before it.\<close>

fun apiWord :: "bool \<Rightarrow> jstring \<Rightarrow> bool" where
  "apiWord atStart [] = False"
| "apiWord atStart (u # s) =
     (atStart \<and> take 6 (u # s) = js ''api.js'' \<and> (drop 6 (u # s) = [] \<or> isSpaceUnit (hd (drop 6 (u # s)))) \<or>
      apiWord (isSpaceUnit u \<or> unat u = 47) s)"

definition looksLikeEncoder :: "jstring \<Rightarrow> bool" where
  "looksLikeEncoder cmd =
     (let program = afterSlash (firstWord cmd) in (program = js ''node'' \<or> program = js ''nodejs'') \<and> apiWord True cmd)"

text \<open>\<open>/proc/<pid>/cmdline\<close>, its words ended by NUL; \<open>None\<close> where it cannot be read.\<close>

definition describePid :: "jstring option \<Rightarrow> jstring option" where
  "describePid raw =
     (case raw of
        None \<Rightarrow> None
      | Some s \<Rightarrow>
          (let cmd = trim (map (\<lambda>u. if u = 0 then 32 else u) (rev (dropWhile (\<lambda>u. u = 0) (rev s))))
           in if cmd = [] then None else Some cmd))"

definition selfDescription :: "jstring option \<Rightarrow> jstring \<Rightarrow> jstring list \<Rightarrow> jstring" where
  "selfDescription raw argv0 args =
     (case describePid raw of Some cmd \<Rightarrow> cmd | None \<Rightarrow> concat (argv0 # map (\<lambda>a. 32 # a) args))"

section \<open>The lock file\<close>

definition lockRecord :: "nat \<Rightarrow> jstring \<Rightarrow> jstring \<Rightarrow> jstring" where
  "lockRecord processId cmd token =
     js ''{\"pid\":'' @ js (decimal processId) @ js '',\"cmd\":'' @ jsonQuote cmd @ js '',\"token\":'' @ jsonQuote token @ js ''}''"

record holder =
  hPid :: jsnum
  hCmd :: "jsval option"
  hToken :: "jsval option"
  hLegible :: bool
  hText :: "jstring option"

definition orNone :: "jsval \<Rightarrow> jsval option" where
  "orNone v = (if truthyVal v then Some v else None)"

text \<open>The three shapes of a record: this version's, one without a token, and a bare process number.\<close>

definition readLockHolder :: "(jsval \<Rightarrow> jstring) \<Rightarrow> jstring option \<Rightarrow> holder" where
  "readLockHolder textOf file =
     (case file of
        None \<Rightarrow> \<lparr>hPid = NaN, hCmd = None, hToken = None, hLegible = False, hText = None\<rparr>
      | Some text \<Rightarrow>
          if trim text = [] then \<lparr>hPid = NaN, hCmd = None, hToken = None, hLegible = False, hText = file\<rparr>
          else (case jsonParse text of
                  Some (Obj fs) \<Rightarrow>
                    (let p = parseInt10 (stringOf textOf (getProp (Obj fs) ''pid''))
                     in \<lparr>hPid = p, hCmd = orNone (getProp (Obj fs) ''cmd''), hToken = orNone (getProp (Obj fs) ''token''),
                         hLegible = isInteger p, hText = file\<rparr>)
                | Some (Arr vs) \<Rightarrow> \<lparr>hPid = NaN, hCmd = None, hToken = None, hLegible = False, hText = file\<rparr>
                | _ \<Rightarrow>
                    (let p = parseInt10 text
                     in \<lparr>hPid = p, hCmd = None, hToken = None, hLegible = isInteger p, hText = file\<rparr>)))"

text \<open>
  \<open>refuseLiveEncoder\<close>: whether a holder that is alive is a process number given to another program since. A
  recorded command line is compared; a lock without one is judged by what runs now.
\<close>

definition reusedPid :: "holder \<Rightarrow> jstring option \<Rightarrow> bool" where
  "reusedPid h liveCmd =
     (case liveCmd of
        None \<Rightarrow> False
      | Some live \<Rightarrow> (case hCmd h of Some c \<Rightarrow> c \<noteq> Str live | None \<Rightarrow> \<not> looksLikeEncoder live))"

section \<open>A process at the lock\<close>

definition INITIALIZING_RECHECK_PASSES :: nat where "INITIALIZING_RECHECK_PASSES = 10"
definition BREAK_PASSES :: nat where "BREAK_PASSES = 5"
definition MUTEX_WAIT_PASSES :: nat where "MUTEX_WAIT_PASSES = 50"

text \<open>What the break mutex is taken for: to publish, or to break the lock that held this text.\<close>

datatype job = Publish | Break "jstring option"

text \<open>How the work under the mutex ended: the lock is taken, the name existed, the work failed, or the break is done.\<close>

datatype outcome = Won | Taken | Failed | Broke

datatype stopReason = LockHeld | MutexBusy | KeepsRetaking | FileError

text \<open>
  The next call of a process; the last number is the pass of \<open>acquireInstanceLock\<close>. \<open>Entering\<close> and \<open>Marking\<close> are
  \<open>acquireBreakMutex\<close>, \<open>Linking\<close> and \<open>Writing\<close> the body of \<open>publishLock\<close>, \<open>Checking\<close> and \<open>Unlinking\<close> that of
  \<open>breakStaleLock\<close>, \<open>Leaving\<close> and \<open>Removing\<close> \<open>releaseBreakMutex\<close>, \<open>Reading\<close> is \<open>readLockHolderSettled\<close>, \<open>Judging\<close> asks
  whether the holder is alive and \<open>Comparing\<close> what it runs. \<open>Holding\<close> has the lock, \<open>Freeing\<close> is about to unlink it.
\<close>

datatype phase =
    Entering job nat nat
  | Marking job nat
  | Linking nat
  | Writing nat
  | Checking "jstring option" nat
  | Unlinking jstring nat
  | Leaving outcome nat
  | Removing outcome nat
  | Reading nat nat
  | Judging "jstring option" nat
  | Comparing "jstring option" nat
  | Holding
  | Freeing
  | Released
  | Stopped stopReason

record claimant =
  cPid :: nat
  cCmd :: jstring
  cToken :: jstring
  cPhase :: phase
  cRunning :: bool

record lockFiles =
  lockFile :: "jstring option"
  breakFile :: "jstring option"

text \<open>What a step sees: who is alive, what a live process runs, whether this mount has hard links, whether the call fails.\<close>

record sight =
  seesAlive :: "nat \<Rightarrow> bool"
  seesCommand :: "nat \<Rightarrow> jstring option"
  hardLinks :: bool
  fsError :: bool

definition ownRecord :: "claimant \<Rightarrow> jstring" where
  "ownRecord p = lockRecord (cPid p) (cCmd p) (cToken p)"

text \<open>\<open>acquireBreakMutex\<close>: create the mutex, then write the token into it.\<close>

definition acquireBreakMutex :: "sight \<Rightarrow> job \<Rightarrow> nat \<Rightarrow> nat \<Rightarrow> lockFiles \<Rightarrow> phase \<times> lockFiles" where
  "acquireBreakMutex v j attempt pass fs =
     (if MUTEX_WAIT_PASSES \<le> attempt then (Stopped MutexBusy, fs)
      else if fsError v then (Stopped FileError, fs)
      else if breakFile fs = None then (Marking j pass, fs\<lparr>breakFile := Some []\<rparr>)
      else (Entering j (Suc attempt) pass, fs))"

definition markMutex :: "sight \<Rightarrow> claimant \<Rightarrow> job \<Rightarrow> nat \<Rightarrow> lockFiles \<Rightarrow> phase \<times> lockFiles" where
  "markMutex v p j pass fs =
     (if fsError v then (Stopped FileError, fs)
      else (case j of Publish \<Rightarrow> Linking pass | Break text \<Rightarrow> Checking text pass, fs\<lparr>breakFile := Some (cToken p)\<rparr>))"

text \<open>After the mutex: the caller's next move.\<close>

definition afterMutex :: "outcome \<Rightarrow> nat \<Rightarrow> phase" where
  "afterMutex outcome pass =
     (case outcome of
        Won \<Rightarrow> Holding
      | Taken \<Rightarrow> Reading 0 pass
      | Failed \<Rightarrow> Stopped FileError
      | Broke \<Rightarrow> if BREAK_PASSES \<le> pass then Stopped KeepsRetaking else Entering Publish 0 (Suc pass))"

definition releaseBreakMutex :: "sight \<Rightarrow> claimant \<Rightarrow> outcome \<Rightarrow> nat \<Rightarrow> lockFiles \<Rightarrow> phase \<times> lockFiles" where
  "releaseBreakMutex v p outcome pass fs =
     (if \<not> fsError v \<and> breakFile fs = Some (cToken p) then (Removing outcome pass, fs) else (afterMutex outcome pass, fs))"

definition removeMutex :: "sight \<Rightarrow> outcome \<Rightarrow> nat \<Rightarrow> lockFiles \<Rightarrow> phase \<times> lockFiles" where
  "removeMutex v outcome pass fs = (afterMutex outcome pass, if fsError v then fs else fs\<lparr>breakFile := None\<rparr>)"

text \<open>
  The body of \<open>publishLock\<close>. A hard link publishes the whole record in one step; without hard links the name is
  created first and written through its descriptor next.
\<close>

definition publishLock :: "sight \<Rightarrow> claimant \<Rightarrow> nat \<Rightarrow> lockFiles \<Rightarrow> phase \<times> lockFiles" where
  "publishLock v p pass fs =
     (if fsError v then (Leaving Failed pass, fs)
      else if lockFile fs \<noteq> None then (Leaving Taken pass, fs)
      else if hardLinks v then (Leaving Won pass, fs\<lparr>lockFile := Some (ownRecord p)\<rparr>)
      else (Writing pass, fs\<lparr>lockFile := Some []\<rparr>))"

definition writeLock :: "sight \<Rightarrow> claimant \<Rightarrow> nat \<Rightarrow> lockFiles \<Rightarrow> phase \<times> lockFiles" where
  "writeLock v p pass fs =
     (if fsError v then (Leaving Failed pass, fs)
      else (Leaving Won pass, fs\<lparr>lockFile := map_option (\<lambda>_. ownRecord p) (lockFile fs)\<rparr>))"

text \<open>The body of \<open>breakStaleLock\<close>: unlink only what still holds the text that was judged.\<close>

definition breakStaleLock :: "sight \<Rightarrow> jstring option \<Rightarrow> nat \<Rightarrow> lockFiles \<Rightarrow> phase \<times> lockFiles" where
  "breakStaleLock v staleText pass fs =
     (let current = (if fsError v then None else lockFile fs)
      in case current of
           Some t \<Rightarrow> if staleText = Some t then (Unlinking t pass, fs) else (Leaving Broke pass, fs)
         | None \<Rightarrow> (Leaving Broke pass, fs))"

definition readLockHolderSettled :: "(jsval \<Rightarrow> jstring) \<Rightarrow> sight \<Rightarrow> nat \<Rightarrow> nat \<Rightarrow> lockFiles \<Rightarrow> phase \<times> lockFiles" where
  "readLockHolderSettled textOf v again pass fs =
     (let h = readLockHolder textOf (if fsError v then None else lockFile fs)
      in if hLegible h \<or> INITIALIZING_RECHECK_PASSES \<le> again then (Judging (hText h) pass, fs) else (Reading (Suc again) pass, fs))"

definition judgeHolder :: "(jsval \<Rightarrow> jstring) \<Rightarrow> sight \<Rightarrow> claimant \<Rightarrow> jstring option \<Rightarrow> nat \<Rightarrow> phase" where
  "judgeHolder textOf v p text pass =
     (case hPid (readLockHolder textOf text) of
        Fin r \<Rightarrow>
          if isInteger (Fin r) \<and> 0 < r \<and> seesAlive v (nat \<lfloor>r\<rfloor>) \<and> r \<noteq> of_nat (cPid p) then Comparing text pass
          else Entering (Break text) 0 pass
      | _ \<Rightarrow> Entering (Break text) 0 pass)"

definition refuseLiveEncoder :: "(jsval \<Rightarrow> jstring) \<Rightarrow> sight \<Rightarrow> jstring option \<Rightarrow> nat \<Rightarrow> phase" where
  "refuseLiveEncoder textOf v text pass =
     (let h = readLockHolder textOf text
      in case hPid h of
           Fin r \<Rightarrow> if reusedPid h (seesCommand v (nat \<lfloor>r\<rfloor>)) then Entering (Break text) 0 pass else Stopped LockHeld
         | _ \<Rightarrow> Stopped LockHeld)"

text \<open>The release function: unlink the record that is still one's own.\<close>

definition lockReleaser :: "(jsval \<Rightarrow> jstring) \<Rightarrow> sight \<Rightarrow> claimant \<Rightarrow> lockFiles \<Rightarrow> phase \<times> lockFiles" where
  "lockReleaser textOf v p fs =
     (if hToken (readLockHolder textOf (if fsError v then None else lockFile fs)) = Some (Str (cToken p)) then (Freeing, fs)
      else (Released, fs))"

text \<open>One call of a process.\<close>

definition advance :: "(jsval \<Rightarrow> jstring) \<Rightarrow> sight \<Rightarrow> claimant \<Rightarrow> lockFiles \<Rightarrow> phase \<times> lockFiles" where
  "advance textOf v p fs =
     (case cPhase p of
        Entering j attempt pass \<Rightarrow> acquireBreakMutex v j attempt pass fs
      | Marking j pass \<Rightarrow> markMutex v p j pass fs
      | Linking pass \<Rightarrow> publishLock v p pass fs
      | Writing pass \<Rightarrow> writeLock v p pass fs
      | Checking text pass \<Rightarrow> breakStaleLock v text pass fs
      | Unlinking text pass \<Rightarrow> (Leaving Broke pass, if fsError v then fs else fs\<lparr>lockFile := None\<rparr>)
      | Leaving outcome pass \<Rightarrow> releaseBreakMutex v p outcome pass fs
      | Removing outcome pass \<Rightarrow> removeMutex v outcome pass fs
      | Reading again pass \<Rightarrow> readLockHolderSettled textOf v again pass fs
      | Judging text pass \<Rightarrow> (judgeHolder textOf v p text pass, fs)
      | Comparing text pass \<Rightarrow> (refuseLiveEncoder textOf v text pass, fs)
      | Holding \<Rightarrow> lockReleaser textOf v p fs
      | Freeing \<Rightarrow> (Released, if fsError v then fs else fs\<lparr>lockFile := None\<rparr>)
      | Released \<Rightarrow> (Released, fs)
      | Stopped why \<Rightarrow> (Stopped why, fs))"

section \<open>The processes of a host\<close>

record lockWorld =
  files :: lockFiles
  procs :: "nat \<Rightarrow> claimant option"

text \<open>
  What a step sees agrees with the process table: a running process is alive, and its command line reads as the
  description it recorded or not at all.
\<close>

definition truthful :: "lockWorld \<Rightarrow> sight \<Rightarrow> bool" where
  "truthful W v \<longleftrightarrow>
     (\<forall>i p. procs W i = Some p \<longrightarrow> cRunning p \<longrightarrow>
        seesAlive v (cPid p) \<and> (seesCommand v (cPid p) = None \<or> seesCommand v (cPid p) = Some (cCmd p)))"

text \<open>The text a process has read and acts on.\<close>

fun recalled :: "phase \<Rightarrow> jstring option" where
  "recalled (Entering (Break text) _ _) = text"
| "recalled (Marking (Break text) _) = text"
| "recalled (Checking text _) = text"
| "recalled (Unlinking text _) = Some text"
| "recalled (Judging text _) = text"
| "recalled (Comparing text _) = text"
| "recalled _ = None"

text \<open>A random token occurs nowhere before it is drawn.\<close>

definition unseen :: "(jsval \<Rightarrow> jstring) \<Rightarrow> lockWorld \<Rightarrow> jstring \<Rightarrow> bool" where
  "unseen textOf W token \<longleftrightarrow>
     token \<noteq> [] \<and> hToken (readLockHolder textOf (lockFile (files W))) \<noteq> Some (Str token) \<and> breakFile (files W) \<noteq> Some token \<and>
     (\<forall>i p. procs W i = Some p \<longrightarrow> cToken p \<noteq> token \<and> hToken (readLockHolder textOf (recalled (cPhase p))) \<noteq> Some (Str token))"

definition moved :: "nat \<Rightarrow> claimant \<Rightarrow> phase \<times> lockFiles \<Rightarrow> lockWorld \<Rightarrow> lockWorld" where
  "moved i p r W = W\<lparr>files := snd r, procs := (procs W)(i \<mapsto> p\<lparr>cPhase := fst r\<rparr>)\<rparr>"

text \<open>
  A process starts with a process number no running process has, a call of a running process takes effect, or a
  process dies where it is. Numbers of dead processes are given out again.
\<close>

inductive lockStep :: "(jsval \<Rightarrow> jstring) \<Rightarrow> lockWorld \<Rightarrow> lockWorld \<Rightarrow> bool" for textOf where
  start: "procs W i = None \<Longrightarrow> 0 < n \<Longrightarrow> int n \<le> MAX_SAFE_INTEGER \<Longrightarrow> cmd \<noteq> [] \<Longrightarrow> unseen textOf W token \<Longrightarrow>
    (\<forall>j q. procs W j = Some q \<longrightarrow> cRunning q \<longrightarrow> cPid q \<noteq> n) \<Longrightarrow>
    lockStep textOf W (W\<lparr>procs := (procs W)(i \<mapsto>
      \<lparr>cPid = n, cCmd = cmd, cToken = token, cPhase = Entering Publish 0 0, cRunning = True\<rparr>)\<rparr>)"
| call: "procs W i = Some p \<Longrightarrow> cRunning p \<Longrightarrow> truthful W v \<Longrightarrow>
    lockStep textOf W (moved i p (advance textOf v p (files W)) W)"
| die: "procs W i = Some p \<Longrightarrow> lockStep textOf W (W\<lparr>procs := (procs W)(i \<mapsto> p\<lparr>cRunning := False\<rparr>)\<rparr>)"

inductive_cases lockStepE: "lockStep textOf W W'"

text \<open>A run of the host, from any files an earlier boot left behind.\<close>

inductive lockReach :: "(jsval \<Rightarrow> jstring) \<Rightarrow> lockWorld \<Rightarrow> bool" for textOf where
  boot: "procs W = (\<lambda>_. None) \<Longrightarrow> lockReach textOf W"
| step: "lockReach textOf W \<Longrightarrow> lockStep textOf W W' \<Longrightarrow> lockReach textOf W'"

end
