(* ===== verification/InstanceLockFacts.thy ===== *)
theory InstanceLockFacts
  imports InstanceLock
begin

text \<open>
  What the lock protocol keeps: a record reads back as the process that wrote it, the break mutex admits one process
  at a time, and the file of a running owner is its record until it releases.
\<close>

section \<open>The record reads back\<close>

lemma plain_string:
  "list_all (\<lambda>c. 35 \<le> (of_char c :: nat) \<and> (of_char c :: nat) \<noteq> 92) k \<Longrightarrow> jsonString (js k @ 34 # r) = Some (js k, r)"
proof (induction k)
  case (Cons c k)
  let ?u = "of_nat (of_char c) :: 16 word"
  have "unat ?u \<noteq> 34" "32 \<le> unat ?u" "unat ?u \<noteq> 92" using Cons.prems by simp_all
  then have "jsonString (?u # js k @ 34 # r) = consTo ?u (jsonString (js k @ 34 # r))" by (rule plain_reads)
  then show ?case using Cons by (simp add: consTo_def del: jsonString.simps)
qed simp

lemma decimal_leads: "0 < n \<Longrightarrow> \<exists>c s. decimal n = c # s \<and> 48 < (of_char c :: nat) \<and> (of_char c :: nat) \<le> 57"
proof (induction n rule: decimal.induct)
  case (1 n)
  show ?case
  proof (cases "n < 10")
    case True
    then show ?thesis using 1(2) by (subst decimal.simps) (simp add: digitChar_def)
  next
    case False
    then have "0 < n div 10" by (simp add: div_greater_zero_iff)
    then obtain c s where "decimal (n div 10) = c # s" "48 < (of_char c :: nat)" "(of_char c :: nat) \<le> 57"
      using 1(1) False by blast
    then show ?thesis using False by (subst decimal.simps) simp
  qed
qed

lemma number_rat_small: "0 < n \<Longrightarrow> int n \<le> MAX_SAFE_INTEGER \<Longrightarrow> js_Number_rat (of_nat n) = Fin (of_nat n)"
proof -
  assume n: "0 < n" "int n \<le> MAX_SAFE_INTEGER"
  have "fl (of_int (int n)) = of_int (int n)" using n by (intro fl_int) (simp add: MAX_SAFE_INTEGER_def)
  then have f: "fl (of_nat n) = of_nat n" by simp
  have "(of_nat n :: rat) < 2 ^ 1024"
  proof -
    have "(of_int (int n) :: rat) < of_int (2 ^ 1024)" using n(2) by (subst of_int_less_iff) (simp add: MAX_SAFE_INTEGER_def)
    then show ?thesis by simp
  qed
  moreover have "(1 :: rat) / 2 ^ 1022 \<le> 1" by simp
  moreover have "(1 :: rat) \<le> of_nat n" using n(1) by simp
  ultimately show ?thesis by (simp add: js_Number_rat_def f not_less not_le order_trans)
qed

lemma jsonNumber_decimal:
  assumes n: "0 < n" "int n \<le> MAX_SAFE_INTEGER" and r: "unat u \<notin> {46, 69, 101}" "\<not> isDigit u"
  shows "jsonNumber (js (decimal n) @ u # r) = Some (Num (Fin (of_nat n)), u # r)"
proof -
  obtain c s where c: "decimal n = c # s" "48 < (of_char c :: nat)" "(of_char c :: nat) \<le> 57" using decimal_leads [OF n(1)] by blast
  have "unsign (js (decimal n) @ u # r) = js (decimal n) @ u # r" using c by (simp add: unsign_def)
  moreover have "unat (hd (js (decimal n))) \<noteq> 48" "js (decimal n) \<noteq> []" using c by simp_all
  moreover have "takeWhile isDigit (js (decimal n) @ u # r) = js (decimal n)" "dropWhile isDigit (js (decimal n) @ u # r) = u # r"
    using r(2) by (simp_all add: takeWhile_digits)
  ultimately show ?thesis using r(1) decimal_digits [of n] number_rat_small [OF n]
    by (simp add: jsonNumber_def jsonFraction_def jsonExponent_def Let_def del: js_simps)
qed

lemma jsonValue_decimal:
  assumes n: "0 < n" "int n \<le> MAX_SAFE_INTEGER" and r: "unat u \<notin> {46, 69, 101}" "\<not> isDigit u"
  shows "jsonValue (Suc k) (js (decimal n) @ u # r) = Some (Num (Fin (of_nat n)), u # r)"
proof -
  obtain c s where c: "decimal n = c # s" "48 < (of_char c :: nat)" "(of_char c :: nat) \<le> 57" using decimal_leads [OF n(1)] by blast
  let ?c = "of_nat (of_char c) :: 16 word"
  have units: "(of_char c :: nat) \<noteq> 34" "(of_char c :: nat) \<noteq> 91" "(of_char c :: nat) \<noteq> 123" "\<not> isJsonSpace ?c"
    using c by (simp_all add: isJsonSpace_def)
  have whole: "js (decimal n) @ u # r = ?c # js s @ u # r" by (simp add: c)
  have word: "jsonWord (js (decimal n) @ u # r) = jsonNumber (js (decimal n) @ u # r)"
  proof -
    have "?c \<noteq> of_nat (of_char CHR ''t'')" "?c \<noteq> of_nat (of_char CHR ''f'')" "?c \<noteq> of_nat (of_char CHR ''n'')"
      using c by (auto dest!: arg_cong [of _ _ unat] simp del: of_char_eq_iff)
    then show ?thesis unfolding whole by (simp add: jsonWord_def)
  qed
  have "jsonWord (?c # js s @ u # r) = Some (Num (Fin (of_nat n)), u # r)"
    using word jsonNumber_decimal [OF assms, of r] by (simp only: whole)
  then show ?thesis by (simp only: jsonValue.simps whole) (simp add: skipSpace_def units)
qed

lemma lockRecord_shape:
  "lockRecord n cmd token = 123 # 34 # js ''pid'' @ 34 # 58 # js (decimal n) @ 44 # 34 # js ''cmd'' @ 34 # 58 # 34 # quoteUnits cmd @
     34 # 44 # 34 # js ''token'' @ 34 # 58 # 34 # quoteUnits token @ 34 # [125]"
  by (simp add: lockRecord_def jsonQuote_def)

lemma jsonMembers_string:
  assumes k: "list_all (\<lambda>c. 35 \<le> (of_char c :: nat) \<and> (of_char c :: nat) \<noteq> 92) k"
  shows "jsonMembers (Suc (Suc n)) (34 # js k @ 34 # 58 # 34 # quoteUnits t @ 34 # u # r) fs =
     (if unat u = 125 then Some (Obj (jm_set (js k) (Str t) fs), r)
      else if unat u = 44 then jsonMembers (Suc n) r (jm_set (js k) (Str t) fs)
      else if isJsonSpace u then jsonMembers (Suc (Suc n)) (34 # js k @ 34 # 58 # 34 # quoteUnits t @ 34 # u # r) fs
      else None)"
proof -
  have "jsonValue (Suc n) (34 # quoteUnits t @ 34 # u # r) = Some (Str t, u # r)"
    by (simp add: skipSpace_def isJsonSpace_def quoted_reads)
  then show ?thesis by (simp add: skipSpace_def isJsonSpace_def plain_string [OF k] del: jsonValue.simps)
qed

lemma lockRecord_parses:
  assumes n: "0 < n" "int n \<le> MAX_SAFE_INTEGER"
  shows "jsonParse (lockRecord n cmd token) =
     Some (Obj [(js ''pid'', Num (Fin (of_nat n))), (js ''cmd'', Str cmd), (js ''token'', Str token)])"
proof -
  let ?s = "lockRecord n cmd token"
  let ?k = "2 * length ?s + 1"
  let ?t = "34 # js ''token'' @ 34 # 58 # 34 # quoteUnits token @ 34 # 125 # []"
  let ?c = "34 # js ''cmd'' @ 34 # 58 # 34 # quoteUnits cmd @ 34 # 44 # ?t"
  let ?p = "34 # js ''pid'' @ 34 # 58 # js (decimal n) @ 44 # ?c"
  have keys: "js ''pid'' \<noteq> js ''cmd''" "js ''pid'' \<noteq> js ''token''" "js ''cmd'' \<noteq> js ''token''" by (simp_all del: js_simps)
  have t: "jsonMembers (Suc (Suc m)) ?t fs = Some (Obj (jm_set (js ''token'') (Str token) fs), [])" for m fs
    using jsonMembers_string [of "''token''" m token 125 "[]" fs] by (simp del: js_simps jsonMembers.simps)
  have c: "jsonMembers (Suc (Suc (Suc m))) ?c fs = jsonMembers (Suc (Suc m)) ?t (jm_set (js ''cmd'') (Str cmd) fs)" for m fs
    using jsonMembers_string [of "''cmd''" "Suc m" cmd 44 ?t fs] by (simp del: js_simps jsonMembers.simps)
  have v: "jsonValue (Suc m) (js (decimal n) @ 44 # ?c) = Some (Num (Fin (of_nat n)), 44 # ?c)" for m
    by (rule jsonValue_decimal [OF n]) (simp_all add: isDigit_def)
  have p: "jsonMembers (Suc (Suc m)) ?p [] = jsonMembers (Suc m) ?c [(js ''pid'', Num (Fin (of_nat n)))]" for m
  proof -
    have "jsonString (js ''pid'' @ 34 # 58 # js (decimal n) @ 44 # ?c) = Some (js ''pid'', 58 # js (decimal n) @ 44 # ?c)"
      by (rule plain_string) simp
    then show ?thesis using v [of m]
      by (simp add: skipSpace_def isJsonSpace_def jm_set_def del: js_simps jsonValue.simps)
  qed
  have "jsonValue (Suc (Suc (Suc (Suc (Suc ?k))))) ?s = jsonMembers (Suc (Suc (Suc (Suc ?k)))) ?p []"
    by (simp add: lockRecord_shape skipSpace_def isJsonSpace_def del: js_simps jsonMembers.simps)
  also have "\<dots> = Some (Obj [(js ''pid'', Num (Fin (of_nat n))), (js ''cmd'', Str cmd), (js ''token'', Str token)], [])"
    using keys by (simp only: p c t) (simp add: jm_set_def del: js_simps)
  finally show ?thesis using jsonParse_fuel [of ?s "Suc (Suc (Suc (Suc (Suc ?k))))"] by (simp add: skipSpace_def)
qed

lemma parseInt10_decimal:
  assumes n: "0 < n" "int n \<le> MAX_SAFE_INTEGER"
  shows "parseInt10 (js (decimal n)) = Fin (of_nat n)"
proof -
  obtain c s where c: "decimal n = c # s" "48 < (of_char c :: nat)" "(of_char c :: nat) \<le> 57" using decimal_leads [OF n(1)] by blast
  let ?c = "of_nat (of_char c) :: 16 word"
  have d: "js (decimal n) = ?c # js s" by (simp add: c)
  have space: "\<not> isSpaceUnit ?c" using c by (simp add: isSpaceUnit_def Let_def)
  have digits: "isDigit ?c" "takeWhile isDigit (js s) = js s" "digitsValue (?c # js s) = n"
    using decimal_digits [of n] unfolding d by (simp_all add: list_all_iff takeWhile_eq_all_conv)
  have "js_Number_int (int n) = Fin (of_nat n)" using n js_Number_int_small [of "int n"] by simp
  then show ?thesis unfolding d parseInt10_def using c(2,3) space by (simp add: digits)
qed

lemma readLockHolder_record:
  assumes n: "0 < n" "int n \<le> MAX_SAFE_INTEGER" and s: "cmd \<noteq> []" "token \<noteq> []"
  shows "readLockHolder textOf (Some (lockRecord n cmd token)) =
    \<lparr>hPid = Fin (of_nat n), hCmd = Some (Str cmd), hToken = Some (Str token), hLegible = True, hText = Some (lockRecord n cmd token)\<rparr>"
proof -
  have keys: "js ''pid'' \<noteq> js ''cmd''" "js ''pid'' \<noteq> js ''token''" "js ''cmd'' \<noteq> js ''token''" by (simp_all del: js_simps)
  have "trim (lockRecord n cmd token) \<noteq> []"
    by (simp add: lockRecord_shape trim_def isSpaceUnit_def Let_def dropWhile_append1)
  moreover have "isInteger (Fin (of_nat n))" by simp
  moreover have "stringOf textOf (Num (Fin (of_nat n))) = js (decimal n)"
  proof -
    have "(of_nat n :: rat) < 10 ^ 21"
    proof -
      have "(of_int (int n) :: rat) < of_int (10 ^ 21)" using n(2) by (subst of_int_less_iff) (simp add: MAX_SAFE_INTEGER_def)
      then show ?thesis by simp
    qed
    then show ?thesis by (simp add: stringOf_def)
  qed
  ultimately show ?thesis using s keys
    by (simp add: readLockHolder_def lockRecord_parses [OF n] getProp_def jm_get_def parseInt10_decimal [OF n] orNone_def del: js_simps)
qed

section \<open>The invariant\<close>

text \<open>The phases inside the break mutex, those after the record is published, and those that own the lock.\<close>

fun inMutex :: "phase \<Rightarrow> bool" where
  "inMutex (Marking _ _) = True" | "inMutex (Linking _) = True" | "inMutex (Writing _) = True"
| "inMutex (Checking _ _) = True" | "inMutex (Unlinking _ _) = True" | "inMutex (Leaving _ _) = True"
| "inMutex (Removing _ _) = True" | "inMutex _ = False"

fun mutexText :: "phase \<Rightarrow> jstring \<Rightarrow> jstring" where
  "mutexText (Marking _ _) token = []" | "mutexText _ token = token"

fun owns :: "phase \<Rightarrow> bool" where
  "owns (Leaving Won _) = True" | "owns (Removing Won _) = True" | "owns Holding = True" | "owns Freeing = True"
| "owns _ = False"

definition hasPublished :: "phase \<Rightarrow> bool" where
  "hasPublished ph \<longleftrightarrow> owns ph \<or> ph = Released"

text \<open>The text a process has judged stale.\<close>

fun judged :: "phase \<Rightarrow> jstring option" where
  "judged (Entering (Break text) _ _) = text" | "judged (Marking (Break text) _) = text"
| "judged (Checking text _) = text" | "judged (Unlinking text _) = Some text" | "judged _ = None"

lemma judged_recalled: "judged ph = Some t \<Longrightarrow> recalled ph = Some t"
  by (induction ph rule: judged.induct) auto

lemma recalled_unpublished: "recalled ph = Some t \<Longrightarrow> \<not> hasPublished ph"
  by (induction ph rule: recalled.induct) (auto simp: hasPublished_def)

definition identified :: "lockWorld \<Rightarrow> bool" where
  "identified W \<longleftrightarrow>
     (\<forall>i p. procs W i = Some p \<longrightarrow> 0 < cPid p \<and> int (cPid p) \<le> MAX_SAFE_INTEGER \<and> cCmd p \<noteq> [] \<and> cToken p \<noteq> []) \<and>
     (\<forall>i j p q. procs W i = Some p \<longrightarrow> procs W j = Some q \<longrightarrow> cToken p = cToken q \<longrightarrow> i = j) \<and>
     (\<forall>i j p q. procs W i = Some p \<longrightarrow> procs W j = Some q \<longrightarrow> cRunning p \<longrightarrow> cRunning q \<longrightarrow> cPid p = cPid q \<longrightarrow> i = j)"

definition mutexInv :: "lockWorld \<Rightarrow> bool" where
  "mutexInv W \<longleftrightarrow>
     (\<forall>i p. procs W i = Some p \<longrightarrow> inMutex (cPhase p) \<longrightarrow> breakFile (files W) = Some (mutexText (cPhase p) (cToken p))) \<and>
     (\<forall>i j p q. procs W i = Some p \<longrightarrow> procs W j = Some q \<longrightarrow> inMutex (cPhase p) \<longrightarrow> inMutex (cPhase q) \<longrightarrow> i = j)"

definition recordInv :: "lockWorld \<Rightarrow> bool" where
  "recordInv W \<longleftrightarrow>
     (\<forall>i p. procs W i = Some p \<longrightarrow> lockFile (files W) = Some (ownRecord p) \<longrightarrow> hasPublished (cPhase p)) \<and>
     (\<forall>i j p q. procs W i = Some p \<longrightarrow> procs W j = Some q \<longrightarrow> recalled (cPhase q) = Some (ownRecord p) \<longrightarrow> hasPublished (cPhase p)) \<and>
     (\<forall>i j p q. procs W i = Some p \<longrightarrow> procs W j = Some q \<longrightarrow> judged (cPhase q) = Some (ownRecord p) \<longrightarrow> cRunning p \<longrightarrow> cPhase p = Released)"

definition ownerInv :: "lockWorld \<Rightarrow> bool" where
  "ownerInv W \<longleftrightarrow>
     (\<forall>i p. procs W i = Some p \<longrightarrow> cRunning p \<longrightarrow> owns (cPhase p) \<longrightarrow> lockFile (files W) = Some (ownRecord p)) \<and>
     (\<forall>i p t n. procs W i = Some p \<longrightarrow> cPhase p = Unlinking t n \<longrightarrow> lockFile (files W) = Some t \<or> lockFile (files W) = None) \<and>
     (\<forall>i p n. procs W i = Some p \<longrightarrow> cPhase p = Writing n \<longrightarrow> lockFile (files W) = Some [])"

definition lockInv :: "lockWorld \<Rightarrow> bool" where
  "lockInv W \<longleftrightarrow> identified W \<and> mutexInv W \<and> recordInv W \<and> ownerInv W"

text \<open>The record of a process names it.\<close>

lemma readLockHolder_own:
  "identified W \<Longrightarrow> procs W i = Some p \<Longrightarrow>
   readLockHolder textOf (Some (ownRecord p)) =
     \<lparr>hPid = Fin (of_nat (cPid p)), hCmd = Some (Str (cCmd p)), hToken = Some (Str (cToken p)), hLegible = True, hText = Some (ownRecord p)\<rparr>"
  unfolding identified_def ownRecord_def by (blast intro: readLockHolder_record)

lemma ownRecord_inj:
  assumes "identified W" "procs W i = Some p" "procs W j = Some q" "ownRecord p = ownRecord q"
  shows "i = j"
proof -
  have "Some (Str (cToken p)) = Some (Str (cToken q))"
    using readLockHolder_own [OF assms(1,2)] readLockHolder_own [OF assms(1,3)] assms(4) by (metis holder.select_convs(3))
  then show ?thesis using assms unfolding identified_def by blast
qed

lemma ownRecord_nonempty [simp]: "ownRecord p \<noteq> []"
  by (simp add: ownRecord_def lockRecord_shape)

text \<open>A step of one process keeps the invariant when it meets these conditions on its next phase and the files.\<close>

lemma lockInv_moved:
  assumes inv: "lockInv W" and p: "procs W i = Some p"
    and mutex: "inMutex ph \<Longrightarrow> breakFile fs = Some (mutexText ph (cToken p))"
      "\<And>j q. procs W j = Some q \<Longrightarrow> j \<noteq> i \<Longrightarrow> inMutex (cPhase q) \<Longrightarrow> breakFile fs = breakFile (files W) \<and> \<not> inMutex ph"
    and published: "hasPublished (cPhase p) \<Longrightarrow> hasPublished ph" "cPhase p = Released \<Longrightarrow> ph = Released"
    and content: "lockFile fs = lockFile (files W) \<or> lockFile fs = None \<or> lockFile fs = Some [] \<or> lockFile fs = Some (ownRecord p) \<and> hasPublished ph"
    and texts: "\<And>t. recalled ph = Some t \<Longrightarrow> recalled (cPhase p) = Some t \<or> lockFile (files W) = Some t"
    and stale: "\<And>j q. procs W j = Some q \<Longrightarrow> j \<noteq> i \<Longrightarrow> judged ph = Some (ownRecord q) \<Longrightarrow> cRunning q \<Longrightarrow> cPhase q = Released"
    and own: "owns ph \<Longrightarrow> lockFile fs = Some (ownRecord p)"
      "\<And>j q. procs W j = Some q \<Longrightarrow> j \<noteq> i \<Longrightarrow> cRunning q \<Longrightarrow> owns (cPhase q) \<Longrightarrow> lockFile fs = lockFile (files W)"
    and unlink: "\<And>t n. ph = Unlinking t n \<Longrightarrow> lockFile fs = Some t \<or> lockFile fs = None"
      "\<And>j q t n. procs W j = Some q \<Longrightarrow> j \<noteq> i \<Longrightarrow> cPhase q = Unlinking t n \<Longrightarrow> lockFile fs = lockFile (files W) \<or> lockFile fs = None"
    and writes: "\<And>n. ph = Writing n \<Longrightarrow> lockFile fs = Some []"
      "\<And>j q n. procs W j = Some q \<Longrightarrow> j \<noteq> i \<Longrightarrow> cPhase q = Writing n \<Longrightarrow> lockFile fs = lockFile (files W)"
  shows "lockInv (moved i p (ph, fs) W)"
proof -
  let ?W = "moved i p (ph, fs) W"
  have idW: "identified W" and mu: "mutexInv W" and re: "recordInv W" and ow: "ownerInv W" using inv by (simp_all add: lockInv_def)
  have P: "procs ?W j = (if j = i then Some (p\<lparr>cPhase := ph\<rparr>) else procs W j)" for j by (simp add: moved_def)
  have F: "files ?W = fs" by (simp add: moved_def)
  have rec: "ownRecord (p\<lparr>cPhase := ph\<rparr>) = ownRecord p" by (simp add: ownRecord_def)
  have "identified ?W" using idW p unfolding identified_def P by (auto split: if_splits)
  moreover have "mutexInv ?W" using mu mutex unfolding mutexInv_def P F by (auto split: if_splits)
  moreover have "recordInv ?W"
  proof -
    have R1: "procs W j = Some q \<Longrightarrow> lockFile (files W) = Some (ownRecord q) \<Longrightarrow> hasPublished (cPhase q)" for j q
      using re unfolding recordInv_def by blast
    have R2: "procs W j = Some q \<Longrightarrow> procs W k = Some r \<Longrightarrow> recalled (cPhase r) = Some (ownRecord q) \<Longrightarrow> hasPublished (cPhase q)" for j k q r
      using re unfolding recordInv_def by blast
    have R3: "procs W j = Some q \<Longrightarrow> procs W k = Some r \<Longrightarrow> judged (cPhase r) = Some (ownRecord q) \<Longrightarrow> cRunning q \<Longrightarrow> cPhase q = Released" for j k q r
      using re unfolding recordInv_def by blast
    have T: "procs W j = Some q \<Longrightarrow> recalled ph = Some (ownRecord q) \<Longrightarrow> hasPublished (cPhase q)" for j q
      using texts R1 R2 p by blast
    have self: "judged ph \<noteq> Some (ownRecord p)"
      using T [OF p] published(1) judged_recalled recalled_unpublished by blast
    show ?thesis unfolding recordInv_def P F
    proof (intro conjI allI impI)
      fix j q assume q: "(if j = i then Some (p\<lparr>cPhase := ph\<rparr>) else procs W j) = Some q" "lockFile fs = Some (ownRecord q)"
      show "hasPublished (cPhase q)"
      proof (cases "j = i")
        case True
        then show ?thesis using q content R1 [OF p] published(1) by (auto simp: rec)
      next
        case False
        then show ?thesis using q content R1 [of j q] ownRecord_inj [OF idW p, of j q] by auto
      qed
    next
      fix j k q r assume "(if j = i then Some (p\<lparr>cPhase := ph\<rparr>) else procs W j) = Some q"
        "(if k = i then Some (p\<lparr>cPhase := ph\<rparr>) else procs W k) = Some r" "recalled (cPhase r) = Some (ownRecord q)"
      then show "hasPublished (cPhase q)"
        using T [of j q] T [OF p] R2 [of j q k r] R2 [OF p, of k r] published(1) by (auto simp: rec split: if_splits)
    next
      fix j k q r assume q: "(if j = i then Some (p\<lparr>cPhase := ph\<rparr>) else procs W j) = Some q"
        and r: "(if k = i then Some (p\<lparr>cPhase := ph\<rparr>) else procs W k) = Some r"
        and own: "judged (cPhase r) = Some (ownRecord q)" "cRunning q"
      show "cPhase q = Released"
      proof (cases "j = i")
        case True
        then have "q = p\<lparr>cPhase := ph\<rparr>" using q by simp
        then show ?thesis using r own self R3 [OF p, of k r] published(2) by (cases "k = i") (auto simp: rec)
      next
        case False
        then show ?thesis using q r own stale [of j q] R3 [of j q k r] by (cases "k = i") auto
      qed
    qed
  qed
  moreover have "ownerInv ?W"
  proof -
    have O1: "procs W j = Some q \<Longrightarrow> cRunning q \<Longrightarrow> owns (cPhase q) \<Longrightarrow> lockFile (files W) = Some (ownRecord q)" for j q
      using ow unfolding ownerInv_def by blast
    have O2: "procs W j = Some q \<Longrightarrow> cPhase q = Unlinking t n \<Longrightarrow> lockFile (files W) = Some t \<or> lockFile (files W) = None" for j q t n
      using ow unfolding ownerInv_def by metis
    have O3: "procs W j = Some q \<Longrightarrow> cPhase q = Writing n \<Longrightarrow> lockFile (files W) = Some []" for j q n
      using ow unfolding ownerInv_def by blast
    show ?thesis unfolding ownerInv_def P F
    proof (intro conjI allI impI)
      fix j q assume "(if j = i then Some (p\<lparr>cPhase := ph\<rparr>) else procs W j) = Some q" "cRunning q" "owns (cPhase q)"
      then show "lockFile fs = Some (ownRecord q)"
        using own(1) own(2) [of j q] O1 [of j q] by (cases "j = i") (auto simp: rec)
    next
      fix j q t n assume "(if j = i then Some (p\<lparr>cPhase := ph\<rparr>) else procs W j) = Some q" "cPhase q = Unlinking t n"
      then show "lockFile fs = Some t \<or> lockFile fs = None"
        using unlink(1) [of t n] unlink(2) [of j q t n] O2 [of j q t n] by (cases "j = i") auto
    next
      fix j q n assume "(if j = i then Some (p\<lparr>cPhase := ph\<rparr>) else procs W j) = Some q" "cPhase q = Writing n"
      then show "lockFile fs = Some []"
        using writes(1) [of n] writes(2) [of j q n] O3 [of j q n] by (cases "j = i") auto
    qed
  qed
  ultimately show ?thesis by (simp add: lockInv_def)
qed

lemma mutex_alone:
  "mutexInv W \<Longrightarrow> procs W i = Some p \<Longrightarrow> inMutex (cPhase p) \<Longrightarrow> procs W j = Some q \<Longrightarrow> inMutex (cPhase q) \<Longrightarrow> j = i"
  unfolding mutexInv_def by blast

lemma mutex_text:
  "mutexInv W \<Longrightarrow> procs W i = Some p \<Longrightarrow> inMutex (cPhase p) \<Longrightarrow> breakFile (files W) = Some (mutexText (cPhase p) (cToken p))"
  unfolding mutexInv_def by blast

lemma owner_file:
  "ownerInv W \<Longrightarrow> procs W i = Some p \<Longrightarrow> cRunning p \<Longrightarrow> owns (cPhase p) \<Longrightarrow> lockFile (files W) = Some (ownRecord p)"
  unfolding ownerInv_def by blast

lemma file_published:
  "recordInv W \<Longrightarrow> procs W i = Some p \<Longrightarrow> lockFile (files W) = Some (ownRecord p) \<Longrightarrow> hasPublished (cPhase p)"
  unfolding recordInv_def by blast

lemma recalled_published:
  "recordInv W \<Longrightarrow> procs W i = Some p \<Longrightarrow> procs W j = Some q \<Longrightarrow> recalled (cPhase q) = Some (ownRecord p) \<Longrightarrow> hasPublished (cPhase p)"
  unfolding recordInv_def by blast

lemma judged_stale:
  "recordInv W \<Longrightarrow> procs W j = Some q \<Longrightarrow> procs W i = Some p \<Longrightarrow> judged (cPhase p) = Some (ownRecord q) \<Longrightarrow> cRunning q \<Longrightarrow>
   cPhase q = Released"
  unfolding recordInv_def by blast

text \<open>A step that leaves the files as they are.\<close>

lemma lockInv_still:
  assumes inv: "lockInv W" and p: "procs W i = Some p" and run: "cRunning p"
    and mutex: "inMutex ph \<Longrightarrow> inMutex (cPhase p) \<and> mutexText ph (cToken p) = mutexText (cPhase p) (cToken p)"
    and published: "hasPublished (cPhase p) \<Longrightarrow> hasPublished ph" "cPhase p = Released \<Longrightarrow> ph = Released"
    and texts: "\<And>t. recalled ph = Some t \<Longrightarrow> recalled (cPhase p) = Some t \<or> lockFile (files W) = Some t"
    and stale: "\<And>j q. procs W j = Some q \<Longrightarrow> j \<noteq> i \<Longrightarrow> judged ph = Some (ownRecord q) \<Longrightarrow> cRunning q \<Longrightarrow> cPhase q = Released"
    and own: "owns ph \<Longrightarrow> owns (cPhase p)"
    and unlink: "\<And>t n. ph = Unlinking t n \<Longrightarrow> lockFile (files W) = Some t"
    and writes: "\<And>n. ph = Writing n \<Longrightarrow> cPhase p = Writing n"
  shows "lockInv (moved i p (ph, files W) W)"
proof -
  have mu: "mutexInv W" and ow: "ownerInv W" using inv by (simp_all add: lockInv_def)
  show ?thesis
  proof (rule lockInv_moved [OF inv p _ _ published _ texts stale])
    show "inMutex ph \<Longrightarrow> breakFile (files W) = Some (mutexText ph (cToken p))" using mutex mutex_text [OF mu p] by simp
    show "procs W j = Some q \<Longrightarrow> j \<noteq> i \<Longrightarrow> inMutex (cPhase q) \<Longrightarrow> breakFile (files W) = breakFile (files W) \<and> \<not> inMutex ph" for j q
      using mutex mutex_alone [OF mu p] by blast
    show "owns ph \<Longrightarrow> lockFile (files W) = Some (ownRecord p)" using own owner_file [OF ow p run] by blast
    show "\<And>t n. ph = Unlinking t n \<Longrightarrow> lockFile (files W) = Some t \<or> lockFile (files W) = None" using unlink by blast
    show "\<And>n. ph = Writing n \<Longrightarrow> lockFile (files W) = Some []" using writes ow p unfolding ownerInv_def by blast
  qed simp_all
qed

lemma stale_text:
  assumes inv: "lockInv W" and p: "procs W i = Some p"
    and same: "judged ph = None \<or> judged ph = judged (cPhase p)"
  shows "procs W j = Some q \<Longrightarrow> judged ph = Some (ownRecord q) \<Longrightarrow> cRunning q \<Longrightarrow> cPhase q = Released"
  using judged_stale [of W j q i p] assms by (auto simp: lockInv_def)

text \<open>A running process is never ruled stale by another one.\<close>

lemma running_not_stale:
  assumes inv: "lockInv W" and v: "truthful W v" and p: "procs W i = Some p" "cRunning p"
    and q: "procs W j = Some q" "cRunning q" and other: "j \<noteq> i"
  shows "judgeHolder textOf v p (Some (ownRecord q)) pass = Comparing (Some (ownRecord q)) pass"
    "refuseLiveEncoder textOf v (Some (ownRecord q)) pass = Stopped LockHeld"
proof -
  have idW: "identified W" using inv by (simp add: lockInv_def)
  note h = readLockHolder_own [OF idW q(1), of textOf]
  have n: "0 < cPid q" "cPid q \<noteq> cPid p" using idW p q other unfolding identified_def by blast+
  have seen: "seesAlive v (cPid q)" "seesCommand v (cPid q) = None \<or> seesCommand v (cPid q) = Some (cCmd q)"
    using v q unfolding truthful_def by blast+
  show "judgeHolder textOf v p (Some (ownRecord q)) pass = Comparing (Some (ownRecord q)) pass"
    using n seen(1) by (simp add: judgeHolder_def h)
  show "refuseLiveEncoder textOf v (Some (ownRecord q)) pass = Stopped LockHeld"
    using seen(2) by (auto simp: refuseLiveEncoder_def reusedPid_def h)
qed

lemma lockInv_waiting:
  assumes inv: "lockInv W" and v: "truthful W v" and p: "procs W i = Some p" "cRunning p"
    and ph: "\<not> inMutex (cPhase p)" "cPhase p \<notin> {Holding, Freeing, Released}" "\<forall>why. cPhase p \<noteq> Stopped why"
  shows "lockInv (moved i p (advance textOf v p (files W)) W)"
proof -
  have mu: "mutexInv W" using inv by (simp add: lockInv_def)
  note still = lockInv_still [OF inv p]
  consider (enter) j a n where "cPhase p = Entering j a n" | (read) a n where "cPhase p = Reading a n"
    | (judge) t n where "cPhase p = Judging t n" | (compare) t n where "cPhase p = Comparing t n" using ph by (cases "cPhase p") auto
  then show ?thesis
  proof cases
    case (enter j a n)
    have "advance textOf v p (files W) = (Marking j n, (files W)\<lparr>breakFile := Some []\<rparr>) \<and> breakFile (files W) = None \<or>
      (\<exists>ph. advance textOf v p (files W) = (ph, files W) \<and> (ph = Stopped MutexBusy \<or> ph = Stopped FileError \<or> ph = Entering j (Suc a) n))"
      by (simp add: advance_def enter acquireBreakMutex_def)
    then consider "advance textOf v p (files W) = (Marking j n, (files W)\<lparr>breakFile := Some []\<rparr>)" "breakFile (files W) = None"
      | ph where "advance textOf v p (files W) = (ph, files W)" "ph = Stopped MutexBusy \<or> ph = Stopped FileError \<or> ph = Entering j (Suc a) n"
      by metis
    then show ?thesis
    proof cases
      case 1
      have alone: "procs W k = Some q \<Longrightarrow> \<not> inMutex (cPhase q)" for k q using mutex_text [OF mu, of k q] 1(2) by auto
      show ?thesis unfolding 1(1)
      proof (rule lockInv_moved [OF inv p(1)])
        show "recalled (Marking j n) = Some t \<Longrightarrow> recalled (cPhase p) = Some t \<or> lockFile (files W) = Some t" for t
          by (cases j) (simp_all add: enter)
        show "procs W k = Some q \<Longrightarrow> k \<noteq> i \<Longrightarrow> judged (Marking j n) = Some (ownRecord q) \<Longrightarrow> cRunning q \<Longrightarrow> cPhase q = Released" for k q
          using stale_text [OF inv p(1), of "Marking j n" k q] by (cases j) (simp_all add: enter)
      qed (auto simp: enter hasPublished_def dest: alone)
    next
      case 2
      have rc: "recalled ph = recalled (cPhase p) \<or> recalled ph = None" "judged ph = judged (cPhase p) \<or> judged ph = None"
        using 2(2) by (cases j; auto simp: enter)+
      show ?thesis unfolding 2(1)
      proof (rule still)
        show "procs W k = Some q \<Longrightarrow> k \<noteq> i \<Longrightarrow> judged ph = Some (ownRecord q) \<Longrightarrow> cRunning q \<Longrightarrow> cPhase q = Released" for k q
          using stale_text [OF inv p(1), of ph k q] rc(2) by auto
        show "recalled ph = Some t \<Longrightarrow> recalled (cPhase p) = Some t \<or> lockFile (files W) = Some t" for t using rc(1) by auto
      qed (use 2(2) in \<open>auto simp: enter hasPublished_def\<close>)
    qed
  next
    case (read a n)
    let ?h = "readLockHolder textOf (if fsError v then None else lockFile (files W))"
    have h: "hText ?h = None \<or> hText ?h = lockFile (files W)"
      by (auto simp: readLockHolder_def Let_def split: option.split jsval.split)
    have "advance textOf v p (files W) = (Judging (hText ?h) n, files W) \<or> advance textOf v p (files W) = (Reading (Suc a) n, files W)"
      by (simp add: advance_def read readLockHolderSettled_def Let_def)
    then consider "advance textOf v p (files W) = (Judging (hText ?h) n, files W)" | "advance textOf v p (files W) = (Reading (Suc a) n, files W)"
      by blast
    then show ?thesis
    proof cases
      case 1
      show ?thesis unfolding 1 by (rule still) (use h in \<open>auto simp: read hasPublished_def\<close>)
    next
      case 2
      show ?thesis unfolding 2 by (rule still) (auto simp: read hasPublished_def)
    qed
  next
    case (judge t n)
    let ?ph = "judgeHolder textOf v p t n"
    have ph: "?ph = Comparing t n \<or> ?ph = Entering (Break t) 0 n" by (auto simp: judgeHolder_def split: jsnum.split)
    have a: "advance textOf v p (files W) = (?ph, files W)" by (simp add: advance_def judge)
    show ?thesis unfolding a
    proof (rule still)
      show "procs W k = Some q \<Longrightarrow> k \<noteq> i \<Longrightarrow> judged ?ph = Some (ownRecord q) \<Longrightarrow> cRunning q \<Longrightarrow> cPhase q = Released" for k q
        using running_not_stale(1) [OF inv v p, of k q textOf n] ph by auto
    qed (use ph in \<open>auto simp: judge hasPublished_def\<close>)
  next
    case (compare t n)
    let ?ph = "refuseLiveEncoder textOf v t n"
    have ph: "?ph = Stopped LockHeld \<or> ?ph = Entering (Break t) 0 n" by (auto simp: refuseLiveEncoder_def Let_def split: jsnum.split)
    have a: "advance textOf v p (files W) = (?ph, files W)" by (simp add: advance_def compare)
    show ?thesis unfolding a
    proof (rule still)
      show "procs W k = Some q \<Longrightarrow> k \<noteq> i \<Longrightarrow> judged ?ph = Some (ownRecord q) \<Longrightarrow> cRunning q \<Longrightarrow> cPhase q = Released" for k q
        using running_not_stale(2) [OF inv v p, of k q textOf n] ph by auto
    qed (use ph in \<open>auto simp: compare hasPublished_def\<close>)
  qed
qed

text \<open>Inside the mutex a process is alone with the lock file, but for the owner that releases it.\<close>

lemma lockInv_mutex:
  assumes inv: "lockInv W" and p: "procs W i = Some p" "cRunning p" and inside: "inMutex (cPhase p)"
  shows "lockInv (moved i p (advance textOf v p (files W)) W)"
proof -
  have mu: "mutexInv W" and ow: "ownerInv W" and re: "recordInv W" using inv by (simp_all add: lockInv_def)
  note still = lockInv_still [OF inv p]
  have alone: "procs W k = Some q \<Longrightarrow> k \<noteq> i \<Longrightarrow> \<not> inMutex (cPhase q)" for k q using mutex_alone [OF mu p(1) inside] by blast
  have mark: "breakFile (files W) = Some (mutexText (cPhase p) (cToken p))" by (rule mutex_text [OF mu p(1) inside])
  note moved = lockInv_moved [OF inv p(1)]
  show ?thesis
  proof (cases "cPhase p")
    case (Marking j n)
    show ?thesis
    proof (cases "fsError v")
      case True
      then have "advance textOf v p (files W) = (Stopped FileError, files W)" by (simp add: advance_def Marking markMutex_def)
      then show ?thesis by (simp only:) (rule still; simp add: Marking hasPublished_def)
    next
      case False
      let ?ph = "case j of Publish \<Rightarrow> Linking n | Break t \<Rightarrow> Checking t n"
      have a: "advance textOf v p (files W) = (?ph, (files W)\<lparr>breakFile := Some (cToken p)\<rparr>)"
        using False by (simp add: advance_def Marking markMutex_def)
      have ph: "recalled ?ph = recalled (cPhase p)" "judged ?ph = judged (cPhase p)" by (cases j; simp add: Marking)+
      show ?thesis unfolding a
      proof (rule moved)
        show "procs W k = Some q \<Longrightarrow> k \<noteq> i \<Longrightarrow> judged ?ph = Some (ownRecord q) \<Longrightarrow> cRunning q \<Longrightarrow> cPhase q = Released" for k q
          using stale_text [OF inv p(1), of ?ph k q] ph(2) by blast
        show "recalled ?ph = Some t \<Longrightarrow> recalled (cPhase p) = Some t \<or> lockFile (files W) = Some t" for t using ph(1) by simp
      qed (auto simp: Marking hasPublished_def split: job.split dest: alone, (simp split: job.splits)+)
    qed
  next
    case (Linking n)
    consider "advance textOf v p (files W) = (Leaving Failed n, files W)" | "advance textOf v p (files W) = (Leaving Taken n, files W)"
      | "lockFile (files W) = None" "advance textOf v p (files W) = (Leaving Won n, (files W)\<lparr>lockFile := Some (ownRecord p)\<rparr>)"
      | "lockFile (files W) = None" "advance textOf v p (files W) = (Writing n, (files W)\<lparr>lockFile := Some []\<rparr>)"
      by (cases "fsError v"; cases "lockFile (files W)"; cases "hardLinks v") (simp_all add: advance_def Linking publishLock_def)
    then show ?thesis
    proof cases
      case 1 show ?thesis unfolding 1 by (rule still) (auto simp: Linking hasPublished_def)
    next
      case 2 show ?thesis unfolding 2 by (rule still) (auto simp: Linking hasPublished_def)
    next
      case 3
      have no: "procs W k = Some q \<Longrightarrow> cRunning q \<Longrightarrow> \<not> owns (cPhase q)" for k q using owner_file [OF ow, of k q] 3(1) by auto
      show ?thesis unfolding 3(2)
        by (rule moved) (use mark in \<open>auto simp: Linking hasPublished_def dest: alone no\<close>)
    next
      case 4
      have no: "procs W k = Some q \<Longrightarrow> cRunning q \<Longrightarrow> \<not> owns (cPhase q)" for k q using owner_file [OF ow, of k q] 4(1) by auto
      show ?thesis unfolding 4(2)
        by (rule moved) (use mark in \<open>auto simp: Linking hasPublished_def dest: alone no\<close>)
    qed
  next
    case (Writing n)
    have empty: "lockFile (files W) = Some []" using ow p(1) Writing unfolding ownerInv_def by blast
    have no: "procs W k = Some q \<Longrightarrow> cRunning q \<Longrightarrow> \<not> owns (cPhase q)" for k q using owner_file [OF ow, of k q] empty by (metis option.inject ownRecord_nonempty)
    consider "advance textOf v p (files W) = (Leaving Failed n, files W)"
      | "advance textOf v p (files W) = (Leaving Won n, (files W)\<lparr>lockFile := Some (ownRecord p)\<rparr>)"
      by (cases "fsError v") (simp_all add: advance_def Writing writeLock_def empty)
    then show ?thesis
    proof cases
      case 1 show ?thesis unfolding 1 by (rule still) (auto simp: Writing hasPublished_def)
    next
      case 2
      show ?thesis unfolding 2
        by (rule moved) (use mark in \<open>auto simp: Writing hasPublished_def dest: alone no\<close>)
    qed
  next
    case (Checking t n)
    have "advance textOf v p (files W) = (Leaving Broke n, files W) \<or>
      (\<exists>u. lockFile (files W) = Some u \<and> t = Some u \<and> advance textOf v p (files W) = (Unlinking u n, files W))"
      by (cases "lockFile (files W)"; cases "fsError v"; cases "t = lockFile (files W)") (simp_all add: advance_def Checking breakStaleLock_def)
    then consider u where "lockFile (files W) = Some u" "t = Some u" "advance textOf v p (files W) = (Unlinking u n, files W)"
      | "advance textOf v p (files W) = (Leaving Broke n, files W)"
      by metis
    then show ?thesis
    proof cases
      case 1
      show ?thesis unfolding 1(3)
      proof (rule still)
        show "procs W k = Some q \<Longrightarrow> k \<noteq> i \<Longrightarrow> judged (Unlinking u n) = Some (ownRecord q) \<Longrightarrow> cRunning q \<Longrightarrow> cPhase q = Released" for k q
          using stale_text [OF inv p(1), of "Unlinking u n" k q] 1(2) Checking by simp
      qed (use 1 in \<open>auto simp: Checking hasPublished_def\<close>)
    next
      case 2 show ?thesis unfolding 2 by (rule still) (auto simp: Checking hasPublished_def)
    qed
  next
    case (Unlinking t n)
    have content: "lockFile (files W) = Some t \<or> lockFile (files W) = None" using ow p(1) Unlinking unfolding ownerInv_def by metis
    have no: "\<not> owns (cPhase q)" if "procs W k = Some q" "cRunning q" for k q
    proof
      assume o: "owns (cPhase q)"
      then have "judged (cPhase p) = Some (ownRecord q)" using owner_file [OF ow that o] content Unlinking by auto
      then show False using judged_stale [OF re that(1) p(1)] that(2) o by simp
    qed
    let ?fs = "if fsError v then files W else (files W)\<lparr>lockFile := None\<rparr>"
    have a: "advance textOf v p (files W) = (Leaving Broke n, ?fs)" by (simp add: advance_def Unlinking)
    show ?thesis unfolding a
      by (rule moved) (use mark in \<open>auto simp: Unlinking hasPublished_def dest: alone no\<close>)
  next
    case (Leaving x n)
    have won: "hasPublished (afterMutex x n) \<longleftrightarrow> x = Won" "owns (afterMutex x n) \<longleftrightarrow> x = Won" "\<not> inMutex (afterMutex x n)"
      "recalled (afterMutex x n) = None" "judged (afterMutex x n) = None" "afterMutex x n \<noteq> Unlinking u m" "afterMutex x n \<noteq> Writing m" for u m
      by (cases x; simp add: afterMutex_def hasPublished_def)+
    consider "advance textOf v p (files W) = (Removing x n, files W)" | "advance textOf v p (files W) = (afterMutex x n, files W)"
      by (cases "fsError v"; cases "breakFile (files W) = Some (cToken p)") (simp_all add: advance_def Leaving releaseBreakMutex_def)
    then show ?thesis
    proof cases
      case 1 show ?thesis unfolding 1 by (rule still) (cases x; auto simp: Leaving hasPublished_def)+
    next
      case 2 show ?thesis unfolding 2 by (rule still) (use won in \<open>cases x; auto simp: Leaving hasPublished_def\<close>)+
    qed
  next
    case (Removing x n)
    have won: "hasPublished (afterMutex x n) \<longleftrightarrow> x = Won" "owns (afterMutex x n) \<longleftrightarrow> x = Won" "\<not> inMutex (afterMutex x n)"
      "recalled (afterMutex x n) = None" "judged (afterMutex x n) = None" "afterMutex x n \<noteq> Unlinking u m" "afterMutex x n \<noteq> Writing m" for u m
      by (cases x; simp add: afterMutex_def hasPublished_def)+
    let ?fs = "if fsError v then files W else (files W)\<lparr>breakFile := None\<rparr>"
    have a: "advance textOf v p (files W) = (afterMutex x n, ?fs)" by (simp add: advance_def Removing removeMutex_def)
    have own: "x = Won \<Longrightarrow> lockFile (files W) = Some (ownRecord p)" using owner_file [OF ow p] Removing by simp
    show ?thesis unfolding a
      by (rule moved) (use won own in \<open>cases x; auto simp: Removing hasPublished_def dest: alone\<close>)+
  qed (use inside in simp_all)
qed

lemma lockInv_call:
  assumes inv: "lockInv W" and v: "truthful W v" and p: "procs W i = Some p" "cRunning p"
  shows "lockInv (moved i p (advance textOf v p (files W)) W)"
proof (cases "inMutex (cPhase p)")
  case True
  then show ?thesis by (rule lockInv_mutex [OF inv p])
next
  case out: False
  have idW: "identified W" and ow: "ownerInv W" using inv by (simp_all add: lockInv_def)
  note still = lockInv_still [OF inv p]
  show ?thesis
  proof (cases "cPhase p")
    case Holding
    have "advance textOf v p (files W) = (Freeing, files W) \<or> advance textOf v p (files W) = (Released, files W)"
      by (simp add: advance_def Holding lockReleaser_def)
    then consider "advance textOf v p (files W) = (Freeing, files W)" | "advance textOf v p (files W) = (Released, files W)" by metis
    then show ?thesis
    proof cases
      case 1 show ?thesis unfolding 1 by (rule still) (auto simp: Holding hasPublished_def)
    next
      case 2 show ?thesis unfolding 2 by (rule still) (auto simp: Holding hasPublished_def)
    qed
  next
    case Freeing
    have content: "lockFile (files W) = Some (ownRecord p)" using owner_file [OF ow p] Freeing by simp
    have no: "j \<noteq> i \<Longrightarrow> \<not> owns (cPhase q)" if "procs W j = Some q" "cRunning q" for j q
      using owner_file [OF ow that] content ownRecord_inj [OF idW that(1) p(1)] by auto
    have writing: "procs W j = Some q \<Longrightarrow> cPhase q \<noteq> Writing n" for j q n
      using ow content ownRecord_nonempty [of p] unfolding ownerInv_def by (metis option.inject)
    let ?fs = "if fsError v then files W else (files W)\<lparr>lockFile := None\<rparr>"
    have a: "advance textOf v p (files W) = (Released, ?fs)" by (simp add: advance_def Freeing)
    show ?thesis unfolding a
      by (rule lockInv_moved [OF inv p(1)]) (auto simp: Freeing hasPublished_def dest: no writing)
  next
    case Released
    then have "advance textOf v p (files W) = (Released, files W)" by (simp add: advance_def)
    then show ?thesis by (simp only:) (rule still; simp add: Released hasPublished_def)
  next
    case (Stopped why)
    then have "advance textOf v p (files W) = (Stopped why, files W)" by (simp add: advance_def)
    then show ?thesis by (simp only:) (rule still; simp add: Stopped hasPublished_def)
  next
    case (Entering j a n) then show ?thesis by (intro lockInv_waiting [OF inv v p]) simp_all
  next
    case (Reading a n) then show ?thesis by (intro lockInv_waiting [OF inv v p]) simp_all
  next
    case (Judging a n) then show ?thesis by (intro lockInv_waiting [OF inv v p]) simp_all
  next
    case (Comparing a n) then show ?thesis by (intro lockInv_waiting [OF inv v p]) simp_all
  qed (use out in simp_all)
qed

text \<open>Death changes no file and no phase, and a new process is named nowhere yet.\<close>

lemma lockInv_die:
  assumes inv: "lockInv W" and p: "procs W i = Some p"
  shows "lockInv (W\<lparr>procs := (procs W)(i \<mapsto> p\<lparr>cRunning := False\<rparr>)\<rparr>)"
proof -
  let ?p = "p\<lparr>cRunning := False\<rparr>" and ?W = "W\<lparr>procs := (procs W)(i \<mapsto> p\<lparr>cRunning := False\<rparr>)\<rparr>"
  have idW: "identified W" and mu: "mutexInv W" and re: "recordInv W" and ow: "ownerInv W" using inv by (simp_all add: lockInv_def)
  have rec [simp]: "ownRecord ?p = ownRecord p" by (simp add: ownRecord_def)
  have former: "\<exists>q'. procs W j = Some q' \<and> (q = q' \<or> q = q'\<lparr>cRunning := False\<rparr>)" if "procs ?W j = Some q" for j q
    using that p by (cases "j = i") auto
  have rec': "ownRecord (q\<lparr>cRunning := False\<rparr>) = ownRecord q" for q by (simp add: ownRecord_def)
  have "identified ?W" using idW p unfolding identified_def by (auto split: if_splits)
  moreover have "mutexInv ?W" unfolding mutexInv_def
  proof (intro conjI allI impI)
    fix j q assume "procs ?W j = Some q" "inMutex (cPhase q)"
    then show "breakFile (files ?W) = Some (mutexText (cPhase q) (cToken q))" using former mutex_text [OF mu] by fastforce
  next
    fix j k q r assume "procs ?W j = Some q" "procs ?W k = Some r" "inMutex (cPhase q)" "inMutex (cPhase r)"
    then show "j = k" using former [of j q] former [of k r] mutex_alone [OF mu] by fastforce
  qed
  moreover have "recordInv ?W" unfolding recordInv_def
  proof (intro conjI allI impI)
    fix j q assume "procs ?W j = Some q" "lockFile (files ?W) = Some (ownRecord q)"
    moreover have "procs W j = Some q' \<Longrightarrow> lockFile (files W) = Some (ownRecord q') \<Longrightarrow> hasPublished (cPhase q')" for q'
      using re unfolding recordInv_def by blast
    ultimately show "hasPublished (cPhase q)" using former [of j q] by (auto simp: rec')
  next
    fix j k q r assume a: "procs ?W j = Some q" "procs ?W k = Some r" "recalled (cPhase r) = Some (ownRecord q)"
    have "procs W j = Some q' \<Longrightarrow> procs W k = Some r' \<Longrightarrow> recalled (cPhase r') = Some (ownRecord q') \<Longrightarrow> hasPublished (cPhase q')" for q' r'
      using re unfolding recordInv_def by blast
    then show "hasPublished (cPhase q)" using former [OF a(1)] former [OF a(2)] a(3) by (auto simp: rec')
  next
    fix j k q r assume a: "procs ?W j = Some q" "procs ?W k = Some r" "judged (cPhase r) = Some (ownRecord q)" "cRunning q"
    obtain q' where q: "procs W j = Some q'" "q = q' \<or> q = q'\<lparr>cRunning := False\<rparr>" using former [OF a(1)] by blast
    obtain r' where r: "procs W k = Some r'" "r = r' \<or> r = r'\<lparr>cRunning := False\<rparr>" using former [OF a(2)] by blast
    have "q = q'" using q(2) a(4) by auto
    moreover have "judged (cPhase r') = Some (ownRecord q')" using q(2) r(2) a(3) by (auto simp: rec')
    ultimately show "cPhase q = Released" using judged_stale [OF re q(1) r(1)] a(4) by simp
  qed
  moreover have "ownerInv ?W" unfolding ownerInv_def
  proof (intro conjI allI impI)
    fix j q assume a: "procs ?W j = Some q" "cRunning q" "owns (cPhase q)"
    then show "lockFile (files ?W) = Some (ownRecord q)" using former [OF a(1)] owner_file [OF ow] by auto
  next
    fix j q t n assume a: "procs ?W j = Some q" "cPhase q = Unlinking t n"
    have "procs W j = Some q' \<Longrightarrow> cPhase q' = Unlinking t n \<Longrightarrow> lockFile (files W) = Some t \<or> lockFile (files W) = None" for q'
      using ow unfolding ownerInv_def by metis
    then show "lockFile (files ?W) = Some t \<or> lockFile (files ?W) = None" using former [OF a(1)] a(2) by auto
  next
    fix j q n assume a: "procs ?W j = Some q" "cPhase q = Writing n"
    have "procs W j = Some q' \<Longrightarrow> cPhase q' = Writing n \<Longrightarrow> lockFile (files W) = Some []" for q'
      using ow unfolding ownerInv_def by metis
    then show "lockFile (files ?W) = Some []" using former [OF a(1)] a(2) by auto
  qed
  ultimately show ?thesis by (simp add: lockInv_def)
qed

lemma lockInv_start:
  assumes inv: "lockInv W" and i: "procs W i = None" and n: "0 < n" "int n \<le> MAX_SAFE_INTEGER" and cmd: "cmd \<noteq> []"
    and token: "unseen textOf W token" and fresh: "\<forall>j q. procs W j = Some q \<longrightarrow> cRunning q \<longrightarrow> cPid q \<noteq> n"
    and p: "p = \<lparr>cPid = n, cCmd = cmd, cToken = token, cPhase = Entering Publish 0 0, cRunning = True\<rparr>"
  shows "lockInv (W\<lparr>procs := (procs W)(i \<mapsto> p)\<rparr>)"
proof -
  let ?W = "W\<lparr>procs := (procs W)(i \<mapsto> p)\<rparr>"
  have idW: "identified W" and mu: "mutexInv W" and re: "recordInv W" and ow: "ownerInv W" using inv by (simp_all add: lockInv_def)
  have P: "procs ?W j = (if j = i then Some p else procs W j)" for j by simp
  have F: "files ?W = files W" by simp
  have ph: "cPhase p = Entering Publish 0 0" "cToken p = token" "cPid p = n" by (simp_all add: p)
  have t: "token \<noteq> []" "hToken (readLockHolder textOf (lockFile (files W))) \<noteq> Some (Str token)"
    "procs W j = Some q \<Longrightarrow> cToken q \<noteq> token \<and> hToken (readLockHolder textOf (recalled (cPhase q))) \<noteq> Some (Str token)" for j q
    using token unfolding unseen_def by blast+
  have own: "readLockHolder textOf (Some (ownRecord p)) =
      \<lparr>hPid = Fin (of_nat n), hCmd = Some (Str cmd), hToken = Some (Str token), hLegible = True, hText = Some (ownRecord p)\<rparr>"
    unfolding ownRecord_def p by (simp add: readLockHolder_record [OF n cmd t(1)])
  have no: "lockFile (files W) \<noteq> Some (ownRecord p)" using t(2) own by auto
  have no': "procs W j = Some q \<Longrightarrow> recalled (cPhase q) \<noteq> Some (ownRecord p)" for j q using t(3) [of j q] own by auto
  have "identified ?W" unfolding identified_def P
  proof (intro conjI allI impI)
    fix j k q r assume "(if j = i then Some p else procs W j) = Some q" "(if k = i then Some p else procs W k) = Some r" "cToken q = cToken r"
    then show "j = k" using idW t(3) [of j q] t(3) [of k r] ph unfolding identified_def by (auto split: if_splits)
  next
    fix j k q r assume "(if j = i then Some p else procs W j) = Some q" "(if k = i then Some p else procs W k) = Some r"
      "cRunning q" "cRunning r" "cPid q = cPid r"
    then show "j = k" using idW fresh ph unfolding identified_def by (auto split: if_splits)
  qed (use idW n cmd t(1) p in \<open>auto simp: identified_def split: if_splits\<close>)
  moreover have "mutexInv ?W" using mu ph unfolding mutexInv_def P F by (auto split: if_splits)
  moreover have "recordInv ?W" unfolding recordInv_def P F
  proof (intro conjI allI impI)
    fix j q assume "(if j = i then Some p else procs W j) = Some q" "lockFile (files W) = Some (ownRecord q)"
    then show "hasPublished (cPhase q)" using no file_published [OF re, of j q] by (cases "j = i") auto
  next
    fix j k q r assume a: "(if j = i then Some p else procs W j) = Some q" "(if k = i then Some p else procs W k) = Some r"
      "recalled (cPhase r) = Some (ownRecord q)"
    then show "hasPublished (cPhase q)" using no' [of k r] ph recalled_published [OF re, of j q k r] by (cases "j = i"; cases "k = i") auto
  next
    fix j k q r assume a: "(if j = i then Some p else procs W j) = Some q" "(if k = i then Some p else procs W k) = Some r"
      "judged (cPhase r) = Some (ownRecord q)" "cRunning q"
    show "cPhase q = Released"
    proof (cases "k = i")
      case True then show ?thesis using a ph by auto
    next
      case False
      then have r: "procs W k = Some r" using a by simp
      then have "j \<noteq> i" using a judged_recalled [OF a(3)] no' by auto
      then show ?thesis using judged_stale [OF re _ r a(3,4)] a(1) by simp
    qed
  qed
  moreover have "ownerInv ?W" using ow ph unfolding ownerInv_def P F by (auto split: if_splits)
  ultimately show ?thesis by (simp add: lockInv_def)
qed

lemma lockInv_step: "lockStep textOf W W' \<Longrightarrow> lockInv W \<Longrightarrow> lockInv W'"
proof (induction rule: lockStep.induct)
  case (start W i n cmd token)
  then show ?case by (intro lockInv_start [where textOf = textOf]) auto
qed (auto intro: lockInv_call lockInv_die)

lemma lockReach_inv: "lockReach textOf W \<Longrightarrow> lockInv W"
proof (induction rule: lockReach.induct)
  case (boot W)
  then show ?case by (simp add: lockInv_def identified_def mutexInv_def recordInv_def ownerInv_def)
qed (rule lockInv_step)

end
