(* ===== verification/InstanceLockProperties.thy ===== *)
theory InstanceLockProperties
  imports InstanceLockFacts
begin

text \<open>
  The single-instance guard: one running encoder at a time owns the lock of a host, over every interleaving of
  starts, file-system calls and deaths, and an encoder started beside it stops.
\<close>

section \<open>Two processes\<close>

definition exampleSight :: sight where
  "exampleSight = \<lparr>seesAlive = (\<lambda>_. True), seesCommand = (\<lambda>_. None), hardLinks = True, fsError = False\<rparr>"

definition starter :: "nat \<Rightarrow> string \<Rightarrow> phase \<Rightarrow> claimant" where
  "starter n token ph = \<lparr>cPid = n, cCmd = js ''node ./src/api.js'', cToken = js token, cPhase = ph, cRunning = True\<rparr>"

definition sole :: "phase \<Rightarrow> jstring option \<Rightarrow> jstring option \<Rightarrow> lockWorld" where
  "sole ph l b = \<lparr>files = \<lparr>lockFile = l, breakFile = b\<rparr>, procs = [0 \<mapsto> starter 19 ''a'' ph]\<rparr>"

lemma sole_call:
  assumes "lockReach textOf (sole ph l b)"
    "advance textOf exampleSight (starter 19 ''a'' ph) \<lparr>lockFile = l, breakFile = b\<rparr> = (ph', \<lparr>lockFile = l', breakFile = b'\<rparr>)"
  shows "lockReach textOf (sole ph' l' b')"
proof -
  let ?p = "starter 19 ''a'' ph"
  have "lockStep textOf (sole ph l b) (moved 0 ?p (advance textOf exampleSight ?p (files (sole ph l b))) (sole ph l b))"
    by (rule lockStep.call) (simp_all add: sole_def starter_def truthful_def exampleSight_def)
  moreover have "moved 0 ?p (advance textOf exampleSight ?p (files (sole ph l b))) (sole ph l b) = sole ph' l' b'"
    using assms(2) by (simp add: moved_def sole_def starter_def)
  ultimately show ?thesis using lockReach.step [OF assms(1)] by simp
qed

lemma first_holds: "lockReach textOf (sole Holding (Some (ownRecord (starter 19 ''a'' Holding))) None)"
proof -
  let ?W = "\<lparr>files = \<lparr>lockFile = None, breakFile = None\<rparr>, procs = (\<lambda>_. None)\<rparr> :: lockWorld"
  let ?r = "Some (ownRecord (starter 19 ''a'' Holding))"
  have own: "ownRecord (starter 19 ''a'' ph) = ownRecord (starter 19 ''a'' Holding)" for ph by (simp add: ownRecord_def starter_def)
  have t: "cToken (starter 19 ''a'' ph) = js ''a''" for ph by (simp add: starter_def)
  note defs = advance_def exampleSight_def t acquireBreakMutex_def markMutex_def publishLock_def releaseBreakMutex_def removeMutex_def
    afterMutex_def MUTEX_WAIT_PASSES_def
  have ph: "cPhase (starter 19 ''a'' ph) = ph" for ph by (simp add: starter_def)
  have "lockReach textOf ?W" by (rule lockReach.boot) simp
  moreover have "lockStep textOf ?W (?W\<lparr>procs := (procs ?W)(0 \<mapsto> \<lparr>cPid = 19, cCmd = js ''node ./src/api.js'', cToken = js ''a'',
      cPhase = Entering Publish 0 0, cRunning = True\<rparr>)\<rparr>)"
    by (rule lockStep.start [where textOf = textOf]) (simp_all add: unseen_def readLockHolder_def MAX_SAFE_INTEGER_def del: js_simps(5))
  ultimately have "lockReach textOf (sole (Entering Publish 0 0) None None)"
    using lockReach.step [of textOf ?W] by (simp add: sole_def starter_def)
  then have "lockReach textOf (sole (Marking Publish 0) None (Some []))" by (rule sole_call) (simp add: ph defs)
  then have "lockReach textOf (sole (Linking 0) None (Some (js ''a'')))" by (rule sole_call) (simp add: ph defs del: js_simps)
  then have "lockReach textOf (sole (Leaving Won 0) ?r (Some (js ''a'')))" by (rule sole_call) (simp add: ph defs own [of "Linking 0"] del: js_simps)
  then have "lockReach textOf (sole (Removing Won 0) ?r (Some (js ''a'')))" by (rule sole_call) (simp add: ph defs del: js_simps)
  then show ?thesis by (rule sole_call) (simp add: ph defs)
qed

lemma second_starts:
  "lockReach textOf ((sole Holding (Some (ownRecord (starter 19 ''a'' Holding))) None)
     \<lparr>procs := [0 \<mapsto> starter 19 ''a'' Holding, 1 \<mapsto> starter 20 ''b'' (Entering Publish 0 0)]\<rparr>)"
proof -
  let ?p = "starter 19 ''a'' Holding"
  let ?W = "sole Holding (Some (ownRecord ?p)) None"
  have "readLockHolder textOf (Some (ownRecord ?p)) =
      \<lparr>hPid = Fin (of_nat 19), hCmd = Some (Str (js ''node ./src/api.js'')), hToken = Some (Str (js ''a'')), hLegible = True, hText = Some (ownRecord ?p)\<rparr>"
    unfolding ownRecord_def starter_def by (simp add: readLockHolder_record MAX_SAFE_INTEGER_def del: js_simps(5))
  then have "unseen textOf ?W (js ''b'')"
    by (simp add: unseen_def sole_def starter_def readLockHolder_def del: js_simps(5))
  then have "lockStep textOf ?W (?W\<lparr>procs := (procs ?W)(1 \<mapsto> \<lparr>cPid = 20, cCmd = js ''node ./src/api.js'', cToken = js ''b'',
      cPhase = Entering Publish 0 0, cRunning = True\<rparr>)\<rparr>)"
    by (intro lockStep.start [where textOf = textOf]) (simp_all add: sole_def starter_def MAX_SAFE_INTEGER_def del: js_simps(5))
  then show ?thesis using lockReach.step [OF first_holds] by (simp add: sole_def starter_def)
qed

section \<open>One owner\<close>

text \<open>
  C9. On every run of a host, whatever lock file an earlier boot left there and wherever processes die, a running
  encoder that holds the instance lock is the only one that does; the lock file is its record, no step of another
  process replaces or removes it, and an encoder that finds the record there stops with the conflict. This holds
  with and without hard links and whatever calls fail, as long as the process table shows running processes.
\<close>

theorem instance_lock_exclusive:
  assumes reach: "lockReach textOf W" and p: "procs W i = Some p" "cRunning p" "cPhase p \<in> {Holding, Freeing}"
  shows "lockFile (files W) = Some (ownRecord p) \<and>
    (\<forall>j q. procs W j = Some q \<longrightarrow> cRunning q \<longrightarrow> j \<noteq> i \<longrightarrow> cPhase q \<notin> {Holding, Freeing}) \<and>
    (\<forall>W'. lockStep textOf W W' \<longrightarrow> procs W' i = Some p \<longrightarrow> lockFile (files W') = Some (ownRecord p)) \<and>
    (\<forall>j q v pass. procs W j = Some q \<longrightarrow> cRunning q \<longrightarrow> j \<noteq> i \<longrightarrow> truthful W v \<longrightarrow>
       judgeHolder textOf v q (Some (ownRecord p)) pass = Comparing (Some (ownRecord p)) pass \<and>
       refuseLiveEncoder textOf v (Some (ownRecord p)) pass = Stopped LockHeld)"
proof (intro conjI allI impI)
  have inv: "lockInv W" by (rule lockReach_inv [OF reach])
  then have idW: "identified W" and ow: "ownerInv W" by (simp_all add: lockInv_def)
  have own: "owns (cPhase p)" using p(3) by auto
  show l: "lockFile (files W) = Some (ownRecord p)" by (rule owner_file [OF ow p(1,2) own])
  fix j q assume q: "procs W j = Some q" "cRunning q" "j \<noteq> i"
  show "cPhase q \<notin> {Holding, Freeing}"
  proof
    assume "cPhase q \<in> {Holding, Freeing}"
    then have "lockFile (files W) = Some (ownRecord q)" by (intro owner_file [OF ow q(1,2)]) auto
    then show False using l ownRecord_inj [OF idW q(1) p(1)] q(3) by simp
  qed
next
  fix W' assume "lockStep textOf W W'" "procs W' i = Some p"
  then have "ownerInv W'" "procs W' i = Some p" using lockReach_inv [OF reach] lockInv_step by (auto simp: lockInv_def)
  then show "lockFile (files W') = Some (ownRecord p)" using p(2,3) by (intro owner_file) auto
next
  fix j q v pass assume "procs W j = Some q" "cRunning q" "j \<noteq> i" "truthful W v"
  then show "judgeHolder textOf v q (Some (ownRecord p)) pass = Comparing (Some (ownRecord p)) pass"
    "refuseLiveEncoder textOf v (Some (ownRecord p)) pass = Stopped LockHeld"
    using running_not_stale [OF lockReach_inv [OF reach], of v j q i p] p by auto
qed

theorem instance_lock_exclusive_witness:
  "\<exists>W. lockReach (\<lambda>_. []) W \<and> procs W 0 = Some (starter 19 ''a'' Holding) \<and> procs W 1 = Some (starter 20 ''b'' (Entering Publish 0 0)) \<and>
     lockFile (files W) = Some (ownRecord (starter 19 ''a'' Holding)) \<and>
     refuseLiveEncoder (\<lambda>_. []) exampleSight (Some (ownRecord (starter 19 ''a'' Holding))) 0 = Stopped LockHeld"
proof -
  let ?p = "starter 19 ''a'' Holding" and ?q = "starter 20 ''b'' (Entering Publish 0 0)"
  let ?W = "(sole Holding (Some (ownRecord ?p)) None)\<lparr>procs := [0 \<mapsto> ?p, 1 \<mapsto> ?q]\<rparr>"
  have r: "lockReach (\<lambda>_. []) ?W" by (rule second_starts)
  have p: "procs ?W 0 = Some ?p" "procs ?W 1 = Some ?q" by simp_all
  have v: "truthful ?W exampleSight" by (simp add: truthful_def exampleSight_def)
  have run: "cRunning ?p" "cPhase ?p \<in> {Holding, Freeing}" "cRunning ?q" by (simp_all add: starter_def)
  note e = instance_lock_exclusive [OF r p(1) run(1,2)]
  have "refuseLiveEncoder (\<lambda>_. []) exampleSight (Some (ownRecord ?p)) 0 = Stopped LockHeld"
    using e [THEN conjunct2, THEN conjunct2, THEN conjunct2, rule_format, OF p(2) run(3) _ v] by simp
  then show ?thesis using r p e [THEN conjunct1] by blast
qed

end
