(* ===== verification/Service.thy ===== *)
theory Service
  imports EnvelopeCancel Pipeline FeeEstimate Utf8
begin

text \<open>
  The JSON-RPC methods, \<open>src/src/api/json_rpc_methods.js\<close>, with the prelaunch refusal (\<open>src/src/common/config.js\<close> and
  \<open>src/src/protocol/validator_wire_actions.js\<close>) and the readiness probe (\<open>serve_readiness.js\<close>). A method takes the request
  parameters and the state it runs on and returns a result or the error object of the response.
\<close>

section \<open>Errors of the surface\<close>

text \<open>The message of an error: that of the rejection itself, or this text.\<close>

datatype rpcText = Own err | Text jstring

record rpcError =
  rpcCode :: int
  rpcText :: rpcText
  rpcReason :: "string option"
  rpcNodeCode :: "int option"

type_synonym 'a answer = "rpcError + 'a"

definition rpcFailure :: "int \<Rightarrow> rpcText \<Rightarrow> rpcError" where
  "rpcFailure c t = \<lparr>rpcCode = c, rpcText = t, rpcReason = None, rpcNodeCode = None\<rparr>"

definition toRpcError :: "err \<Rightarrow> rpcError" where
  "toRpcError e =
     (case e of
        OperationalError c \<Rightarrow> (rpcFailure (- 32010) (Own e))\<lparr>rpcReason := Some c\<rparr>
      | _ \<Rightarrow> if isInvalidParams e then rpcFailure (- 32602) (Own e)
             else rpcFailure (- 32603) (Text (js ''Internal encoder error'')))"

text \<open>The same on an error of the node client: operational, or a plain \<open>Error\<close>.\<close>

definition toRpcFault :: "fault \<Rightarrow> rpcError" where
  "toRpcFault f =
     (case fOperational f of
        Some c \<Rightarrow> (rpcFailure (- 32010) (Text (fMessage f)))\<lparr>rpcReason := Some c\<rparr>
      | None \<Rightarrow> rpcFailure (- 32603) (Text (js ''Internal encoder error'')))"

definition assertNodeTierOrRpcError :: "node \<Rightarrow> connector \<Rightarrow> connector \<times> unit answer" where
  "assertNodeTierOrRpcError N s =
     (case assertNodeTier N s of (s, Inl f) \<Rightarrow> (s, Inl (toRpcFault f)) | (s, Inr u) \<Rightarrow> (s, Inr u))"

section \<open>Before launch\<close>

definition MAX_FORMAT :: nat where "MAX_FORMAT = 255"

definition VALIDATOR_WIRE_FORMATS :: "(string \<times> nat list) list" where
  "VALIDATOR_WIRE_FORMATS = [(''ANCHOR'', [0, 1, 2, 3]), (''PRICE'', [0]), (''NODEPROOF'', [0]), (''ROLLCALL'', [0, 1]),
     (''ATTEST'', [1, 3, 4, 5, 6])]"

definition parseFormat :: "jstring option \<Rightarrow> nat option" where
  "parseFormat field =
     (case field of
        None \<Rightarrow> Some 0
      | Some f \<Rightarrow>
          (let text = filter (\<lambda>u. unat u \<noteq> 34 \<and> unat u \<noteq> 39) (trim f)
           in if text = [] then Some 0
              else if \<not> isNatLiteral text then None
              else if digitsValue text \<le> MAX_FORMAT then Some (digitsValue text) else None))"

definition isValidatorWireAction :: "jstring option \<Rightarrow> bool" where
  "isValidatorWireAction data =
     (case data of
        None \<Rightarrow> False
      | Some s \<Rightarrow>
          if s = [] then False
          else (let parts = splitBar s
                in case map_of (map (\<lambda>(k, v). (js k, v)) VALIDATOR_WIRE_FORMATS) (toUpper (trim (hd parts))) of
                     None \<Rightarrow> False
                   | Some formats \<Rightarrow>
                       (case parseFormat (case tl parts of f # _ \<Rightarrow> Some f | [] \<Rightarrow> None) of
                          Some f \<Rightarrow> f \<in> set formats | None \<Rightarrow> False)))"

definition MAINNET_LAUNCH_TS :: int where "MAINNET_LAUNCH_TS = 1798761600"

definition OVERRIDE_TRUE :: "string list" where "OVERRIDE_TRUE = [''1'', ''true'', ''yes'', ''on'']"

definition overrideOn :: "jstring option \<Rightarrow> bool" where
  "overrideOn setting = (case setting of None \<Rightarrow> False | Some s \<Rightarrow> map lowerUnit (trim s) \<in> set (map js OVERRIDE_TRUE))"

text \<open>\<open>net\<close> is the encoder's consensus network, \<open>setting\<close> the override as the environment has it, \<open>now\<close> in milliseconds.\<close>

definition assertNotMainnetPrelaunch :: "string \<Rightarrow> jstring option \<Rightarrow> int \<Rightarrow> jstring option \<Rightarrow> unit answer" where
  "assertNotMainnetPrelaunch net setting now data =
     (if net \<noteq> ''mainnet'' \<or> MAINNET_LAUNCH_TS \<le> now div 1000 then Inr ()
      else if overrideOn setting then Inr ()
      else if isValidatorWireAction data then Inr ()
      else Inl ((rpcFailure (- 32010) (Text (js ''Mainnet is not open yet: only validator actions can be built before launch'')))
                  \<lparr>rpcReason := Some ''MAINNET_PRELAUNCH''\<rparr>))"

section \<open>The validated parameters as a build\<close>

text \<open>
  An address as characters: itself where it is ASCII. Any other is its UTF-8 bytes, which no address decodes from,
  as the string itself does not.
\<close>

definition addressText :: "jstring \<Rightarrow> string" where
  "addressText s = (if list_all (\<lambda>u. unat u < 128) s then narrow s else map (\<lambda>b. char_of (unat b)) (utf8 s))"

definition satoshisOf :: "jsval \<Rightarrow> int" where
  "satoshisOf v = (case v of Num (Fin r) \<Rightarrow> \<lfloor>r\<rfloor> | BigInt n \<Rightarrow> n | _ \<Rightarrow> 0)"

definition addressOf :: "jsval \<Rightarrow> string" where
  "addressOf v = (case getProp v ''address'' of Str s \<Rightarrow> addressText s | _ \<Rightarrow> [])"

definition readPayment :: "jsval \<Rightarrow> customOutput" where
  "readPayment v = \<lparr>coAddress = addressOf v, coValue = satoshisOf (getProp v ''value''), isFeeQuote = False\<rparr>"

definition requestOf :: "txParams \<Rightarrow> request" where
  "requestOf p =
     \<lparr>rqData = pData p, rqRawData = pRawData p,
      rqFeeQuote = map_option (\<lambda>v. (addressOf v, satoshisOf (getProp v ''amount''))) (pFeeQuote p),
      rqEncoding = pEncoding p, rqCompress = pCompress p,
      rqTapscript = (case pOptions p of Some (tapscript, _) \<Rightarrow> tapscript | None \<Rightarrow> None)\<rparr>"

definition wantsExactInputs :: "txParams \<Rightarrow> bool" where
  "wantsExactInputs p = (case pOptions p of Some (_, Some exact) \<Rightarrow> exact | _ \<Rightarrow> False)"

text \<open>
  The positional arguments with the defaults of the signature; an absent flag is \<open>undefined\<close>, so \<open>unconfirmed\<close> is then
  \<open>true\<close>. The remaining fields are what later steps set before they read them.
\<close>

definition buildOf :: "txParams \<Rightarrow> build" where
  "buildOf p =
     \<lparr>utxos = (case pUtxos p of Some us \<Rightarrow> map readUtxo us | None \<Rightarrow> []), pubkey = addressText (pPubkey p),
      customOutputs = (case pCustomOutputs p of Some os \<Rightarrow> map readPayment os | None \<Rightarrow> []), fee = pFee p, feePerKb = pFeePerKb p,
      dust = pDust p, replacebyfee = (pRbf p = Some True), change = map_option addressText (pChange p),
      p2shHash = map_option (narrow \<circ> fst) (pP2sh p), p2shHex = map_option (narrow \<circ> snd) (pP2sh p),
      compressedPubKey = map_option narrow (pCompressedPubKey p), unconfirmed = (pUnconfirmed p \<noteq> Some False),
      attachPrevTx = (pAttachPrevTx p = Some True), exactInputs = False, hasActionPayload = False,
      preparedData = \<lparr>dataBufferArray = [], payloadEncoding = E_OP_RETURN, internalPubkey = None\<rparr>,
      callReservations = \<lparr>claims = [], buildTxid = None\<rparr>, firstReservedOutpoint = None, txidFirstInput = None,
      psbtOf = None, p2shTx = None, feePerBytes = 0, nodeFeePerBytes = None, relayFeePerKb = 0, capFeePerBytes = None,
      finalDust = 0, isP2shFamily = False, revealCustomOutputsValue = 0, revealCustomOutputsBytes = 0,
      revealCustomOutputsFee = 0, revealHeadroomFunded = False, revealPrefund = None, envelopeContextOf = None,
      outputSatoshis = 0, inputSatoshis = 0, phaseLegInputSatoshis = 0, voutPsbtIndex = 0, estimatedTxSize = 0,
      estimatedFee = 0, requestedFee = None, softDustSurcharge = 0, selectedInputCount = 0, unconfirmedInputTxids = [],
      reservedCandidates = 0, segwitMarkerCounted = False, cpfpUpliftBound = 0, commitAncestorSize = 0,
      commitAncestorFeeSat = 0, changeSatoshis = 0\<rparr>"

section \<open>Building\<close>

text \<open>The service: the library, the encoder with its guard, the coin-node client, and what its environment says.\<close>

record service =
  svLib :: lib
  svEncoder :: encoder
  svTracker :: trackerSetup
  svNode :: node
  svConsensus :: string
  svOverride :: "jstring option"

record serviceState =
  ssConnector :: connector
  ssGuard :: guard

text \<open>
  \<open>create_tx\<close>. \<open>a\<close> is what the surroundings answer the build; \<open>now\<close> is the clock at the prelaunch check, \<open>later\<close> where the
  receipt is minted, \<open>newId\<close> the random ticket. The result stands for its PSBTs in hex.
\<close>

definition create_tx :: "service \<Rightarrow> answers \<Rightarrow> int \<Rightarrow> int \<Rightarrow> string \<Rightarrow> jsval \<Rightarrow> serviceState \<Rightarrow>
    serviceState \<times> (buildResult \<times> receipt option) answer" where
  "create_tx sv a now later newId raw s =
     (case validateAll (onCurve (svLib sv)) (Some (paymentOutputFloor (svEncoder sv))) raw of
        Inl e \<Rightarrow> (s, Inl (toRpcError e))
      | Inr p \<Rightarrow>
          (case assertNotMainnetPrelaunch (svConsensus sv) (svOverride sv) now (pData p) of
             Inl e \<Rightarrow> (s, Inl e)
           | Inr _ \<Rightarrow>
               (case assertNodeTierOrRpcError (svNode sv) (ssConnector s) of
                  (c, Inl e) \<Rightarrow> (s\<lparr>ssConnector := c\<rparr>, Inl e)
                | (c, Inr _) \<Rightarrow>
                    (case create (svLib sv) (svEncoder sv) (svTracker sv) a (requestOf p) (wantsExactInputs p) (buildOf p) later newId (ssGuard s) of
                       (g, Inl e) \<Rightarrow> (s\<lparr>ssConnector := c, ssGuard := g\<rparr>, Inl (toRpcError e))
                     | (g, Inr r) \<Rightarrow> (s\<lparr>ssConnector := c, ssGuard := g\<rparr>, Inr r)))))"

definition notAnObject :: rpcError where
  "notAnObject = rpcFailure (- 32602) (Text (js ''Request params must be an object''))"

definition create_envelope_cancel_tx :: "service \<Rightarrow> int \<Rightarrow> string \<Rightarrow> jsnum \<Rightarrow> rat result \<Rightarrow> (guard \<Rightarrow> guard) \<Rightarrow> int \<Rightarrow> string \<Rightarrow>
    jsval \<Rightarrow> serviceState \<Rightarrow> serviceState \<times> ((psbt \<times> int) \<times> receipt option) answer" where
  "create_envelope_cancel_tx sv now ownerId relayfee estimate others later newId raw s =
     (if \<not> isPlainObject raw then (s, Inl notAnObject)
      else (case assertNodeTierOrRpcError (svNode sv) (ssConnector s) of
              (c, Inl e) \<Rightarrow> (s\<lparr>ssConnector := c\<rparr>, Inl e)
            | (c, Inr _) \<Rightarrow>
                (case createEnvelopeCancel (svLib sv) (svEncoder sv) raw now ownerId relayfee estimate others later newId (ssGuard s) of
                   (g, Inl e) \<Rightarrow> (s\<lparr>ssConnector := c, ssGuard := g\<rparr>, Inl (toRpcError e))
                 | (g, Inr r) \<Rightarrow> (s\<lparr>ssConnector := c, ssGuard := g\<rparr>, Inr r))))"

definition release_inputs :: "int \<Rightarrow> jsval \<Rightarrow> serviceState \<Rightarrow> serviceState \<times> released answer" where
  "release_inputs now raw s =
     (case (if isPlainObject raw then validateReservationId (getProp raw ''reservationId'')
            else throw (ParamTypeError ''Request params must be an object'')) of
        Inl e \<Rightarrow> (s, Inl (toRpcError e))
      | Inr rid \<Rightarrow>
          (case releaseReservation (narrow rid) now (ssGuard s) of
             (g, Inl e) \<Rightarrow> (s\<lparr>ssGuard := g\<rparr>, Inl (toRpcError e))
           | (g, Inr r) \<Rightarrow> (s\<lparr>ssGuard := g\<rparr>, Inr r)))"

section \<open>Broadcast and lookups\<close>

definition isAlreadyKnown :: "fault \<Rightarrow> bool" where
  "isAlreadyKnown f \<longleftrightarrow> fNodeCode f = Some (- 27) \<or>
     (\<exists>p \<in> {''already in blockchain'', ''already in block chain'', ''already known'', ''already in mempool'', ''txn-already''}.
        containsUnits (js p) (fMessage f))"

text \<open>\<open>!raw.k\<close>, which is also so where \<open>raw\<close> is no object.\<close>

definition missingParam :: "string \<Rightarrow> string \<Rightarrow> jsval \<Rightarrow> unit answer" where
  "missingParam k message raw = (if truthyVal (getProp raw k) then Inr () else Inl (rpcFailure (- 32602) (Text (js message))))"

definition broadcast_tx :: "service \<Rightarrow> jsval \<Rightarrow> connector \<Rightarrow> connector \<times> jsval answer" where
  "broadcast_tx sv raw s =
     (case missingParam ''tx_hex'' ''Missing required parameter: tx_hex'' raw of
        Inl e \<Rightarrow> (s, Inl e)
      | Inr _ \<Rightarrow>
          (case validateRawTxHex (getProp raw ''tx_hex'') of
             Inl e \<Rightarrow> (s, Inl (toRpcError e))
           | Inr hex \<Rightarrow>
               if txOuts (svLib sv) (hexBytes hex) = None
               then (s, Inl (toRpcError (ParamTypeError ''tx_hex is not a parseable transaction'')))
               else (case assertNodeTierOrRpcError (svNode sv) s of
                       (s, Inl e) \<Rightarrow> (s, Inl e)
                     | (s, Inr _) \<Rightarrow>
                         (case sendRawTransaction (svNode sv) hex s of
                            (s, Inr sent) \<Rightarrow> (s, Inr sent)
                          | (s, Inl f) \<Rightarrow>
                              (s, Inl (case fNodeCode f of
                                 Some c \<Rightarrow> \<lparr>rpcCode = - 32010, rpcText = Text (upstreamErrorMessage f (js ''Transaction broadcast failed'')),
                                            rpcReason = Some (if isAlreadyKnown f then ''TX_ALREADY_IN_CHAIN'' else ''NODE_REJECTED''),
                                            rpcNodeCode = Some c\<rparr>
                               | None \<Rightarrow> rpcFailure (- 32603) (Text (upstreamErrorMessage f (js ''Transaction broadcast failed'')))))))))"

definition validateLookupTxid :: "jsval \<Rightarrow> jstring answer" where
  "validateLookupTxid raw =
     (case getProp raw ''txid'' of
        Str t \<Rightarrow> if isHex64 t then Inr t else Inl (rpcFailure (- 32602) (Text (js ''txid must be a 64-hex-character string'')))
      | _ \<Rightarrow> Inl (rpcFailure (- 32602) (Text (js ''txid must be a 64-hex-character string''))))"

definition lookupFailure :: "fault \<Rightarrow> string \<Rightarrow> rpcError" where
  "lookupFailure f name = rpcFailure (- 32603) (Text (upstreamErrorMessage f (js name @ js '' lookup failed'')))"

text \<open>
  \<open>getTxBlock\<close> of \<open>src/src/build/utxo_tracker.js\<close>: ready, then one request. \<open>ready\<close> is how the readiness check ended and
  \<open>body\<close> what the request answered; the result is an object or \<open>null\<close>.
\<close>

definition getTxBlock :: "fault + unit \<Rightarrow> fault + jsval \<Rightarrow> fault + jsval" where
  "getTxBlock ready body =
     (case ready of
        Inl f \<Rightarrow> Inl f
      | Inr _ \<Rightarrow>
          (case body of
             Inl f \<Rightarrow> Inl f
           | Inr b \<Rightarrow>
               (case getProp b ''result'' of
                  Null \<Rightarrow> Inr Null
                | Obj fs \<Rightarrow> Inr (Obj fs)
                | _ \<Rightarrow> Inl (plainError (js ''Error getting transaction block: empty result'')))))"

definition get_tx_status :: "node \<Rightarrow> fault + jsval \<Rightarrow> jsval \<Rightarrow> connector \<Rightarrow> connector \<times> string answer" where
  "get_tx_status N block raw s =
     (case validateLookupTxid raw of
        Inl e \<Rightarrow> (s, Inl e)
      | Inr t \<Rightarrow>
          (case getMempoolEntry N t s of
             (s, Inl f) \<Rightarrow> (s, Inl (lookupFailure f ''Transaction status''))
           | (s, Inr (Some _)) \<Rightarrow> (s, Inr ''mempool'')
           | (s, Inr None) \<Rightarrow>
               (s, case block of
                     Inl f \<Rightarrow> Inl (lookupFailure f ''Transaction status'')
                   | Inr b \<Rightarrow> Inr (if b = Null then ''unknown'' else ''chain''))))"

definition get_tx_block :: "fault + jsval \<Rightarrow> jsval \<Rightarrow> jsval answer" where
  "get_tx_block block raw =
     (case validateLookupTxid raw of
        Inl e \<Rightarrow> Inl e
      | Inr t \<Rightarrow> (case block of Inl f \<Rightarrow> Inl (lookupFailure f ''Transaction block'') | Inr b \<Rightarrow> Inr b))"

text \<open>\<open>faultOf\<close> is the error object behind an error of the fetch, with the text it interpolates.\<close>

definition get_utxos :: "(err \<Rightarrow> fault) \<Rightarrow> (jstring \<Rightarrow> (jsval \<times> jsval list) result) \<Rightarrow> jsval \<Rightarrow> (jsval \<times> jsval list) answer" where
  "get_utxos faultOf fetch raw =
     (case missingParam ''address'' ''Missing required parameter: address'' raw of
        Inl e \<Rightarrow> Inl e
      | Inr _ \<Rightarrow>
          (case validateAddress (getProp raw ''address'') of
             Inl e \<Rightarrow> Inl (toRpcError e)
           | Inr address \<Rightarrow>
               (case fetch address of
                  Inr r \<Rightarrow> Inr r
                | Inl e \<Rightarrow>
                    if e = UTXO_SET_TOO_LARGE
                    then Inl ((rpcFailure (- 32010) (Own e))\<lparr>rpcReason := Some ''UTXO_SET_TOO_LARGE''\<rparr>)
                    else Inl (rpcFailure (- 32603) (Text (upstreamErrorMessage (faultOf e) (js ''UTXO fetch failed'')))))))"

section \<open>Fee quotes\<close>

definition jsMax :: "jsnum \<Rightarrow> jsnum \<Rightarrow> jsnum" where
  "jsMax a b =
     (case (a, b) of
        (NaN, _) \<Rightarrow> NaN | (_, NaN) \<Rightarrow> NaN | (PosInf, _) \<Rightarrow> PosInf | (_, PosInf) \<Rightarrow> PosInf
      | (NegInf, _) \<Rightarrow> b | (_, NegInf) \<Rightarrow> a | (Fin x, Fin y) \<Rightarrow> Fin (max x y))"

definition roundNum :: "jsnum \<Rightarrow> jsnum" where
  "roundNum n = (case n of Fin r \<Rightarrow> Fin (of_int (js_round r)) | _ \<Rightarrow> n)"

definition capPerVbyte :: "jsnum \<Rightarrow> string \<Rightarrow> int option" where
  "capPerVbyte setting key =
     map_option (\<lambda>c. max 1 (js_round (fl (c * 100000000)))) (suggestedFeeCeilingPerByte setting key 100000000)"

definition quoteTier :: "int option \<Rightarrow> jsnum list \<Rightarrow> jsnum \<Rightarrow> jsnum" where
  "quoteTier cap out feerate =
     (let v = jsMax (Fin 1) (roundNum (timesNum feerate 100000));
          v = (case cap of Some c \<Rightarrow> if js_gt v (of_int c) then Fin (of_int c) else v | None \<Rightarrow> v)
      in foldl jsMax v out)"

fun quoteTiers :: "node \<Rightarrow> feeSettings \<Rightarrow> int option \<Rightarrow> nat list \<Rightarrow> jsnum list \<Rightarrow> jsnum list act" where
  "quoteTiers N f cap [] out = ret out"
| "quoteTiers N f cap (t # ts) out =
     bindA (getFeePerKilobyte N f t) (\<lambda>feerate. quoteTiers N f cap ts (out @ [quoteTier cap out feerate]))"

text \<open>The tiers \<open>low\<close>, \<open>medium\<close> and \<open>high\<close>, at 6, 3 and 1 blocks.\<close>

definition estimate_fee :: "node \<Rightarrow> feeSettings \<Rightarrow> jsnum \<Rightarrow> string \<Rightarrow> connector \<Rightarrow> connector \<times> jsnum list answer" where
  "estimate_fee N f setting key s =
     (case assertNodeTierOrRpcError N s of
        (s, Inl e) \<Rightarrow> (s, Inl e)
      | (s, Inr _) \<Rightarrow>
          (case quoteTiers N f (capPerVbyte setting key) [6, 3, 1] [] s of
             (s, Inr out) \<Rightarrow> (s, Inr out)
           | (s, Inl e) \<Rightarrow>
               (s, Inl (if fOperational e \<noteq> None then toRpcFault e else rpcFailure (- 32603) (Text (js ''Fee estimation failed''))))))"

end
