(* ===== verification/ServiceProperties.thy ===== *)
theory ServiceProperties
  imports Service PayloadCheckProperties PipelineInstances ConnectorProperties
begin

text \<open>
  What the JSON-RPC methods promise: the gates a build passes and the errors it leaves with, which upstream text a
  caller can see, and the shape of a fee quote.
\<close>

section \<open>Validator actions through the payload steps\<close>

lemma upper_keeps_space: "isSpaceUnit u \<Longrightarrow> upperUnit u = [u]"
  by (auto simp: isSpaceUnit_def upperUnit_def)

lemma upper_no_space:
  assumes "toUpper s = t" "list_all (\<lambda>u. \<not> isSpaceUnit u) t"
  shows "trim s = s"
proof -
  have "\<not> isSpaceUnit u" if "u \<in> set s" for u
  proof
    assume "isSpaceUnit u"
    then have "u \<in> set t" using that assms(1) upper_keeps_space [of u] by (force simp: toUpper_def)
    then show False using assms(2) \<open>isSpaceUnit u\<close> by (simp add: list_all_iff)
  qed
  then have d: "dropWhile isSpaceUnit s = s" "dropWhile isSpaceUnit (rev s) = rev s"
    using hd_in_set [of s] hd_in_set [of "rev s"] by (cases s, simp_all) (cases "rev s", auto)
  show ?thesis by (simp add: trim_def d)
qed

lemma validator_not_file: "isValidatorWireAction (Some s) \<Longrightarrow> \<not> isFileV0Action (Some s)"
proof
  assume v: "isValidatorWireAction (Some s)" and f: "isFileV0Action (Some s)"
  then have u: "toUpper (hd (splitBar s)) = js ''FILE''" by (simp add: isFileV0Action_def hd_conv_nth)
  then have t: "trim (hd (splitBar s)) = hd (splitBar s)" by (rule upper_no_space) (simp add: isSpaceUnit_def)
  have "map_of (map (\<lambda>(k, v). (js k, v)) VALIDATOR_WIRE_FORMATS) (js ''FILE'') = None" by code_simp
  then show False using v by (simp add: isValidatorWireAction_def Let_def t u split: if_splits)
qed

text \<open>Compression changes nothing but a FILE.\<close>

lemma compress_only_files:
  assumes "compressPayload deflate setting rq ps = Inr ps'" "\<not> isFileV0Action (psData ps)"
  shows "psData ps' = psData ps \<and> psRawData ps' = psRawData ps"
proof (cases "psRawData ps")
  case None
  then show ?thesis using assms(1) by (auto simp: compressPayload_def Let_def)
next
  case (Some raw)
  obtain e where g: "guardCompressible (psData ps) (latin1 raw) = Some e" using assms(2) by (simp add: guardCompressible_def)
  then show ?thesis using assms(1) Some g
    by (auto simp: compressPayload_def Let_def andThen_Inr_iff compressPayloadForAction_def unchanged_def split: if_splits option.splits prod.splits)
qed

text \<open>The validator bounds what the two fields weigh together.\<close>

lemma push_covers: "n \<le> envelopePushSize n"
  by (simp add: envelopePushSize_def compiledPushSize_def)

lemma combined_lengths:
  assumes "validateCombinedDataLength data rawData enc = Inr ()" "d \<in> set (payloadBuffers data rawData)" "data \<noteq> None \<or> rawData \<noteq> None"
  shows "length d < 2 ^ 32"
proof -
  let ?n = "case data of Some s \<Rightarrow> length (utf8 s) | None \<Rightarrow> 0" and ?m = "case rawData of Some s \<Rightarrow> length (latin1 s) | None \<Rightarrow> 0"
  have "envelopePushSize ?n + (if rawData \<noteq> None then envelopePushSize ?m else 0) \<le> ENVELOPE_MAX_PAYLOAD + MAX_COMPILED_ACTION_DATA_LENGTH"
    using assms(1,3) by (auto simp: validateCombinedDataLength_def Let_def split: if_splits)
  then have "?n + (if rawData \<noteq> None then ?m else 0) \<le> ENVELOPE_MAX_PAYLOAD + MAX_COMPILED_ACTION_DATA_LENGTH"
    using push_covers [of ?n] push_covers [of ?m] by (auto split: if_splits)
  then show ?thesis using assms(2)
    by (auto simp: payloadBuffers_def ENVELOPE_MAX_PAYLOAD_def MAX_COMPILED_ACTION_DATA_LENGTH_def split: option.splits)
qed

lemma validated_lengths:
  assumes "validateAll isPoint minPay raw = Inr p" "d \<in> set (payloadBuffers (pData p) (pRawData p))"
  shows "length d < 2 ^ 32"
proof -
  obtain enc where "validateActionFields raw = Inr (pData p, pRawData p, enc)"
    using assms(1) by (auto simp: validateAll_def andThen_Inr_iff split: if_splits)
  then have "pData p \<noteq> None \<or> pRawData p \<noteq> None \<Longrightarrow> validateCombinedDataLength (pData p) (pRawData p) enc = Inr ()"
    by (auto simp: validateActionFields_def andThen_Inr_iff split: if_splits)
  then show ?thesis using combined_lengths assms(2) by (cases "pData p = None \<and> pRawData p = None") (auto simp: payloadBuffers_def)
qed

text \<open>A payload that compiled from a validator action reads as that action.\<close>

lemma validator_reads_back:
  assumes "script_codec (compile L) (decompile L)" "payloadPhase L enc a rq b = Inr (ps, b1)"
    and "isValidatorWireAction (rqData rq)" "\<forall>d \<in> set (payloadBuffers (rqData rq) (rqRawData rq)). length d < 2 ^ 32"
  shows "\<exists>i rest text. decompile L (psFinal ps) = Some (i # rest) \<and> readUtf8 (pushed i) = Some text \<and> rqData rq = Some text"
proof -
  obtain s where s: "rqData rq = Some s" using assms(3) by (cases "rqData rq") (auto simp: isValidatorWireAction_def)
  obtain ps0 b0 bf where p: "checkPayloadInput L enc rq b = Inr (ps0, b0)" "preparePayload L enc (aDeflate a) (aSetting a) (aTip a) rq bf ps0 = Inr (ps, b1)"
    using assms(2) by (auto simp: payloadPhase_def andThen_Inr_iff)
  have d0: "psData ps0 = Some s" "psRawData ps0 = rqRawData rq" and wf: "isWellFormed s"
    using p(1) s by (auto simp: checkPayloadInput_def andThen_Inr_iff startPayload_def validateDataParam_def Let_def split: if_splits)
  obtain p1 p2 where q: "compressPayload (aDeflate a) (aSetting a) rq ps0 = Inr p1" "compilePayload L p1 = Inr p2"
    "chooseEncoding enc rq (bf\<lparr>hasActionPayload := psHasAction (classifyPayload p2)\<rparr>) (classifyPayload p2) = Inr ps"
    using p(2) by (auto simp: preparePayload_def andThen_Inr_iff Let_def)
  have "psData p1 = Some s" "psRawData p1 = rqRawData rq"
    using compress_only_files [OF q(1)] validator_not_file assms(3) d0 s by auto
  note d1 = this
  have "psFinal ps = psFinal p2" using q(3) by (auto simp: chooseEncoding_def classifyPayload_def Let_def split: if_splits)
  then obtain items where i: "decompile L (psFinal ps) = Some items" "map pushed items = payloadBuffers (Some s) (rqRawData rq)"
    using compile_reads_back [OF assms(1) q(2)] assms(4) s d1 by auto
  then obtain j rest where "items = j # rest" "pushed j = utf8 s" by (cases items) (auto simp: payloadBuffers_def)
  then show ?thesis using i(1) s wf by (simp add: readUtf8_utf8)
qed

section \<open>The gates of a build\<close>

lemma create_runs:
  assumes "create L enc t a rq exact b now newId g = (g', Inr r)"
  obtains ps b1 where "payloadPhase L enc a rq (b\<lparr>callReservations := \<lparr>claims = [], buildTxid = None\<rparr>\<rparr>) = Inr (ps, b1)"
proof -
  obtain g2 b2 res where "buildSteps L enc t a rq exact (g, b\<lparr>callReservations := \<lparr>claims = [], buildTxid = None\<rparr>\<rparr>) = ((g2, b2), Inr res)"
    using assms by (auto simp: create_def createTransaction_def split: prod.splits sum.splits)
  then show ?thesis by (rule buildSteps_run) (rule that)
qed

text \<open>The three shapes of a refusal.\<close>

definition documented :: "rpcError \<Rightarrow> bool" where
  "documented e \<longleftrightarrow>
     rpcCode e = - 32602 \<and> (\<exists>m. rpcText e = Own m \<and> isInvalidParams m) \<or>
     rpcCode e = - 32010 \<and> rpcReason e \<noteq> None \<or>
     rpcCode e = - 32603 \<and> rpcText e = Text (js ''Internal encoder error'')"

lemma toRpcError_documented: "documented (toRpcError e)"
  by (cases e) (auto simp: documented_def toRpcError_def rpcFailure_def)

lemma toRpcFault_documented: "documented (toRpcFault f)"
  by (auto simp: documented_def toRpcFault_def rpcFailure_def split: option.splits)

lemma tier_documented: "assertNodeTierOrRpcError N s = (c, Inl e) \<Longrightarrow> documented e"
  by (auto simp: assertNodeTierOrRpcError_def toRpcFault_documented split: prod.splits sum.splits)

lemma prelaunch_documented: "assertNotMainnetPrelaunch net setting now data = Inl e \<Longrightarrow> documented e"
  by (auto simp: assertNotMainnetPrelaunch_def documented_def rpcFailure_def split: if_splits)

text \<open>Before launch: the network, the clock and the operator's setting close the door.\<close>

definition closed :: "service \<Rightarrow> int \<Rightarrow> bool" where
  "closed sv now \<longleftrightarrow> svConsensus sv = ''mainnet'' \<and> now < MAINNET_LAUNCH_TS * 1000 \<and> \<not> overrideOn (svOverride sv)"

lemma closed_admits: "closed sv now \<Longrightarrow> assertNotMainnetPrelaunch (svConsensus sv) (svOverride sv) now data = Inr () \<longleftrightarrow> isValidatorWireAction data"
  by (auto simp: closed_def assertNotMainnetPrelaunch_def MAINNET_LAUNCH_TS_def)

lemma create_tx_accepts:
  assumes "create_tx sv a now later newId raw s = (s', Inr (r, rc))"
  obtains p c g where "validateAll (onCurve (svLib sv)) (Some (paymentOutputFloor (svEncoder sv))) raw = Inr p"
    "assertNotMainnetPrelaunch (svConsensus sv) (svOverride sv) now (pData p) = Inr ()" "assertNodeTier (svNode sv) (ssConnector s) = (c, Inr ())"
    "create (svLib sv) (svEncoder sv) (svTracker sv) a (requestOf p) (wantsExactInputs p) (buildOf p) later newId (ssGuard s) = (g, Inr (r, rc))"
  using assms by (auto simp: create_tx_def assertNodeTierOrRpcError_def split: sum.splits prod.splits)


text \<open>An example: a mainnet service before launch, asked for a \<open>SEND\<close>.\<close>

definition early_service :: service where
  "early_service = \<lparr>svLib = exampleLib, svEncoder = btcEncoder, svTracker = \<lparr>tsProfile = PROFILE_REMOTE, tsMaxLag = 2, tsCap = 10000\<rparr>,
     svNode = \<lparr>answer = (\<lambda>_ _. Inr Null), textOf = (\<lambda>_. []), jsonText = (\<lambda>_. [])\<rparr>, svConsensus = ''mainnet'', svOverride = None\<rparr>"

definition send_params :: jsval where
  "send_params = Obj [(js ''data'', Str send_text), (js ''pubkey'', Str (js ''caller''))]"

lemma send_reads:
  "getProp send_params ''data'' = Str send_text" "getProp send_params ''pubkey'' = Str (js ''caller'')"
  "getProp send_params ''rawData'' = Undefined"
  "getProp send_params ''encoding'' = Undefined"
  "getProp send_params ''fee'' = Undefined"
  "getProp send_params ''feePerKb'' = Undefined"
  "getProp send_params ''dust'' = Undefined"
  "getProp send_params ''utxos'' = Undefined"
  "getProp send_params ''customOutputs'' = Undefined"
  "getProp send_params ''feeQuote'' = Undefined"
  "getProp send_params ''p2shHash'' = Undefined"
  "getProp send_params ''p2shHex'' = Undefined"
  "getProp send_params ''compressedPubKey'' = Undefined"
  "getProp send_params ''change'' = Undefined"
  "getProp send_params ''rbf'' = Undefined"
  "getProp send_params ''unconfirmed'' = Undefined"
  "getProp send_params ''attachPrevTx'' = Undefined"
  "getProp send_params ''compress'' = Undefined"
  "getProp send_params ''options'' = Undefined"
  by (simp_all add: send_params_def getProp_def jm_get_def)

lemma send_keys: "isPlainObject send_params" "set (keysOf send_params) \<subseteq> js ` set VALID_CREATE_TX_PARAMS"
  by (simp_all add: send_params_def keysOf_def VALID_CREATE_TX_PARAMS_def del: js_simps)

lemma send_known: "unknownActionName (Some send_text) = None"
proof -
  have t: "send_text = js ''SEND''" "hd (splitBar send_text) = send_text" by (simp_all add: send_text_def)
  have "js ''SEND'' \<in> set (map js VALID_ACTION_NAMES)" by (simp add: VALID_ACTION_NAMES_def del: js_simps)
  moreover have "jm_get (map (map_prod js js) ACTION_ALIASES) (js ''SEND'') = None"
    by (simp add: jm_get_def ACTION_ALIASES_def del: js_simps)
  ultimately show ?thesis using t by (simp add: unknownActionName_def del: js_simps)
qed

lemma send_pieces:
  "validateDataParam False (Str send_text) = Inr (Some send_text)" "validateCombinedDataLength (Some send_text) None None = Inr ()"
  "validateActionPushDecodability (Some send_text) None = Inr ()" "validateActionName (Some send_text) = Inr ()"
  by (simp_all add: validateDataParam_def validateCombinedDataLength_def send_bytes validateActionPushDecodability_def isMinimalOpSingleByte_def
      validateActionName_def send_known envelopePushSize_def compiledPushSize_def MAX_COMPILED_ACTION_DATA_LENGTH_def Let_def)
    (simp add: send_text_def isHigh_def isLow_def)

lemma caller_pieces: "validateAddress (Str (js ''caller'')) = Inr (js ''caller'')" "\<not> isUncompressedHex (js ''caller'')" "\<not> isCompressedHex (js ''caller'')"
  by (simp_all add: validateAddress_def isUncompressedHex_def isCompressedHex_def)

lemma send_validated: "\<exists>p. validateAll isPoint minPay send_params = Inr p \<and> pData p = Some (send_text)"
  by (simp add: validateAll_def send_keys send_reads validateActionFields_def send_pieces caller_pieces validatePubkey_def validateDataParam_def [of True]
     validateEncoding_def validateFee_def validateMoney_def validateFeePerKb_def validateDust_def validateUtxoArray_def validateCustomOutputs_def validateFeeQuote_def
     validateP2shParams_def validateCompressedKey_def validateChange_def validateEncodingRequirements_def validateOptionalBoolean_def validateCreateTxOptions_def del: js_simps)

lemma send_refused:
  "\<exists>s' e. create_tx early_service a 0 later newId send_params s = (s', Inl e) \<and> rpcReason e = Some ''MAINNET_PRELAUNCH''"
proof -
  obtain p where p: "validateAll (onCurve (svLib early_service)) (Some (paymentOutputFloor (svEncoder early_service))) send_params = Inr p"
    "pData p = Some send_text" using send_validated by blast
  have "map_of (map (\<lambda>(k, v). (js k, v)) VALIDATOR_WIRE_FORMATS) (js ''SEND'') = None"
    by (simp add: VALIDATOR_WIRE_FORMATS_def del: js_simps)
  moreover have "toUpper (trim (hd (splitBar send_text))) = js ''SEND''" by (simp add: send_text_def trim_def isSpaceUnit_def toUpper_def upperUnit_def)
  ultimately have "\<not> isValidatorWireAction (Some send_text)" by (simp add: isValidatorWireAction_def Let_def del: js_simps) 
  then have "assertNotMainnetPrelaunch ''mainnet'' None 0 (Some send_text) =
      Inl ((rpcFailure (- 32010) (Text (js ''Mainnet is not open yet: only validator actions can be built before launch'')))
                  \<lparr>rpcReason := Some ''MAINNET_PRELAUNCH''\<rparr>)"
    by (simp add: assertNotMainnetPrelaunch_def MAINNET_LAUNCH_TS_def overrideOn_def)
  then show ?thesis by (simp add: create_tx_def p del: js_simps) (simp add: early_service_def)
qed


end
