(* ===== verification/Logging.thy ===== *)
theory Logging
  imports Json NodeRpc
begin

text \<open>
  Log records, \<open>src/src/observability/logShipper.js\<close>: what is redacted from fields and message text, the record of
  a log call, its text line and the settings. The regular expressions are scanners: each tries the pattern at one
  position and says what follows the match. Fields are trees of values, so no object refers to itself; an
  \<open>Error\<close> among them and a value whose \<open>toJSON\<close> throws are not modelled.
\<close>

section \<open>Secrets in field names\<close>

definition REDACTED :: jstring where "REDACTED = js ''[redacted]''"

definition SECRET_KEY_WORDS :: "string list" where
  "SECRET_KEY_WORDS = [''pass'', ''secret'', ''token'', ''apikey'', ''api_key'', ''api-key'', ''auth'', ''credential'', ''wif'',
     ''privkey'', ''priv_key'', ''priv-key'', ''privatekey'', ''private_key'', ''private-key'', ''mnemonic'', ''seed'', ''cookie'', ''session'']"

definition secretKey :: "jstring \<Rightarrow> bool" where
  "secretKey k = list_ex (\<lambda>w. containsUnits (js w) k) SECRET_KEY_WORDS"

text \<open>\<open>redactFields\<close>, by how many levels may still be walked; the entry point allows four.\<close>

fun redactFrom :: "nat \<Rightarrow> jsval \<Rightarrow> jsval" where
  "redactFrom n (BigInt i) = Str ((if i < 0 then js ''-'' else []) @ js (decimal (nat \<bar>i\<bar>)))"
| "redactFrom 0 (Arr vs) = Str (js ''[truncated]'')"
| "redactFrom 0 (Obj fs) = Str (js ''[truncated]'')"
| "redactFrom (Suc n) (Arr vs) = Arr (map (redactFrom n) (take 50 vs))"
| "redactFrom (Suc n) (Obj fs) = Obj (map (\<lambda>(k, v). (k, if secretKey k then Str REDACTED else redactFrom n v)) fs)"
| "redactFrom n v = v"

definition redactFields :: "jsval \<Rightarrow> jsval" where "redactFields v = redactFrom 4 v"

section \<open>Secrets in message text\<close>

definition SECRET_INLINE_WORDS :: "string list" where
  "SECRET_INLINE_WORDS = [''pass'', ''secret'', ''token'', ''apikey'', ''api_key'', ''authorization'', ''credential'', ''wif'',
     ''privkey'', ''priv_key'', ''privatekey'', ''private_key'', ''mnemonic'', ''seed'']"

definition startsWithText :: "string \<Rightarrow> jstring \<Rightarrow> bool" where
  "startsWithText p s = (map lowerUnit (take (length p) s) = map lowerUnit (js p))"

definition endsWithText :: "string \<Rightarrow> jstring \<Rightarrow> bool" where
  "endsWithText p s = startsWithText (rev p) (rev s)"

text \<open>
  How long a key may be that starts here: a run of word characters with one of the words in it, or one that ends in
  the first half of a dashed word, the dash, and a run that starts with \<open>key\<close>.
\<close>

definition secretRuns :: "jstring \<Rightarrow> nat list" where
  "secretRuns s =
     (let run = takeWhile isWordUnit s; rest = dropWhile isWordUnit s; second = takeWhile isWordUnit (tl rest)
      in (if list_ex (\<lambda>w. containsUnits (js w) run) SECRET_INLINE_WORDS then [length run] else []) @
         (if rest \<noteq> [] \<and> hd rest = 45 \<and> list_ex (\<lambda>p. endsWithText p run) [''api'', ''priv'', ''private''] \<and> startsWithText ''key'' second
          then [length run + 1 + length second] else []))"

definition afterBearer :: "jstring \<Rightarrow> jstring" where
  "afterBearer v =
     (let w = dropWhile isSpaceUnit (drop 6 v)
      in if startsWithText ''bearer'' v \<and> w \<noteq> drop 6 v \<and> w \<noteq> [] then w else v)"

text \<open>What follows a value: a quoted one ends at its quote, any other at the next white space.\<close>

definition afterValue :: "jstring \<Rightarrow> jstring" where
  "afterValue v =
     (let quoted = (\<lambda>q. v \<noteq> [] \<and> hd v = q \<and> q \<in> set (tl v))
      in if quoted 34 then tl (dropWhile (\<lambda>u. u \<noteq> 34) (tl v))
         else if quoted 39 then tl (dropWhile (\<lambda>u. u \<noteq> 39) (tl v))
         else dropWhile (\<lambda>u. \<not> isSpaceUnit u) v)"

text \<open>The pattern after a key of \<open>n\<close> units: what is kept and what follows the value.\<close>

definition secretPair :: "jstring \<Rightarrow> nat \<Rightarrow> (jstring \<times> jstring) option" where
  "secretPair s n =
     (let t = dropWhile isSpaceUnit (drop n s); v = dropWhile isSpaceUnit (tl t)
      in if t \<noteq> [] \<and> (hd t = 58 \<or> hd t = 61) \<and> v \<noteq> []
         then Some (take (length s - length v) s, afterValue (afterBearer v)) else None)"

definition secretAt :: "jstring \<Rightarrow> (jstring \<times> jstring) option" where
  "secretAt s = (case List.map_filter (secretPair s) (secretRuns s) of m # _ \<Rightarrow> Some m | [] \<Rightarrow> None)"

definition isAlnum :: "16 word \<Rightarrow> bool" where "isAlnum u = (isLetterUnit u \<or> isDigit u)"

text \<open>The unit before the rest of a text.\<close>

definition lastBefore :: "jstring \<Rightarrow> jstring \<Rightarrow> 16 word" where
  "lastBefore s rest = s ! (length s - length rest - 1)"

lemma afterBearer_length: "length (afterBearer v) \<le> length v"
proof -
  have "length (dropWhile isSpaceUnit (drop 6 v)) \<le> length (drop 6 v)" by (rule length_dropWhile_le)
  then have "length (dropWhile isSpaceUnit (drop 6 v)) \<le> length v" by simp
  then show ?thesis by (auto simp only: afterBearer_def Let_def split: if_splits)
qed

lemma afterValue_length: "length (afterValue v) \<le> length v"
  using length_dropWhile_le [of "\<lambda>u. u \<noteq> 34" "tl v"] length_dropWhile_le [of "\<lambda>u. u \<noteq> 39" "tl v"] length_dropWhile_le [of "\<lambda>u. \<not> isSpaceUnit u" v]
  by (auto simp: afterValue_def Let_def)

lemma secretPair_length: "secretPair s n = Some (kept, rest) \<Longrightarrow> length rest < length s"
proof -
  assume p: "secretPair s n = Some (kept, rest)"
  define t where "t = dropWhile isSpaceUnit (drop n s)"
  define v where "v = dropWhile isSpaceUnit (tl t)"
  have r: "t \<noteq> []" "rest = afterValue (afterBearer v)" using p by (auto simp: secretPair_def t_def v_def Let_def split: if_splits)
  have "length (tl t) < length t" using r(1) by (cases t) simp_all
  moreover have "length t \<le> length s" using length_dropWhile_le [of isSpaceUnit "drop n s"] by (simp add: t_def)
  moreover have "length v \<le> length (tl t)" unfolding v_def by (rule length_dropWhile_le)
  ultimately show ?thesis using afterValue_length [of "afterBearer v"] afterBearer_length [of v] unfolding r(2) by linarith
qed

lemma secretAt_length: "secretAt s = Some (kept, rest) \<Longrightarrow> length rest < length s"
proof -
  assume "secretAt s = Some (kept, rest)"
  then obtain ms where "List.map_filter (secretPair s) (secretRuns s) = (kept, rest) # ms" by (auto simp: secretAt_def split: list.splits)
  then have "(kept, rest) \<in> set (List.map_filter (secretPair s) (secretRuns s))" by simp
  then obtain n where "secretPair s n = Some (kept, rest)" unfolding map_filter_def by auto
  then show ?thesis by (rule secretPair_length)
qed

function scrubInline :: "bool \<Rightarrow> jstring \<Rightarrow> jstring" where
  "scrubInline inKey [] = []"
| "scrubInline inKey (u # s) =
     (case (if inKey then None else secretAt (u # s)) of
        Some (kept, rest) \<Rightarrow> kept @ REDACTED @ scrubInline (isAlnum (lastBefore (u # s) rest)) rest
      | None \<Rightarrow> u # scrubInline (isAlnum u) s)"
  by pat_completeness auto

termination
  by (relation "measure (length \<circ> snd)") (auto split: if_splits dest!: secretAt_length)

text \<open>A bearer token without a key.\<close>

definition isTokenUnit :: "16 word \<Rightarrow> bool" where
  "isTokenUnit u = (isAlnum u \<or> isUnitOf ''._~+/-'' u)"

definition bearerAt :: "jstring \<Rightarrow> jstring option" where
  "bearerAt s =
     (let t = drop 6 s; w = dropWhile isSpaceUnit t; rest = dropWhile isTokenUnit w
      in if startsWithText ''bearer'' s \<and> w \<noteq> t \<and> 8 \<le> length (takeWhile isTokenUnit w)
         then Some (drop (length (takeWhile (\<lambda>u. u = 61) (take 2 rest))) rest) else None)"

lemma bearerAt_length: "bearerAt s = Some rest \<Longrightarrow> length rest < length s"
proof -
  assume b: "bearerAt s = Some rest"
  let ?w = "dropWhile isSpaceUnit (drop 6 s)"
  have "8 \<le> length (takeWhile isTokenUnit ?w)" using b by (auto simp: bearerAt_def Let_def split: if_splits)
  moreover have "length (takeWhile isTokenUnit ?w) + length (dropWhile isTokenUnit ?w) = length ?w"
    by (metis length_append takeWhile_dropWhile_id)
  moreover have "length ?w \<le> length s" using length_dropWhile_le [of isSpaceUnit "drop 6 s"] by simp
  moreover have "length rest \<le> length (dropWhile isTokenUnit ?w)" using b by (auto simp: bearerAt_def Let_def split: if_splits)
  ultimately show ?thesis by linarith
qed

function scrubBearer :: "bool \<Rightarrow> jstring \<Rightarrow> jstring" where
  "scrubBearer inWord [] = []"
| "scrubBearer inWord (u # s) =
     (case (if inWord then None else bearerAt (u # s)) of
        Some rest \<Rightarrow> REDACTED @ scrubBearer (isWordUnit (lastBefore (u # s) rest)) rest
      | None \<Rightarrow> u # scrubBearer (isWordUnit u) s)"
  by pat_completeness auto

termination
  by (relation "measure (length \<circ> snd)") (auto split: if_splits dest!: bearerAt_length)

definition scrubMessage :: "jstring \<Rightarrow> jstring" where
  "scrubMessage msg = scrubBearer False (scrubInline False msg)"

section \<open>Settings\<close>

definition LEVELS :: "(string \<times> nat) list" where
  "LEVELS = [(''debug'', 10), (''info'', 20), (''warn'', 30), (''error'', 40)]"

text \<open>\<open>in\<close> also finds what every object inherits; such a level compares as \<open>NaN\<close>, so it silences nothing.\<close>

definition INHERITED_NAMES :: "string list" where
  "INHERITED_NAMES = [''constructor'', ''hasOwnProperty'', ''isPrototypeOf'', ''propertyIsEnumerable'', ''toLocaleString'', ''toString'',
     ''valueOf'', ''__proto__'', ''__defineGetter__'', ''__defineSetter__'', ''__lookupGetter__'', ''__lookupSetter__'']"

definition isLevel :: "jstring \<Rightarrow> bool" where
  "isLevel l \<longleftrightarrow> l \<in> set (map (js \<circ> fst) LEVELS) \<or> l \<in> set (map js INHERITED_NAMES)"

definition rank :: "jstring \<Rightarrow> nat option" where
  "rank l = map_of (map (\<lambda>(k, n). (js k, n)) LEVELS) l"

definition silenced :: "jstring \<Rightarrow> jstring \<Rightarrow> bool" where
  "silenced configured l = (case (rank l, rank configured) of (Some a, Some b) \<Rightarrow> a < b | _ \<Rightarrow> False)"

definition toBool :: "jstring option \<Rightarrow> bool \<Rightarrow> bool" where
  "toBool v fallback =
     (case v of None \<Rightarrow> fallback
      | Some s \<Rightarrow> if s = [] then fallback else map lowerUnit s \<in> set (map js [''1'', ''true'', ''yes'', ''on'']))"

definition toInt :: "jstring option \<Rightarrow> nat \<Rightarrow> nat" where
  "toInt v fallback =
     (case v of None \<Rightarrow> fallback
      | Some s \<Rightarrow> (case parseInt10 s of Fin r \<Rightarrow> if 0 < r then nat \<lfloor>r\<rfloor> else fallback | _ \<Rightarrow> fallback))"

record logConfig =
  lcJson :: bool
  lcLevel :: jstring
  lcShip :: bool
  lcUrl :: jstring
  lcToken :: jstring
  lcBatch :: nat
  lcInterval :: nat
  lcMaxBuffer :: nat
  lcTimeout :: nat

definition orEmpty :: "jstring option \<Rightarrow> jstring" where
  "orEmpty v = (case v of Some s \<Rightarrow> s | None \<Rightarrow> [])"

text \<open>\<open>protocolOf\<close> is the protocol of a parsed URL, \<open>None\<close> where the text is none.\<close>

definition readLogEnv :: "(jstring \<Rightarrow> string option) \<Rightarrow> (string \<Rightarrow> jstring option) \<Rightarrow> logConfig" where
  "readLogEnv protocolOf env =
     (let url = trim (orEmpty (env ''LOG_SHIP_URL''));
          urlOk = (url \<noteq> [] \<and> (protocolOf url = Some ''http:'' \<or> protocolOf url = Some ''https:''));
          level = (if orEmpty (env ''LOG_LEVEL'') = [] then js ''info'' else map lowerUnit (orEmpty (env ''LOG_LEVEL'')))
      in \<lparr>lcJson = (map lowerUnit (orEmpty (env ''LOG_FORMAT'')) = js ''json''),
          lcLevel = (if isLevel level then level else js ''info''),
          lcShip = (toBool (env ''LOG_SHIP_ENABLED'') False \<and> urlOk), lcUrl = (if urlOk then url else []),
          lcToken = orEmpty (env ''LOG_SHIP_TOKEN''), lcBatch = toInt (env ''LOG_SHIP_BATCH_SIZE'') 100,
          lcInterval = toInt (env ''LOG_SHIP_INTERVAL_MS'') 5000, lcMaxBuffer = toInt (env ''LOG_SHIP_MAX_BUFFER'') 5000,
          lcTimeout = toInt (env ''LOG_SHIP_TIMEOUT_MS'') 5000\<rparr>)"

section \<open>Records and lines\<close>

definition ENVELOPE_KEYS :: "string list" where
  "ENVELOPE_KEYS = [''ts'', ''level'', ''service'', ''msg'', ''version'']"

text \<open>\<open>log\<close>: the record of a call at time \<open>ts\<close>, or none where the level is silenced.\<close>

definition logRecord :: "logConfig \<Rightarrow> jstring \<Rightarrow> jstring \<Rightarrow> jstring \<Rightarrow> jstring \<Rightarrow> jstring \<Rightarrow> jsval \<Rightarrow> (jstring \<times> jsval) list option" where
  "logRecord cfg service version ts level msg given =
     (let level = (if isLevel level then level else js ''info'');
          safe = (case redactFields given of Obj fs \<Rightarrow> filter (\<lambda>(k, _). k \<notin> set (map js ENVELOPE_KEYS)) fs | _ \<Rightarrow> [])
      in if silenced (lcLevel cfg) level then None
         else Some ([(js ''ts'', Str ts), (js ''level'', Str level), (js ''service'', Str service), (js ''msg'', Str (scrubMessage msg))] @
                (if version \<noteq> [] then [(js ''version'', Str version)] else []) @ safe))"

text \<open>\<open>dumped\<close> and \<open>shown\<close> are \<open>JSON.stringify\<close> and \<open>String\<close> of a value that is no string.\<close>

definition formatFieldValue :: "(jsval \<Rightarrow> jstring) \<Rightarrow> (jsval \<Rightarrow> jstring) \<Rightarrow> jsval \<Rightarrow> jstring" where
  "formatFieldValue shown dumped v =
     (case v of
        Null \<Rightarrow> js ''null''
      | Str s \<Rightarrow>
          if s \<noteq> [] \<and> list_all (\<lambda>u. \<not> isSpaceUnit u \<and> u \<notin> {34, 39, 61}) s then s else jsonQuote s
      | Undefined \<Rightarrow> js ''null''
      | Arr _ \<Rightarrow> if list_ex isSpaceUnit (dumped v) then jsonQuote (dumped v) else dumped v
      | Obj _ \<Rightarrow> if list_ex isSpaceUnit (dumped v) then jsonQuote (dumped v) else dumped v
      | _ \<Rightarrow> stringOf shown v)"

text \<open>Each line break becomes one \<open>\n\<close>; the flag says that a carriage return came just before.\<close>

fun escapeBreaks :: "bool \<Rightarrow> jstring \<Rightarrow> jstring" where
  "escapeBreaks cr [] = []"
| "escapeBreaks cr (u # s) =
     (if u = 13 then [92, 110] @ escapeBreaks True s
      else if u = 10 then (if cr then [] else [92, 110]) @ escapeBreaks False s
      else u # escapeBreaks False s)"

definition cleanKey :: "jstring \<Rightarrow> jstring" where
  "cleanKey k = map (\<lambda>u. if isSpaceUnit u \<or> u \<in> {34, 39, 61} then 95 else u) k"

definition fieldPart :: "(jsval \<Rightarrow> jstring) \<Rightarrow> (jsval \<Rightarrow> jstring) \<Rightarrow> jstring \<times> jsval \<Rightarrow> jstring" where
  "fieldPart shown dumped f =
     (if fst f \<in> set (map js ENVELOPE_KEYS) \<or> snd f = Undefined then []
      else 32 # cleanKey (fst f) @ 61 # formatFieldValue shown dumped (snd f))"

definition formatTextLine :: "(jsval \<Rightarrow> jstring) \<Rightarrow> (jsval \<Rightarrow> jstring) \<Rightarrow> (jstring \<times> jsval) list \<Rightarrow> jstring" where
  "formatTextLine shown dumped r =
     stringOf shown (getProp (Obj r) ''ts'') @ 32 # stringOf shown (getProp (Obj r) ''level'') @ js '' ['' @
     stringOf shown (getProp (Obj r) ''service'') @ js ''] '' @ escapeBreaks False (stringOf shown (getProp (Obj r) ''msg'')) @
     concat (map (fieldPart shown dumped) r)"

definition localLine :: "(jsval \<Rightarrow> jstring) \<Rightarrow> (jsval \<Rightarrow> jstring) \<Rightarrow> logConfig \<Rightarrow> (jstring \<times> jsval) list \<Rightarrow> jstring" where
  "localLine shown dumped cfg r = (if lcJson cfg then dumped (Obj r) else formatTextLine shown dumped r)"

section \<open>What leaves\<close>

text \<open>Nothing is left below a name that looks like a credential, nothing is deeper than four levels, no array is longer
  than fifty, and no amount is of the type \<open>JSON.stringify\<close> refuses.\<close>

fun discreet :: "nat \<Rightarrow> jsval \<Rightarrow> bool" where
  "discreet n (BigInt i) = False"
| "discreet 0 (Arr vs) = False"
| "discreet 0 (Obj fs) = False"
| "discreet (Suc n) (Arr vs) = (length vs \<le> 50 \<and> list_all (discreet n) vs)"
| "discreet (Suc n) (Obj fs) = list_all (\<lambda>(k, v). if secretKey k then v = Str REDACTED else discreet n v) fs"
| "discreet n v = True"

lemma redact_discreet: "discreet n (redactFrom n v)"
  by (induction n v rule: redactFrom.induct) (auto simp: list_all_iff dest!: in_set_takeD)

lemma escapeBreaks_one_line: "u \<in> set (escapeBreaks cr s) \<Longrightarrow> u \<noteq> 10 \<and> u \<noteq> 13"
  by (induction cr s rule: escapeBreaks.induct) (auto split: if_splits)

lemma hexUnit_no_break: "d < 16 \<Longrightarrow> hexUnit d \<noteq> 10 \<and> hexUnit d \<noteq> 13"
  using hexUnit_reads [of d] by (auto simp: isHexUnit_def isDigit_def)

lemma quoteUnit_one_line: "x \<in> set (quoteUnit u) \<Longrightarrow> x \<noteq> 10 \<and> x \<noteq> 13"
proof -
  assume x: "x \<in> set (quoteUnit u)"
  have e: "y \<noteq> 10 \<and> y \<noteq> 13" if "y \<in> set (escapeUnit u)" for y
  proof -
    have "unat u < 65536" using unsigned_less [of u] by simp
    then have "unat u div 4096 < 16" by (simp add: less_mult_imp_div_less)
    then show ?thesis using that by (auto simp: escapeUnit_def Let_def hexUnit_no_break)
  qed
  have "u \<noteq> 10 \<and> u \<noteq> 13" if "unat u \<noteq> 10" "unat u \<noteq> 13" using that by auto
  then show ?thesis using x e by (auto simp: quoteUnit_def Let_def split: if_splits)
qed

lemma quoteUnits_one_line: "x \<in> set (quoteUnits s) \<Longrightarrow> x \<noteq> 10 \<and> x \<noteq> 13"
proof (induction s rule: quoteUnits.induct)
  case (2 v w s)
  then show ?case using quoteUnit_one_line [of x v] by (auto split: if_splits)
qed (use quoteUnit_one_line in auto)

lemma jsonQuote_one_line: "x \<in> set (jsonQuote s) \<Longrightarrow> x \<noteq> 10 \<and> x \<noteq> 13"
  using quoteUnits_one_line [of x s] by (auto simp: jsonQuote_def)

end
