(* ===== verification/LogShipper.thy ===== *)
theory LogShipper
  imports Logging "HOL-Library.Sublist"
begin

text \<open>
  The log shipper, \<open>LogShipper\<close> of \<open>src/src/observability/logShipper.js\<close>: a bounded buffer, one batch in flight, and the
  counters. A record is whatever \<open>log\<close> emitted. The transport is the surroundings': a batch in flight is delivered
  or fails when they say so, and records come in while it is on its way.
\<close>

section \<open>The shipper\<close>

record 'r shipper =
  shBuffer :: "'r list"
  shInFlight :: bool
  shBatch :: "'r list option"
  shEmitted :: nat
  shShipped :: nat
  shDropped :: nat
  shFailures :: nat
  shNoteMs :: int

definition newShipper :: "'r shipper" where
  "newShipper = \<lparr>shBuffer = [], shInFlight = False, shBatch = None, shEmitted = 0, shShipped = 0, shDropped = 0, shFailures = 0,
     shNoteMs = 0\<rparr>"

text \<open>\<open>flush\<close>: cut a batch off the front unless one is on its way.\<close>

definition flush :: "logConfig \<Rightarrow> 'r shipper \<Rightarrow> 'r shipper" where
  "flush cfg s =
     (if shInFlight s then s
      else if shBuffer s = [] \<or> \<not> lcShip cfg then s
      else s\<lparr>shBuffer := drop (lcBatch cfg) (shBuffer s), shInFlight := True, shBatch := Some (take (lcBatch cfg) (shBuffer s))\<rparr>)"

text \<open>A full buffer drops its oldest record.\<close>

definition pushRecord :: "logConfig \<Rightarrow> 'r \<Rightarrow> 'r shipper \<Rightarrow> 'r shipper" where
  "pushRecord cfg r s =
     (let s = (if lcMaxBuffer cfg \<le> length (shBuffer s) then s\<lparr>shBuffer := tl (shBuffer s), shDropped := shDropped s + 1\<rparr> else s)
      in s\<lparr>shBuffer := shBuffer s @ [r]\<rparr>)"

definition enqueue :: "logConfig \<Rightarrow> 'r \<Rightarrow> 'r shipper \<Rightarrow> 'r shipper" where
  "enqueue cfg r s = (let s = pushRecord cfg r s in if lcBatch cfg \<le> length (shBuffer s) then flush cfg s else s)"

text \<open>The tail of \<open>log\<close>, for a record that is not silenced.\<close>

definition emit :: "logConfig \<Rightarrow> 'r \<Rightarrow> 'r shipper \<Rightarrow> 'r shipper" where
  "emit cfg r s = (let s = s\<lparr>shEmitted := shEmitted s + 1\<rparr> in if lcShip cfg then enqueue cfg r s else s)"

text \<open>At most one line a minute; whether one is written is the second component.\<close>

definition noteError :: "int \<Rightarrow> 'r shipper \<Rightarrow> 'r shipper \<times> bool" where
  "noteError now s = (if now - shNoteMs s < 60000 then (s, False) else (s\<lparr>shNoteMs := now\<rparr>, True))"

definition delivered :: "'r list \<Rightarrow> 'r shipper \<Rightarrow> 'r shipper" where
  "delivered batch s = s\<lparr>shShipped := shShipped s + length batch, shBatch := None\<rparr>"

text \<open>A failed batch goes back to the front, its newest records as far as there is room.\<close>

definition failed :: "logConfig \<Rightarrow> int \<Rightarrow> 'r list \<Rightarrow> 'r shipper \<Rightarrow> 'r shipper \<times> bool" where
  "failed cfg now batch s =
     (let room = lcMaxBuffer cfg - length (shBuffer s);
          keep = drop (length batch - room) batch
      in noteError now (s\<lparr>shFailures := shFailures s + 1, shDropped := shDropped s + (length batch - length keep),
           shBuffer := keep @ shBuffer s, shBatch := None\<rparr>))"

definition settled :: "'r shipper \<Rightarrow> 'r shipper" where
  "settled s = s\<lparr>shInFlight := False\<rparr>"

section \<open>Runs\<close>

text \<open>A run of the process: the shipper, the records given to it and what the collector has received, in order.\<close>

inductive shipRun :: "logConfig \<Rightarrow> 'r shipper \<Rightarrow> 'r list \<Rightarrow> 'r list \<Rightarrow> bool" for cfg where
  boot: "shipRun cfg newShipper [] []"
| emits: "shipRun cfg s given got \<Longrightarrow> shipRun cfg (emit cfg r s) (given @ (if lcShip cfg then [r] else [])) got"
| ticks: "shipRun cfg s given got \<Longrightarrow> shipRun cfg (flush cfg s) given got"
| delivers: "shipRun cfg s given got \<Longrightarrow> shBatch s = Some b \<Longrightarrow> shipRun cfg (delivered b s) given (got @ b)"
| fails: "shipRun cfg s given got \<Longrightarrow> shBatch s = Some b \<Longrightarrow> shipRun cfg (fst (failed cfg now b s)) given got"
| settles: "shipRun cfg s given got \<Longrightarrow> shInFlight s \<Longrightarrow> shBatch s = None \<Longrightarrow> shipRun cfg (settled s) given got"

section \<open>The invariant\<close>

text \<open>
  The records given are, in order: some settled ones, of which the collector has a subsequence, the batch on its way,
  a gap that records dropped meanwhile may leave, and the buffer. A gap means that the buffer is full.
\<close>

definition inFlight :: "'r shipper \<Rightarrow> 'r list" where
  "inFlight s = (case shBatch s of Some b \<Rightarrow> b | None \<Rightarrow> [])"

definition splits :: "logConfig \<Rightarrow> 'r shipper \<Rightarrow> 'r list \<Rightarrow> 'r list \<Rightarrow> 'r list \<Rightarrow> 'r list \<Rightarrow> bool" where
  "splits cfg s given got past gap \<longleftrightarrow>
     given = past @ inFlight s @ gap @ shBuffer s \<and> subseq got past \<and>
     (gap \<noteq> [] \<longrightarrow> lcMaxBuffer cfg \<le> length (shBuffer s) \<and> shBatch s \<noteq> None)"

definition counted :: "logConfig \<Rightarrow> 'r shipper \<Rightarrow> 'r list \<Rightarrow> 'r list \<Rightarrow> bool" where
  "counted cfg s given got \<longleftrightarrow>
     length (shBuffer s) \<le> lcMaxBuffer cfg \<and> length (inFlight s) \<le> lcBatch cfg \<and> shShipped s = length got \<and>
     length given = shShipped s + shDropped s + length (inFlight s) + length (shBuffer s) \<and> (shBatch s \<noteq> None \<longrightarrow> shInFlight s)"

definition shipInv :: "logConfig \<Rightarrow> 'r shipper \<Rightarrow> 'r list \<Rightarrow> 'r list \<Rightarrow> bool" where
  "shipInv cfg s given got \<longleftrightarrow> counted cfg s given got \<and> (\<exists>past gap. splits cfg s given got past gap)"

lemma subseq_more: "subseq xs ys \<Longrightarrow> subseq xs (ys @ zs)"
  by (induction rule: list_emb.induct) auto

lemma flush_inv: "shipInv cfg s given got \<Longrightarrow> shipInv cfg (flush cfg s) given got"
proof (cases "shInFlight s \<or> shBuffer s = [] \<or> \<not> lcShip cfg")
  case False
  assume i: "shipInv cfg s given got"
  then obtain past gap where p: "splits cfg s given got past gap" by (auto simp: shipInv_def)
  have none: "shBatch s = None" using i False by (auto simp: shipInv_def counted_def)
  then have "gap = []" using p by (auto simp: splits_def)
  then have "splits cfg (flush cfg s) given got past []" using p none False by (simp add: splits_def flush_def inFlight_def)
  moreover have "counted cfg (flush cfg s) given got" using i False none by (auto simp: shipInv_def counted_def flush_def inFlight_def)
  ultimately show ?thesis unfolding shipInv_def by blast
qed (auto simp: flush_def)

lemma push_inv:
  assumes "shipInv cfg s given got" "0 < lcMaxBuffer cfg"
  shows "shipInv cfg (pushRecord cfg r s) (given @ [r]) got"
proof -
  obtain past gap where p: "splits cfg s given got past gap" and c: "counted cfg s given got" using assms(1) by (auto simp: shipInv_def)
  have "\<exists>past gap. splits cfg (pushRecord cfg r s) (given @ [r]) got past gap"
  proof (cases "lcMaxBuffer cfg \<le> length (shBuffer s)")
    case False
    then have "splits cfg (pushRecord cfg r s) (given @ [r]) got past []" using p by (auto simp: splits_def pushRecord_def inFlight_def)
    then show ?thesis by blast
  next
    case True
    then obtain h bs where b: "shBuffer s = h # bs" using assms(2) by (cases "shBuffer s") auto
    show ?thesis
    proof (cases "shBatch s")
      case None
      then have "splits cfg (pushRecord cfg r s) (given @ [r]) got (past @ gap @ [h]) []"
        using p b True by (auto simp: splits_def pushRecord_def inFlight_def intro: subseq_more)
      then show ?thesis by blast
    next
      case (Some batch)
      then have "splits cfg (pushRecord cfg r s) (given @ [r]) got past (gap @ [h])"
        using p b True by (auto simp: splits_def pushRecord_def inFlight_def)
      then show ?thesis by blast
    qed
  qed
  moreover have "counted cfg (pushRecord cfg r s) (given @ [r]) got"
    using c assms(2) by (cases "shBuffer s") (auto simp: counted_def pushRecord_def inFlight_def)
  ultimately show ?thesis by (simp add: shipInv_def)
qed

lemma emit_inv:
  assumes "shipInv cfg s given got" "0 < lcMaxBuffer cfg"
  shows "shipInv cfg (emit cfg r s) (given @ (if lcShip cfg then [r] else [])) got"
proof -
  have a: "shipInv cfg (s\<lparr>shEmitted := n\<rparr>) given got" for n
    using assms(1) by (simp add: shipInv_def splits_def counted_def inFlight_def)
  show ?thesis using a push_inv [OF a assms(2)] flush_inv [OF push_inv [OF a assms(2)]] by (simp add: emit_def enqueue_def Let_def)
qed

lemma noteError_same [simp]: "shBuffer (fst (noteError now s)) = shBuffer s" "shInFlight (fst (noteError now s)) = shInFlight s"
  "shBatch (fst (noteError now s)) = shBatch s" "shShipped (fst (noteError now s)) = shShipped s" "shDropped (fst (noteError now s)) = shDropped s"
  by (simp_all add: noteError_def)

lemma failed_inv:
  assumes "shipInv cfg s given got" "shBatch s = Some b"
  shows "shipInv cfg (fst (failed cfg now b s)) given got"
proof -
  obtain past gap where p: "splits cfg s given got past gap" and c: "counted cfg s given got" using assms(1) by (auto simp: shipInv_def)
  define room where "room = lcMaxBuffer cfg - length (shBuffer s)"
  define keep where "keep = drop (length b - room) b"
  have n: "take (length b - room) b @ keep = b" "length keep \<le> room" "length keep \<le> length b" by (auto simp: keep_def)
  have f: "shBuffer (fst (failed cfg now b s)) = keep @ shBuffer s" "shBatch (fst (failed cfg now b s)) = None"
    "shDropped (fst (failed cfg now b s)) = shDropped s + (length b - length keep)" "shShipped (fst (failed cfg now b s)) = shShipped s"
    by (simp_all only: failed_def keep_def room_def Let_def) simp_all
  have "gap @ keep = keep @ gap" using p by (cases "gap = []") (auto simp: splits_def keep_def room_def)
  moreover have "given = past @ (take (length b - room) b @ keep) @ gap @ shBuffer s" using p n(1) assms(2) by (simp add: splits_def inFlight_def)
  ultimately have "given = (past @ take (length b - room) b @ gap) @ keep @ shBuffer s" by simp
  then have "splits cfg (fst (failed cfg now b s)) given got (past @ take (length b - room) b @ gap) []"
    using p by (auto simp: splits_def f inFlight_def intro!: subseq_more)
  moreover have "counted cfg (fst (failed cfg now b s)) given got"
  proof -
    have "length (shBuffer s) \<le> lcMaxBuffer cfg" using c by (simp add: counted_def)
    then have "length keep + length (shBuffer s) \<le> lcMaxBuffer cfg" using n(2) unfolding room_def by linarith
    then show ?thesis using c n(3) assms(2) by (simp add: counted_def f inFlight_def)
  qed
  ultimately show ?thesis unfolding shipInv_def by blast
qed

lemma delivered_inv:
  assumes "shipInv cfg s given got" "shBatch s = Some b"
  shows "shipInv cfg (delivered b s) given (got @ b)"
proof -
  obtain past gap where p: "splits cfg s given got past gap" and c: "counted cfg s given got" using assms(1) by (auto simp: shipInv_def)
  have "subseq (got @ b) (past @ b @ gap)" using p subseq_more [of "got @ b" "past @ b" gap] by (simp add: splits_def list_emb_append_mono)
  then have "splits cfg (delivered b s) given (got @ b) (past @ b @ gap) []"
    using p assms(2) by (simp add: splits_def delivered_def inFlight_def)
  moreover have "counted cfg (delivered b s) given (got @ b)" using c assms(2) by (simp add: counted_def delivered_def inFlight_def)
  ultimately show ?thesis unfolding shipInv_def by blast
qed

lemma settled_inv: "shipInv cfg s given got \<Longrightarrow> shBatch s = None \<Longrightarrow> shipInv cfg (settled s) given got"
  by (simp add: shipInv_def splits_def counted_def inFlight_def settled_def)

lemma shipRun_inv:
  assumes "shipRun cfg s given got" "0 < lcMaxBuffer cfg"
  shows "shipInv cfg s given got"
  using assms(1)
proof induction
  case boot
  show ?case by (auto simp: shipInv_def splits_def counted_def newShipper_def inFlight_def)
qed (simp_all add: emit_inv [OF _ assms(2)] flush_inv delivered_inv failed_inv settled_inv)

end
