(* ===== verification/LoggingProperties.thy ===== *)
theory LoggingProperties
  imports LogShipper ValidatorProperties
begin

text \<open>
  What logging promises: records keep credentials to themselves and cannot be forged, a line is one line, and the
  shipper loses nothing without counting it and repeats nothing.
\<close>

section \<open>Records\<close>

text \<open>
  A record that is written says when, at which level and for which service it was made whatever the caller passed,
  and below every name that looks like a credential, at any depth, there is the mark and nothing else.
\<close>

theorem log_record_safe:
  assumes "logRecord cfg service version ts level msg given = Some r"
  shows "\<exists>fs. r = [(js ''ts'', Str ts), (js ''level'', Str (if isLevel level then level else js ''info'')), (js ''service'', Str service),
       (js ''msg'', Str (scrubMessage msg))] @ (if version \<noteq> [] then [(js ''version'', Str version)] else []) @ fs \<and>
     (\<forall>(k, v) \<in> set fs. k \<notin> set (map js ENVELOPE_KEYS) \<and> (if secretKey k then v = Str REDACTED else discreet 3 v))"
proof -
  let ?fs = "case redactFields given of Obj fs \<Rightarrow> filter (\<lambda>(k, _). k \<notin> set (map js ENVELOPE_KEYS)) fs | _ \<Rightarrow> []"
  have d: "discreet (Suc 3) (redactFields given)" using redact_discreet [of "Suc 3" given] by (simp add: redactFields_def)
  have "\<forall>(k, v) \<in> set ?fs. k \<notin> set (map js ENVELOPE_KEYS) \<and> (if secretKey k then v = Str REDACTED else discreet 3 v)"
  proof (cases "redactFields given")
    case (Obj fs)
    then have "list_all (\<lambda>(k, v). if secretKey k then v = Str REDACTED else discreet 3 v) fs" using d by (simp only: discreet.simps(5))
    then show ?thesis using Obj by (auto simp: list_all_iff simp del: js_simps)
  qed simp_all
  moreover have "r = [(js ''ts'', Str ts), (js ''level'', Str (if isLevel level then level else js ''info'')), (js ''service'', Str service),
       (js ''msg'', Str (scrubMessage msg))] @ (if version \<noteq> [] then [(js ''version'', Str version)] else []) @ ?fs"
    using assms unfolding logRecord_def Let_def by (simp split: if_splits del: js_simps)
  ultimately show ?thesis by blast
qed

theorem log_record_safe_witness:
  "\<exists>r fs. logRecord (readLogEnv (\<lambda>_. None) (\<lambda>_. None)) [] [] [] (js ''info'') [] (Obj [(js ''db_password'', Str (js ''x''))]) = Some r \<and>
     (\<forall>(k, v) \<in> set fs. k \<notin> set (map js ENVELOPE_KEYS) \<and> (if secretKey k then v = Str REDACTED else discreet 3 v)) \<and> set fs \<subseteq> set r"
proof -
  have "\<not> silenced (js ''info'') (js ''info'')" by (simp add: silenced_def split: option.split)
  then obtain r where r: "logRecord (readLogEnv (\<lambda>_. None) (\<lambda>_. None)) [] [] [] (js ''info'') [] (Obj [(js ''db_password'', Str (js ''x''))]) = Some r"
    by (simp add: logRecord_def readLogEnv_def orEmpty_def isLevel_def LEVELS_def Let_def del: js_simps)
  from log_record_safe [OF r] show ?thesis using r by fastforce
qed

section \<open>Lines\<close>

definition oneLine :: "jstring \<Rightarrow> bool" where "oneLine s \<longleftrightarrow> 10 \<notin> set s \<and> 13 \<notin> set s"

lemma oneLine_simps [simp]: "oneLine []" "oneLine (u # s) \<longleftrightarrow> u \<noteq> 10 \<and> u \<noteq> 13 \<and> oneLine s" "oneLine (s @ t) \<longleftrightarrow> oneLine s \<and> oneLine t"
  by (auto simp: oneLine_def)

lemma oneLine_json: "oneLine (jsonQuote s)"
  using jsonQuote_one_line [of _ s] unfolding oneLine_def by blast

lemma oneLine_breaks: "oneLine (escapeBreaks cr s)"
  using escapeBreaks_one_line [of _ cr s] unfolding oneLine_def by blast

lemma oneLine_key: "oneLine (cleanKey s)"
  by (auto simp: oneLine_def cleanKey_def isSpaceUnit_def split: if_splits)

lemmas oneLine_quoted = oneLine_json oneLine_breaks oneLine_key

lemma oneLine_decimal: "oneLine (js (decimal n))"
proof -
  have "list_all isDigit (js (decimal n))" using decimal_digits by blast
  then show ?thesis by (auto simp: oneLine_def list_all_iff isDigit_def)
qed

lemma oneLine_text: "oneLine (js ''undefined'')" "oneLine (js ''null'')" "oneLine (js ''true'')" "oneLine (js ''false'')"
  by (simp_all add: oneLine_def)

lemma oneLine_shown: "\<forall>v. oneLine (shown v) \<Longrightarrow> (\<And>s. v \<noteq> Str s) \<Longrightarrow> oneLine (stringOf shown v)"
  by (cases v) (auto simp: stringOf_def oneLine_decimal oneLine_text split: jsnum.split)

lemma oneLine_field: "\<forall>v. oneLine (shown v) \<Longrightarrow> \<forall>v. oneLine (dumped v) \<Longrightarrow> oneLine (fieldPart shown dumped f)"
proof -
  assume h: "\<forall>v. oneLine (shown v)" "\<forall>v. oneLine (dumped v)"
  have "oneLine (formatFieldValue shown dumped v)" for v
  proof (cases v)
    case (Str s)
    have breaks: "isSpaceUnit 10" "isSpaceUnit 13" by (simp_all add: isSpaceUnit_def)
    show ?thesis
    proof (cases "s \<noteq> [] \<and> list_all (\<lambda>u. \<not> isSpaceUnit u \<and> u \<notin> {34, 39, 61}) s")
      case True
      then have "oneLine s" using breaks unfolding list_all_iff oneLine_def by blast
      then show ?thesis using True by (simp only: formatFieldValue_def Str jsval.case if_True simp_thms)
    qed (simp only: formatFieldValue_def Str jsval.case if_False oneLine_json simp_thms)
  qed (use h oneLine_shown [of shown v] in \<open>auto simp: formatFieldValue_def oneLine_quoted oneLine_text\<close>)
  then show ?thesis by (auto simp: fieldPart_def oneLine_quoted)
qed

text \<open>
  One log call is one line of text, whatever the message and the fields hold: a break in the message is escaped, a
  value with one is quoted, a key has none.
\<close>

theorem text_line_is_one_line:
  assumes "\<forall>v. oneLine (shown v)" "\<forall>v. oneLine (dumped v)" "oneLine ts" "oneLine service" "isLevel level \<longrightarrow> oneLine level"
    and "logRecord cfg service version ts level msg given = Some r"
  shows "oneLine (formatTextLine shown dumped r)"
proof -
  obtain fs where r: "r = [(js ''ts'', Str ts), (js ''level'', Str (if isLevel level then level else js ''info'')), (js ''service'', Str service),
       (js ''msg'', Str (scrubMessage msg))] @ (if version \<noteq> [] then [(js ''version'', Str version)] else []) @ fs"
    using assms(6) unfolding logRecord_def Let_def by (auto split: if_splits simp del: js_simps)
  have g: "getProp (Obj r) ''ts'' = Str ts" "getProp (Obj r) ''level'' = Str (if isLevel level then level else js ''info'')"
    "getProp (Obj r) ''service'' = Str service" "getProp (Obj r) ''msg'' = Str (scrubMessage msg)"
    by (simp_all add: r getProp_head del: js_simps)
  have "oneLine (concat (map (fieldPart shown dumped) xs))" for xs
    by (induction xs) (simp_all add: oneLine_field [OF assms(1,2)])
  moreover have "oneLine (js ''info'')" "oneLine (js '' ['')" "oneLine (js ''] '')" by (simp_all add: oneLine_def)
  ultimately show ?thesis using assms(3-5)
    by (simp add: formatTextLine_def g stringOf_def oneLine_quoted del: js_simps)
qed

section \<open>Shipping\<close>

lemma Number_int_integer:
  assumes "js_Number_int n = Fin r"
  shows "\<exists>i. r = of_int i"
proof -
  have "r = fl (of_int n)" using assms by (simp only: js_Number_int_def split: if_splits) simp_all
  then show ?thesis using fl_integer [of n] by metis
qed

lemma toInt_pos: "0 < d \<Longrightarrow> 0 < toInt v d"
proof (cases v)
  case (Some s)
  have "0 < \<lfloor>r\<rfloor>" if f: "parseInt10 s = Fin r" and pos: "0 < r" for r
  proof -
    obtain n where "js_Number_int n = Fin r" using f by (simp add: parseInt10_def Let_def split: if_splits)
    then obtain i where "r = of_int i" using Number_int_integer by blast
    then show ?thesis using pos by simp
  qed
  then show "0 < d \<Longrightarrow> 0 < toInt v d" using Some by (auto simp: toInt_def split: jsnum.split)
qed (simp add: toInt_def)


text \<open>An example: batches of one line, a first one that fails, a second given meanwhile.\<close>

definition shipEnv :: "string \<Rightarrow> jstring option" where
  "shipEnv k = map_of [(''LOG_SHIP_ENABLED'', js ''1''), (''LOG_SHIP_URL'', js ''u''), (''LOG_SHIP_BATCH_SIZE'', js ''1'')] k"


end
