(* ===== verification/Readiness.thy ===== *)
theory Readiness
  imports Tracker Json NodeRpc
begin

text \<open>
  Whether the encoder says it can serve: the declared maintenance window (\<open>src/src/server/maintenance_window.js\<close>), the
  probe behind \<open>health()\<close> and \<open>GET /status\<close> (\<open>src/src/api/serve_readiness.js\<close>) and the status code (\<open>src/src/api.js\<close>).
  \<open>Date.parse\<close> and \<open>toISOString\<close> are arguments.
\<close>

section \<open>Reading the sentinel\<close>

definition MAX_SENTINEL_BYTES :: nat where "MAX_SENTINEL_BYTES = 4096"
definition MAX_REASON_CHARS :: nat where "MAX_REASON_CHARS = 120"
definition MAX_WINDOW_MS :: rat where "MAX_WINDOW_MS = 24 * 60 * 60 * 1000"
definition MAX_EPOCH_MS :: rat where "MAX_EPOCH_MS = 8640000000000000"
definition DEFAULT_SENTINEL :: jstring where "DEFAULT_SENTINEL = js ''/tmp/xchain-encoder-maintenance.json''"

definition sentinelPath :: "(string \<Rightarrow> jstring option) \<Rightarrow> jstring" where
  "sentinelPath env = (case env ''ENCODER_MAINTENANCE_FILE'' of Some p \<Rightarrow> if p = [] then DEFAULT_SENTINEL else p | None \<Rightarrow> DEFAULT_SENTINEL)"

text \<open>\<open>handle.read\<close> at a position, for at most so many bytes, may come back short; no bytes mean the end.\<close>

function readBounded :: "(nat \<Rightarrow> nat \<Rightarrow> Buffer) \<Rightarrow> nat \<Rightarrow> Buffer \<Rightarrow> Buffer" where
  "readBounded read limit filled =
     (if limit \<le> length filled then filled
      else let got = take (limit - length filled) (read (length filled) (limit - length filled))
           in if got = [] then filled else readBounded read limit (filled @ got))"
  by pat_completeness auto

termination
  by (relation "measure (\<lambda>(_, limit, filled). limit - length filled)") (auto simp: Let_def neq_Nil_conv)

declare readBounded.simps [simp del]

text \<open>
  \<open>toString('utf8')\<close>: each maximal part of a sequence that cannot be continued becomes one U+FFFD. \<open>secondRange\<close> is
  what a lead byte allows after it, and \<open>sequenceLength\<close> how many bytes follow it.
\<close>

definition sequenceLength :: "byte \<Rightarrow> nat option" where
  "sequenceLength b =
     (let n = unat b
      in if n < 0x80 then Some 0 else if 0xc2 \<le> n \<and> n < 0xe0 then Some 1 else if 0xe0 \<le> n \<and> n < 0xf0 then Some 2
         else if 0xf0 \<le> n \<and> n < 0xf5 then Some 3 else None)"

definition secondRange :: "byte \<Rightarrow> nat \<times> nat" where
  "secondRange b =
     (let n = unat b
      in if n = 0xe0 then (0xa0, 0xbf) else if n = 0xed then (0x80, 0x9f) else if n = 0xf0 then (0x90, 0xbf)
         else if n = 0xf4 then (0x80, 0x8f) else (0x80, 0xbf))"

definition continuation :: "byte \<Rightarrow> Buffer \<Rightarrow> Buffer" where
  "continuation b r =
     (case (sequenceLength b, r) of
        (Some (Suc n), c # r) \<Rightarrow>
          if fst (secondRange b) \<le> unat c \<and> unat c \<le> snd (secondRange b)
          then c # takeWhile (\<lambda>d. 0x80 \<le> unat d \<and> unat d < 0xc0) (take n r) else []
      | _ \<Rightarrow> [])"

definition codeUnits :: "byte \<Rightarrow> Buffer \<Rightarrow> jstring" where
  "codeUnits b cs =
     (let n = foldl (\<lambda>a c. a * 64 + (unat c - 0x80)) (unat b - (case length cs of 0 \<Rightarrow> 0 | Suc 0 \<Rightarrow> 0xc0 | Suc (Suc 0) \<Rightarrow> 0xe0 | _ \<Rightarrow> 0xf0)) cs
      in if n < 0x10000 then [of_nat n] else [of_nat (0xd800 + (n - 0x10000) div 1024), of_nat (0xdc00 + (n - 0x10000) mod 1024)])"

function decodeUtf8 :: "Buffer \<Rightarrow> jstring" where
  "decodeUtf8 [] = []"
| "decodeUtf8 (b # r) =
     (let cs = continuation b r
      in (if sequenceLength b = Some (length cs) then codeUnits b cs else [0xfffd]) @ decodeUtf8 (drop (length cs) r))"
  by pat_completeness auto

termination
  by (relation "measure length") auto

section \<open>The window\<close>

definition toEpochMs :: "(jstring \<Rightarrow> jsnum) \<Rightarrow> jsval \<Rightarrow> rat option" where
  "toEpochMs dateParse v =
     (case v of
        Num (Fin r) \<Rightarrow> if \<bar>r\<bar> \<le> MAX_EPOCH_MS then Some r else None
      | Str s \<Rightarrow> (case dateParse s of Fin r \<Rightarrow> Some r | _ \<Rightarrow> None)
      | _ \<Rightarrow> None)"

definition cleanReason :: "jsval \<Rightarrow> jstring" where
  "cleanReason v =
     (case v of Str s \<Rightarrow> take MAX_REASON_CHARS (trim (map (\<lambda>u. if 0x20 \<le> unat u \<and> unat u \<le> 0x7e then u else 32) s)) | _ \<Rightarrow> [])"

record window =
  mwReason :: jstring
  mwSince :: "jstring option"
  mwUntil :: jstring

definition parseMaintenanceWindow :: "(jstring \<Rightarrow> jsnum) \<Rightarrow> (rat \<Rightarrow> jstring) \<Rightarrow> int \<Rightarrow> jstring \<Rightarrow> window option" where
  "parseMaintenanceWindow dateParse toISOString now content =
     (if content = [] \<or> MAX_SENTINEL_BYTES < length (utf8 content) then None
      else case jsonParse content of
        Some (Obj fs) \<Rightarrow>
          (let doc = Obj fs; since = toEpochMs dateParse (getProp doc ''since'')
           in case toEpochMs dateParse (getProp doc ''until'') of
                None \<Rightarrow> None
              | Some until \<Rightarrow>
                  if until \<le> of_int now \<or> MAX_WINDOW_MS < fl (until - of_int now) then None
                  else if \<not> isNullish (getProp doc ''since'') \<and> since = None then None
                  else if (case since of Some s \<Rightarrow> of_int now < s \<or> MAX_WINDOW_MS < fl (until - s) | None \<Rightarrow> False) then None
                  else Some \<lparr>mwReason = cleanReason (getProp doc ''reason''), mwSince = map_option toISOString since,
                         mwUntil = toISOString until\<rparr>)
      | _ \<Rightarrow> None)"

text \<open>The file is how it answers reads, or none that opens. A parser that throws counts as no window.\<close>

definition readMaintenanceWindow ::
  "(jstring \<Rightarrow> jsnum) \<Rightarrow> (rat \<Rightarrow> jstring) \<Rightarrow> (jstring \<Rightarrow> (nat \<Rightarrow> nat \<Rightarrow> Buffer) option) \<Rightarrow> int \<Rightarrow> jstring \<Rightarrow> window option" where
  "readMaintenanceWindow dateParse toISOString opens now path =
     (case opens path of
        None \<Rightarrow> None
      | Some read \<Rightarrow>
          (let bytes = readBounded read (MAX_SENTINEL_BYTES + 1) []
           in if MAX_SENTINEL_BYTES < length bytes then None
              else parseMaintenanceWindow dateParse toISOString now (decodeUtf8 bytes)))"

section \<open>The probe\<close>

text \<open>What \<open>get_sync_status\<close> brings: the body of the reply, or none where the request failed.\<close>

definition getSyncStatus :: "jsval option \<Rightarrow> syncAnswer" where
  "getSyncStatus reply =
     (case reply of
        None \<Rightarrow> SyncFailed
      | Some body \<Rightarrow>
          if isNullish body then SyncFailed
          else if isObject (getProp body ''result'') then SyncStatus (getProp body ''result'') else SyncMissing)"

text \<open>The tier check, where it settles before the deadline; the verdict is read off the connector.\<close>

definition probeNodeTier :: "node \<Rightarrow> bool \<Rightarrow> connector \<Rightarrow> connector \<times> jstring option \<times> bool" where
  "probeNodeTier N inTime c =
     (let c = (if inTime then fst (assertNodeTier N c) else c);
          mismatch = (case nodeTierMismatch c of Some s \<Rightarrow> if s = [] then None else Some s | None \<Rightarrow> None)
      in (c, mismatch, mismatch \<noteq> None \<or> nodeTierOk c))"

record readiness =
  tracker_reachable :: bool
  tracker_synced :: bool
  tracker_lag :: "jsnum option"
  tracker_halted :: bool
  tracker_mempool_ready :: bool
  node_tier_mismatch :: "jstring option"
  node_tier_checked :: bool
  maintenance :: "window option"

definition getServeReadiness :: "profile \<Rightarrow> rat \<Rightarrow> syncAnswer \<Rightarrow> node \<Rightarrow> bool \<Rightarrow> window option \<Rightarrow> connector \<Rightarrow> connector \<times> readiness" where
  "getServeReadiness p maxLagBlocks sync N inTime mw c =
     (let (c, mismatch, checked) = probeNodeTier N inTime c;
          down = \<lparr>tracker_reachable = False, tracker_synced = False, tracker_lag = None, tracker_halted = False,
            tracker_mempool_ready = False, node_tier_mismatch = mismatch, node_tier_checked = checked, maintenance = mw\<rparr>
      in (c, case sync of
           SyncStatus status \<Rightarrow>
             (let freshness = classifyTrackerFreshness status maxLagBlocks;
                  refusal = classifyRemoteSync p status maxLagBlocks
              in down\<lparr>tracker_reachable := True, tracker_synced := vSyncedClaimed freshness \<and> refusal = None,
                   tracker_lag := vLag freshness, tracker_halted := vHalted freshness, tracker_mempool_ready := vMempoolReady freshness\<rparr>)
         | _ \<Rightarrow> down))"

text \<open>\<open>GET /status\<close>.\<close>

definition healthy :: "readiness \<Rightarrow> bool" where
  "healthy r = (tracker_reachable r \<and> tracker_synced r \<and> node_tier_mismatch r = None)"

definition statusCode :: "readiness \<Rightarrow> nat" where
  "statusCode r = (if healthy r then 200 else 503)"

section \<open>Short reads\<close>

text \<open>The loop reads the front of the file however short the reads come back.\<close>

lemma readBounded_file:
  assumes "\<And>pos n. 0 < n \<Longrightarrow> pos < length content \<Longrightarrow> read pos n \<noteq> []"
    and "\<And>pos n. \<exists>rest. drop pos content = read pos n @ rest"
    and "filled = take (length filled) content" "length filled \<le> limit"
  shows "readBounded read limit filled = take limit content"
  using assms(3,4)
proof (induction "limit - length filled" arbitrary: filled rule: less_induct)
  case less
  let ?n = "limit - length filled"
  define got where "got = take ?n (read (length filled) ?n)"
  obtain rest where rest: "drop (length filled) content = read (length filled) ?n @ rest" using assms(2) by blast
  have split: "content = filled @ drop (length filled) content" using less.prems(1) by (metis append_take_drop_id)
  show ?case
  proof (cases "limit \<le> length filled")
    case True
    then show ?thesis using less.prems by (subst readBounded.simps) simp
  next
    case False
    show ?thesis
    proof (cases "got = []")
      case True
      then have "read (length filled) ?n = []" using False by (simp add: got_def)
      then have "\<not> length filled < length content" using assms(1) [of ?n "length filled"] False by auto
      then have "filled = content" using less.prems(1) by simp
      then show ?thesis using True False less.prems(2) by (subst readBounded.simps) (simp add: got_def)
    next
      case more: False
      have "drop (length filled) content = got @ drop ?n (read (length filled) ?n) @ rest"
        unfolding rest got_def by (simp only: append_assoc [symmetric] append_take_drop_id)
      then have "content = (filled @ got) @ drop ?n (read (length filled) ?n) @ rest" using split by (metis append_assoc)
      then have "filled @ got = take (length (filled @ got)) content" by (metis append_eq_conv_conj)
      moreover have "length (filled @ got) \<le> limit" using False by (simp add: got_def)
      moreover have "limit - length (filled @ got) < limit - length filled" using more False by (cases got) auto
      ultimately have "readBounded read limit (filled @ got) = take limit content" using less.hyps [of "filled @ got"] by blast
      then show ?thesis using more False by (subst readBounded.simps) (simp add: got_def [symmetric] Let_def)
    qed
  qed
qed

lemma decodeUtf8_ascii: "list_all (\<lambda>b. unat b < 0x80) bs \<Longrightarrow> decodeUtf8 bs = map (\<lambda>b. of_nat (unat b)) bs"
  by (induction bs) (simp_all add: continuation_def sequenceLength_def codeUnits_def)

end
