(* ===== verification/ReadinessProperties.thy ===== *)
theory ReadinessProperties
  imports Readiness InstanceLockFacts
begin

text \<open>
  What the probe promises: a declared maintenance window is short and changes no verdict, and an encoder that reports
  healthy is one whose tracker its own gates accept.
\<close>

section \<open>The window\<close>

lemma fl_at_most_int:
  assumes "fl x \<le> of_int m" "0 \<le> m" "m + 1 < 2 ^ 53"
  shows "x < of_int m + 1"
proof (rule ccontr)
  assume "\<not> x < of_int m + 1"
  then have "of_int (m + 1) \<le> x" by simp
  moreover have "0 \<le> (of_int (m + 1) :: rat)" using assms(2) by simp
  ultimately have "fl (of_int (m + 1)) \<le> fl x" using fl_mono by blast
  then show False using assms fl_int [of "m + 1"] by simp
qed

lemma open_window:
  assumes "parseMaintenanceWindow dateParse toISOString now content = Some w"
  obtains fs until where "jsonParse content = Some (Obj fs)" "toEpochMs dateParse (getProp (Obj fs) ''until'') = Some until"
    "of_int now < until" "until < of_int now + MAX_WINDOW_MS + 1"
proof -
  obtain fs until where p: "jsonParse content = Some (Obj fs)" "toEpochMs dateParse (getProp (Obj fs) ''until'') = Some until"
    and u: "of_int now < until" "\<not> MAX_WINDOW_MS < fl (until - of_int now)"
    using assms by (auto simp: parseMaintenanceWindow_def Let_def split: if_splits option.splits jsval.splits)
  have "fl (until - of_int now) \<le> of_int 86400000" using u(2) by (simp add: MAX_WINDOW_MS_def)
  then have "until - of_int now < of_int 86400000 + 1" by (rule fl_at_most_int) simp_all
  then show thesis using that p u(1) by (simp add: MAX_WINDOW_MS_def)
qed

text \<open>
  One sentinel, however far off the end it declares, excuses an outage for at most a day: any two instants at which it
  reads as an open window are at most 24 hours apart.
\<close>

theorem maintenance_window_bounded:
  assumes "parseMaintenanceWindow dateParse toISOString now content = Some w"
    and "parseMaintenanceWindow dateParse toISOString later content = Some w'"
  shows "\<bar>later - now\<bar> \<le> 24 * 60 * 60 * 1000"
proof -
  obtain fs until where 1: "jsonParse content = Some (Obj fs)" "toEpochMs dateParse (getProp (Obj fs) ''until'') = Some until"
    "of_int now < until" "until < of_int now + MAX_WINDOW_MS + 1" by (rule open_window [OF assms(1)])
  obtain fs' until' where 2: "jsonParse content = Some (Obj fs')" "toEpochMs dateParse (getProp (Obj fs') ''until'') = Some until'"
    "of_int later < until'" "until' < of_int later + MAX_WINDOW_MS + 1" by (rule open_window [OF assms(2)])
  have "until' = until" using 1(1,2) 2(1,2) by simp
  then have "(of_int later :: rat) < of_int (now + 86400001)" "(of_int now :: rat) < of_int (later + 86400001)"
    using 1(3,4) 2(3,4) by (simp_all add: MAX_WINDOW_MS_def)
  then show ?thesis unfolding of_int_less_iff by linarith
qed

text \<open>An example: a sentinel that expires one hour after it is read.\<close>

theorem maintenance_window_bounded_witness:
  "\<exists>w content. parseMaintenanceWindow (\<lambda>_. Fin 7200000) (\<lambda>_. []) 3600000 content = Some w \<and> \<bar>3600000 - (3600000 :: int)\<bar> \<le> 24 * 60 * 60 * 1000"
proof -
  let ?content = "123 # 34 # js ''until'' @ 34 # 58 # 34 # quoteUnits (js ''t'') @ 34 # [125]"
  let ?k = "2 * length ?content"
  have "jsonMembers (Suc (Suc ?k)) (34 # js ''until'' @ 34 # 58 # 34 # quoteUnits (js ''t'') @ 34 # [125]) [] =
      Some (Obj [(js ''until'', Str (js ''t''))], [])"
    using jsonMembers_string [of "''until''" ?k "js ''t''" 125 "[]" "[]"] by (simp add: jm_set_def del: js_simps jsonMembers.simps)
  then have "jsonValue (Suc (Suc (Suc ?k))) ?content = Some (Obj [(js ''until'', Str (js ''t''))], [])"
    by (simp add: skipSpace_def isJsonSpace_def del: js_simps jsonMembers.simps)
  then have parsed: "jsonParse ?content = Some (Obj [(js ''until'', Str (js ''t''))])"
    using jsonParse_fuel [of ?content "Suc (Suc (Suc ?k))"] by (simp add: skipSpace_def)
  have "quoteUnits (js ''t'') = js ''t''" by (simp add: quoteUnit_def escapeUnit_def)
  then have "\<not> MAX_SENTINEL_BYTES < length (utf8 ?content)" by (simp add: MAX_SENTINEL_BYTES_def utf8Unit_def isHigh_def isLow_def)
  moreover have "fl 3600000 = 3600000" using fl_int [of 3600000] by simp
  ultimately have "parseMaintenanceWindow (\<lambda>_. Fin 7200000) (\<lambda>_. []) 3600000 ?content = Some \<lparr>mwReason = [], mwSince = None, mwUntil = []\<rparr>"
    unfolding parseMaintenanceWindow_def parsed
    by (simp add: getProp_def jm_get_def toEpochMs_def MAX_WINDOW_MS_def cleanReason_def Let_def)
  then show ?thesis using maintenance_window_bounded by blast
qed

section \<open>Readiness\<close>

lemma accepted_verdict:
  assumes "classifyRemoteSync p status maxLagBlocks = None"
  shows "vCode (classifyTrackerFreshness status maxLagBlocks) = None"
  using assms by (auto simp: classifyRemoteSync_def Let_def split: if_splits)

lemma ready_preflight:
  assumes "vSyncedClaimed (classifyTrackerFreshness status maxLagBlocks)" "classifyRemoteSync p status maxLagBlocks = None"
    and "getProp status ''lag'' = Num n"
  shows "assertTrackerReady PROFILE_DEFAULT maxLagBlocks (SyncStatus status) = ok ()"
proof -
  have "n = NaN \<Longrightarrow> \<not> js_lt n 0" by simp
  then show ?thesis using assms(1,3) accepted_verdict [OF assms(2)]
    by (auto simp: assertTrackerReady_def classifyTrackerFreshness_def lagOf_def Let_def split: if_splits)
qed

text \<open>
  C10. The encoder reports healthy only where the tracker's answer passes the very gate \<open>create_tx\<close> applies to a fetch, and,
  where the answer carries a lag, the preflight of the fetch too; and where the node's tier is not known to be wrong.
  A declared maintenance window changes neither the code nor any verdict.
\<close>

theorem healthy_means_servable:
  assumes "getServeReadiness p maxLagBlocks sync N inTime mw c = (c', r)"
  shows "(statusCode r = 200 \<longrightarrow>
       (\<exists>status. sync = SyncStatus status \<and> throwIfRefused p status maxLagBlocks = ok () \<and>
          ((\<exists>n. getProp status ''lag'' = Num n) \<longrightarrow> assertTrackerReady p maxLagBlocks sync = ok ())) \<and>
       (nodeTierMismatch c' = None \<or> nodeTierMismatch c' = Some [])) \<and>
     (\<forall>mw'. getServeReadiness p maxLagBlocks sync N inTime mw' c = (c', r\<lparr>maintenance := mw'\<rparr>) \<and>
        statusCode (r\<lparr>maintenance := mw'\<rparr>) = statusCode r)"
proof (intro conjI impI)
  obtain t where t: "probeNodeTier N inTime c = (c', t)" using assms by (auto simp: getServeReadiness_def Let_def split: prod.splits)
  show "\<forall>mw'. getServeReadiness p maxLagBlocks sync N inTime mw' c = (c', r\<lparr>maintenance := mw'\<rparr>) \<and>
      statusCode (r\<lparr>maintenance := mw'\<rparr>) = statusCode r"
    using assms by (auto simp: getServeReadiness_def statusCode_def healthy_def Let_def split: prod.splits syncAnswer.splits)
  assume "statusCode r = 200"
  then have h: "tracker_reachable r" "tracker_synced r" "node_tier_mismatch r = None" by (simp_all add: statusCode_def healthy_def split: if_splits)
  show "nodeTierMismatch c' = None \<or> nodeTierMismatch c' = Some []"
    using h(3) assms by (auto simp: getServeReadiness_def probeNodeTier_def Let_def split: prod.splits syncAnswer.splits option.splits if_splits)
  obtain status where s: "sync = SyncStatus status" "vSyncedClaimed (classifyTrackerFreshness status maxLagBlocks)"
    "classifyRemoteSync p status maxLagBlocks = None"
    using h assms by (cases sync) (auto simp: getServeReadiness_def Let_def split: prod.splits)
  have g: "throwIfRefused p status maxLagBlocks = ok ()" using s(3) by (simp add: throwIfRefused_def)
  have "assertTrackerReady p maxLagBlocks sync = ok ()" if "getProp status ''lag'' = Num n" for n
  proof (cases p)
    case PROFILE_REMOTE
    then show ?thesis using g s(1) by (simp add: assertTrackerReady_def assertRemoteTrackerReady_def)
  next
    case PROFILE_DEFAULT
    then show ?thesis using ready_preflight [OF s(2,3) that] s(1) by simp
  qed
  then show "\<exists>status. sync = SyncStatus status \<and> throwIfRefused p status maxLagBlocks = ok () \<and>
      ((\<exists>n. getProp status ''lag'' = Num n) \<longrightarrow> assertTrackerReady p maxLagBlocks sync = ok ())"
    using s(1) g by blast
qed

text \<open>An example: a remote tracker one block behind, a tier check that misses its deadline, and no window.\<close>

definition silent_node :: node where
  "silent_node = \<lparr>answer = (\<lambda>_ _. Inl (plainError [])), textOf = (\<lambda>_. []), jsonText = (\<lambda>_. [])\<rparr>"

definition untried :: connector where
  "untried = \<lparr>chainNameCache = None, consensusNetwork = None, chainGenesisHash = None, nodeTierOk = False, nodeTierWarned = False,
     nodeTierMismatch = None, nodeGenesisOk = False, nodeGenesisWarned = False, calls = 0\<rparr>"

definition good_status :: jsval where
  "good_status = Obj [(js ''synced'', Bool True), (js ''lag'', Num (Fin 1))]"

theorem healthy_means_servable_witness:
  "\<exists>c' r. getServeReadiness PROFILE_REMOTE 2 (SyncStatus good_status) silent_node False None untried = (c', r) \<and> statusCode r = 200 \<and>
     assertTrackerReady PROFILE_REMOTE 2 (SyncStatus good_status) = ok ()"
proof -
  obtain c' r where g: "getServeReadiness PROFILE_REMOTE 2 (SyncStatus good_status) silent_node False None untried = (c', r)" by fastforce
  then have "statusCode r = 200"
    by (auto simp: getServeReadiness_def probeNodeTier_def untried_def statusCode_def healthy_def classifyRemoteSync_def good_status_def
        classifyTrackerFreshness_def lagOf_def getProp_def jm_get_def Let_def simp del: js_simps)
  moreover have "getProp good_status ''lag'' = Num (Fin 1)" by (simp add: good_status_def getProp_def jm_get_def del: js_simps)
  ultimately show ?thesis using healthy_means_servable [OF g] g by blast
qed

text \<open>A default-profile tracker that claims to be synced and carries no lag reads as healthy, and every fetch is refused.\<close>

lemma null_lag_reads_healthy:
  assumes "nodeTierMismatch (fst (assertNodeTier N c)) = None"
  shows "let status = Obj [(js ''synced'', Bool True), (js ''lag'', Null)]
     in statusCode (snd (getServeReadiness PROFILE_DEFAULT maxLagBlocks (SyncStatus status) N True None c)) = 200 \<and>
        (\<exists>e. assertTrackerReady PROFILE_DEFAULT maxLagBlocks (SyncStatus status) = throw e)"
  using assms by (simp add: getServeReadiness_def probeNodeTier_def statusCode_def healthy_def classifyRemoteSync_def
      classifyTrackerFreshness_def lagOf_def getProp_def jm_get_def assertTrackerReady_def Let_def del: js_simps)

end
