(* ===== verification/CoinData.thy ===== *)
theory CoinData
  imports JsValue
begin

text \<open>
  The coin files \<open>src/src/coins/BTC.js\<close>, \<open>LTC.js\<close> and \<open>DOGE.js\<close>, each as the object it exports, its properties in their
  order: the identity fields, a block for each network, the fees, the gas schedule and what follows it.
\<close>

section \<open>Bitcoin\<close>

definition BTC_identity :: "(jstring \<times> jsval) list" where
  "BTC_identity =
    [(js ''tick'', Str (js ''BTC'')),
     (js ''fullName'', Str (js ''bitcoin'')),
     (js ''displayName'', Str (js ''Bitcoin'')),
     (js ''site'', Str (js ''https://bitcoin.org'')),
     (js ''decimals'', Num (Fin 8)),
     (js ''confirmations'', Num (Fin 6)),
     (js ''wireFormat'', Str (js ''default'')),
     (js ''DISPLAY_ONLY_ADDRESS_ROLES'', Arr [Str (js ''EXPLORER'')])]"

definition BTC_mainnet :: "jsval" where
  "BTC_mainnet =
    Obj
     [(js ''net'', Obj
        [(js ''messagePrefix'', Str (js (CHR 0x18 # ''Bitcoin Signed Message:'' @ [CHR 0x0A]))),
         (js ''bech32'', Str (js ''bc'')),
         (js ''bip32'', Obj [(js ''public'', Num (Fin 76067358)), (js ''private'', Num (Fin 76066276))]),
         (js ''pubKeyHash'', Num (Fin 0)),
         (js ''scriptHash'', Num (Fin 5)),
         (js ''wif'', Num (Fin 128)),
         (js ''dustThreshold'', Num (Fin 546)),
         (js ''minStandardTxNonWitnessSize'', Num (Fin 82)),
         (js ''singleOpReturnPolicy'', Bool True)]),
      (js ''firstBlock'', Num (Fin 950000)),
      (js ''chainGenesisHash'', Null),
      (js ''addresses'', Obj
        [(js ''BURN'', Str (js ''1XChainBurnAddressXXXXXXXXXbRsd2N'')),
         (js ''GAS'', Str (js ''1XChain3M4uRwcHqt4XuhVBUQ8cL4qQsA'')),
         (js ''DONATE1'', Str (js ''1Donate1GERVKPW6GFQcnGeTa8dgL6Abyp'')),
         (js ''DONATE2'', Str (js ''1Donate2LkbBrsanwCVRPWZCXAqQcvcqGz'')),
         (js ''FEE_DESTINATION'', Str (js ''1FeesxM9LTEjBYVTkynK6jfDBgvksuh2WL'')),
         (js ''REWARD'', Str (js ''1RewardsRQTXMAytLt4bBQvPEscKsSEXt'')),
         (js ''BRIDGE_LTC'', Str (js ''17BridgeLtcXChainXXXXXXXXXXa5uRRy'')),
         (js ''BRIDGE_DOGE'', Str (js ''17BridgeDogeXChainXXXXXXXXXVuqXcv'')),
         (js ''EXPLORER'', Str (js ''1Donate3GBGSZzzrS9U9gUgURYKscAE6Yn''))]),
      (js ''genesis'', Obj
        [(js ''block'', Num (Fin 950000)),
         (js ''ledgerHash'', Str (js ''13aeeebb9f2e27d507ca96fb7c54a1bfa98b9cc80c3feebd5d1ad022ce7e2b73'')),
         (js ''dumpHash'', Str (js ''85431c2c41d6442e38aa78af804148dd6ead207aca036f6e44fbf2bee8c2846e'')),
         (js ''airdropPaths'', Arr []),
         (js ''airdropHashes'', Arr []),
         (js ''airdropAmounts'', Arr []),
         (js ''airdropSnapshotBlock'', Null),
         (js ''airdropSetHash'', Null)])]"

definition BTC_testnet :: "jsval" where
  "BTC_testnet =
    Obj
     [(js ''net'', Obj
        [(js ''messagePrefix'', Str (js (CHR 0x18 # ''Bitcoin Signed Message:'' @ [CHR 0x0A]))),
         (js ''bech32'', Str (js ''tb'')),
         (js ''bip32'', Obj [(js ''public'', Num (Fin 70617039)), (js ''private'', Num (Fin 70615956))]),
         (js ''pubKeyHash'', Num (Fin 111)),
         (js ''scriptHash'', Num (Fin 196)),
         (js ''wif'', Num (Fin 239)),
         (js ''dustThreshold'', Num (Fin 546)),
         (js ''minStandardTxNonWitnessSize'', Num (Fin 82)),
         (js ''singleOpReturnPolicy'', Bool True)]),
      (js ''firstBlock'', Num (Fin 149700)),
      (js ''chainGenesisHash'', Null),
      (js ''addresses'', Obj
        [(js ''BURN'', Str (js ''mxchainburnaddressXXXXXXXXXXa8EAfp'')),
         (js ''GAS'', Str (js ''mgassdEpzH2AuKGK9W5FZh8drWYKrpXk6D'')),
         (js ''DONATE1'', Str (js ''mfztXKX1HeVdCQf6pDCZFEzo5i5wYNHAM6'')),
         (js ''DONATE2'', Str (js ''myBbbZ4t7BPoyNcT4sHtFwZDuiyYGDXLQM'')),
         (js ''FEE_DESTINATION'', Str (js ''mfees5QurRs5BHXofdGpTG5pXB6uC6R8RU'')),
         (js ''REWARD'', Str (js ''mrewards4RQFYoZ5yEv4xr12PzfjDYViks'')),
         (js ''BRIDGE_LTC'', Str (js ''mfbtcbridgeLtcXXXXXXXXXXXXXXVPqpoV'')),
         (js ''BRIDGE_DOGE'', Str (js ''mfbtcbridgedogeXXXXXXXXXXXXXUXTr4m'')),
         (js ''EXPLORER'', Str (js ''n1jbLKMrhvFae7NwTj37ZtkN4uPy29o9aM''))]),
      (js ''genesis'', Obj
        [(js ''block'', Num (Fin 0)),
         (js ''ledgerHash'', Null),
         (js ''dumpHash'', Null),
         (js ''airdropPaths'', Arr []),
         (js ''airdropHashes'', Arr []),
         (js ''airdropAmounts'', Arr []),
         (js ''airdropSnapshotBlock'', Null),
         (js ''airdropSetHash'', Null)])]"

definition BTC_regtest :: "jsval" where
  "BTC_regtest =
    Obj
     [(js ''net'', Obj
        [(js ''messagePrefix'', Str (js (CHR 0x18 # ''Bitcoin Signed Message:'' @ [CHR 0x0A]))),
         (js ''bech32'', Str (js ''bcrt'')),
         (js ''bip32'', Obj [(js ''public'', Num (Fin 70617039)), (js ''private'', Num (Fin 70615956))]),
         (js ''pubKeyHash'', Num (Fin 111)),
         (js ''scriptHash'', Num (Fin 196)),
         (js ''wif'', Num (Fin 239)),
         (js ''dustThreshold'', Num (Fin 546)),
         (js ''minStandardTxNonWitnessSize'', Num (Fin 82)),
         (js ''singleOpReturnPolicy'', Bool True)]),
      (js ''firstBlock'', Num (Fin 0)),
      (js ''chainGenesisHash'', Null),
      (js ''addresses'', Obj
        [(js ''BURN'', Str (js ''mxchainburnaddressXXXXXXXXXXa8EAfp'')),
         (js ''GAS'', Str (js ''mgash6jYSKAR3Q5HPpDgNX2BYr18q9N6GQ'')),
         (js ''DONATE1'', Str (js ''muYHF9MMnK6Nmd5zx7EBtqEYZdaf2Xy8JX'')),
         (js ''DONATE2'', Str (js ''mkQd27aJSqsQ666z1Q4MLFmd3Ybqzy3TNw'')),
         (js ''FEE_DESTINATION'', Str (js ''mfeesX6rLE6V3WPg9tsbL2fHNS7E4rDAim'')),
         (js ''REWARD'', Str (js ''mrewardshQqD1ptkEBZGjPDF77L5uKJQmk'')),
         (js ''BRIDGE_LTC'', Str (js ''mfbtcbridgeLtcXXXXXXXXXXXXXXVPqpoV'')),
         (js ''BRIDGE_DOGE'', Str (js ''mfbtcbridgedogeXXXXXXXXXXXXXUXTr4m'')),
         (js ''EXPLORER'', Str (js ''mrDH7rA2ZmGoh4Qx5guhDBJbZotUd6XyVH''))]),
      (js ''genesis'', Obj
        [(js ''$envOverrides'', Obj
           [(js ''block'', Obj [(js ''env'', Str (js ''XCHAIN_GENESIS_BLOCK'')), (js ''type'', Str (js ''int'')), (js ''default'', Num (Fin 0))]),
            (js ''ledgerHash'', Obj [(js ''env'', Str (js ''XCHAIN_GENESIS_LEDGER_HASH'')), (js ''type'', Str (js ''str'')), (js ''default'', Null)]),
            (js ''dumpHash'', Obj [(js ''env'', Str (js ''XCHAIN_GENESIS_DUMP_HASH'')), (js ''type'', Str (js ''str'')), (js ''default'', Null)]),
            (js ''airdropPaths'', Obj [(js ''env'', Str (js ''GENESIS_AIRDROP_PATHS'')), (js ''type'', Str (js ''csv'')), (js ''default'', Arr [])]),
            (js ''airdropHashes'', Obj
              [(js ''env'', Str (js ''GENESIS_AIRDROP_HASHES'')),
               (js ''type'', Str (js ''csv_sparse'')),
               (js ''default'', Arr [])]),
            (js ''airdropAmounts'', Obj
              [(js ''env'', Str (js ''GENESIS_AIRDROP_AMOUNTS'')),
               (js ''type'', Str (js ''csv_sparse'')),
               (js ''default'', Arr [])]),
            (js ''airdropSnapshotBlock'', Obj
              [(js ''env'', Str (js ''GENESIS_AIRDROP_SNAPSHOT_BLOCK'')),
               (js ''type'', Str (js ''str'')),
               (js ''default'', Null)]),
            (js ''airdropSetHash'', Obj
              [(js ''env'', Str (js ''GENESIS_AIRDROP_SET_HASH'')),
               (js ''type'', Str (js ''str'')),
               (js ''default'', Null)])])])]"

definition BTC_fees :: "(jstring \<times> jsval) list" where
  "BTC_fees =
    [(js ''legacyFees'', Obj
       [(js ''ISSUANCE_FEE_TOKEN'', Str (js ''1.00000000'')),
        (js ''ISSUANCE_FEE_SUBTOKEN'', Str (js ''0.50000000'')),
        (js ''EXPIRATION_FEE_DEFAULT_DAYS'', Num (Fin 90)),
        (js ''EXPIRATION_FEE_FREE_DAYS'', Num (Fin 182)),
        (js ''EXPIRATION_FEE_PER_DAY'', Str (js ''0.00547945''))]),
     (js ''GAS_PRICE'', Str (js ''0.00001'')),
     (js ''UNIFIED_EXPIRATION_FEE_FREE_DAYS'', Num (Fin 90)),
     (js ''FEE_PAYMENT_MODE'', Str (js ''xchain'')),
     (js ''FEE_TOLERANCE_MIN'', Str (js ''0.95'')),
     (js ''FEE_TOLERANCE_MAX'', Str (js ''1.10'')),
     (js ''ORACLE_MAX_PRICE_AGE_SECONDS'', Num (Fin 1800)),
     (js ''ORACLE_MAX_PRICE_AGE_HOURLY_SECONDS'', Num (Fin 4500)),
     (js ''VALIDATOR_QUERY_LIMIT'', Num (Fin 1000))]"

definition BTC_gas :: "jsval" where
  "BTC_gas =
    Obj
     [(js ''ISSUE'', Num (Fin 100000)),
      (js ''ISSUE_SUBTOKEN'', Num (Fin 50000)),
      (js ''EXPIRATION_PER_DAY'', Num (Fin 550)),
      (js ''OWNERSHIP_ESCROW'', Num (Fin 50000)),
      (js ''AIRDROP_PER_RECIPIENT'', Num (Fin 100)),
      (js ''DIVIDEND_PER_RECIPIENT'', Num (Fin 100)),
      (js ''SWEEP_BASE'', Num (Fin 5000)),
      (js ''SWEEP_PER_ITEM'', Num (Fin 100)),
      (js ''CALLBACK_BASE'', Num (Fin 5000)),
      (js ''CALLBACK_PER_RECIPIENT'', Num (Fin 100)),
      (js ''XBRIDGE_BASE'', Num (Fin 5000)),
      (js ''LIST_SHARE'', Num (Fin 100000)),
      (js ''LIST_SHARED_EDIT_BASE'', Num (Fin 5000)),
      (js ''LIST_SHARED_EDIT_PER_ITEM'', Num (Fin 100)),
      (js ''BET_FEED_PER_DAY'', Num (Fin 550)),
      (js ''BET_PER_CREDIT'', Num (Fin 100)),
      (js ''VM_EXECUTE_BASE'', Num (Fin 1000)),
      (js ''VM_DEPLOY_BASE'', Num (Fin 100000)),
      (js ''VM_DEPLOY_PER_BYTE'', Num (Fin 10)),
      (js ''VM_STATE_READ'', Num (Fin 100)),
      (js ''VM_STATE_WRITE'', Num (Fin 200)),
      (js ''VM_STATE_DELETE'', Num (Fin 100)),
      (js ''VM_ORACLE_READ'', Num (Fin 100)),
      (js ''VM_CROSSCHAIN_READ'', Num (Fin 100)),
      (js ''VM_ATTEST_REQUEST'', Num (Fin 5000)),
      (js ''VM_XCALL_REQUEST'', Num (Fin 2000)),
      (js ''VM_XCALL_CALLBACK'', Num (Fin 20000)),
      (js ''VM_EMISSION'', Num (Fin 500)),
      (js ''VM_COMPUTATION'', Num (Fin 1)),
      (js ''VM_GUARD_GAS_CEILING'', Num (Fin 200000))]"

definition BTC_rest :: "(jstring \<times> jsval) list" where
  "BTC_rest =
    [(js ''STAKING'', Obj
       [(js ''COOLDOWN_BLOCKS'', Num (Fin 1000)),
        (js ''ACTIVATION_DELAY_BLOCKS'', Num (Fin 6)),
        (js ''CAPABILITIES'', Obj
          [(js ''price'', Obj
             [(js ''MIN_STAKE'', Str (js ''1000.00000000'')),
              (js ''SLASH'', Obj
                [(js ''BOUNTY_BPS'', Num (Fin 500)),
                 (js ''BOUNTY_FLOOR'', Str (js ''50.00000000'')),
                 (js ''BOUNTY_CAP'', Str (js ''1000.00000000''))])]),
           (js ''cross_chain'', Obj
             [(js ''MIN_STAKE'', Str (js ''5000.00000000'')),
              (js ''SLASH'', Obj
                [(js ''BOUNTY_BPS'', Num (Fin 500)),
                 (js ''BOUNTY_FLOOR'', Str (js ''50.00000000'')),
                 (js ''BOUNTY_CAP'', Str (js ''1000.00000000''))])]),
           (js ''oracle_publish'', Obj
             [(js ''MIN_STAKE'', Str (js ''500.00000000'')),
              (js ''SLASH'', Obj
                [(js ''BOUNTY_BPS'', Num (Fin 500)),
                 (js ''BOUNTY_FLOOR'', Str (js ''50.00000000'')),
                 (js ''BOUNTY_CAP'', Str (js ''1000.00000000''))])]),
           (js ''attestation'', Obj
             [(js ''MIN_STAKE'', Str (js ''1000.00000000'')),
              (js ''SLASH'', Obj
                [(js ''BOUNTY_BPS'', Num (Fin 500)),
                 (js ''BOUNTY_FLOOR'', Str (js ''50.00000000'')),
                 (js ''BOUNTY_CAP'', Str (js ''1000.00000000''))])]),
           (js ''full_node'', Obj [(js ''MIN_STAKE'', Str (js ''2000.00000000''))])])]),
     (js ''CONFIG_SLASH'', Obj
       [(js ''BOUNTY_BPS'', Num (Fin 500)),
        (js ''BOUNTY_FLOOR'', Str (js ''50.00000000'')),
        (js ''BOUNTY_CAP'', Str (js ''1000.00000000''))]),
     (js ''FULLNODE'', Obj
       [(js ''CHALLENGE_INTERVAL_BLOCKS'', Num (Fin 144)),
        (js ''CONFIRM_DEPTH'', Num (Fin 100)),
        (js ''PROOF_WINDOW_BLOCKS'', Num (Fin 300)),
        (js ''VERDICT_ACCEPT_WINDOW_BLOCKS'', Num (Fin 24)),
        (js ''REWARD_SHARE'', Str (js ''0'')),
        (js ''REWARD_PASS_WINDOW_BLOCKS'', Num (Fin 1008)),
        (js ''MIN_PASS_RATE_BPS'', Num (Fin 7000)),
        (js ''COLLECT_DEPTH_BLOCKS'', Num (Fin 3)),
        (js ''GENESIS_VERIFIERS'', Arr []),
        (js ''$regtestSidecar'', Str (js ''fullnode.regtest.json'')),
        (js ''$regtestEnvOverrides'', Obj
          [(js ''CHALLENGE_INTERVAL_BLOCKS'', Obj [(js ''env'', Str (js ''FULLNODE_CHALLENGE_INTERVAL_BLOCKS'')), (js ''type'', Str (js ''int''))]),
           (js ''CONFIRM_DEPTH'', Obj [(js ''env'', Str (js ''FULLNODE_CONFIRM_DEPTH'')), (js ''type'', Str (js ''int''))]),
           (js ''PROOF_WINDOW_BLOCKS'', Obj [(js ''env'', Str (js ''FULLNODE_PROOF_WINDOW_BLOCKS'')), (js ''type'', Str (js ''int''))]),
           (js ''VERDICT_ACCEPT_WINDOW_BLOCKS'', Obj
             [(js ''env'', Str (js ''FULLNODE_VERDICT_ACCEPT_WINDOW_BLOCKS'')),
              (js ''type'', Str (js ''int''))]),
           (js ''REWARD_PASS_WINDOW_BLOCKS'', Obj [(js ''env'', Str (js ''FULLNODE_REWARD_PASS_WINDOW_BLOCKS'')), (js ''type'', Str (js ''int''))]),
           (js ''MIN_PASS_RATE_BPS'', Obj [(js ''env'', Str (js ''FULLNODE_MIN_PASS_RATE_BPS'')), (js ''type'', Str (js ''int''))]),
           (js ''REWARD_SHARE'', Obj [(js ''env'', Str (js ''FULLNODE_REWARD_SHARE'')), (js ''type'', Str (js ''str''))]),
           (js ''COLLECT_DEPTH_BLOCKS'', Obj [(js ''env'', Str (js ''FULLNODE_COLLECT_DEPTH_BLOCKS'')), (js ''type'', Str (js ''int''))]),
           (js ''GENESIS_VERIFIERS'', Obj [(js ''env'', Str (js ''FULLNODE_GENESIS_VERIFIERS'')), (js ''type'', Str (js ''csv_lower''))])])])]"

definition BTC_file :: "jsval" where
  "BTC_file =
    Obj
     (BTC_identity @
      [(js ''networks'', Obj [(js ''mainnet'', BTC_mainnet), (js ''testnet'', BTC_testnet), (js ''regtest'', BTC_regtest)])] @
      BTC_fees @ [(js ''GAS_SCHEDULE'', BTC_gas)] @ BTC_rest)"

section \<open>Litecoin\<close>

definition LTC_identity :: "(jstring \<times> jsval) list" where
  "LTC_identity =
    [(js ''tick'', Str (js ''LTC'')),
     (js ''fullName'', Str (js ''litecoin'')),
     (js ''displayName'', Str (js ''Litecoin'')),
     (js ''site'', Str (js ''https://litecoin.org'')),
     (js ''decimals'', Num (Fin 8)),
     (js ''confirmations'', Num (Fin 12)),
     (js ''wireFormat'', Str (js ''mweb'')),
     (js ''DISPLAY_ONLY_ADDRESS_ROLES'', Arr [Str (js ''EXPLORER'')])]"

definition LTC_mainnet :: "jsval" where
  "LTC_mainnet =
    Obj
     [(js ''net'', Obj
        [(js ''messagePrefix'', Str (js (CHR 0x19 # ''Litecoin Signed Message:'' @ [CHR 0x0A]))),
         (js ''bech32'', Str (js ''ltc'')),
         (js ''bip32'', Obj [(js ''public'', Num (Fin 27108450)), (js ''private'', Num (Fin 27106558))]),
         (js ''pubKeyHash'', Num (Fin 48)),
         (js ''scriptHash'', Num (Fin 50)),
         (js ''wif'', Num (Fin 176)),
         (js ''dustThreshold'', Num (Fin 5460)),
         (js ''minStandardTxNonWitnessSize'', Num (Fin 85)),
         (js ''singleOpReturnPolicy'', Bool True)]),
      (js ''firstBlock'', Num (Fin 3120000)),
      (js ''chainGenesisHash'', Null),
      (js ''addresses'', Obj
        [(js ''BURN'', Str (js ''LXChainBurnAddressXXXXXXXXXXSkrYkJ'')),
         (js ''GAS'', Str (js ''LXChainCN6yjHVqqS9tYzYVYZ8CCZcSx72'')),
         (js ''DONATE1'', Str (js ''Ldonate18tNZcVThKm5MX33EjvhaanJ6Mg'')),
         (js ''DONATE2'', Str (js ''Ldonate2io846q2e7q8dUArh3TNnaq9ENb'')),
         (js ''FEE_DESTINATION'', Str (js ''Lfees7tszAx5Gqam2fuqf6biaX3LXafM4H'')),
         (js ''REWARD'', Str (js ''XXXXXXXXXXXXXXXXXXXXXXXXXXXXXXXXXX'')),
         (js ''BRIDGE_BTC'', Str (js ''LKLtcbridgebtcXXXXXXXXXXXXXXXA61Gk'')),
         (js ''BRIDGE_DOGE'', Str (js ''LKLtcbridgedogeXXXXXXXXXXXXXX8Aknx'')),
         (js ''EXPLORER'', Str (js ''Ldonate3FfyqbYQAYxo3qjFLcu28oUdAfn''))]),
      (js ''genesis'', Obj
        [(js ''block'', Num (Fin 0)),
         (js ''ledgerHash'', Null),
         (js ''airdropPaths'', Arr []),
         (js ''airdropHashes'', Arr []),
         (js ''airdropAmounts'', Arr []),
         (js ''airdropSnapshotBlock'', Null),
         (js ''airdropSetHash'', Null)])]"

definition LTC_testnet :: "jsval" where
  "LTC_testnet =
    Obj
     [(js ''net'', Obj
        [(js ''messagePrefix'', Str (js (CHR 0x19 # ''Litecoin Signed Message:'' @ [CHR 0x0A]))),
         (js ''bech32'', Str (js ''tltc'')),
         (js ''bip32'', Obj [(js ''public'', Num (Fin 70711009)), (js ''private'', Num (Fin 70709117))]),
         (js ''pubKeyHash'', Num (Fin 111)),
         (js ''scriptHash'', Num (Fin 196)),
         (js ''wif'', Num (Fin 239)),
         (js ''dustThreshold'', Num (Fin 5460)),
         (js ''minStandardTxNonWitnessSize'', Num (Fin 85)),
         (js ''singleOpReturnPolicy'', Bool True)]),
      (js ''firstBlock'', Num (Fin 4862500)),
      (js ''chainGenesisHash'', Null),
      (js ''addresses'', Obj
        [(js ''BURN'', Str (js ''mxchainburnaddressXXXXXXXXXXa8EAfp'')),
         (js ''GAS'', Str (js ''mgashLN9oSvj2CUJYKWdNxh6VkamPg1Ges'')),
         (js ''DONATE1'', Str (js ''mybp5CceJvVV5tNCCiF7oBiZWko2fNkmnT'')),
         (js ''DONATE2'', Str (js ''muKEjejjXQvLY7Lp7Ecpn29gM2TCb5BLTF'')),
         (js ''FEE_DESTINATION'', Str (js ''mfeeskqGYw3wXYqMZFnUxBwGposEvjziRW'')),
         (js ''REWARD'', Str (js ''XXXXXXXXXXXXXXXXXXXXXXXXXXXXXXXXXX'')),
         (js ''BRIDGE_BTC'', Str (js ''mgLtcbridgebtcXXXXXXXXXXXXXXYpo2Bo'')),
         (js ''BRIDGE_DOGE'', Str (js ''mgLtcbridgedogeXXXXXXXXXXXXXZBQunc'')),
         (js ''EXPLORER'', Str (js ''mzCXcxcECbY5aNSXsfWjzKQN1YwoefEcG8''))]),
      (js ''genesis'', Obj
        [(js ''block'', Num (Fin 0)),
         (js ''ledgerHash'', Null),
         (js ''airdropPaths'', Arr []),
         (js ''airdropHashes'', Arr []),
         (js ''airdropAmounts'', Arr []),
         (js ''airdropSnapshotBlock'', Null),
         (js ''airdropSetHash'', Null)])]"

definition LTC_regtest :: "jsval" where
  "LTC_regtest =
    Obj
     [(js ''net'', Obj
        [(js ''messagePrefix'', Str (js (CHR 0x19 # ''Litecoin Signed Message:'' @ [CHR 0x0A]))),
         (js ''bech32'', Str (js ''rltc'')),
         (js ''bip32'', Obj [(js ''public'', Num (Fin 70711009)), (js ''private'', Num (Fin 70709117))]),
         (js ''pubKeyHash'', Num (Fin 111)),
         (js ''scriptHash'', Num (Fin 196)),
         (js ''wif'', Num (Fin 239)),
         (js ''dustThreshold'', Num (Fin 5460)),
         (js ''minStandardTxNonWitnessSize'', Num (Fin 85)),
         (js ''singleOpReturnPolicy'', Bool True)]),
      (js ''firstBlock'', Num (Fin 0)),
      (js ''chainGenesisHash'', Null),
      (js ''addresses'', Obj
        [(js ''BURN'', Str (js ''mxchainburnaddressXXXXXXXXXXa8EAfp'')),
         (js ''GAS'', Str (js ''mgas5QYE38Bg34hwEjFKaE7Gs536FARue4'')),
         (js ''DONATE1'', Str (js ''mgNY2ZXbnNEkRT5ZRF8yGamivrSX2QH97h'')),
         (js ''DONATE2'', Str (js ''n2DLJPppXUi8jC6fLiSkthZi2sc9UKiZHd'')),
         (js ''FEE_DESTINATION'', Str (js ''mfeesJdVLx23zhtsCveA8EEfmHX7qSV2Ls'')),
         (js ''REWARD'', Str (js ''XXXXXXXXXXXXXXXXXXXXXXXXXXXXXXXXXX'')),
         (js ''BRIDGE_BTC'', Str (js ''mgLtcbridgebtcXXXXXXXXXXXXXXYpo2Bo'')),
         (js ''BRIDGE_DOGE'', Str (js ''mgLtcbridgedogeXXXXXXXXXXXXXZBQunc'')),
         (js ''EXPLORER'', Str (js ''myL7sZGPEG3LhFXn7RFCZ321r8bxgmgDBz''))]),
      (js ''genesis'', Obj
        [(js ''$envOverrides'', Obj
           [(js ''block'', Obj [(js ''env'', Str (js ''XCHAIN_GENESIS_BLOCK'')), (js ''type'', Str (js ''int'')), (js ''default'', Num (Fin 0))]),
            (js ''ledgerHash'', Obj [(js ''env'', Str (js ''XCHAIN_GENESIS_LEDGER_HASH'')), (js ''type'', Str (js ''str'')), (js ''default'', Null)]),
            (js ''airdropPaths'', Obj [(js ''env'', Str (js ''GENESIS_AIRDROP_PATHS'')), (js ''type'', Str (js ''csv'')), (js ''default'', Arr [])]),
            (js ''airdropHashes'', Obj
              [(js ''env'', Str (js ''GENESIS_AIRDROP_HASHES'')),
               (js ''type'', Str (js ''csv_sparse'')),
               (js ''default'', Arr [])]),
            (js ''airdropAmounts'', Obj
              [(js ''env'', Str (js ''GENESIS_AIRDROP_AMOUNTS'')),
               (js ''type'', Str (js ''csv_sparse'')),
               (js ''default'', Arr [])]),
            (js ''airdropSnapshotBlock'', Obj
              [(js ''env'', Str (js ''GENESIS_AIRDROP_SNAPSHOT_BLOCK'')),
               (js ''type'', Str (js ''str'')),
               (js ''default'', Null)]),
            (js ''airdropSetHash'', Obj
              [(js ''env'', Str (js ''GENESIS_AIRDROP_SET_HASH'')),
               (js ''type'', Str (js ''str'')),
               (js ''default'', Null)])])])]"

definition LTC_fees :: "(jstring \<times> jsval) list" where
  "LTC_fees =
    [(js ''legacyFees'', Obj
       [(js ''ISSUANCE_FEE_TOKEN'', Str (js ''0.50000000'')),
        (js ''ISSUANCE_FEE_SUBTOKEN'', Str (js ''0.25000000'')),
        (js ''EXPIRATION_FEE_DEFAULT_DAYS'', Num (Fin 90)),
        (js ''EXPIRATION_FEE_FREE_DAYS'', Num (Fin 182)),
        (js ''EXPIRATION_FEE_PER_DAY'', Str (js ''0.00273973''))]),
     (js ''GAS_PRICE'', Str (js ''0.00001'')),
     (js ''UNIFIED_EXPIRATION_FEE_FREE_DAYS'', Num (Fin 90)),
     (js ''FEE_PAYMENT_MODE'', Str (js ''native'')),
     (js ''FEE_TOLERANCE_MIN'', Str (js ''0.95'')),
     (js ''FEE_TOLERANCE_MAX'', Str (js ''1.10'')),
     (js ''ORACLE_MAX_PRICE_AGE_SECONDS'', Num (Fin 1800)),
     (js ''ORACLE_MAX_PRICE_AGE_HOURLY_SECONDS'', Num (Fin 4500)),
     (js ''VALIDATOR_QUERY_LIMIT'', Num (Fin 1000))]"

definition LTC_gas :: "jsval" where
  "LTC_gas =
    Obj
     [(js ''ISSUE'', Num (Fin 100000)),
      (js ''ISSUE_SUBTOKEN'', Num (Fin 50000)),
      (js ''EXPIRATION_PER_DAY'', Num (Fin 550)),
      (js ''OWNERSHIP_ESCROW'', Num (Fin 50000)),
      (js ''AIRDROP_PER_RECIPIENT'', Num (Fin 100)),
      (js ''DIVIDEND_PER_RECIPIENT'', Num (Fin 100)),
      (js ''SWEEP_BASE'', Num (Fin 5000)),
      (js ''SWEEP_PER_ITEM'', Num (Fin 100)),
      (js ''CALLBACK_BASE'', Num (Fin 5000)),
      (js ''CALLBACK_PER_RECIPIENT'', Num (Fin 100)),
      (js ''XBRIDGE_BASE'', Num (Fin 5000)),
      (js ''LIST_SHARE'', Num (Fin 100000)),
      (js ''LIST_SHARED_EDIT_BASE'', Num (Fin 5000)),
      (js ''LIST_SHARED_EDIT_PER_ITEM'', Num (Fin 100)),
      (js ''BET_FEED_PER_DAY'', Num (Fin 550)),
      (js ''BET_PER_CREDIT'', Num (Fin 100)),
      (js ''VM_EXECUTE_BASE'', Num (Fin 1000)),
      (js ''VM_DEPLOY_BASE'', Num (Fin 100000)),
      (js ''VM_DEPLOY_PER_BYTE'', Num (Fin 10)),
      (js ''VM_STATE_READ'', Num (Fin 100)),
      (js ''VM_STATE_WRITE'', Num (Fin 200)),
      (js ''VM_STATE_DELETE'', Num (Fin 100)),
      (js ''VM_ORACLE_READ'', Num (Fin 100)),
      (js ''VM_CROSSCHAIN_READ'', Num (Fin 100)),
      (js ''VM_ATTEST_REQUEST'', Num (Fin 5000)),
      (js ''VM_XCALL_REQUEST'', Num (Fin 2000)),
      (js ''VM_XCALL_CALLBACK'', Num (Fin 20000)),
      (js ''VM_EMISSION'', Num (Fin 500)),
      (js ''VM_COMPUTATION'', Num (Fin 1)),
      (js ''VM_GUARD_GAS_CEILING'', Num (Fin 200000))]"

definition LTC_rest :: "(jstring \<times> jsval) list" where
  "LTC_rest =
    [(js ''STAKING'', Obj [(js ''COOLDOWN_BLOCKS'', Num (Fin 4032)), (js ''ACTIVATION_DELAY_BLOCKS'', Num (Fin 24)), (js ''CAPABILITIES'', Obj [])])]"

definition LTC_file :: "jsval" where
  "LTC_file =
    Obj
     (LTC_identity @
      [(js ''networks'', Obj [(js ''mainnet'', LTC_mainnet), (js ''testnet'', LTC_testnet), (js ''regtest'', LTC_regtest)])] @
      LTC_fees @ [(js ''GAS_SCHEDULE'', LTC_gas)] @ LTC_rest)"

section \<open>Dogecoin\<close>

definition DOGE_identity :: "(jstring \<times> jsval) list" where
  "DOGE_identity =
    [(js ''tick'', Str (js ''DOGE'')),
     (js ''fullName'', Str (js ''dogecoin'')),
     (js ''displayName'', Str (js ''Dogecoin'')),
     (js ''site'', Str (js ''https://dogecoin.com'')),
     (js ''decimals'', Num (Fin 8)),
     (js ''confirmations'', Num (Fin 60)),
     (js ''wireFormat'', Str (js ''auxpow'')),
     (js ''DISPLAY_ONLY_ADDRESS_ROLES'', Arr [Str (js ''EXPLORER'')])]"

definition DOGE_mainnet :: "jsval" where
  "DOGE_mainnet =
    Obj
     [(js ''net'', Obj
        [(js ''messagePrefix'', Str (js (CHR 0x19 # ''Dogecoin Signed Message:'' @ [CHR 0x0A]))),
         (js ''bip32'', Obj [(js ''public'', Num (Fin 49990397)), (js ''private'', Num (Fin 49988504))]),
         (js ''pubKeyHash'', Num (Fin 30)),
         (js ''scriptHash'', Num (Fin 22)),
         (js ''wif'', Num (Fin 158)),
         (js ''dustThreshold'', Num (Fin 100000)),
         (js ''supportsSegwit'', Bool False),
         (js ''singleOpReturnPolicy'', Bool True)]),
      (js ''firstBlock'', Num (Fin 6240000)),
      (js ''chainGenesisHash'', Null),
      (js ''addresses'', Obj
        [(js ''BURN'', Str (js ''DChainBurnAddressXXXXXXXXXXXawc9pt'')),
         (js ''GAS'', Str (js ''DGasfpttCnTijuuoAdiJ9sXJjG7vQ5pMkW'')),
         (js ''DONATE1'', Str (js ''DDonate1RBcwGnCRNnVtwuCmQyWW1Gn25f'')),
         (js ''DONATE2'', Str (js ''DDonate2o3Sg4phybp92oFpkmv8S9ZhGSV'')),
         (js ''FEE_DESTINATION'', Str (js ''DFeesjvoMoVqd9UDuwDSAxzHMF5xZFgeG9'')),
         (js ''REWARD'', Str (js ''XXXXXXXXXXXXXXXXXXXXXXXXXXXXXXXXXX'')),
         (js ''BRIDGE_BTC'', Str (js ''D5dogebridgebtcXXXXXXXXXXXXXVAFQt9'')),
         (js ''BRIDGE_LTC'', Str (js ''D5dogebridgeLtcXXXXXXXXXXXXXUVFLyn'')),
         (js ''EXPLORER'', Str (js ''DDonate3FCoUgi1bxW5r9c2p75uKTLw9qE''))]),
      (js ''genesis'', Obj
        [(js ''block'', Num (Fin 6240000)),
         (js ''ledgerHash'', Str (js ''888fc0be89d4ac58dff24ef5b02c8ccfb947cef9c3d4bc3b28db2202e68da5df'')),
         (js ''dumpHash'', Str (js ''9aae4cdf2bc14de119e089c267d442aec4671e01f6139aff486460798bb96a92'')),
         (js ''airdropPaths'', Arr []),
         (js ''airdropHashes'', Arr []),
         (js ''airdropAmounts'', Arr []),
         (js ''airdropSnapshotBlock'', Null),
         (js ''airdropSetHash'', Null)])]"

definition DOGE_testnet :: "jsval" where
  "DOGE_testnet =
    Obj
     [(js ''net'', Obj
        [(js ''messagePrefix'', Str (js (CHR 0x19 # ''Dogecoin Signed Message:'' @ [CHR 0x0A]))),
         (js ''bip32'', Obj [(js ''public'', Num (Fin 70429096)), (js ''private'', Num (Fin 70427203))]),
         (js ''pubKeyHash'', Num (Fin 113)),
         (js ''scriptHash'', Num (Fin 196)),
         (js ''wif'', Num (Fin 241)),
         (js ''dustThreshold'', Num (Fin 100000)),
         (js ''supportsSegwit'', Bool False),
         (js ''singleOpReturnPolicy'', Bool True)]),
      (js ''firstBlock'', Num (Fin 67847500)),
      (js ''chainGenesisHash'', Null),
      (js ''addresses'', Obj
        [(js ''BURN'', Str (js ''nchainburnaddressXXXXXXXXXXXYKgF7W'')),
         (js ''GAS'', Str (js ''ngasn6zHFzJ72zpk3DBKmXhD2XtszujSDW'')),
         (js ''DONATE1'', Str (js ''ndonate1dE87UXUFf4gjyhPg7hfQRJXVXr'')),
         (js ''DONATE2'', Str (js ''ndonate2wev8vKDgvd1DHhtJtvkRbn2usJ'')),
         (js ''FEE_DESTINATION'', Str (js ''nfeesoodkv5UTFXcDeKcUU95QHFiK2Ggo7'')),
         (js ''REWARD'', Str (js ''XXXXXXXXXXXXXXXXXXXXXXXXXXXXXXXXXX'')),
         (js ''BRIDGE_BTC'', Str (js ''nUdogebridgebtcXXXXXXXXXXXXXWUG2kx'')),
         (js ''BRIDGE_LTC'', Str (js ''nUdogebridgeLtcXXXXXXXXXXXXXTsEz6W'')),
         (js ''EXPLORER'', Str (js ''ndonate3xHD56SnmmSxbjX7UMSPfN7XmVA''))]),
      (js ''genesis'', Obj
        [(js ''block'', Num (Fin 0)),
         (js ''ledgerHash'', Null),
         (js ''dumpHash'', Null),
         (js ''airdropPaths'', Arr []),
         (js ''airdropHashes'', Arr []),
         (js ''airdropAmounts'', Arr []),
         (js ''airdropSnapshotBlock'', Null),
         (js ''airdropSetHash'', Null)])]"

definition DOGE_regtest :: "jsval" where
  "DOGE_regtest =
    Obj
     [(js ''net'', Obj
        [(js ''messagePrefix'', Str (js (CHR 0x19 # ''Dogecoin Signed Message:'' @ [CHR 0x0A]))),
         (js ''bip32'', Obj [(js ''public'', Num (Fin 70617039)), (js ''private'', Num (Fin 70615956))]),
         (js ''pubKeyHash'', Num (Fin 111)),
         (js ''scriptHash'', Num (Fin 196)),
         (js ''wif'', Num (Fin 239)),
         (js ''dustThreshold'', Num (Fin 100000)),
         (js ''supportsSegwit'', Bool False),
         (js ''singleOpReturnPolicy'', Bool True)]),
      (js ''firstBlock'', Num (Fin 0)),
      (js ''chainGenesisHash'', Null),
      (js ''addresses'', Obj
        [(js ''BURN'', Str (js ''mvs8WdppEhzQLxfcYwrr1eoKA2nUFi55ff'')),
         (js ''GAS'', Str (js ''mgasDTdKu5DsbW97qSRnE8raAuYpKMfmhg'')),
         (js ''DONATE1'', Str (js ''mzdg8wGxgP3Jk45FuZPspumCL3Ruup37ob'')),
         (js ''DONATE2'', Str (js ''mmXU8RU7q3BUsyT66rtw1H6P7B2ZZd9c5Y'')),
         (js ''FEE_DESTINATION'', Str (js ''mfees5pa2HwNBonk5vG23aDWkN9fuDJib4'')),
         (js ''REWARD'', Str (js ''XXXXXXXXXXXXXXXXXXXXXXXXXXXXXXXXXX'')),
         (js ''BRIDGE_BTC'', Str (js ''mfdogebridgebtcXXXXXXXXXXXXXZ3agHN'')),
         (js ''BRIDGE_LTC'', Str (js ''mfdogebridgeLtcXXXXXXXXXXXXXXb2E4n'')),
         (js ''EXPLORER'', Str (js ''n1AvTJLLSA1NHamHd5KFj9mRn6BEcwnVbf''))]),
      (js ''genesis'', Obj
        [(js ''$envOverrides'', Obj
           [(js ''block'', Obj [(js ''env'', Str (js ''XCHAIN_GENESIS_BLOCK'')), (js ''type'', Str (js ''int'')), (js ''default'', Num (Fin 0))]),
            (js ''ledgerHash'', Obj [(js ''env'', Str (js ''XCHAIN_GENESIS_LEDGER_HASH'')), (js ''type'', Str (js ''str'')), (js ''default'', Null)]),
            (js ''dumpHash'', Obj [(js ''env'', Str (js ''XCHAIN_GENESIS_DUMP_HASH'')), (js ''type'', Str (js ''str'')), (js ''default'', Null)]),
            (js ''airdropPaths'', Obj [(js ''env'', Str (js ''GENESIS_AIRDROP_PATHS'')), (js ''type'', Str (js ''csv'')), (js ''default'', Arr [])]),
            (js ''airdropHashes'', Obj
              [(js ''env'', Str (js ''GENESIS_AIRDROP_HASHES'')),
               (js ''type'', Str (js ''csv_sparse'')),
               (js ''default'', Arr [])]),
            (js ''airdropAmounts'', Obj
              [(js ''env'', Str (js ''GENESIS_AIRDROP_AMOUNTS'')),
               (js ''type'', Str (js ''csv_sparse'')),
               (js ''default'', Arr [])]),
            (js ''airdropSnapshotBlock'', Obj
              [(js ''env'', Str (js ''GENESIS_AIRDROP_SNAPSHOT_BLOCK'')),
               (js ''type'', Str (js ''str'')),
               (js ''default'', Null)]),
            (js ''airdropSetHash'', Obj
              [(js ''env'', Str (js ''GENESIS_AIRDROP_SET_HASH'')),
               (js ''type'', Str (js ''str'')),
               (js ''default'', Null)])])])]"

definition DOGE_fees :: "(jstring \<times> jsval) list" where
  "DOGE_fees =
    [(js ''legacyFees'', Obj
       [(js ''ISSUANCE_FEE_TOKEN'', Str (js ''0.25000000'')),
        (js ''ISSUANCE_FEE_SUBTOKEN'', Str (js ''0.10000000'')),
        (js ''EXPIRATION_FEE_DEFAULT_DAYS'', Num (Fin 90)),
        (js ''EXPIRATION_FEE_FREE_DAYS'', Num (Fin 182)),
        (js ''EXPIRATION_FEE_PER_DAY'', Str (js ''0.00136986''))]),
     (js ''GAS_PRICE'', Str (js ''0.00001'')),
     (js ''UNIFIED_EXPIRATION_FEE_FREE_DAYS'', Num (Fin 90)),
     (js ''FEE_PAYMENT_MODE'', Str (js ''native'')),
     (js ''FEE_TOLERANCE_MIN'', Str (js ''0.95'')),
     (js ''FEE_TOLERANCE_MAX'', Str (js ''1.10'')),
     (js ''ORACLE_MAX_PRICE_AGE_SECONDS'', Num (Fin 1800)),
     (js ''ORACLE_MAX_PRICE_AGE_HOURLY_SECONDS'', Num (Fin 4500)),
     (js ''VALIDATOR_QUERY_LIMIT'', Num (Fin 1000))]"

definition DOGE_gas :: "jsval" where
  "DOGE_gas =
    Obj
     [(js ''ISSUE'', Num (Fin 100000)),
      (js ''ISSUE_SUBTOKEN'', Num (Fin 50000)),
      (js ''EXPIRATION_PER_DAY'', Num (Fin 550)),
      (js ''OWNERSHIP_ESCROW'', Num (Fin 50000)),
      (js ''AIRDROP_PER_RECIPIENT'', Num (Fin 100)),
      (js ''DIVIDEND_PER_RECIPIENT'', Num (Fin 100)),
      (js ''SWEEP_BASE'', Num (Fin 5000)),
      (js ''SWEEP_PER_ITEM'', Num (Fin 100)),
      (js ''CALLBACK_BASE'', Num (Fin 5000)),
      (js ''CALLBACK_PER_RECIPIENT'', Num (Fin 100)),
      (js ''XBRIDGE_BASE'', Num (Fin 5000)),
      (js ''LIST_SHARE'', Num (Fin 100000)),
      (js ''LIST_SHARED_EDIT_BASE'', Num (Fin 5000)),
      (js ''LIST_SHARED_EDIT_PER_ITEM'', Num (Fin 100)),
      (js ''BET_FEED_PER_DAY'', Num (Fin 550)),
      (js ''BET_PER_CREDIT'', Num (Fin 100)),
      (js ''VM_EXECUTE_BASE'', Num (Fin 1000)),
      (js ''VM_DEPLOY_BASE'', Num (Fin 100000)),
      (js ''VM_DEPLOY_PER_BYTE'', Num (Fin 10)),
      (js ''VM_STATE_READ'', Num (Fin 100)),
      (js ''VM_STATE_WRITE'', Num (Fin 200)),
      (js ''VM_STATE_DELETE'', Num (Fin 100)),
      (js ''VM_ORACLE_READ'', Num (Fin 100)),
      (js ''VM_CROSSCHAIN_READ'', Num (Fin 100)),
      (js ''VM_ATTEST_REQUEST'', Num (Fin 5000)),
      (js ''VM_XCALL_REQUEST'', Num (Fin 2000)),
      (js ''VM_XCALL_CALLBACK'', Num (Fin 20000)),
      (js ''VM_EMISSION'', Num (Fin 500)),
      (js ''VM_COMPUTATION'', Num (Fin 1)),
      (js ''VM_GUARD_GAS_CEILING'', Num (Fin 200000))]"

definition DOGE_rest :: "(jstring \<times> jsval) list" where
  "DOGE_rest =
    [(js ''STAKING'', Obj [(js ''COOLDOWN_BLOCKS'', Num (Fin 10080)), (js ''ACTIVATION_DELAY_BLOCKS'', Num (Fin 60)), (js ''CAPABILITIES'', Obj [])])]"

definition DOGE_file :: "jsval" where
  "DOGE_file =
    Obj
     (DOGE_identity @
      [(js ''networks'', Obj [(js ''mainnet'', DOGE_mainnet), (js ''testnet'', DOGE_testnet), (js ''regtest'', DOGE_regtest)])] @
      DOGE_fees @ [(js ''GAS_SCHEDULE'', DOGE_gas)] @ DOGE_rest)"

end
