(* ===== verification/CoinRegistry.thy ===== *)
theory CoinRegistry
  imports CoinData Json Compression "HOL-Library.List_Lexorder"
begin

text \<open>
  The coin registry, \<open>src/src/coins/index.js\<close> over the coin files: the resolved configuration of a coin on a network, the
  consensus subset and its hash, the pin check and the confirmation depths. The environment, the regtest sidecar file
  (none where it is missing, unreadable or not JSON), SHA-256 and the text of a number that is no integer are arguments.
  \<open>toLowerCase\<close> is that of ASCII text.
\<close>

section \<open>The registry\<close>

definition COIN_FILES :: "(jstring \<times> jsval) list" where
  "COIN_FILES = [(js ''BTC'', BTC_file), (js ''LTC'', LTC_file), (js ''DOGE'', DOGE_file)]"

definition ALLOWED_COINS :: "jstring list" where "ALLOWED_COINS = map fst COIN_FILES"
definition NETWORK_NAMES :: "jstring list" where "NETWORK_NAMES = map js [''mainnet'', ''testnet'', ''regtest'']"

definition COIN_FULL_NAME :: "(jstring \<times> jsval) list" where
  "COIN_FULL_NAME = map (\<lambda>(tick, coin). (tick, getProp coin ''fullName'')) COIN_FILES"

definition tickOfFullName :: "jsval \<Rightarrow> jstring option" where
  "tickOfFullName full = map_of (map (\<lambda>(tick, coin). (getProp coin ''fullName'', tick)) COIN_FILES) full"

definition DEFAULT_CONFIRMATIONS :: "(jstring \<times> jsval) list" where
  "DEFAULT_CONFIRMATIONS = map (\<lambda>(tick, coin). (tick, getProp coin ''confirmations'')) COIN_FILES"

definition WIRE_FORMAT :: "(jstring \<times> jsval) list" where
  "WIRE_FORMAT = map (\<lambda>(tick, coin). (tick, getProp coin ''wireFormat'')) COIN_FILES"

section \<open>Objects\<close>

text \<open>A property by a computed name, and \<open>Object.entries\<close>.\<close>

definition propOf :: "jsval \<Rightarrow> jstring \<Rightarrow> jsval" where
  "propOf v k = (case v of Obj fs \<Rightarrow> (case jm_get fs k of Some x \<Rightarrow> x | None \<Rightarrow> Undefined) | _ \<Rightarrow> Undefined)"

definition assign :: "jstring \<Rightarrow> jsval \<Rightarrow> jsval \<Rightarrow> jsval" where
  "assign k x v = (case v of Obj fs \<Rightarrow> Obj (jm_set k x fs) | _ \<Rightarrow> v)"

definition entries :: "jsval \<Rightarrow> (jstring \<times> jsval) list" where
  "entries v =
     (case v of
        Obj fs \<Rightarrow> fs
      | Arr vs \<Rightarrow> map (\<lambda>(i, x). (js (decimal i), x)) (enumerate 0 vs)
      | Str s \<Rightarrow> map (\<lambda>(i, u). (js (decimal i), Str [u])) (enumerate 0 s)
      | _ \<Rightarrow> [])"

text \<open>\<open>clone\<close> goes through JSON: the identity on the data of the coin files, an error on \<open>undefined\<close>.\<close>

definition clone :: "jsval \<Rightarrow> jsval result" where
  "clone v = (if v = Undefined then throw (InternalError ''undefined is not valid JSON'') else ok v)"

definition stripDescriptors :: "jsval \<Rightarrow> jsval" where
  "stripDescriptors v = Obj (filter (\<lambda>(k, _). \<not> (k \<noteq> [] \<and> hd k = 36)) (entries v))"

section \<open>Overrides from the environment\<close>

text \<open>\<open>undefined\<close> where the variable is absent or empty.\<close>

definition coerceEnv :: "jstring option \<Rightarrow> jsval \<Rightarrow> jsval" where
  "coerceEnv raw kind =
     (case raw of
        None \<Rightarrow> Undefined
      | Some s \<Rightarrow>
          if s = [] then Undefined
          else if kind = Str (js ''int'') then (case parseInt10 s of Fin r \<Rightarrow> Num (Fin r) | _ \<Rightarrow> Undefined)
          else if kind = Str (js ''csv_lower'') then Arr (map Str (filter (\<lambda>t. t \<noteq> []) (map (map lowerUnit \<circ> trim) (splitOn 44 s))))
          else if kind = Str (js ''csv'') then Arr (map Str (filter (\<lambda>t. t \<noteq> []) (map trim (splitOn 44 s))))
          else if kind = Str (js ''csv_sparse'') then Arr (map (Str \<circ> trim) (splitOn 44 s))
          else Str s)"

definition envNamed :: "(jstring \<Rightarrow> jstring option) \<Rightarrow> jsval \<Rightarrow> jstring option" where
  "envNamed env name = (case name of Str s \<Rightarrow> env s | _ \<Rightarrow> env (js ''undefined''))"

definition fromEnv :: "(jstring \<Rightarrow> jstring option) \<Rightarrow> jsval \<Rightarrow> jsval" where
  "fromEnv env desc = coerceEnv (envNamed env (getProp desc ''env'')) (getProp desc ''type'')"

definition resolveGenesis :: "(jstring \<Rightarrow> jstring option) \<Rightarrow> jsval \<Rightarrow> jstring \<Rightarrow> jsval" where
  "resolveGenesis env block netName =
     (if \<not> truthyVal block then Undefined
      else if truthyVal (getProp block ''$envOverrides'')
      then Obj (map (\<lambda>(k, desc).
             let v = (if netName = js ''regtest'' then fromEnv env desc else Undefined)
             in (k, if v \<noteq> Undefined then v else getProp desc ''default'')) (entries (getProp block ''$envOverrides'')))
      else stripDescriptors block)"

definition lowerVerifiers :: "jsval \<Rightarrow> jsval" where
  "lowerVerifiers out =
     (case getProp out ''GENESIS_VERIFIERS'' of
        Arr vs \<Rightarrow> setProp ''GENESIS_VERIFIERS'' (Arr (map (\<lambda>v. case v of Str s \<Rightarrow> Str (map lowerUnit s) | _ \<Rightarrow> v) vs)) out
      | _ \<Rightarrow> out)"

definition resolveFullnode :: "(jstring \<Rightarrow> jstring option) \<Rightarrow> (jsval \<Rightarrow> jsval option) \<Rightarrow> jsval \<Rightarrow> jstring \<Rightarrow> jsval" where
  "resolveFullnode env sidecar fullnode netName =
     (if \<not> truthyVal fullnode then Undefined
      else let out = lowerVerifiers (stripDescriptors fullnode)
      in if netName \<noteq> js ''regtest'' then out
         else let out = (if truthyVal (getProp fullnode ''$regtestSidecar'')
                then (case sidecar (getProp fullnode ''$regtestSidecar'') of
                        Some j \<Rightarrow> fold (\<lambda>(k, x). assign k x) (entries j) out | None \<Rightarrow> out) else out)
         in fold (\<lambda>(k, desc) out. let v = fromEnv env desc in if v \<noteq> Undefined then assign k v out else out)
              (entries (getProp fullnode ''$regtestEnvOverrides'')) out)"

definition resolveFeeDestination :: "(jstring \<Rightarrow> jstring option) \<Rightarrow> jstring \<Rightarrow> jstring \<Rightarrow> jsval \<Rightarrow> jsval" where
  "resolveFeeDestination env tick netName defaultAddr =
     (let override = env (js ''XCHAIN_FEE_DESTINATION_'' @ tick @ 95 # toUpper netName)
      in case override of
           None \<Rightarrow> defaultAddr
         | Some o' \<Rightarrow> if o' = [] then defaultAddr else if netName \<noteq> js ''regtest'' then defaultAddr else Str o')"

section \<open>The resolved configuration\<close>

definition COIN_LEVEL_FIELDS :: "string list" where
  "COIN_LEVEL_FIELDS = [''GAS_PRICE'', ''UNIFIED_EXPIRATION_FEE_FREE_DAYS'', ''FEE_PAYMENT_MODE'', ''FEE_TOLERANCE_MIN'', ''FEE_TOLERANCE_MAX'',
     ''ORACLE_MAX_PRICE_AGE_SECONDS'', ''ORACLE_MAX_PRICE_AGE_HOURLY_SECONDS'', ''VALIDATOR_QUERY_LIMIT'']"

definition IDENTITY_FIELDS :: "string list" where
  "IDENTITY_FIELDS = [''tick'', ''fullName'', ''displayName'', ''site'', ''decimals'', ''confirmations'', ''wireFormat'']"

definition copied :: "jsval \<Rightarrow> string list \<Rightarrow> (jstring \<times> jsval) list" where
  "copied src ks = map (\<lambda>k. (js k, getProp src k)) ks"

definition getCoinConfig :: "(jstring \<Rightarrow> jstring option) \<Rightarrow> (jsval \<Rightarrow> jsval option) \<Rightarrow> jstring \<Rightarrow> jstring \<Rightarrow> jsval result" where
  "getCoinConfig env sidecar tick netName =
     (case map_of COIN_FILES tick of
        None \<Rightarrow> throw (InternalError ''Unknown coin'')
      | Some src \<Rightarrow>
          andThen (refuseIf (netName \<notin> set NETWORK_NAMES) (InternalError ''Unknown network'')) (\<lambda>_.
          let netBlock = propOf (getProp src ''networks'') netName
          in andThen (refuseIf (\<not> truthyVal netBlock) (InternalError ''Coin has no such network'')) (\<lambda>_.
             andThen (clone (getProp netBlock ''addresses'')) (\<lambda>addresses.
             andThen (clone (getProp netBlock ''net'')) (\<lambda>netParams.
             andThen (clone (getProp src ''legacyFees'')) (\<lambda>legacyFees.
             andThen (clone (getProp src ''GAS_SCHEDULE'')) (\<lambda>gas.
             andThen (clone (getProp src ''STAKING'')) (\<lambda>staking.
             let fn = resolveFullnode env sidecar (getProp src ''FULLNODE'') netName
             in ok (Obj (copied src IDENTITY_FIELDS @
                  [(js ''network'', Str netName), (js ''net'', netParams), (js ''firstBlock'', getProp netBlock ''firstBlock''),
                   (js ''chainGenesisHash'', if isNullish (getProp netBlock ''chainGenesisHash'') then Null else getProp netBlock ''chainGenesisHash''),
                   (js ''addresses'', setProp ''FEE_DESTINATION'' (resolveFeeDestination env tick netName (getProp addresses ''FEE_DESTINATION'')) addresses),
                   (js ''genesis'', resolveGenesis env (getProp netBlock ''genesis'') netName), (js ''legacyFees'', legacyFees)] @
                  copied src COIN_LEVEL_FIELDS @ [(js ''GAS_SCHEDULE'', gas), (js ''STAKING'', staking)] @
                  (if truthyVal (getProp src ''CONFIG_SLASH'') then [(js ''CONFIG_SLASH'', getProp src ''CONFIG_SLASH'')] else []) @
                  (if truthyVal fn then [(js ''FULLNODE'', fn)] else [])))))))))))"

definition getCoinConfigByFullName :: "(jstring \<Rightarrow> jstring option) \<Rightarrow> (jsval \<Rightarrow> jsval option) \<Rightarrow> jsval \<Rightarrow> jstring \<Rightarrow> jsval result" where
  "getCoinConfigByFullName env sidecar fullName netName =
     (case tickOfFullName fullName of
        None \<Rightarrow> throw (InternalError ''Unknown coin full name'')
      | Some tick \<Rightarrow> getCoinConfig env sidecar tick netName)"

section \<open>Canonical text\<close>

text \<open>\<open>JSON.stringify\<close> of a number; \<open>undefined\<close> becomes the word in an object and nothing in an array. A \<open>BigInt\<close> is refused.\<close>

definition numberText :: "(rat \<Rightarrow> jstring) \<Rightarrow> jsnum \<Rightarrow> jstring" where
  "numberText shown n =
     (case n of
        Fin r \<Rightarrow> if isInteger (Fin r) \<and> \<bar>r\<bar> < 10 ^ 21 then (if r < 0 then [45] else []) @ js (decimal (nat \<bar>\<lfloor>r\<rfloor>\<bar>)) else shown r
      | _ \<Rightarrow> js ''null'')"

definition unitsOf :: "jstring \<Rightarrow> nat list" where "unitsOf k = map unat k"

fun canonicalText :: "(rat \<Rightarrow> jstring) \<Rightarrow> jsval \<Rightarrow> jstring" where
  "canonicalText shown Undefined = js ''undefined''"
| "canonicalText shown Null = js ''null''"
| "canonicalText shown (Bool b) = js (if b then ''true'' else ''false'')"
| "canonicalText shown (Num n) = numberText shown n"
| "canonicalText shown (BigInt i) = []"
| "canonicalText shown (Str s) = jsonQuote s"
| "canonicalText shown (Arr vs) = 91 # joinWith 44 (map (\<lambda>v. if v = Undefined then [] else canonicalText shown v) vs) @ [93]"
| "canonicalText shown (Obj fs) =
     123 # joinWith 44 (map (\<lambda>(k, t). jsonQuote k @ 58 # t) (sort_key (unitsOf \<circ> fst) (map (\<lambda>(k, v). (k, canonicalText shown v)) fs))) @ [125]"

fun hasBigInt :: "jsval \<Rightarrow> bool" where
  "hasBigInt (BigInt i) = True"
| "hasBigInt (Arr vs) = list_ex hasBigInt vs"
| "hasBigInt (Obj fs) = list_ex (\<lambda>(k, v). hasBigInt v) fs"
| "hasBigInt v = False"

definition canonicalJson :: "(rat \<Rightarrow> jstring) \<Rightarrow> jsval \<Rightarrow> jstring result" where
  "canonicalJson shown v =
     (if hasBigInt v then throw (InternalError ''Do not know how to serialize a BigInt'') else ok (canonicalText shown v))"

section \<open>The consensus subset and its pin\<close>

definition consensusSubset :: "jstring \<Rightarrow> jstring \<Rightarrow> jsval result" where
  "consensusSubset tick netName =
     (case map_of COIN_FILES tick of
        None \<Rightarrow> throw (InternalError ''Unknown coin'')
      | Some coin \<Rightarrow>
          (let netBlock = propOf (getProp coin ''networks'') netName;
               roles = (if truthyVal (getProp coin ''DISPLAY_ONLY_ADDRESS_ROLES'') then map snd (entries (getProp coin ''DISPLAY_ONLY_ADDRESS_ROLES''))
                        else [Str (js ''EXPLORER'')]);
               addresses = Obj (filter (\<lambda>(k, _). Str k \<notin> set roles) (entries (getProp netBlock ''addresses'')))
           in if \<not> truthyVal netBlock then throw (InternalError ''Coin has no such network'')
              else ok (Obj ([(js ''net'', getProp netBlock ''net''), (js ''wireFormat'', getProp coin ''wireFormat''),
                     (js ''firstBlock'', getProp netBlock ''firstBlock''), (js ''addresses'', addresses)] @
                   copied coin [''legacyFees'', ''GAS_PRICE'', ''UNIFIED_EXPIRATION_FEE_FREE_DAYS'', ''FEE_TOLERANCE_MIN'', ''FEE_TOLERANCE_MAX'',
                     ''ORACLE_MAX_PRICE_AGE_SECONDS'', ''ORACLE_MAX_PRICE_AGE_HOURLY_SECONDS'', ''VALIDATOR_QUERY_LIMIT'', ''GAS_SCHEDULE'', ''STAKING''] @
                   (if truthyVal (getProp coin ''CONFIG_SLASH'') then [(js ''CONFIG_SLASH'', getProp coin ''CONFIG_SLASH'')] else []) @
                   (if truthyVal (getProp coin ''FULLNODE'') then [(js ''FULLNODE'', stripDescriptors (getProp coin ''FULLNODE''))] else [])))))"

text \<open>\<open>sha256\<close> is the hexadecimal digest of bytes.\<close>

definition consensusHash :: "(rat \<Rightarrow> jstring) \<Rightarrow> (Buffer \<Rightarrow> jstring) \<Rightarrow> jstring \<Rightarrow> jstring \<Rightarrow> jstring result" where
  "consensusHash shown sha256 tick netName =
     andThen (consensusSubset tick netName) (\<lambda>subset. andThen (canonicalJson shown subset) (\<lambda>t. ok (sha256 (utf8 t))))"

fun consensusHashes :: "(jstring \<Rightarrow> jstring result) \<Rightarrow> jstring list \<Rightarrow> (jstring \<times> jstring) list result" where
  "consensusHashes hashOf [] = ok []"
| "consensusHashes hashOf (tick # ticks) =
     andThen (hashOf tick) (\<lambda>h. andThen (consensusHashes hashOf ticks) (\<lambda>hs. ok ((tick, h) # hs)))"

definition CONSENSUS_CONFIG_PIN :: "(jstring \<times> (jstring \<times> jstring) list option) list" where
  "CONSENSUS_CONFIG_PIN =
     [(js ''mainnet'', None),
      (js ''testnet'', Some
        [(js ''BTC'', js ''3e0083d555399e54eff2670a0ea5e8d76c8935d3e7423451c1221ae698386b5a''),
         (js ''LTC'', js ''d9c315b36adf5ab8bd6831ccc59a2a01124df70ba9fc8141662ec682285251e8''),
         (js ''DOGE'', js ''82c6bc814e3de4a1e023d008457b7186c5a6ac142c85be9bf0a18f2d5989fd72'')]),
      (js ''regtest'', Some
        [(js ''BTC'', js ''ad800ecb8d28448f9d39743bd3a28e6aac121d0e9add30743ee1dcbbf694af86''),
         (js ''LTC'', js ''16dd43ca2299880704e076e5f7c262eae6b5e32823ad49c9748c33f014f44c36''),
         (js ''DOGE'', js ''d7bd53f527d961f1cf0cfc7de725d61e625975f7086532976c777a04c08988f6'')])]"

text \<open>The check of one coin, and the whole one: whether it was skipped.\<close>

definition pinHolds :: "(rat \<Rightarrow> jstring) \<Rightarrow> (Buffer \<Rightarrow> jstring) \<Rightarrow> (jstring \<times> jstring) list \<Rightarrow> jstring \<Rightarrow> jstring \<Rightarrow> unit result" where
  "pinHolds shown sha256 pin netName tick =
     (case map_of pin tick of
        None \<Rightarrow> ok ()
      | Some expected \<Rightarrow>
          if expected = [] then ok ()
          else andThen (consensusHash shown sha256 tick netName) (\<lambda>actual.
            refuseIf (actual \<noteq> map lowerUnit expected) (InternalError ''CONSENSUS CONFIG PIN MISMATCH'')))"

definition verifyConsensusPin :: "(rat \<Rightarrow> jstring) \<Rightarrow> (Buffer \<Rightarrow> jstring) \<Rightarrow> jstring \<Rightarrow> bool result" where
  "verifyConsensusPin shown sha256 netName =
     (case map_of CONSENSUS_CONFIG_PIN netName of
        Some (Some pin) \<Rightarrow> andThen (forEach (pinHolds shown sha256 pin netName) ALLOWED_COINS) (\<lambda>_. ok False)
      | _ \<Rightarrow> ok True)"

section \<open>Confirmations\<close>

definition parseIntOf :: "(jsval \<Rightarrow> jstring) \<Rightarrow> jsval \<Rightarrow> jsnum" where
  "parseIntOf textOf v = parseInt10 (stringOf textOf v)"

definition orNumber :: "jsnum \<Rightarrow> jsnum \<Rightarrow> jsnum" where
  "orNumber a b = (if a = NaN \<or> a = Fin 0 then b else a)"

definition numberOf :: "jsval \<Rightarrow> jsnum" where
  "numberOf v = (case v of Num n \<Rightarrow> n | _ \<Rightarrow> NaN)"

text \<open>The depth of one coin whose default is the number \<open>depth\<close>.\<close>

definition confirmationsOf :: "(jsval \<Rightarrow> jstring) \<Rightarrow> (jstring \<Rightarrow> jstring option) \<Rightarrow> jsval \<Rightarrow> jstring \<Rightarrow> jstring \<Rightarrow> rat \<Rightarrow> rat" where
  "confirmationsOf textOf env cfg netName tick depth =
     (let key = js ''XCHAIN_CONFIRMATIONS_'' @ tick;
          val = orNumber (case env key of Some s \<Rightarrow> parseInt10 s | None \<Rightarrow> NaN) (orNumber (parseIntOf textOf (propOf cfg key)) (Fin depth));
          val = (case val of Fin r \<Rightarrow> if r \<le> 0 then depth else r | _ \<Rightarrow> depth)
      in if (netName = js ''mainnet'' \<or> netName = js ''testnet'') \<and> val < depth then depth else val)"

definition resolveConfirmations :: "(jsval \<Rightarrow> jstring) \<Rightarrow> (jstring \<Rightarrow> jstring option) \<Rightarrow> jsval \<Rightarrow> jstring \<Rightarrow> (jstring \<times> jsval) list" where
  "resolveConfirmations textOf env cfg netName =
     map (\<lambda>(tick, d). (tick, case d of Num (Fin depth) \<Rightarrow> Num (Fin (confirmationsOf textOf env cfg netName tick depth)) | _ \<Rightarrow> d)) DEFAULT_CONFIRMATIONS"

end
