(* ===== verification/CoinRegistryProperties.thy ===== *)
theory CoinRegistryProperties
  imports CoinRegistry InstanceLockFacts
begin

text \<open>
  What the coin registry promises: off regtest the environment moves nothing and what is served is what the pin covers,
  depths only rise, and two configurations have one canonical text exactly when they are the same data.
\<close>

section \<open>Canonical text reads back\<close>

text \<open>JSON data as the coin files hold it: natural numbers a double holds exactly, and names that differ.\<close>

fun plainJson :: "jsval \<Rightarrow> bool" where
  "plainJson Null = True"
| "plainJson (Bool b) = True"
| "plainJson (Num (Fin r)) = (isInteger (Fin r) \<and> 0 \<le> r \<and> r \<le> of_int MAX_SAFE_INTEGER)"
| "plainJson (Str s) = True"
| "plainJson (Arr vs) = list_all plainJson vs"
| "plainJson (Obj fs) = (distinct (map fst fs) \<and> list_all (\<lambda>(k, v). plainJson v) fs)"
| "plainJson v = False"

text \<open>The same data with every object's names in order.\<close>

fun sortKeys :: "jsval \<Rightarrow> jsval" where
  "sortKeys (Arr vs) = Arr (map sortKeys vs)"
| "sortKeys (Obj fs) = Obj (sort_key (unitsOf \<circ> fst) (map (\<lambda>(k, v). (k, sortKeys v)) fs))"
| "sortKeys v = v"

lemma insort_key_map: "insort_key f (g x) (map g xs) = map g (insort_key (f \<circ> g) x xs)"
  by (induction xs) simp_all

lemma sort_key_map: "sort_key f (map g xs) = map g (sort_key (f \<circ> g) xs)"
  by (induction xs) (simp_all add: insort_key_map comp_def)

lemma sort_entries: "sort_key (unitsOf \<circ> fst) (map (\<lambda>(k, v). (k, h v)) fs) = map (\<lambda>(k, v). (k, h v)) (sort_key (unitsOf \<circ> fst) fs)"
proof -
  have "(unitsOf \<circ> fst) \<circ> (\<lambda>(k, v). (k, h v)) = unitsOf \<circ> fst" by (auto simp: fun_eq_iff)
  then show ?thesis by (simp only: sort_key_map)
qed

definition ends :: "jstring \<Rightarrow> bool" where "ends r \<longleftrightarrow> r = [] \<or> hd r = 44 \<or> hd r = 93 \<or> hd r = 125"

definition reads :: "jsval \<Rightarrow> jstring \<Rightarrow> bool" where
  "reads v t \<longleftrightarrow> (\<exists>m. \<forall>n \<ge> m. \<forall>r. ends r \<longrightarrow> jsonValue n (t @ r) = Some (v, r))"

definition opens :: "jstring \<Rightarrow> bool" where
  "opens t \<longleftrightarrow> (\<exists>u s. t = u # s \<and> \<not> isJsonSpace u \<and> unat u \<noteq> 93)"

lemma readsI: "(\<And>k r. ends r \<Longrightarrow> jsonValue (Suc k) (t @ r) = Some (v, r)) \<Longrightarrow> reads v t"
  unfolding reads_def by (rule exI [of _ 1]) (auto simp: Suc_le_eq gr0_conv_Suc)

lemma number_text:
  assumes "plainJson (Num (Fin q))"
  obtains n where "q = of_nat n" "int n \<le> MAX_SAFE_INTEGER" "numberText shown (Fin q) = js (decimal n)"
proof -
  have "of_int \<lfloor>q\<rfloor> = q" using assms by simp
  then obtain i where i: "q = of_int i" by metis
  have "0 \<le> i" "i \<le> MAX_SAFE_INTEGER" using assms i by simp_all
  moreover have "\<bar>q\<bar> < 10 ^ 21"
  proof -
    have "of_int i < (of_int (10 ^ 21) :: rat)" using \<open>i \<le> MAX_SAFE_INTEGER\<close> by (subst of_int_less_iff) (simp add: MAX_SAFE_INTEGER_def)
    then show ?thesis using i \<open>0 \<le> i\<close> by simp
  qed
  ultimately show thesis using that [of "nat i"] assms i by (simp add: numberText_def)
qed

lemma reads_number:
  assumes "int n \<le> MAX_SAFE_INTEGER"
  shows "reads (Num (Fin (of_nat n))) (js (decimal n))" "opens (js (decimal n))"
proof -
  have d: "list_all isDigit (js (decimal n))" "digitsValue (js (decimal n)) = n" "decimal n \<noteq> []" using decimal_digits by blast+
  have first: "\<exists>u s. js (decimal n) = u # s \<and> isDigit u" using d(1,3) by (cases "js (decimal n)") simp_all
  have num: "js_Number_rat (of_nat n) = Fin (of_nat n)"
    using number_rat_small [of n] assms by (cases "n = 0") (simp_all add: js_Number_rat_def rhe_def)
  have lead: "\<not> (1 < length (js (decimal n)) \<and> unat (hd (js (decimal n))) = 48)"
  proof (cases "n = 0")
    case True
    then show ?thesis by (subst decimal.simps) simp
  next
    case False
    then obtain c s where "decimal n = c # s" "48 < (of_char c :: nat)" using decimal_leads [of n] by blast
    then show ?thesis by simp
  qed
  have "jsonNumber (js (decimal n) @ r) = Some (Num (Fin (of_nat n)), r)" if r: "ends r" for r
  proof -
    have nd: "r = [] \<or> \<not> isDigit (hd r)" using r by (auto simp: ends_def isDigit_def)
    obtain u t where u: "js (decimal n) = u # t" "isDigit u" using first by blast
    have "unsign (js (decimal n) @ r) = js (decimal n) @ r" using u by (simp add: unsign_def isDigit_def)
    moreover have "jsonFraction r = Some ([], r)" "jsonExponent r = Some (0, r)"
      using r by (auto simp: ends_def jsonFraction_def jsonExponent_def split: list.split)
    ultimately show ?thesis using takeWhile_digits [OF nd, of n] lead d num u
      by (simp add: jsonNumber_def Let_def del: js_simps)
  qed
  then show "reads (Num (Fin (of_nat n))) (js (decimal n))"
  proof (intro readsI)
    fix k r
    assume num: "\<And>r. ends r \<Longrightarrow> jsonNumber (js (decimal n) @ r) = Some (Num (Fin (of_nat n)), r)" and r: "ends r"
    obtain u t where u: "js (decimal n) = u # t" "isDigit u" using first by blast
    have "u \<noteq> of_nat (of_char CHR ''t'')" "u \<noteq> of_nat (of_char CHR ''f'')" "u \<noteq> of_nat (of_char CHR ''n'')"
      using u(2) by (auto simp: isDigit_def)
    then have "jsonWord (u # t @ r) = Some (Num (Fin (of_nat n)), r)" using num [OF r] u(1) by (simp add: jsonWord_def)
    then show "jsonValue (Suc k) (js (decimal n) @ r) = Some (Num (Fin (of_nat n)), r)"
      using u by (simp add: skipSpace_def isJsonSpace_def isDigit_def)
  qed
  show "opens (js (decimal n))" using first by (auto simp: opens_def isDigit_def isJsonSpace_def)
qed

lemma reads_string: "reads (Str s) (jsonQuote s)" "opens (jsonQuote s)"
  by (auto intro!: readsI simp: jsonQuote_def skipSpace_def isJsonSpace_def quoted_reads opens_def)

lemma reads_word: "reads Null (js ''null'')" "reads (Bool b) (js (if b then ''true'' else ''false''))"
  "opens (js ''null'')" "opens (js (if b then ''true'' else ''false''))"
  by (auto intro!: readsI simp: skipSpace_def isJsonSpace_def jsonWord_def opens_def)


lemma reads_elements:
  assumes "vs \<noteq> []" "\<forall>v \<in> set vs. reads (sv v) (tx v)"
  shows "\<exists>m. \<forall>n \<ge> m. \<forall>acc r. jsonElements n (joinWith 44 (map tx vs) @ 93 # r) acc = Some (Arr (acc @ map sv vs), r)"
  using assms
proof (induction vs rule: list_nonempty_induct)
  case (single v)
  then obtain m where m: "\<And>n r. m \<le> n \<Longrightarrow> ends r \<Longrightarrow> jsonValue n (tx v @ r) = Some (sv v, r)" by (auto simp: reads_def)
  have "jsonElements n (tx v @ 93 # r) acc = Some (Arr (acc @ [sv v]), r)" if "Suc m \<le> n" for n acc r
    using that m [of "n - 1" "93 # r"] by (cases n) (simp_all add: ends_def skipSpace_def isJsonSpace_def)
  then show ?case by auto
next
  case (cons v vs)
  then have "reads (sv v) (tx v)" by simp
  then obtain m where m: "\<And>n r. m \<le> n \<Longrightarrow> ends r \<Longrightarrow> jsonValue n (tx v @ r) = Some (sv v, r)" by (auto simp: reads_def)
  from cons obtain m' where m': "\<And>n acc r. m' \<le> n \<Longrightarrow> jsonElements n (joinWith 44 (map tx vs) @ 93 # r) acc = Some (Arr (acc @ map sv vs), r)"
    by auto
  have j: "joinWith 44 (tx v # map tx vs) = tx v @ 44 # joinWith 44 (map tx vs)" using cons(1) by (cases vs) simp_all
  have "jsonElements n (joinWith 44 (map tx (v # vs)) @ 93 # r) acc = Some (Arr (acc @ map sv (v # vs)), r)" if "Suc (max m m') \<le> n" for n acc r
    using that m [of "n - 1" "44 # joinWith 44 (map tx vs) @ 93 # r"] m' [of "n - 1" r "acc @ [sv v]"]
    by (cases n) (simp_all add: j ends_def skipSpace_def isJsonSpace_def)
  then show ?case by blast
qed

lemma jm_set_new: "k \<notin> set (map fst fs) \<Longrightarrow> jm_set k v fs = fs @ [(k, v)]"
  unfolding jm_set_def by (induction fs) auto

lemma reads_members:
  assumes "fs \<noteq> []" "distinct (map fst fs)" "\<forall>(k, v) \<in> set fs. reads (sv v) (tx v)"
  shows "\<exists>m. \<forall>n \<ge> m. \<forall>acc r. set (map fst acc) \<inter> set (map fst fs) = {} \<longrightarrow>
     jsonMembers n (joinWith 44 (map (\<lambda>(k, v). jsonQuote k @ 58 # tx v) fs) @ 125 # r) acc = Some (Obj (acc @ map (\<lambda>(k, v). (k, sv v)) fs), r)"
  using assms
proof (induction fs rule: list_nonempty_induct)
  case (single x)
  obtain k v where x: "x = (k, v)" by force
  from single x obtain m where m: "\<And>n r. m \<le> n \<Longrightarrow> ends r \<Longrightarrow> jsonValue n (tx v @ r) = Some (sv v, r)" by (auto simp: reads_def)
  have "jsonMembers n (jsonQuote k @ 58 # tx v @ 125 # r) acc = Some (Obj (acc @ [(k, sv v)]), r)"
    if "Suc m \<le> n" "k \<notin> set (map fst acc)" for n acc r
    using that m [of "n - 1" "125 # r"]
    by (cases n) (simp_all add: ends_def skipSpace_def isJsonSpace_def jsonQuote_def quoted_reads jm_set_new)
  then show ?case by (intro exI [of _ "Suc m"]) (simp add: x)
next
  case (cons x fs)
  obtain k v where x: "x = (k, v)" by force
  have "reads (sv v) (tx v)" using cons.prems x by simp
  then obtain m where m: "\<And>n r. m \<le> n \<Longrightarrow> ends r \<Longrightarrow> jsonValue n (tx v @ r) = Some (sv v, r)" by (auto simp: reads_def)
  define t where "t = joinWith 44 (map (\<lambda>(k, v). jsonQuote k @ 58 # tx v) fs)"
  have "distinct (map fst fs)" "\<forall>(k, v) \<in> set fs. reads (sv v) (tx v)" using cons.prems by auto
  from cons.IH [OF this] obtain m' where m': "\<And>n acc r. m' \<le> n \<Longrightarrow> set (map fst acc) \<inter> set (map fst fs) = {} \<Longrightarrow>
      jsonMembers n (t @ 125 # r) acc = Some (Obj (acc @ map (\<lambda>(k, v). (k, sv v)) fs), r)" unfolding t_def by blast
  have j: "joinWith 44 (map (\<lambda>(k, v). jsonQuote k @ 58 # tx v) (x # fs)) = jsonQuote k @ 58 # tx v @ 44 # t"
    using cons(1) by (cases fs) (simp_all add: x t_def)
  have "jsonMembers n ((jsonQuote k @ 58 # tx v @ 44 # t) @ 125 # r) acc = Some (Obj (acc @ map (\<lambda>(k, v). (k, sv v)) (x # fs)), r)"
    if "Suc (max m m') \<le> n" "set (map fst acc) \<inter> set (map fst (x # fs)) = {}" for n acc r
  proof -
    have d: "k \<notin> set (map fst acc)" "set (map fst (acc @ [(k, sv v)])) \<inter> set (map fst fs) = {}"
      using that(2) cons.prems(1) by (auto simp: x)
    then show ?thesis using that(1) m [of "n - 1" "44 # t @ 125 # r"] m' [of "n - 1" "acc @ [(k, sv v)]" r]
      by (cases n) (simp_all add: x ends_def skipSpace_def isJsonSpace_def jsonQuote_def quoted_reads jm_set_new)
  qed
  then show ?case unfolding j by blast
qed

lemma canonical_Obj: "canonicalText shown (Obj fs) =
     123 # joinWith 44 (map (\<lambda>(k, v). jsonQuote k @ 58 # canonicalText shown v) (sort_key (unitsOf \<circ> fst) fs)) @ [125]"
  unfolding canonicalText.simps sort_entries by (simp add: case_prod_unfold comp_def)

lemma sortKeys_Obj: "sortKeys (Obj fs) = Obj (map (\<lambda>(k, v). (k, sortKeys v)) (sort_key (unitsOf \<circ> fst) fs))"
  by (simp only: sortKeys.simps sort_entries)

lemma reads_canonical: "plainJson v \<Longrightarrow> reads (sortKeys v) (canonicalText shown v) \<and> opens (canonicalText shown v)"
proof (induction v)
  case (Num n)
  then obtain q where q: "n = Fin q" by (cases n) simp_all
  then obtain i where "q = of_nat i" "int i \<le> MAX_SAFE_INTEGER" "numberText shown (Fin q) = js (decimal i)"
    using number_text [of q shown] Num by blast
  then show ?case using reads_number [of i] q by simp
next
  case (Arr vs)
  have opens: "opens (canonicalText shown (Arr vs))" by (simp add: opens_def isJsonSpace_def)
  have texts: "map (\<lambda>v. if v = Undefined then [] else canonicalText shown v) vs = map (canonicalText shown) vs"
    using Arr.prems by (auto simp: list_all_iff)
  show ?case
  proof (cases "vs = []")
    case True
    then show ?thesis using opens by (auto intro!: readsI simp: skipSpace_def isJsonSpace_def)
  next
    case False
    have "\<forall>v \<in> set vs. reads (sortKeys v) (canonicalText shown v)" using Arr by (auto simp: list_all_iff)
    from reads_elements [OF False this] obtain m where m: "\<And>n acc r. m \<le> n \<Longrightarrow>
        jsonElements n (joinWith 44 (map (canonicalText shown) vs) @ 93 # r) acc = Some (Arr (acc @ map sortKeys vs), r)" by auto
    obtain v ws where v: "vs = v # ws" using False by (cases vs) simp_all
    then have "opens (canonicalText shown v)" using Arr.IH [of v] Arr.prems by simp
    then obtain u s where u: "canonicalText shown v = u # s" "\<not> isJsonSpace u" "unat u \<noteq> 93" by (auto simp: opens_def)
    obtain s' where s': "joinWith 44 (map (canonicalText shown) vs) = u # s'" using u(1) by (simp only: v list.map joinWith_Cons) simp
    have "jsonValue n (canonicalText shown (Arr vs) @ r) = Some (sortKeys (Arr vs), r)" if "Suc m \<le> n" for n r
      using that m [of "n - 1" r "[]"] u(2,3)
      by (cases n) (simp_all add: texts s' skipSpace_def isJsonSpace_def)
    then show ?thesis using opens unfolding reads_def by blast
  qed
next
  case (Obj fs)
  have opens: "opens (canonicalText shown (Obj fs))" by (simp add: opens_def isJsonSpace_def)
  let ?gs = "sort_key (unitsOf \<circ> fst) fs"
  show ?case
  proof (cases "fs = []")
    case True
    then show ?thesis using opens by (auto intro!: readsI simp: skipSpace_def isJsonSpace_def)
  next
    case False
    have "?gs \<noteq> []" using False by (metis set_empty set_sort)
    moreover have "distinct (map fst ?gs)" using Obj.prems by (metis distinct_map distinct_sort plainJson.simps(6) set_sort)
    moreover have "\<forall>(k, v) \<in> set ?gs. reads (sortKeys v) (canonicalText shown v)" using Obj by (fastforce simp: list_all_iff)
    ultimately obtain m where m: "\<And>n acc r. m \<le> n \<Longrightarrow> set (map fst acc) \<inter> set (map fst ?gs) = {} \<Longrightarrow>
        jsonMembers n (joinWith 44 (map (\<lambda>(k, v). jsonQuote k @ 58 # canonicalText shown v) ?gs) @ 125 # r) acc =
        Some (Obj (acc @ map (\<lambda>(k, v). (k, sortKeys v)) ?gs), r)"
      using reads_members [of ?gs sortKeys "canonicalText shown"] by blast
    obtain k v hs where g: "?gs = (k, v) # hs" using \<open>?gs \<noteq> []\<close> by (cases ?gs) auto
    obtain s' where s': "joinWith 44 (map (\<lambda>(k, v). jsonQuote k @ 58 # canonicalText shown v) ?gs) = 34 # s'"
      by (simp only: g list.map joinWith_Cons) (simp add: jsonQuote_def)
    have "jsonValue n (canonicalText shown (Obj fs) @ r) = Some (sortKeys (Obj fs), r)" if "Suc m \<le> n" for n r
      using that m [of "n - 1" "[]" r] unfolding canonical_Obj sortKeys_Obj s'
      by (cases n) (simp_all add: skipSpace_def isJsonSpace_def)
    then show ?thesis using opens unfolding reads_def by blast
  qed
qed (simp_all add: reads_word reads_string del: js_simps)

lemma canonical_parses: "plainJson v \<Longrightarrow> jsonParse (canonicalText shown v) = Some (sortKeys v)"
proof -
  let ?t = "canonicalText shown v"
  assume "plainJson v"
  then obtain m where m: "\<And>n r. m \<le> n \<Longrightarrow> ends r \<Longrightarrow> jsonValue n (?t @ r) = Some (sortKeys v, r)"
    using reads_canonical [of v shown] by (auto simp: reads_def)
  have "jsonValue (max m (2 * length ?t + 1)) ?t = Some (sortKeys v, [])" using m [of "max m (2 * length ?t + 1)" "[]"] by (simp add: ends_def)
  then show ?thesis using jsonParse_fuel [of ?t "max m (2 * length ?t + 1)"] by (simp add: skipSpace_def)
qed

lemma canonical_sorted: "canonicalText shown (sortKeys v) = canonicalText shown v"
proof (induction v)
  case (Arr vs)
  have "sortKeys v = Undefined \<longleftrightarrow> v = Undefined" for v by (cases v) simp_all
  then show ?case using Arr by (auto intro!: arg_cong [of _ _ "joinWith 44"] map_cong)
next
  case (Obj fs)
  let ?gs = "sort_key (unitsOf \<circ> fst) fs"
  have "sort_key (unitsOf \<circ> fst) ?gs = ?gs" by (rule sort_key_id_if_sorted) (rule sorted_sort_key)
  then have "sort_key (unitsOf \<circ> fst) (map (\<lambda>(k, v). (k, sortKeys v)) ?gs) = map (\<lambda>(k, v). (k, sortKeys v)) ?gs"
    by (simp only: sort_entries)
  moreover have "map (\<lambda>(k, v). jsonQuote k @ 58 # canonicalText shown v) (map (\<lambda>(k, v). (k, sortKeys v)) ?gs) =
      map (\<lambda>(k, v). jsonQuote k @ 58 # canonicalText shown v) ?gs" using Obj by fastforce
  ultimately show ?case by (simp only: sortKeys_Obj canonical_Obj)
qed simp_all

lemma plain_has_no_BigInt: "plainJson v \<Longrightarrow> \<not> hasBigInt v"
proof (induction v)
  case (Obj fs)
  then show ?case by (fastforce simp: list_all_iff list_ex_iff)
qed (auto simp: list_all_iff list_ex_iff)

text \<open>
  C8. The canonical text the consensus hash is taken of stands for the data: it reads back as the data with every
  object's names in order, so two configurations have one text exactly when they differ in the order of names at most.
\<close>

theorem canonical_text_faithful:
  assumes "plainJson v" "plainJson w"
  shows "canonicalJson shown v = ok (canonicalText shown v) \<and> jsonParse (canonicalText shown v) = Some (sortKeys v) \<and>
     (canonicalJson shown v = canonicalJson shown w \<longleftrightarrow> sortKeys v = sortKeys w)"
proof -
  have c: "canonicalJson shown v = ok (canonicalText shown v)" "canonicalJson shown w = ok (canonicalText shown w)"
    using assms by (simp_all add: canonicalJson_def plain_has_no_BigInt)
  note p = canonical_parses [OF assms(1), of shown] canonical_parses [OF assms(2), of shown]
  have "sortKeys v = sortKeys w" if "canonicalText shown v = canonicalText shown w" using p that by simp
  moreover have "canonicalText shown v = canonicalText shown w" if "sortKeys v = sortKeys w"
    using canonical_sorted [of shown v] canonical_sorted [of shown w] that by simp
  ultimately show ?thesis using c p by auto
qed

text \<open>An example: one object with its two names in either order.\<close>

theorem canonical_text_faithful_witness:
  "canonicalJson (\<lambda>_. []) (Obj [(js ''b'', Num (Fin 2)), (js ''a'', Arr [Null])]) =
   canonicalJson (\<lambda>_. []) (Obj [(js ''a'', Arr [Null]), (js ''b'', Num (Fin 2))])"
proof -
  have "plainJson (Num (Fin 2))" by (simp add: MAX_SAFE_INTEGER_def)
  then have "plainJson (Obj [(js ''b'', Num (Fin 2)), (js ''a'', Arr [Null])])" "plainJson (Obj [(js ''a'', Arr [Null]), (js ''b'', Num (Fin 2))])"
    by (simp_all del: js_simps)
  moreover have "sortKeys (Obj [(js ''b'', Num (Fin 2)), (js ''a'', Arr [Null])]) = sortKeys (Obj [(js ''a'', Arr [Null]), (js ''b'', Num (Fin 2))])"
    by (simp add: unitsOf_def)
  ultimately show ?thesis using canonical_text_faithful by blast
qed

section \<open>What is served\<close>

text \<open>Off regtest neither the environment nor the sidecar is looked at.\<close>

lemma frozen_parts:
  assumes "netName \<noteq> js ''regtest''"
  shows "resolveGenesis env b netName = resolveGenesis env' b netName"
    and "resolveFullnode env sidecar f netName = resolveFullnode env' sidecar' f netName"
    and "resolveFeeDestination env tick netName a = a"
  using assms by (auto simp: resolveGenesis_def resolveFullnode_def resolveFeeDestination_def Let_def split: option.split)

lemma coin_files_cases:
  assumes "map_of COIN_FILES tick = Some src"
  obtains "src = BTC_file" | "src = LTC_file" | "src = DOGE_file"
  using assms by (auto simp: COIN_FILES_def split: if_splits)

lemmas coin_parts = BTC_file_def LTC_file_def DOGE_file_def BTC_identity_def LTC_identity_def DOGE_identity_def
lemmas coin_blocks = BTC_mainnet_def BTC_testnet_def BTC_regtest_def LTC_mainnet_def LTC_testnet_def LTC_regtest_def
  DOGE_mainnet_def DOGE_testnet_def DOGE_regtest_def

lemma networks_of:
  assumes "map_of COIN_FILES tick = Some src"
  shows "\<exists>m t r. getProp src ''networks'' = Obj [(js ''mainnet'', m), (js ''testnet'', t), (js ''regtest'', r)] \<and>
     (m, t, r) \<in> {(BTC_mainnet, BTC_testnet, BTC_regtest), (LTC_mainnet, LTC_testnet, LTC_regtest), (DOGE_mainnet, DOGE_testnet, DOGE_regtest)}"
  by (rule coin_files_cases [OF assms]) (simp_all add: coin_parts getProp_def jm_get_def del: js_simps)

lemma addresses_of:
  assumes "b \<in> {BTC_mainnet, BTC_testnet, BTC_regtest, LTC_mainnet, LTC_testnet, LTC_regtest, DOGE_mainnet, DOGE_testnet, DOGE_regtest}"
  shows "\<exists>as. getProp b ''addresses'' = Obj as"
  using assms by (auto simp: coin_blocks getProp_def jm_get_def simp del: js_simps)

definition PINNED_FIELDS :: "string list" where
  "PINNED_FIELDS = [''net'', ''wireFormat'', ''firstBlock'', ''legacyFees'', ''GAS_PRICE'', ''UNIFIED_EXPIRATION_FEE_FREE_DAYS'', ''FEE_TOLERANCE_MIN'',
     ''FEE_TOLERANCE_MAX'', ''ORACLE_MAX_PRICE_AGE_SECONDS'', ''ORACLE_MAX_PRICE_AGE_HOURLY_SECONDS'', ''VALIDATOR_QUERY_LIMIT'', ''GAS_SCHEDULE'', ''STAKING'']"

lemma propOf_js: "propOf v (js k) = getProp v k"
  by (simp add: propOf_def getProp_def)

lemma block_of:
  assumes "map_of COIN_FILES tick = Some src" "netName \<in> set NETWORK_NAMES"
  shows "\<exists>as. getProp (propOf (getProp src ''networks'') netName) ''addresses'' = Obj as"
proof -
  obtain m t r where n: "getProp src ''networks'' = Obj [(js ''mainnet'', m), (js ''testnet'', t), (js ''regtest'', r)]"
    "(m, t, r) \<in> {(BTC_mainnet, BTC_testnet, BTC_regtest), (LTC_mainnet, LTC_testnet, LTC_regtest), (DOGE_mainnet, DOGE_testnet, DOGE_regtest)}"
    using networks_of [OF assms(1)] by blast
  have "propOf (getProp src ''networks'') netName \<in> {m, t, r}"
    using assms(2) by (auto simp: NETWORK_NAMES_def n(1) propOf_js getProp_head simp del: js_simps)
  then show ?thesis using n(2) addresses_of by blast
qed

lemma kept_address:
  "propOf (Obj (filter (\<lambda>(k, _). k \<notin> D) as)) role = (if role \<in> D then Undefined else propOf (Obj as) role)"
proof -
  have "map_of (filter (\<lambda>(k, _). k \<notin> D) as) role = (if role \<in> D then None else map_of as role)"
    by (induction as) auto
  then show ?thesis by (simp add: propOf_def jm_get_def)
qed

lemma same_fee_destination: "propOf (setProp k (getProp (Obj as) k) (Obj as)) role = propOf (Obj as) role"
  by (auto simp: setProp_def propOf_def getProp_def jm.get_put)

lemma getProp_copied: "getProp (Obj (copied src ks @ fs)) k = (if k \<in> set ks then getProp src k else getProp (Obj fs) k)"
  by (induction ks) (auto simp: copied_def getProp_head simp del: js_simps)

lemma consensus_shape:
  assumes "map_of COIN_FILES tick = Some src" "truthyVal (propOf (getProp src ''networks'') netName)"
    and "getProp (propOf (getProp src ''networks'') netName) ''addresses'' = Obj as"
  shows "\<exists>D rest. consensusSubset tick netName = ok (Obj ([(js ''net'', getProp (propOf (getProp src ''networks'') netName) ''net''),
      (js ''wireFormat'', getProp src ''wireFormat''), (js ''firstBlock'', getProp (propOf (getProp src ''networks'') netName) ''firstBlock''),
      (js ''addresses'', Obj (filter (\<lambda>(k, _). k \<notin> D) as))] @
      copied src [''legacyFees'', ''GAS_PRICE'', ''UNIFIED_EXPIRATION_FEE_FREE_DAYS'', ''FEE_TOLERANCE_MIN'', ''FEE_TOLERANCE_MAX'',
        ''ORACLE_MAX_PRICE_AGE_SECONDS'', ''ORACLE_MAX_PRICE_AGE_HOURLY_SECONDS'', ''VALIDATOR_QUERY_LIMIT'', ''GAS_SCHEDULE'', ''STAKING''] @ rest))"
proof -
  define roles where "roles = (if truthyVal (getProp src ''DISPLAY_ONLY_ADDRESS_ROLES'') then map snd (entries (getProp src ''DISPLAY_ONLY_ADDRESS_ROLES''))
      else [Str (js ''EXPLORER'')])"
  have D: "filter (\<lambda>(k, _). Str k \<notin> set roles) as = filter (\<lambda>(k, _). k \<notin> {k. Str k \<in> set roles}) as" by (rule filter_cong) auto
  then show ?thesis unfolding consensusSubset_def assms(1) option.case Let_def assms(3) roles_def [symmetric]
    using assms(2) by (simp add: entries_def del: js_simps) (use D in blast)
qed


lemma bitcoin_is_served: "\<exists>cfg. getCoinConfig (\<lambda>_. None) (\<lambda>_. None) (js ''BTC'') (js ''mainnet'') = ok cfg"
proof -
  have src: "map_of COIN_FILES (js ''BTC'') = Some BTC_file" by (simp add: COIN_FILES_def del: js_simps)
  have mainnet: "propOf (getProp BTC_file ''networks'') (js ''mainnet'') = BTC_mainnet"
    by (simp add: propOf_js coin_parts getProp_head del: js_simps)
  have parts: "getProp BTC_file ''legacyFees'' \<noteq> Undefined" "getProp BTC_file ''GAS_SCHEDULE'' \<noteq> Undefined" "getProp BTC_file ''STAKING'' \<noteq> Undefined"
    by (simp_all add: coin_parts BTC_fees_def BTC_gas_def BTC_rest_def getProp_head del: js_simps)
  have block: "getProp BTC_mainnet ''addresses'' \<noteq> Undefined" "getProp BTC_mainnet ''net'' \<noteq> Undefined" "truthyVal BTC_mainnet"
    "js ''mainnet'' \<in> set NETWORK_NAMES"
    by (simp_all add: BTC_mainnet_def NETWORK_NAMES_def getProp_head del: js_simps)
  show ?thesis unfolding getCoinConfig_def src mainnet Let_def option.case clone_def by (simp add: parts block refuseIf_def del: js_simps)
qed


section \<open>Confirmations\<close>

lemma default_confirmations:
  "DEFAULT_CONFIRMATIONS = [(js ''BTC'', Num (Fin 6)), (js ''LTC'', Num (Fin 12)), (js ''DOGE'', Num (Fin 60))]"
  by (simp add: DEFAULT_CONFIRMATIONS_def COIN_FILES_def coin_parts getProp_head del: js_simps)

lemma confirmationsOf_floor:
  "0 < d \<Longrightarrow> 0 < confirmationsOf textOf env cfg netName tick d \<and>
   (netName = js ''mainnet'' \<or> netName = js ''testnet'' \<longrightarrow> d \<le> confirmationsOf textOf env cfg netName tick d)"
  by (auto simp: confirmationsOf_def Let_def split: jsnum.split)

text \<open>Whatever the environment and the hub's settings say, a depth is positive, and on mainnet and testnet never under its default.\<close>

theorem confirmations_only_rise:
  "\<forall>(tick, v) \<in> set (resolveConfirmations textOf env cfg netName). \<exists>d r. (tick, Num (Fin d)) \<in> set DEFAULT_CONFIRMATIONS \<and>
     v = Num (Fin r) \<and> 0 < r \<and> (netName = js ''mainnet'' \<or> netName = js ''testnet'' \<longrightarrow> d \<le> r)"
  using confirmationsOf_floor [of 6] confirmationsOf_floor [of 12] confirmationsOf_floor [of 60]
  by (auto simp: resolveConfirmations_def default_confirmations simp del: js_simps)

text \<open>The relay facts the fee model uses are those of the coin files, on every network.\<close>

lemma dust_thresholds_match:
  "\<forall>b \<in> {BTC_mainnet, BTC_testnet, BTC_regtest}. getProp (getProp b ''net'') ''dustThreshold'' = Num (Fin (of_nat (dustThreshold (networkOf BTC))))"
  "\<forall>b \<in> {LTC_mainnet, LTC_testnet, LTC_regtest}. getProp (getProp b ''net'') ''dustThreshold'' = Num (Fin (of_nat (dustThreshold (networkOf LTC))))"
  "\<forall>b \<in> {DOGE_mainnet, DOGE_testnet, DOGE_regtest}. getProp (getProp b ''net'') ''dustThreshold'' = Num (Fin (of_nat (dustThreshold (networkOf DOGE))))"
  by (simp_all add: coin_blocks getProp_head BTC_net_def LTC_net_def DOGE_net_def del: js_simps)

end
