(* ===== verification/FrontDoor.thy ===== *)
theory FrontDoor
  imports ConcurrencyGate Json Validator
begin

text \<open>
  What stands before the JSON-RPC methods: the settings \<open>src/src/api.js\<close> reads, and its middleware in the order it mounts
  them, with \<open>cors_origin.js\<close>, \<open>probe_request.js\<close>, \<open>json_error_handler.js\<close> and \<open>rate_limit_log.js\<close> of
  \<open>src/src/server\<close>. What the packages \<open>cors\<close>, \<open>express-rate-limit\<close> and \<open>body-parser\<close> decide of a request is part of the
  request.
\<close>

section \<open>Settings\<close>

definition intSetting :: "jstring option \<Rightarrow> jsnum" where
  "intSetting v = (case v of Some s \<Rightarrow> parseInt10 s | None \<Rightarrow> NaN)"

text \<open>\<open>parseFloat\<close>: the longest front of the text that is a decimal literal.\<close>

definition longestNumber :: "jstring \<Rightarrow> rat option" where
  "longestNumber s = (case List.map_filter unsignedNumber (map (\<lambda>n. take n s) (rev [0..<length s + 1])) of r # _ \<Rightarrow> Some r | [] \<Rightarrow> None)"

definition parseFloat :: "jstring \<Rightarrow> jsnum" where
  "parseFloat s =
     (let t = dropWhile isSpaceUnit s; neg = (t \<noteq> [] \<and> hd t = 45); m = (if t \<noteq> [] \<and> (hd t = 45 \<or> hd t = 43) then tl t else t)
      in if take 8 m = js ''Infinity'' then (if neg then NegInf else PosInf)
         else case longestNumber m of None \<Rightarrow> NaN | Some r \<Rightarrow> js_Number_rat (if neg then - r else r))"

definition maxFeeRateKbSetting :: "jstring option \<Rightarrow> rat option" where
  "maxFeeRateKbSetting v = (case intSetting v of Fin r \<Rightarrow> if 0 < r then Some r else None | _ \<Rightarrow> None)"

definition maxFeeRateMultiplierSetting :: "jstring option \<Rightarrow> rat option" where
  "maxFeeRateMultiplierSetting v =
     (case v of None \<Rightarrow> None | Some s \<Rightarrow> (case parseFloat s of Fin r \<Rightarrow> if 0 \<le> r then Some r else None | _ \<Rightarrow> None))"

definition maxLagBlocksSetting :: "jstring option \<Rightarrow> rat option" where
  "maxLagBlocksSetting v = (case intSetting v of Fin r \<Rightarrow> Some r | _ \<Rightarrow> None)"

definition dustAmountSetting :: "jstring option \<Rightarrow> rat option" where
  "dustAmountSetting v = (case intSetting v of Fin r \<Rightarrow> if 0 < r then Some r else None | _ \<Rightarrow> None)"

definition orDefault :: "jsnum \<Rightarrow> rat \<Rightarrow> jsnum" where
  "orDefault n d = (if n = NaN \<or> n = Fin 0 then Fin d else n)"

definition rateLimitRpm :: "jstring option \<Rightarrow> jsnum" where "rateLimitRpm v = orDefault (intSetting v) 60"
definition maxRpcBatch :: "jstring option \<Rightarrow> jsnum" where "maxRpcBatch v = orDefault (intSetting v) 20"

datatype trust = TrustAll | TrustNone | TrustHops jsnum | TrustPeers jstring

definition trustProxy :: "jstring option \<Rightarrow> trust" where
  "trustProxy v =
     (let s = (case v of Some s \<Rightarrow> if s = [] then js ''loopback, uniquelocal'' else s | None \<Rightarrow> js ''loopback, uniquelocal'')
      in if s = js ''true'' then TrustAll else if s = js ''false'' then TrustNone
         else if isNatLiteral s then TrustHops (parseInt10 s) else TrustPeers s)"

datatype corsOrigin = CorsOff | CorsOne jstring | CorsList "jstring list"

definition parseCorsOrigin :: "jstring option \<Rightarrow> corsOrigin" where
  "parseCorsOrigin raw =
     (case raw of
        None \<Rightarrow> CorsOff
      | Some s \<Rightarrow>
          (case filter (\<lambda>t. t \<noteq> []) (map trim (splitOn 44 s)) of [] \<Rightarrow> CorsOff | [t] \<Rightarrow> CorsOne t | ts \<Rightarrow> CorsList ts))"

section \<open>Requests\<close>

datatype parsedBody = Parsed jsval | BodyFailed jsval

record httpRequest =
  hrMethod :: jstring
  hrPath :: jstring
  hrKey :: "jstring option"
  hrPreflighted :: bool
  hrLimited :: bool
  hrBody :: parsedBody

definition isGetRouted :: "httpRequest \<Rightarrow> bool" where
  "isGetRouted req \<longleftrightarrow> hrMethod req = js ''GET'' \<or> hrMethod req = js ''HEAD''"

definition onPath :: "string \<Rightarrow> httpRequest \<Rightarrow> bool" where
  "onPath p req \<longleftrightarrow> map lowerUnit (hrPath req) \<in> {js p, js p @ [47]}"

definition isProbe :: "httpRequest \<Rightarrow> bool" where
  "isProbe req \<longleftrightarrow> isGetRouted req \<and> (onPath ''/status'' req \<or> onPath ''/openrpc.json'' req)"

definition isSpecRequest :: "httpRequest \<Rightarrow> bool" where
  "isSpecRequest req \<longleftrightarrow> isGetRouted req \<and> onPath ''/openrpc.json'' req"

definition keyEquals :: "jstring option \<Rightarrow> jstring option \<Rightarrow> bool" where
  "keyEquals provided expected =
     (let a = utf8 (case provided of Some s \<Rightarrow> s | None \<Rightarrow> []); b = utf8 (case expected of Some s \<Rightarrow> s | None \<Rightarrow> [])
      in length a = length b \<and> a = b)"

text \<open>The status, the code and the message of a refused body.\<close>

definition errorReply :: "jsval \<Rightarrow> int \<times> int \<times> string" where
  "errorReply err =
     (let status = (case getProp err ''status'' of
            Num (Fin r) \<Rightarrow> if isInteger (Fin r) \<and> 400 \<le> r \<and> r < 500 then \<lfloor>r\<rfloor> else 500
          | _ \<Rightarrow> 500)
      in if status = 500 then (status, -32603, ''Internal error'')
         else if getProp err ''type'' = Str (js ''entity.parse.failed'') then (status, -32700, ''Parse error'')
         else (status, -32600, if status = 413 then ''Request body too large'' else ''Invalid Request''))"

text \<open>\<open>makeRpcBatchGuard\<close>: why a body is refused.\<close>

definition badEntry :: "jsval \<Rightarrow> bool" where
  "badEntry e \<longleftrightarrow> \<not> isPlainObject e \<or> isNullish (getProp e ''id'')"

definition makeRpcBatchGuard :: "jsnum \<Rightarrow> jsval \<Rightarrow> string option" where
  "makeRpcBatchGuard maxBatch body =
     (case body of
        Arr es \<Rightarrow>
          if js_lt maxBatch (of_nat (length es)) then Some ''Batch too large''
          else if list_ex badEntry es then Some ''Batch entries must be objects carrying an id'' else None
      | _ \<Rightarrow> None)"

section \<open>The middleware, in order\<close>

record frontConfig =
  fcApiKey :: "jstring option"
  fcMaxBatch :: jsnum
  fcProbeLimit :: int
  fcRequestLimit :: int

definition frontConfigOf :: "(string \<Rightarrow> jstring option) \<Rightarrow> frontConfig" where
  "frontConfigOf env =
     \<lparr>fcApiKey = (case env ''API_KEY'' of Some s \<Rightarrow> if s = [] then None else Some s | None \<Rightarrow> None),
      fcMaxBatch = maxRpcBatch (env ''ENCODER_MAX_RPC_BATCH''),
      fcProbeLimit = resolveLimit (intSetting (env ''ENCODER_MAX_CONCURRENT_PROBES'')) 16,
      fcRequestLimit = resolveLimit (intSetting (env ''ENCODER_MAX_CONCURRENT_REQUESTS'')) 50\<rparr>"

datatype reply =
    Preflight | Unauthorized | TooManyRequests | BodyRefused "int \<times> int \<times> string" | Busy | BatchRefused string
  | ToStatus | ToSpec | ToRpc jsval

text \<open>Request number \<open>r\<close> against the probe gate and the request gate.\<close>

definition frontDoor :: "frontConfig \<Rightarrow> nat \<Rightarrow> httpRequest \<Rightarrow> gate \<times> gate \<Rightarrow> reply \<times> gate \<times> gate" where
  "frontDoor cfg r req = (\<lambda>(probes, requests).
     if hrPreflighted req then (Preflight, probes, requests)
     else if fcApiKey cfg \<noteq> None \<and> \<not> isSpecRequest req \<and> \<not> keyEquals (hrKey req) (fcApiKey cfg) then (Unauthorized, probes, requests)
     else if hrLimited req then (TooManyRequests, probes, requests)
     else case hrBody req of
       BodyFailed err \<Rightarrow> (BodyRefused (errorReply err), probes, requests)
     | Parsed body \<Rightarrow>
         (let (v, probes) = concurrencyGate (fcProbeLimit cfg) (\<not> isProbe req) r probes
          in if v = Refused then (Busy, probes, requests)
             else let (v, requests) = concurrencyGate (fcRequestLimit cfg) (isProbe req) r requests
             in if v = Refused then (Busy, probes, requests)
                else if isGetRouted req \<and> onPath ''/status'' req then (ToStatus, claimSlot r probes, requests)
                else if isSpecRequest req then (ToSpec, probes, requests)
                else case makeRpcBatchGuard (fcMaxBatch cfg) body of
                  Some why \<Rightarrow> (BatchRefused why, probes, requests)
                | None \<Rightarrow> (ToRpc (if body = Undefined then Obj [] else body), probes, claimSlot r requests)))"

section \<open>Refusals on the log\<close>

record refusals =
  rlCount :: nat
  rlLastLogAt :: "int option"

text \<open>\<open>limitedHandler\<close> at time \<open>ts\<close>: the line written, as the number of refusals and the seconds it covers.\<close>

definition limitedHandler :: "int \<Rightarrow> int \<Rightarrow> refusals \<Rightarrow> refusals \<times> (nat \<times> int) option" where
  "limitedHandler windowMs ts s =
     (let n = rlCount s + 1
      in case rlLastLogAt s of
           None \<Rightarrow> (\<lparr>rlCount = 0, rlLastLogAt = Some ts\<rparr>, Some (n, js_round (fl (of_int windowMs / 1000))))
         | Some at' \<Rightarrow>
             if windowMs \<le> ts - at' then (\<lparr>rlCount = 0, rlLastLogAt = Some ts\<rparr>, Some (n, js_round (fl (of_int (ts - at') / 1000))))
             else (s\<lparr>rlCount := n\<rparr>, None))"

text \<open>The handlers of a run, the times of the refusals in order.\<close>

fun refusalLog :: "int \<Rightarrow> int list \<Rightarrow> refusals \<Rightarrow> refusals \<times> (int \<times> nat \<times> int) list" where
  "refusalLog windowMs [] s = (s, [])"
| "refusalLog windowMs (ts # tss) s =
     (let (s, line) = limitedHandler windowMs ts s; (s, ls) = refusalLog windowMs tss s
      in (s, (case line of Some l \<Rightarrow> [(ts, l)] | None \<Rightarrow> []) @ ls))"

end
