(* ===== verification/FrontDoorProperties.thy ===== *)
theory FrontDoorProperties
  imports FrontDoor InstanceLockFacts
begin

text \<open>
  What the front door promises: no work without the key and a slot, each request in one gate only, batches within bounds;
  and that the log of refusals accounts for each of them.
\<close>

section \<open>Admission\<close>

lemma slot_taken:
  assumes "concurrencyGate limit skip r g = (v, g')" "v \<noteq> Refused"
  shows "skip \<longrightarrow> g' = g" and "\<not> skip \<and> 0 < limit \<longrightarrow> inFlight g < limit \<and> inFlight g' = inFlight g + 1 \<and> slotOf g' r \<noteq> None"
  using assms by (auto simp: concurrencyGate_def split: if_splits)

lemma claim_counts [simp]: "inFlight (claimSlot r g) = inFlight g"
  by (simp add: claimSlot_def split: option.split)

lemma claim_claims: "slotOf g r = Some s \<Longrightarrow> \<exists>s'. slotOf (claimSlot r g) r = Some s' \<and> claimed s'"
  by (simp add: claimSlot_def)

lemma batch_admitted:
  assumes "makeRpcBatchGuard limit b = None" "body = (if b = Undefined then Obj [] else b)" "body = Arr es"
  shows "\<not> js_lt limit (of_nat (length es)) \<and> (\<forall>e \<in> set es. isPlainObject e \<and> \<not> isNullish (getProp e ''id''))"
  using assms by (auto simp: makeRpcBatchGuard_def badEntry_def list_ex_iff split: if_splits)

lemma front_door_run:
  assumes "frontDoor cfg r req (probes, requests) = (reply, probes', requests')"
    and "concurrencyGate (fcRequestLimit cfg) (isProbe req) r requests = (v2, g2)"
  shows "reply = ToRpc body \<Longrightarrow> \<exists>b. (fcApiKey cfg \<noteq> None \<longrightarrow> isSpecRequest req \<or> keyEquals (hrKey req) (fcApiKey cfg)) \<and> v2 \<noteq> Refused \<and>
      \<not> isProbe req \<and> \<not> isSpecRequest req \<and> makeRpcBatchGuard (fcMaxBatch cfg) b = None \<and>
      body = (if b = Undefined then Obj [] else b) \<and> requests' = claimSlot r g2"
    and "reply \<in> {Preflight, Unauthorized, TooManyRequests} \<or> (\<exists>e. reply = BodyRefused e) \<Longrightarrow> probes' = probes \<and> requests' = requests"
proof -
  obtain v1 g1 where 1: "concurrencyGate (fcProbeLimit cfg) (\<not> isProbe req) r probes = (v1, g1)" by force
  note run = assms(1) [unfolded frontDoor_def Let_def prod.case 1 assms(2)]
  show "\<exists>b. (fcApiKey cfg \<noteq> None \<longrightarrow> isSpecRequest req \<or> keyEquals (hrKey req) (fcApiKey cfg)) \<and> v2 \<noteq> Refused \<and>
      \<not> isProbe req \<and> \<not> isSpecRequest req \<and> makeRpcBatchGuard (fcMaxBatch cfg) b = None \<and>
      body = (if b = Undefined then Obj [] else b) \<and> requests' = claimSlot r g2" if "reply = ToRpc body"
    using run that by (auto simp: isProbe_def isSpecRequest_def split: if_splits parsedBody.splits option.splits)
  show "probes' = probes \<and> requests' = requests" if "reply \<in> {Preflight, Unauthorized, TooManyRequests} \<or> (\<exists>e. reply = BodyRefused e)"
    using run that by (auto split: if_splits parsedBody.splits option.splits)
qed

lemma front_door_one_gate:
  assumes "frontDoor cfg r req (probes, requests) = (reply, probes', requests')"
  shows "isProbe req \<Longrightarrow> requests' = requests" "\<not> isProbe req \<Longrightarrow> probes' = probes"
proof -
  obtain v1 g1 where 1: "concurrencyGate (fcProbeLimit cfg) (\<not> isProbe req) r probes = (v1, g1)" by force
  obtain v2 g2 where 2: "concurrencyGate (fcRequestLimit cfg) (isProbe req) r requests = (v2, g2)" by force
  note run = assms [unfolded frontDoor_def Let_def prod.case 1 2]
  show "requests' = requests" if "isProbe req"
  proof -
    have "g2 = requests" "(isGetRouted req \<and> onPath ''/status'' req) \<or> isSpecRequest req"
      using 2 that by (auto simp: concurrencyGate_def isProbe_def isSpecRequest_def)
    then show ?thesis using run that by (auto split: if_splits parsedBody.splits option.splits)
  qed
  show "probes' = probes" if "\<not> isProbe req"
  proof -
    have "g1 = probes" "\<not> (isGetRouted req \<and> onPath ''/status'' req)" "\<not> isSpecRequest req"
      using 1 that by (auto simp: concurrencyGate_def isProbe_def isSpecRequest_def)
    then show ?thesis using run that by (auto split: if_splits parsedBody.splits option.splits)
  qed
qed

text \<open>
  C14. Nothing reaches the JSON-RPC methods but a request that shows the key, where one is set, that is no probe, whose batch
  is within the bound and names every call, and that holds a claimed slot of the request gate, so at most the limit
  of them run. A request that is turned away for its key, its rate or its body takes no slot anywhere; a
  probe takes none of the request gate and any other request none of the probe gate.
\<close>

theorem front_door_admits:
  assumes "frontDoor cfg r req (probes, requests) = (reply, probes', requests')"
  shows "(\<forall>body. reply = ToRpc body \<longrightarrow>
       (fcApiKey cfg \<noteq> None \<longrightarrow> keyEquals (hrKey req) (fcApiKey cfg)) \<and> \<not> isProbe req \<and>
       (\<forall>es. body = Arr es \<longrightarrow> \<not> js_lt (fcMaxBatch cfg) (of_nat (length es)) \<and> (\<forall>e \<in> set es. isPlainObject e \<and> \<not> isNullish (getProp e ''id''))) \<and>
       (0 < fcRequestLimit cfg \<longrightarrow> inFlight requests' = inFlight requests + 1 \<and> inFlight requests' \<le> fcRequestLimit cfg \<and>
          (\<exists>s. slotOf requests' r = Some s \<and> claimed s))) \<and>
     (reply \<in> {Preflight, Unauthorized, TooManyRequests} \<or> (\<exists>e. reply = BodyRefused e) \<longrightarrow> probes' = probes \<and> requests' = requests) \<and>
     (isProbe req \<longrightarrow> requests' = requests) \<and> (\<not> isProbe req \<longrightarrow> probes' = probes)"
proof -
  obtain v2 g2 where 2: "concurrencyGate (fcRequestLimit cfg) (isProbe req) r requests = (v2, g2)" by force
  have rpc: "(fcApiKey cfg \<noteq> None \<longrightarrow> keyEquals (hrKey req) (fcApiKey cfg)) \<and> \<not> isProbe req \<and>
      (\<forall>es. body = Arr es \<longrightarrow> \<not> js_lt (fcMaxBatch cfg) (of_nat (length es)) \<and> (\<forall>e \<in> set es. isPlainObject e \<and> \<not> isNullish (getProp e ''id''))) \<and>
      (0 < fcRequestLimit cfg \<longrightarrow> inFlight requests' = inFlight requests + 1 \<and> inFlight requests' \<le> fcRequestLimit cfg \<and>
         (\<exists>s. slotOf requests' r = Some s \<and> claimed s))" if reply: "reply = ToRpc body" for body
  proof -
    obtain b where b: "fcApiKey cfg \<noteq> None \<longrightarrow> isSpecRequest req \<or> keyEquals (hrKey req) (fcApiKey cfg)" "v2 \<noteq> Refused"
      "\<not> isProbe req" "\<not> isSpecRequest req" "makeRpcBatchGuard (fcMaxBatch cfg) b = None"
      "body = (if b = Undefined then Obj [] else b)" "requests' = claimSlot r g2" using front_door_run(1) [OF assms 2 reply] by blast
    have "0 < fcRequestLimit cfg \<longrightarrow> inFlight requests' = inFlight requests + 1 \<and> inFlight requests' \<le> fcRequestLimit cfg \<and>
        (\<exists>s. slotOf requests' r = Some s \<and> claimed s)"
      using slot_taken(2) [OF 2 b(2)] b(3,7) claim_claims [of g2 r] by auto
    then show ?thesis using b(1,3,4) batch_admitted [OF b(5,6)] by blast
  qed
  then show ?thesis using front_door_run(2) [OF assms 2] front_door_one_gate [OF assms] by blast
qed

text \<open>An example: one call without a key to a server that asks for none.\<close>

definition one_call :: httpRequest where
  "one_call = \<lparr>hrMethod = js ''POST'', hrPath = js ''/'', hrKey = None, hrPreflighted = False, hrLimited = False,
     hrBody = Parsed (Obj [(js ''id'', Num (Fin 1))])\<rparr>"

definition open_config :: frontConfig where
  "open_config = \<lparr>fcApiKey = None, fcMaxBatch = Fin 20, fcProbeLimit = 16, fcRequestLimit = 50\<rparr>"

theorem front_door_admits_witness:
  "\<exists>probes requests. frontDoor open_config 7 one_call (newGate, newGate) = (ToRpc (Obj [(js ''id'', Num (Fin 1))]), probes, requests) \<and>
     inFlight requests = 1 \<and> probes = newGate"
proof -
  obtain reply probes requests where d: "frontDoor open_config 7 one_call (newGate, newGate) = (reply, probes, requests)" by (metis prod.exhaust)
  have "\<not> isProbe one_call" "\<not> isGetRouted one_call" "\<not> isSpecRequest one_call"
    by (simp_all add: isProbe_def isSpecRequest_def isGetRouted_def one_call_def del: js_simps)
  then have "reply = ToRpc (Obj [(js ''id'', Num (Fin 1))])"
    using d by (auto simp: frontDoor_def open_config_def concurrencyGate_def newGate_def makeRpcBatchGuard_def one_call_def Let_def simp del: js_simps)
  moreover have "inFlight newGate = 0" by (simp add: newGate_def)
  ultimately show ?thesis using front_door_admits [OF d] d \<open>\<not> isProbe one_call\<close> by (auto simp: open_config_def)
qed

section \<open>Refusals on the log\<close>

lemma refusalLog_accounts:
  "refusalLog windowMs tss s = (s', ls) \<Longrightarrow> rlCount s + length tss = sum_list (map (\<lambda>(_, n, _). n) ls) + rlCount s'"
proof (induction tss arbitrary: s ls)
  case (Cons ts tss)
  show ?case using Cons.prems Cons.IH
    by (fastforce simp: limitedHandler_def Let_def split: prod.splits option.splits if_splits)
qed simp

end
