(* ===== verification/Metrics.thy ===== *)
theory Metrics
  imports Logging Validator
begin

text \<open>
  The metrics registry, \<open>src/src/observability/metrics.js\<close>, and what \<open>src/src/observability/index.js\<close> serves of it: the
  labels of a series and the cap on their number, counters, gauges and histograms, the exposition text, the route label
  of a request and the endpoint. \<open>shown\<close> is \<open>String\<close> of a value that is no string.
\<close>

section \<open>Names and texts\<close>

definition DEFAULT_MAX_SERIES :: nat where "DEFAULT_MAX_SERIES = 500"

definition DEFAULT_DURATION_BUCKETS :: "rat list" where
  "DEFAULT_DURATION_BUCKETS = map fl [5 / 1000, 1 / 100, 25 / 1000, 5 / 100, 1 / 10, 1 / 4, 1 / 2, 1, 5 / 2, 5, 10]"

definition nameStart :: "16 word \<Rightarrow> bool" where "nameStart u = (isLetterUnit u \<or> unat u = 95)"

text \<open>The grammars: a metric name may hold a colon, a label name may not.\<close>

definition isMetricName :: "jstring \<Rightarrow> bool" where
  "isMetricName s = (s \<noteq> [] \<and> (nameStart (hd s) \<or> unat (hd s) = 58) \<and> list_all (\<lambda>u. nameStart u \<or> isDigit u \<or> unat u = 58) (tl s))"

definition isLabelName :: "jstring \<Rightarrow> bool" where
  "isLabelName s = (s \<noteq> [] \<and> nameStart (hd s) \<and> list_all (\<lambda>u. nameStart u \<or> isDigit u) (tl s))"

definition escapeHelp :: "jstring \<Rightarrow> jstring" where
  "escapeHelp s = concat (map (\<lambda>u. if unat u = 92 then [92, 92] else if unat u = 10 then [92, 110] else [u]) s)"

definition escapeLabelValue :: "jstring \<Rightarrow> jstring" where
  "escapeLabelValue s =
     concat (map (\<lambda>u. if unat u = 92 then [92, 92] else if unat u = 10 then [92, 110] else if unat u = 34 then [92, 34] else [u]) s)"

definition formatValue :: "(jsval \<Rightarrow> jstring) \<Rightarrow> jsnum \<Rightarrow> jstring" where
  "formatValue shown v =
     (case v of PosInf \<Rightarrow> js ''+Inf'' | NegInf \<Rightarrow> js ''-Inf'' | NaN \<Rightarrow> js ''NaN'' | Fin r \<Rightarrow> stringOf shown (Num (Fin r)))"

definition assertMetricName :: "jstring \<Rightarrow> unit result" where
  "assertMetricName name = refuseIf (\<not> isMetricName name) (InternalError ''invalid metric name'')"

definition assertLabelName :: "jstring \<Rightarrow> unit result" where
  "assertLabelName l =
     andThen (refuseIf (\<not> isLabelName l) (InternalError ''invalid label name''))
       (\<lambda>_. refuseIf (l = js ''__name__'') (InternalError ''label name __name__ is reserved''))"

section \<open>Metrics\<close>

datatype metricKind = CounterKind | GaugeKind | HistogramKind

record series =
  sLabels :: "(jstring \<times> jstring) list"
  sValue :: rat
  sCounts :: "nat list"
  sSum :: rat
  sCount :: nat

record metric =
  mKind :: metricKind
  mName :: jstring
  mHelp :: jstring
  mLabelNames :: "jstring list"
  mMaxSeries :: nat
  mBuckets :: "rat list"
  mSeries :: "(jstring, series) jmap"

definition newMetric :: "metricKind \<Rightarrow> jstring \<Rightarrow> jstring \<Rightarrow> jstring list \<Rightarrow> nat \<Rightarrow> rat list option \<Rightarrow> metric result" where
  "newMetric kind name help labelNames maxSeries buckets =
     andThen (assertMetricName name) (\<lambda>_.
     andThen (forEach assertLabelName labelNames) (\<lambda>_.
     let bounds = (if kind = HistogramKind then sort (case buckets of Some b \<Rightarrow> b | None \<Rightarrow> DEFAULT_DURATION_BUCKETS) else [])
     in andThen (refuseIf (\<not> distinct bounds) (InternalError ''duplicate bucket bound'')) (\<lambda>_.
        andThen (refuseIf (kind = HistogramKind \<and> js ''le'' \<in> set labelNames) (InternalError ''le is reserved'')) (\<lambda>_.
        ok \<lparr>mKind = kind, mName = name, mHelp = (if help = [] then name else help), mLabelNames = labelNames, mMaxSeries = maxSeries,
            mBuckets = bounds, mSeries = []\<rparr>))))"

text \<open>The value of a label, the key of the series it names, and the labels stored with it.\<close>

definition labelValue :: "(jsval \<Rightarrow> jstring) \<Rightarrow> jsval \<Rightarrow> jstring \<Rightarrow> jstring" where
  "labelValue shown labels name =
     (case labels of
        Obj fs \<Rightarrow> (case jm_get fs name of None \<Rightarrow> [] | Some v \<Rightarrow> if isNullish v then [] else stringOf shown v)
      | _ \<Rightarrow> [])"

definition keyOfLabels :: "(jsval \<Rightarrow> jstring) \<Rightarrow> metric \<Rightarrow> jsval \<Rightarrow> jstring" where
  "keyOfLabels shown m labels =
     (if mLabelNames m = [] then []
      else 91 # joinWith 44 (map (\<lambda>n. jsonQuote (labelValue shown labels n)) (mLabelNames m)) @ [93])"

definition normalizeLabels :: "(jsval \<Rightarrow> jstring) \<Rightarrow> metric \<Rightarrow> jsval \<Rightarrow> (jstring \<times> jstring) list result" where
  "normalizeLabels shown m labels =
     andThen (refuseIf (\<not> set (keysOf labels) \<subseteq> set (mLabelNames m)) (InternalError ''unknown label''))
       (\<lambda>_. ok (map (\<lambda>n. (n, labelValue shown labels n)) (mLabelNames m)))"

text \<open>
  \<open>_series\<close> with what a mutator does to the series it finds: none where the cap is reached, which the first component
  reports.
\<close>

definition onSeries :: "(jsval \<Rightarrow> jstring) \<Rightarrow> jsval \<Rightarrow> series \<Rightarrow> (series \<Rightarrow> series) \<Rightarrow> metric \<Rightarrow> (bool \<times> metric) result" where
  "onSeries shown labels fresh update m =
     (let key = keyOfLabels shown m labels
      in case jm_get (mSeries m) key of
           Some s \<Rightarrow> ok (False, m\<lparr>mSeries := jm_set key (update s) (mSeries m)\<rparr>)
         | None \<Rightarrow>
             if mMaxSeries m \<le> length (mSeries m) then ok (True, m)
             else andThen (normalizeLabels shown m labels) (\<lambda>ls.
               ok (False, m\<lparr>mSeries := jm_set key (update (fresh\<lparr>sLabels := ls\<rparr>)) (mSeries m)\<rparr>)))"

definition emptySeries :: "nat \<Rightarrow> series" where
  "emptySeries buckets = \<lparr>sLabels = [], sValue = 0, sCounts = replicate buckets 0, sSum = 0, sCount = 0\<rparr>"

definition counterInc :: "(jsval \<Rightarrow> jstring) \<Rightarrow> jsval \<Rightarrow> jsnum \<Rightarrow> metric \<Rightarrow> (bool \<times> metric) result" where
  "counterInc shown labels v m =
     (case v of
        Fin r \<Rightarrow> if r < 0 then throw (InternalError ''inc value must be a non-negative finite number'')
                 else onSeries shown labels (emptySeries 0) (\<lambda>s. s\<lparr>sValue := fl (sValue s + r)\<rparr>) m
      | _ \<Rightarrow> throw (InternalError ''inc value must be a non-negative finite number''))"

definition setMonotonic :: "(jsval \<Rightarrow> jstring) \<Rightarrow> jsval \<Rightarrow> jsnum \<Rightarrow> metric \<Rightarrow> (bool \<times> metric) result" where
  "setMonotonic shown labels v m =
     (case v of
        Fin r \<Rightarrow> if r < 0 then ok (False, m)
                 else onSeries shown labels (emptySeries 0) (\<lambda>s. if sValue s \<le> r then s\<lparr>sValue := r\<rparr> else s) m
      | _ \<Rightarrow> ok (False, m))"

definition gaugeSet :: "(jsval \<Rightarrow> jstring) \<Rightarrow> jsval \<Rightarrow> jsnum \<Rightarrow> metric \<Rightarrow> (bool \<times> metric) result" where
  "gaugeSet shown labels v m =
     (case v of
        Fin r \<Rightarrow> onSeries shown labels (emptySeries 0) (\<lambda>s. s\<lparr>sValue := r\<rparr>) m
      | _ \<Rightarrow> throw (InternalError ''set value must be finite''))"

definition gaugeInc :: "(jsval \<Rightarrow> jstring) \<Rightarrow> jsval \<Rightarrow> rat \<Rightarrow> metric \<Rightarrow> (bool \<times> metric) result" where
  "gaugeInc shown labels r m = onSeries shown labels (emptySeries 0) (\<lambda>s. s\<lparr>sValue := fl (sValue s + r)\<rparr>) m"

text \<open>\<open>observe\<close> raises every bucket whose bound the value is under.\<close>

definition record_observation :: "rat list \<Rightarrow> rat \<Rightarrow> series \<Rightarrow> series" where
  "record_observation bounds r s =
     s\<lparr>sCount := sCount s + 1, sSum := fl (sSum s + r), sCounts := map2 (\<lambda>b c. if r \<le> b then c + 1 else c) bounds (sCounts s)\<rparr>"

definition observe :: "(jsval \<Rightarrow> jstring) \<Rightarrow> jsval \<Rightarrow> jsnum \<Rightarrow> metric \<Rightarrow> (bool \<times> metric) result" where
  "observe shown labels v m =
     (case v of
        Fin r \<Rightarrow> onSeries shown labels (emptySeries (length (mBuckets m))) (record_observation (mBuckets m) r) m
      | _ \<Rightarrow> ok (False, m))"

section \<open>The registry\<close>

record registry =
  rMaxSeries :: nat
  rMetrics :: "(jstring, metric) jmap"

definition DROP_COUNTER :: jstring where "DROP_COUNTER = js ''xchain_metrics_series_dropped_total''"

definition newRegistry :: "nat \<Rightarrow> registry" where
  "newRegistry maxSeries =
     \<lparr>rMaxSeries = maxSeries, rMetrics = [(DROP_COUNTER,
        \<lparr>mKind = CounterKind, mName = DROP_COUNTER, mHelp = js ''Observations dropped because a metric hit its per-metric series cap'',
         mLabelNames = [js ''metric''], mMaxSeries = maxSeries, mBuckets = [], mSeries = []\<rparr>)]\<rparr>"

definition noteSeriesDrop :: "(jsval \<Rightarrow> jstring) \<Rightarrow> jstring \<Rightarrow> registry \<Rightarrow> registry" where
  "noteSeriesDrop shown name reg =
     (case jm_get (rMetrics reg) DROP_COUNTER of
        None \<Rightarrow> reg
      | Some d \<Rightarrow>
          (case counterInc shown (Obj [(js ''metric'', Str name)]) (Fin 1) d of
             Inr (_, d) \<Rightarrow> reg\<lparr>rMetrics := jm_set DROP_COUNTER d (rMetrics reg)\<rparr>
           | Inl _ \<Rightarrow> reg))"

text \<open>A mutator called on a registered metric.\<close>

definition withMetric :: "(jsval \<Rightarrow> jstring) \<Rightarrow> jstring \<Rightarrow> (metric \<Rightarrow> (bool \<times> metric) result) \<Rightarrow> registry \<Rightarrow> registry result" where
  "withMetric shown name mutate reg =
     (case jm_get (rMetrics reg) name of
        None \<Rightarrow> ok reg
      | Some m \<Rightarrow>
          andThen (mutate m) (\<lambda>(dropped, m).
            let reg = reg\<lparr>rMetrics := jm_set name m (rMetrics reg)\<rparr>
            in ok (if dropped \<and> name \<noteq> DROP_COUNTER then noteSeriesDrop shown name reg else reg)))"

definition register :: "metric \<Rightarrow> registry \<Rightarrow> registry result" where
  "register m reg =
     (case jm_get (rMetrics reg) (mName m) of
        Some old \<Rightarrow>
          if mKind old = mKind m \<and> mLabelNames old = mLabelNames m then ok reg
          else throw (InternalError ''metric already registered with a different shape'')
      | None \<Rightarrow> ok (reg\<lparr>rMetrics := jm_set (mName m) m (rMetrics reg)\<rparr>))"

section \<open>The exposition\<close>

type_synonym sample = "jstring \<times> (jstring \<times> jstring) list \<times> rat"

definition samples :: "(jsval \<Rightarrow> jstring) \<Rightarrow> metric \<Rightarrow> sample list" where
  "samples shown m =
     concat (map (\<lambda>(_, s).
       if mKind m \<noteq> HistogramKind then [(mName m, sLabels s, sValue s)]
       else map2 (\<lambda>b c. (mName m @ js ''_bucket'', sLabels s @ [(js ''le'', formatValue shown (Fin b))], of_nat c)) (mBuckets m) (sCounts s) @
         [(mName m @ js ''_bucket'', sLabels s @ [(js ''le'', js ''+Inf'')], of_nat (sCount s)),
          (mName m @ js ''_sum'', sLabels s, sSum s), (mName m @ js ''_count'', sLabels s, of_nat (sCount s))]) (mSeries m))"

definition kindText :: "metricKind \<Rightarrow> string" where
  "kindText k = (case k of CounterKind \<Rightarrow> ''counter'' | GaugeKind \<Rightarrow> ''gauge'' | HistogramKind \<Rightarrow> ''histogram'')"

definition sampleLine :: "(jsval \<Rightarrow> jstring) \<Rightarrow> sample \<Rightarrow> jstring" where
  "sampleLine shown = (\<lambda>(name, labels, v).
     name @ (if labels = [] then []
             else js ''{'' @ joinWith 44 (map (\<lambda>(n, t). n @ js ''='' @ [34] @ escapeLabelValue t @ [34]) labels) @ js ''}'') @
     32 # formatValue shown (Fin v))"

definition metricLines :: "(jsval \<Rightarrow> jstring) \<Rightarrow> metric \<Rightarrow> jstring list" where
  "metricLines shown m =
     (if samples shown m = [] then []
      else (js ''# HELP '' @ mName m @ 32 # escapeHelp (mHelp m)) # (js ''# TYPE '' @ mName m @ 32 # js (kindText (mKind m))) #
           map (sampleLine shown) (samples shown m))"

text \<open>\<open>render\<close> runs the collectors first; one that throws leaves the registry as it made it.\<close>

definition render :: "(jsval \<Rightarrow> jstring) \<Rightarrow> (registry \<Rightarrow> registry) list \<Rightarrow> registry \<Rightarrow> registry \<times> jstring" where
  "render shown collectors reg =
     (let reg = fold (\<lambda>f r. f r) collectors reg;
          ls = concat (map (\<lambda>(_, m). metricLines shown m) (rMetrics reg))
      in (reg, if ls = [] then [] else joinWith 10 ls @ [10]))"

section \<open>Requests\<close>

definition UNMATCHED_ROUTE_LABEL_CAP :: nat where "UNMATCHED_ROUTE_LABEL_CAP = 20"

text \<open>
  \<open>routeLabel\<close>: of the route a request matched, given by its base URL and path, or of the first segment of the URL; the
  segments that have a label of their own are the state.
\<close>

definition routeLabel :: "(jstring \<times> jstring) option \<Rightarrow> jstring \<Rightarrow> jstring list \<Rightarrow> jstring \<times> jstring list" where
  "routeLabel route url seen =
     (case route of
        Some (base, path) \<Rightarrow> (if base @ path = [] then js ''/'' else base @ path, seen)
      | None \<Rightarrow>
          (case filter (\<lambda>s. s \<noteq> []) (splitOn 47 (hd (splitOn 63 (if url = [] then js ''/'' else url)))) of
             [] \<Rightarrow> (js ''/'', seen)
           | seg # _ \<Rightarrow>
               let label = 47 # seg
               in if label \<in> set seen then (label, seen)
                  else if length seen < UNMATCHED_ROUTE_LABEL_CAP then (label, seen @ [label])
                  else (js ''/_unmatched'', seen)))"

record observabilityConfig =
  ocMetrics :: bool
  ocPath :: jstring
  ocToken :: jstring
  ocHttp :: bool
  ocLog :: logConfig

definition readObservabilityEnv :: "(jstring \<Rightarrow> string option) \<Rightarrow> (string \<Rightarrow> jstring option) \<Rightarrow> observabilityConfig" where
  "readObservabilityEnv protocolOf env =
     (let enabled = toBool (env ''METRICS_ENABLED'') False;
          path = trim (if orEmpty (env ''METRICS_PATH'') = [] then js ''/metrics'' else orEmpty (env ''METRICS_PATH''))
      in \<lparr>ocMetrics = enabled, ocPath = (if path \<noteq> [] \<and> hd path = 47 then path else 47 # path), ocToken = orEmpty (env ''METRICS_TOKEN''),
          ocHttp = (enabled \<and> toBool (env ''METRICS_HTTP'') True), ocLog = readLogEnv protocolOf env\<rparr>)"

text \<open>The endpoint: the status and the body it answers an \<open>authorization\<close> header with.\<close>

definition metricsEndpoint :: "(jsval \<Rightarrow> jstring) \<Rightarrow> (registry \<Rightarrow> registry) list \<Rightarrow> jstring \<Rightarrow> jstring option \<Rightarrow> registry \<Rightarrow> registry \<times> nat \<times> jstring" where
  "metricsEndpoint shown collectors token authorization reg =
     (let header = orEmpty authorization;
          presented = (if take 7 header = js ''Bearer '' then drop 7 header else [])
      in if token \<noteq> [] \<and> (presented = [] \<or> utf8 presented \<noteq> utf8 token) then (reg, 401, js ''unauthorized'' @ [10])
         else (let (reg, body) = render shown collectors reg in (reg, 200, body)))"

section \<open>What a histogram holds\<close>

text \<open>A histogram and the observations it took, each with the key of its series.\<close>

inductive observed :: "(jsval \<Rightarrow> jstring) \<Rightarrow> metric \<Rightarrow> (jstring \<times> rat) list \<Rightarrow> bool" for shown where
  fresh: "newMetric HistogramKind name help labelNames maxSeries buckets = ok m \<Longrightarrow> observed shown m []"
| takes: "observed shown m h \<Longrightarrow> observe shown labels (Fin r) m = ok (dropped, m') \<Longrightarrow>
    observed shown m' (if dropped then h else h @ [(keyOfLabels shown m labels, r)])"

definition tallied :: "(jstring \<times> rat) list \<Rightarrow> rat list \<Rightarrow> jstring \<Rightarrow> series \<Rightarrow> bool" where
  "tallied h bounds k s \<longleftrightarrow>
     sCount s = length (filter (\<lambda>(k', _). k' = k) h) \<and>
     sCounts s = map (\<lambda>b. length (filter (\<lambda>(k', r). k' = k \<and> r \<le> b) h)) bounds"

definition histogramInv :: "metric \<Rightarrow> (jstring \<times> rat) list \<Rightarrow> bool" where
  "histogramInv m h \<longleftrightarrow>
     jm_wf (mSeries m) \<and> length (mSeries m) \<le> mMaxSeries m \<and> sorted (mBuckets m) \<and> distinct (mBuckets m) \<and>
     (\<forall>k s. jm_get (mSeries m) k = Some s \<longrightarrow> tallied h (mBuckets m) k s) \<and> (\<forall>(k, r) \<in> set h. jm_get (mSeries m) k \<noteq> None)"

end
