(* ===== verification/MetricsProperties.thy ===== *)
theory MetricsProperties
  imports Metrics
begin

text \<open>
  What the metrics promise: a metric never grows past its cap, a histogram counts exactly what it took, and the labels
  of unmatched requests are few.
\<close>

section \<open>Histograms\<close>

lemma map2_map: "map2 f xs (map g xs) = map (\<lambda>x. f x (g x)) xs"
  by (induction xs) simp_all

lemma jm_set_length: "jm_wf m \<Longrightarrow> length (jm_set k v m) = (if jm_get m k = None then Suc (length m) else length m)"
  by (induction m) (auto simp: jm_set_def jm_get_def jm_wf_def split: if_splits)

lemma tallied_new: "\<forall>(k', r) \<in> set h. k' \<noteq> k \<Longrightarrow> tallied h bounds k (emptySeries (length bounds))"
proof -
  assume a: "\<forall>(k', r) \<in> set h. k' \<noteq> k"
  then have "filter (\<lambda>(k', _). k' = k) h = []" "filter (\<lambda>(k', r). k' = k \<and> r \<le> b) h = []" for b by (auto simp: filter_empty_conv)
  then show ?thesis by (simp add: tallied_def emptySeries_def map_replicate_const)
qed

lemma tallied_labels [simp]: "tallied h bounds k (s\<lparr>sLabels := ls\<rparr>) = tallied h bounds k s"
  by (simp add: tallied_def)

lemma tallied_takes: "tallied h bounds k s \<Longrightarrow> tallied (h @ [(k, r)]) bounds k (record_observation bounds r s)"
  by (auto simp: tallied_def record_observation_def map2_map)

lemma tallied_other: "k' \<noteq> k \<Longrightarrow> tallied (h @ [(k', r)]) bounds k s = tallied h bounds k s"
  by (simp add: tallied_def)

lemma observe_cases:
  assumes "observe shown labels (Fin r) m = ok (dropped, m')" "histogramInv m h"
  shows "(dropped \<and> m' = m) \<or>
     (\<exists>s. \<not> dropped \<and> m' = m\<lparr>mSeries := jm_set (keyOfLabels shown m labels) (record_observation (mBuckets m) r s) (mSeries m)\<rparr> \<and>
        tallied h (mBuckets m) (keyOfLabels shown m labels) s \<and>
        (jm_get (mSeries m) (keyOfLabels shown m labels) = None \<longrightarrow> length (mSeries m) < mMaxSeries m))"
proof (cases "jm_get (mSeries m) (keyOfLabels shown m labels)")
  case (Some s)
  then show ?thesis using assms by (auto simp: observe_def onSeries_def Let_def histogramInv_def)
next
  case None
  then have "tallied h (mBuckets m) (keyOfLabels shown m labels) (emptySeries (length (mBuckets m)))"
    using assms(2) by (intro tallied_new) (auto simp: histogramInv_def)
  then have t: "tallied h (mBuckets m) (keyOfLabels shown m labels) ((emptySeries (length (mBuckets m)))\<lparr>sLabels := ls\<rparr>)" for ls by simp
  show ?thesis
  proof (cases "mMaxSeries m \<le> length (mSeries m)")
    case True
    then show ?thesis using assms(1) None by (simp add: observe_def onSeries_def Let_def)
  next
    case False
    then obtain ls where "\<not> dropped" "m' = m\<lparr>mSeries := jm_set (keyOfLabels shown m labels)
        (record_observation (mBuckets m) r ((emptySeries (length (mBuckets m)))\<lparr>sLabels := ls\<rparr>)) (mSeries m)\<rparr>"
      using assms(1) None by (auto simp: observe_def onSeries_def Let_def andThen_Inr_iff)
    then show ?thesis using t [of ls] False by auto
  qed
qed

lemma observed_inv: "observed shown m h \<Longrightarrow> mKind m = HistogramKind \<and> histogramInv m h"
proof (induction rule: observed.induct)
  case fresh
  then show ?case by (auto simp: newMetric_def histogramInv_def andThen_Inr_iff refuseIf_Inr_iff Let_def jm_wf_def jm_get_def)
next
  case (takes m h labels r dropped m')
  let ?k = "keyOfLabels shown m labels"
  have inv: "histogramInv m h" using takes by simp
  from observe_cases [OF takes(2) inv] show ?case
  proof (elim disjE exE conjE)
    fix s assume s: "\<not> dropped" "m' = m\<lparr>mSeries := jm_set ?k (record_observation (mBuckets m) r s) (mSeries m)\<rparr>"
      "tallied h (mBuckets m) ?k s" "jm_get (mSeries m) ?k = None \<longrightarrow> length (mSeries m) < mMaxSeries m"
    have "tallied (h @ [(?k, r)]) (mBuckets m) k s'" if "jm_get (mSeries m') k = Some s'" for k s'
      using that s(2) inv tallied_takes [OF s(3), of r] tallied_other [of ?k k]
      by (auto simp: histogramInv_def jm.get_put split: if_splits)
    moreover have "length (mSeries m') \<le> mMaxSeries m'" using s inv by (auto simp: histogramInv_def jm_set_length)
    moreover have "jm_wf (mSeries m')" using s(2) inv jm.wf_put [of "mSeries m"] by (simp add: histogramInv_def)
    ultimately show ?thesis using s(1,2) inv takes.IH by (auto simp: histogramInv_def jm.get_put)
  qed (use takes.IH in auto)
qed

text \<open>
  A histogram has at most as many series as its cap, and each of them counts exactly the observations it took: every
  bucket those at or under its bound, so the buckets rise with their bounds and none exceeds the count.
\<close>

theorem histogram_counts_exactly:
  assumes "observed shown m h" "jm_get (mSeries m) k = Some s"
  shows "length (mSeries m) \<le> mMaxSeries m \<and> sCount s = length (filter (\<lambda>(k', _). k' = k) h) \<and>
     sCounts s = map (\<lambda>b. length (filter (\<lambda>(k', r). k' = k \<and> r \<le> b) h)) (mBuckets m) \<and>
     sorted (sCounts s) \<and> (\<forall>c \<in> set (sCounts s). c \<le> sCount s)"
proof -
  have i: "histogramInv m h" using observed_inv [OF assms(1)] by simp
  have t: "tallied h (mBuckets m) k s" "sorted (mBuckets m)" using i assms(2) by (simp_all add: histogramInv_def)
  have mono: "length (filter P h) \<le> length (filter Q h)" if "\<And>x. P x \<Longrightarrow> Q x" for P Q
    using that by (induction h) auto
  have "sorted (map (\<lambda>b. length (filter (\<lambda>(k', r). k' = k \<and> r \<le> b) h)) (mBuckets m))"
    using t(2) by (intro sorted_map_mono) (auto simp: mono_on_def intro!: mono)
  then show ?thesis using t(1) i by (auto simp: tallied_def histogramInv_def intro!: mono)
qed

section \<open>Route labels\<close>

text \<open>However many requests match no route, they share at most twenty labels of their own, \<open>/\<close> and the overflow label.\<close>

fun labelled :: "jstring list \<Rightarrow> jstring list \<Rightarrow> jstring list \<times> jstring list" where
  "labelled [] seen = ([], seen)"
| "labelled (url # urls) seen =
     (let (l, seen) = routeLabel None url seen; (ls, seen) = labelled urls seen in (l # ls, seen))"

lemma routeLabel_step:
  "routeLabel None url seen = (l, seen') \<Longrightarrow> length seen \<le> UNMATCHED_ROUTE_LABEL_CAP \<Longrightarrow>
   length seen' \<le> UNMATCHED_ROUTE_LABEL_CAP \<and> set seen \<subseteq> set seen' \<and> l \<in> set seen' \<union> {js ''/'', js ''/_unmatched''}"
  by (auto simp: routeLabel_def Let_def split: list.splits if_splits)

lemma labelled_few:
  "labelled urls seen = (ls, seen') \<Longrightarrow> length seen \<le> UNMATCHED_ROUTE_LABEL_CAP \<Longrightarrow>
   length seen' \<le> UNMATCHED_ROUTE_LABEL_CAP \<and> set seen \<subseteq> set seen' \<and> set ls \<subseteq> set seen' \<union> {js ''/'', js ''/_unmatched''}"
proof (induction urls arbitrary: seen ls)
  case (Cons url urls)
  obtain l s1 where 1: "routeLabel None url seen = (l, s1)" by force
  obtain ls' where 2: "labelled urls s1 = (ls', seen')" "ls = l # ls'" using Cons.prems(1) 1 by (auto split: prod.splits)
  show ?case using routeLabel_step [OF 1 Cons.prems(2)] Cons.IH [OF 2(1)] 2(2) by auto
qed simp

end
