(* ===== verification/Instrumentation.thy ===== *)
theory Instrumentation
  imports Metrics Compression
begin

text \<open>
  How a process wires its observability, \<open>src/src/observability/index.js\<close>: the handles of the module (the logger, the
  registry, the patched console, whether a shipper is on the registry, the bound console), the calls that set them up and
  take them down, and the timing of requests. A logger is a number, a registry too; what a logger writes to is kept beside it.
  Lines a logger drops for their level, and the counter of series dropped at their cap, are not followed.
\<close>

section \<open>The console\<close>

text \<open>A console method is the one the runtime came with, or the patch that hands the line to a logger at a level.\<close>

datatype consoleFn =
    Original string
  | ToLogger nat string

datatype sink =
    GlobalConsole
  | Bound "string \<Rightarrow> consoleFn"

record loggerMade =
  lmSink :: sink
  lmRegistry :: "nat option"

record patchHandle =
  paLogger :: nat
  paOriginals :: "string \<Rightarrow> consoleFn option"

record observability =
  osLogger :: "nat option"
  osRegistry :: "nat option"
  osRegistries :: nat
  osPatched :: "patchHandle option"
  osAttached :: bool
  osSink :: "(string \<Rightarrow> consoleFn) option"
  osConsole :: "string \<Rightarrow> consoleFn option"
  osLoggers :: "loggerMade list"

definition CONSOLE_METHODS :: "(string \<times> string) list" where
  "CONSOLE_METHODS = [(''log'', ''info''), (''info'', ''info''), (''warn'', ''warn''), (''error'', ''error''), (''debug'', ''debug'')]"

text \<open>The handles of a process that has loaded the module, over the console of the runtime, which has \<open>log\<close>.\<close>

definition loaded :: "(string \<Rightarrow> bool) \<Rightarrow> observability" where
  "loaded present = \<lparr>osLogger = None, osRegistry = None, osRegistries = 0, osPatched = None, osAttached = False, osSink = None,
     osConsole = (\<lambda>n. if present n \<or> n = ''log'' then Some (Original n) else None), osLoggers = []\<rparr>"

definition getRegistry :: "observability \<Rightarrow> nat \<times> observability" where
  "getRegistry st =
     (case osRegistry st of
        Some g \<Rightarrow> (g, st)
      | None \<Rightarrow> (osRegistries st, st\<lparr>osRegistry := Some (osRegistries st), osRegistries := osRegistries st + 1\<rparr>))"

text \<open>\<open>newShipper\<close>, given the console of the call, and the logger it makes.\<close>

definition newLogger :: "(string \<Rightarrow> consoleFn) option \<Rightarrow> observability \<Rightarrow> nat \<times> observability" where
  "newLogger given st =
     (let (reg, st) = (if osAttached st then (None, st) else let (g, st) = getRegistry st in (Some g, st\<lparr>osAttached := True\<rparr>));
          sink = (case given of Some f \<Rightarrow> Bound f | None \<Rightarrow> (case osSink st of Some f \<Rightarrow> Bound f | None \<Rightarrow> GlobalConsole))
      in (length (osLoggers st), st\<lparr>osLoggers := osLoggers st @ [\<lparr>lmSink = sink, lmRegistry = reg\<rparr>]\<rparr>))"

definition orLog :: "(string \<Rightarrow> consoleFn option) \<Rightarrow> string \<Rightarrow> consoleFn option" where
  "orLog console name = (case console name of Some f \<Rightarrow> Some f | None \<Rightarrow> console ''log'')"

text \<open>\<open>off\<close> is whether \<open>XCHAIN_LOG_PATCH\<close> is \<open>0\<close>. The bound console has the methods the patch replaces.\<close>

definition patchConsole :: "bool \<Rightarrow> observability \<Rightarrow> observability" where
  "patchConsole off st =
     (if osPatched st \<noteq> None \<or> off then st
      else let originals = osConsole st;
               bound = (\<lambda>n. case orLog originals n of Some f \<Rightarrow> f | None \<Rightarrow> Original n);
               (l, st) = newLogger (Some bound) (st\<lparr>osSink := Some bound\<rparr>)
           in st\<lparr>osLogger := Some l,
                 osConsole := (\<lambda>n. case map_of CONSOLE_METHODS n of Some level \<Rightarrow> Some (ToLogger l level) | None \<Rightarrow> osConsole st n),
                 osPatched := Some \<lparr>paLogger = l, paOriginals = originals\<rparr>\<rparr>)"

definition unpatchConsole :: "observability \<Rightarrow> observability" where
  "unpatchConsole st =
     (case osPatched st of
        None \<Rightarrow> st
      | Some p \<Rightarrow> st\<lparr>osConsole := (\<lambda>n. if n \<in> set (map fst CONSOLE_METHODS) then paOriginals p n else osConsole st n),
          osPatched := None, osSink := None, osLogger := (if osLogger st = Some (paLogger p) then None else osLogger st)\<rparr>)"

text \<open>\<open>given\<close> is the console of the call, a list of functions of its own, \<open>transport\<close> whether it brings a transport.\<close>

definition installObservability :: "(string \<Rightarrow> string) option \<Rightarrow> bool \<Rightarrow> observability \<Rightarrow> nat \<times> observability" where
  "installObservability given transport st =
     (let (g, st) = getRegistry st
      in case osLogger st of
           Some l \<Rightarrow> if given = None \<and> \<not> transport then (l, st) else newLogger (map_option (\<lambda>f n. Original (f n)) given) st
         | None \<Rightarrow> (let (l, st) = newLogger (map_option (\<lambda>f n. Original (f n)) given) st in (l, st\<lparr>osLogger := Some l\<rparr>)))"

definition resetObservability :: "observability \<Rightarrow> observability" where
  "resetObservability st = (unpatchConsole st)\<lparr>osLogger := None, osRegistry := None, osAttached := False\<rparr>"

text \<open>Where a line at a level goes: from a logger, and from the handle \<open>getLogger\<close> returns before and after a logger is set.\<close>

definition methodFor :: "string \<Rightarrow> string" where
  "methodFor level = (if level = ''error'' then ''error'' else if level = ''warn'' then ''warn'' else ''log'')"

definition emitLocal :: "observability \<Rightarrow> nat \<Rightarrow> string \<Rightarrow> consoleFn option" where
  "emitLocal st l level =
     (case lmSink (osLoggers st ! l) of
        Bound f \<Rightarrow> Some (f (methodFor level))
      | GlobalConsole \<Rightarrow> orLog (osConsole st) (methodFor level))"

definition lazyLog :: "observability \<Rightarrow> string \<Rightarrow> consoleFn option" where
  "lazyLog st level = (case osLogger st of Some l \<Rightarrow> Some (ToLogger l level) | None \<Rightarrow> osConsole st (methodFor level))"

text \<open>What a process does with the module, in any order.\<close>

inductive wired :: "observability \<Rightarrow> bool" where
  start: "wired (loaded present)"
| patch: "wired st \<Longrightarrow> wired (patchConsole off st)"
| unpatch: "wired st \<Longrightarrow> wired (unpatchConsole st)"
| install: "wired st \<Longrightarrow> wired (snd (installObservability given transport st))"
| ask: "wired st \<Longrightarrow> wired (snd (getRegistry st))"
| reset: "wired st \<Longrightarrow> wired (resetObservability st)"

section \<open>The timing of requests\<close>

text \<open>The three HTTP metrics, the segments with a label of their own, the start of each timed request and which are done.\<close>

record timing =
  tiInFlight :: metric
  tiDuration :: metric
  tiRequests :: metric
  tiSeen :: "jstring list"
  tiStarted :: "(nat, int) jmap"
  tiDone :: "nat list"

definition httpMetrics :: "nat \<Rightarrow> timing result" where
  "httpMetrics maxSeries =
     andThen (newMetric CounterKind (js ''http_requests_total'') (js ''HTTP requests handled, by method, route and status class'')
       [js ''method'', js ''route'', js ''status''] maxSeries None) (\<lambda>requests.
     andThen (newMetric HistogramKind (js ''http_request_duration_seconds'') (js ''HTTP request latency in seconds'')
       [js ''method'', js ''route''] maxSeries (Some DEFAULT_DURATION_BUCKETS)) (\<lambda>duration.
     andThen (newMetric GaugeKind (js ''http_requests_in_flight'') (js ''HTTP requests currently being served'') [] maxSeries None) (\<lambda>inFlight.
     ok \<lparr>tiInFlight = inFlight, tiDuration = duration, tiRequests = requests, tiSeen = [], tiStarted = [], tiDone = []\<rparr>)))"

text \<open>A mutator that throws changes nothing; the caller learns whether it threw.\<close>

definition applied :: "(metric \<Rightarrow> (bool \<times> metric) result) \<Rightarrow> metric \<Rightarrow> bool \<times> metric" where
  "applied mutate m = (case mutate m of Inr (_, m') \<Rightarrow> (True, m') | Inl _ \<Rightarrow> (False, m))"

text \<open>The middleware on a request of the given path, at \<open>now\<close> in nanoseconds.\<close>

definition timeRequest :: "(jsval \<Rightarrow> jstring) \<Rightarrow> jstring \<Rightarrow> nat \<Rightarrow> jstring \<Rightarrow> int \<Rightarrow> timing \<Rightarrow> timing" where
  "timeRequest shown metricsPath r path now ti =
     (if hd (splitOn 63 path) = metricsPath then ti
      else ti\<lparr>tiInFlight := snd (applied (gaugeInc shown (Obj []) 1) (tiInFlight ti)), tiStarted := jm_set r now (tiStarted ti)\<rparr>)"

text \<open>\<open>finish\<close>, on the events \<open>finish\<close> and \<open>close\<close> of the response alike.\<close>

definition finishRequest :: "(jsval \<Rightarrow> jstring) \<Rightarrow> nat \<Rightarrow> (jstring \<times> jstring) option \<Rightarrow> jstring \<Rightarrow> jstring \<Rightarrow> jstring \<Rightarrow> int \<Rightarrow> timing \<Rightarrow> timing" where
  "finishRequest shown r route url verb code now ti =
     (case jm_get (tiStarted ti) r of
        None \<Rightarrow> ti
      | Some since \<Rightarrow>
          if r \<in> set (tiDone ti) then ti
          else let inFlight = snd (applied (gaugeInc shown (Obj []) (- 1)) (tiInFlight ti));
                   seconds = fl (fl (of_int (now - since)) / 1000000000);
                   (label, seen) = routeLabel route url (tiSeen ti);
                   meth = toUpper (if verb = [] then js ''GET'' else verb);
                   (observed', duration) = applied (observe shown (Obj [(js ''method'', Str meth), (js ''route'', Str label)]) (Fin seconds)) (tiDuration ti);
                   requests = (if observed'
                     then snd (applied (counterInc shown (Obj [(js ''method'', Str meth), (js ''route'', Str label), (js ''status'', Str code)]) (Fin 1)) (tiRequests ti))
                     else tiRequests ti)
               in ti\<lparr>tiInFlight := inFlight, tiDuration := duration, tiRequests := requests, tiSeen := seen, tiDone := tiDone ti @ [r]\<rparr>)"

text \<open>The process serves requests, each by a number of its own.\<close>

inductive serves :: "(jsval \<Rightarrow> jstring) \<Rightarrow> jstring \<Rightarrow> timing \<Rightarrow> bool" for shown metricsPath where
  begins: "httpMetrics maxSeries = ok ti \<Longrightarrow> 0 < maxSeries \<Longrightarrow> serves shown metricsPath ti"
| arrives: "serves shown metricsPath ti \<Longrightarrow> jm_get (tiStarted ti) r = None \<Longrightarrow> serves shown metricsPath (timeRequest shown metricsPath r path now ti)"
| ends: "serves shown metricsPath ti \<Longrightarrow> serves shown metricsPath (finishRequest shown r route url verb code now ti)"

end
