(* ===== verification/InstrumentationProperties.thy ===== *)
theory InstrumentationProperties
  imports Instrumentation
begin

text \<open>
  What the wiring promises, in whatever order a process does it: a log line reaches the console of the runtime and never
  comes round again, at most one logger counts on a registry, and the gauge of requests in flight is exact.
\<close>

section \<open>Lines and registries\<close>

definition plain :: "(string \<Rightarrow> consoleFn option) \<Rightarrow> bool" where
  "plain console \<longleftrightarrow> console ''log'' \<noteq> None \<and> (\<forall>n f. console n = Some f \<longrightarrow> (\<exists>m. f = Original m))"

definition soundSink :: "sink \<Rightarrow> bool" where
  "soundSink s \<longleftrightarrow> (\<forall>f n. s = Bound f \<longrightarrow> (\<exists>m. f n = Original m))"

definition consoleInv :: "observability \<Rightarrow> bool" where
  "consoleInv st \<longleftrightarrow> (\<forall>m \<in> set (osLoggers st). soundSink (lmSink m)) \<and> (\<forall>f n. osSink st = Some f \<longrightarrow> (\<exists>m. f n = Original m)) \<and>
     (case osPatched st of
        None \<Rightarrow> plain (osConsole st)
      | Some p \<Rightarrow> plain (paOriginals p) \<and> paLogger p < length (osLoggers st) \<and> lmSink (osLoggers st ! paLogger p) \<noteq> GlobalConsole \<and>
          (\<forall>n. osConsole st n = (case map_of CONSOLE_METHODS n of Some level \<Rightarrow> Some (ToLogger (paLogger p) level) | None \<Rightarrow> paOriginals p n)))"

definition registryInv :: "observability \<Rightarrow> bool" where
  "registryInv st \<longleftrightarrow> (\<forall>g. osRegistry st = Some g \<longrightarrow> g < osRegistries st) \<and>
     (\<forall>m \<in> set (osLoggers st). \<forall>g. lmRegistry m = Some g \<longrightarrow> g < osRegistries st \<and> (osAttached st \<or> osRegistry st \<noteq> Some g)) \<and>
     (\<forall>g. length (filter (\<lambda>m. lmRegistry m = Some g) (osLoggers st)) \<le> 1)"

lemma registry_asked:
  "fst (getRegistry st) = (case osRegistry st of Some g \<Rightarrow> g | None \<Rightarrow> osRegistries st)"
  "osRegistry (snd (getRegistry st)) = Some (fst (getRegistry st))"
  "osRegistries (snd (getRegistry st)) = (if osRegistry st = None then osRegistries st + 1 else osRegistries st)"
  "osLoggers (snd (getRegistry st)) = osLoggers st" "osPatched (snd (getRegistry st)) = osPatched st" "osSink (snd (getRegistry st)) = osSink st"
  "osConsole (snd (getRegistry st)) = osConsole st" "osLogger (snd (getRegistry st)) = osLogger st" "osAttached (snd (getRegistry st)) = osAttached st"
  by (auto simp: getRegistry_def split: option.splits)

lemma logger_made:
  assumes "newLogger given st = (l, st')"
  shows "l = length (osLoggers st)" "osLoggers st' = osLoggers st @ [\<lparr>lmSink = (case given of Some f \<Rightarrow> Bound f | None \<Rightarrow>
       (case osSink st of Some f \<Rightarrow> Bound f | None \<Rightarrow> GlobalConsole)), lmRegistry = (if osAttached st then None else Some (fst (getRegistry st)))\<rparr>]"
    "osPatched st' = osPatched st" "osSink st' = osSink st" "osConsole st' = osConsole st" "osLogger st' = osLogger st" "osAttached st'"
    "osRegistry st' = (if osAttached st then osRegistry st else Some (fst (getRegistry st)))"
    "osRegistries st' = (if osAttached st then osRegistries st else osRegistries (snd (getRegistry st)))"
  using assms registry_asked [of st] by (cases "osAttached st"; auto simp: newLogger_def Let_def case_prod_beta split: option.splits)+

lemma registry_new:
  assumes "newLogger given st = (l, st')" "registryInv st"
  shows "registryInv st'"
proof -
  let ?g = "fst (getRegistry st)"
  have g: "?g < osRegistries (snd (getRegistry st))" "osRegistries st \<le> osRegistries (snd (getRegistry st))"
    using assms(2) by (auto simp: registry_asked registryInv_def split: option.splits)
  have fresh: "lmRegistry m \<noteq> Some ?g" if "\<not> osAttached st" "m \<in> set (osLoggers st)" for m
    using assms(2) that by (fastforce simp: registry_asked registryInv_def split: option.splits)
  then have none: "filter (\<lambda>m. lmRegistry m = Some ?g) (osLoggers st) = []" if "\<not> osAttached st" using that by (auto simp: filter_empty_conv)
  note made = logger_made [OF assms(1)]
  show ?thesis
  proof (cases "osAttached st")
    case True
    then show ?thesis using assms(2) made by (auto simp: registryInv_def)
  next
    case False
    have "length (filter (\<lambda>m. lmRegistry m = Some g) (osLoggers st')) \<le> 1" for g
      using assms(2) none [OF False] made(2) False by (cases "g = ?g") (auto simp: registryInv_def)
    then show ?thesis using assms(2) made g False by (auto simp: registryInv_def intro: order.strict_trans2)
  qed
qed

lemma registry_frames:
  "registryInv (st\<lparr>osLogger := x\<rparr>) = registryInv st" "registryInv (st\<lparr>osConsole := c\<rparr>) = registryInv st"
  "registryInv (st\<lparr>osPatched := p\<rparr>) = registryInv st" "registryInv (st\<lparr>osSink := s\<rparr>) = registryInv st"
  by (simp_all add: registryInv_def)

lemma registry_ask: "registryInv st \<Longrightarrow> registryInv (snd (getRegistry st))"
  by (fastforce simp: registryInv_def registry_asked split: option.splits)

lemma registry_kept: "wired st \<Longrightarrow> registryInv st"
proof (induction rule: wired.induct)
  case (patch st off)
  then show ?case by (auto simp: patchConsole_def Let_def registry_frames case_prod_beta intro!: registry_new [OF surjective_pairing])
next
  case (unpatch st)
  then show ?case by (simp add: unpatchConsole_def registry_frames split: option.split)
next
  case (install st given transport)
  then show ?case using registry_ask [OF install.IH]
    by (auto simp: installObservability_def Let_def registry_frames case_prod_beta split: option.split intro!: registry_new [OF surjective_pairing])
next
  case (reset st)
  then have "registryInv (unpatchConsole st)" by (simp add: unpatchConsole_def registry_frames split: option.split)
  then show ?case by (auto simp: resetObservability_def registryInv_def)
next
  case (ask st)
  then show ?case by (intro registry_ask)
qed (simp add: registryInv_def loaded_def)

text \<open>In whatever order a process patches, restores, installs and resets, no two loggers count on one registry.\<close>

theorem one_logger_per_registry:
  assumes "wired st" "i < length (osLoggers st)" "j < length (osLoggers st)" "lmRegistry (osLoggers st ! i) = Some g" "lmRegistry (osLoggers st ! j) = Some g"
  shows "i = j"
proof (rule ccontr)
  assume "i \<noteq> j"
  moreover have "{i, j} \<subseteq> {k. k < length (osLoggers st) \<and> lmRegistry (osLoggers st ! k) = Some g}" using assms by simp
  then have "card {i, j} \<le> length (filter (\<lambda>m. lmRegistry m = Some g) (osLoggers st))" unfolding length_filter_conv_card by (rule card_mono [rotated]) simp
  ultimately show False using registry_kept [OF assms(1)] by (auto simp: registryInv_def dest: spec [of _ g])
qed

lemma console_made:
  assumes "newLogger given st = (l, st')" "consoleInv st" "\<forall>f n. given = Some f \<longrightarrow> (\<exists>m. f n = Original m)"
  shows "consoleInv st'"
proof -
  have "soundSink (case given of Some f \<Rightarrow> Bound f | None \<Rightarrow> (case osSink st of Some f \<Rightarrow> Bound f | None \<Rightarrow> GlobalConsole))"
    using assms(2,3) by (auto simp: soundSink_def consoleInv_def split: option.splits)
  then show ?thesis using assms(2) logger_made [OF assms(1)] by (auto simp: consoleInv_def nth_append split: option.splits)
qed

lemma console_frames: "consoleInv (st\<lparr>osLogger := x\<rparr>) = consoleInv st" "consoleInv (snd (getRegistry st)) = consoleInv st"
  by (simp_all add: consoleInv_def registry_asked split: option.split)

lemma console_patched:
  assumes "consoleInv st"
  shows "consoleInv (patchConsole off st)"
proof (cases "osPatched st \<noteq> None \<or> off")
  case False
  let ?b = "\<lambda>n. case orLog (osConsole st) n of Some f \<Rightarrow> f | None \<Rightarrow> Original n"
  have plain: "plain (osConsole st)" using assms False by (simp add: consoleInv_def)
  then have b: "\<exists>m. ?b n = Original m" for n by (auto simp: plain_def orLog_def split: option.splits)
  obtain l st' where made: "newLogger (Some ?b) (st\<lparr>osSink := Some ?b\<rparr>) = (l, st')" by force
  have "soundSink (Bound ?b)" using b by (auto simp: soundSink_def)
  then show ?thesis using False assms plain b logger_made [OF made]
    by (auto simp: patchConsole_def made consoleInv_def nth_append split: option.splits)
qed (use assms in \<open>auto simp: patchConsole_def\<close>)

lemma plain_writes: "plain console \<Longrightarrow> \<exists>n. orLog console m = Some (Original n)"
  by (cases "console m"; cases "console ''log''") (auto simp: plain_def orLog_def)

lemma methods_restored: "n \<notin> set (map fst CONSOLE_METHODS) \<Longrightarrow> (case map_of CONSOLE_METHODS n of Some level \<Rightarrow> g level | None \<Rightarrow> x) = x"
  by (simp add: map_of_eq_None_iff [THEN iffD2])

lemma console_unpatched: "consoleInv st \<Longrightarrow> consoleInv (unpatchConsole st)"
proof (cases "osPatched st")
  case (Some p)
  assume inv: "consoleInv st"
  then have "osConsole (unpatchConsole st) = paOriginals p"
    using Some by (simp add: consoleInv_def unpatchConsole_def methods_restored fun_eq_iff del: set_map)
  then show ?thesis using inv Some by (simp add: unpatchConsole_def consoleInv_def)
qed (simp add: unpatchConsole_def)

lemma console_kept: "wired st \<Longrightarrow> consoleInv st"
proof (induction rule: wired.induct)
  case (install st given transport)
  have "consoleInv (snd (getRegistry st))" using install by (simp add: console_frames)
  then show ?case
    by (auto simp: installObservability_def Let_def console_frames case_prod_beta split: option.split intro!: console_made [OF surjective_pairing])
next
  case (reset st)
  then have "consoleInv (unpatchConsole st)" by (intro console_unpatched)
  then show ?case by (simp add: resetObservability_def consoleInv_def split: option.splits)
next
  case (start present)
  show ?case by (auto simp: consoleInv_def loaded_def plain_def)
qed (simp_all add: console_patched console_unpatched console_frames)

text \<open>
  A line never comes round: whatever logger takes it, it goes to the console of the runtime, or to the one logger behind
  the patched console, which goes there itself.
\<close>

theorem console_never_loops:
  assumes "wired st" "l < length (osLoggers st)"
  shows "\<exists>f. emitLocal st l level = Some f \<and>
     (case f of Original n \<Rightarrow> True | ToLogger k level' \<Rightarrow> k < length (osLoggers st) \<and> (\<exists>n. emitLocal st k level' = Some (Original n)))"
proof -
  have inv: "consoleInv st" by (rule console_kept [OF assms(1)])
  have bound: "\<exists>n. emitLocal st k lv = Some (Original n)" if k: "k < length (osLoggers st)" "lmSink (osLoggers st ! k) \<noteq> GlobalConsole" for k lv
  proof -
    obtain f where f: "lmSink (osLoggers st ! k) = Bound f" using k(2) by (cases "lmSink (osLoggers st ! k)") auto
    moreover have "soundSink (lmSink (osLoggers st ! k))" using inv k(1) by (simp add: consoleInv_def)
    ultimately show ?thesis by (auto simp: emitLocal_def soundSink_def)
  qed
  show ?thesis
  proof (cases "lmSink (osLoggers st ! l)")
    case GlobalConsole
    show ?thesis
    proof (cases "osPatched st")
      case None
      then have "plain (osConsole st)" using inv by (simp add: consoleInv_def)
      then obtain n where "orLog (osConsole st) (methodFor level) = Some (Original n)" using plain_writes by blast
      then show ?thesis using GlobalConsole by (simp add: emitLocal_def)
    next
      case (Some p)
      obtain lv where "map_of CONSOLE_METHODS (methodFor level) = Some lv" by (cases "level = ''error''"; cases "level = ''warn''") (auto simp: methodFor_def CONSOLE_METHODS_def)
      then have "emitLocal st l level = Some (ToLogger (paLogger p) lv)" "paLogger p < length (osLoggers st)" "lmSink (osLoggers st ! paLogger p) \<noteq> GlobalConsole"
        using inv Some GlobalConsole by (auto simp: emitLocal_def orLog_def consoleInv_def)
      then show ?thesis using bound by simp
    qed
  next
    case (Bound f)
    then obtain n where "emitLocal st l level = Some (Original n)" using bound [OF assms(2)] by auto
    then show ?thesis by simp
  qed
qed

text \<open>Taking the patch down puts every method of the console back as it was, absent ones included.\<close>

theorem unpatch_restores:
  assumes "osPatched st = None"
  shows "osConsole (unpatchConsole (patchConsole off st)) = osConsole st" "osPatched (unpatchConsole (patchConsole off st)) = None"
proof -
  let ?b = "\<lambda>n. case orLog (osConsole st) n of Some f \<Rightarrow> f | None \<Rightarrow> Original n"
  obtain l st' where made: "newLogger (Some ?b) (st\<lparr>osSink := Some ?b\<rparr>) = (l, st')" by force
  have "osConsole st' = osConsole st" using logger_made(5) [OF made] by simp
  then have "osConsole (unpatchConsole (patchConsole off st)) n = osConsole st n" for n
    using assms by (simp add: patchConsole_def unpatchConsole_def made methods_restored del: set_map)
  then show "osConsole (unpatchConsole (patchConsole off st)) = osConsole st" by blast
  show "osPatched (unpatchConsole (patchConsole off st)) = None" by (simp add: unpatchConsole_def split: option.split)
qed

section \<open>Requests in flight\<close>

text \<open>The gauge holds the number of timed requests that have not ended, whether they end by \<open>finish\<close>, by \<open>close\<close> or by both.\<close>

definition gaugeHolds :: "metric \<Rightarrow> nat \<Rightarrow> bool \<Rightarrow> bool" where
  "gaugeHolds m n used \<longleftrightarrow> mLabelNames m = [] \<and> 0 < mMaxSeries m \<and>
     (if used then \<exists>s. mSeries m = [([], s)] \<and> sValue s = of_nat n else mSeries m = [] \<and> n = 0)"

lemma gauge_moves:
  assumes "gaugeHolds m n used" "int n \<le> 2 ^ 52" "d = 1 \<or> d = - 1 \<and> used \<and> 0 < n"
  shows "gaugeHolds (snd (applied (gaugeInc shown (Obj []) (of_int d)) m)) (nat (int n + d)) True"
proof -
  have "\<bar>int n + d\<bar> < 2 ^ 53" using assms(2,3) by auto
  then have "fl (of_int (int n + d)) = of_int (int n + d)" by (rule fl_int)
  then have v: "fl (of_nat n + of_int d) = (of_nat (nat (int n + d)) :: rat)" using assms(3) by (auto simp: nat_add_distrib of_nat_diff)
  show ?thesis
  proof (cases used)
    case True
    then obtain s where "mSeries m = [([], s)]" "sValue s = of_nat n" using assms(1) by (auto simp: gaugeHolds_def)
    then show ?thesis using assms(1) v
      by (simp add: applied_def gaugeInc_def onSeries_def keyOfLabels_def gaugeHolds_def jm_get_def jm_set_def Let_def)
  next
    case False
    then have "mSeries m = []" "n = 0" "d = 1" using assms by (auto simp: gaugeHolds_def)
    then show ?thesis using assms(1) v
      by (simp add: applied_def gaugeInc_def onSeries_def keyOfLabels_def gaugeHolds_def jm_get_def jm_set_def Let_def normalizeLabels_def
          keysOf_def refuseIf_def emptySeries_def)
  qed
qed

definition timingInv :: "timing \<Rightarrow> bool" where
  "timingInv ti \<longleftrightarrow> jm_wf (tiStarted ti) \<and> distinct (tiDone ti) \<and> set (tiDone ti) \<subseteq> set (map fst (tiStarted ti)) \<and>
     (int (length (tiStarted ti)) \<le> 2 ^ 52 \<longrightarrow> gaugeHolds (tiInFlight ti) (length (tiStarted ti) - length (tiDone ti)) (tiStarted ti \<noteq> []))"

lemma started_length: "jm_get m r = None \<Longrightarrow> length (jm_set r v m) = length m + 1 \<and> set (map fst (jm_set r v m)) = insert r (set (map fst m))"
  by (induction m) (auto simp: jm_set_def jm_get_def split: if_splits)

lemma done_fewer:
  assumes "timingInv ti" "jm_get (tiStarted ti) r \<noteq> None" "r \<notin> set (tiDone ti)"
  shows "length (tiDone ti) < length (tiStarted ti)"
proof -
  have "set (r # tiDone ti) \<subseteq> set (map fst (tiStarted ti))" using assms by (auto simp: timingInv_def jm_get_def map_of_eq_None_iff)
  then have "card (set (r # tiDone ti)) \<le> card (set (map fst (tiStarted ti)))" by (rule card_mono [rotated]) simp
  also have "\<dots> \<le> length (map fst (tiStarted ti))" by (rule card_length)
  finally show ?thesis using assms by (simp add: timingInv_def distinct_card)
qed

lemma timing_kept: "serves shown path ti \<Longrightarrow> timingInv ti"
proof (induction rule: serves.induct)
  case (begins maxSeries ti)
  then show ?case by (auto simp: httpMetrics_def newMetric_def timingInv_def gaugeHolds_def andThen_Inr_iff Let_def jm_wf_def)
next
  case (arrives ti r url now)
  let ?n = "length (tiStarted ti) - length (tiDone ti)"
  have len: "length (tiDone ti) \<le> length (tiStarted ti)"
    using arrives.IH card_mono [of "set (map fst (tiStarted ti))" "set (tiDone ti)"] card_length [of "map fst (tiStarted ti)"]
    by (simp add: timingInv_def distinct_card)
  have *: "gaugeHolds (snd (applied (gaugeInc shown (Obj []) (of_int 1)) (tiInFlight ti))) (nat (int ?n + 1)) True"
    if "int (length (tiStarted ti)) \<le> 2 ^ 52"
    using arrives.IH that len by (intro gauge_moves [where used = "tiStarted ti \<noteq> []"]) (auto simp: timingInv_def of_nat_diff)
  have "gaugeHolds (snd (applied (gaugeInc shown (Obj []) 1) (tiInFlight ti))) (Suc (length (tiStarted ti)) - length (tiDone ti)) True"
    if "int (length (tiStarted ti)) \<le> 2 ^ 52" proof -
    have "nat (int ?n + 1) = Suc (length (tiStarted ti)) - length (tiDone ti)" using len by linarith
    with * [OF that] show ?thesis by (simp only: of_int_1)
  qed
  moreover have "jm_set r now (tiStarted ti) \<noteq> []" using started_length [OF arrives(2), of now] by auto
  ultimately show ?case using arrives len started_length [OF arrives(2), of now]
    by (auto simp: timeRequest_def timingInv_def jm.wf_put)
next
  case (ends ti r route url verb code now)
  show ?case
  proof (cases "jm_get (tiStarted ti) r = None \<or> r \<in> set (tiDone ti)")
    case True
    then show ?thesis using ends.IH by (auto simp: finishRequest_def split: option.splits)
  next
    case False
    let ?n = "length (tiStarted ti) - length (tiDone ti)"
    have pos: "length (tiDone ti) < length (tiStarted ti)" using done_fewer [OF ends.IH] False by blast
    have r: "r \<in> set (map fst (tiStarted ti))" using False by (simp add: jm_get_def map_of_eq_None_iff)
    have "gaugeHolds (snd (applied (gaugeInc shown (Obj []) (of_int (- 1))) (tiInFlight ti))) (nat (int ?n + (- 1))) True"
      if "int (length (tiStarted ti)) \<le> 2 ^ 52"
      using ends.IH that pos by (intro gauge_moves [where used = "tiStarted ti \<noteq> []"]) (auto simp: timingInv_def of_nat_diff)
    moreover have "nat (int ?n + (- 1)) = length (tiStarted ti) - length (tiDone ti @ [r])" using pos by simp
    ultimately have g: "gaugeHolds (snd (applied (gaugeInc shown (Obj []) (- 1)) (tiInFlight ti))) (length (tiStarted ti) - length (tiDone ti @ [r])) True"
      if "int (length (tiStarted ti)) \<le> 2 ^ 52" using that by (simp only: of_int_minus of_int_1)
    have "tiStarted ti \<noteq> []" using pos by auto
    moreover obtain ti' where "finishRequest shown r route url verb code now ti = ti'" "tiStarted ti' = tiStarted ti" "tiDone ti' = tiDone ti @ [r]"
      "tiInFlight ti' = snd (applied (gaugeInc shown (Obj []) (- 1)) (tiInFlight ti))"
      using False by (auto simp: finishRequest_def Let_def case_prod_beta split: option.splits)
    ultimately show ?thesis using ends.IH False r g by (simp add: timingInv_def)
  qed
qed

theorem in_flight_exact:
  assumes "serves shown metricsPath ti" "tiStarted ti \<noteq> []" "int (length (tiStarted ti)) \<le> 2 ^ 52"
  shows "\<exists>s. mSeries (tiInFlight ti) = [([], s)] \<and> sValue s = of_nat (length (filter (\<lambda>(r, _). r \<notin> set (tiDone ti)) (tiStarted ti)))"
proof -
  have inv: "timingInv ti" by (rule timing_kept [OF assms(1)])
  then have d: "distinct (map fst (tiStarted ti))" "distinct (tiDone ti)" "set (tiDone ti) \<subseteq> set (map fst (tiStarted ti))"
    by (auto simp: timingInv_def jm_wf_def)
  have "length (filter (\<lambda>(r, _). r \<notin> set (tiDone ti)) (tiStarted ti)) = length (filter (\<lambda>r. r \<notin> set (tiDone ti)) (map fst (tiStarted ti)))"
    by (simp add: filter_map comp_def case_prod_unfold)
  also have "\<dots> = card (set (map fst (tiStarted ti)) - set (tiDone ti))"
    using distinct_card [OF distinct_filter [OF d(1)], of "\<lambda>r. r \<notin> set (tiDone ti)"] by (simp add: set_diff_eq [symmetric])
  also have "\<dots> = length (tiStarted ti) - length (tiDone ti)"
    using d by (simp only: card_Diff_subset finite_set distinct_card length_map)
  finally show ?thesis using inv assms(2,3) by (simp add: timingInv_def gaugeHolds_def)
qed

end
