(* ===== verification/WideAmounts.thy ===== *)
theory WideAmounts
  imports Wire JsValue
begin

text \<open>
  Satoshi amounts up to the wire's 64 bits, \<open>src/src/build/apply_bufferutils_patch\<close>: the bounds check and the narrowing of
  \<open>u64.js\<close>, the value shims of \<open>compat.js\<close>, and the readers and writers \<open>v7.js\<close> puts in place of those of
  \<open>bitcoinjs-lib\<close>. The 64-bit reader and writer of the package \<open>uint8array-tools\<close> are an interface. The wrappers that
  only turn one byte array type into another are not modelled: a byte array has one type here.
\<close>

section \<open>Bounds and narrowing\<close>

definition MAX_U64 :: int where "MAX_U64 = 0xffffffffffffffff"

definition verifyU64 :: "jsval \<Rightarrow> int result" where
  "verifyU64 v =
     (case v of
        Num n \<Rightarrow>
          if js_lt n 0 then throw (InternalError ''specified a negative value for writing an unsigned value'')
          else if js_gt n (of_int MAX_SAFE_INTEGER) then throw (InternalError ''RangeError: value out of range'')
          else (case n of
                  Fin r \<Rightarrow> if isInteger n then ok \<lfloor>r\<rfloor> else throw (InternalError ''value has a fractional component'')
                | _ \<Rightarrow> throw (InternalError ''value has a fractional component''))
      | BigInt i \<Rightarrow>
          if i < 0 then throw (InternalError ''specified a negative value for writing an unsigned value'')
          else if MAX_U64 < i then throw (InternalError ''RangeError: value out of range'') else ok i
      | _ \<Rightarrow> throw (InternalError ''cannot write a non-number as a number''))"

definition narrowU64 :: "int \<Rightarrow> jsval" where
  "narrowU64 i = (if i \<le> MAX_SAFE_INTEGER then Num (js_Number_int i) else BigInt i)"

section \<open>Values handed to the library\<close>

definition isNum :: "jsval \<Rightarrow> bool" where "isNum v = (case v of Num _ \<Rightarrow> True | _ \<Rightarrow> False)"

text \<open>An amount argument of \<open>addOutput\<close>, \<open>hashForWitnessV0\<close> and \<open>hashForWitnessV1\<close>.\<close>

definition bigAmount :: "jsval \<Rightarrow> jsval result" where
  "bigAmount v = (if isNum v then andThen (verifyU64 v) (\<lambda>i. ok (BigInt i)) else ok v)"

definition withBigIntValue :: "jsval \<Rightarrow> jsval result" where
  "withBigIntValue data =
     (if \<not> truthyVal data \<or> \<not> isNum (getProp data ''value'') then ok data
      else andThen (verifyU64 (getProp data ''value'')) (\<lambda>i. ok (setProp ''value'' (BigInt i) data)))"

definition withBigIntWitnessUtxo :: "jsval \<Rightarrow> jsval result" where
  "withBigIntWitnessUtxo data =
     (if \<not> truthyVal data \<or> \<not> truthyVal (getProp data ''witnessUtxo'') \<or> \<not> isNum (getProp (getProp data ''witnessUtxo'') ''value'') then ok data
      else andThen (withBigIntValue (getProp data ''witnessUtxo'')) (\<lambda>w. ok (setProp ''witnessUtxo'' w data)))"

text \<open>An amount the library hands back: of an output of a transaction, and the fee of a PSBT.\<close>

definition narrowAmount :: "jsval \<Rightarrow> jsval" where
  "narrowAmount v = (case v of BigInt i \<Rightarrow> if i \<le> MAX_SAFE_INTEGER then Num (js_Number_int i) else v | _ \<Rightarrow> v)"

definition narrowOutputs :: "bool \<Rightarrow> jsval list \<Rightarrow> jsval list" where
  "narrowOutputs narrowValues vs = (if narrowValues then map narrowAmount vs else vs)"

section \<open>Reading and writing\<close>

text \<open>What the patch relies on: a 64-bit value written at an offset reads back there, and the buffer keeps its length.\<close>

locale u64_tools =
  fixes put64 :: "Buffer \<Rightarrow> nat \<Rightarrow> int \<Rightarrow> Buffer" and get64 :: "Buffer \<Rightarrow> nat \<Rightarrow> int"
  assumes get_put: "at8 + 8 \<le> length b \<Longrightarrow> 0 \<le> v \<Longrightarrow> v \<le> MAX_U64 \<Longrightarrow> get64 (put64 b at8 v) at8 = v"
    and length_put: "at8 + 8 \<le> length b \<Longrightarrow> length (put64 b at8 v) = length b"

definition writeUInt64LE :: "(Buffer \<Rightarrow> nat \<Rightarrow> int \<Rightarrow> Buffer) \<Rightarrow> Buffer \<Rightarrow> jsval \<Rightarrow> nat \<Rightarrow> (Buffer \<times> nat) result" where
  "writeUInt64LE put64 b v offset = andThen (verifyU64 v) (\<lambda>i. ok (put64 b offset i, offset + 8))"

definition readUInt64LE :: "(Buffer \<Rightarrow> nat \<Rightarrow> int) \<Rightarrow> Buffer \<Rightarrow> nat \<Rightarrow> jsval" where
  "readUInt64LE get64 b offset = narrowU64 (get64 b offset)"

record cursor =
  cuBuffer :: Buffer
  cuOffset :: nat

definition writeInt64 :: "(Buffer \<Rightarrow> nat \<Rightarrow> int \<Rightarrow> Buffer) \<Rightarrow> jsval \<Rightarrow> cursor \<Rightarrow> cursor result" where
  "writeInt64 put64 v c = andThen (verifyU64 v) (\<lambda>i. ok \<lparr>cuBuffer = put64 (cuBuffer c) (cuOffset c) i, cuOffset = cuOffset c + 8\<rparr>)"

definition readInt64 :: "(Buffer \<Rightarrow> nat \<Rightarrow> int) \<Rightarrow> cursor \<Rightarrow> cursor \<times> jsval" where
  "readInt64 get64 c = (c\<lparr>cuOffset := cuOffset c + 8\<rparr>, BigInt (get64 (cuBuffer c) (cuOffset c)))"

definition readUInt64 :: "(Buffer \<Rightarrow> nat \<Rightarrow> int) \<Rightarrow> cursor \<Rightarrow> cursor \<times> jsval" where
  "readUInt64 get64 c = (c\<lparr>cuOffset := cuOffset c + 8\<rparr>, narrowU64 (get64 (cuBuffer c) (cuOffset c)))"

text \<open>The type an amount comes back with: a \<open>Number\<close> wherever it is exact.\<close>

lemma verify_exact:
  assumes "verifyU64 v = ok i"
  shows "0 \<le> i \<and> i \<le> MAX_U64 \<and> narrowU64 i = narrowAmount v"
proof (cases v)
  case (Num n)
  then obtain r where r: "n = Fin r" "\<not> r < 0" "r \<le> of_int MAX_SAFE_INTEGER" "of_int \<lfloor>r\<rfloor> = r" "i = \<lfloor>r\<rfloor>"
    using assms by (cases n) (auto simp: verifyU64_def split: if_splits)
  then have i: "0 \<le> i" "i \<le> MAX_SAFE_INTEGER" by linarith+
  then have "js_Number_int i = n" using js_Number_int_small [of i] r by simp
  then show ?thesis using i Num by (simp add: narrowU64_def narrowAmount_def MAX_U64_def MAX_SAFE_INTEGER_def)
next
  case (BigInt i')
  then show ?thesis using assms by (auto simp: verifyU64_def narrowU64_def narrowAmount_def split: if_splits)
qed (use assms in \<open>simp_all add: verifyU64_def\<close>)

context u64_tools
begin

lemma write_read:
  assumes "writeUInt64LE put64 b v offset = ok (b', offset')" "offset + 8 \<le> length b"
  shows "readUInt64LE get64 b' offset = narrowAmount v \<and> offset' = offset + 8 \<and> length b' = length b"
proof -
  obtain i where i: "verifyU64 v = ok i" "b' = put64 b offset i" "offset' = offset + 8"
    using assms(1) by (auto simp: writeUInt64LE_def andThen_Inr_iff)
  then show ?thesis using verify_exact [OF i(1)] get_put [OF assms(2), of i] length_put [OF assms(2), of i] by (simp add: readUInt64LE_def)
qed

end

text \<open>Little-endian bytes are such an interface.\<close>

definition putLE :: "Buffer \<Rightarrow> nat \<Rightarrow> int \<Rightarrow> Buffer" where
  "putLE b offset v = take offset b @ bytesLE 8 (nat v) @ drop (offset + 8) b"

definition getLE :: "Buffer \<Rightarrow> nat \<Rightarrow> int" where
  "getLE b offset = int (readLE (take 8 (drop offset b)))"

interpretation le64: u64_tools putLE getLE
proof
  fix at8 :: nat and b :: Buffer and v
  assume at8: "at8 + 8 \<le> length b"
  then show "length (putLE b at8 v) = length b" by (simp add: putLE_def)
  assume v: "0 \<le> v" "v \<le> MAX_U64"
  have "take 8 (drop at8 (putLE b at8 v)) = bytesLE 8 (nat v)" using at8 by (simp add: putLE_def)
  moreover have "nat v < 256 ^ 8" using v by (simp add: MAX_U64_def)
  ultimately show "getLE (putLE b at8 v) at8 = v" using v(1) readLE_bytesLE [of "nat v" 8] by (simp add: getLE_def)
qed

text \<open>
  Every amount the patched writer accepts, a number up to \<open>2 ^ 53 - 1\<close> or a big integer up to \<open>2 ^ 64 - 1\<close>, reads back
  as the amount it was, to the unit; the reader gives a number wherever one holds it exactly, and every other argument is
  refused before a byte is written.
\<close>

theorem wide_amounts_roundtrip:
  assumes "offset + 8 \<le> length b"
  shows "(case verifyU64 v of
       Inr i \<Rightarrow> \<exists>b'. writeUInt64LE putLE b v offset = ok (b', offset + 8) \<and> readUInt64LE getLE b' offset = narrowAmount v \<and> 0 \<le> i \<and> i \<le> MAX_U64 \<and>
         (v = BigInt i \<or> v = Num (Fin (of_int i)))
     | Inl e \<Rightarrow> writeUInt64LE putLE b v offset = throw e)"
proof (cases "verifyU64 v")
  case (Inr i)
  then have w: "writeUInt64LE putLE b v offset = ok (putLE b offset i, offset + 8)" by (simp add: writeUInt64LE_def)
  have "v = BigInt i \<or> v = Num (Fin (of_int i))" using Inr by (cases v) (auto simp: verifyU64_def split: if_splits jsnum.splits)
  then show ?thesis using Inr w le64.write_read [OF w assms] verify_exact [OF Inr] by auto
qed (simp add: writeUInt64LE_def)

text \<open>An example: the largest amount, into nine bytes.\<close>

theorem wide_amounts_roundtrip_witness:
  "\<exists>b'. writeUInt64LE putLE (replicate 9 0) (BigInt MAX_U64) 1 = ok (b', 9) \<and> readUInt64LE getLE b' 1 = BigInt MAX_U64"
proof -
  have "verifyU64 (BigInt MAX_U64) = ok MAX_U64" "narrowAmount (BigInt MAX_U64) = BigInt MAX_U64"
    by (simp_all add: verifyU64_def narrowAmount_def MAX_U64_def MAX_SAFE_INTEGER_def)
  then show ?thesis using wide_amounts_roundtrip [of 1 "replicate 9 0" "BigInt MAX_U64"] by auto
qed

end
