(* ===== verification/ChainFamilies.thy ===== *)
theory ChainFamilies
  imports Coins
begin

text \<open>
  The adapter interface and the finality gates of account chains: \<open>chain_adapter.js\<close>, \<open>evm_adapter.js\<close> and
  \<open>evm_finality.js\<close> of \<open>src/src/adapters\<close>. No method of the adapter surface is built; each refuses by its name.
\<close>

section \<open>Finality gates\<close>

datatype finalityMode = PROBABILISTIC_DEPTH | L1_CHECKPOINT | L1_DATA_POSTING
datatype tier = L1 | L2

record gateRecord =
  fgChainId :: nat
  fgTier :: tier
  fgMode :: finalityMode
  fgEpochs :: "nat option"
  fgSlotsPerEpoch :: "nat option"
  fgConfirmations :: "nat option"
  fgSettlementChain :: "string option"
  fgDepthUnsafe :: bool
  fgNativeDecimals :: nat
  fgArmed :: bool

definition rollup :: "nat \<Rightarrow> gateRecord" where
  "rollup chainId = \<lparr>fgChainId = chainId, fgTier = L2, fgMode = L1_DATA_POSTING, fgEpochs = None, fgSlotsPerEpoch = None,
     fgConfirmations = None, fgSettlementChain = Some ''ETH'', fgDepthUnsafe = True, fgNativeDecimals = 18, fgArmed = False\<rparr>"

definition EVM_FINALITY :: "(string \<times> gateRecord) list" where
  "EVM_FINALITY =
     [(''ETH'', \<lparr>fgChainId = 1, fgTier = L1, fgMode = L1_CHECKPOINT, fgEpochs = Some 2, fgSlotsPerEpoch = Some 32,
         fgConfirmations = Some 64, fgSettlementChain = None, fgDepthUnsafe = False, fgNativeDecimals = 18, fgArmed = False\<rparr>),
      (''BASE'', rollup 8453), (''ARBITRUM'', rollup 42161), (''OPTIMISM'', rollup 10)]"

definition PRIMARY_L2_TARGET :: string where "PRIMARY_L2_TARGET = ''BASE''"

text \<open>\<open>toUpperCase\<close> of ASCII text.\<close>

definition toUpperCase :: "string \<Rightarrow> string" where
  "toUpperCase s = map (\<lambda>c. if 97 \<le> (of_char c :: nat) \<and> (of_char c :: nat) \<le> 122 then char_of ((of_char c :: nat) - 32) else c) s"

definition finalityGate :: "string \<Rightarrow> gateRecord result" where
  "finalityGate chain =
     (case map_of EVM_FINALITY (toUpperCase chain) of
        None \<Rightarrow> throw (InternalError ''No EVM finality gate defined for chain'')
      | Some g \<Rightarrow> ok g)"

definition isL2BlockDepthSafe :: "string \<Rightarrow> bool result" where
  "isL2BlockDepthSafe chain = andThen (finalityGate chain) (\<lambda>g. ok (fgTier g = L1 \<and> fgMode g \<noteq> L1_DATA_POSTING))"

definition requiresSettlementChainFinality :: "string \<Rightarrow> bool result" where
  "requiresSettlementChainFinality chain = andThen (finalityGate chain) (\<lambda>g. ok (fgMode g = L1_DATA_POSTING))"

section \<open>Adapters\<close>

datatype surface = buildUnsignedTx | estimateFee | resolveSource | extractPayload | deriveObfuscationKey | pollBlock | detectReorg

record adapterError =
  aeFamily :: string
  aeMethod :: surface

record chainAdapter =
  caFamily :: string
  caChain :: string
  caGate :: gateRecord

definition newEvmAdapter :: "string \<Rightarrow> chainAdapter result" where
  "newEvmAdapter chain =
     (let chain = toUpperCase (if chain = [] then PRIMARY_L2_TARGET else chain)
      in andThen (finalityGate chain) (\<lambda>g. ok \<lparr>caFamily = ''evm'', caChain = chain, caGate = g\<rparr>))"

text \<open>Every method of the surface throws \<open>AdapterNotImplementedError\<close>.\<close>

definition callSurface :: "chainAdapter \<Rightarrow> surface \<Rightarrow> adapterError + unit" where
  "callSurface a method = Inl \<lparr>aeFamily = caFamily a, aeMethod = method\<rparr>"

section \<open>The L2 trap\<close>

lemma toUpperCase_idem [simp]: "toUpperCase (toUpperCase s) = toUpperCase s"
  by (induction s) (auto simp: toUpperCase_def)

text \<open>
  No gate lets an adapter count the blocks of a chain whose state is reversible: depth is a signal exactly where no
  settlement chain is needed, a gate that counts has a depth and one that does not names the chain that settles it.
\<close>

theorem l2_depth_never_safe:
  assumes "newEvmAdapter chain = ok a"
  shows "isL2BlockDepthSafe (caChain a) = ok (fgTier (caGate a) = L1) \<and>
     requiresSettlementChainFinality (caChain a) = ok (fgTier (caGate a) = L2) \<and>
     (fgTier (caGate a) = L1 \<longleftrightarrow> fgConfirmations (caGate a) \<noteq> None) \<and> (fgTier (caGate a) = L2 \<longleftrightarrow> fgSettlementChain (caGate a) \<noteq> None) \<and>
     fgDepthUnsafe (caGate a) = (fgTier (caGate a) = L2)"
proof -
  have g: "finalityGate (caChain a) = ok (caGate a)" using assms by (auto simp: newEvmAdapter_def Let_def finalityGate_def split: option.splits)
  then have "(toUpperCase (caChain a), caGate a) \<in> set EVM_FINALITY" by (auto simp: finalityGate_def dest!: map_of_SomeD split: option.splits)
  then have "caGate a \<in> set (map snd EVM_FINALITY)" by force
  then show ?thesis using g
    by (auto simp: isL2BlockDepthSafe_def requiresSettlementChainFinality_def EVM_FINALITY_def rollup_def)
qed

theorem l2_depth_never_safe_witness:
  "\<exists>a. newEvmAdapter [] = ok a \<and> isL2BlockDepthSafe (caChain a) = ok False"
proof -
  have "newEvmAdapter [] = ok \<lparr>caFamily = ''evm'', caChain = ''BASE'', caGate = rollup 8453\<rparr>" by code_simp
  from l2_depth_never_safe [OF this] this show ?thesis by (auto simp: rollup_def)
qed

end
