(* ===== verification/Reachability.thy ===== *)
theory Reachability
  imports CoinRegistry "HOL-Library.Sublist"
begin

text \<open>
  The deletion verdict of \<open>src/bin/reachability.js\<close>: which tracked files the service, the tooling and the tests reach by
  literal requires, and which no other file holds. A file is named by its path in the repository. The file system is a
  record of functions; what the sweep of the sibling repositories found is an argument.
\<close>

section \<open>Paths\<close>

definition slash :: "16 word" where "slash = 47"

text \<open>\<open>path.posix.dirname\<close>, and \<open>path.posix.join\<close> of two arguments.\<close>

definition dirname :: "jstring \<Rightarrow> jstring" where
  "dirname p =
     (let r = dropWhile (\<lambda>u. u \<noteq> slash) (dropWhile (\<lambda>u. u = slash) (rev p))
      in if p = [] then js ''.''
         else if r = [] then (if hd p = slash then [slash] else js ''.'')
         else if tl r = [] then [slash]
         else if tl r = [slash] then [slash, slash]
         else rev (tl r))"

fun normalSegments :: "bool \<Rightarrow> jstring list \<Rightarrow> jstring list \<Rightarrow> jstring list" where
  "normalSegments up [] done' = done'"
| "normalSegments up (s # segs) done' =
     normalSegments up segs
       (if s = [] \<or> s = js ''.'' then done'
        else if s = js ''..''
        then (if done' \<noteq> [] \<and> last done' \<noteq> js ''..'' then butlast done' else if up then done' @ [s] else done')
        else done' @ [s])"

definition normalizePath :: "jstring \<Rightarrow> jstring" where
  "normalizePath p =
     (if p = [] then js ''.''
      else let absolute = (hd p = slash); trailing = (last p = slash);
               body = joinWith slash (normalSegments (\<not> absolute) (splitOn slash p) [])
           in if body = [] then (if absolute then [slash] else if trailing then js ''./'' else js ''.'')
              else (if absolute then [slash] else []) @ body @ (if trailing then [slash] else []))"

definition joinPath :: "jstring \<Rightarrow> jstring \<Rightarrow> jstring" where
  "joinPath a b =
     (case filter (\<lambda>s. s \<noteq> []) [a, b] of [] \<Rightarrow> js ''.'' | ss \<Rightarrow> normalizePath (joinWith slash ss))"

section \<open>The repository\<close>

text \<open>What is there at a path, where anything is, is a file.\<close>

record repoTree =
  rtTracked :: "jstring list"
  rtText :: "jstring \<Rightarrow> jstring option"
  rtIsFile :: "jstring \<Rightarrow> bool"

definition beginsWith :: "jstring \<Rightarrow> string \<Rightarrow> bool" where "beginsWith s p = prefix (js p) s"
definition finishesWith :: "jstring \<Rightarrow> string \<Rightarrow> bool" where "finishesWith s p = suffix (js p) s"

text \<open>\<open>trackedFiles\<close>, and the set of tracked JavaScript files.\<close>

definition trackedFiles :: "repoTree \<Rightarrow> jstring list" where
  "trackedFiles t = filter (\<lambda>f. f \<noteq> []) (rtTracked t)"

definition fileSetOf :: "repoTree \<Rightarrow> jstring list" where
  "fileSetOf t = remdups (filter (\<lambda>f. finishesWith f ''.js'') (trackedFiles t))"

definition sortUnits :: "jstring list \<Rightarrow> jstring list" where "sortUnits = sort_key unitsOf"

section \<open>Requires\<close>

definition SOURCE_EXT :: "string list" where "SOURCE_EXT = [''.js'']"

definition resolveRequire :: "repoTree \<Rightarrow> jstring \<Rightarrow> jstring \<Rightarrow> jstring option" where
  "resolveRequire t fromRel spec =
     (if \<not> beginsWith spec ''.'' then None
      else let base = joinPath (dirname fromRel) spec;
               candidates = base # map (\<lambda>e. base @ js e) SOURCE_EXT @ map (\<lambda>e. joinPath base (js (''index'' @ e))) SOURCE_EXT
           in List.find (\<lambda>c. rtIsFile t c \<and> finishesWith c ''.js'') candidates)"

text \<open>
  \<open>REQUIRE_LITERAL\<close>, \<open>require\(\s*(['"])([^'"]+)\1\s*\)\<close>, at the head of a text: the path, and what follows the match.
\<close>

definition isQuote :: "16 word \<Rightarrow> bool" where "isQuote u = (u = 39 \<or> u = 34)"

definition matchRequire :: "jstring \<Rightarrow> (jstring \<times> jstring) option" where
  "matchRequire s =
     (if \<not> beginsWith s ''require('' then None
      else case dropWhile isSpaceUnit (drop 8 s) of
             [] \<Rightarrow> None
           | q # rest \<Rightarrow>
               (let spec = takeWhile (\<lambda>u. \<not> isQuote u) rest; after = dropWhile (\<lambda>u. \<not> isQuote u) rest
                in if \<not> isQuote q \<or> spec = [] \<or> after = [] \<or> hd after \<noteq> q then None
                   else case dropWhile isSpaceUnit (tl after) of
                          c # r \<Rightarrow> if c = 41 then Some (spec, r) else None
                        | [] \<Rightarrow> None))"

lemma dropWhile_le: "length (dropWhile P xs) \<le> length xs"
  by (induction xs) auto

lemma matchRequire_shorter: "matchRequire s = Some (spec, r) \<Longrightarrow> length r < length s"
proof -
  assume m: "matchRequire s = Some (spec, r)"
  obtain q rest where a: "dropWhile isSpaceUnit (drop 8 s) = q # rest"
    using m by (auto simp: matchRequire_def split: if_splits list.splits)
  obtain c where b: "dropWhile isSpaceUnit (tl (dropWhile (\<lambda>u. \<not> isQuote u) rest)) = c # r"
    using m a by (auto simp: matchRequire_def Let_def split: if_splits list.splits)
  have "length (q # rest) \<le> length s" using dropWhile_le [of isSpaceUnit "drop 8 s"] a by simp
  moreover have "length (c # r) \<le> length rest"
    using dropWhile_le [of isSpaceUnit "tl (dropWhile (\<lambda>u. \<not> isQuote u) rest)"] dropWhile_le [of "\<lambda>u. \<not> isQuote u" rest] b by simp
  ultimately show ?thesis by simp
qed

function requires :: "jstring \<Rightarrow> jstring list" where
  "requires s =
     (case s of
        [] \<Rightarrow> []
      | u # r \<Rightarrow> (case matchRequire s of Some (spec, rest) \<Rightarrow> spec # requires rest | None \<Rightarrow> requires r))"
  by auto
termination by (relation "measure length") (auto dest: matchRequire_shorter)

declare requires.simps [simp del]

record dynamicEdge =
  deFrom :: jstring
  deTargets :: "jstring list"
  deWhy :: jstring

definition DYNAMIC_EDGES :: "dynamicEdge list" where "DYNAMIC_EDGES = []"

definition assertDynamicEdgesResolve :: "jstring list \<Rightarrow> unit list result" where
  "assertDynamicEdgesResolve fs =
     forEach (\<lambda>e. refuseIf (deFrom e \<notin> set fs) (InternalError ''DYNAMIC_EDGES declares an edge'')) DYNAMIC_EDGES"

definition edgesFrom :: "repoTree \<Rightarrow> jstring list \<Rightarrow> jstring \<Rightarrow> jstring list" where
  "edgesFrom t fs rel =
     (case rtText t rel of
        None \<Rightarrow> []
      | Some s \<Rightarrow> remdups (filter (\<lambda>f. f \<in> set fs)
          (List.map_filter (resolveRequire t rel) (requires s) @ concat (map deTargets (filter (\<lambda>e. deFrom e = rel) DYNAMIC_EDGES)))))"

definition isTestFile :: "jstring \<Rightarrow> bool" where "isTestFile f = beginsWith f ''test/''"

definition pushEdge :: "jstring \<Rightarrow> jstring \<Rightarrow> (jstring, jstring list) jmap \<Rightarrow> (jstring, jstring list) jmap" where
  "pushEdge rel target back = jm_set target ((case jm_get back target of Some l \<Rightarrow> l | None \<Rightarrow> []) @ [rel]) back"

definition reverseEdges :: "repoTree \<Rightarrow> jstring list \<Rightarrow> (jstring, jstring list) jmap" where
  "reverseEdges t fs =
     map (\<lambda>(k, v). (k, sortUnits (remdups v)))
       (fold (\<lambda>rel back. if isTestFile rel then back else fold (pushEdge rel) (edgesFrom t fs rel) back) fs [])"

section \<open>The closure\<close>

text \<open>The stack of the walk has its top first.\<close>

lemma edges_tracked: "set (edgesFrom t fs rel) \<subseteq> set fs"
  by (auto simp: edgesFrom_def split: option.splits)

lemma closure_measure:
  assumes "cur \<notin> set seen"
  shows "card ((set fs \<union> set (rev (filter P (edgesFrom t fs cur)) @ stack)) - set (seen @ [cur])) < card ((set fs \<union> set (cur # stack)) - set seen)"
proof (rule psubset_card_mono)
  show "(set fs \<union> set (rev (filter P (edgesFrom t fs cur)) @ stack)) - set (seen @ [cur]) \<subset> (set fs \<union> set (cur # stack)) - set seen"
    using assms edges_tracked [of t fs cur] by auto
qed simp

function closureFrom :: "repoTree \<Rightarrow> jstring list \<Rightarrow> jstring list \<Rightarrow> jstring list \<Rightarrow> jstring list" where
  "closureFrom t fs seen [] = seen"
| "closureFrom t fs seen (cur # stack) =
     (if cur \<in> set seen then closureFrom t fs seen stack
      else let seen = seen @ [cur] in closureFrom t fs seen (rev (filter (\<lambda>n. n \<notin> set seen) (edgesFrom t fs cur)) @ stack))"
  by pat_completeness auto

termination
proof (relation "measures [\<lambda>(t, fs, seen, stack). card ((set fs \<union> set stack) - set seen), \<lambda>(t, fs, seen, stack). length stack]", goal_cases)
  case (2 t fs seen cur stack)
  then have "(set fs \<union> set (cur # stack)) - set seen = (set fs \<union> set stack) - set seen" by auto
  then show ?case by (simp del: list.set)
next
  case (3 t fs seen cur stack x)
  then show ?case using closure_measure [of cur seen fs "\<lambda>n. n \<notin> set x" t stack] by (simp del: list.set set_append set_rev set_filter)
qed simp

definition closure :: "repoTree \<Rightarrow> jstring list \<Rightarrow> jstring list \<Rightarrow> jstring list" where
  "closure t entryList fs = closureFrom t fs [] (rev (filter (\<lambda>e. e \<in> set fs) entryList))"

section \<open>Entry points\<close>

definition isIdentUnit :: "16 word \<Rightarrow> bool" where
  "isIdentUnit u = (let n = unat u in 48 \<le> n \<and> n \<le> 57 \<or> 65 \<le> n \<and> n \<le> 90 \<or> n = 95 \<or> 97 \<le> n \<and> n \<le> 122)"

text \<open>\<open>/^\s*(CMD|ENTRYPOINT)\b/\<close>, the quoted \<open>.js\<close> paths of a line, and the removal of a leading \<open>./\<close>.\<close>

definition isCommandLine :: "jstring \<Rightarrow> bool" where
  "isCommandLine line =
     (let s = dropWhile isSpaceUnit line
      in list_ex (\<lambda>w. beginsWith s w \<and> (case drop (length w) s of u # _ \<Rightarrow> \<not> isIdentUnit u | [] \<Rightarrow> True)) [''CMD'', ''ENTRYPOINT''])"

function quotedScripts :: "jstring \<Rightarrow> jstring list" where
  "quotedScripts s =
     (case s of
        [] \<Rightarrow> []
      | u # r \<Rightarrow>
          (let body = takeWhile (\<lambda>u. \<not> isQuote u) r; after = dropWhile (\<lambda>u. \<not> isQuote u) r
           in if isQuote u \<and> after \<noteq> [] \<and> finishesWith body ''.js'' \<and> 3 < length body then body # quotedScripts (tl after)
              else quotedScripts r))"
  by auto
termination
proof (relation "measure length", goal_cases)
  case (2 s u r body after)
  then show ?case using dropWhile_le [of "\<lambda>u. \<not> isQuote u" r] by simp
qed simp_all

declare quotedScripts.simps [simp del]

definition dropDotSlash :: "jstring \<Rightarrow> jstring" where
  "dropDotSlash s = (if beginsWith s ''./'' then drop 2 s else s)"

text \<open>\<open>split(/\s+/)\<close>.\<close>

function splitSpace :: "jstring \<Rightarrow> jstring list" where
  "splitSpace [] = [[]]"
| "splitSpace (u # s) =
     (if isSpaceUnit u then [] # splitSpace (dropWhile isSpaceUnit s)
      else case splitSpace s of w # ws \<Rightarrow> (u # w) # ws | [] \<Rightarrow> [[u]])"
  by pat_completeness auto
termination by (relation "measure length") (auto simp: le_imp_less_Suc dropWhile_le)

fun nodeScripts :: "jstring list \<Rightarrow> jstring list" where
  "nodeScripts [] = []"
| "nodeScripts (tok # toks) =
     (if tok \<noteq> js ''node'' then nodeScripts toks
      else (case dropWhile (\<lambda>a. beginsWith a ''-'') toks of
              a # _ \<Rightarrow> if finishesWith a ''.js'' then [dropDotSlash a] else []
            | [] \<Rightarrow> []) @ nodeScripts toks)"

definition dockerEntries :: "jstring \<Rightarrow> jstring list" where
  "dockerEntries s = concat (map (map dropDotSlash \<circ> quotedScripts) (filter isCommandLine (splitOn 10 s)))"

definition scriptEntries :: "jsval \<Rightarrow> jstring list result" where
  "scriptEntries pkg =
     (if isNullish pkg then throw (InternalError ''Cannot read properties'')
      else andThen (forEach (\<lambda>(name, script).
             if beginsWith name ''test'' \<or> name = js ''ci'' \<or> name = js ''coverage'' then ok []
             else case script of Str s \<Rightarrow> ok (nodeScripts (splitSpace s)) | _ \<Rightarrow> throw (InternalError ''script.split is not a function''))
           (if truthyVal (getProp pkg ''scripts'') then entries (getProp pkg ''scripts'') else [])) (\<lambda>found. ok (concat found)))"

text \<open>What the image and the npm scripts start, and the tracked files among it.\<close>

definition startedFiles :: "repoTree \<Rightarrow> jstring list result" where
  "startedFiles t =
     (case if rtIsFile t (js ''Dockerfile'') then rtText t (js ''Dockerfile'') else Some [] of
        None \<Rightarrow> throw (InternalError ''Dockerfile cannot be read'')
      | Some s \<Rightarrow>
          (case rtText t (js ''package.json'') of
             None \<Rightarrow> throw (InternalError ''package.json cannot be read'')
           | Some p \<Rightarrow>
               (case jsonParse p of
                  None \<Rightarrow> throw (InternalError ''package.json is not JSON'')
                | Some pkg \<Rightarrow> andThen (scriptEntries pkg) (\<lambda>scripts. ok (dockerEntries s @ scripts)))))"

definition runtimeEntries :: "repoTree \<Rightarrow> jstring list \<Rightarrow> jstring list result" where
  "runtimeEntries t fs = andThen (startedFiles t) (\<lambda>found. ok (sortUnits (remdups (filter (\<lambda>f. f \<in> set fs) found))))"

definition entriesUnder :: "string list \<Rightarrow> jstring list \<Rightarrow> jstring list" where
  "entriesUnder dirs fs = sortUnits (filter (\<lambda>f. list_ex (beginsWith f) dirs \<and> finishesWith f ''.js'') fs)"

section \<open>What other repositories hold\<close>

text \<open>The tree around the checkout: its entries with whether each is a directory (none where it cannot be read), the text of
  a path below it, and whether a path below it exists.\<close>

record surroundings =
  suEntries :: "(jstring \<times> bool) list option"
  suText :: "jstring \<Rightarrow> jstring option"
  suExists :: "jstring \<Rightarrow> bool"

record twinCopy =
  tcPath :: jstring
  tcIdentical :: bool

definition twinCopies :: "repoTree \<Rightarrow> surroundings \<Rightarrow> jstring list \<Rightarrow> (jstring \<times> twinCopy list) list" where
  "twinCopies t su sources =
     (case suEntries su of
        None \<Rightarrow> []
      | Some es \<Rightarrow>
          (let repos = sortUnits (filter (\<lambda>n. beginsWith n ''xchain-'' \<and> n \<noteq> js ''xchain-indexer'') (map fst es))
           in filter (\<lambda>(_, found). found \<noteq> []) (map (\<lambda>rel.
                (rel, List.map_filter (\<lambda>repo.
                   let p = repo @ slash # rel
                   in map_option (\<lambda>other. \<lparr>tcPath = p, tcIdentical = (rtText t rel = Some other)\<rparr>) (suText su p)) repos)) sources)))"

definition platformToolingDirs :: "jstring option \<Rightarrow> jstring list" where
  "platformToolingDirs var = filter (\<lambda>s. s \<noteq> []) (map trim (splitOn 44 (case var of Some s \<Rightarrow> s | None \<Rightarrow> [])))"

definition TWIN_COPIER :: string where "TWIN_COPIER = ''reconcile-twins.sh''"
definition TOP_LEVEL_TOOLING :: "string list" where "TOP_LEVEL_TOOLING = [''bin'', ''tools'']"
definition TOOLING_PARENT_SUBDIRS :: "string list" where "TOOLING_PARENT_SUBDIRS = [''bin'', ''scripts'']"

definition toolingSweepDirs :: "jstring option \<Rightarrow> surroundings \<Rightarrow> jstring list" where
  "toolingSweepDirs var su =
     (let named = platformToolingDirs var;
          top = filter (suExists su) (map js TOP_LEVEL_TOOLING)
      in if named \<noteq> [] then named
         else case suEntries su of
                None \<Rightarrow> top
              | Some es \<Rightarrow> top @ concat (map (\<lambda>(n, isDir).
                  if \<not> isDir \<or> beginsWith n ''.'' \<or> beginsWith n ''xchain-'' \<or> \<not> suExists su (n @ js (''/bin/'' @ TWIN_COPIER)) then []
                  else filter (suExists su) (map (\<lambda>sub. n @ slash # js sub) TOOLING_PARENT_SUBDIRS)) es))"

section \<open>The verdict\<close>

record fileReach =
  frRuntime :: bool
  frTooling :: bool
  frTests :: bool
  frSiblings :: bool
  frTwins :: "twinCopy list"
  frRequiredBy :: "jstring list"
  frTestOnly :: bool
  frUnreferenced :: bool

record reachReport =
  rrRuntimeEntries :: "jstring list"
  rrCandidates :: "jstring list"
  rrFiles :: "(jstring \<times> fileReach) list"

definition sourcesOf :: "repoTree \<Rightarrow> jstring list" where
  "sourcesOf t = sortUnits (filter (\<lambda>f. beginsWith f ''src/'') (fileSetOf t))"

definition toolingEntries :: "jstring list \<Rightarrow> jstring list" where
  "toolingEntries fs = entriesUnder [''bin/'', ''scripts/'', ''tools/''] fs"

definition judgeFile :: "jstring list \<Rightarrow> jstring list \<Rightarrow> jstring list \<Rightarrow> (jstring \<Rightarrow> bool) \<Rightarrow> (jstring \<times> twinCopy list) list \<Rightarrow>
    (jstring, jstring list) jmap \<Rightarrow> jstring \<Rightarrow> fileReach" where
  "judgeFile runtime tooling tested sibling twins back rel =
     (let r = rel \<in> set runtime; o' = rel \<in> set tooling; s = rel \<in> set tested;
          held = (case jm_get back rel of Some l \<Rightarrow> l | None \<Rightarrow> []);
          copies = (case map_of twins rel of Some l \<Rightarrow> l | None \<Rightarrow> [])
      in \<lparr>frRuntime = r, frTooling = o', frTests = s, frSiblings = sibling rel, frTwins = copies, frRequiredBy = held,
          frTestOnly = (\<not> r \<and> \<not> o' \<and> s),
          frUnreferenced = (\<not> r \<and> \<not> o' \<and> \<not> sibling rel \<and> copies = [] \<and> held = [])\<rparr>)"

text \<open>\<open>sibling\<close> is whether the sweep names a path, constantly false with the sweep off; \<open>su\<close> is none then.\<close>

definition analyse :: "repoTree \<Rightarrow> surroundings option \<Rightarrow> (jstring \<Rightarrow> bool) \<Rightarrow> reachReport result" where
  "analyse t su sibling =
     (let fs = fileSetOf t; sources = sourcesOf t
      in andThen (assertDynamicEdgesResolve fs) (\<lambda>_.
         andThen (runtimeEntries t fs) (\<lambda>runtimeList.
         let runtime = closure t runtimeList fs; tooling = closure t (toolingEntries fs) fs;
             tested = closure t (entriesUnder [''test/''] fs) fs;
             twins = (case su of Some s \<Rightarrow> twinCopies t s sources | None \<Rightarrow> []);
             files = map (\<lambda>rel. (rel, judgeFile runtime tooling tested (\<lambda>f. su \<noteq> None \<and> sibling f) twins (reverseEdges t fs) rel)) sources
         in ok \<lparr>rrRuntimeEntries = runtimeList, rrCandidates = map fst (filter (\<lambda>(_, f). \<not> frRuntime f) files), rrFiles = files\<rparr>)))"

end
