(* ===== verification/ReachabilityProperties.thy ===== *)
theory ReachabilityProperties
  imports Reachability
begin

text \<open>
  What the deletion verdict promises: the walk is reachability over the requires, and the files no one holds can all be
  deleted together without the service or the tooling loading anything else.
\<close>

section \<open>The walk\<close>

definition requireEdges :: "repoTree \<Rightarrow> jstring list \<Rightarrow> (jstring \<times> jstring) set" where
  "requireEdges t fs = {(a, b). b \<in> set (edgesFrom t fs a)}"

lemma closureFrom_covers: "set seen \<union> set stack \<subseteq> set (closureFrom t fs seen stack)"
  by (induction t fs seen stack rule: closureFrom.induct) (auto simp: Let_def split: if_splits)

lemma closureFrom_closed:
  assumes "\<forall>a \<in> set seen. set (edgesFrom t fs a) \<subseteq> set seen \<union> set stack"
  shows "\<forall>a \<in> set (closureFrom t fs seen stack). set (edgesFrom t fs a) \<subseteq> set (closureFrom t fs seen stack)"
  using assms
proof (induction t fs seen stack rule: closureFrom.induct)
  case (2 t fs seen cur stack)
  show ?case
  proof (cases "cur \<in> set seen")
    case True
    then show ?thesis using 2(1) 2(3) by (auto simp: subset_iff)
  next
    case False
    then show ?thesis using 2(2) [OF False refl] 2(3) by (simp add: Let_def) blast
  qed
qed auto

lemma closureFrom_reached:
  assumes "set seen \<union> set stack \<subseteq> (requireEdges t fs)\<^sup>* `` E"
  shows "set (closureFrom t fs seen stack) \<subseteq> (requireEdges t fs)\<^sup>* `` E"
  using assms
proof (induction t fs seen stack rule: closureFrom.induct)
  case (2 t fs seen cur stack)
  show ?case
  proof (cases "cur \<in> set seen")
    case True
    then show ?thesis using 2(1) 2(3) by auto
  next
    case False
    have "set (edgesFrom t fs cur) \<subseteq> (requireEdges t fs)\<^sup>* `` E"
      using 2(3) by (auto simp: requireEdges_def intro: rtrancl_into_rtrancl)
    then show ?thesis using 2(2) [OF False refl] 2(3) False by (auto simp: Let_def)
  qed
qed auto

lemma closureFrom_distinct: "distinct seen \<Longrightarrow> distinct (closureFrom t fs seen stack)"
  by (induction t fs seen stack rule: closureFrom.induct) (simp_all add: Let_def)

lemma closure_is_reachability:
  "set (closure t es fs) = (requireEdges t fs)\<^sup>* `` (set es \<inter> set fs) \<and> distinct (closure t es fs)"
proof (intro conjI)
  let ?C = "set (closure t es fs)"
  have "?C \<subseteq> (requireEdges t fs)\<^sup>* `` (set es \<inter> set fs)"
    unfolding closure_def by (rule closureFrom_reached) auto
  moreover have "(requireEdges t fs)\<^sup>* `` (set es \<inter> set fs) \<subseteq> ?C"
  proof
    fix b assume "b \<in> (requireEdges t fs)\<^sup>* `` (set es \<inter> set fs)"
    then obtain a where "a \<in> set es \<inter> set fs" "(a, b) \<in> (requireEdges t fs)\<^sup>*" by blast
    then have "a \<in> ?C" using closureFrom_covers [of "[]" "rev (filter (\<lambda>e. e \<in> set fs) es)" t fs] by (auto simp: closure_def)
    with \<open>(a, b) \<in> (requireEdges t fs)\<^sup>*\<close> show "b \<in> ?C"
    proof induction
      case (step y z)
      then show ?case using closureFrom_closed [of "[]" t fs] by (auto simp: closure_def requireEdges_def subset_iff)
    qed
  qed
  ultimately show "?C = (requireEdges t fs)\<^sup>* `` (set es \<inter> set fs)" by blast
  show "distinct (closure t es fs)" unfolding closure_def by (rule closureFrom_distinct) simp
qed

section \<open>Who requires a file\<close>

definition heldBy :: "(jstring, jstring list) jmap \<Rightarrow> jstring \<Rightarrow> jstring \<Rightarrow> bool" where
  "heldBy acc d f \<longleftrightarrow> (\<exists>l. jm_get acc d = Some l \<and> f \<in> set l)"

lemma heldBy_push: "heldBy (pushEdge rel target acc) d f \<longleftrightarrow> heldBy acc d f \<or> d = target \<and> f = rel"
  by (cases "jm_get acc target") (auto simp: heldBy_def pushEdge_def jm.get_put)

lemma heldBy_pushes: "heldBy (fold (pushEdge rel) ts acc) d f \<longleftrightarrow> heldBy acc d f \<or> d \<in> set ts \<and> f = rel"
  by (induction ts arbitrary: acc) (auto simp: heldBy_push)

lemma heldBy_fold:
  "heldBy (fold (\<lambda>rel acc. if isTestFile rel then acc else fold (pushEdge rel) (edgesFrom t fs rel) acc) rels acc) d f \<longleftrightarrow>
     heldBy acc d f \<or> f \<in> set rels \<and> \<not> isTestFile f \<and> d \<in> set (edgesFrom t fs f)"
  by (induction rels arbitrary: acc) (auto simp: heldBy_pushes)

lemma required_by:
  "heldBy (reverseEdges t fs) d f \<longleftrightarrow> f \<in> set fs \<and> \<not> isTestFile f \<and> d \<in> set (edgesFrom t fs f)"
proof -
  have "heldBy (map (\<lambda>(k, v). (k, sortUnits (remdups v))) acc) d f \<longleftrightarrow> heldBy acc d f" for acc :: "(jstring, jstring list) jmap"
    by (auto simp: heldBy_def jm_get_def map_of_map sortUnits_def)
  moreover have "\<not> heldBy jm_empty d f" by (simp add: heldBy_def jm_get_def)
  ultimately show ?thesis by (simp add: reverseEdges_def heldBy_fold)
qed

section \<open>Deleting what no one holds\<close>

definition without :: "jstring list \<Rightarrow> repoTree \<Rightarrow> repoTree" where
  "without D t = t\<lparr>rtTracked := filter (\<lambda>f. f \<notin> set D) (rtTracked t), rtText := (\<lambda>f. if f \<in> set D then None else rtText t f),
     rtIsFile := (\<lambda>f. f \<notin> set D \<and> rtIsFile t f)\<rparr>"

lemma fileSet_without: "fileSetOf (without D t) = filter (\<lambda>f. f \<notin> set D) (fileSetOf t)"
  by (simp add: fileSetOf_def trackedFiles_def without_def remdups_filter conj_ac)

lemma find_kept: "(\<forall>c. List.find P xs = Some c \<longrightarrow> c \<notin> S) \<Longrightarrow> List.find (\<lambda>c. c \<notin> S \<and> P c) xs = List.find P xs"
  by (induction xs) auto

lemma resolve_kept:
  assumes "\<forall>c. resolveRequire t f spec = Some c \<longrightarrow> c \<notin> set D"
  shows "resolveRequire (without D t) f spec = resolveRequire t f spec"
proof (cases "beginsWith spec ''.''")
  case True
  then obtain xs where xs: "resolveRequire u f spec = List.find (\<lambda>c. rtIsFile u c \<and> finishesWith c ''.js'') xs" for u
    unfolding resolveRequire_def Let_def by (simp only: simp_thms if_False)
  show ?thesis using assms unfolding xs using find_kept [of "\<lambda>c. rtIsFile t c \<and> finishesWith c ''.js''" xs "set D"]
    by (simp add: without_def conj_assoc)
qed (simp add: resolveRequire_def)

lemma edges_kept:
  assumes "f \<notin> set D" "set (edgesFrom t fs f) \<inter> set D = {}" "set D \<subseteq> set fs"
  shows "edgesFrom (without D t) (filter (\<lambda>f. f \<notin> set D) fs) f = edgesFrom t fs f"
proof (cases "rtText t f")
  case (Some s)
  let ?hit = "List.map_filter (resolveRequire t f) (requires s)"
  have free: "c \<notin> set D" if "spec \<in> set (requires s)" "resolveRequire t f spec = Some c" for spec c
  proof
    assume "c \<in> set D"
    then have "c \<in> set (edgesFrom t fs f)" using that Some assms(3) by (auto simp: edgesFrom_def List.map_filter_def intro!: image_eqI [of _ _ spec])
    then show False using assms(2) \<open>c \<in> set D\<close> by blast
  qed
  then have same: "resolveRequire (without D t) f spec = resolveRequire t f spec" if "spec \<in> set (requires s)" for spec
    using that by (intro resolve_kept) blast
  have "List.map_filter (resolveRequire (without D t) f) (requires s) = ?hit"
    unfolding List.map_filter_def by (intro map_cong filter_cong) (simp_all add: same)
  moreover have "set ?hit \<inter> set D = {}" using free by (force simp: List.map_filter_def)
  then have "filter (\<lambda>c. c \<in> set fs \<and> c \<notin> set D) ?hit = filter (\<lambda>c. c \<in> set fs) ?hit" by (intro filter_cong) auto
  ultimately show ?thesis using Some assms(1) by (simp add: edgesFrom_def DYNAMIC_EDGES_def without_def)
qed (simp add: edgesFrom_def without_def)

lemma closureFrom_kept:
  assumes "\<forall>x \<in> set (closureFrom t fs seen stack). edgesFrom u gs x = edgesFrom t fs x"
  shows "closureFrom u gs seen stack = closureFrom t fs seen stack"
  using assms
proof (induction t fs seen stack rule: closureFrom.induct)
  case (2 t fs seen cur stack)
  show ?case
  proof (cases "cur \<in> set seen")
    case True
    then show ?thesis using 2(1) 2(3) by simp
  next
    case False
    have "cur \<in> set (closureFrom t fs seen (cur # stack))" using closureFrom_covers by fastforce
    then have "edgesFrom u gs cur = edgesFrom t fs cur" using 2(3) by blast
    then show ?thesis using 2(2) [OF False refl] 2(3) False by (simp add: Let_def)
  qed
qed simp

lemma closure_kept:
  assumes "set (closure t es fs) \<inter> set D = {}" "set D \<subseteq> set fs" "set es \<inter> set D = {}"
  shows "closure (without D t) es (filter (\<lambda>f. f \<notin> set D) fs) = closure t es fs"
proof -
  have "set (edgesFrom t fs x) \<subseteq> set (closure t es fs)" if "x \<in> set (closure t es fs)" for x
    using closureFrom_closed [of "[]" t fs] that by (simp add: closure_def)
  then have "edgesFrom (without D t) (filter (\<lambda>f. f \<notin> set D) fs) x = edgesFrom t fs x" if "x \<in> set (closure t es fs)" for x
    using that assms(1) by (intro edges_kept [OF _ _ assms(2)]) blast+
  moreover have "filter (\<lambda>e. e \<in> set (filter (\<lambda>f. f \<notin> set D) fs)) es = filter (\<lambda>e. e \<in> set fs) es"
    using assms(3) by (intro filter_cong) auto
  ultimately show ?thesis unfolding closure_def using closureFrom_kept by metis
qed

lemma source_paths: "beginsWith d ''src/'' \<Longrightarrow> p \<in> {''bin/'', ''scripts/'', ''tools/'', ''Dockerfile'', ''package.json''} \<Longrightarrow> \<not> beginsWith d p"
  by (auto simp: beginsWith_def prefix_def)

lemma tooling_entries_kept:
  assumes "\<forall>d \<in> set D. beginsWith d ''src/''"
  shows "toolingEntries (filter (\<lambda>f. f \<notin> set D) fs) = toolingEntries fs"
  using assms source_paths by (auto simp: toolingEntries_def entriesUnder_def intro!: arg_cong [where f = sortUnits] filter_cong)

lemma started_kept:
  assumes "\<forall>d \<in> set D. beginsWith d ''src/''"
  shows "startedFiles (without D t) = startedFiles t"
proof -
  have "\<not> beginsWith f ''src/''" if "f \<in> {js ''Dockerfile'', js ''package.json''}" for f using that by (auto simp: beginsWith_def)
  then have "js ''Dockerfile'' \<notin> set D" "js ''package.json'' \<notin> set D" using assms by blast+
  then have "rtText (without D t) f = rtText t f" "rtIsFile (without D t) f = rtIsFile t f" if "f \<in> {js ''Dockerfile'', js ''package.json''}" for f
    using that by (auto simp: without_def simp del: js_simps)
  then show ?thesis by (simp only: startedFiles_def insert_iff simp_thms)
qed

lemma runtime_entries_tracked: "runtimeEntries t fs = ok es \<Longrightarrow> set es \<subseteq> set fs"
  by (auto simp: runtimeEntries_def sortUnits_def andThen_Inr_iff)

lemma runtime_entries_kept:
  assumes "runtimeEntries t fs = ok es" "\<forall>d \<in> set D. beginsWith d ''src/''" "set es \<inter> set D = {}"
  shows "runtimeEntries (without D t) (filter (\<lambda>f. f \<notin> set D) fs) = ok es"
proof -
  obtain found where f: "startedFiles t = ok found" "es = sortUnits (remdups (filter (\<lambda>f. f \<in> set fs) found))"
    using assms(1) by (auto simp: runtimeEntries_def andThen_Inr_iff)
  have "filter (\<lambda>f. f \<in> set (filter (\<lambda>f. f \<notin> set D) fs)) found = filter (\<lambda>f. f \<in> set fs) found"
    using assms(3) f(2) by (intro filter_cong) (auto simp: sortUnits_def)
  then show ?thesis using f by (simp only: runtimeEntries_def started_kept [OF assms(2)] andThen.simps)
qed

lemma judged_unreferenced:
  assumes "frUnreferenced (judgeFile runtime tooling tested sibling twins acc f)"
  shows "f \<notin> set runtime \<and> f \<notin> set tooling \<and> \<not> heldBy acc f g"
  using assms by (auto simp: judgeFile_def Let_def heldBy_def split: option.splits)

lemma analyse_run:
  assumes "analyse t su sibling = ok r"
  shows "runtimeEntries t (fileSetOf t) = ok (rrRuntimeEntries r)"
    and "(f, v) \<in> set (rrFiles r) \<Longrightarrow> frUnreferenced v \<Longrightarrow> beginsWith f ''src/'' \<and> f \<in> set (fileSetOf t) \<and>
       f \<notin> set (closure t (rrRuntimeEntries r) (fileSetOf t)) \<and> f \<notin> set (closure t (toolingEntries (fileSetOf t)) (fileSetOf t)) \<and>
       \<not> heldBy (reverseEdges t (fileSetOf t)) f g"
proof -
  obtain es tested sib twins where run: "runtimeEntries t (fileSetOf t) = ok es" "rrRuntimeEntries r = es"
    "rrFiles r = map (\<lambda>rel. (rel, judgeFile (closure t es (fileSetOf t)) (closure t (toolingEntries (fileSetOf t)) (fileSetOf t)) tested sib twins
       (reverseEdges t (fileSetOf t)) rel)) (sourcesOf t)"
    using assms unfolding analyse_def Let_def andThen_Inr_iff by fastforce
  show "runtimeEntries t (fileSetOf t) = ok (rrRuntimeEntries r)" using run(1,2) by simp
  assume f: "(f, v) \<in> set (rrFiles r)" "frUnreferenced v"
  then have "f \<in> set (sourcesOf t)" unfolding run(3) by auto
  then have "beginsWith f ''src/'' \<and> f \<in> set (fileSetOf t)" by (simp add: sourcesOf_def sortUnits_def)
  moreover obtain v' where "v = v'" "v' = judgeFile (closure t es (fileSetOf t)) (closure t (toolingEntries (fileSetOf t)) (fileSetOf t)) tested sib twins
       (reverseEdges t (fileSetOf t)) f" using f(1) unfolding run(3) by auto
  ultimately show "beginsWith f ''src/'' \<and> f \<in> set (fileSetOf t) \<and>
       f \<notin> set (closure t (rrRuntimeEntries r) (fileSetOf t)) \<and> f \<notin> set (closure t (toolingEntries (fileSetOf t)) (fileSetOf t)) \<and>
       \<not> heldBy (reverseEdges t (fileSetOf t)) f g"
    unfolding run(2) using judged_unreferenced f(2) by metis
qed

text \<open>
  The files of a report that nothing holds can be deleted together. The service starts from the same entry points and
  loads the same files in the same order, the tooling as well, and every require of a kept file that is no test resolves
  to what it resolved to.
\<close>

theorem unreferenced_files_deletable:
  assumes "analyse t su sibling = ok r" "\<forall>f \<in> set D. \<exists>v. (f, v) \<in> set (rrFiles r) \<and> frUnreferenced v"
  shows "runtimeEntries (without D t) (fileSetOf (without D t)) = ok (rrRuntimeEntries r)"
    and "closure (without D t) (rrRuntimeEntries r) (fileSetOf (without D t)) = closure t (rrRuntimeEntries r) (fileSetOf t)"
    and "closure (without D t) (toolingEntries (fileSetOf (without D t))) (fileSetOf (without D t)) = closure t (toolingEntries (fileSetOf t)) (fileSetOf t)"
    and "\<forall>f \<in> set (fileSetOf (without D t)). \<not> isTestFile f \<longrightarrow> edgesFrom (without D t) (fileSetOf (without D t)) f = edgesFrom t (fileSetOf t) f"
proof -
  let ?fs = "fileSetOf t"
  have D: "beginsWith d ''src/''" "d \<in> set ?fs" "d \<notin> set (closure t (rrRuntimeEntries r) ?fs)" "d \<notin> set (closure t (toolingEntries ?fs) ?fs)"
    "\<not> heldBy (reverseEdges t ?fs) d g" if "d \<in> set D" for d g
    using assms(2) analyse_run(2) [OF assms(1)] that by blast+
  note entryList = analyse_run(1) [OF assms(1)]
  have "set (rrRuntimeEntries r) \<subseteq> set ?fs" using runtime_entries_tracked [OF entryList] .
  then have runtime: "set (rrRuntimeEntries r) \<inter> set D = {}" using D(3) closure_is_reachability [of t "rrRuntimeEntries r" ?fs] by auto
  have "set (toolingEntries ?fs) \<subseteq> set ?fs" by (auto simp: toolingEntries_def entriesUnder_def sortUnits_def)
  then have tooling: "set (toolingEntries ?fs) \<inter> set D = {}" using D(4) closure_is_reachability [of t "toolingEntries ?fs" ?fs] by auto
  show "runtimeEntries (without D t) (fileSetOf (without D t)) = ok (rrRuntimeEntries r)"
    unfolding fileSet_without using runtime_entries_kept [OF entryList _ runtime] D(1) by blast
  show "closure (without D t) (rrRuntimeEntries r) (fileSetOf (without D t)) = closure t (rrRuntimeEntries r) ?fs"
    unfolding fileSet_without using D runtime by (intro closure_kept) auto
  have same: "toolingEntries (fileSetOf (without D t)) = toolingEntries ?fs"
    unfolding fileSet_without using D(1) by (intro tooling_entries_kept) blast
  show "closure (without D t) (toolingEntries (fileSetOf (without D t))) (fileSetOf (without D t)) = closure t (toolingEntries ?fs) ?fs"
    unfolding same unfolding fileSet_without using D tooling by (intro closure_kept) auto
  show "\<forall>f \<in> set (fileSetOf (without D t)). \<not> isTestFile f \<longrightarrow> edgesFrom (without D t) (fileSetOf (without D t)) f = edgesFrom t ?fs f"
    unfolding fileSet_without using D(2,5) by (auto simp: required_by intro!: edges_kept)
qed

end
