(* ===== verification/SuiteTitles.thy ===== *)
theory SuiteTitles
  imports Reachability
begin

text \<open>
  The suite identity pin: \<open>src/bin/suite-title-map.js\<close>, what every npm test script collects and how a tree is compared
  with a pin, and \<open>src/bin/suite_title_map/split_map.js\<close>, one pinned file declared as several. The dry run of mocha is an
  argument: for the arguments and the environment of a script, the tests it reports, each with its file relative to the
  repository, or why there is no report.
\<close>

section \<open>Commands\<close>

record shellToken =
  tkValue :: jstring
  tkQuoted :: bool

record splitState =
  ssTokens :: "shellToken list"
  ssCurrent :: jstring
  ssQuote :: "16 word option"
  ssStarted :: bool
  ssQuoted :: bool

definition pushToken :: "splitState \<Rightarrow> splitState" where
  "pushToken st = st\<lparr>ssTokens := ssTokens st @ [\<lparr>tkValue = ssCurrent st, tkQuoted = ssQuoted st\<rparr>], ssCurrent := [],
     ssStarted := False, ssQuoted := False\<rparr>"

definition splitUnit :: "16 word \<Rightarrow> splitState \<Rightarrow> splitState" where
  "splitUnit ch st =
     (case ssQuote st of
        Some q \<Rightarrow> if ch = q then st\<lparr>ssQuote := None\<rparr> else st\<lparr>ssCurrent := ssCurrent st @ [ch]\<rparr>
      | None \<Rightarrow>
          if isQuote ch then st\<lparr>ssQuote := Some ch, ssStarted := True, ssQuoted := True\<rparr>
          else if isSpaceUnit ch then (if ssStarted st \<or> ssCurrent st \<noteq> [] then pushToken st else st)
          else st\<lparr>ssCurrent := ssCurrent st @ [ch]\<rparr>)"

definition splitCommand :: "jstring \<Rightarrow> shellToken list" where
  "splitCommand script =
     (let st = fold splitUnit script \<lparr>ssTokens = [], ssCurrent = [], ssQuote = None, ssStarted = False, ssQuoted = False\<rparr>
      in ssTokens (if ssStarted st \<or> ssCurrent st \<noteq> [] then pushToken st else st))"

definition isShellOperator :: "jstring \<Rightarrow> bool" where
  "isShellOperator s = (s \<in> {js ''&&'', js ''||'', js ''|'', js '';''} \<or> s \<noteq> [] \<and> list_all (\<lambda>u. u = 60 \<or> u = 62) s)"

datatype command =
    Skip jstring
  | Members "jstring list"
  | Mocha "jstring list" "(jstring, jstring) jmap"

fun npmMembers :: "jstring list \<Rightarrow> jstring list" where
  "npmMembers (a # b # rest) =
     (if a \<noteq> js ''npm'' then []
      else if b = js ''run'' \<and> rest \<noteq> [] then [hd rest]
      else if b = js ''test'' then [b] else []) @ npmMembers (b # rest)"
| "npmMembers _ = []"

text \<open>\<open>/^[A-Za-z_][A-Za-z0-9_]*=/\<close>: the name and the value.\<close>

definition assignmentOf :: "jstring \<Rightarrow> (jstring \<times> jstring) option" where
  "assignmentOf s =
     (let name = takeWhile isIdentUnit s
      in case dropWhile isIdentUnit s of
           u # value \<Rightarrow> if u = 61 \<and> name \<noteq> [] \<and> \<not> isDigit (hd name) then Some (name, value) else None
         | [] \<Rightarrow> None)"

fun leadingEnv :: "shellToken list \<Rightarrow> (jstring, jstring) jmap \<Rightarrow> (jstring, jstring) jmap \<times> shellToken list" where
  "leadingEnv (t # ts) env =
     (case if tkQuoted t then None else assignmentOf (tkValue t) of
        Some (name, v) \<Rightarrow> leadingEnv ts (jm_set name v env)
      | None \<Rightarrow> (env, t # ts))"
| "leadingEnv [] env = (env, [])"

definition mochaArgsFor :: "jstring \<Rightarrow> command" where
  "mochaArgsFor script =
     (let tokens = splitCommand script
      in if list_ex (\<lambda>t. \<not> tkQuoted t \<and> isShellOperator (tkValue t)) tokens
         then (case npmMembers (map tkValue tokens) of
                 [] \<Rightarrow> Skip (js ''shell composition this tool does not expand'')
               | ms \<Rightarrow> Members ms)
         else let (env, rest) = leadingEnv tokens [];
                  rest = (if rest \<noteq> [] \<and> tkValue (hd rest) = js ''npx'' then tl rest else rest)
              in if rest = [] then Skip (js ''not a mocha command (runs nothing)'')
                 else if tkValue (hd rest) \<noteq> js ''mocha'' then Skip (js ''not a mocha command (runs '' @ tkValue (hd rest) @ js '')'')
                 else Mocha (map tkValue (tl rest)) env)"

section \<open>The map\<close>

type_synonym titles = "(jstring, jstring list) jmap"
type_synonym mochaRun = "jstring list \<Rightarrow> (jstring, jstring) jmap \<Rightarrow> jstring + (jstring option \<times> jstring) list"

datatype 'f scriptResult =
    Skipped jstring
  | Composite "jstring list"
  | Failed jstring
  | Collected nat nat "(jstring, 'f) jmap"

record titleMap =
  tmSets :: titles
  tmScripts :: "(jstring, jstring scriptResult) jmap"

definition sortedObject :: "(jstring, 'v) jmap \<Rightarrow> (jstring, 'v) jmap" where
  "sortedObject m = sort_key (unitsOf \<circ> fst) m"

definition addTitle :: "jstring option \<times> jstring \<Rightarrow> titles \<Rightarrow> titles" where
  "addTitle test files =
     (let rel = (case fst test of Some f \<Rightarrow> f | None \<Rightarrow> js ''(no file)'')
      in jm_set rel ((case jm_get files rel of Some l \<Rightarrow> l | None \<Rightarrow> []) @ [snd test]) files)"

definition collect :: "mochaRun \<Rightarrow> jstring \<Rightarrow> jstring list scriptResult" where
  "collect mocha script =
     (case mochaArgsFor script of
        Skip why \<Rightarrow> Skipped why
      | Members ms \<Rightarrow> Composite ms
      | Mocha args env \<Rightarrow>
          (case mocha args env of
             Inl why \<Rightarrow> Failed why
           | Inr tests \<Rightarrow>
               (let files = map (\<lambda>(rel, ts). (rel, sortUnits ts)) (sortedObject (fold addTitle tests []))
                in Collected (length files) (sum_list (map (length \<circ> snd) files)) files)))"

text \<open>\<open>sha256\<close> is the hexadecimal digest of bytes.\<close>

definition setKey :: "(Buffer \<Rightarrow> jstring) \<Rightarrow> jstring list \<Rightarrow> jstring" where
  "setKey sha256 ts = take 16 (sha256 (utf8 (joinWith 10 ts)))"

definition NOT_RUN :: "jstring \<Rightarrow> jstring option" where
  "NOT_RUN = map_of
     [(js ''test:e2e:service'', js ''requires a running encoder API service backed by a bitcoind regtest venue''),
      (js ''test:regtest'', js ''requires a local bitcoind regtest venue and resets its regtest data directory'')]"

definition wanted :: "jstring option \<Rightarrow> jstring \<Rightarrow> bool" where
  "wanted only name = (case only of None \<Rightarrow> True | Some o' \<Rightarrow> o' = [] \<or> name = o')"

fun keyedResult :: "(jstring list \<Rightarrow> jstring) \<Rightarrow> jstring list scriptResult \<Rightarrow> titles \<Rightarrow> titles \<times> jstring scriptResult" where
  "keyedResult key (Collected n m files) sets =
     (fold (\<lambda>(_, ts). jm_set (key ts) ts) files sets, Collected n m (map (\<lambda>(rel, ts). (rel, key ts)) files))"
| "keyedResult key (Skipped why) sets = (sets, Skipped why)"
| "keyedResult key (Composite ms) sets = (sets, Composite ms)"
| "keyedResult key (Failed why) sets = (sets, Failed why)"

definition resultOf :: "mochaRun \<Rightarrow> jstring \<Rightarrow> jstring \<Rightarrow> jstring list scriptResult" where
  "resultOf mocha name script = (case NOT_RUN name of Some why \<Rightarrow> Skipped why | None \<Rightarrow> collect mocha script)"

text \<open>\<open>scripts\<close> are those of \<open>package.json\<close>, by name.\<close>

definition buildMap :: "(Buffer \<Rightarrow> jstring) \<Rightarrow> mochaRun \<Rightarrow> (jstring, jstring) jmap \<Rightarrow> jstring option \<Rightarrow> titleMap" where
  "buildMap sha256 mocha scripts only =
     (let chosen = sortedObject (filter (\<lambda>(n, _). beginsWith n ''test'' \<and> wanted only n) scripts);
          (sets, out) = fold (\<lambda>(n, script) (sets, out).
            let (sets, r) = keyedResult (setKey sha256) (resultOf mocha n script) sets in (sets, out @ [(n, r)])) chosen ([], [])
      in \<lparr>tmSets = sortedObject sets, tmScripts = out\<rparr>)"

section \<open>The comparison\<close>

datatype difference =
    ScriptRemoved jstring
  | ScriptAdded jstring
  | FileAdded jstring jstring
  | FileDropped jstring jstring
  | TitleDropped jstring jstring jstring
  | TitleAdded jstring "jstring list" jstring
  | TitleMoved jstring jstring "jstring list" jstring
  | TitleDuplicated jstring "jstring list" jstring
  | PartCollides jstring jstring jstring
  | SplitRecord jstring

definition titlesOf :: "titleMap \<Rightarrow> jstring \<Rightarrow> jstring list" where
  "titlesOf m key = (case jm_get (tmSets m) key of Some l \<Rightarrow> l | None \<Rightarrow> [])"

definition expand :: "titleMap \<Rightarrow> jstring \<Rightarrow> titles option" where
  "expand m name =
     (case jm_get (tmScripts m) name of
        Some (Collected _ _ files) \<Rightarrow> Some (map (\<lambda>(rel, key). (rel, titlesOf m key)) (sortedObject files))
      | _ \<Rightarrow> None)"

definition renamed :: "(jstring, jstring) jmap \<Rightarrow> jstring \<Rightarrow> jstring" where
  "renamed renames rel = (case jm_get renames rel of Some n \<Rightarrow> if n = [] then rel else n | None \<Rightarrow> rel)"

definition compareFile :: "jstring \<Rightarrow> titles \<Rightarrow> titles \<Rightarrow> jstring \<Rightarrow> difference list" where
  "compareFile name before after rel =
     (case (jm_get before rel, jm_get after rel) of
        (None, _) \<Rightarrow> [FileAdded name rel]
      | (_, None) \<Rightarrow> [FileDropped name rel]
      | (Some b, Some a) \<Rightarrow> map (TitleDropped name rel) (filter (\<lambda>t. t \<notin> set a) b) @ map (TitleAdded name [rel]) (filter (\<lambda>t. t \<notin> set b) a))"

definition compareScript :: "titleMap \<Rightarrow> titleMap \<Rightarrow> (jstring, jstring) jmap \<Rightarrow> jstring \<Rightarrow> difference list" where
  "compareScript pin fresh renames name =
     (case (expand pin name, expand fresh name) of
        (None, None) \<Rightarrow> []
      | (Some _, None) \<Rightarrow> [ScriptRemoved name]
      | (None, Some _) \<Rightarrow> [ScriptAdded name]
      | (Some before, Some after) \<Rightarrow>
          (let mapped = fold (\<lambda>(rel, ts). jm_set (renamed renames rel) ts) before []
           in concat (map (compareFile name mapped after) (sortUnits (remdups (map fst mapped @ map fst after))))))"

definition compare_maps :: "titleMap \<Rightarrow> titleMap \<Rightarrow> (jstring, jstring) jmap \<Rightarrow> jstring option \<Rightarrow> difference list" where
  "compare_maps pin fresh renames only =
     concat (map (compareScript pin fresh renames)
       (sortUnits (filter (wanted only) (remdups (map fst (tmScripts pin) @ map fst (tmScripts fresh))))))"

text \<open>What \<open>reportDifferences\<close> answers: whether coverage was dropped.\<close>

fun isAdditive :: "difference \<Rightarrow> bool" where
  "isAdditive (FileAdded _ _) = True"
| "isAdditive (TitleAdded _ _ _) = True"
| "isAdditive _ = False"

definition dropsCoverage :: "difference list \<Rightarrow> bool" where
  "dropsCoverage ds = list_ex (\<lambda>d. \<not> isAdditive d) ds"

section \<open>Splits\<close>

fun partsOf :: "jsval \<Rightarrow> jstring list option" where
  "partsOf (Arr vs) =
     (if length vs < 2 \<or> \<not> list_all (\<lambda>v. case v of Str s \<Rightarrow> s \<noteq> [] | _ \<Rightarrow> False) vs then None
      else Some (List.map_filter (\<lambda>v. case v of Str s \<Rightarrow> Some s | _ \<Rightarrow> None) vs))"
| "partsOf v = None"

datatype splitProblem =
    NotAnObject
  | BadParts jstring
  | NamedTwice jstring jstring jstring
  | PartIsSplit jstring jstring

definition claimPart :: "jstring \<Rightarrow> jstring \<Rightarrow> splitProblem list \<times> (jstring, jstring) jmap \<Rightarrow> splitProblem list \<times> (jstring, jstring) jmap" where
  "claimPart old part st =
     (case jm_get (snd st) part of
        Some o' \<Rightarrow> (fst st @ [NamedTwice part o' old], snd st)
      | None \<Rightarrow> (fst st, jm_set part old (snd st)))"

definition validateSplits :: "jsval \<Rightarrow> splitProblem list" where
  "validateSplits splits =
     (case splits of
        Obj fs \<Rightarrow>
          (let (problems, owner) = fold (\<lambda>(old, v) st.
                 case partsOf v of None \<Rightarrow> (fst st @ [BadParts old], snd st) | Some parts \<Rightarrow> fold (claimPart old) parts st) fs ([], [])
           in problems @ map (\<lambda>(part, o'). PartIsSplit part o') (filter (\<lambda>(part, o'). part \<noteq> o' \<and> part \<in> set (map fst fs)) owner))
      | _ \<Rightarrow> [NotAnObject])"

definition loadSplits :: "jsval \<Rightarrow> jsval" where
  "loadSplits record' = (case record' of Obj fs \<Rightarrow> if js ''splits'' \<in> set (map fst fs) then getProp record' ''splits'' else record' | _ \<Rightarrow> record')"

definition countTitles :: "jstring list list \<Rightarrow> (jstring, nat) jmap" where
  "countTitles lss = fold (\<lambda>t counts. jm_set t ((case jm_get counts t of Some n \<Rightarrow> n | None \<Rightarrow> 0) + 1) counts) (concat lss) []"

definition countIn :: "(jstring, nat) jmap \<Rightarrow> jstring \<Rightarrow> nat" where
  "countIn counts t = (case jm_get counts t of Some n \<Rightarrow> n | None \<Rightarrow> 0)"

definition carriedBy :: "titles \<Rightarrow> jstring \<Rightarrow> jstring list" where
  "carriedBy files rel = (case jm_get files rel of Some l \<Rightarrow> l | None \<Rightarrow> [])"

definition missingTitles :: "jstring \<Rightarrow> jstring \<Rightarrow> jstring list \<Rightarrow> titles \<Rightarrow> (jstring, nat) jmap \<Rightarrow> (jstring, nat) jmap \<Rightarrow> difference list" where
  "missingTitles name old parts after expected got =
     concat (map (\<lambda>(title, want).
       let elsewhere = sortUnits (filter (\<lambda>rel. rel \<notin> set parts \<and> title \<in> set (carriedBy after rel)) (map fst after))
       in replicate (want - countIn got title)
            (if elsewhere \<noteq> [] then TitleMoved name old elsewhere title else TitleDropped name old title)) expected)"

definition surplusTitles :: "jstring \<Rightarrow> jstring list \<Rightarrow> titles \<Rightarrow> (jstring, nat) jmap \<Rightarrow> (jstring, nat) jmap \<Rightarrow> difference list" where
  "surplusTitles name parts after expected got =
     concat (map (\<lambda>(title, n).
       let want = countIn expected title; holders = filter (\<lambda>p. title \<in> set (carriedBy after p)) parts
       in replicate (n - want) (if want \<noteq> 0 then TitleDuplicated name holders title else TitleAdded name holders title)) got)"

definition gradeSplit :: "jstring \<Rightarrow> jstring \<Rightarrow> jstring list \<Rightarrow> titles \<Rightarrow> titles \<Rightarrow> difference list" where
  "gradeSplit name old parts mapped after =
     (let expected = countTitles [carriedBy mapped old]; got = countTitles (map (carriedBy after) parts)
      in map (\<lambda>part. PartCollides name part old) (filter (\<lambda>part. part \<noteq> old \<and> jm_get mapped part \<noteq> None) parts) @
         missingTitles name old parts after expected got @ surplusTitles name parts after expected got)"

definition withoutFiles :: "titleMap \<Rightarrow> (jstring \<Rightarrow> jstring list) \<Rightarrow> titleMap" where
  "withoutFiles m drop' = m\<lparr>tmScripts := map (\<lambda>(name, s).
     (name, case s of Collected a b files \<Rightarrow> Collected a b (filter (\<lambda>(rel, _). rel \<notin> set (drop' name)) files) | _ \<Rightarrow> s)) (tmScripts m)\<rparr>"

text \<open>A script's pinned files under their new paths, and the pinned paths behind each; \<open>filesOf\<close> is \<open>expand\<close> unsorted.\<close>

definition filesOf :: "titleMap \<Rightarrow> jstring \<Rightarrow> titles option" where
  "filesOf m name =
     (case jm_get (tmScripts m) name of
        Some (Collected _ _ files) \<Rightarrow> Some (map (\<lambda>(rel, key). (rel, titlesOf m key)) files)
      | _ \<Rightarrow> None)"

definition renamedView :: "titles \<Rightarrow> (jstring, jstring) jmap \<Rightarrow> titles \<times> (jstring \<Rightarrow> jstring list)" where
  "renamedView before renames =
     (fold (\<lambda>(rel, ts). jm_set (renamed renames rel) ts) before [], \<lambda>n. filter (\<lambda>rel. renamed renames rel = n) (map fst before))"

definition splitsOf :: "jsval \<Rightarrow> (jstring \<times> jstring list) list" where
  "splitsOf splits =
     (case splits of Obj fs \<Rightarrow> sortedObject (List.map_filter (\<lambda>(old, v). map_option (Pair old) (partsOf v)) fs) | _ \<Rightarrow> [])"

text \<open>For one script: the splits that apply, each with the pinned paths it takes and its differences.\<close>

definition appliedSplits :: "titleMap \<Rightarrow> titleMap \<Rightarrow> (jstring, jstring) jmap \<Rightarrow> (jstring \<times> jstring list) list \<Rightarrow> jstring \<Rightarrow>
    (jstring list \<times> jstring list \<times> difference list) list" where
  "appliedSplits pin fresh renames splits name =
     (case (filesOf pin name, filesOf fresh name) of
        (Some before, Some after) \<Rightarrow>
          (let (mapped, origin) = renamedView before renames
           in map (\<lambda>(old, parts). (origin old, parts, gradeSplit name old parts mapped after))
                (filter (\<lambda>(old, _). jm_get mapped old \<noteq> None) splits))
      | _ \<Rightarrow> [])"

definition problemText :: "splitProblem \<Rightarrow> jstring" where
  "problemText p =
     (case p of
        NotAnObject \<Rightarrow> js ''the split map is not an object of {old: [new, ...]}''
      | BadParts old \<Rightarrow> old @ js '': parts must be a list of at least two paths''
      | NamedTwice part a b \<Rightarrow> part @ js '': named by '' @ a @ js '' and by '' @ b
      | PartIsSplit part a \<Rightarrow> part @ js '': a part of '' @ a @ js '' and itself split'')"

definition compareWithSplits :: "titleMap \<Rightarrow> titleMap \<Rightarrow> (jstring, jstring) jmap \<Rightarrow> jsval \<Rightarrow> jstring option \<Rightarrow> difference list" where
  "compareWithSplits pin fresh renames splits only =
     (if validateSplits splits \<noteq> [] then map (SplitRecord \<circ> problemText) (validateSplits splits)
      else let names = sortUnits (filter (wanted only) (map fst (tmScripts pin)));
               applied = (\<lambda>name. if name \<in> set names then appliedSplits pin fresh renames (splitsOf splits) name else []);
               pinned = (\<lambda>name. concat (map fst (applied name))); parted = (\<lambda>name. concat (map (fst \<circ> snd) (applied name)))
           in concat (map (\<lambda>name. concat (map (snd \<circ> snd) (applied name))) names) @
              compare_maps (withoutFiles pin pinned) (withoutFiles fresh parted) renames only)"

end
