(* ===== verification/SuiteTitlesProperties.thy ===== *)
theory SuiteTitlesProperties
  imports SuiteTitles "HOL-Library.Multiset"
begin

text \<open>
  What the suite pin promises: a comparison is silent exactly where the same titles are collected, and a split file
  counts as whole exactly when its parts carry its titles as a multiset; the indirection through title sets is lossless.
\<close>

section \<open>Counts\<close>

definition bump :: "jstring \<Rightarrow> (jstring, nat) jmap \<Rightarrow> (jstring, nat) jmap" where
  "bump t counts = jm_set t (countIn counts t + 1) counts"

lemma bump_facts:
  "countIn (bump x acc) u = countIn acc u + (if u = x then 1 else 0)"
  "jm_get (bump x acc) u = None \<longleftrightarrow> u \<noteq> x \<and> jm_get acc u = None"
  "jm_wf acc \<Longrightarrow> jm_wf (bump x acc)"
  by (auto simp: countIn_def bump_def jm.get_put jm.wf_put)

lemma bumped:
  assumes "jm_wf acc"
  shows "jm_wf (fold bump ts acc)" "countIn (fold bump ts acc) t = countIn acc t + count (mset ts) t"
    "jm_get (fold bump ts acc) t = None \<longleftrightarrow> t \<notin> set ts \<and> jm_get acc t = None"
  using assms by (induction ts arbitrary: acc) (auto simp: bump_facts)

lemma count_entries:
  "countIn (countTitles lss) t = count (mset (concat lss)) t"
  "(t, n) \<in> set (countTitles lss) \<longleftrightarrow> 0 < n \<and> n = count (mset (concat lss)) t"
proof -
  have run: "countTitles lss = fold bump (concat lss) jm_empty"
    unfolding countTitles_def by (intro fold_cong refl) (simp add: bump_def countIn_def fun_eq_iff)
  have wf: "jm_wf jm_empty" by (rule jm.wf_none)
  show n: "countIn (countTitles lss) t = count (mset (concat lss)) t"
    unfolding run bumped(2) [OF wf] by (simp add: countIn_def jm.get_none)
  have none: "jm_get (countTitles lss) t = None \<longleftrightarrow> t \<notin> set (concat lss)" unfolding run bumped(3) [OF wf] by (simp only: jm.get_none simp_thms)
  have pos: "0 < count (mset (concat lss)) t \<longleftrightarrow> t \<in> set (concat lss)" by (simp only: count_greater_zero_iff set_mset_mset)
  have "(t, n) \<in> set (countTitles lss) \<longleftrightarrow> jm_get (countTitles lss) t = Some n"
    using bumped(1) [OF wf, of "concat lss"] unfolding run jm_wf_def jm_get_def by simp
  then show "(t, n) \<in> set (countTitles lss) \<longleftrightarrow> 0 < n \<and> n = count (mset (concat lss)) t"
    using n none pos by (cases "jm_get (countTitles lss) t") (auto simp only: countIn_def option.case option.distinct option.inject)
qed

lemma counts_within:
  "(\<forall>(t, n) \<in> set (countTitles as). n \<le> countIn (countTitles bs) t) \<longleftrightarrow> mset (concat as) \<subseteq># mset (concat bs)"
proof -
  have "(\<forall>(t, n) \<in> set (countTitles as). n \<le> countIn (countTitles bs) t) \<longleftrightarrow>
      (\<forall>t. 0 < count (mset (concat as)) t \<longrightarrow> count (mset (concat as)) t \<le> count (mset (concat bs)) t)"
    unfolding count_entries(1) Ball_def split_paired_All prod.case count_entries(2) by simp
  also have "\<dots> \<longleftrightarrow> (\<forall>t. count (mset (concat as)) t \<le> count (mset (concat bs)) t)" by (metis le0 neq0_conv)
  finally show ?thesis unfolding subseteq_mset_def .
qed

lemma replicates_empty: "concat (map (\<lambda>x. replicate (f x) (g x)) xs) = [] \<longleftrightarrow> (\<forall>x \<in> set xs. f x = 0)"
  by auto

lemma missing_empty:
  "missingTitles name old parts after (countTitles as) (countTitles bs) = [] \<longleftrightarrow> mset (concat as) \<subseteq># mset (concat bs)"
  unfolding missingTitles_def Let_def case_prod_beta replicates_empty counts_within [symmetric] by simp

lemma surplus_empty:
  "surplusTitles name parts after (countTitles as) (countTitles bs) = [] \<longleftrightarrow> mset (concat bs) \<subseteq># mset (concat as)"
  unfolding surplusTitles_def Let_def case_prod_beta replicates_empty counts_within [symmetric] by simp

text \<open>
  A split is graded whole exactly when its parts, taken together, carry the titles of the old file as a multiset and no
  part was a pinned file of its own: no title is lost, added, moved outside the record or carriedBy twice.
\<close>

theorem split_graded_as_union:
  "gradeSplit name old parts mapped after = [] \<longleftrightarrow>
     mset (concat (map (carriedBy after) parts)) = mset (carriedBy mapped old) \<and> (\<forall>part \<in> set parts. part = old \<or> jm_get mapped part = None)"
  by (auto simp: gradeSplit_def Let_def missing_empty surplus_empty filter_empty_conv intro: subset_mset.antisym)

section \<open>The comparison\<close>

lemma compareFile_empty:
  assumes "rel \<in> set (map fst before @ map fst after)"
  shows "compareFile name before after rel = [] \<longleftrightarrow> map_option set (jm_get before rel) = map_option set (jm_get after rel)"
proof -
  have "jm_get before rel \<noteq> None \<or> jm_get after rel \<noteq> None" using assms by (auto simp: jm_get_def map_of_eq_None_iff)
  then show ?thesis unfolding compareFile_def
    by (cases "jm_get before rel"; cases "jm_get after rel") (auto simp: filter_empty_conv)
qed

lemma compareScript_empty:
  "compareScript pin fresh renames name = [] \<longleftrightarrow>
     (case (expand pin name, expand fresh name) of
        (None, None) \<Rightarrow> True
      | (Some before, Some after) \<Rightarrow>
          (\<forall>rel. map_option set (jm_get (fst (renamedView before renames)) rel) = map_option set (jm_get after rel))
      | _ \<Rightarrow> False)"
proof (cases "expand pin name"; cases "expand fresh name")
  fix before after assume e: "expand pin name = Some before" "expand fresh name = Some after"
  let ?m = "fst (renamedView before renames)"
  have outside: "map_option set (jm_get ?m rel) = map_option set (jm_get after rel)" if "rel \<notin> set (map fst ?m @ map fst after)" for rel
    using that by (simp add: jm_get_def map_of_eq_None_iff [THEN iffD2])
  have "compareScript pin fresh renames name = [] \<longleftrightarrow> (\<forall>rel \<in> set (map fst ?m @ map fst after). compareFile name ?m after rel = [])"
    using e by (auto simp: compareScript_def renamedView_def Let_def sortUnits_def)
  also have "\<dots> \<longleftrightarrow> (\<forall>rel \<in> set (map fst ?m @ map fst after). map_option set (jm_get ?m rel) = map_option set (jm_get after rel))"
    using compareFile_empty by blast
  also have "\<dots> \<longleftrightarrow> (\<forall>rel. map_option set (jm_get ?m rel) = map_option set (jm_get after rel))" using outside by blast
  finally show ?thesis unfolding e prod.case option.case .
qed (simp_all add: compareScript_def)

text \<open>A comparison is silent exactly when every script wanted is collected by both or by neither, and under the new paths
  the same files carry the same titles.\<close>

theorem comparison_exact:
  "compare_maps pin fresh renames only = [] \<longleftrightarrow>
     (\<forall>name. wanted only name \<longrightarrow>
        (case (expand pin name, expand fresh name) of
           (None, None) \<Rightarrow> True
         | (Some before, Some after) \<Rightarrow>
             (\<forall>rel. map_option set (jm_get (fst (renamedView before renames)) rel) = map_option set (jm_get after rel))
         | _ \<Rightarrow> False))"
proof -
  let ?names = "map fst (tmScripts pin) @ map fst (tmScripts fresh)"
  have "expand pin name = None" "expand fresh name = None" if "name \<notin> set ?names" for name
    using that by (simp_all add: expand_def jm_get_def map_of_eq_None_iff [THEN iffD2])
  then have outside: "compareScript pin fresh renames name = []" if "name \<notin> set ?names" for name
    using that by (simp add: compareScript_def)
  have "compare_maps pin fresh renames only = [] \<longleftrightarrow> (\<forall>name \<in> set ?names. wanted only name \<longrightarrow> compareScript pin fresh renames name = [])"
    by (auto simp: compare_maps_def sortUnits_def)
  also have "\<dots> \<longleftrightarrow> (\<forall>name. wanted only name \<longrightarrow> compareScript pin fresh renames name = [])" using outside by blast
  finally show ?thesis unfolding compareScript_empty .
qed

section \<open>The indirection\<close>

definition collectedLists :: "mochaRun \<Rightarrow> (jstring, jstring) jmap \<Rightarrow> jstring list set" where
  "collectedLists mocha scripts =
     {ts. \<exists>n script a b files rel. (n, script) \<in> set scripts \<and> resultOf mocha n script = Collected a b files \<and> (rel, ts) \<in> set files}"

text \<open>Every entry of \<open>sets\<close> is a list of \<open>S\<close> under its own key.\<close>

definition keyedBy :: "(jstring list \<Rightarrow> jstring) \<Rightarrow> jstring list set \<Rightarrow> titles \<Rightarrow> bool" where
  "keyedBy key S sets \<longleftrightarrow> jm_wf sets \<and> (\<forall>k ts. jm_get sets k = Some ts \<longrightarrow> k = key ts \<and> ts \<in> S)"

lemma keyed_files:
  assumes "inj_on key S" "keyedBy key S sets" "set (map snd files) \<subseteq> S"
  shows "keyedBy key S (fold (\<lambda>(_, ts). jm_set (key ts) ts) files sets) \<and>
     (jm_get (fold (\<lambda>(_, ts). jm_set (key ts) ts) files sets) (key ts) = Some ts \<longleftrightarrow>
       jm_get sets (key ts) = Some ts \<or> ts \<in> set (map snd files))"
  using assms(2,3)
proof (induction files arbitrary: sets)
  case (Cons f files)
  obtain rel xs where f: "f = (rel, xs)" by (cases f)
  have key: "keyedBy key S (jm_set (key xs) xs sets)" using Cons.prems f by (auto simp: keyedBy_def jm.get_put jm.wf_put)
  have "jm_get (jm_set (key xs) xs sets) (key ts) = Some ts \<longleftrightarrow> jm_get sets (key ts) = Some ts \<or> ts = xs"
    using assms(1) Cons.prems f by (auto simp: jm.get_put keyedBy_def inj_on_def)
  then show ?case using Cons.IH [OF key] Cons.prems(2) f by auto
qed auto

definition step :: "(jstring list \<Rightarrow> jstring) \<Rightarrow> mochaRun \<Rightarrow> jstring \<times> jstring \<Rightarrow> titles \<times> (jstring, jstring scriptResult) jmap \<Rightarrow>
    titles \<times> (jstring, jstring scriptResult) jmap" where
  "step key mocha = (\<lambda>(n, script) (sets, out). let (sets, r) = keyedResult key (resultOf mocha n script) sets in (sets, out @ [(n, r)]))"

lemma step_facts:
  assumes "inj_on key S" "keyedBy key S sets" "\<forall>a b files. resultOf mocha n script = Collected a b files \<longrightarrow> set (map snd files) \<subseteq> S"
  shows "\<exists>sets'. step key mocha (n, script) (sets, out) = (sets', out @ [(n, snd (keyedResult key (resultOf mocha n script) []))]) \<and>
     keyedBy key S sets' \<and> (\<forall>ts. jm_get sets (key ts) = Some ts \<longrightarrow> jm_get sets' (key ts) = Some ts) \<and>
     (\<forall>a b files ts. resultOf mocha n script = Collected a b files \<longrightarrow> ts \<in> set (map snd files) \<longrightarrow> jm_get sets' (key ts) = Some ts)"
  using assms keyed_files [OF assms(1,2)] by (cases "resultOf mocha n script") (auto simp: step_def simp del: set_map)

lemma steps_facts:
  assumes "inj_on key S" "keyedBy key S sets"
    and "\<forall>n script a b files. (n, script) \<in> set chosen \<longrightarrow> resultOf mocha n script = Collected a b files \<longrightarrow> set (map snd files) \<subseteq> S"
  shows "\<exists>sets'. fold (step key mocha) chosen (sets, out) =
       (sets', out @ map (\<lambda>(n, script). (n, snd (keyedResult key (resultOf mocha n script) []))) chosen) \<and>
     keyedBy key S sets' \<and> (\<forall>ts. jm_get sets (key ts) = Some ts \<longrightarrow> jm_get sets' (key ts) = Some ts) \<and>
     (\<forall>n script a b files ts. (n, script) \<in> set chosen \<longrightarrow> resultOf mocha n script = Collected a b files \<longrightarrow> ts \<in> set (map snd files) \<longrightarrow>
        jm_get sets' (key ts) = Some ts)"
  using assms(2,3)
proof (induction chosen arbitrary: sets out)
  case (Cons c chosen)
  obtain n script where c: "c = (n, script)" by (cases c)
  obtain sets1 where 1: "step key mocha c (sets, out) = (sets1, out @ [(n, snd (keyedResult key (resultOf mocha n script) []))])"
    "keyedBy key S sets1" "\<forall>ts. jm_get sets (key ts) = Some ts \<longrightarrow> jm_get sets1 (key ts) = Some ts"
    "\<forall>a b files ts. resultOf mocha n script = Collected a b files \<longrightarrow> ts \<in> set (map snd files) \<longrightarrow> jm_get sets1 (key ts) = Some ts"
    using step_facts [OF assms(1) Cons.prems(1), of mocha n script out] Cons.prems(2) c by (metis list.set_intros(1))
  have "\<forall>n script a b files. (n, script) \<in> set chosen \<longrightarrow> resultOf mocha n script = Collected a b files \<longrightarrow> set (map snd files) \<subseteq> S"
    using Cons.prems(2) by (metis list.set_intros(2))
  from Cons.IH [OF 1(2) this, of "out @ [(n, snd (keyedResult key (resultOf mocha n script) []))]"] obtain sets2 where
    2: "fold (step key mocha) chosen (sets1, out @ [(n, snd (keyedResult key (resultOf mocha n script) []))]) =
      (sets2, (out @ [(n, snd (keyedResult key (resultOf mocha n script) []))]) @ map (\<lambda>(n, script). (n, snd (keyedResult key (resultOf mocha n script) []))) chosen)"
    "keyedBy key S sets2" "\<forall>ts. jm_get sets1 (key ts) = Some ts \<longrightarrow> jm_get sets2 (key ts) = Some ts"
    "\<forall>n script a b files ts. (n, script) \<in> set chosen \<longrightarrow> resultOf mocha n script = Collected a b files \<longrightarrow> ts \<in> set (map snd files) \<longrightarrow> jm_get sets2 (key ts) = Some ts"
    by blast
  show ?case using 1 2 c by (intro exI [of _ sets2]) (auto simp del: set_map)
qed auto

lemma sorted_object_get: "distinct (map fst m) \<Longrightarrow> jm_get (sortedObject m) k = jm_get m k"
  using map_of_inject_set [of "sort_key (unitsOf \<circ> fst) m" m] by (simp add: sortedObject_def jm_get_def distinct_map)

lemma collected_sorted: "resultOf mocha n script = Collected a b files \<Longrightarrow> sorted (map (unitsOf \<circ> fst) files)"
  by (auto simp: resultOf_def collect_def sortedObject_def Let_def comp_def case_prod_beta split: option.splits command.splits sum.splits)

text \<open>Stored once per hash, the titles of a script come back as they were collected, where no two lists share a hash.\<close>

theorem pin_lossless:
  assumes "inj_on (setKey sha256) (collectedLists mocha scripts)" "distinct (map fst scripts)"
    and "(n, script) \<in> set scripts" "beginsWith n ''test''" "wanted only n"
  shows "expand (buildMap sha256 mocha scripts only) n = (case resultOf mocha n script of Collected _ _ files \<Rightarrow> Some files | _ \<Rightarrow> None)"
proof -
  let ?key = "setKey sha256" and ?S = "collectedLists mocha scripts"
  define chosen where "chosen = sortedObject (filter (\<lambda>(n, _). beginsWith n ''test'' \<and> wanted only n) scripts)"
  have sub: "set chosen \<subseteq> set scripts" and here: "(n, script) \<in> set chosen" using assms(3-5) by (auto simp: chosen_def sortedObject_def)
  have dist: "distinct (map fst chosen)"
    using assms(2) by (simp add: chosen_def sortedObject_def distinct_map inj_on_subset [of fst "set scripts"] distinct_filter) 
  have lists: "\<forall>n script a b files. (n, script) \<in> set chosen \<longrightarrow> resultOf mocha n script = Collected a b files \<longrightarrow> set (map snd files) \<subseteq> ?S"
    using sub by (fastforce simp: collectedLists_def)
  obtain sets where run: "fold (step ?key mocha) chosen ([], []) = (sets, map (\<lambda>(n, script). (n, snd (keyedResult ?key (resultOf mocha n script) []))) chosen)"
    and wf: "keyedBy ?key ?S sets"
    and kept: "\<And>n script a b files ts. (n, script) \<in> set chosen \<Longrightarrow> resultOf mocha n script = Collected a b files \<Longrightarrow> ts \<in> set (map snd files) \<Longrightarrow>
        jm_get sets (?key ts) = Some ts"
    using steps_facts [OF assms(1) _ lists, of jm_empty jm_empty] by (auto simp: keyedBy_def jm.get_none jm.wf_none simp del: set_map)
  have m: "buildMap sha256 mocha scripts only =
      \<lparr>tmSets = sortedObject sets, tmScripts = map (\<lambda>(n, script). (n, snd (keyedResult ?key (resultOf mocha n script) []))) chosen\<rparr>"
    using run unfolding buildMap_def step_def chosen_def Let_def by simp
  have result: "jm_get (tmScripts (buildMap sha256 mocha scripts only)) n = Some (snd (keyedResult ?key (resultOf mocha n script) []))"
    unfolding m jm_get_def using here dist by (auto simp: case_prod_beta comp_def intro!: map_of_is_SomeI image_eqI [of _ _ "(n, script)"])
  show ?thesis
  proof (cases "resultOf mocha n script")
    case (Collected a b files)
    have dw: "distinct (map fst sets)" using wf unfolding keyedBy_def jm_wf_def by blast
    have "jm_get (sortedObject sets) (?key ts) = Some ts" if "(rel, ts) \<in> set files" for rel ts
    proof -
      have "ts \<in> set (map snd files)" using that by force
      then have "jm_get sets (?key ts) = Some ts" by (rule kept [OF here Collected])
      then show ?thesis using sorted_object_get [OF dw] by metis
    qed
    then have "titlesOf (buildMap sha256 mocha scripts only) (?key ts) = ts" if "(rel, ts) \<in> set files" for rel ts
      using that by (simp add: m titlesOf_def)
    moreover have "sortedObject (map (\<lambda>(rel, ts). (rel, ?key ts)) files) = map (\<lambda>(rel, ts). (rel, ?key ts)) files"
      unfolding sortedObject_def using collected_sorted [OF Collected] by (intro sort_key_id_if_sorted) (simp add: case_prod_beta comp_def)
    ultimately show ?thesis using result Collected by (simp add: expand_def) (auto intro!: map_idI)
  qed (use result in \<open>simp_all add: expand_def\<close>)
qed

end
