(* ===== verification/IdentityPin.thy ===== *)
theory IdentityPin
  imports Reachability
begin

text \<open>
  The identity pin, \<open>src/bin/pin-identity.js\<close>: the SHA-256 of the vendored coin files and twins, and what differs
  between two pins. The bytes of a file of the repository (none where it is missing), whether the coin directory is there
  and SHA-256 are arguments. A pin read back has its four fields as the program writes them.
\<close>

definition COINS_FILES :: "jstring list" where
  "COINS_FILES = map js [''src/coins/BTC.js'', ''src/coins/LTC.js'', ''src/coins/DOGE.js'', ''src/coins/index.js'', ''src/coins/consensus_pin.js'']"

definition VENDORED_TWIN_FILES :: "jstring list" where
  "VENDORED_TWIN_FILES = map js
     [''.github/workflows/verify-tag.yml'', ''src/observability/README.md'', ''src/observability/index.js'', ''src/observability/logShipper.js'',
      ''src/observability/metrics.js'', ''test/fixtures/action-manifest.json'', ''test/fixtures/roundtrip-conformance.json'',
      ''test/fixtures/utxo-record-conformance.json'', ''tools/release/release-signing-fingerprint.txt'', ''tools/release/release-signing-key.asc'']"

record identityPin =
  ipCoins :: "(jstring, jstring) jmap"
  ipTwins :: "(jstring, jstring) jmap"
  ipCoinsNote :: "jstring option"
  ipTwinsNote :: "jstring option"

fun hashExisting :: "(jstring \<Rightarrow> Buffer option) \<Rightarrow> (Buffer \<Rightarrow> jstring) \<Rightarrow> jstring list \<Rightarrow> (jstring, jstring) jmap \<Rightarrow> (jstring, jstring) jmap result" where
  "hashExisting bytes sha256 [] hashes = ok hashes"
| "hashExisting bytes sha256 (rel # files) hashes =
     (case bytes rel of
        None \<Rightarrow> throw (InternalError ''identity file is missing'')
      | Some b \<Rightarrow> hashExisting bytes sha256 files (jm_set rel (sha256 b) hashes))"

definition buildPin :: "(jstring \<Rightarrow> Buffer option) \<Rightarrow> (Buffer \<Rightarrow> jstring) \<Rightarrow> bool \<Rightarrow> identityPin result" where
  "buildPin bytes sha256 coinsPresent =
     andThen (if coinsPresent then hashExisting bytes sha256 COINS_FILES [] else ok []) (\<lambda>coins.
     andThen (hashExisting bytes sha256 VENDORED_TWIN_FILES []) (\<lambda>twins.
     ok \<lparr>ipCoins = coins, ipTwins = twins, ipCoinsNote = (if coinsPresent then None else Some (js ''repo has no src/coins/ directory'')),
          ipTwinsNote = (if VENDORED_TWIN_FILES = [] then Some (js ''repo carries no vendored twin files'') else None)\<rparr>))"

datatype pinDifference =
    Added string jstring
  | Removed string jstring
  | Hash string jstring
  | Changed string

definition fileDifference :: "string \<Rightarrow> (jstring, jstring) jmap \<Rightarrow> (jstring, jstring) jmap \<Rightarrow> jstring \<Rightarrow> pinDifference list" where
  "fileDifference grp before after rel =
     (case (jm_get before rel, jm_get after rel) of
        (None, _) \<Rightarrow> [Added grp rel]
      | (_, None) \<Rightarrow> [Removed grp rel]
      | (Some b, Some a) \<Rightarrow> if b \<noteq> a then [Hash grp rel] else [])"

definition groupDifferences :: "string \<Rightarrow> (jstring, jstring) jmap \<Rightarrow> (jstring, jstring) jmap \<Rightarrow> pinDifference list" where
  "groupDifferences grp before after =
     concat (map (fileDifference grp before after) (sortUnits (remdups (map fst before @ map fst after))))"

text \<open>A note that is empty text counts as none.\<close>

definition noteOf :: "jstring option \<Rightarrow> jstring option" where
  "noteOf n = (case n of Some s \<Rightarrow> if s = [] then None else Some s | None \<Rightarrow> None)"

definition pinDifferences :: "identityPin \<Rightarrow> identityPin \<Rightarrow> pinDifference list" where
  "pinDifferences prior fresh =
     groupDifferences ''coins'' (ipCoins prior) (ipCoins fresh) @ groupDifferences ''vendoredTwins'' (ipTwins prior) (ipTwins fresh) @
     (if noteOf (ipCoinsNote prior) \<noteq> noteOf (ipCoinsNote fresh) then [Changed ''coinsNote''] else []) @
     (if noteOf (ipTwinsNote prior) \<noteq> noteOf (ipTwinsNote fresh) then [Changed ''vendoredTwinsNote''] else [])"

section \<open>What a silent comparison means\<close>

lemma hashed_files:
  "hashExisting bytes sha256 files hashes = ok h \<Longrightarrow>
     jm_get h rel = (if rel \<in> set files then map_option sha256 (bytes rel) else jm_get hashes rel) \<and> (\<forall>f \<in> set files. bytes f \<noteq> None)"
  by (induction files arbitrary: hashes) (auto simp: jm.get_put split: option.splits)

lemma group_silent: "groupDifferences grp before after = [] \<longleftrightarrow> jm_get before = jm_get after"
proof -
  have outside: "jm_get before rel = None \<and> jm_get after rel = None" if "rel \<notin> set (map fst before @ map fst after)" for rel
    using that by (simp add: jm_get_def map_of_eq_None_iff [THEN iffD2])
  have inside: "jm_get before rel \<noteq> None \<or> jm_get after rel \<noteq> None" if "rel \<in> set (map fst before @ map fst after)" for rel
    using that by (auto simp: jm_get_def map_of_eq_None_iff)
  have "fileDifference grp before after rel = [] \<longleftrightarrow> jm_get before rel = jm_get after rel"
    if "rel \<in> set (map fst before @ map fst after)" for rel
    using inside [OF that] by (cases "jm_get before rel"; cases "jm_get after rel") (auto simp: fileDifference_def)
  then have "groupDifferences grp before after = [] \<longleftrightarrow> (\<forall>rel \<in> set (map fst before @ map fst after). jm_get before rel = jm_get after rel)"
    unfolding groupDifferences_def sortUnits_def by simp
  also have "\<dots> \<longleftrightarrow> (\<forall>rel. jm_get before rel = jm_get after rel)" using outside by metis
  finally show ?thesis unfolding fun_eq_iff .
qed

text \<open>Two trees whose pins agree carry the same files by hash: every vendored twin, and every coin file where the directory is there.\<close>

theorem pinned_files_identical:
  assumes "buildPin bytes sha256 present = ok pin" "buildPin bytes' sha256 present' = ok pin'"
  shows "pinDifferences pin pin' = [] \<longleftrightarrow>
     present = present' \<and> (\<forall>f \<in> set (VENDORED_TWIN_FILES @ (if present then COINS_FILES else [])).
        map_option sha256 (bytes f) = map_option sha256 (bytes' f))"
proof -
  have VT: "VENDORED_TWIN_FILES \<noteq> []" by (simp add: VENDORED_TWIN_FILES_def)
  have run: "(if pr then hashExisting b sha256 COINS_FILES [] else ok []) = ok (ipCoins p)" "hashExisting b sha256 VENDORED_TWIN_FILES [] = ok (ipTwins p)"
    "noteOf (ipCoinsNote p) = (if pr then None else Some (js ''repo has no src/coins/ directory''))" "ipTwinsNote p = None"
    if "buildPin b sha256 pr = ok p" for b pr p
    using that VT unfolding buildPin_def andThen_Inr_iff by (auto simp: noteOf_def js_def split: if_splits)
  note r = run [OF assms(1)] run [OF assms(2)]
  have get: "jm_get (ipTwins pin) f = (if f \<in> set VENDORED_TWIN_FILES then map_option sha256 (bytes f) else None)"
    "jm_get (ipTwins pin') f = (if f \<in> set VENDORED_TWIN_FILES then map_option sha256 (bytes' f) else None)" for f
    using hashed_files [OF r(2), of f] hashed_files [OF r(6), of f] by (simp_all only: jm.get_none)
  have coins: "jm_get (ipCoins pin) f = (if present \<and> f \<in> set COINS_FILES then map_option sha256 (bytes f) else None)" for f
    using r(1) hashed_files [of bytes sha256 COINS_FILES jm_empty "ipCoins pin" f] by (cases present) (simp_all only: if_True if_False simp_thms jm.get_none sum.inject)
  have coins': "jm_get (ipCoins pin') f = (if present' \<and> f \<in> set COINS_FILES then map_option sha256 (bytes' f) else None)" for f
    using r(5) hashed_files [of bytes' sha256 COINS_FILES jm_empty "ipCoins pin'" f] by (cases present') (simp_all only: if_True if_False simp_thms jm.get_none sum.inject)
  have "jm_get (ipTwins pin) = jm_get (ipTwins pin') \<longleftrightarrow> (\<forall>f \<in> set VENDORED_TWIN_FILES. map_option sha256 (bytes f) = map_option sha256 (bytes' f))"
    unfolding fun_eq_iff get by auto
  moreover have "jm_get (ipCoins pin) = jm_get (ipCoins pin') \<longleftrightarrow> (present \<longrightarrow> (\<forall>f \<in> set COINS_FILES. map_option sha256 (bytes f) = map_option sha256 (bytes' f)))"
    if "present = present'" unfolding fun_eq_iff coins coins' using that by auto
  moreover have "noteOf (ipCoinsNote pin) = noteOf (ipCoinsNote pin') \<longleftrightarrow> present = present'" unfolding r(3) r(7) by simp
  ultimately show ?thesis unfolding pinDifferences_def append_is_Nil_conv group_silent r(4) r(8) by auto
qed

end
