(* ===== verification/Spec2Isabelle.thy ===== *)
theory Spec2Isabelle
  imports GuardProperties PayloadProperties SizeProperties FeeProperties SettlementProperties SelectionProperties
    ValidatorProperties PayloadCheckProperties TrackerProperties PipelineProperties EnvelopeProperties ConnectorProperties ConcurrencyProperties
    InstanceLockProperties ServiceProperties LoggingProperties ReadinessProperties CoinRegistryProperties
    FrontDoorProperties MetricsProperties InstrumentationProperties WideAmounts ChainFamilies ReachabilityProperties SuiteTitlesProperties IdentityPin
begin

text \<open>
  \<^bold>\<open>The program.\<close> The XChain encoder is a JSON-RPC service that builds unsigned Bitcoin, Litecoin and Dogecoin
  transactions carrying a protocol action. A request passes the HTTP front door and the validator; \<open>create_tx\<close> then compiles
  the action, fetches the unspent outputs of the caller from the UTXO tracker, asks the coin node for its fee rates, cuts the
  payload into the outputs or scripts of one of five carriers (OP_RETURN, bare multisig, P2SH, P2WSH, the Taproot envelope),
  selects inputs, settles fee and change, and answers with a PSBT. The first input keys the obfuscation of the payload, so
  it is reserved before the payload is encoded; a guard in memory keeps two builds of the process off one output.

  \<^bold>\<open>Ground.\<close> \<open>Prelude\<close> holds the error values, the result type with its sequencing operator, and JavaScript's \<open>Map\<close> behind
  the interface \<open>js_map\<close> (with \<open>expiry_map\<close>, interpreted on association lists). \<open>JsNumber\<close> models doubles: \<open>fl\<close> rounds an
  exact rational to 53 bits, ties to even, and every float operation of the code is one \<open>fl\<close>. \<open>JsValue\<close> and \<open>Json\<close> hold JSON
  values, strings as UTF-16 units, and \<open>JSON.parse\<close>; \<open>Utf8\<close> reads the encoding of text back. \<open>Wire\<close> holds bytes, varints and
  pushes. An error the code types is a value with its exact code, a plain \<open>Error\<close> an \<open>InternalError\<close> with the constant start
  of its message. Code outside the repository (bitcoinjs-lib, AES, SHA-256, DEFLATE, address decoding, curve checks, express
  and its middleware) is an argument: the record \<open>lib\<close> or a function, with its documented laws as named hypotheses.

  \<^bold>\<open>The build\<close>, under \<open>src/src/XChainEncoder\<close> and \<open>src/src/XChainEncoder.js\<close>.
    \<^item> \<open>Reservations\<close> is \<open>outpoint_reservations.js\<close>: its four maps as a record, one definition per method. \<open>GuardMachine\<close>
      interleaves the operations of all calls, one per step, with the clock; its ghost field records which call owns which
      claim. \<open>ReservationFacts\<close> and \<open>GuardProperties\<close>: exclusion over every run, the duplicate window, tickets.
    \<^item> \<open>Payload\<close> is \<open>payload_encodings.js\<close> and \<open>payload_preparation.js\<close>; \<open>PayloadFacts\<close> and \<open>PayloadProperties\<close> read each
      carrier back. \<open>Sizes\<close> is \<open>tx_size_estimator.js\<close>, \<open>size_estimation.js\<close> and \<open>stripped_floor.js\<close>; \<open>SizeProperties\<close> compares
      the estimates with serialized sizes.
    \<^item> \<open>Coins\<close>, \<open>Fees\<close> and \<open>Build\<close> are what a build reads of its coin, \<open>fee_policy.js\<close>, and the state of a call (the
      record \<open>build\<close>, the object the steps pass on) with the constructor and \<open>fee_rates.js\<close>; \<open>FeeFacts\<close> and \<open>FeeProperties\<close>
      bound every rounding.
    \<^item> \<open>Emission\<close> is \<open>data_outputs.js\<close> and \<open>script_hash_legs.js\<close>; \<open>Selection\<close> is \<open>input_candidates.js\<close>,
      \<open>first_input_key.js\<close>, \<open>input_selection.js\<close> and their helpers; \<open>Settlement\<close> is \<open>fee_settlement.js\<close> and
      \<open>reveal_outputs.js\<close>. The theories \<open>EmissionFacts\<close>, \<open>SelectionFacts\<close>, \<open>SettlementFacts\<close> say step by step what changes.
    \<^item> \<open>PayloadChecks\<close> and \<open>Compression\<close> are \<open>payload_checks.js\<close> and \<open>src/src/build/compression.js\<close>; \<open>PayloadCheckProperties\<close>
      takes the payload from the request to the compiled script and back.
    \<^item> \<open>Pipeline\<close> is \<open>buildSteps\<close>, the response (\<open>build_result.js\<close>) and the entry point that owns the ledger of a call. At
      every await the guard may be changed by others: an argument gives the guard after it. \<open>PipelineFacts\<close> joins the phases,
      \<open>PipelineProperties\<close> and \<open>EnvelopeProperties\<close> hold what a whole build pays. \<open>EnvelopeCancel\<close> is \<open>envelope_cancel.js\<close>.

  \<^bold>\<open>The clients.\<close> \<open>Tracker\<close> is \<open>utxo_tracker.js\<close>, \<open>trackerless_profile.js\<close> and the freshness verdict; \<open>NodeRpc\<close> and
  \<open>FeeEstimate\<close> are \<open>blockchain_connector\<close> with the mempool package of unconfirmed inputs. What the network answers is a
  function of the call, so a property holds for every tracker and node. \<open>TrackerProperties\<close>, \<open>ConnectorProperties\<close>.

  \<^bold>\<open>The service.\<close> \<open>Validator\<close> is \<open>src/src/common/validator\<close>; \<open>Service\<close> the methods of \<open>json_rpc_methods.js\<close>; \<open>FrontDoor\<close> the
  middleware of \<open>api.js\<close> in its order; \<open>ConcurrencyGate\<close> and \<open>InstanceLock\<close> the state machines of \<open>src/src/server\<close>, the latter
  one file-system call a step; \<open>Readiness\<close> the probe and the maintenance window; \<open>Logging\<close>, \<open>LogShipper\<close>, \<open>Metrics\<close> and
  \<open>Instrumentation\<close> the observability; \<open>WideAmounts\<close> the 64-bit amounts of the buffer patch; \<open>CoinData\<close> and \<open>CoinRegistry\<close> the coin files as data,
  the registry over them and its consensus pin; \<open>ChainFamilies\<close> the adapters. Each has its \<open>Properties\<close> theory or closes with
  its theorem.

  \<^bold>\<open>The tooling.\<close> \<open>Reachability\<close>, \<open>SuiteTitles\<close> and \<open>IdentityPin\<close> are the scripts of \<open>src/bin\<close> a restructuring of the
  repository relies on: which files may be deleted, whether a test title was lost, whether a vendored file changed.
\<close>

text \<open>
  \<^bold>\<open>Kinds of result.\<close> Safety over every interleaving (the guard, the lock of a host, the concurrency gate); conservation of value
  through settlement and over a whole build; bounds of estimates against serialized sizes and of fees through every rounding;
  round trips of payloads, amounts, tickets and canonical text; refinement of the ancestor package to the set of unconfirmed
  transactions behind the inputs; and what a rejected or failed call leaves behind. A theorem with hypotheses is applied by its
  \<open>_witness\<close> to a concrete case; \<open>Instances\<close>, \<open>PipelineInstances\<close> and \<open>CancelInstances\<close> hold the values.

  \<^bold>\<open>Fuel and termination.\<close> The only fuel is that of the JSON parser, twice the length of the text and one more: a recursive
  call has consumed a unit, and \<open>jsonParse_fuel\<close> shows that more changes nothing. Paging stops at 1000 pages as the code does
  (\<open>fetch_bounded\<close>). Every other loop recurses on its data, or has its measure beside it.

  \<^bold>\<open>Not modelled.\<close>
    \<^item> Payload inputs that arrive as a \<open>Buffer\<close> rather than as text: the RPC surface hands on JSON, which has none.
    \<^item> Log lines of the build and of the node client: they decide nothing. The log records themselves are \<open>Logging\<close>.
    \<^item> Booting \<open>api.js\<close> (reading \<open>.env\<close>, mounting express, listening), the crash and signal handlers, which log, call the
      release of the lock and exit, and the packages helmet, cors, body-parser and express-rate-limit. What a package decides of
      a request is an argument of \<open>FrontDoor\<close>.
    \<^item> The HTTP transport of a log batch, the default process metrics and the reordering of the express stack in
      \<open>src/src/observability\<close>: calls into Node around the modelled state.
    \<^item> The wrappers of \<open>src/src/build/apply_bufferutils_patch\<close> that turn \<open>Uint8Array\<close> into \<open>Buffer\<close>: bytes have one type here.
    \<^item> \<open>src/bin/sibling-reference-map.js\<close>, a text sweep with regular expressions over checkouts beside this one, whose verdict
      \<open>Reachability\<close> takes as an argument; argument parsing and printing of the scripts; the shell scripts and the document
      generator.
    \<^item> Properties inherited from \<open>Object.prototype\<close>, and the special order of integer-like names in an object.
\<close>

end
